(* ===== verification/Prelude.thy ===== *)
theory Prelude
  imports
    Main
    "HOL-Library.Word"
    "HOL-Library.Char_ord"
    "HOL-Library.List_Lexorder"
    "HOL-Library.Product_Lexorder"
begin

text \<open>
  Shared vocabulary of the development: Go errors as values, the state-and-error
  action type in which every operation that touches a store is written, the
  fragment of Go's \<^verbatim>\<open>strings\<close> and \<^verbatim>\<open>sort\<close> packages the sources use, the
  ``first occurrence'' loops that several components repeat, and the lemma
  collections the component theories extend.
\<close>

named_theorems action_simps "equations that run a composed action"
named_theorems action_cases "elimination of a successful composed action"

section \<open>Go errors\<close>

text \<open>
  The package-level \<^verbatim>\<open>errors.New\<close> values the modelled code compares with
  \<^verbatim>\<open>errors.Is\<close>. Two of them may carry the same text (finance and persistence both
  say ``transaction not found''), so they are distinguished by name, not by text.
  \<open>DatabaseUniqueViolation\<close> stands for the database's own error when a row breaks a
  uniqueness constraint, \<open>DatabaseValueOutOfRange\<close> for the driver's when an aggregate does
  not fit the Go integer it is read into.
\<close>

datatype (plugins only: code size) sentinel =
    ErrInvalidProviderSyncStateWindow
  | ErrInvalidProviderSyncTargetWindow
  | ErrInvalidRequestedWindow
  | ErrConnectorIDRequired
  | ErrConnectorNotConfigured
  | ErrProviderIDRequired
  | ErrProviderNotConfigured
  | ErrInvalidTimestampRange
  | ErrTenantAccessDenied
  | ErrAccountNotFound
  | ErrCategoryNotFound
  | ErrTransactionNotFound
  | ErrHiddenAccount
  | ErrDuplicateTagID
  | ErrTagNotAssignable
  | ErrInvalidTransferPair
  | ErrTransferNotLinked
  | ErrInvalidTransactionListLimit
  | ErrInvalidCashFlowInclusion
  | PersistenceErrBankConnectionNotFound
  | PersistenceErrAccountNotFound
  | PersistenceErrCategoryNotFound
  | PersistenceErrTagNotFound
  | PersistenceErrTransactionNotFound
  | PersistenceErrDuplicateTransactionTag
  | ErrInvalidTransferCandidateQuery
  | ErrTransferPartnerNotFound
  | ErrInvalidTransferPartner
  | ErrTransferPairTransactionIDsMustDiffer
  | ErrTransferPairTransactionNotFound
  | ContextCanceled
  | GormErrRecordNotFound
  | ErrInviteNotFound
  | ErrInviteAccepted
  | ErrInvalidTenantDisplayCurrency
  | ErrTagNotFound
  | ErrInvalidClassificationRule
  | ErrClassificationRuleNotFound
  | ErrCategoryReferencedByClassificationRules
  | ErrTagReferencedByClassificationRules
  | ErrFXProviderNotImplemented
  | ErrInvalidCashFlowGrouping
  | PersistenceErrTenantInviteNotFound
  | PersistenceErrClassificationRuleNotFound
  | PersistenceErrTagReferencedByClassificationRules
  | ErrJobNotFound
  | ErrJobNotQueued
  | ErrJobClaimLost
  | ErrHandlerNotRegistered
  | ErrDuplicateMessageID
  | ErrPublicationConflict
  | ErrInvalidCommandRequesterSource
  | ErrBankConnectionNotFound
  | PersistenceErrBankConnectionScheduleNotFound
  | PersistenceErrFXRefreshScheduleNotFound
  | PersistenceErrConnectionSecretNotFound
  | ContextDeadlineExceeded
  | DatabaseValueOutOfRange
  | DatabaseUniqueViolation

text \<open>
  \<open>Errorf\<close> is an error with a text and no sentinel; \<open>Wrap p e\<close> is
  \<^verbatim>\<open>fmt.Errorf("p: %w", e)\<close>; \<open>WrapSuffix e s\<close> is \<^verbatim>\<open>fmt.Errorf("%w: s", e)\<close>;
  \<open>WrapBoth d e\<close> is \<^verbatim>\<open>fmt.Errorf("%w: %w", d, e)\<close>; \<open>Joined\<close> is \<^verbatim>\<open>errors.Join\<close> of two
  errors. The rest are the error structs of the repository: \<open>TerminalFailure\<close> (\<^verbatim>\<open>finance/terminal_failure.go\<close>) and \<open>BusinessFailure\<close>
  (\<^verbatim>\<open>appdispatch/failure.go\<close>) with their cause, code, summary and details, and
  \<open>ReferencedByRules\<close>, an error that is a sentinel and carries the ids of rules, and
  \<open>NotFoundError\<close> (\<^verbatim>\<open>internal/app/errors.go\<close>) with a resource and its id, and
  \<open>ProviderResponseError\<close> (\<^verbatim>\<open>finance/provider_response_error.go\<close>) with the provider, the
  operation, the HTTP status, the provider's code and its message.
\<close>

datatype go_error =
    Sentinel sentinel
  | Errorf string
  | Wrap string go_error
  | WrapSuffix go_error string
  | WrapBoth go_error go_error
  | Joined go_error go_error
  | TerminalFailure go_error string string string
  | BusinessFailure go_error string string string
  | ReferencedByRules sentinel "string list"
  | NotFoundError string string
  | ProviderResponseError string string int string string

fun errors_is :: "go_error \<Rightarrow> sentinel \<Rightarrow> bool" where
  "errors_is (Sentinel s) t = (s = t)"
| "errors_is (Errorf _) t = False"
| "errors_is (Wrap _ e) t = errors_is e t"
| "errors_is (WrapSuffix e _) t = errors_is e t"
| "errors_is (WrapBoth d e) t = (errors_is d t \<or> errors_is e t)"
| "errors_is (Joined d e) t = (errors_is d t \<or> errors_is e t)"
| "errors_is (TerminalFailure e _ _ _) t = errors_is e t"
| "errors_is (BusinessFailure e _ _ _) t = errors_is e t"
| "errors_is (ReferencedByRules s _) t = (s = t)"
| "errors_is (NotFoundError _ _) t = False"
| "errors_is (ProviderResponseError _ _ _ _ _) t = False"

text \<open>\<^verbatim>\<open>%d\<close> of an integer.\<close>

fun formatNat :: "nat \<Rightarrow> string" where
  "formatNat n = (if n < 10 then [char_of (48 + n)] else formatNat (n div 10) @ [char_of (48 + n mod 10)])"

declare formatNat.simps [simp del]

definition formatInt :: "int \<Rightarrow> string" where
  "formatInt v = (if v < 0 then CHR ''-'' # formatNat (nat (- v)) else formatNat (nat v))"

text \<open>
  \<^verbatim>\<open>err.Error()\<close>. The text of the database's own constraint error is not in the
  repository; it is the argument \<open>constraintText\<close>.
\<close>

primrec sentinel_text :: "string \<Rightarrow> sentinel \<Rightarrow> string" where
  "sentinel_text constraintText ErrInvalidProviderSyncStateWindow = ''invalid provider sync state window''"
| "sentinel_text constraintText ErrInvalidProviderSyncTargetWindow = ''invalid provider sync target window''"
| "sentinel_text constraintText ErrInvalidRequestedWindow = ''invalid requested window''"
| "sentinel_text constraintText ErrConnectorIDRequired = ''connector id is required''"
| "sentinel_text constraintText ErrConnectorNotConfigured = ''connector not configured''"
| "sentinel_text constraintText ErrProviderIDRequired = ''provider id is required''"
| "sentinel_text constraintText ErrProviderNotConfigured = ''provider not configured''"
| "sentinel_text constraintText ErrInvalidTimestampRange = ''invalid timestamp range''"
| "sentinel_text constraintText ErrTenantAccessDenied = ''tenant access denied''"
| "sentinel_text constraintText ErrAccountNotFound = ''account not found''"
| "sentinel_text constraintText ErrCategoryNotFound = ''category not found''"
| "sentinel_text constraintText ErrTransactionNotFound = ''transaction not found''"
| "sentinel_text constraintText ErrHiddenAccount = ''account is hidden''"
| "sentinel_text constraintText ErrDuplicateTagID = ''duplicate tag id''"
| "sentinel_text constraintText ErrTagNotAssignable = ''tag is not assignable''"
| "sentinel_text constraintText ErrInvalidTransferPair = ''invalid transfer pair''"
| "sentinel_text constraintText ErrTransferNotLinked = ''transfer pair is not linked''"
| "sentinel_text constraintText ErrInvalidTransactionListLimit = ''invalid transaction list limit''"
| "sentinel_text constraintText ErrInvalidCashFlowInclusion = ''invalid cash flow inclusion''"
| "sentinel_text constraintText PersistenceErrBankConnectionNotFound = ''bank connection not found''"
| "sentinel_text constraintText PersistenceErrAccountNotFound = ''account not found''"
| "sentinel_text constraintText PersistenceErrCategoryNotFound = ''category not found''"
| "sentinel_text constraintText PersistenceErrTagNotFound = ''tag not found''"
| "sentinel_text constraintText PersistenceErrTransactionNotFound = ''transaction not found''"
| "sentinel_text constraintText PersistenceErrDuplicateTransactionTag = ''duplicate transaction tag''"
| "sentinel_text constraintText ErrInvalidTransferCandidateQuery = ''invalid transfer candidate query''"
| "sentinel_text constraintText ErrTransferPartnerNotFound = ''transfer partner not found''"
| "sentinel_text constraintText ErrInvalidTransferPartner = ''invalid transfer partner''"
| "sentinel_text constraintText ErrTransferPairTransactionIDsMustDiffer = ''transfer pair transaction IDs must differ''"
| "sentinel_text constraintText ErrTransferPairTransactionNotFound = ''transfer pair transaction not found''"
| "sentinel_text constraintText ContextCanceled = ''context canceled''"
| "sentinel_text constraintText GormErrRecordNotFound = ''record not found''"
| "sentinel_text constraintText ErrInviteNotFound = ''tenant invite not found''"
| "sentinel_text constraintText ErrInviteAccepted = ''tenant invite already accepted''"
| "sentinel_text constraintText ErrInvalidTenantDisplayCurrency = ''tenant display currency is invalid or unsupported''"
| "sentinel_text constraintText ErrTagNotFound = ''tag not found''"
| "sentinel_text constraintText ErrInvalidClassificationRule = ''invalid classification rule''"
| "sentinel_text constraintText ErrClassificationRuleNotFound = ''classification rule not found''"
| "sentinel_text constraintText ErrCategoryReferencedByClassificationRules = ''category referenced by classification rules''"
| "sentinel_text constraintText ErrTagReferencedByClassificationRules = ''tag referenced by classification rules''"
| "sentinel_text constraintText ErrFXProviderNotImplemented = ''fx provider not implemented''"
| "sentinel_text constraintText ErrInvalidCashFlowGrouping = ''invalid cash-flow grouping''"
| "sentinel_text constraintText PersistenceErrTenantInviteNotFound = ''tenant invite not found''"
| "sentinel_text constraintText PersistenceErrClassificationRuleNotFound = ''classification rule not found''"
| "sentinel_text constraintText PersistenceErrTagReferencedByClassificationRules = ''tag referenced by classification rules''"
| "sentinel_text constraintText ErrJobNotFound = ''job not found''"
| "sentinel_text constraintText ErrJobNotQueued = ''job is not queued''"
| "sentinel_text constraintText ErrJobClaimLost = ''job claim is no longer active''"
| "sentinel_text constraintText ErrHandlerNotRegistered = ''job handler not registered''"
| "sentinel_text constraintText ErrDuplicateMessageID = ''duplicate app dispatch message id''"
| "sentinel_text constraintText ErrPublicationConflict = ''app dispatch publication conflict''"
| "sentinel_text constraintText ErrInvalidCommandRequesterSource = ''finance command requester source is invalid''"
| "sentinel_text constraintText ErrBankConnectionNotFound = ''bank connection not found''"
| "sentinel_text constraintText PersistenceErrBankConnectionScheduleNotFound = ''bank connection schedule not found''"
| "sentinel_text constraintText PersistenceErrFXRefreshScheduleNotFound = ''fx refresh schedule not found''"
| "sentinel_text constraintText PersistenceErrConnectionSecretNotFound = ''connection secret not found''"
| "sentinel_text constraintText ContextDeadlineExceeded = ''context deadline exceeded''"
| "sentinel_text constraintText DatabaseUniqueViolation = constraintText"
| "sentinel_text constraintText DatabaseValueOutOfRange = constraintText"

fun error_text :: "string \<Rightarrow> go_error \<Rightarrow> string" where
  "error_text constraintText (Sentinel s) = sentinel_text constraintText s"
| "error_text constraintText (Errorf s) = s"
| "error_text constraintText (Wrap p e) = p @ '': '' @ error_text constraintText e"
| "error_text constraintText (WrapSuffix e s) = error_text constraintText e @ '': '' @ s"
| "error_text constraintText (WrapBoth d e) =
     error_text constraintText d @ '': '' @ error_text constraintText e"
| "error_text constraintText (Joined d e) =
     error_text constraintText d @ [CHR 0x0A] @ error_text constraintText e"
| "error_text constraintText (TerminalFailure e _ _ _) = error_text constraintText e"
| "error_text constraintText (BusinessFailure e _ _ _) = error_text constraintText e"
| "error_text constraintText (ReferencedByRules s _) = sentinel_text constraintText s"
| "error_text constraintText (NotFoundError resource resourceID) = resource @ '' not found: '' @ resourceID"
| "error_text constraintText (ProviderResponseError provider operation status code message) =
     provider @ '' '' @ operation @ '' failed with status '' @ formatInt status @ '': '' @ message"

section \<open>Actions: a state, an error or a result\<close>

type_synonym ('s, 'a) action = "'s \<Rightarrow> (go_error + 'a) \<times> 's"

definition returnA :: "'a \<Rightarrow> ('s, 'a) action" where
  "returnA a = (\<lambda>s. (Inr a, s))"

definition failA :: "go_error \<Rightarrow> ('s, 'a) action" where
  "failA e = (\<lambda>s. (Inl e, s))"

text \<open>
  \<open>bindA m f\<close> is the Go idiom \<^verbatim>\<open>x, err := m; if err != nil { return err }; f(x)\<close>:
  an error leaves at once and keeps whatever \<open>m\<close> did to the state.
\<close>

definition bindA :: "('s, 'a) action \<Rightarrow> ('a \<Rightarrow> ('s, 'b) action) \<Rightarrow> ('s, 'b) action" where
  "bindA m f = (\<lambda>s. case m s of (Inl e, s') \<Rightarrow> (Inl e, s') | (Inr a, s') \<Rightarrow> f a s')"

text \<open>\<open>mapErrA g m\<close> is \<^verbatim>\<open>if err != nil { return g(err) }\<close>.\<close>

definition mapErrA :: "(go_error \<Rightarrow> go_error) \<Rightarrow> ('s, 'a) action \<Rightarrow> ('s, 'a) action" where
  "mapErrA g m = (\<lambda>s. case m s of (Inl e, s') \<Rightarrow> (Inl (g e), s') | (Inr a, s') \<Rightarrow> (Inr a, s'))"

abbreviation wrapA :: "string \<Rightarrow> ('s, 'a) action \<Rightarrow> ('s, 'a) action" where
  "wrapA msg m \<equiv> mapErrA (Wrap msg) m"

text \<open>A value that cannot fail, read from and changing the state (a clock, a generator).\<close>

definition liftA :: "('s \<Rightarrow> 'a \<times> 's) \<Rightarrow> ('s, 'a) action" where
  "liftA g = (\<lambda>s. case g s of (a, s') \<Rightarrow> (Inr a, s'))"

definition resultA :: "go_error + 'a \<Rightarrow> ('s, 'a) action" where
  "resultA r = (\<lambda>s. (r, s))"

lemma returnA_run [simp, action_simps]: "returnA a s = (Inr a, s)"
  by (simp add: returnA_def)

lemma failA_run [simp, action_simps]: "failA e s = (Inl e, s)"
  by (simp add: failA_def)

lemma resultA_run [simp, action_simps]: "resultA r s = (r, s)"
  by (simp add: resultA_def)

lemma liftA_run [action_simps]: "liftA g s = (Inr (fst (g s)), snd (g s))"
  by (simp add: liftA_def split: prod.splits)

lemma bindA_run [action_simps]:
  "bindA m f s = (case m s of (Inl e, s') \<Rightarrow> (Inl e, s') | (Inr a, s') \<Rightarrow> f a s')"
  by (simp add: bindA_def)

lemma mapErrA_run [action_simps]:
  "mapErrA g m s = (case m s of (Inl e, s') \<Rightarrow> (Inl (g e), s') | (Inr a, s') \<Rightarrow> (Inr a, s'))"
  by (simp add: mapErrA_def)

lemma bindA_Inr: "bindA m f s = (Inr b, t) \<longleftrightarrow> (\<exists>a u. m s = (Inr a, u) \<and> f a u = (Inr b, t))"
  by (auto simp: bindA_def split: prod.splits sum.splits)

lemma bindA_Inl:
  "bindA m f s = (Inl e, t) \<longleftrightarrow> m s = (Inl e, t) \<or> (\<exists>a u. m s = (Inr a, u) \<and> f a u = (Inl e, t))"
  by (auto simp: bindA_def split: prod.splits sum.splits)

lemma mapErrA_Inl: "mapErrA g m s = (Inl e, t) \<longleftrightarrow> (\<exists>e'. m s = (Inl e', t) \<and> e = g e')"
  by (auto simp: mapErrA_def split: prod.splits sum.splits)

lemma bindA_InrE [action_cases, elim]:
  assumes "bindA m f s = (Inr b, t)"
  obtains a u where "m s = (Inr a, u)" "f a u = (Inr b, t)"
  using assms by (auto simp: bindA_Inr)

lemma mapErrA_Inr [simp]: "mapErrA g m s = (Inr a, t) \<longleftrightarrow> m s = (Inr a, t)"
  by (auto simp: mapErrA_def split: prod.splits sum.splits)

lemma liftA_Inr: "liftA g s = (Inr a, t) \<longleftrightarrow> g s = (a, t)"
  by (auto simp: liftA_def split: prod.splits)

lemma resultA_Inr [simp]: "resultA r s = (Inr a, t) \<longleftrightarrow> r = Inr a \<and> s = t"
  by (auto simp: resultA_def)

lemma returnA_Inr [simp]: "returnA a s = (Inr b, t) \<longleftrightarrow> a = b \<and> s = t"
  by (auto simp: returnA_def)

lemma failA_Inr [simp]: "failA e s \<noteq> (Inr b, t)"
  by (simp add: failA_def)

subsection \<open>What an action leaves alone\<close>

text \<open>
  \<open>preserves P m\<close>: \<open>m\<close> keeps \<open>P\<close>, whether it succeeds or fails. The rules
  below are what the frame proofs of the component theories are made of.
\<close>

definition preserves :: "('s \<Rightarrow> bool) \<Rightarrow> ('s, 'a) action \<Rightarrow> bool" where
  "preserves P m \<longleftrightarrow> (\<forall>s. P s \<longrightarrow> P (snd (m s)))"

named_theorems preserves_rules "introduction rules for preserves"

lemma preservesI: "(\<And>s. P s \<Longrightarrow> P (snd (m s))) \<Longrightarrow> preserves P m"
  by (simp add: preserves_def)

lemma preservesD: "preserves P m \<Longrightarrow> P s \<Longrightarrow> m s = (r, t) \<Longrightarrow> P t"
  by (auto simp: preserves_def)

lemma preserves_return [preserves_rules]: "preserves P (returnA a)"
  by (simp add: preserves_def)

lemma preserves_fail [preserves_rules]: "preserves P (failA e)"
  by (simp add: preserves_def)

lemma preserves_result [preserves_rules]: "preserves P (resultA r)"
  by (simp add: preserves_def)

lemma preserves_Pair [simp]: "preserves P (Pair r)"
  by (simp add: preserves_def)

lemma preserves_bind [preserves_rules]:
  "preserves P m \<Longrightarrow> (\<And>a. preserves P (f a)) \<Longrightarrow> preserves P (bindA m f)"
  by (fastforce simp: preserves_def bindA_def split: prod.splits sum.splits)

lemma preserves_mapErr [preserves_rules]: "preserves P m \<Longrightarrow> preserves P (mapErrA g m)"
  by (fastforce simp: preserves_def mapErrA_def split: prod.splits sum.splits)

lemma preserves_if [preserves_rules]:
  "(b \<Longrightarrow> preserves P m) \<Longrightarrow> (\<not> b \<Longrightarrow> preserves P n) \<Longrightarrow> preserves P (if b then m else n)"
  by simp

lemma preserves_option [preserves_rules]:
  "preserves P m \<Longrightarrow> (\<And>a. preserves P (f a)) \<Longrightarrow>
   preserves P (case x of None \<Rightarrow> m | Some a \<Rightarrow> f a)"
  by (cases x) auto

section \<open>Strings\<close>

text \<open>
  A Go string is a sequence of bytes; it is a \<open>string\<close> whose characters are those
  bytes. \<open>go_spaces\<close> lists the UTF-8 encodings of the code points
  \<^verbatim>\<open>unicode.IsSpace\<close> accepts, so \<open>TrimSpace\<close> is exact on every byte string.
\<close>

definition char_of_byte :: "nat \<Rightarrow> char" where
  "char_of_byte n = char_of n"

definition go_spaces :: "string list" where
  "go_spaces =
     map (map char_of_byte)
      ([[9], [10], [11], [12], [13], [32], [194, 133], [194, 160], [225, 154, 128]]
       @ map (\<lambda>b. [226, 128, b]) ([128..<139] @ [168, 169, 175])
       @ [[226, 129, 159], [227, 128, 128]])"

lemma go_spaces_code [code]:
  "go_spaces =
     [[CHR 0x09], [CHR 0x0A], [CHR 0x0B], [CHR 0x0C], [CHR 0x0D], [CHR 0x20], [CHR 0xC2, CHR 0x85],
      [CHR 0xC2, CHR 0xA0], [CHR 0xE1, CHR 0x9A, CHR 0x80], [CHR 0xE2, CHR 0x80, CHR 0x80],
      [CHR 0xE2, CHR 0x80, CHR 0x81], [CHR 0xE2, CHR 0x80, CHR 0x82],
      [CHR 0xE2, CHR 0x80, CHR 0x83], [CHR 0xE2, CHR 0x80, CHR 0x84],
      [CHR 0xE2, CHR 0x80, CHR 0x85], [CHR 0xE2, CHR 0x80, CHR 0x86],
      [CHR 0xE2, CHR 0x80, CHR 0x87], [CHR 0xE2, CHR 0x80, CHR 0x88],
      [CHR 0xE2, CHR 0x80, CHR 0x89], [CHR 0xE2, CHR 0x80, CHR 0x8A],
      [CHR 0xE2, CHR 0x80, CHR 0xA8], [CHR 0xE2, CHR 0x80, CHR 0xA9],
      [CHR 0xE2, CHR 0x80, CHR 0xAF], [CHR 0xE2, CHR 0x81, CHR 0x9F],
      [CHR 0xE3, CHR 0x80, CHR 0x80]]"
  by (simp add: go_spaces_def char_of_byte_def upt_rec char_of_def bit_iff_odd)

fun stripPrefix :: "string \<Rightarrow> string \<Rightarrow> string option" where
  "stripPrefix [] s = Some s"
| "stripPrefix (c # p) [] = None"
| "stripPrefix (c # p) (d # s) = (if c = d then stripPrefix p s else None)"

definition hasPrefix :: "string \<Rightarrow> string \<Rightarrow> bool" where
  "hasPrefix s p = (stripPrefix p s \<noteq> None)"

lemma stripPrefix_Some_iff: "stripPrefix p s = Some r \<longleftrightarrow> s = p @ r"
  by (induction p s rule: stripPrefix.induct) auto

lemma stripPrefix_append [simp]: "stripPrefix p (p @ r) = Some r"
  by (simp add: stripPrefix_Some_iff)

fun stripFirst :: "string list \<Rightarrow> string \<Rightarrow> string option" where
  "stripFirst [] s = None"
| "stripFirst (p # ps) s = (case stripPrefix p s of Some r \<Rightarrow> Some r | None \<Rightarrow> stripFirst ps s)"

lemma stripFirst_Some: "stripFirst ps s = Some r \<Longrightarrow> \<exists>p \<in> set ps. s = p @ r"
  by (induction ps) (auto simp: stripPrefix_Some_iff split: option.splits)

lemma go_spaces_nonempty: "p \<in> set go_spaces \<Longrightarrow> p \<noteq> []"
  by (auto simp: go_spaces_def)

text \<open>Repeatedly drop a leading element of \<open>ps\<close>; every step shortens the string.\<close>

function trimLeftSet :: "string list \<Rightarrow> string \<Rightarrow> string" where
  "trimLeftSet ps s =
     (case stripFirst ps s of
        None \<Rightarrow> s
      | Some r \<Rightarrow> if length r < length s then trimLeftSet ps r else s)"
  by pat_completeness auto
termination
  by (relation "measure (\<lambda>(ps, s). length s)") auto

declare trimLeftSet.simps [simp del]

definition TrimSpace :: "string \<Rightarrow> string" where
  "TrimSpace s = rev (trimLeftSet (map rev go_spaces) (rev (trimLeftSet go_spaces s)))"

text \<open>
  \<^verbatim>\<open>strings.ToUpper\<close> on ASCII letters; the currency codes it is applied to are ASCII,
  and bytes outside \<open>a\<close>--\<open>z\<close> are left unchanged.
\<close>

definition upper_char :: "char \<Rightarrow> char" where
  "upper_char c = (if 97 \<le> (of_char c :: nat) \<and> (of_char c :: nat) \<le> 122
                   then char_of ((of_char c :: nat) - 32) else c)"

definition ToUpper :: "string \<Rightarrow> string" where
  "ToUpper s = map upper_char s"

definition lower_char :: "char \<Rightarrow> char" where
  "lower_char c = (if 65 \<le> (of_char c :: nat) \<and> (of_char c :: nat) \<le> 90
                   then char_of ((of_char c :: nat) + 32) else c)"

text \<open>
  \<^verbatim>\<open>strings.ToLower\<close>, exact on the ASCII part of its result: two code points outside
  ASCII have a lower case inside it, U+0130 (bytes 196 176, lower case \<open>i\<close>) and U+212A
  (bytes 226 132 170, lower case \<open>k\<close>). Other non-ASCII bytes are left as they are.
\<close>

fun ToLower :: "string \<Rightarrow> string" where
  "ToLower [] = []"
| "ToLower (c # s) =
     (case stripPrefix (map char_of_byte [196, 176]) (c # s) of
        Some r \<Rightarrow> CHR ''i'' # (if length r \<le> length s then ToLower r else [])
      | None \<Rightarrow>
          (case stripPrefix (map char_of_byte [226, 132, 170]) (c # s) of
             Some r \<Rightarrow> CHR ''k'' # (if length r \<le> length s then ToLower r else [])
           | None \<Rightarrow> lower_char c # ToLower s))"

fun containsString :: "string \<Rightarrow> string \<Rightarrow> bool" where
  "containsString [] p = (p = [])"
| "containsString (c # s) p = (hasPrefix (c # s) p \<or> containsString s p)"

text \<open>\<^verbatim>\<open>%q\<close>, exact for printable ASCII.\<close>

definition quotedText :: "string \<Rightarrow> string" where
  "quotedText s = [CHR 0x22] @
     concat (map (\<lambda>c. if c = CHR 0x22 \<or> c = CHR 0x5C then [CHR 0x5C, c] else [c]) s) @ [CHR 0x22]"

section \<open>Loops that keep the first occurrence of a key\<close>

text \<open>
  The sources repeat one loop: walk a slice with a \<^verbatim>\<open>seen\<close> map, skip an element whose
  key was met before, append the rest. \<open>first_seen key seen xs\<close> is that loop.
\<close>

fun first_seen :: "('a \<Rightarrow> 'k) \<Rightarrow> 'k list \<Rightarrow> 'a list \<Rightarrow> 'a list" where
  "first_seen key seen [] = []"
| "first_seen key seen (x # xs) =
     (if key x \<in> set seen then first_seen key seen xs
      else x # first_seen key (key x # seen) xs)"

lemma set_first_seen_subset: "set (first_seen key seen xs) \<subseteq> set xs"
  by (induction xs arbitrary: seen) auto

lemma first_seen_fresh: "x \<in> set (first_seen key seen xs) \<Longrightarrow> key x \<notin> set seen"
  by (induction xs arbitrary: seen) (fastforce split: if_splits)+

lemma distinct_first_seen: "distinct (map key (first_seen key seen xs))"
  by (induction xs arbitrary: seen) (auto dest: first_seen_fresh)

lemma keys_first_seen: "key ` set (first_seen key seen xs) = key ` set xs - set seen"
  by (induction xs arbitrary: seen) auto

lemma first_seen_disjoint: "set seen \<inter> set (map key (first_seen key seen xs)) = {}"
  by (simp add: keys_first_seen)

lemma first_seen_id: "distinct (map key xs) \<Longrightarrow> key ` set xs \<inter> set seen = {} \<Longrightarrow> first_seen key seen xs = xs"
  by (induction xs arbitrary: seen) auto

section \<open>Binary search\<close>

text \<open>Go's \<^verbatim>\<open>sort.Search(n, f)\<close>, with its two indices and its midpoint.\<close>

function search_between :: "(nat \<Rightarrow> bool) \<Rightarrow> nat \<Rightarrow> nat \<Rightarrow> nat" where
  "search_between f i j =
     (if i < j then
        (let h = (i + j) div 2
         in if \<not> f h then search_between f (h + 1) j else search_between f i h)
      else i)"
  by pat_completeness auto
termination
  by (relation "measure (\<lambda>(f, i, j). j - i)") auto

declare search_between.simps [simp del]

definition sort_Search :: "nat \<Rightarrow> (nat \<Rightarrow> bool) \<Rightarrow> nat" where
  "sort_Search n f = search_between f 0 n"

lemma search_between_least:
  assumes "i \<le> j" and "\<And>k l. k \<le> l \<Longrightarrow> l < n \<Longrightarrow> f k \<Longrightarrow> f l" and "j \<le> n"
    and "\<And>k. k < i \<Longrightarrow> \<not> f k" and "\<And>k. j \<le> k \<Longrightarrow> k < n \<Longrightarrow> f k"
  shows "search_between f i j \<le> n \<and> (\<forall>k < search_between f i j. \<not> f k) \<and>
         (\<forall>k. search_between f i j \<le> k \<longrightarrow> k < n \<longrightarrow> f k)"
  using assms
proof (induction f i j rule: search_between.induct)
  case (1 f i j)
  show ?case
  proof (cases "i < j")
    case False
    then have "search_between f i j = i" by (simp add: search_between.simps [of f i j])
    with False "1.prems" show ?thesis by auto
  next
    case True
    define h where "h = (i + j) div 2"
    have h: "i \<le> h" "h < j" using True by (auto simp: h_def)
    show ?thesis
    proof (cases "f h")
      case False
      have lo: "\<not> f k" if "k < h + 1" for k
        using "1.prems"(2) [of k h] that False h "1.prems"(3) by auto
      have "search_between f i j = search_between f (h + 1) j"
        using True False by (simp add: search_between.simps [of f i j] h_def Let_def)
      then show ?thesis
        using "1.IH"(1) [OF True h_def False] h "1.prems" lo by simp
    next
      case fh: True
      have hi: "f k" if "h \<le> k" "k < n" for k
        using "1.prems"(2) [of h k] that fh by auto
      have "search_between f i j = search_between f i h"
        using True fh by (simp add: search_between.simps [of f i j] h_def Let_def)
      then show ?thesis
        using "1.IH"(2) [OF True h_def] fh h "1.prems" hi by simp
    qed
  qed
qed

lemma sort_Search_least:
  assumes "\<And>k l. k \<le> l \<Longrightarrow> l < n \<Longrightarrow> f k \<Longrightarrow> f l"
  shows "sort_Search n f \<le> n" "\<And>k. k < sort_Search n f \<Longrightarrow> \<not> f k"
    "\<And>k. sort_Search n f \<le> k \<Longrightarrow> k < n \<Longrightarrow> f k"
  using search_between_least [of 0 n n f] assms unfolding sort_Search_def by auto

text \<open>
  On a slice sorted by a key, dropping the indices before \<^verbatim>\<open>sort.Search\<close> of a threshold
  is keeping the elements that reach it.
\<close>

lemma drop_sort_Search:
  fixes key :: "'a \<Rightarrow> 'k::linorder"
  assumes "sorted (map key xs)"
  shows "drop (sort_Search (length xs) (\<lambda>i. \<not> key (xs ! i) < a)) xs = filter (\<lambda>x. a \<le> key x) xs"
proof -
  define m where "m = sort_Search (length xs) (\<lambda>i. \<not> key (xs ! i) < a)"
  have mono: "\<not> key (xs ! i) < a \<Longrightarrow> \<not> key (xs ! j) < a" if "i \<le> j" "j < length xs" for i j
    using sorted_nth_mono [OF assms, of i j] that by (auto simp: not_less intro: order_trans)
  have search: "search_between (\<lambda>i. \<not> key (xs ! i) < a) 0 (length xs) = m"
    by (simp add: m_def sort_Search_def)
  have "m \<le> length xs \<and> (\<forall>i < m. \<not> \<not> key (xs ! i) < a) \<and>
      (\<forall>i. m \<le> i \<longrightarrow> i < length xs \<longrightarrow> \<not> key (xs ! i) < a)"
    unfolding search [symmetric] by (rule search_between_least) (use mono in auto)
  then have m: "m \<le> length xs" "\<And>i. i < m \<Longrightarrow> key (xs ! i) < a"
    "\<And>i. m \<le> i \<Longrightarrow> i < length xs \<Longrightarrow> a \<le> key (xs ! i)"
    by (auto simp: not_less)
  have "\<forall>x \<in> set (take m xs). key x < a"
    using m(1,2) by (auto simp: in_set_conv_nth)
  then have tk: "filter (\<lambda>x. a \<le> key x) (take m xs) = []"
    by (simp add: filter_empty_conv not_le)
  have "a \<le> key x" if "x \<in> set (drop m xs)" for x
  proof -
    from that m(1) obtain i where "i < length xs - m" "x = xs ! (m + i)"
      by (auto simp: in_set_conv_nth)
    with m(1) show ?thesis using m(3) [of "m + i"] by simp
  qed
  then have dr: "filter (\<lambda>x. a \<le> key x) (drop m xs) = drop m xs"
    by (intro filter_True) blast
  have "filter (\<lambda>x. a \<le> key x) xs
      = filter (\<lambda>x. a \<le> key x) (take m xs) @ filter (\<lambda>x. a \<le> key x) (drop m xs)"
    by (metis append_take_drop_id filter_append)
  with tk dr show ?thesis unfolding m_def by simp
qed

end
