(* ===== verification/GoTime.thy ===== *)
theory GoTime
  imports Prelude
begin

text \<open>
  The part of Go's \<^verbatim>\<open>time\<close> package the sources use. A \<open>time\<close> is the number of
  nanoseconds since Go's zero time (1 January of year 1, UTC), a \<open>duration\<close> a number
  of nanoseconds; \<^verbatim>\<open>Before\<close>, \<^verbatim>\<open>After\<close> and \<^verbatim>\<open>Equal\<close> compare instants and so are the order
  of the integers. \<open>AddDate\<close> is Go's: split the instant into a civil date and a time of
  day, add to the three date fields, let \<^verbatim>\<open>Date\<close> normalise the month and the day.
  Every instant is read in UTC.
\<close>

type_synonym time = int
type_synonym duration = int

definition zero_time :: time where
  "zero_time = 0"

definition IsZero :: "time \<Rightarrow> bool" where
  "IsZero t = (t = zero_time)"

abbreviation hour :: duration where
  "hour \<equiv> 3600 * 1000000000"

definition day_ns :: duration where
  "day_ns = 24 * hour"

text \<open>
  The proleptic Gregorian calendar, counted in days from 1 January of year 1. Years are
  taken to begin in March, so that the leap day is the last of its year; \<open>era\<close> is a
  block of 400 years (146097 days).
\<close>

definition days_before_year :: "int \<Rightarrow> int" where
  "days_before_year y = 365 * y + y div 4 - y div 100 + y div 400"

definition days_from_civil :: "int \<Rightarrow> int \<Rightarrow> int \<Rightarrow> int" where
  "days_from_civil y m d =
     (let y' = (if m \<le> 2 then y - 1 else y);
          mp = (m + 9) mod 12
      in days_before_year y' + (153 * mp + 2) div 5 + (d - 1) - 306)"

definition civil_from_days :: "int \<Rightarrow> int \<times> int \<times> int" where
  "civil_from_days n =
     (let z = n + 306;
          era = z div 146097;
          doe = z mod 146097;
          c = doe div 36524; c' = c - c div 4;
          doc = doe - 36524 * c';
          q = doc div 1461;
          doq = doc - 1461 * q;
          a = doq div 365; a' = a - a div 4;
          doy = doq - 365 * a';
          mp = (5 * doy + 2) div 153;
          d = doy - (153 * mp + 2) div 5 + 1;
          m = (if mp < 10 then mp + 3 else mp - 9);
          y = 100 * c' + 4 * q + a' + era * 400
      in (if m \<le> 2 then y + 1 else y, m, d))"

definition AddDate :: "time \<Rightarrow> int \<Rightarrow> int \<Rightarrow> int \<Rightarrow> time" where
  "AddDate t years months days =
     (case civil_from_days (t div day_ns) of (y, m, d) \<Rightarrow>
        let m0 = m - 1 + months;
            y' = y + years + m0 div 12;
            m' = m0 mod 12 + 1
        in days_from_civil y' m' (d + days) * day_ns + t mod day_ns)"

lemma civil_examples:
  "civil_from_days 0 = (1, 1, 1)"
  "civil_from_days 738944 = (2024, 2, 29)"
  "days_from_civil 2024 2 29 = 738944"
  "days_from_civil 2023 2 29 = days_from_civil 2023 3 1"
  by code_simp+

subsection \<open>Splitting a date and putting it together again\<close>

lemma century_of_era:
  fixes doe :: int
  assumes "0 \<le> doe" "doe < 146097" "c = doe div 36524" "c' = c - c div 4"
  shows "0 \<le> c'" "c' \<le> 3" "0 \<le> doe - 36524 * c'" "doe - 36524 * c' \<le> 36524"
proof -
  have "0 \<le> c" "36524 * c \<le> doe" "doe < 36524 * c + 36524"
    using assms(1,3) by auto
  with assms(2) have c: "c \<in> {0, 1, 2, 3, 4}" by auto
  then show "0 \<le> c'" "c' \<le> 3" "0 \<le> doe - 36524 * c'" "doe - 36524 * c' \<le> 36524"
    using assms(2,4) \<open>36524 * c \<le> doe\<close> \<open>doe < 36524 * c + 36524\<close> by auto
qed

lemma quad_of_century:
  fixes doc :: int
  assumes "0 \<le> doc" "doc \<le> 36524" "q = doc div 1461"
  shows "0 \<le> q" "q \<le> 24" "0 \<le> doc - 1461 * q" "doc - 1461 * q \<le> 1460"
  using assms by linarith+

lemma year_of_quad:
  fixes doq :: int
  assumes "0 \<le> doq" "doq \<le> 1460" "a = doq div 365" "a' = a - a div 4"
  shows "0 \<le> a'" "a' \<le> 3" "0 \<le> doq - 365 * a'" "doq - 365 * a' \<le> 365"
proof -
  have "0 \<le> a" "365 * a \<le> doq" "doq < 365 * a + 365"
    using assms(1,3) by auto
  with assms(2) have a: "a \<in> {0, 1, 2, 3, 4}" by auto
  then show "0 \<le> a'" "a' \<le> 3" "0 \<le> doq - 365 * a'" "doq - 365 * a' \<le> 365"
    using assms(2,4) \<open>365 * a \<le> doq\<close> \<open>doq < 365 * a + 365\<close> by auto
qed

lemma month_of_year:
  fixes doy :: int
  assumes "0 \<le> doy" "doy \<le> 365" "mp = (5 * doy + 2) div 153"
  shows "0 \<le> mp" "mp \<le> 11"
  using assms by linarith+

lemma days_before_year_parts:
  fixes era c q a :: int
  assumes "0 \<le> c" "c \<le> 3" "0 \<le> q" "q \<le> 24" "0 \<le> a" "a \<le> 3"
  shows "days_before_year (100 * c + 4 * q + a + era * 400) = era * 146097 + 36524 * c + 1461 * q + 365 * a"
proof -
  have "(100 * c + 4 * q + a + era * 400) div 4 = 25 * c + q + era * 100"
    "(100 * c + 4 * q + a + era * 400) div 100 = c + era * 4"
    "(100 * c + 4 * q + a + era * 400) div 400 = era"
    using assms by linarith+
  then show ?thesis by (simp add: days_before_year_def)
qed

lemma minus_div_mono:
  assumes "(u::int) \<le> v"
  shows "u - u div 25 \<le> v - v div 25"
proof -
  define p q where "p = u div 25" and "q = v div 25"
  have "u < 25 * p + 25" "25 * q \<le> v" by (simp_all add: p_def q_def)
  then have "u - p \<le> v - q" using assms by (cases "q \<le> p") auto
  then show ?thesis by (simp add: p_def q_def)
qed

lemma leap_days_mono:
  fixes y y' p p' q q' r r' :: int
  assumes "y < y'" "p - q \<le> p' - q'" "r \<le> r'"
  shows "365 * y + p - q + r + 365 \<le> 365 * y' + p' - q' + r'"
  using assms by linarith

lemma days_before_year_mono:
  assumes "y < y'"
  shows "days_before_year y + 365 \<le> days_before_year y'"
  unfolding days_before_year_def
proof (rule leap_days_mono [OF assms])
  have hundred: "z div 100 = z div 4 div 25" for z :: int
    using zdiv_zmult2_eq [of 25 z 4] by simp
  show "y div 4 - y div 100 \<le> y' div 4 - y' div 100"
    unfolding hundred by (rule minus_div_mono, rule zdiv_mono1) (use assms in simp_all)
  show "y div 400 \<le> y' div 400"
    by (rule zdiv_mono1) (use assms in simp_all)
qed

lemma days_from_civil_day: "days_from_civil y m (d + k) = days_from_civil y m d + k"
  by (simp add: days_from_civil_def Let_def)

lemma days_from_civil_year_mono:
  "y < y' \<Longrightarrow> days_from_civil y m d < days_from_civil y' m d"
  using days_before_year_mono [of y y'] days_before_year_mono [of "y - 1" "y' - 1"]
  unfolding days_from_civil_def Let_def by (cases "m \<le> 2") simp_all

lemma civil_from_days_inverse:
  assumes "civil_from_days n = (y, m, d)"
  shows "days_from_civil y m d = n" "1 \<le> m" "m \<le> 12"
proof -
  define doe where "doe = (n + 306) mod 146097"
  define era where "era = (n + 306) div 146097"
  define c where "c = doe div 36524"
  define c' where "c' = c - c div 4"
  define q where "q = (doe - 36524 * c') div 1461"
  define doq where "doq = doe - 36524 * c' - 1461 * q"
  define a where "a = doq div 365"
  define a' where "a' = a - a div 4"
  define doy where "doy = doq - 365 * a'"
  define mp where "mp = (5 * doy + 2) div 153"
  have doe: "0 \<le> doe" "doe < 146097" by (simp_all add: doe_def)
  note c = century_of_era [OF doe c_def c'_def]
  note q = quad_of_century [OF c(3,4) q_def, folded doq_def]
  note a = year_of_quad [OF q(3,4) a_def a'_def, folded doy_def]
  note mp = month_of_year [OF a(3,4) mp_def]
  let ?y = "100 * c' + 4 * q + a' + era * 400"
  have mdy: "m = (if mp < 10 then mp + 3 else mp - 9)" "y = (if m \<le> 2 then ?y + 1 else ?y)"
    "d = doy - (153 * mp + 2) div 5 + 1"
    using assms unfolding civil_from_days_def Let_def doe_def [symmetric] era_def [symmetric]
      c_def [symmetric] c'_def [symmetric] q_def [symmetric] doq_def [symmetric]
      a_def [symmetric] a'_def [symmetric] doy_def [symmetric] mp_def [symmetric]
    by auto
  then show "1 \<le> m" "m \<le> 12" using mp by auto
  have mp_back: "(m + 9) mod 12 = mp"
  proof (cases "mp < 10")
    case True
    then have "(m + 9) mod 12 = (mp + 12) mod 12" by (simp add: mdy(1))
    with True mp show ?thesis by simp
  next
    case False
    with mp show ?thesis by (simp add: mdy(1))
  qed
  have y_back: "(if m \<le> 2 then y - 1 else y) = ?y" using mdy(2) by simp
  have "days_from_civil y m d = days_before_year ?y + (153 * mp + 2) div 5 + (d - 1) - 306"
    unfolding days_from_civil_def Let_def mp_back y_back ..
  also have "\<dots> = era * 146097 + doe - 306"
    unfolding days_before_year_parts [OF c(1,2) q(1,2) a(1,2)] mdy(3) doy_def doq_def by simp
  also have "era * 146097 + doe = n + 306"
    by (simp add: era_def doe_def)
  finally show "days_from_civil y m d = n" by simp
qed

lemma month_norm:
  assumes "1 \<le> m" "m \<le> (12::int)"
  shows "(m - 1) div 12 = 0" "(m - 1) mod 12 = m - 1"
  using assms by simp_all

lemma AddDate_days: "AddDate t 0 0 k = t + k * day_ns"
proof -
  obtain y m d where ymd: "civil_from_days (t div day_ns) = (y, m, d)"
    by (metis prod_cases3)
  note inv = civil_from_days_inverse [OF ymd]
  have "AddDate t 0 0 k = (t div day_ns + k) * day_ns + t mod day_ns"
    unfolding AddDate_def ymd prod.case Let_def
    by (simp add: month_norm [OF inv(2,3)] days_from_civil_day inv(1))
  also have "\<dots> = t div day_ns * day_ns + t mod day_ns + k * day_ns"
    by (simp only: distrib_right add.assoc add.commute)
  finally show ?thesis by simp
qed

lemma AddDate_years:
  assumes "k < 0"
  shows "AddDate t k 0 0 < t"
proof -
  obtain y m d where ymd: "civil_from_days (t div day_ns) = (y, m, d)"
    by (metis prod_cases3)
  note inv = civil_from_days_inverse [OF ymd]
  define w where "w = days_from_civil (y + k) m d"
  have "w + 1 \<le> t div day_ns"
    using days_from_civil_year_mono [of "y + k" y m d] assms inv(1) by (simp add: w_def)
  then have "(w + 1) * day_ns \<le> t div day_ns * day_ns"
    by (intro mult_right_mono) (simp_all add: day_ns_def)
  moreover have "AddDate t k 0 0 = w * day_ns + t mod day_ns"
    unfolding AddDate_def ymd prod.case Let_def by (simp add: month_norm [OF inv(2,3)] w_def)
  moreover have "(w + 1) * day_ns = w * day_ns + day_ns" by (simp add: distrib_right)
  moreover have "t = t div day_ns * day_ns + t mod day_ns" by simp
  moreover have "0 < day_ns" by (simp add: day_ns_def)
  ultimately show ?thesis by linarith
qed

end
