(* ===== verification/GoFloat.thy ===== *)
theory GoFloat
  imports Prelude
begin

text \<open>
  The part of Go's \<^verbatim>\<open>float64\<close> the sources use: products, \<^verbatim>\<open>math.Round\<close> and the
  conversions from and to \<^verbatim>\<open>int64\<close>. \<open>Finite m e\<close> is the number \<open>m * 2 ^ e\<close>; a result is
  rounded to the nearest number with 53 binary digits, ties to even, with the exponents of
  binary64. The sign of zero is not kept. What \<^verbatim>\<open>int64(f)\<close> is outside the range of \<^verbatim>\<open>int64\<close>
  depends on the processor in Go and is an argument.
\<close>

type_synonym int64 = "64 word"

datatype float64 = Finite int int | Infinite bool | NaN

fun bit_count :: "nat \<Rightarrow> nat" where
  "bit_count n = (if n = 0 then 0 else Suc (bit_count (n div 2)))"

declare bit_count.simps [simp del]

text \<open>Division by \<open>2 ^ k\<close>, to the nearest, ties to even.\<close>

definition roundShift :: "int \<Rightarrow> nat \<Rightarrow> int" where
  "roundShift m k =
     (let q = m div 2 ^ k; r = m mod 2 ^ k
      in if 2 * r < 2 ^ k \<or> (2 * r = 2 ^ k \<and> even q) then q else q + 1)"

definition roundFloat :: "int \<Rightarrow> int \<Rightarrow> float64" where
  "roundFloat m e =
     (let k = max 0 (max (int (bit_count (nat \<bar>m\<bar>)) - 53) (- 1074 - e));
          q = roundShift m (nat k)
      in if int (bit_count (nat \<bar>q\<bar>)) + (e + k) > 1024 then Infinite (m < 0) else Finite q (e + k))"

definition float_of_int64 :: "int64 \<Rightarrow> float64" where
  "float_of_int64 v = roundFloat (sint v) 0"

fun isNegative :: "float64 \<Rightarrow> bool" where
  "isNegative (Finite m e) = (m < 0)"
| "isNegative (Infinite s) = s"
| "isNegative NaN = False"

fun floatMul :: "float64 \<Rightarrow> float64 \<Rightarrow> float64" where
  "floatMul (Finite m e) (Finite n f) = roundFloat (m * n) (e + f)"
| "floatMul NaN y = NaN"
| "floatMul x NaN = NaN"
| "floatMul (Infinite s) (Infinite t) = Infinite (s \<noteq> t)"
| "floatMul (Infinite s) (Finite n f) = (if n = 0 then NaN else Infinite (s \<noteq> (n < 0)))"
| "floatMul (Finite m e) (Infinite t) = (if m = 0 then NaN else Infinite ((m < 0) \<noteq> t))"

text \<open>\<^verbatim>\<open>x > 0\<close>; every comparison with \<^verbatim>\<open>NaN\<close> is false.\<close>

fun isPositive :: "float64 \<Rightarrow> bool" where
  "isPositive (Finite m e) = (m > 0)"
| "isPositive (Infinite s) = (\<not> s)"
| "isPositive NaN = False"

text \<open>\<^verbatim>\<open>math.Round\<close>: to the nearest integer, ties away from zero.\<close>

fun floatRound :: "float64 \<Rightarrow> float64" where
  "floatRound (Finite m e) =
     (if e \<ge> 0 then Finite m e
      else Finite (sgn m * ((2 * \<bar>m\<bar> + 2 ^ nat (- e)) div 2 ^ nat (1 - e))) 0)"
| "floatRound x = x"

fun floatTrunc :: "float64 \<Rightarrow> int option" where
  "floatTrunc (Finite m e) =
     Some (if e \<ge> 0 then m * 2 ^ nat e else sgn m * (\<bar>m\<bar> div 2 ^ nat (- e)))"
| "floatTrunc _ = None"

definition int64_of_float :: "(float64 \<Rightarrow> int64) \<Rightarrow> float64 \<Rightarrow> int64" where
  "int64_of_float outOfRange f =
     (case floatTrunc f of
        Some v \<Rightarrow> if - (2 ^ 63) \<le> v \<and> v < 2 ^ 63 then word_of_int v else outOfRange f
      | None \<Rightarrow> outOfRange f)"

lemma float_examples:
  "roundFloat 3 0 = Finite 3 0"
  "roundFloat (2 ^ 53 + 1) 0 = Finite (2 ^ 52) 1"
  "floatRound (Finite 5 (- 1)) = Finite 3 0" "floatRound (Finite (- 5) (- 1)) = Finite (- 3) 0"
  "floatRound (Finite 9 (- 2)) = Finite 2 0"
  by (simp_all add: roundFloat_def roundShift_def bit_count.simps)

end
