(* ===== verification/Domain.thy ===== *)
theory Domain
  imports GoTime GoFloat
begin

text \<open>
  The data of \<^verbatim>\<open>finance/domain\<close>: structs as records (a field carries the prefix of its
  struct), Go pointers that may be nil as options, string enumerations as datatypes with
  one constructor per constant and an \<open>Other\<close> constructor for any further text, \<^verbatim>\<open>int64\<close>
  amounts in minor units as 64-bit words, and Go \<^verbatim>\<open>int\<close> counters as integers.
\<close>

section \<open>Enumerations\<close>

type_synonym ProviderID = string
type_synonym ProviderConnectorID = string

definition ProviderIDMonobank :: ProviderID where "ProviderIDMonobank = ''monobank''"
definition ProviderIDPKO :: ProviderID where "ProviderIDPKO = ''pko''"
definition ProviderIDSynthetic :: ProviderID where "ProviderIDSynthetic = ''synthetic''"

definition ProviderConnectorIDMonobank :: ProviderConnectorID where
  "ProviderConnectorIDMonobank = ''monobank''"
definition ProviderConnectorIDEnableBanking :: ProviderConnectorID where
  "ProviderConnectorIDEnableBanking = ''enable-banking''"
definition ProviderConnectorIDSynthetic :: ProviderConnectorID where
  "ProviderConnectorIDSynthetic = ''synthetic''"

datatype AccountKind =
    AccountKindManual | AccountKindLinked | AccountKindImported | AccountKindReconciliation
  | AccountKindOther string

datatype TransactionSource =
    TransactionSourceManual | TransactionSourceProvider | TransactionSourceCSV
  | TransactionSourceSystem | TransactionSourceOther string

datatype TransactionStatus =
    TransactionStatusPending | TransactionStatusBooked | TransactionStatusOther string

datatype TransactionKind =
    TransactionKindExpense | TransactionKindIncome | TransactionKindRegular
  | TransactionKindRefund | TransactionKindTransfer | TransactionKindReconciliation
  | TransactionKindOpeningBalance | TransactionKindOther string

datatype BankConnectionState =
    BankConnectionStatePendingAuth | BankConnectionStateActive
  | BankConnectionStateReauthRequired | BankConnectionStateDisconnected
  | BankConnectionStateOther string

datatype ProviderSnapshotSubject =
    ProviderSnapshotSubjectConnection | ProviderSnapshotSubjectAccount
  | ProviderSnapshotSubjectTransaction | ProviderSnapshotSubjectOther string

datatype ProviderSnapshotKind =
    ProviderSnapshotKindConnection | ProviderSnapshotKindAccount
  | ProviderSnapshotKindAccountBalance | ProviderSnapshotKindTransaction
  | ProviderSnapshotKindOther string

datatype ProviderSyncIssueSeverity =
    ProviderSyncIssueSeverityInfo | ProviderSyncIssueSeverityWarning
  | ProviderSyncIssueSeverityError

datatype CategoryKind = CategoryKindExpense | CategoryKindIncome | CategoryKindOther string

datatype ClassificationMatchType =
    ClassificationMatchTypeExact | ClassificationMatchTypeContains | ClassificationMatchTypeOther string

datatype CashFlowInclusion =
    CashFlowInclusionIncome | CashFlowInclusionExpense | CashFlowInclusionBoth
  | CashFlowInclusionNone | CashFlowInclusionOther string

section \<open>Provider observations and sync state\<close>

record ProviderConnectionRef =
  ref_ConnectionID :: string
  ref_ProviderID :: ProviderID
  ref_ConnectorID :: ProviderConnectorID
  ref_ProviderReference :: string

record ProviderSyncWindow =
  win_Start :: time
  win_End :: time

record BankSyncWindowCompleted =
  ev_TenantID :: string
  ev_ConnectionID :: string
  ev_RangeStart :: time
  ev_RangeEndExclusive :: time
  ev_SourceSyncMessageID :: string

record ProviderAccountObservation =
  oa_Connection :: ProviderConnectionRef
  oa_ProviderAccountID :: string
  oa_Name :: string
  oa_Currency :: string
  oa_IBAN :: string
  oa_MaskedPAN :: string

record ProviderBalanceObservation =
  ob_Connection :: ProviderConnectionRef
  ob_ProviderAccountID :: string
  ob_Currency :: string
  ob_CurrentBalanceMinor :: int64
  ob_AvailableBalanceMinor :: "int64 option"
  ob_CapturedAt :: time

record ProviderTransactionOriginal =
  orig_AmountMinor :: int64
  orig_Currency :: string
  orig_Description :: string
  orig_EffectiveAt :: "time option"

record ProviderTransactionObservation =
  ot_Connection :: ProviderConnectionRef
  ot_ProviderAccountID :: string
  ot_ProviderTransactionID :: string
  ot_Status :: TransactionStatus
  ot_AmountMinor :: int64
  ot_Currency :: string
  ot_Description :: string
  ot_EffectiveAt :: time
  ot_Fingerprint :: string
  ot_ProviderOriginal :: "ProviderTransactionOriginal option"

record ProviderSnapshotObservation =
  os_Kind :: ProviderSnapshotKind
  os_ProviderObjectID :: string
  os_ProviderAccountID :: string
  os_ProviderTransactionID :: string
  os_DocumentJSON :: string
  os_CapturedAt :: time

record ProviderSyncBatch =
  batch_Connection :: ProviderConnectionRef
  batch_RequestedWindow :: ProviderSyncWindow
  batch_Accounts :: "ProviderAccountObservation list"
  batch_Balances :: "ProviderBalanceObservation list"
  batch_Transactions :: "ProviderTransactionObservation list"
  batch_Snapshots :: "ProviderSnapshotObservation list"

record ProviderSyncStats =
  ObservedAccounts :: int
  CreatedAccounts :: int
  ObservedTransactions :: int
  CreatedTransactions :: int
  UpdatedTransactions :: int
  AmbiguousCreatedTransactions :: int

definition zero_stats :: ProviderSyncStats where
  "zero_stats = \<lparr>ObservedAccounts = 0, CreatedAccounts = 0, ObservedTransactions = 0,
     CreatedTransactions = 0, UpdatedTransactions = 0, AmbiguousCreatedTransactions = 0\<rparr>"

record ProviderSyncIssue =
  iss_Code :: string
  iss_Severity :: ProviderSyncIssueSeverity
  iss_Summary :: string
  iss_ProviderAccountID :: string
  iss_ProviderTransactionID :: string

record ProviderSyncState =
  st_Connection :: ProviderConnectionRef
  st_AttemptedAt :: "time option"
  st_SucceededAt :: "time option"
  st_Window :: ProviderSyncWindow
  st_RunID :: string
  st_JobID :: string
  st_ErrorSummary :: string
  st_AggregateStats :: ProviderSyncStats

section \<open>Tenants\<close>

record Tenant =
  ten_ID :: string
  ten_Name :: string
  ten_DisplayCurrency :: string
  ten_ArchivedAt :: "time option"
  ten_CreatedAt :: time
  ten_UpdatedAt :: time

record TenantMembership =
  mem_TenantID :: string
  mem_UserID :: string
  mem_JoinedAt :: time
  mem_CreatedAt :: time

record TenantMembershipView =
  view_Tenant :: Tenant
  view_Membership :: TenantMembership

record TenantInvite =
  inv_ID :: string
  inv_TenantID :: string
  inv_Code :: string
  inv_Recipient :: string
  inv_CreatedByUserID :: string
  inv_AcceptedByUserID :: "string option"
  inv_CreatedAt :: time
  inv_AcceptedAt :: "time option"

record TenantMember =
  tmb_TenantID :: string
  tmb_UserID :: string
  tmb_JoinedAt :: time

section \<open>Ledger objects\<close>

record Category =
  cat_ID :: string
  cat_TenantID :: string
  cat_Name :: string
  cat_Kind :: CategoryKind
  cat_SeededDefault :: bool
  cat_HiddenAt :: "time option"
  cat_CreatedAt :: time
  cat_UpdatedAt :: time

record Tag =
  tag_ID :: string
  tag_TenantID :: string
  tag_Name :: string
  tag_HiddenAt :: "time option"
  tag_CreatedAt :: time
  tag_UpdatedAt :: time

text \<open>A position counts the rules of a tenant: it is far from the end of a Go \<^verbatim>\<open>int\<close>.\<close>

record ClassificationRule =
  rule_ID :: string
  rule_TenantID :: string
  rule_Position :: int
  rule_MatchType :: ClassificationMatchType
  rule_Condition :: string
  rule_CategoryID :: string
  rule_TagIDs :: "string list"
  rule_CreatedAt :: time
  rule_UpdatedAt :: time

record LinkedAccount =
  la_Provider :: string
  la_ProviderAccountID :: string

record Account =
  acc_ID :: string
  acc_TenantID :: string
  acc_Name :: string
  acc_Currency :: string
  acc_Kind :: AccountKind
  acc_BookedBalanceMinor :: int64
  acc_PendingBalanceMinor :: int64
  acc_LinkedAccount :: "LinkedAccount option"
  acc_HiddenAt :: "time option"
  acc_CreatedAt :: time
  acc_UpdatedAt :: time

record Transaction =
  tx_ID :: string
  tx_TenantID :: string
  tx_AccountID :: string
  tx_Source :: TransactionSource
  tx_Status :: TransactionStatus
  tx_Kind :: TransactionKind
  tx_AmountMinor :: int64
  tx_Currency :: string
  tx_Description :: string
  tx_EffectiveAt :: time
  tx_CategoryID :: "string option"
  tx_TagIDs :: "string list"
  tx_TransferGroupID :: "string option"
  tx_TransferMatchedAt :: "time option"
  tx_TransferMatchingExcluded :: bool
  tx_HiddenAt :: "time option"
  tx_CreatedAt :: time
  tx_UpdatedAt :: time
  tx_ProviderOriginal :: "ProviderTransactionOriginal option"

record AccountBalance =
  ab_AccountID :: string
  ab_BookedBalanceMinor :: int64
  ab_PendingBalanceMinor :: int64
  ab_Currency :: string

record FXRate =
  fxr_Provider :: string
  fxr_BaseCurrency :: string
  fxr_QuoteCurrency :: string
  fxr_EffectiveAt :: time
  fxr_RateDate :: time
  fxr_LastSuccessfulRefreshAt :: time
  fxr_Rate :: float64
  fxr_CreatedAt :: time
  fxr_UpdatedAt :: time

record TransactionSummary =
  IncomeMinor :: int64
  ExpenseMinor :: int64
  NetMinor :: int64

section \<open>Bank connections\<close>

record ConnectionReauthMetadata =
  reauth_RequiredAt :: "time option"
  reauth_Reason :: string

record BankConnection =
  bc_ID :: string
  bc_TenantID :: string
  bc_Provider :: string
  bc_ConnectorID :: ProviderConnectorID
  bc_DisplayName :: string
  bc_ProviderReference :: string
  bc_SecretID :: string
  bc_State :: BankConnectionState
  bc_Reauth :: "ConnectionReauthMetadata option"
  bc_LastSyncJobID :: string
  bc_LastSyncStartedAt :: "time option"
  bc_LastSuccessfulSyncAt :: "time option"
  bc_LastSyncError :: string
  bc_CreatedAt :: time
  bc_UpdatedAt :: time

record ConnectionProviderAccount =
  pa_ID :: string
  pa_ConnectionID :: string
  pa_ProviderAccountID :: string
  pa_FinanceAccountID :: string
  pa_Name :: string
  pa_Currency :: string
  pa_IBAN :: string
  pa_MaskedPAN :: string
  pa_LastSuccessfulSyncAt :: "time option"
  pa_CreatedAt :: time
  pa_UpdatedAt :: time

record BalanceSnapshot =
  bs_ID :: string
  bs_ConnectionID :: string
  bs_ProviderAccountID :: string
  bs_FinanceAccountID :: string
  bs_Currency :: string
  bs_CurrentBalanceMinor :: int64
  bs_AvailableBalanceMinor :: "int64 option"
  bs_CapturedAt :: time

record ProviderTransactionMatch =
  m_ID :: string
  m_ConnectionID :: string
  m_ProviderAccountID :: string
  m_ProviderTransactionID :: string
  m_Fingerprint :: string
  m_TransactionID :: string
  m_Status :: TransactionStatus
  m_CreatedAt :: time
  m_UpdatedAt :: time

record ProviderSnapshot =
  ps_ID :: string
  ps_TenantID :: string
  ps_ConnectionID :: string
  ps_FinanceAccountID :: string
  ps_FinanceTransactionID :: string
  ps_Subject :: ProviderSnapshotSubject
  ps_Kind :: ProviderSnapshotKind
  ps_ProviderObjectID :: string
  ps_DocumentJSON :: string
  ps_CapturedAt :: time

end
