(* ===== verification/WindowPolicies.thy ===== *)
theory WindowPolicies
  imports Domain
begin

text \<open>
  The three pure policies of \<^verbatim>\<open>finance/internal/providers\<close> that plan a provider sync:
  the target window (\<^verbatim>\<open>target_window_policy.go\<close>), its split into requested windows
  (\<^verbatim>\<open>window_chunk_policy.go\<close>) and the snapshot window (\<^verbatim>\<open>snapshot_window_policy.go\<close>).
  A Go \<^verbatim>\<open>error\<close> result is a \<open>go_error option\<close>; a pair of a value and an error is a sum.
\<close>

definition initialBackfillYears :: int where "initialBackfillYears = 3"
definition recentRefreshDays :: int where "recentRefreshDays = 30"
definition providerSyncWindowChunkDays :: int where "providerSyncWindowChunkDays = 30"

record TargetWindowRequest =
  tr_Now :: time
  tr_State :: "ProviderSyncState option"
  tr_WindowStart :: "time option"
  tr_WindowEnd :: "time option"

definition validateSyncWindow :: "ProviderSyncWindow \<Rightarrow> sentinel \<Rightarrow> go_error option" where
  "validateSyncWindow window invalidErr =
     (if IsZero (win_Start window) then Some (WrapSuffix (Sentinel invalidErr) ''start is zero'')
      else if IsZero (win_End window) then Some (WrapSuffix (Sentinel invalidErr) ''end is zero'')
      else if \<not> win_End window > win_Start window
        then Some (WrapSuffix (Sentinel invalidErr) ''end must be after start'')
      else None)"

definition validateProviderSyncWindow :: "ProviderSyncWindow \<Rightarrow> go_error option" where
  "validateProviderSyncWindow window = validateSyncWindow window ErrInvalidProviderSyncStateWindow"

definition determineStart :: "time \<Rightarrow> ProviderSyncState option \<Rightarrow> go_error + time" where
  "determineStart targetEnd state =
     (case state of
        None \<Rightarrow> Inr (AddDate targetEnd (- initialBackfillYears) 0 0)
      | Some st \<Rightarrow>
          (case validateProviderSyncWindow (st_Window st) of
             Some err \<Rightarrow> Inl err
           | None \<Rightarrow>
               let recentStart = AddDate targetEnd 0 0 (- recentRefreshDays);
                   checkpoint = (if st_SucceededAt st \<noteq> None then win_End (st_Window st)
                                 else win_Start (st_Window st))
               in if checkpoint < recentStart then Inr checkpoint else Inr recentStart))"

definition targetWindowDetermine :: "TargetWindowRequest \<Rightarrow> go_error + ProviderSyncWindow" where
  "targetWindowDetermine request =
     (let targetEnd = (case tr_WindowEnd request of Some e \<Rightarrow> e | None \<Rightarrow> tr_Now request)
      in case (case tr_WindowStart request of
                 Some s \<Rightarrow> Inr s
               | None \<Rightarrow> determineStart targetEnd (tr_State request)) of
           Inl err \<Rightarrow> Inl err
         | Inr targetStart \<Rightarrow>
             let window = \<lparr>win_Start = targetStart, win_End = targetEnd\<rparr>
             in case validateSyncWindow window ErrInvalidProviderSyncTargetWindow of
                  Some err \<Rightarrow> Inl err
                | None \<Rightarrow> Inr window)"

text \<open>The loop of \<^verbatim>\<open>Split\<close>: from \<open>start\<close>, thirty days at a time, the last chunk cut at the end.\<close>

function chunk_loop :: "time \<Rightarrow> time \<Rightarrow> ProviderSyncWindow list" where
  "chunk_loop start stop =
     (if start < stop then
        (let e = AddDate start 0 0 providerSyncWindowChunkDays;
             e' = (if e > stop then stop else e)
         in \<lparr>win_Start = start, win_End = e'\<rparr> # chunk_loop e' stop)
      else [])"
  by pat_completeness auto
termination
  by (relation "measure (\<lambda>(start, stop). nat (stop - start))")
    (auto simp: AddDate_days day_ns_def providerSyncWindowChunkDays_def)

declare chunk_loop.simps [simp del]

definition chunkSplit :: "ProviderSyncWindow \<Rightarrow> go_error + ProviderSyncWindow list" where
  "chunkSplit target =
     (case validateSyncWindow target ErrInvalidProviderSyncTargetWindow of
        Some err \<Rightarrow> Inl err
      | None \<Rightarrow> Inr (chunk_loop (win_Start target) (win_End target)))"

definition snapshotWindowDetermine :: "ProviderSyncWindow \<Rightarrow> go_error + ProviderSyncWindow" where
  "snapshotWindowDetermine requestedWindow = Inr requestedWindow"

section \<open>What a window is\<close>

text \<open>Specification side: valid windows, the instants a window holds, contiguous runs.\<close>

definition valid_window :: "ProviderSyncWindow \<Rightarrow> bool" where
  "valid_window w \<longleftrightarrow> win_Start w \<noteq> zero_time \<and> win_End w \<noteq> zero_time \<and> win_Start w < win_End w"

definition in_window :: "time \<Rightarrow> ProviderSyncWindow \<Rightarrow> bool" where
  "in_window t w \<longleftrightarrow> win_Start w \<le> t \<and> t < win_End w"

fun contiguous :: "time \<Rightarrow> ProviderSyncWindow list \<Rightarrow> time \<Rightarrow> bool" where
  "contiguous s [] e = (s = e)"
| "contiguous s (w # ws) e = (win_Start w = s \<and> win_Start w < win_End w \<and> contiguous (win_End w) ws e)"

definition checkpoint_of :: "ProviderSyncState \<Rightarrow> time" where
  "checkpoint_of st = (if st_SucceededAt st \<noteq> None then win_End (st_Window st) else win_Start (st_Window st))"

lemma validateSyncWindow_None [simp]: "validateSyncWindow w e = None \<longleftrightarrow> valid_window w"
  by (auto simp: validateSyncWindow_def valid_window_def IsZero_def)

lemma validateSyncWindow_valid [simp]: "valid_window w \<Longrightarrow> validateSyncWindow w e = None"
  by simp

lemma validateSyncWindow_Some: "validateSyncWindow w e = Some err \<Longrightarrow> errors_is err e \<and> \<not> valid_window w"
  by (auto simp: validateSyncWindow_def valid_window_def IsZero_def split: if_splits)

lemma validateSyncWindow_cases:
  obtains "valid_window w" "validateSyncWindow w e = None"
  | err where "\<not> valid_window w" "validateSyncWindow w e = Some err" "errors_is err e"
  by (cases "validateSyncWindow w e") (auto dest: validateSyncWindow_Some)

lemma contiguous_le: "contiguous s ws e \<Longrightarrow> s \<le> e"
  by (induction ws arbitrary: s) force+

lemma contiguous_append: "contiguous s (ws @ vs) e \<longleftrightarrow> (\<exists>m. contiguous s ws m \<and> contiguous m vs e)"
  by (induction ws arbitrary: s) auto

lemma contiguous_window_bounds:
  "contiguous s ws e \<Longrightarrow> w \<in> set ws \<Longrightarrow> s \<le> win_Start w \<and> win_Start w < win_End w \<and> win_End w \<le> e"
  by (induction ws arbitrary: s) (force dest: contiguous_le)+

lemma contiguous_outside: "contiguous s ws e \<Longrightarrow> t < s \<Longrightarrow> filter (in_window t) ws = []"
  by (induction ws arbitrary: s) (force simp: in_window_def)+

lemma contiguous_once:
  "contiguous s ws e \<Longrightarrow> s \<le> t \<Longrightarrow> t < e \<Longrightarrow> length (filter (in_window t) ws) = 1"
proof (induction ws arbitrary: s)
  case (Cons w ws)
  show ?case
  proof (cases "t < win_End w")
    case True
    then have "in_window t w" "filter (in_window t) ws = []"
      using Cons.prems contiguous_outside [of "win_End w" ws e t] by (auto simp: in_window_def)
    then show ?thesis by simp
  next
    case False
    then have "\<not> in_window t w" by (simp add: in_window_def)
    then show ?thesis using False Cons.IH [of "win_End w"] Cons.prems by simp
  qed
qed auto

section \<open>The chunks of a target window\<close>

abbreviation chunk_ns :: duration where
  "chunk_ns \<equiv> providerSyncWindowChunkDays * day_ns"

lemma chunk_ns_pos: "0 < chunk_ns"
  by (simp add: providerSyncWindowChunkDays_def day_ns_def)

lemma chunk_loop_done [simp]: "chunk_loop start start = []"
  by (subst chunk_loop.simps) simp

lemma chunk_loop_contiguous: "start \<le> stop \<Longrightarrow> contiguous start (chunk_loop start stop) stop"
proof (induction start stop rule: chunk_loop.induct)
  case (1 start stop)
  then show ?case
    using chunk_ns_pos
    by (cases "start < stop") (auto simp: chunk_loop.simps [of start stop] AddDate_days Let_def)
qed

lemma chunk_loop_size:
  "w \<in> set (chunk_loop start stop) \<Longrightarrow> win_End w - win_Start w \<le> chunk_ns \<and>
     (win_End w \<noteq> stop \<longrightarrow> win_End w - win_Start w = chunk_ns)"
proof (induction start stop rule: chunk_loop.induct)
  case (1 start stop)
  then show ?case
    by (cases "start < stop")
      (auto simp: chunk_loop.simps [of start stop] AddDate_days Let_def split: if_splits)
qed

lemma chunk_loop_nonempty: "start < stop \<Longrightarrow> chunk_loop start stop \<noteq> []"
  by (subst chunk_loop.simps) (simp add: Let_def)

lemma chunkSplit_cases:
  obtains "valid_window target" "chunkSplit target = Inr (chunk_loop (win_Start target) (win_End target))"
  | err where "\<not> valid_window target" "chunkSplit target = Inl err"
      "errors_is err ErrInvalidProviderSyncTargetWindow"
  by (rule validateSyncWindow_cases [of target ErrInvalidProviderSyncTargetWindow])
    (auto simp: chunkSplit_def)

lemma chunkSplit_Inr:
  assumes "chunkSplit target = Inr ws"
  shows "valid_window target" "contiguous (win_Start target) ws (win_End target)" "ws \<noteq> []"
proof -
  from assms have v: "valid_window target" and ws: "ws = chunk_loop (win_Start target) (win_End target)"
    by (cases rule: chunkSplit_cases [of target]; simp)+
  from v have "win_Start target < win_End target" by (simp add: valid_window_def)
  with ws show "contiguous (win_Start target) ws (win_End target)" "ws \<noteq> []"
    by (simp_all add: chunk_loop_contiguous chunk_loop_nonempty)
  show "valid_window target" by (rule v)
qed



section \<open>The target window\<close>

lemma determineStart_state:
  assumes "valid_window (st_Window st)"
  shows "determineStart targetEnd (Some st) = Inr (min (checkpoint_of st) (targetEnd - 30 * day_ns))"
  using assms
  by (auto simp: determineStart_def validateProviderSyncWindow_def checkpoint_of_def AddDate_days
      recentRefreshDays_def Let_def min_def)

lemma determineStart_invalid:
  assumes "\<not> valid_window (st_Window st)"
  shows "\<exists>err. determineStart targetEnd (Some st) = Inl err \<and> errors_is err ErrInvalidProviderSyncStateWindow"
  using assms
  by (cases rule: validateSyncWindow_cases [of "st_Window st" ErrInvalidProviderSyncStateWindow])
    (auto simp: determineStart_def validateProviderSyncWindow_def)

lemma determineStart_before_end:
  assumes "determineStart targetEnd state = Inr s"
  shows "s < targetEnd"
proof (cases state)
  case None
  with assms show ?thesis
    by (auto simp: determineStart_def initialBackfillYears_def AddDate_years)
next
  case (Some st)
  then have "valid_window (st_Window st)"
    using assms determineStart_invalid [of st targetEnd] by auto
  with assms Some have "s = min (checkpoint_of st) (targetEnd - 30 * day_ns)"
    by (simp add: determineStart_state)
  then have "s \<le> targetEnd - 30 * day_ns" by simp
  also have "\<dots> < targetEnd" by (simp add: day_ns_def)
  finally show ?thesis .
qed

lemma targetWindowDetermine_Inr:
  assumes "targetWindowDetermine request = Inr w"
  shows "valid_window w"
    and "win_End w = (case tr_WindowEnd request of Some e \<Rightarrow> e | None \<Rightarrow> tr_Now request)"
    and "tr_WindowStart request = Some s \<Longrightarrow> win_Start w = s"
    and "tr_WindowStart request = None \<Longrightarrow> determineStart (win_End w) (tr_State request) = Inr (win_Start w)"
  using assms
  by (auto simp: targetWindowDetermine_def Let_def split: sum.splits option.splits)


definition example_state :: "time option \<Rightarrow> time \<Rightarrow> time \<Rightarrow> ProviderSyncState" where
  "example_state succeeded s e =
     \<lparr>st_Connection = \<lparr>ref_ConnectionID = ''c1'', ref_ProviderID = ProviderIDPKO,
        ref_ConnectorID = ProviderConnectorIDEnableBanking, ref_ProviderReference = ''r1''\<rparr>,
      st_AttemptedAt = Some s, st_SucceededAt = succeeded,
      st_Window = \<lparr>win_Start = s, win_End = e\<rparr>, st_RunID = ''run'', st_JobID = ''job'',
      st_ErrorSummary = '''', st_AggregateStats = zero_stats\<rparr>"




end
