(* ===== verification/Models.thy ===== *)
theory Models
  imports Domain
begin

text \<open>
  The rows of \<^verbatim>\<open>finance/persistence/models.go\<close> and their conversions from and to the
  domain objects. A string column that holds an enumeration keeps the enumeration's
  datatype, because \<^verbatim>\<open>string(kind)\<close> and \<^verbatim>\<open>domain.Kind(s)\<close> are inverse copies; a nullable
  column is an option.
\<close>

section \<open>Tenants and catalog\<close>

record tenantModel =
  nm_ID :: string
  nm_Name :: string
  nm_DisplayCurrency :: string
  nm_ArchivedAt :: "time option"
  nm_CreatedAt :: time
  nm_UpdatedAt :: time

definition newTenantModel :: "Tenant \<Rightarrow> tenantModel" where
  "newTenantModel d =
     \<lparr>nm_ID = ten_ID d,
      nm_Name = ten_Name d,
      nm_DisplayCurrency = ten_DisplayCurrency d,
      nm_ArchivedAt = ten_ArchivedAt d,
      nm_CreatedAt = ten_CreatedAt d,
      nm_UpdatedAt = ten_UpdatedAt d\<rparr>"

definition tenantFromModel :: "tenantModel \<Rightarrow> Tenant" where
  "tenantFromModel model =
     \<lparr>ten_ID = nm_ID model,
      ten_Name = nm_Name model,
      ten_DisplayCurrency = nm_DisplayCurrency model,
      ten_ArchivedAt = nm_ArchivedAt model,
      ten_CreatedAt = nm_CreatedAt model,
      ten_UpdatedAt = nm_UpdatedAt model\<rparr>"

lemma tenantModel_copy [simp]: "tenantFromModel (newTenantModel d) = d"
  by (simp add: tenantFromModel_def newTenantModel_def)

record tenantInviteModel =
  im_ID :: string
  im_TenantID :: string
  im_Code :: string
  im_Recipient :: string
  im_CreatedByUserID :: string
  im_AcceptedByUserID :: "string option"
  im_CreatedAt :: time
  im_AcceptedAt :: "time option"

definition newTenantInviteModel :: "TenantInvite \<Rightarrow> tenantInviteModel" where
  "newTenantInviteModel d =
     \<lparr>im_ID = inv_ID d,
      im_TenantID = inv_TenantID d,
      im_Code = inv_Code d,
      im_Recipient = inv_Recipient d,
      im_CreatedByUserID = inv_CreatedByUserID d,
      im_AcceptedByUserID = inv_AcceptedByUserID d,
      im_CreatedAt = inv_CreatedAt d,
      im_AcceptedAt = inv_AcceptedAt d\<rparr>"

definition tenantInviteFromModel :: "tenantInviteModel \<Rightarrow> TenantInvite" where
  "tenantInviteFromModel model =
     \<lparr>inv_ID = im_ID model,
      inv_TenantID = im_TenantID model,
      inv_Code = im_Code model,
      inv_Recipient = im_Recipient model,
      inv_CreatedByUserID = im_CreatedByUserID model,
      inv_AcceptedByUserID = im_AcceptedByUserID model,
      inv_CreatedAt = im_CreatedAt model,
      inv_AcceptedAt = im_AcceptedAt model\<rparr>"

lemma tenantInviteModel_copy [simp]: "tenantInviteFromModel (newTenantInviteModel d) = d"
  by (simp add: tenantInviteFromModel_def newTenantInviteModel_def)

record tenantMembershipModel =
  mbm_TenantID :: string
  mbm_UserID :: string
  mbm_JoinedAt :: time
  mbm_CreatedAt :: time

definition newTenantMembershipModel :: "TenantMembership \<Rightarrow> tenantMembershipModel" where
  "newTenantMembershipModel d =
     \<lparr>mbm_TenantID = mem_TenantID d,
      mbm_UserID = mem_UserID d,
      mbm_JoinedAt = mem_JoinedAt d,
      mbm_CreatedAt = mem_CreatedAt d\<rparr>"

definition tenantMembershipFromModel :: "tenantMembershipModel \<Rightarrow> TenantMembership" where
  "tenantMembershipFromModel model =
     \<lparr>mem_TenantID = mbm_TenantID model,
      mem_UserID = mbm_UserID model,
      mem_JoinedAt = mbm_JoinedAt model,
      mem_CreatedAt = mbm_CreatedAt model\<rparr>"

lemma tenantMembershipModel_copy [simp]: "tenantMembershipFromModel (newTenantMembershipModel d) = d"
  by (simp add: tenantMembershipFromModel_def newTenantMembershipModel_def)

record categoryModel =
  cm_ID :: string
  cm_TenantID :: string
  cm_Name :: string
  cm_Kind :: CategoryKind
  cm_SeededDefault :: bool
  cm_HiddenAt :: "time option"
  cm_CreatedAt :: time
  cm_UpdatedAt :: time

definition newCategoryModel :: "Category \<Rightarrow> categoryModel" where
  "newCategoryModel d =
     \<lparr>cm_ID = cat_ID d,
      cm_TenantID = cat_TenantID d,
      cm_Name = cat_Name d,
      cm_Kind = cat_Kind d,
      cm_SeededDefault = cat_SeededDefault d,
      cm_HiddenAt = cat_HiddenAt d,
      cm_CreatedAt = cat_CreatedAt d,
      cm_UpdatedAt = cat_UpdatedAt d\<rparr>"

definition categoryFromModel :: "categoryModel \<Rightarrow> Category" where
  "categoryFromModel model =
     \<lparr>cat_ID = cm_ID model,
      cat_TenantID = cm_TenantID model,
      cat_Name = cm_Name model,
      cat_Kind = cm_Kind model,
      cat_SeededDefault = cm_SeededDefault model,
      cat_HiddenAt = cm_HiddenAt model,
      cat_CreatedAt = cm_CreatedAt model,
      cat_UpdatedAt = cm_UpdatedAt model\<rparr>"

lemma categoryModel_copy [simp]: "categoryFromModel (newCategoryModel d) = d"
  by (simp add: categoryFromModel_def newCategoryModel_def)

record classificationRuleModel =
  rm_ID :: string
  rm_TenantID :: string
  rm_Position :: int
  rm_MatchType :: ClassificationMatchType
  rm_Condition :: string
  rm_CategoryID :: string
  rm_CreatedAt :: time
  rm_UpdatedAt :: time

definition newClassificationRuleModel :: "ClassificationRule \<Rightarrow> classificationRuleModel" where
  "newClassificationRuleModel rule =
     \<lparr>rm_ID = rule_ID rule,
      rm_TenantID = rule_TenantID rule,
      rm_Position = rule_Position rule,
      rm_MatchType = rule_MatchType rule,
      rm_Condition = rule_Condition rule,
      rm_CategoryID = rule_CategoryID rule,
      rm_CreatedAt = rule_CreatedAt rule,
      rm_UpdatedAt = rule_UpdatedAt rule\<rparr>"

definition classificationRuleFromModel :: "classificationRuleModel \<Rightarrow> ClassificationRule" where
  "classificationRuleFromModel model =
     \<lparr>rule_ID = rm_ID model,
      rule_TenantID = rm_TenantID model,
      rule_Position = rm_Position model,
      rule_MatchType = rm_MatchType model,
      rule_Condition = rm_Condition model,
      rule_CategoryID = rm_CategoryID model,
      rule_TagIDs = [],
      rule_CreatedAt = rm_CreatedAt model,
      rule_UpdatedAt = rm_UpdatedAt model\<rparr>"

record classificationRuleTagModel =
  rtm_RuleID :: string
  rtm_TagID :: string

record tagModel =
  gm_ID :: string
  gm_TenantID :: string
  gm_Name :: string
  gm_HiddenAt :: "time option"
  gm_CreatedAt :: time
  gm_UpdatedAt :: time

definition newTagModel :: "Tag \<Rightarrow> tagModel" where
  "newTagModel d =
     \<lparr>gm_ID = tag_ID d,
      gm_TenantID = tag_TenantID d,
      gm_Name = tag_Name d,
      gm_HiddenAt = tag_HiddenAt d,
      gm_CreatedAt = tag_CreatedAt d,
      gm_UpdatedAt = tag_UpdatedAt d\<rparr>"

definition tagFromModel :: "tagModel \<Rightarrow> Tag" where
  "tagFromModel model =
     \<lparr>tag_ID = gm_ID model,
      tag_TenantID = gm_TenantID model,
      tag_Name = gm_Name model,
      tag_HiddenAt = gm_HiddenAt model,
      tag_CreatedAt = gm_CreatedAt model,
      tag_UpdatedAt = gm_UpdatedAt model\<rparr>"

lemma tagModel_copy [simp]: "tagFromModel (newTagModel d) = d"
  by (simp add: tagFromModel_def newTagModel_def)

section \<open>Accounts\<close>

record accountModel =
  am_ID :: string
  am_TenantID :: string
  am_Name :: string
  am_Currency :: string
  am_Kind :: AccountKind
  am_Provider :: "string option"
  am_ProviderAccountID :: "string option"
  am_HiddenAt :: "time option"
  am_CreatedAt :: time
  am_UpdatedAt :: time

definition newAccountModel :: "Account \<Rightarrow> accountModel" where
  "newAccountModel account =
     \<lparr>am_ID = acc_ID account,
      am_TenantID = acc_TenantID account,
      am_Name = acc_Name account,
      am_Currency = acc_Currency account,
      am_Kind = acc_Kind account,
      am_Provider = map_option la_Provider (acc_LinkedAccount account),
      am_ProviderAccountID = map_option la_ProviderAccountID (acc_LinkedAccount account),
      am_HiddenAt = acc_HiddenAt account,
      am_CreatedAt = acc_CreatedAt account,
      am_UpdatedAt = acc_UpdatedAt account\<rparr>"

text \<open>A string pointer that is read as the empty string when it is nil.\<close>

definition orEmpty :: "string option \<Rightarrow> string" where
  "orEmpty p = (case p of None \<Rightarrow> '''' | Some s \<Rightarrow> s)"

text \<open>The balances are not columns of the table: they come back as zero.\<close>

definition accountFromModel :: "accountModel \<Rightarrow> Account" where
  "accountFromModel model =
     \<lparr>acc_ID = am_ID model,
      acc_TenantID = am_TenantID model,
      acc_Name = am_Name model,
      acc_Currency = am_Currency model,
      acc_Kind = am_Kind model,
      acc_BookedBalanceMinor = 0,
      acc_PendingBalanceMinor = 0,
      acc_LinkedAccount =
        (if am_Provider model \<noteq> None \<or> am_ProviderAccountID model \<noteq> None
         then Some \<lparr>la_Provider = orEmpty (am_Provider model),
                    la_ProviderAccountID = orEmpty (am_ProviderAccountID model)\<rparr>
         else None),
      acc_HiddenAt = am_HiddenAt model,
      acc_CreatedAt = am_CreatedAt model,
      acc_UpdatedAt = am_UpdatedAt model\<rparr>"

section \<open>Transactions\<close>

record transactionModel =
  tm_ID :: string
  tm_TenantID :: string
  tm_AccountID :: string
  tm_Source :: TransactionSource
  tm_Status :: TransactionStatus
  tm_Kind :: TransactionKind
  tm_AmountMinor :: int64
  tm_Currency :: string
  tm_Description :: string
  tm_EffectiveAt :: time
  tm_CategoryID :: "string option"
  tm_TransferGroupID :: "string option"
  tm_TransferMatchedAt :: "time option"
  tm_TransferMatchingExcluded :: bool
  tm_HiddenAt :: "time option"
  tm_OriginalAmountMinor :: "int64 option"
  tm_OriginalCurrency :: "string option"
  tm_OriginalDescription :: "string option"
  tm_OriginalEffectiveAt :: "time option"
  tm_CreatedAt :: time
  tm_UpdatedAt :: time

text \<open>An empty string is stored as NULL.\<close>

definition nonEmptyPointer :: "string \<Rightarrow> string option" where
  "nonEmptyPointer s = (if s \<noteq> '''' then Some s else None)"

definition newTransactionModel :: "Transaction \<Rightarrow> transactionModel" where
  "newTransactionModel transaction =
     \<lparr>tm_ID = tx_ID transaction,
      tm_TenantID = tx_TenantID transaction,
      tm_AccountID = tx_AccountID transaction,
      tm_Source = tx_Source transaction,
      tm_Status = tx_Status transaction,
      tm_Kind = tx_Kind transaction,
      tm_AmountMinor = tx_AmountMinor transaction,
      tm_Currency = tx_Currency transaction,
      tm_Description = tx_Description transaction,
      tm_EffectiveAt = tx_EffectiveAt transaction,
      tm_CategoryID = tx_CategoryID transaction,
      tm_TransferGroupID = tx_TransferGroupID transaction,
      tm_TransferMatchedAt = tx_TransferMatchedAt transaction,
      tm_TransferMatchingExcluded = tx_TransferMatchingExcluded transaction,
      tm_HiddenAt = tx_HiddenAt transaction,
      tm_OriginalAmountMinor = map_option orig_AmountMinor (tx_ProviderOriginal transaction),
      tm_OriginalCurrency =
        Option.bind (tx_ProviderOriginal transaction) (\<lambda>original. nonEmptyPointer (orig_Currency original)),
      tm_OriginalDescription =
        Option.bind (tx_ProviderOriginal transaction) (\<lambda>original. nonEmptyPointer (orig_Description original)),
      tm_OriginalEffectiveAt =
        Option.bind (tx_ProviderOriginal transaction) orig_EffectiveAt,
      tm_CreatedAt = tx_CreatedAt transaction,
      tm_UpdatedAt = tx_UpdatedAt transaction\<rparr>"

definition transactionFromModel :: "transactionModel \<Rightarrow> Transaction" where
  "transactionFromModel model =
     \<lparr>tx_ID = tm_ID model,
      tx_TenantID = tm_TenantID model,
      tx_AccountID = tm_AccountID model,
      tx_Source = tm_Source model,
      tx_Status = tm_Status model,
      tx_Kind = tm_Kind model,
      tx_AmountMinor = tm_AmountMinor model,
      tx_Currency = tm_Currency model,
      tx_Description = tm_Description model,
      tx_EffectiveAt = tm_EffectiveAt model,
      tx_CategoryID = tm_CategoryID model,
      tx_TagIDs = [],
      tx_TransferGroupID = tm_TransferGroupID model,
      tx_TransferMatchedAt = tm_TransferMatchedAt model,
      tx_TransferMatchingExcluded = tm_TransferMatchingExcluded model,
      tx_HiddenAt = tm_HiddenAt model,
      tx_CreatedAt = tm_CreatedAt model,
      tx_UpdatedAt = tm_UpdatedAt model,
      tx_ProviderOriginal =
        (if tm_OriginalAmountMinor model \<noteq> None \<or> tm_OriginalCurrency model \<noteq> None \<or>
            tm_OriginalDescription model \<noteq> None \<or> tm_OriginalEffectiveAt model \<noteq> None
         then Some \<lparr>orig_AmountMinor = (case tm_OriginalAmountMinor model of None \<Rightarrow> 0 | Some a \<Rightarrow> a),
                    orig_Currency = orEmpty (tm_OriginalCurrency model),
                    orig_Description = orEmpty (tm_OriginalDescription model),
                    orig_EffectiveAt = tm_OriginalEffectiveAt model\<rparr>
         else None)\<rparr>"

record transactionTagModel =
  ttm_TransactionID :: string
  ttm_TagID :: string

section \<open>Exchange rates\<close>

text \<open>
  The primary key is a hash of the provider and the two currencies. Only its equality is
  used; it is represented by the text that is hashed.
\<close>

definition makeFXRateID :: "string \<Rightarrow> string \<Rightarrow> string \<Rightarrow> string" where
  "makeFXRateID provider baseCurrency quoteCurrency =
     provider @ [CHR 0x0A] @ baseCurrency @ [CHR 0x0A] @ quoteCurrency"

record currentFXRateModel =
  fm_ID :: string
  fm_Provider :: string
  fm_BaseCurrency :: string
  fm_QuoteCurrency :: string
  fm_EffectiveAt :: time
  fm_LastSuccessfulRefreshAt :: time
  fm_RateValue :: float64
  fm_CreatedAt :: time
  fm_UpdatedAt :: time

definition newCurrentFXRateModel :: "FXRate \<Rightarrow> currentFXRateModel" where
  "newCurrentFXRateModel rate =
     \<lparr>fm_ID = makeFXRateID (fxr_Provider rate) (fxr_BaseCurrency rate) (fxr_QuoteCurrency rate),
      fm_Provider = fxr_Provider rate,
      fm_BaseCurrency = fxr_BaseCurrency rate,
      fm_QuoteCurrency = fxr_QuoteCurrency rate,
      fm_EffectiveAt = fxr_EffectiveAt rate,
      fm_LastSuccessfulRefreshAt = fxr_LastSuccessfulRefreshAt rate,
      fm_RateValue = fxr_Rate rate,
      fm_CreatedAt = fxr_CreatedAt rate,
      fm_UpdatedAt = fxr_UpdatedAt rate\<rparr>"

definition currentFXRateFromModel :: "currentFXRateModel \<Rightarrow> FXRate" where
  "currentFXRateFromModel model =
     \<lparr>fxr_Provider = fm_Provider model,
      fxr_BaseCurrency = fm_BaseCurrency model,
      fxr_QuoteCurrency = fm_QuoteCurrency model,
      fxr_EffectiveAt = fm_EffectiveAt model,
      fxr_RateDate = fm_EffectiveAt model,
      fxr_LastSuccessfulRefreshAt = fm_LastSuccessfulRefreshAt model,
      fxr_Rate = fm_RateValue model,
      fxr_CreatedAt = fm_CreatedAt model,
      fxr_UpdatedAt = fm_UpdatedAt model\<rparr>"

section \<open>Bank connections\<close>

record bankConnectionModel =
  bm_ID :: string
  bm_TenantID :: string
  bm_Provider :: string
  bm_ConnectorID :: ProviderConnectorID
  bm_DisplayName :: string
  bm_ProviderReference :: string
  bm_SecretID :: string
  bm_State :: BankConnectionState
  bm_ReauthRequiredAt :: "time option"
  bm_ReauthReason :: string
  bm_LastSyncJobID :: string
  bm_LastSyncStartedAt :: "time option"
  bm_LastSuccessfulSyncAt :: "time option"
  bm_LastSyncError :: string
  bm_CreatedAt :: time
  bm_UpdatedAt :: time

definition newBankConnectionModel :: "BankConnection \<Rightarrow> bankConnectionModel" where
  "newBankConnectionModel connection =
     \<lparr>bm_ID = bc_ID connection,
      bm_TenantID = bc_TenantID connection,
      bm_Provider = bc_Provider connection,
      bm_ConnectorID = bc_ConnectorID connection,
      bm_DisplayName = bc_DisplayName connection,
      bm_ProviderReference = bc_ProviderReference connection,
      bm_SecretID = bc_SecretID connection,
      bm_State = bc_State connection,
      bm_ReauthRequiredAt = (case bc_Reauth connection of None \<Rightarrow> None | Some r \<Rightarrow> reauth_RequiredAt r),
      bm_ReauthReason = (case bc_Reauth connection of None \<Rightarrow> '''' | Some r \<Rightarrow> reauth_Reason r),
      bm_LastSyncJobID = bc_LastSyncJobID connection,
      bm_LastSyncStartedAt = bc_LastSyncStartedAt connection,
      bm_LastSuccessfulSyncAt = bc_LastSuccessfulSyncAt connection,
      bm_LastSyncError = bc_LastSyncError connection,
      bm_CreatedAt = bc_CreatedAt connection,
      bm_UpdatedAt = bc_UpdatedAt connection\<rparr>"

definition bankConnectionFromModel :: "bankConnectionModel \<Rightarrow> BankConnection" where
  "bankConnectionFromModel model =
     \<lparr>bc_ID = bm_ID model,
      bc_TenantID = bm_TenantID model,
      bc_Provider = bm_Provider model,
      bc_ConnectorID = bm_ConnectorID model,
      bc_DisplayName = bm_DisplayName model,
      bc_ProviderReference = bm_ProviderReference model,
      bc_SecretID = bm_SecretID model,
      bc_State = bm_State model,
      bc_Reauth =
        (if bm_ReauthRequiredAt model \<noteq> None \<or> bm_ReauthReason model \<noteq> ''''
         then Some \<lparr>reauth_RequiredAt = bm_ReauthRequiredAt model, reauth_Reason = bm_ReauthReason model\<rparr>
         else None),
      bc_LastSyncJobID = bm_LastSyncJobID model,
      bc_LastSyncStartedAt = bm_LastSyncStartedAt model,
      bc_LastSuccessfulSyncAt = bm_LastSuccessfulSyncAt model,
      bc_LastSyncError = bm_LastSyncError model,
      bc_CreatedAt = bm_CreatedAt model,
      bc_UpdatedAt = bm_UpdatedAt model\<rparr>"

section \<open>Provider sync rows\<close>

record connectionProviderAccountModel =
  pm_ID :: string
  pm_ConnectionID :: string
  pm_ProviderAccountID :: string
  pm_FinanceAccountID :: string
  pm_Name :: string
  pm_Currency :: string
  pm_IBAN :: string
  pm_MaskedPAN :: string
  pm_LastSuccessfulSyncAt :: "time option"
  pm_CreatedAt :: time
  pm_UpdatedAt :: time

definition newConnectionProviderAccountModel :: "ConnectionProviderAccount \<Rightarrow> connectionProviderAccountModel" where
  "newConnectionProviderAccountModel d =
     \<lparr>pm_ID = pa_ID d,
      pm_ConnectionID = pa_ConnectionID d,
      pm_ProviderAccountID = pa_ProviderAccountID d,
      pm_FinanceAccountID = pa_FinanceAccountID d,
      pm_Name = pa_Name d,
      pm_Currency = pa_Currency d,
      pm_IBAN = pa_IBAN d,
      pm_MaskedPAN = pa_MaskedPAN d,
      pm_LastSuccessfulSyncAt = pa_LastSuccessfulSyncAt d,
      pm_CreatedAt = pa_CreatedAt d,
      pm_UpdatedAt = pa_UpdatedAt d\<rparr>"

definition connectionProviderAccountFromModel :: "connectionProviderAccountModel \<Rightarrow> ConnectionProviderAccount" where
  "connectionProviderAccountFromModel model =
     \<lparr>pa_ID = pm_ID model,
      pa_ConnectionID = pm_ConnectionID model,
      pa_ProviderAccountID = pm_ProviderAccountID model,
      pa_FinanceAccountID = pm_FinanceAccountID model,
      pa_Name = pm_Name model,
      pa_Currency = pm_Currency model,
      pa_IBAN = pm_IBAN model,
      pa_MaskedPAN = pm_MaskedPAN model,
      pa_LastSuccessfulSyncAt = pm_LastSuccessfulSyncAt model,
      pa_CreatedAt = pm_CreatedAt model,
      pa_UpdatedAt = pm_UpdatedAt model\<rparr>"

lemma connectionProviderAccountModel_copy [simp]: "connectionProviderAccountFromModel (newConnectionProviderAccountModel d) = d"
  by (simp add: connectionProviderAccountFromModel_def newConnectionProviderAccountModel_def)

record balanceSnapshotModel =
  bsm_ID :: string
  bsm_ConnectionID :: string
  bsm_ProviderAccountID :: string
  bsm_FinanceAccountID :: string
  bsm_Currency :: string
  bsm_CurrentBalanceMinor :: int64
  bsm_AvailableBalanceMinor :: "int64 option"
  bsm_CapturedAt :: time

definition newBalanceSnapshotModel :: "BalanceSnapshot \<Rightarrow> balanceSnapshotModel" where
  "newBalanceSnapshotModel d =
     \<lparr>bsm_ID = bs_ID d,
      bsm_ConnectionID = bs_ConnectionID d,
      bsm_ProviderAccountID = bs_ProviderAccountID d,
      bsm_FinanceAccountID = bs_FinanceAccountID d,
      bsm_Currency = bs_Currency d,
      bsm_CurrentBalanceMinor = bs_CurrentBalanceMinor d,
      bsm_AvailableBalanceMinor = bs_AvailableBalanceMinor d,
      bsm_CapturedAt = bs_CapturedAt d\<rparr>"

definition balanceSnapshotFromModel :: "balanceSnapshotModel \<Rightarrow> BalanceSnapshot" where
  "balanceSnapshotFromModel model =
     \<lparr>bs_ID = bsm_ID model,
      bs_ConnectionID = bsm_ConnectionID model,
      bs_ProviderAccountID = bsm_ProviderAccountID model,
      bs_FinanceAccountID = bsm_FinanceAccountID model,
      bs_Currency = bsm_Currency model,
      bs_CurrentBalanceMinor = bsm_CurrentBalanceMinor model,
      bs_AvailableBalanceMinor = bsm_AvailableBalanceMinor model,
      bs_CapturedAt = bsm_CapturedAt model\<rparr>"

lemma balanceSnapshotModel_copy [simp]: "balanceSnapshotFromModel (newBalanceSnapshotModel d) = d"
  by (simp add: balanceSnapshotFromModel_def newBalanceSnapshotModel_def)

record providerSnapshotModel =
  psm_ID :: string
  psm_TenantID :: string
  psm_ConnectionID :: string
  psm_FinanceAccountID :: string
  psm_FinanceTransactionID :: string
  psm_Subject :: ProviderSnapshotSubject
  psm_Kind :: ProviderSnapshotKind
  psm_ProviderObjectID :: string
  psm_DocumentJSON :: string
  psm_CapturedAt :: time

definition newProviderSnapshotModel :: "ProviderSnapshot \<Rightarrow> providerSnapshotModel" where
  "newProviderSnapshotModel d =
     \<lparr>psm_ID = ps_ID d,
      psm_TenantID = ps_TenantID d,
      psm_ConnectionID = ps_ConnectionID d,
      psm_FinanceAccountID = ps_FinanceAccountID d,
      psm_FinanceTransactionID = ps_FinanceTransactionID d,
      psm_Subject = ps_Subject d,
      psm_Kind = ps_Kind d,
      psm_ProviderObjectID = ps_ProviderObjectID d,
      psm_DocumentJSON = ps_DocumentJSON d,
      psm_CapturedAt = ps_CapturedAt d\<rparr>"

definition providerSnapshotFromModel :: "providerSnapshotModel \<Rightarrow> ProviderSnapshot" where
  "providerSnapshotFromModel model =
     \<lparr>ps_ID = psm_ID model,
      ps_TenantID = psm_TenantID model,
      ps_ConnectionID = psm_ConnectionID model,
      ps_FinanceAccountID = psm_FinanceAccountID model,
      ps_FinanceTransactionID = psm_FinanceTransactionID model,
      ps_Subject = psm_Subject model,
      ps_Kind = psm_Kind model,
      ps_ProviderObjectID = psm_ProviderObjectID model,
      ps_DocumentJSON = psm_DocumentJSON model,
      ps_CapturedAt = psm_CapturedAt model\<rparr>"

lemma providerSnapshotModel_copy [simp]: "providerSnapshotFromModel (newProviderSnapshotModel d) = d"
  by (simp add: providerSnapshotFromModel_def newProviderSnapshotModel_def)

record providerTransactionMatchModel =
  mm_ID :: string
  mm_ConnectionID :: string
  mm_ProviderAccountID :: string
  mm_ProviderTransactionID :: string
  mm_Fingerprint :: string
  mm_TransactionID :: string
  mm_Status :: TransactionStatus
  mm_CreatedAt :: time
  mm_UpdatedAt :: time

definition newProviderTransactionMatchModel :: "ProviderTransactionMatch \<Rightarrow> providerTransactionMatchModel" where
  "newProviderTransactionMatchModel d =
     \<lparr>mm_ID = m_ID d,
      mm_ConnectionID = m_ConnectionID d,
      mm_ProviderAccountID = m_ProviderAccountID d,
      mm_ProviderTransactionID = m_ProviderTransactionID d,
      mm_Fingerprint = m_Fingerprint d,
      mm_TransactionID = m_TransactionID d,
      mm_Status = m_Status d,
      mm_CreatedAt = m_CreatedAt d,
      mm_UpdatedAt = m_UpdatedAt d\<rparr>"

definition providerTransactionMatchFromModel :: "providerTransactionMatchModel \<Rightarrow> ProviderTransactionMatch" where
  "providerTransactionMatchFromModel model =
     \<lparr>m_ID = mm_ID model,
      m_ConnectionID = mm_ConnectionID model,
      m_ProviderAccountID = mm_ProviderAccountID model,
      m_ProviderTransactionID = mm_ProviderTransactionID model,
      m_Fingerprint = mm_Fingerprint model,
      m_TransactionID = mm_TransactionID model,
      m_Status = mm_Status model,
      m_CreatedAt = mm_CreatedAt model,
      m_UpdatedAt = mm_UpdatedAt model\<rparr>"

lemma providerTransactionMatchModel_copy [simp]: "providerTransactionMatchFromModel (newProviderTransactionMatchModel d) = d"
  by (simp add: providerTransactionMatchFromModel_def newProviderTransactionMatchModel_def)

record providerSyncStateJournalModel =
  jm_JournalID :: int
  jm_ConnectionID :: string
  jm_AttemptedAt :: "time option"
  jm_SucceededAt :: "time option"
  jm_WindowStart :: time
  jm_WindowEnd :: time
  jm_RunID :: string
  jm_JobID :: string
  jm_ErrorSummary :: string
  jm_ObservedAccounts :: int
  jm_CreatedAccounts :: int
  jm_ObservedTransactions :: int
  jm_CreatedTransactions :: int
  jm_UpdatedTransactions :: int
  jm_AmbiguousCreatedTransactions :: int
  jm_CreatedAt :: time

text \<open>The journal id is drawn by the table when the row is inserted.\<close>

definition newProviderSyncStateJournalModel ::
  "ProviderSyncState \<Rightarrow> time \<Rightarrow> int \<Rightarrow> providerSyncStateJournalModel" where
  "newProviderSyncStateJournalModel state createdAt journalID =
     \<lparr>jm_JournalID = journalID,
      jm_ConnectionID = ref_ConnectionID (st_Connection state),
      jm_AttemptedAt = st_AttemptedAt state,
      jm_SucceededAt = st_SucceededAt state,
      jm_WindowStart = win_Start (st_Window state),
      jm_WindowEnd = win_End (st_Window state),
      jm_RunID = st_RunID state,
      jm_JobID = st_JobID state,
      jm_ErrorSummary = st_ErrorSummary state,
      jm_ObservedAccounts = ObservedAccounts (st_AggregateStats state),
      jm_CreatedAccounts = CreatedAccounts (st_AggregateStats state),
      jm_ObservedTransactions = ObservedTransactions (st_AggregateStats state),
      jm_CreatedTransactions = CreatedTransactions (st_AggregateStats state),
      jm_UpdatedTransactions = UpdatedTransactions (st_AggregateStats state),
      jm_AmbiguousCreatedTransactions = AmbiguousCreatedTransactions (st_AggregateStats state),
      jm_CreatedAt = createdAt\<rparr>"

definition providerSyncStateFromJournalModel ::
  "providerSyncStateJournalModel \<Rightarrow> ProviderConnectionRef \<Rightarrow> ProviderSyncState" where
  "providerSyncStateFromJournalModel model connection =
     \<lparr>st_Connection = connection,
      st_AttemptedAt = jm_AttemptedAt model,
      st_SucceededAt = jm_SucceededAt model,
      st_Window = \<lparr>win_Start = jm_WindowStart model, win_End = jm_WindowEnd model\<rparr>,
      st_RunID = jm_RunID model,
      st_JobID = jm_JobID model,
      st_ErrorSummary = jm_ErrorSummary model,
      st_AggregateStats =
        \<lparr>ObservedAccounts = jm_ObservedAccounts model,
         CreatedAccounts = jm_CreatedAccounts model,
         ObservedTransactions = jm_ObservedTransactions model,
         CreatedTransactions = jm_CreatedTransactions model,
         UpdatedTransactions = jm_UpdatedTransactions model,
         AmbiguousCreatedTransactions = jm_AmbiguousCreatedTransactions model\<rparr>\<rparr>"

section \<open>What a row keeps\<close>

lemma transactionModel_round_trip: "transactionFromModel (newTransactionModel t) = t\<lparr>tx_TagIDs := []\<rparr>"
  by (cases "tx_ProviderOriginal t")
    (simp_all add: transactionFromModel_def newTransactionModel_def nonEmptyPointer_def orEmpty_def)

lemma accountModel_round_trip:
  "accountFromModel (newAccountModel a) = a\<lparr>acc_BookedBalanceMinor := 0, acc_PendingBalanceMinor := 0\<rparr>"
  by (cases "acc_LinkedAccount a") (simp_all add: accountFromModel_def newAccountModel_def orEmpty_def)

lemma bankConnectionModel_round_trip:
  "bankConnectionFromModel (newBankConnectionModel c) =
   c\<lparr>bc_Reauth := (if bc_Reauth c = Some \<lparr>reauth_RequiredAt = None, reauth_Reason = ''''\<rparr>
                   then None else bc_Reauth c)\<rparr>"
  by (cases "bc_Reauth c") (auto simp: bankConnectionFromModel_def newBankConnectionModel_def)

lemma journalModel_round_trip:
  "providerSyncStateFromJournalModel (newProviderSyncStateJournalModel s now i) (st_Connection s) = s"
  by (simp add: providerSyncStateFromJournalModel_def newProviderSyncStateJournalModel_def)

text \<open>
  C10. A row gives back the object it was made from, up to what the table does not hold:
  the tags of a transaction, the balances of an account and empty reauthentication
  metadata of a connection. Provider originals with empty texts survive the NULLs they
  are stored as; a journal row read for its own connection gives back the whole state.
\<close>

theorem rows_round_trip:
  "transactionFromModel (newTransactionModel t) = t\<lparr>tx_TagIDs := []\<rparr> \<and>
   accountFromModel (newAccountModel a) = a\<lparr>acc_BookedBalanceMinor := 0, acc_PendingBalanceMinor := 0\<rparr> \<and>
   bankConnectionFromModel (newBankConnectionModel c) =
     c\<lparr>bc_Reauth := (if bc_Reauth c = Some \<lparr>reauth_RequiredAt = None, reauth_Reason = ''''\<rparr>
                     then None else bc_Reauth c)\<rparr> \<and>
   providerSyncStateFromJournalModel (newProviderSyncStateJournalModel s now i) (st_Connection s) = s"
  by (intro conjI transactionModel_round_trip accountModel_round_trip bankConnectionModel_round_trip
      journalModel_round_trip)

end
