(* ===== verification/Contracts.thy ===== *)
theory Contracts
  imports Domain
begin

text \<open>
  The provider side of \<^verbatim>\<open>finance/internal/providers/contracts.go\<close>: what is asked of a
  bank connector and what it answers. A connector is a record of actions over the state,
  because its calls go to a bank.
\<close>

record Envelope =
  env_KeyVersion :: string
  env_Algorithm :: string
  env_Nonce :: string
  env_Ciphertext :: string

record ConnectionSecret =
  sec_ID :: string
  sec_Provider :: string
  sec_Reference :: string
  sec_Envelope :: Envelope
  sec_CreatedAt :: time
  sec_UpdatedAt :: time

record ConnectorCapabilities =
  SupportsStartLink :: bool
  SupportsFinishLink :: bool
  RequiresRedirectCode :: bool
  SupportsTokenLink :: bool
  SupportsFetch :: bool

record ProviderProfile =
  prof_ProviderID :: ProviderID
  prof_ConnectorID :: ProviderConnectorID
  prof_DisplayName :: string
  prof_CountryCode :: string
  prof_MarketSegment :: string

definition PKOProfile :: ProviderProfile where
  "PKOProfile = \<lparr>prof_ProviderID = ProviderIDPKO, prof_ConnectorID = ProviderConnectorIDEnableBanking,
     prof_DisplayName = ''PKO Bank Polski'', prof_CountryCode = ''PL'', prof_MarketSegment = ''personal''\<rparr>"

record StartLinkRequest =
  slq_Profile :: ProviderProfile
  slq_RedirectURL :: string
  slq_BrowserCallbackURL :: string

record StartLinkResult =
  slr_State :: string
  slr_ProviderReference :: string
  slr_AuthorizationURL :: string
  slr_PendingDocument :: string

record FinishLinkRequest =
  flq_Profile :: ProviderProfile
  flq_State :: string
  flq_Code :: string
  flq_Start :: StartLinkResult

record LinkTokenRequest =
  ltq_Profile :: ProviderProfile
  ltq_Token :: string

record LinkResult =
  lr_DisplayName :: string
  lr_ProviderReference :: string
  lr_Secret :: string
  lr_State :: BankConnectionState
  lr_ConnectionSnapshot :: "ProviderSnapshotObservation option"

record FetchRequest =
  fr_Connection :: ProviderConnectionRef
  fr_Secret :: ConnectionSecret
  fr_RequestedWindow :: ProviderSyncWindow
  fr_SyncState :: "ProviderSyncState option"

record 's Connector =
  con_ConnectorID :: ProviderConnectorID
  con_Capabilities :: ConnectorCapabilities
  con_StartLink :: "StartLinkRequest \<Rightarrow> ('s, StartLinkResult) action"
  con_FinishLink :: "FinishLinkRequest \<Rightarrow> ('s, LinkResult) action"
  con_LinkToken :: "LinkTokenRequest \<Rightarrow> ('s, LinkResult) action"
  con_Fetch :: "FetchRequest \<Rightarrow> ('s, ProviderSyncBatch) action"

end
