(* ===== verification/OperationModels.thy ===== *)
theory OperationModels
  imports Models Contracts
begin

text \<open>
  The objects and rows of the operations around the ledger: the schedules of bank syncs
  and of exchange-rate refreshes (\<^verbatim>\<open>finance/domain/bank_connection.go\<close>,
  \<^verbatim>\<open>fx_refresh_schedule.go\<close>), the stored secrets of the banks, and the two tables of the
  message transport (\<^verbatim>\<open>internal/appdispatch\<close>). The rows are those of
  \<^verbatim>\<open>finance/persistence/models.go\<close>.
\<close>

section \<open>Schedules\<close>

record BankConnectionSchedule =
  sch_ConnectionID :: string
  sch_Interval :: duration
  sch_NextRunAt :: "time option"
  sch_LastScheduledAt :: "time option"
  sch_LastStartedAt :: "time option"
  sch_LastCompletedAt :: "time option"
  sch_LastJobID :: string
  sch_Enabled :: bool
  sch_CreatedAt :: time
  sch_UpdatedAt :: time

record FXRefreshSchedule =
  fxs_ScheduleID :: string
  fxs_Provider :: string
  fxs_Interval :: duration
  fxs_NextRunAt :: "time option"
  fxs_LastScheduledAt :: "time option"
  fxs_LastJobID :: string
  fxs_Enabled :: bool
  fxs_CreatedAt :: time
  fxs_UpdatedAt :: time

record bankConnectionScheduleModel =
  scm_ConnectionID :: string
  scm_IntervalSeconds :: int
  scm_NextRunAt :: "time option"
  scm_LastScheduledAt :: "time option"
  scm_LastStartedAt :: "time option"
  scm_LastCompletedAt :: "time option"
  scm_LastJobID :: string
  scm_Enabled :: bool
  scm_CreatedAt :: time
  scm_UpdatedAt :: time

record fxRefreshScheduleModel =
  fxm_ScheduleID :: string
  fxm_Provider :: string
  fxm_IntervalSeconds :: int
  fxm_NextRunAt :: "time option"
  fxm_LastScheduledAt :: "time option"
  fxm_LastJobID :: string
  fxm_Enabled :: bool
  fxm_CreatedAt :: time
  fxm_UpdatedAt :: time

text \<open>\<^verbatim>\<open>time.Second\<close>, and the division of Go, which truncates towards zero.\<close>

definition second_ns :: duration where "second_ns = 1000000000"

definition wholeSeconds :: "duration \<Rightarrow> int" where
  "wholeSeconds d = sgn d * (\<bar>d\<bar> div second_ns)"

definition newBankConnectionScheduleModel :: "BankConnectionSchedule \<Rightarrow> bankConnectionScheduleModel" where
  "newBankConnectionScheduleModel schedule =
     \<lparr>scm_ConnectionID = sch_ConnectionID schedule,
      scm_IntervalSeconds = wholeSeconds (sch_Interval schedule),
      scm_NextRunAt = sch_NextRunAt schedule,
      scm_LastScheduledAt = sch_LastScheduledAt schedule,
      scm_LastStartedAt = sch_LastStartedAt schedule,
      scm_LastCompletedAt = sch_LastCompletedAt schedule,
      scm_LastJobID = sch_LastJobID schedule,
      scm_Enabled = sch_Enabled schedule,
      scm_CreatedAt = sch_CreatedAt schedule,
      scm_UpdatedAt = sch_UpdatedAt schedule\<rparr>"

definition bankConnectionScheduleFromModel :: "bankConnectionScheduleModel \<Rightarrow> BankConnectionSchedule" where
  "bankConnectionScheduleFromModel model =
     \<lparr>sch_ConnectionID = scm_ConnectionID model,
      sch_Interval = scm_IntervalSeconds model * second_ns,
      sch_NextRunAt = scm_NextRunAt model,
      sch_LastScheduledAt = scm_LastScheduledAt model,
      sch_LastStartedAt = scm_LastStartedAt model,
      sch_LastCompletedAt = scm_LastCompletedAt model,
      sch_LastJobID = scm_LastJobID model,
      sch_Enabled = scm_Enabled model,
      sch_CreatedAt = scm_CreatedAt model,
      sch_UpdatedAt = scm_UpdatedAt model\<rparr>"

definition newFXRefreshScheduleModel :: "FXRefreshSchedule \<Rightarrow> fxRefreshScheduleModel" where
  "newFXRefreshScheduleModel schedule =
     \<lparr>fxm_ScheduleID = fxs_ScheduleID schedule,
      fxm_Provider = fxs_Provider schedule,
      fxm_IntervalSeconds = wholeSeconds (fxs_Interval schedule),
      fxm_NextRunAt = fxs_NextRunAt schedule,
      fxm_LastScheduledAt = fxs_LastScheduledAt schedule,
      fxm_LastJobID = fxs_LastJobID schedule,
      fxm_Enabled = fxs_Enabled schedule,
      fxm_CreatedAt = fxs_CreatedAt schedule,
      fxm_UpdatedAt = fxs_UpdatedAt schedule\<rparr>"

definition fxRefreshScheduleFromModel :: "fxRefreshScheduleModel \<Rightarrow> FXRefreshSchedule" where
  "fxRefreshScheduleFromModel model =
     \<lparr>fxs_ScheduleID = fxm_ScheduleID model,
      fxs_Provider = fxm_Provider model,
      fxs_Interval = fxm_IntervalSeconds model * second_ns,
      fxs_NextRunAt = fxm_NextRunAt model,
      fxs_LastScheduledAt = fxm_LastScheduledAt model,
      fxs_LastJobID = fxm_LastJobID model,
      fxs_Enabled = fxm_Enabled model,
      fxs_CreatedAt = fxm_CreatedAt model,
      fxs_UpdatedAt = fxm_UpdatedAt model\<rparr>"

section \<open>Secrets\<close>

record connectionSecretModel =
  sem_ID :: string
  sem_Provider :: string
  sem_Reference :: string
  sem_KeyVersion :: string
  sem_Algorithm :: string
  sem_Nonce :: string
  sem_Ciphertext :: string
  sem_CreatedAt :: time
  sem_UpdatedAt :: time

definition newConnectionSecretModel :: "ConnectionSecret \<Rightarrow> connectionSecretModel" where
  "newConnectionSecretModel secret =
     \<lparr>sem_ID = sec_ID secret, sem_Provider = sec_Provider secret, sem_Reference = sec_Reference secret,
      sem_KeyVersion = env_KeyVersion (sec_Envelope secret), sem_Algorithm = env_Algorithm (sec_Envelope secret),
      sem_Nonce = env_Nonce (sec_Envelope secret), sem_Ciphertext = env_Ciphertext (sec_Envelope secret),
      sem_CreatedAt = sec_CreatedAt secret, sem_UpdatedAt = sec_UpdatedAt secret\<rparr>"

definition connectionSecretFromModel :: "connectionSecretModel \<Rightarrow> ConnectionSecret" where
  "connectionSecretFromModel model =
     \<lparr>sec_ID = sem_ID model, sec_Provider = sem_Provider model, sec_Reference = sem_Reference model,
      sec_Envelope = \<lparr>env_KeyVersion = sem_KeyVersion model, env_Algorithm = sem_Algorithm model,
        env_Nonce = sem_Nonce model, env_Ciphertext = sem_Ciphertext model\<rparr>,
      sec_CreatedAt = sem_CreatedAt model, sec_UpdatedAt = sem_UpdatedAt model\<rparr>"

lemma connectionSecretModel_copy [simp]: "connectionSecretFromModel (newConnectionSecretModel secret) = secret"
  by (simp add: connectionSecretFromModel_def newConnectionSecretModel_def)

section \<open>Messages\<close>

record TransportMessage =
  msg_ID :: string
  msg_Topic :: string
  msg_Payload :: string
  msg_Metadata :: "(string \<times> string) list"

record publicationRow =
  pub_IdempotencyKey :: string
  pub_MessageID :: string
  pub_Topic :: string
  pub_PayloadHash :: string

end
