(* ===== verification/ProviderSnapshots.thy ===== *)
theory ProviderSnapshots
  imports Domain
begin

text \<open>
  Provider source documents (\<^verbatim>\<open>finance/domain/provider_snapshot.go\<close>): the validation of
  a snapshot's attachment and the sanitizer that removes credential-like fields from its
  JSON document. A decoded document (Go's \<^verbatim>\<open>any\<close>) is the datatype \<open>json\<close>: an object is the
  list of its fields, a number keeps the text the codec gives it. The \<^verbatim>\<open>encoding/json\<close>
  functions the code calls are the argument \<open>json_codec\<close>.
\<close>

datatype json =
    JNull
  | JBool bool
  | JNumber string
  | JString string
  | JArray "json list"
  | JObject "(string \<times> json) list"

record json_codec =
  json_Valid :: "string \<Rightarrow> bool"
  json_Unmarshal :: "string \<Rightarrow> go_error + json"
  json_Marshal :: "json \<Rightarrow> go_error + string"

section \<open>Validation\<close>

definition supportedProviderSnapshotSubject :: "ProviderSnapshotSubject \<Rightarrow> bool" where
  "supportedProviderSnapshotSubject subject =
     (case subject of
        ProviderSnapshotSubjectConnection \<Rightarrow> True
      | ProviderSnapshotSubjectAccount \<Rightarrow> True
      | ProviderSnapshotSubjectTransaction \<Rightarrow> True
      | ProviderSnapshotSubjectOther _ \<Rightarrow> False)"

definition supportedProviderSnapshotKind :: "ProviderSnapshotKind \<Rightarrow> bool" where
  "supportedProviderSnapshotKind kind =
     (case kind of
        ProviderSnapshotKindConnection \<Rightarrow> True
      | ProviderSnapshotKindAccount \<Rightarrow> True
      | ProviderSnapshotKindAccountBalance \<Rightarrow> True
      | ProviderSnapshotKindTransaction \<Rightarrow> True
      | ProviderSnapshotKindOther _ \<Rightarrow> False)"

definition validateAttachment :: "ProviderSnapshot \<Rightarrow> go_error option" where
  "validateAttachment s =
     (case ps_Subject s of
        ProviderSnapshotSubjectConnection \<Rightarrow>
          if ps_FinanceAccountID s \<noteq> '''' \<or> ps_FinanceTransactionID s \<noteq> ''''
          then Some (Errorf ''connection snapshot must not identify a finance account or transaction'')
          else if ps_Kind s \<noteq> ProviderSnapshotKindConnection
          then Some (Errorf ''connection snapshot kind must be connection'')
          else None
      | ProviderSnapshotSubjectAccount \<Rightarrow>
          if TrimSpace (ps_FinanceAccountID s) = ''''
          then Some (Errorf ''account snapshot finance account id is required'')
          else if ps_FinanceTransactionID s \<noteq> ''''
          then Some (Errorf ''account snapshot must not identify a finance transaction'')
          else if ps_Kind s \<noteq> ProviderSnapshotKindAccount \<and> ps_Kind s \<noteq> ProviderSnapshotKindAccountBalance
          then Some (Errorf ''account snapshot kind must be account or account_balance'')
          else None
      | ProviderSnapshotSubjectTransaction \<Rightarrow>
          if TrimSpace (ps_FinanceAccountID s) = ''''
          then Some (Errorf ''transaction snapshot finance account id is required'')
          else if TrimSpace (ps_FinanceTransactionID s) = ''''
          then Some (Errorf ''transaction snapshot finance transaction id is required'')
          else if ps_Kind s \<noteq> ProviderSnapshotKindTransaction
          then Some (Errorf ''transaction snapshot kind must be transaction'')
          else None
      | ProviderSnapshotSubjectOther _ \<Rightarrow> None)"

fun firstBlankField :: "(string \<times> string) list \<Rightarrow> go_error option" where
  "firstBlankField [] = None"
| "firstBlankField ((name, value) # rest) =
     (if TrimSpace value = '''' then Some (Errorf (name @ '' is required'')) else firstBlankField rest)"

definition snapshotValidate :: "json_codec \<Rightarrow> ProviderSnapshot \<Rightarrow> go_error option" where
  "snapshotValidate codec s =
     (case firstBlankField [(''snapshot id'', ps_ID s), (''tenant id'', ps_TenantID s),
             (''connection id'', ps_ConnectionID s), (''provider object id'', ps_ProviderObjectID s)] of
        Some e \<Rightarrow> Some e
      | None \<Rightarrow>
          if \<not> supportedProviderSnapshotSubject (ps_Subject s)
          then Some (Errorf ''provider snapshot subject is unsupported'')
          else if \<not> supportedProviderSnapshotKind (ps_Kind s)
          then Some (Errorf ''provider snapshot kind is unsupported'')
          else if \<not> json_Valid codec (ps_DocumentJSON s)
          then Some (Errorf ''provider snapshot document must be valid JSON'')
          else if IsZero (ps_CapturedAt s)
          then Some (Errorf ''provider snapshot capture time is required'')
          else validateAttachment s)"

section \<open>The sanitizer\<close>

definition credentialLikeProviderSnapshotKey :: "string \<Rightarrow> bool" where
  "credentialLikeProviderSnapshotKey key =
     (let normalized = filter (\<lambda>c. c \<noteq> CHR ''_'' \<and> c \<noteq> CHR ''-'' \<and> c \<noteq> CHR '' '') (ToLower key)
      in containsString normalized ''secret'' \<or>
         containsString normalized ''token'' \<or>
         normalized = ''authorization'' \<or>
         containsString normalized ''bearer'' \<or>
         containsString normalized ''privatekey'' \<or>
         containsString normalized ''jwt'' \<or>
         containsString normalized ''signature'' \<or>
         containsString normalized ''apikey'' \<or>
         containsString normalized ''accesskey'' \<or>
         containsString normalized ''password'' \<or>
         containsString normalized ''credential'' \<or>
         containsString normalized ''passphrase'')"

lemma json_field_size:
  "(k, v) \<in> set fs \<Longrightarrow> size v < Suc (size_list (size_prod (\<lambda>x. 0) size) fs)"
  by (induction fs) auto

function sanitizeProviderSnapshotValue :: "json \<Rightarrow> json" where
  "sanitizeProviderSnapshotValue (JObject typed) =
     JObject (map (\<lambda>(key, item). (key, sanitizeProviderSnapshotValue item))
       (filter (\<lambda>(key, item). \<not> credentialLikeProviderSnapshotKey key) typed))"
| "sanitizeProviderSnapshotValue (JArray typed) = JArray (map sanitizeProviderSnapshotValue typed)"
| "sanitizeProviderSnapshotValue JNull = JNull"
| "sanitizeProviderSnapshotValue (JBool b) = JBool b"
| "sanitizeProviderSnapshotValue (JNumber n) = JNumber n"
| "sanitizeProviderSnapshotValue (JString s) = JString s"
  by pat_completeness auto
termination
  by (relation "measure size") (auto dest: json_field_size simp: less_Suc_eq_le size_list_estimation')

definition SanitizeProviderSnapshotJSON :: "json_codec \<Rightarrow> string \<Rightarrow> go_error + string" where
  "SanitizeProviderSnapshotJSON codec document =
     (case json_Unmarshal codec document of
        Inl e \<Rightarrow> Inl e
      | Inr value \<Rightarrow> json_Marshal codec (sanitizeProviderSnapshotValue value))"

section \<open>What is left of a document\<close>

datatype json_step = Field string | Item nat

text \<open>The value a path of field names and array positions leads to.\<close>

fun json_at :: "json \<Rightarrow> json_step list \<Rightarrow> json option" where
  "json_at v [] = Some v"
| "json_at (JObject fs) (Field k # path) =
     (case map_of fs k of None \<Rightarrow> None | Some v \<Rightarrow> json_at v path)"
| "json_at (JArray items) (Item i # path) =
     (if i < length items then json_at (items ! i) path else None)"
| "json_at _ _ = None"

fun credential_step :: "json_step \<Rightarrow> bool" where
  "credential_step (Field k) = credentialLikeProviderSnapshotKey k"
| "credential_step (Item i) = False"

lemma map_of_sanitized:
  "map_of (map (\<lambda>(key, item). (key, f item)) (filter (\<lambda>(key, item). \<not> P key) fs)) k =
   (if P k then None else map_option f (map_of fs k))"
  by (induction fs) auto

lemma sanitize_at:
  "json_at (sanitizeProviderSnapshotValue v) path =
   (if \<exists>s \<in> set path. credential_step s then None
    else map_option sanitizeProviderSnapshotValue (json_at v path))"
proof (induction v path rule: json_at.induct)
  case (2 fs k path)
  then show ?case by (auto simp: map_of_sanitized split: option.splits)
qed auto

lemma sanitize_idempotent:
  "sanitizeProviderSnapshotValue (sanitizeProviderSnapshotValue v) = sanitizeProviderSnapshotValue v"
  by (induction v rule: sanitizeProviderSnapshotValue.induct)
    (auto simp: filter_map comp_def case_prod_unfold)

text \<open>
  C9. Sanitizing a provider document removes what is reached through a credential-like
  field name, at every depth and inside arrays, and nothing else: a path that meets no
  such name leads to the same value as before (sanitized in turn), a path that meets one
  leads nowhere. Sanitizing again changes nothing.
\<close>

theorem sanitize_removes_exactly_credentials:
  "json_at (sanitizeProviderSnapshotValue v) path =
     (if list_ex credential_step path then None
      else map_option sanitizeProviderSnapshotValue (json_at v path)) \<and>
   sanitizeProviderSnapshotValue (sanitizeProviderSnapshotValue v) = sanitizeProviderSnapshotValue v"
  by (simp add: sanitize_at list_ex_iff sanitize_idempotent)

end
