(* ===== verification/Database.thy ===== *)
theory Database
  imports OperationModels ProviderSnapshots
begin

text \<open>
  The database the stores of \<^verbatim>\<open>finance/persistence\<close> talk to: the tables, the SQL
  statements the stores write (\<^verbatim>\<open>INSERT ... ON CONFLICT DO UPDATE\<close>, \<^verbatim>\<open>SELECT\<close> with a
  filter and an order, \<^verbatim>\<open>UPDATE\<close>), transactions that roll back, and the sources of ids
  and times the services draw from. A table is the list of its rows in insertion order.

  The database itself is not part of the repository. What may fail in it is an argument:
  \<open>w_fault\<close> says which executed statement fails, and with which error; every theorem
  holds for all of them. A string column is ordered by its bytes. The banks are outside
  too: \<open>w_bank n\<close> is what the \<open>n\<close>-th fetch answers to a request. So is the caller that may
  cancel: \<open>w_context n\<close> is what the \<open>n\<close>-th \<^verbatim>\<open>ctx.Err()\<close> returns.
\<close>

record Tables =
  t_tenants :: "tenantModel list"
  t_invites :: "tenantInviteModel list"
  t_memberships :: "tenantMembershipModel list"
  t_accounts :: "accountModel list"
  t_categories :: "categoryModel list"
  t_tags :: "tagModel list"
  t_rules :: "classificationRuleModel list"
  t_ruleTags :: "classificationRuleTagModel list"
  t_fxRates :: "currentFXRateModel list"
  t_transactions :: "transactionModel list"
  t_transactionTags :: "transactionTagModel list"
  t_bankConnections :: "bankConnectionModel list"
  t_providerAccounts :: "connectionProviderAccountModel list"
  t_balanceSnapshots :: "balanceSnapshotModel list"
  t_providerSnapshots :: "providerSnapshotModel list"
  t_matches :: "providerTransactionMatchModel list"
  t_journal :: "providerSyncStateJournalModel list"
  t_journalNext :: int
  t_outbox :: "BankSyncWindowCompleted list"
  t_schedules :: "bankConnectionScheduleModel list"
  t_fxSchedules :: "fxRefreshScheduleModel list"
  t_messages :: "TransportMessage list"
  t_publications :: "publicationRow list"

record World =
  w_tables :: Tables
  w_inTransaction :: bool
  w_statement :: nat
  w_idsDrawn :: nat
  w_timesRead :: nat
  w_fault :: "nat \<Rightarrow> go_error option"
  w_idSource :: "nat \<Rightarrow> string"
  w_clock :: "nat \<Rightarrow> time"
  w_json :: json_codec
  w_contextChecks :: nat
  w_context :: "nat \<Rightarrow> go_error option"
  w_fetches :: nat
  w_bank :: "nat \<Rightarrow> FetchRequest \<Rightarrow> go_error + ProviderSyncBatch"

section \<open>Statements\<close>

definition execSQL :: "(Tables \<Rightarrow> (go_error + 'a) \<times> Tables) \<Rightarrow> (World, 'a) action" where
  "execSQL run w =
     (case w_fault w (w_statement w) of
        Some e \<Rightarrow> (Inl e, w\<lparr>w_statement := Suc (w_statement w)\<rparr>)
      | None \<Rightarrow>
          (case run (w_tables w) of
             (r, tables) \<Rightarrow> (r, w\<lparr>w_statement := Suc (w_statement w), w_tables := tables\<rparr>)))"

definition readSQL :: "(Tables \<Rightarrow> 'a) \<Rightarrow> (World, 'a) action" where
  "readSQL query = execSQL (\<lambda>t. (Inr (query t), t))"

definition writeSQL :: "(Tables \<Rightarrow> Tables) \<Rightarrow> (World, unit) action" where
  "writeSQL change = execSQL (\<lambda>t. (Inr (), change t))"

text \<open>
  A transaction: opening it is a statement that may fail, an error of its body or of the
  commit puts the tables back.
\<close>

definition transactionSQL :: "(World, 'a) action \<Rightarrow> (World, 'a) action" where
  "transactionSQL body =
     bindA (readSQL (\<lambda>t. t)) (\<lambda>before w.
       case bindA body (\<lambda>a. bindA (readSQL (\<lambda>_. ())) (\<lambda>_. returnA a)) (w\<lparr>w_inTransaction := True\<rparr>) of
         (Inl e, w') \<Rightarrow> (Inl e, w'\<lparr>w_tables := before, w_inTransaction := w_inTransaction w\<rparr>)
       | (Inr a, w') \<Rightarrow> (Inr a, w'\<lparr>w_inTransaction := w_inTransaction w\<rparr>))"

definition drawID :: "World \<Rightarrow> string \<times> World" where
  "drawID w = (w_idSource w (w_idsDrawn w), w\<lparr>w_idsDrawn := Suc (w_idsDrawn w)\<rparr>)"

definition readClock :: "World \<Rightarrow> time \<times> World" where
  "readClock w = (w_clock w (w_timesRead w), w\<lparr>w_timesRead := Suc (w_timesRead w)\<rparr>)"

definition contextErr :: "World \<Rightarrow> go_error option \<times> World" where
  "contextErr w = (w_context w (w_contextChecks w), w\<lparr>w_contextChecks := Suc (w_contextChecks w)\<rparr>)"

definition fetchFromBank :: "FetchRequest \<Rightarrow> (World, ProviderSyncBatch) action" where
  "fetchFromBank request w = (w_bank w (w_fetches w) request, w\<lparr>w_fetches := Suc (w_fetches w)\<rparr>)"

text \<open>\<^verbatim>\<open>ORDER BY key ASC\<close> and \<^verbatim>\<open>DESC\<close>; \<^verbatim>\<open>First\<close> reads one row.\<close>

definition orderAsc :: "('r \<Rightarrow> 'k::linorder) \<Rightarrow> 'r list \<Rightarrow> 'r list" where
  "orderAsc key rows = sort_key key rows"

definition orderDesc :: "('r \<Rightarrow> 'k::linorder) \<Rightarrow> 'r list \<Rightarrow> 'r list" where
  "orderDesc key rows = rev (sort_key key rows)"

fun firstRow :: "'r list \<Rightarrow> 'r option" where
  "firstRow [] = None"
| "firstRow (r # rs) = Some r"

section \<open>Inserts that update on a conflict\<close>

definition insertOnConflict :: "('r \<Rightarrow> 'k) \<Rightarrow> ('r \<Rightarrow> 'r \<Rightarrow> 'r) \<Rightarrow> 'r \<Rightarrow> 'r list \<Rightarrow> 'r list" where
  "insertOnConflict key update row rows =
     (if \<exists>r \<in> set rows. key r = key row
      then map (\<lambda>r. if key r = key row then update r row else r) rows
      else rows @ [row])"

definition lookupRow :: "('r \<Rightarrow> 'k) \<Rightarrow> 'k \<Rightarrow> 'r list \<Rightarrow> 'r option" where
  "lookupRow key k rows = firstRow (filter (\<lambda>r. key r = k) rows)"

lemma firstRow_Some: "firstRow xs = Some x \<Longrightarrow> x \<in> set xs"
  by (cases xs) auto

lemma firstRow_None [simp]: "firstRow xs = None \<longleftrightarrow> xs = []"
  by (cases xs) auto

lemma lookupRow_Some: "lookupRow key k rows = Some r \<Longrightarrow> r \<in> set rows \<and> key r = k"
  by (auto simp: lookupRow_def dest: firstRow_Some)

lemma lookupRow_None [simp]: "lookupRow key k rows = None \<longleftrightarrow> k \<notin> key ` set rows"
  by (auto simp: lookupRow_def filter_empty_conv)

lemma filter_distinct_key:
  "distinct (map key rows) \<Longrightarrow> r \<in> set rows \<Longrightarrow> filter (\<lambda>x. key x = key r) rows = [r]"
  by (induction rows) (auto simp: filter_empty_conv intro: rev_image_eqI)

lemma lookupRow_distinct:
  "distinct (map key rows) \<Longrightarrow> r \<in> set rows \<Longrightarrow> lookupRow key (key r) rows = Some r"
  by (simp add: lookupRow_def filter_distinct_key)

text \<open>A row that has no conflict partner must still have a fresh primary key.\<close>

definition upsertRows ::
  "('r \<Rightarrow> 'k) \<Rightarrow> ('r \<Rightarrow> string) \<Rightarrow> ('r \<Rightarrow> 'r \<Rightarrow> 'r) \<Rightarrow> 'r \<Rightarrow> 'r list \<Rightarrow> go_error + 'r list" where
  "upsertRows key primary update row rows =
     (if key row \<notin> key ` set rows \<and> primary row \<in> primary ` set rows
      then Inl (Sentinel DatabaseUniqueViolation)
      else Inr (insertOnConflict key update row rows))"

definition insertRows :: "('r \<Rightarrow> string) \<Rightarrow> 'r \<Rightarrow> 'r list \<Rightarrow> go_error + 'r list" where
  "insertRows primary row rows =
     (if primary row \<in> primary ` set rows then Inl (Sentinel DatabaseUniqueViolation)
      else Inr (rows @ [row]))"

text \<open>
  The contract of a table written by such inserts: the update keeps the conflict key of
  the stored row. What a client may rely on is proved once, here.
\<close>

locale conflict_table =
  fixes key :: "'r \<Rightarrow> 'k" and update :: "'r \<Rightarrow> 'r \<Rightarrow> 'r"
  assumes key_update: "key old = key new \<Longrightarrow> key (update old new) = key old"
begin

lemma keys_insert:
  "map key (insertOnConflict key update row rows) =
   (if key row \<in> key ` set rows then map key rows else map key rows @ [key row])"
proof -
  have upd: "map key (map (\<lambda>r. if key r = key row then update r row else r) rows) = map key rows"
    by (simp add: key_update)
  have exists: "(\<exists>r \<in> set rows. key r = key row) \<longleftrightarrow> key row \<in> key ` set rows"
    by (simp add: image_iff eq_commute [of _ "key row"])
  show ?thesis
    unfolding insertOnConflict_def exists using upd by simp
qed

lemma distinct_insert:
  "distinct (map key rows) \<Longrightarrow> distinct (map key (insertOnConflict key update row rows))"
  by (auto simp: keys_insert)

lemma filter_insert:
  "filter (\<lambda>r. key r = k) (insertOnConflict key update row rows) =
   (if k \<noteq> key row then filter (\<lambda>r. key r = k) rows
    else if key row \<in> key ` set rows then map (\<lambda>r. update r row) (filter (\<lambda>r. key r = k) rows)
    else [row])"
proof -
  have upd: "filter (\<lambda>r. key r = k) (map (\<lambda>r. if key r = key row then update r row else r) rows) =
      (if k \<noteq> key row then filter (\<lambda>r. key r = k) rows
       else map (\<lambda>r. update r row) (filter (\<lambda>r. key r = k) rows))"
    by (induction rows) (auto simp: key_update)
  have exists: "(\<exists>r \<in> set rows. key r = key row) \<longleftrightarrow> key row \<in> key ` set rows"
    by (simp add: image_iff eq_commute [of _ "key row"])
  have none: "k = key row \<Longrightarrow> key row \<notin> key ` set rows \<Longrightarrow> filter (\<lambda>r. key r = k) rows = []"
    by (auto simp: filter_empty_conv image_iff)
  show ?thesis
  proof (cases "key row \<in> key ` set rows")
    case True
    then show ?thesis unfolding insertOnConflict_def exists by (simp only: upd simp_thms if_True)
  next
    case False
    with none show ?thesis unfolding insertOnConflict_def exists by auto
  qed
qed

lemma lookup_insert:
  "lookupRow key k (insertOnConflict key update row rows) =
   (if k \<noteq> key row then lookupRow key k rows
    else case lookupRow key k rows of None \<Rightarrow> Some row | Some old \<Rightarrow> Some (update old row))"
proof (cases "filter (\<lambda>r. key r = k) rows")
  case Nil
  then have "k \<notin> key ` set rows" by (auto simp: filter_empty_conv)
  with Nil show ?thesis by (auto simp: lookupRow_def filter_insert)
next
  case (Cons r rs)
  then have "k \<in> key ` set rows" by (metis (mono_tags) filter_empty_conv imageI list.distinct(1))
  with Cons show ?thesis by (cases "k = key row") (auto simp: lookupRow_def filter_insert)
qed

lemma insert_keeps_others:
  "r \<in> set rows \<Longrightarrow> key r \<noteq> key row \<Longrightarrow> r \<in> set (insertOnConflict key update row rows)"
  by (force simp: insertOnConflict_def)

lemma insert_origin:
  "r \<in> set (insertOnConflict key update row rows) \<Longrightarrow>
   r \<in> set rows \<or> r = row \<or> (\<exists>old \<in> set rows. key old = key row \<and> r = update old row)"
  by (auto simp: insertOnConflict_def split: if_splits)

lemma upsert_key:
  "upsertRows key primary update row rows = Inr rows' \<Longrightarrow> distinct (map key rows) \<Longrightarrow> distinct (map key rows')"
  by (auto simp: upsertRows_def distinct_insert split: if_splits)

lemma upsert_primary:
  assumes "upsertRows key primary update row rows = Inr rows'"
    and "\<And>old. primary (update old row) = primary old" and "distinct (map primary rows)"
  shows "distinct (map primary rows')"
proof (cases "\<exists>r \<in> set rows. key r = key row")
  case True
  then have "rows' = map (\<lambda>r. if key r = key row then update r row else r) rows"
    using assms(1) by (auto simp: upsertRows_def insertOnConflict_def split: if_splits)
  moreover have "map primary (map (\<lambda>r. if key r = key row then update r row else r) rows) = map primary rows"
    using assms(2) by simp
  ultimately show ?thesis using assms(3) by (metis (no_types))
next
  case False
  then have "rows' = rows @ [row]" "primary row \<notin> primary ` set rows"
    using assms(1) by (auto simp: upsertRows_def insertOnConflict_def image_iff split: if_splits)
  then show ?thesis using assms(3) by simp
qed

lemma upsert_origin:
  "upsertRows key primary update row rows = Inr rows' \<Longrightarrow> r \<in> set rows' \<Longrightarrow>
   r \<in> set rows \<or> r = row \<or> (\<exists>old \<in> set rows. key old = key row \<and> r = update old row)"
  by (auto simp: upsertRows_def dest: insert_origin split: if_splits)

lemma upsert_keeps:
  assumes "upsertRows key primary update row rows = Inr rows'" and "r \<in> set rows"
  shows "r \<in> set rows' \<or> update r row \<in> set rows' \<and> key r = key row"
  using assms by (force simp: upsertRows_def insertOnConflict_def split: if_splits)

end

section \<open>Changing the tables\<close>

definition changeSQL :: "(Tables \<Rightarrow> go_error + Tables) \<Rightarrow> (World, unit) action" where
  "changeSQL change = execSQL (\<lambda>t. case change t of Inl e \<Rightarrow> (Inl e, t) | Inr t' \<Rightarrow> (Inr (), t'))"

lemma readSQL_Inr [simp]:
  "readSQL q w = (Inr a, w') \<longleftrightarrow>
   w_fault w (w_statement w) = None \<and> a = q (w_tables w) \<and> w' = w\<lparr>w_statement := Suc (w_statement w)\<rparr>"
  by (auto simp: readSQL_def execSQL_def split: option.splits)

lemma changeSQL_Inr [simp]:
  "changeSQL f w = (Inr (), w') \<longleftrightarrow>
   w_fault w (w_statement w) = None \<and>
   (\<exists>t. f (w_tables w) = Inr t \<and> w' = w\<lparr>w_statement := Suc (w_statement w), w_tables := t\<rparr>)"
  by (auto simp: changeSQL_def execSQL_def split: option.splits sum.splits)

section \<open>What statements leave alone\<close>

text \<open>
  \<open>tables_kept m\<close>: whatever happens, \<open>m\<close> leaves the tables as they were (a read).
\<close>

definition tables_kept :: "(World, 'a) action \<Rightarrow> bool" where
  "tables_kept m \<longleftrightarrow> (\<forall>t. preserves (\<lambda>w. w_tables w = t) m)"

lemma tables_keptD: "tables_kept m \<Longrightarrow> m w = (r, w') \<Longrightarrow> w_tables w' = w_tables w"
  unfolding tables_kept_def preserves_def by (metis snd_conv)

lemma tables_kept_read [intro, simp]: "tables_kept (readSQL q)"
  by (auto simp: tables_kept_def preserves_def readSQL_def execSQL_def split: option.splits)

lemma tables_kept_bind [intro]:
  "tables_kept m \<Longrightarrow> (\<And>a. tables_kept (f a)) \<Longrightarrow> tables_kept (bindA m f)"
  unfolding tables_kept_def by (blast intro: preserves_rules)

lemma tables_kept_mapErr [intro]: "tables_kept m \<Longrightarrow> tables_kept (mapErrA g m)"
  unfolding tables_kept_def by (blast intro: preserves_rules)

lemma tables_kept_pure [intro, simp]:
  "tables_kept (returnA a)" "tables_kept (failA e)" "tables_kept (resultA r)"
  unfolding tables_kept_def by (blast intro: preserves_rules)+

lemma tables_kept_draw [intro, simp]: "tables_kept (liftA drawID)" "tables_kept (liftA readClock)"
  by (simp_all add: tables_kept_def preserves_def liftA_def drawID_def readClock_def)

text \<open>\<open>undone m\<close>: an error of \<open>m\<close> leaves the tables as they were.\<close>

definition undone :: "(World, 'a) action \<Rightarrow> bool" where
  "undone m \<longleftrightarrow> (\<forall>w e w'. m w = (Inl e, w') \<longrightarrow> w_tables w' = w_tables w)"

named_theorems undone_rules "introduction rules for undone"

lemma undoneD: "undone m \<Longrightarrow> m w = (Inl e, w') \<Longrightarrow> w_tables w' = w_tables w"
  by (simp add: undone_def)

lemma undone_read: "tables_kept m \<Longrightarrow> undone m"
  by (auto simp: undone_def dest: tables_keptD)

lemma undone_pure [undone_rules]: "undone (returnA a)" "undone (failA e)" "undone (resultA r)"
  by (simp_all add: undone_read)

lemma undone_bind [undone_rules]:
  assumes "tables_kept m" and "\<And>a. undone (f a)"
  shows "undone (bindA m f)"
  unfolding undone_def bindA_Inl using assms by (metis tables_keptD undoneD)

lemma undone_return [undone_rules]: "undone m \<Longrightarrow> undone (bindA m (\<lambda>a. returnA (g a)))"
  by (auto simp: undone_def bindA_Inl)

lemma undone_mapErr [undone_rules]: "undone m \<Longrightarrow> undone (mapErrA g m)"
  by (auto simp: undone_def mapErrA_Inl)

lemma transactionSQL_error:
  assumes "transactionSQL body w = (Inl e, w')"
  shows "w_tables w' = w_tables w"
  using assms
  by (auto simp: transactionSQL_def bindA_def readSQL_def execSQL_def split: option.splits prod.splits sum.splits)

lemma transactionSQL_ok:
  assumes "transactionSQL body w = (Inr a, w')"
  obtains u where
    "body (w\<lparr>w_statement := Suc (w_statement w), w_inTransaction := True\<rparr>) = (Inr a, u)"
    "w_tables w' = w_tables u" "w_fault w (w_statement w) = None"
  using assms
  by (auto simp: transactionSQL_def bindA_def readSQL_def execSQL_def split: option.splits prod.splits sum.splits)

end
