(* ===== verification/DiffApply.thy ===== *)
theory DiffApply
  imports Domain
begin

text \<open>
  The pure planners of a provider sync window: \<^verbatim>\<open>DiffPlanner\<close> (\<^verbatim>\<open>diff.go\<close>) compares the
  observations of a batch with the stored snapshot and decides for each one whether it
  updates a known transaction or creates a new one; \<^verbatim>\<open>ApplyPlanner\<close> and \<^verbatim>\<open>MergePolicy\<close>
  (\<^verbatim>\<open>apply.go\<close>) turn the decisions into writes that keep user edits.
\<close>

section \<open>Diff plans\<close>

datatype ProviderTransactionActionType =
    ProviderTransactionActionTypeCreate
  | ProviderTransactionActionTypeUpdate

datatype ProviderTransactionMatchStrategy =
    ProviderTransactionMatchStrategyNew
  | ProviderTransactionMatchStrategyProviderID
  | ProviderTransactionMatchStrategyFingerprint
  | ProviderTransactionMatchStrategyWeakCandidate
  | ProviderTransactionMatchStrategyAmbiguous

record ProviderTransactionAction =
  act_Type :: ProviderTransactionActionType
  act_MatchStrategy :: ProviderTransactionMatchStrategy
  act_Observation :: ProviderTransactionObservation
  act_ExistingTransaction :: "Transaction option"

record ProviderDiffPlan =
  dp_Connection :: ProviderConnectionRef
  dp_RequestedWindow :: ProviderSyncWindow
  dp_SnapshotWindow :: ProviderSyncWindow
  dp_AccountObservations :: "ProviderAccountObservation list"
  dp_BalanceObservations :: "ProviderBalanceObservation list"
  dp_TransactionActions :: "ProviderTransactionAction list"
  dp_SnapshotObservations :: "ProviderSnapshotObservation list"
  dp_Stats :: ProviderSyncStats
  dp_Issues :: "ProviderSyncIssue list"

record ExistingWindowSnapshot =
  snap_Connection :: ProviderConnectionRef
  snap_SnapshotWindow :: ProviderSyncWindow
  snap_Accounts :: "ConnectionProviderAccount list"
  snap_Transactions :: "Transaction list"
  snap_Matches :: "ProviderTransactionMatch list"
  snap_IdentityTransactions :: "Transaction list"
  snap_IdentityMatches :: "ProviderTransactionMatch list"

definition appendUniqueProviderTransactionMatches ::
  "ProviderTransactionMatch list \<Rightarrow> ProviderTransactionMatch list \<Rightarrow> ProviderTransactionMatch list" where
  "appendUniqueProviderTransactionMatches matches additional =
     matches @ first_seen m_ID (map m_ID matches) additional"

definition matchingProviderIDs ::
  "ProviderTransactionMatch list \<Rightarrow> ProviderTransactionObservation \<Rightarrow> ProviderTransactionMatch list" where
  "matchingProviderIDs matches observation =
     (if ot_ProviderTransactionID observation = '''' then []
      else filter (\<lambda>match.
        m_ConnectionID match = ref_ConnectionID (ot_Connection observation) \<and>
        m_ProviderAccountID match = ot_ProviderAccountID observation \<and>
        m_ProviderTransactionID match = ot_ProviderTransactionID observation) matches)"

definition matchingFingerprints ::
  "ProviderTransactionMatch list \<Rightarrow> ProviderTransactionObservation \<Rightarrow> ProviderTransactionMatch list" where
  "matchingFingerprints matches observation =
     (if ot_Fingerprint observation = '''' then []
      else filter (\<lambda>match.
        m_ConnectionID match = ref_ConnectionID (ot_Connection observation) \<and>
        m_ProviderAccountID match = ot_ProviderAccountID observation \<and>
        m_Fingerprint match = ot_Fingerprint observation) matches)"

definition snapshotTransaction :: "Transaction list \<Rightarrow> string \<Rightarrow> Transaction option" where
  "snapshotTransaction transactions transactionID =
     List.find (\<lambda>transaction. tx_ID transaction = transactionID) transactions"

definition ambiguousCreateAction ::
  "ProviderTransactionObservation \<Rightarrow> string \<Rightarrow> ProviderTransactionAction \<times> ProviderSyncIssue option" where
  "ambiguousCreateAction observation reason =
     (\<lparr>act_Type = ProviderTransactionActionTypeCreate,
       act_MatchStrategy = ProviderTransactionMatchStrategyAmbiguous,
       act_Observation = observation, act_ExistingTransaction = None\<rparr>,
      Some \<lparr>iss_Code = ''ambiguous-transaction-match'',
        iss_Severity = ProviderSyncIssueSeverityWarning,
        iss_Summary = ''created a new transaction because '' @ reason,
        iss_ProviderAccountID = ot_ProviderAccountID observation,
        iss_ProviderTransactionID = ot_ProviderTransactionID observation\<rparr>)"

text \<open>
  The account loop breaks at the first account of the connection with the observed
  provider account id; an account that is not mapped (empty finance id) ends the search.
\<close>

definition hasWeakCandidate :: "ExistingWindowSnapshot \<Rightarrow> ProviderTransactionObservation \<Rightarrow> bool" where
  "hasWeakCandidate snapshot observation =
     (let financeAccountID =
        (case List.find (\<lambda>account.
               pa_ConnectionID account = ref_ConnectionID (ot_Connection observation) \<and>
               pa_ProviderAccountID account = ot_ProviderAccountID observation)
             (snap_Accounts snapshot) of
           None \<Rightarrow> ''''
         | Some account \<Rightarrow> pa_FinanceAccountID account)
      in if financeAccountID = '''' then False
         else list_ex (\<lambda>transaction.
           tx_Source transaction = TransactionSourceProvider \<and>
           tx_AccountID transaction = financeAccountID \<and>
           tx_AmountMinor transaction = ot_AmountMinor observation \<and>
           tx_Currency transaction = ot_Currency observation \<and>
           tx_EffectiveAt transaction = ot_EffectiveAt observation) (snap_Transactions snapshot))"

definition updateAction ::
  "ProviderTransactionMatchStrategy \<Rightarrow> ProviderTransactionObservation \<Rightarrow> Transaction \<Rightarrow>
   ProviderTransactionAction \<times> ProviderSyncIssue option" where
  "updateAction strategy observation transaction =
     (\<lparr>act_Type = ProviderTransactionActionTypeUpdate, act_MatchStrategy = strategy,
       act_Observation = observation, act_ExistingTransaction = Some transaction\<rparr>, None)"

text \<open>The tail of \<^verbatim>\<open>planTransactionAction\<close>: weak candidates, then a new transaction.\<close>

definition planUnmatchedAction ::
  "ProviderTransactionObservation \<Rightarrow> ExistingWindowSnapshot \<Rightarrow>
   ProviderTransactionAction \<times> ProviderSyncIssue option" where
  "planUnmatchedAction observation snapshot =
     (if hasWeakCandidate snapshot observation then
        (\<lparr>act_Type = ProviderTransactionActionTypeCreate,
          act_MatchStrategy = ProviderTransactionMatchStrategyWeakCandidate,
          act_Observation = observation, act_ExistingTransaction = None\<rparr>,
         Some \<lparr>iss_Code = ''weak-transaction-match'',
           iss_Severity = ProviderSyncIssueSeverityWarning,
           iss_Summary = ''created a new transaction because only weak candidates were available'',
           iss_ProviderAccountID = ot_ProviderAccountID observation,
           iss_ProviderTransactionID = ot_ProviderTransactionID observation\<rparr>)
      else
        (\<lparr>act_Type = ProviderTransactionActionTypeCreate,
          act_MatchStrategy = ProviderTransactionMatchStrategyNew,
          act_Observation = observation, act_ExistingTransaction = None\<rparr>, None))"

definition planFingerprintAction ::
  "ProviderTransactionObservation \<Rightarrow> ExistingWindowSnapshot \<Rightarrow>
   ProviderTransactionAction \<times> ProviderSyncIssue option" where
  "planFingerprintAction observation snapshot =
     (case matchingFingerprints (snap_Matches snapshot) observation of
        [] \<Rightarrow> planUnmatchedAction observation snapshot
      | [match] \<Rightarrow>
          (case snapshotTransaction (snap_Transactions snapshot) (m_TransactionID match) of
             Some transaction \<Rightarrow>
               updateAction ProviderTransactionMatchStrategyFingerprint observation transaction
           | None \<Rightarrow> planUnmatchedAction observation snapshot)
      | _ \<Rightarrow> ambiguousCreateAction observation ''multiple fingerprint matches'')"

definition strongMatches ::
  "ExistingWindowSnapshot \<Rightarrow> ProviderTransactionObservation \<Rightarrow> ProviderTransactionMatch list" where
  "strongMatches snapshot observation =
     appendUniqueProviderTransactionMatches
       (matchingProviderIDs (snap_Matches snapshot) observation)
       (matchingProviderIDs (snap_IdentityMatches snapshot) observation)"

definition strongTransaction ::
  "ExistingWindowSnapshot \<Rightarrow> ProviderTransactionMatch \<Rightarrow> Transaction option" where
  "strongTransaction snapshot match =
     (case snapshotTransaction (snap_Transactions snapshot) (m_TransactionID match) of
        Some transaction \<Rightarrow> Some transaction
      | None \<Rightarrow> snapshotTransaction (snap_IdentityTransactions snapshot) (m_TransactionID match))"

definition planTransactionAction ::
  "ProviderTransactionObservation \<Rightarrow> ExistingWindowSnapshot \<Rightarrow>
   ProviderTransactionAction \<times> ProviderSyncIssue option" where
  "planTransactionAction observation snapshot =
     (case strongMatches snapshot observation of
        [] \<Rightarrow> planFingerprintAction observation snapshot
      | [match] \<Rightarrow>
          (case strongTransaction snapshot match of
             Some transaction \<Rightarrow>
               updateAction ProviderTransactionMatchStrategyProviderID observation transaction
           | None \<Rightarrow> planFingerprintAction observation snapshot)
      | _ \<Rightarrow> ambiguousCreateAction observation ''multiple provider-id matches'')"

text \<open>The body of the loop of \<^verbatim>\<open>Plan\<close> and the loop.\<close>

definition planStep ::
  "ExistingWindowSnapshot \<Rightarrow> ProviderDiffPlan \<Rightarrow> ProviderTransactionObservation \<Rightarrow> ProviderDiffPlan" where
  "planStep snapshot plan observation =
     (case planTransactionAction observation snapshot of (action, issue) \<Rightarrow>
        let stats = dp_Stats plan;
            stats' = (case act_Type action of
                ProviderTransactionActionTypeUpdate \<Rightarrow>
                  stats\<lparr>UpdatedTransactions := UpdatedTransactions stats + 1\<rparr>
              | ProviderTransactionActionTypeCreate \<Rightarrow>
                  (let created = stats\<lparr>CreatedTransactions := CreatedTransactions stats + 1\<rparr>
                   in if act_MatchStrategy action = ProviderTransactionMatchStrategyWeakCandidate \<or>
                         act_MatchStrategy action = ProviderTransactionMatchStrategyAmbiguous
                      then created\<lparr>AmbiguousCreatedTransactions := AmbiguousCreatedTransactions created + 1\<rparr>
                      else created))
        in plan\<lparr>dp_TransactionActions := dp_TransactionActions plan @ [action],
                dp_Stats := stats',
                dp_Issues := dp_Issues plan @ (case issue of None \<Rightarrow> [] | Some i \<Rightarrow> [i])\<rparr>)"

definition diffPlan :: "ProviderSyncBatch \<Rightarrow> ExistingWindowSnapshot \<Rightarrow> ProviderDiffPlan" where
  "diffPlan batch snapshot =
     foldl (planStep snapshot)
       \<lparr>dp_Connection = batch_Connection batch, dp_RequestedWindow = batch_RequestedWindow batch,
        dp_SnapshotWindow = snap_SnapshotWindow snapshot,
        dp_AccountObservations = batch_Accounts batch, dp_BalanceObservations = batch_Balances batch,
        dp_TransactionActions = [], dp_SnapshotObservations = batch_Snapshots batch,
        dp_Stats = zero_stats\<lparr>ObservedAccounts := int (length (batch_Accounts batch)),
          ObservedTransactions := int (length (batch_Transactions batch))\<rparr>,
        dp_Issues = []\<rparr>
       (batch_Transactions batch)"

section \<open>Apply plans and the merge policy\<close>

record ApplyTransactionWrite =
  write_Action :: ProviderTransactionAction
  write_MergedTransaction :: "Transaction option"

record ApplyPlan =
  ap_TransactionWrites :: "ApplyTransactionWrite list"
  ap_Stats :: ProviderSyncStats
  ap_Issues :: "ProviderSyncIssue list"

definition shouldRefreshInt64 :: "int64 \<Rightarrow> ProviderTransactionOriginal option \<Rightarrow> bool" where
  "shouldRefreshInt64 current original =
     (case original of None \<Rightarrow> False | Some orig \<Rightarrow> current = orig_AmountMinor orig)"

definition shouldRefreshString :: "string \<Rightarrow> ProviderTransactionOriginal option \<Rightarrow> bool" where
  "shouldRefreshString current original =
     (case original of None \<Rightarrow> False | Some orig \<Rightarrow> current = orig_Currency orig)"

definition shouldRefreshStringValue :: "string \<Rightarrow> ProviderTransactionOriginal option \<Rightarrow> bool" where
  "shouldRefreshStringValue current original =
     (case original of None \<Rightarrow> False | Some orig \<Rightarrow> current = orig_Description orig)"

definition shouldRefreshTime :: "time \<Rightarrow> ProviderTransactionOriginal option \<Rightarrow> bool" where
  "shouldRefreshTime current original =
     (case original of
        None \<Rightarrow> False
      | Some orig \<Rightarrow> (case orig_EffectiveAt orig of None \<Rightarrow> False | Some t \<Rightarrow> current = t))"

definition buildProviderOriginal :: "ProviderTransactionObservation \<Rightarrow> ProviderTransactionOriginal" where
  "buildProviderOriginal observation =
     (case ot_ProviderOriginal observation of
        Some original \<Rightarrow> original
      | None \<Rightarrow>
          \<lparr>orig_AmountMinor = ot_AmountMinor observation, orig_Currency = ot_Currency observation,
           orig_Description = ot_Description observation,
           orig_EffectiveAt = Some (ot_EffectiveAt observation)\<rparr>)"

definition mergeTransaction :: "Transaction \<Rightarrow> ProviderTransactionObservation \<Rightarrow> Transaction" where
  "mergeTransaction existing observation =
     (let previousOriginal = tx_ProviderOriginal existing
      in existing\<lparr>
           tx_Status := ot_Status observation,
           tx_AmountMinor := (if shouldRefreshInt64 (tx_AmountMinor existing) previousOriginal
                              then ot_AmountMinor observation else tx_AmountMinor existing),
           tx_Currency := (if shouldRefreshString (tx_Currency existing) previousOriginal
                           then ot_Currency observation else tx_Currency existing),
           tx_Description := (if shouldRefreshStringValue (tx_Description existing) previousOriginal
                              then ot_Description observation else tx_Description existing),
           tx_EffectiveAt := (if shouldRefreshTime (tx_EffectiveAt existing) previousOriginal
                              then ot_EffectiveAt observation else tx_EffectiveAt existing),
           tx_ProviderOriginal := Some (buildProviderOriginal observation)\<rparr>)"

definition applyWrite :: "ProviderTransactionAction \<Rightarrow> ApplyTransactionWrite" where
  "applyWrite action =
     \<lparr>write_Action = action,
      write_MergedTransaction =
        (case act_ExistingTransaction action of
           Some existing \<Rightarrow>
             (if act_Type action = ProviderTransactionActionTypeUpdate
              then Some (mergeTransaction existing (act_Observation action)) else None)
         | None \<Rightarrow> None)\<rparr>"

definition applyPlan :: "ProviderDiffPlan \<Rightarrow> ApplyPlan" where
  "applyPlan plan =
     \<lparr>ap_TransactionWrites = map applyWrite (dp_TransactionActions plan),
      ap_Stats = dp_Stats plan, ap_Issues = dp_Issues plan\<rparr>"

section \<open>What the diff plan decides\<close>

text \<open>When a stored match row speaks of the observed transaction.\<close>

definition same_identity :: "ProviderTransactionMatch \<Rightarrow> ProviderTransactionObservation \<Rightarrow> bool" where
  "same_identity match observation \<longleftrightarrow>
     ot_ProviderTransactionID observation \<noteq> '''' \<and>
     m_ConnectionID match = ref_ConnectionID (ot_Connection observation) \<and>
     m_ProviderAccountID match = ot_ProviderAccountID observation \<and>
     m_ProviderTransactionID match = ot_ProviderTransactionID observation"

definition same_fingerprint :: "ProviderTransactionMatch \<Rightarrow> ProviderTransactionObservation \<Rightarrow> bool" where
  "same_fingerprint match observation \<longleftrightarrow>
     ot_Fingerprint observation \<noteq> '''' \<and>
     m_ConnectionID match = ref_ConnectionID (ot_Connection observation) \<and>
     m_ProviderAccountID match = ot_ProviderAccountID observation \<and>
     m_Fingerprint match = ot_Fingerprint observation"

lemma matchingProviderIDs_eq: "matchingProviderIDs ms obs = filter (\<lambda>m. same_identity m obs) ms"
  by (auto simp: matchingProviderIDs_def same_identity_def intro: filter_cong)

lemma matchingFingerprints_eq: "matchingFingerprints ms obs = filter (\<lambda>m. same_fingerprint m obs) ms"
  by (auto simp: matchingFingerprints_def same_fingerprint_def intro: filter_cong)

lemma snapshotTransaction_Some:
  "snapshotTransaction ts i = Some t \<Longrightarrow> t \<in> set ts \<and> tx_ID t = i"
  by (auto simp: snapshotTransaction_def find_Some_iff)

lemma snapshotTransaction_None: "snapshotTransaction ts i = None \<longleftrightarrow> i \<notin> tx_ID ` set ts"
  by (auto simp: snapshotTransaction_def find_None_iff)

lemma strongTransaction_Some:
  "strongTransaction snap m = Some t \<Longrightarrow>
     t \<in> set (snap_Transactions snap) \<union> set (snap_IdentityTransactions snap) \<and> tx_ID t = m_TransactionID m"
  by (auto simp: strongTransaction_def dest: snapshotTransaction_Some split: option.splits)

lemma strongTransaction_None:
  "strongTransaction snap m = None \<longleftrightarrow>
     m_TransactionID m \<notin> tx_ID ` (set (snap_Transactions snap) \<union> set (snap_IdentityTransactions snap))"
proof (cases "snapshotTransaction (snap_Transactions snap) (m_TransactionID m)")
  case None
  then have "m_TransactionID m \<notin> tx_ID ` set (snap_Transactions snap)"
    using snapshotTransaction_None by blast
  moreover have "strongTransaction snap m = snapshotTransaction (snap_IdentityTransactions snap) (m_TransactionID m)"
    using None by (simp add: strongTransaction_def)
  ultimately show ?thesis
    unfolding image_Un by (metis Un_iff snapshotTransaction_None)
next
  case (Some t)
  then have "m_TransactionID m \<in> tx_ID ` set (snap_Transactions snap)"
    by (metis snapshotTransaction_None option.distinct(1))
  with Some show ?thesis by (auto simp: strongTransaction_def)
qed

lemma appendUnique_ids:
  "m_ID ` set (appendUniqueProviderTransactionMatches ms ns) = m_ID ` set ms \<union> m_ID ` set ns"
  using keys_first_seen [of m_ID "map m_ID ms" ns]
  by (auto simp: appendUniqueProviderTransactionMatches_def image_Un)

lemma appendUnique_subset:
  "set (appendUniqueProviderTransactionMatches ms ns) \<subseteq> set ms \<union> set ns"
  using set_first_seen_subset [of m_ID "map m_ID ms" ns]
  by (auto simp: appendUniqueProviderTransactionMatches_def)

lemma appendUnique_distinct:
  assumes "distinct (map m_ID ms)"
  shows "distinct (map m_ID (appendUniqueProviderTransactionMatches ms ns))"
  unfolding appendUniqueProviderTransactionMatches_def map_append distinct_append
  by (intro conjI assms distinct_first_seen first_seen_disjoint)

text \<open>The stored rows that identify an observation.\<close>

definition identity_rows :: "ExistingWindowSnapshot \<Rightarrow> ProviderTransactionObservation \<Rightarrow> ProviderTransactionMatch set" where
  "identity_rows snap obs =
     {m \<in> set (snap_Matches snap) \<union> set (snap_IdentityMatches snap). same_identity m obs}"

lemma strongMatches_subset: "set (strongMatches snap obs) \<subseteq> identity_rows snap obs"
  using appendUnique_subset [of "matchingProviderIDs (snap_Matches snap) obs"
      "matchingProviderIDs (snap_IdentityMatches snap) obs"]
  unfolding strongMatches_def matchingProviderIDs_eq identity_rows_def by auto

lemma strongMatches_ids: "m_ID ` set (strongMatches snap obs) = m_ID ` identity_rows snap obs"
  unfolding strongMatches_def appendUnique_ids matchingProviderIDs_eq identity_rows_def by auto

lemma strongMatches_distinct:
  "distinct (map m_ID (snap_Matches snap)) \<Longrightarrow> distinct (map m_ID (strongMatches snap obs))"
  unfolding strongMatches_def matchingProviderIDs_eq
  by (intro appendUnique_distinct distinct_map_filter)

lemmas plan_defs = planTransactionAction_def planFingerprintAction_def planUnmatchedAction_def
  ambiguousCreateAction_def updateAction_def

lemma planTransactionAction_observation:
  "planTransactionAction obs snap = (a, i) \<Longrightarrow> act_Observation a = obs"
  by (auto simp: plan_defs split: list.splits option.splits if_splits)

text \<open>An issue is raised exactly for the two doubtful kinds of creation.\<close>

lemma planTransactionAction_issue:
  "planTransactionAction obs snap = (a, i) \<Longrightarrow>
     (i \<noteq> None \<longleftrightarrow> act_Type a = ProviderTransactionActionTypeCreate \<and>
        (act_MatchStrategy a = ProviderTransactionMatchStrategyWeakCandidate \<or>
         act_MatchStrategy a = ProviderTransactionMatchStrategyAmbiguous))"
  by (auto simp: plan_defs split: list.splits option.splits if_splits)

lemma planTransactionAction_existing:
  "planTransactionAction obs snap = (a, i) \<Longrightarrow>
     (act_ExistingTransaction a \<noteq> None \<longleftrightarrow> act_Type a = ProviderTransactionActionTypeUpdate)"
  by (auto simp: plan_defs split: list.splits option.splits if_splits)

lemma planUnmatched_create:
  "planUnmatchedAction obs snap = (a, i) \<Longrightarrow> act_Type a = ProviderTransactionActionTypeCreate"
  by (auto simp: planUnmatchedAction_def split: if_splits)

lemma planFingerprint_update:
  assumes "planFingerprintAction obs snap = (a, i)" "act_Type a = ProviderTransactionActionTypeUpdate"
  shows "\<exists>m t. {r \<in> set (snap_Matches snap). same_fingerprint r obs} = {m} \<and>
      act_ExistingTransaction a = Some t \<and> t \<in> set (snap_Transactions snap) \<and> tx_ID t = m_TransactionID m"
proof -
  obtain m t where one: "matchingFingerprints (snap_Matches snap) obs = [m]"
    and t: "snapshotTransaction (snap_Transactions snap) (m_TransactionID m) = Some t"
    and a: "act_ExistingTransaction a = Some t"
    using assms
    by (auto simp: planFingerprintAction_def ambiguousCreateAction_def updateAction_def
        dest: planUnmatched_create split: list.splits option.splits)
  from one have "{r \<in> set (snap_Matches snap). same_fingerprint r obs} = {m}"
    unfolding matchingFingerprints_eq by (metis list.set(1) list.set(2) set_filter)
  then show ?thesis using a snapshotTransaction_Some [OF t] by blast
qed

text \<open>
  C4. An update never touches a transaction the evidence does not single out: when the
  planner decides to update, the transaction it names is one of the snapshot's, and
  either all stored rows with the observation's connection, provider account and
  (non-empty) provider transaction id are one row that points to it, or it is the
  target of the only stored row with the observation's (non-empty) fingerprint.
\<close>

theorem update_is_singled_out:
  assumes "planTransactionAction obs snap = (a, issue)"
    and "act_Type a = ProviderTransactionActionTypeUpdate"
  shows "\<exists>m t. act_ExistingTransaction a = Some t \<and> tx_ID t = m_TransactionID m \<and>
      t \<in> set (snap_Transactions snap) \<union> set (snap_IdentityTransactions snap) \<and>
      (m \<in> identity_rows snap obs \<and> m_ID ` identity_rows snap obs = {m_ID m} \<or>
       {r \<in> set (snap_Matches snap). same_fingerprint r obs} = {m})"
proof (cases "\<exists>m t. strongMatches snap obs = [m] \<and> strongTransaction snap m = Some t")
  case True
  then obtain m t where m: "strongMatches snap obs = [m]" and t: "strongTransaction snap m = Some t"
    by blast
  then have "act_ExistingTransaction a = Some t"
    using assms(1) by (auto simp: planTransactionAction_def updateAction_def)
  moreover have "m \<in> identity_rows snap obs" "m_ID ` identity_rows snap obs = {m_ID m}"
    using m strongMatches_subset [of snap obs] strongMatches_ids [of snap obs] by auto
  ultimately show ?thesis using strongTransaction_Some [OF t] by blast
next
  case False
  then have "planFingerprintAction obs snap = (a, issue)"
    using assms
    by (auto simp: planTransactionAction_def ambiguousCreateAction_def split: list.splits option.splits)
  from planFingerprint_update [OF this assms(2)] show ?thesis by blast
qed

text \<open>
  C5. A transaction that was stored is recognised when it is observed again: if the
  snapshot's rows have distinct ids, the rows with the observation's identity are one row
  and that row's transaction is in the snapshot, the planner updates it and raises no
  issue. It never creates a second copy of it.
\<close>

theorem reobserved_transaction_is_updated:
  assumes "distinct (map m_ID (snap_Matches snap))"
    and "identity_rows snap obs = {m}"
    and "m_TransactionID m \<in> tx_ID ` (set (snap_Transactions snap) \<union> set (snap_IdentityTransactions snap))"
    and "planTransactionAction obs snap = (a, issue)"
  shows "act_Type a = ProviderTransactionActionTypeUpdate \<and> issue = None \<and>
      act_MatchStrategy a = ProviderTransactionMatchStrategyProviderID \<and>
      (\<exists>t. act_ExistingTransaction a = Some t \<and> tx_ID t = m_TransactionID m)"
proof -
  have "m_ID ` set (strongMatches snap obs) = {m_ID m}"
    using strongMatches_ids assms(2) by simp
  moreover have "distinct (map m_ID (strongMatches snap obs))"
    using strongMatches_distinct assms(1) by blast
  ultimately have "length (map m_ID (strongMatches snap obs)) = 1"
    using distinct_card [of "map m_ID (strongMatches snap obs)"] by simp
  then obtain r where r: "strongMatches snap obs = [r]"
    by (auto simp: length_Suc_conv)
  then have "r = m"
    using strongMatches_subset [of snap obs] assms(2) by auto
  then obtain t where t: "strongTransaction snap m = Some t"
    using assms(3) strongTransaction_None [of snap m] by (cases "strongTransaction snap m") auto
  with strongTransaction_Some [OF t] assms(4) r \<open>r = m\<close> show ?thesis
    by (auto simp: planTransactionAction_def updateAction_def)
qed

subsection \<open>The plan as a whole\<close>

definition doubtful :: "ProviderTransactionAction \<Rightarrow> bool" where
  "doubtful a \<longleftrightarrow> act_Type a = ProviderTransactionActionTypeCreate \<and>
     (act_MatchStrategy a = ProviderTransactionMatchStrategyWeakCandidate \<or>
      act_MatchStrategy a = ProviderTransactionMatchStrategyAmbiguous)"

abbreviation is_create :: "ProviderTransactionAction \<Rightarrow> bool" where
  "is_create a \<equiv> act_Type a = ProviderTransactionActionTypeCreate"

abbreviation is_update :: "ProviderTransactionAction \<Rightarrow> bool" where
  "is_update a \<equiv> act_Type a = ProviderTransactionActionTypeUpdate"

lemma planStep_fields:
  assumes "planTransactionAction obs snap = (a, i)"
  shows "dp_TransactionActions (planStep snap p obs) = dp_TransactionActions p @ [a]"
    and "dp_Issues (planStep snap p obs) = dp_Issues p @ (case i of None \<Rightarrow> [] | Some x \<Rightarrow> [x])"
    and "dp_Stats (planStep snap p obs) = (dp_Stats p)\<lparr>
        CreatedTransactions := CreatedTransactions (dp_Stats p) + (if is_create a then 1 else 0),
        UpdatedTransactions := UpdatedTransactions (dp_Stats p) + (if is_update a then 1 else 0),
        AmbiguousCreatedTransactions := AmbiguousCreatedTransactions (dp_Stats p) + (if doubtful a then 1 else 0)\<rparr>"
  using assms
  by (simp_all add: planStep_def Let_def doubtful_def split: ProviderTransactionActionType.splits)

lemma planStep_frame:
  "dp_Connection (planStep snap p obs) = dp_Connection p"
  "dp_RequestedWindow (planStep snap p obs) = dp_RequestedWindow p"
  "dp_SnapshotWindow (planStep snap p obs) = dp_SnapshotWindow p"
  "dp_AccountObservations (planStep snap p obs) = dp_AccountObservations p"
  "dp_BalanceObservations (planStep snap p obs) = dp_BalanceObservations p"
  "dp_SnapshotObservations (planStep snap p obs) = dp_SnapshotObservations p"
  by (simp_all add: planStep_def Let_def split: prod.splits)

abbreviation plan_actions :: "ExistingWindowSnapshot \<Rightarrow> ProviderTransactionObservation list \<Rightarrow> ProviderTransactionAction list" where
  "plan_actions snap obs \<equiv> map (\<lambda>x. fst (planTransactionAction x snap)) obs"

abbreviation count_int :: "('a \<Rightarrow> bool) \<Rightarrow> 'a list \<Rightarrow> int" where
  "count_int P xs \<equiv> int (length (filter P xs))"

lemma planStep_frame_foldl:
  "dp_Connection (foldl (planStep snap) p obs) = dp_Connection p \<and>
   dp_RequestedWindow (foldl (planStep snap) p obs) = dp_RequestedWindow p \<and>
   dp_SnapshotWindow (foldl (planStep snap) p obs) = dp_SnapshotWindow p \<and>
   dp_AccountObservations (foldl (planStep snap) p obs) = dp_AccountObservations p \<and>
   dp_BalanceObservations (foldl (planStep snap) p obs) = dp_BalanceObservations p \<and>
   dp_SnapshotObservations (foldl (planStep snap) p obs) = dp_SnapshotObservations p"
  by (induction obs arbitrary: p) (simp_all add: planStep_frame)

lemma planStep_foldl:
  "dp_TransactionActions (foldl (planStep snap) p obs) = dp_TransactionActions p @ plan_actions snap obs \<and>
   length (dp_Issues (foldl (planStep snap) p obs)) =
     length (dp_Issues p) + length (filter doubtful (plan_actions snap obs)) \<and>
   dp_Stats (foldl (planStep snap) p obs) = (dp_Stats p)\<lparr>
     CreatedTransactions := CreatedTransactions (dp_Stats p) + count_int is_create (plan_actions snap obs),
     UpdatedTransactions := UpdatedTransactions (dp_Stats p) + count_int is_update (plan_actions snap obs),
     AmbiguousCreatedTransactions := AmbiguousCreatedTransactions (dp_Stats p) + count_int doubtful (plan_actions snap obs)\<rparr>"
proof (induction obs arbitrary: p)
  case (Cons x xs)
  obtain a i where ai: "planTransactionAction x snap = (a, i)" by force
  have issue: "i \<noteq> None \<longleftrightarrow> doubtful a"
    using planTransactionAction_issue [OF ai] by (simp add: doubtful_def)
  show ?case
    using Cons.IH [of "planStep snap p x"] issue
    by (auto simp: planStep_fields [OF ai] ai split: option.splits)
qed simp

lemma diffPlan_fields:
  "dp_TransactionActions (diffPlan batch snap) = plan_actions snap (batch_Transactions batch)"
  "length (dp_Issues (diffPlan batch snap)) =
     length (filter doubtful (plan_actions snap (batch_Transactions batch)))"
  "dp_Stats (diffPlan batch snap) =
     \<lparr>ObservedAccounts = int (length (batch_Accounts batch)), CreatedAccounts = 0,
      ObservedTransactions = int (length (batch_Transactions batch)),
      CreatedTransactions = count_int is_create (plan_actions snap (batch_Transactions batch)),
      UpdatedTransactions = count_int is_update (plan_actions snap (batch_Transactions batch)),
      AmbiguousCreatedTransactions = count_int doubtful (plan_actions snap (batch_Transactions batch))\<rparr>"
  unfolding diffPlan_def by (simp_all add: planStep_foldl zero_stats_def)

lemma diffPlan_frame:
  "dp_Connection (diffPlan batch snap) = batch_Connection batch"
  "dp_RequestedWindow (diffPlan batch snap) = batch_RequestedWindow batch"
  "dp_SnapshotWindow (diffPlan batch snap) = snap_SnapshotWindow snap"
  "dp_AccountObservations (diffPlan batch snap) = batch_Accounts batch"
  "dp_BalanceObservations (diffPlan batch snap) = batch_Balances batch"
  "dp_SnapshotObservations (diffPlan batch snap) = batch_Snapshots batch"
  unfolding diffPlan_def by (simp_all add: planStep_frame_foldl)

lemma count_split: "count_int is_create as + count_int is_update as = int (length as)"
proof (induction as)
  case (Cons a as)
  then show ?case by (cases "act_Type a") auto
qed simp

lemma count_doubtful: "count_int doubtful as \<le> count_int is_create as"
  by (induction as) (auto simp: doubtful_def)

text \<open>
  C6. A diff plan accounts for every observation: it holds one action per observed
  transaction in the order observed, created and updated together are the number
  observed, the ambiguous ones are among the created, and one issue is raised for each.
\<close>

theorem diff_plan_accounts_for_observations:
  "map act_Observation (dp_TransactionActions (diffPlan batch snap)) = batch_Transactions batch \<and>
   (let st = dp_Stats (diffPlan batch snap)
    in ObservedTransactions st = int (length (batch_Transactions batch)) \<and>
       CreatedTransactions st + UpdatedTransactions st = ObservedTransactions st \<and>
       0 \<le> AmbiguousCreatedTransactions st \<and>
       AmbiguousCreatedTransactions st \<le> CreatedTransactions st \<and>
       AmbiguousCreatedTransactions st = int (length (dp_Issues (diffPlan batch snap))) \<and>
       CreatedAccounts st = 0)"
proof -
  have "act_Observation (fst (planTransactionAction x snap)) = x" for x
    by (metis planTransactionAction_observation prod.collapse)
  then have "map act_Observation (plan_actions snap (batch_Transactions batch)) = batch_Transactions batch"
    by (simp add: comp_def)
  then show ?thesis
    using count_split [of "plan_actions snap (batch_Transactions batch)"]
      count_doubtful [of "plan_actions snap (batch_Transactions batch)"]
    by (simp add: diffPlan_fields Let_def)
qed

section \<open>Concrete data for the witnesses\<close>

definition example_ref :: ProviderConnectionRef where
  "example_ref = \<lparr>ref_ConnectionID = ''c1'', ref_ProviderID = ProviderIDPKO,
     ref_ConnectorID = ProviderConnectorIDEnableBanking, ref_ProviderReference = ''r1''\<rparr>"

definition example_window :: ProviderSyncWindow where
  "example_window = \<lparr>win_Start = 100, win_End = 200\<rparr>"

definition example_observation :: "string \<Rightarrow> int64 \<Rightarrow> ProviderTransactionObservation" where
  "example_observation i amount = \<lparr>ot_Connection = example_ref, ot_ProviderAccountID = ''pa1'',
     ot_ProviderTransactionID = i, ot_Status = TransactionStatusBooked, ot_AmountMinor = amount,
     ot_Currency = ''PLN'', ot_Description = ''shop'', ot_EffectiveAt = 150, ot_Fingerprint = '''',
     ot_ProviderOriginal = None\<rparr>"

definition example_transaction :: "string \<Rightarrow> int64 \<Rightarrow> int64 \<Rightarrow> Transaction" where
  "example_transaction i amount original = \<lparr>tx_ID = i, tx_TenantID = ''t1'', tx_AccountID = ''a1'',
     tx_Source = TransactionSourceProvider, tx_Status = TransactionStatusPending,
     tx_Kind = TransactionKindRegular, tx_AmountMinor = amount, tx_Currency = ''PLN'',
     tx_Description = ''shop'', tx_EffectiveAt = 150, tx_CategoryID = None, tx_TagIDs = [],
     tx_TransferGroupID = None, tx_TransferMatchedAt = None, tx_TransferMatchingExcluded = False,
     tx_HiddenAt = None, tx_CreatedAt = 10, tx_UpdatedAt = 10,
     tx_ProviderOriginal = Some \<lparr>orig_AmountMinor = original, orig_Currency = ''PLN'',
       orig_Description = ''shop'', orig_EffectiveAt = Some 150\<rparr>\<rparr>"

definition example_match :: "string \<Rightarrow> string \<Rightarrow> ProviderTransactionMatch" where
  "example_match i txid = \<lparr>m_ID = ''m1'', m_ConnectionID = ''c1'', m_ProviderAccountID = ''pa1'',
     m_ProviderTransactionID = i, m_Fingerprint = '''', m_TransactionID = txid,
     m_Status = TransactionStatusPending, m_CreatedAt = 10, m_UpdatedAt = 10\<rparr>"

definition example_snapshot :: ExistingWindowSnapshot where
  "example_snapshot = \<lparr>snap_Connection = example_ref, snap_SnapshotWindow = example_window,
     snap_Accounts = [], snap_Transactions = [example_transaction ''tx1'' 700 500],
     snap_Matches = [example_match ''p1'' ''tx1''], snap_IdentityTransactions = [],
     snap_IdentityMatches = [example_match ''p1'' ''tx1'']\<rparr>"

lemmas example_defs = example_ref_def example_window_def example_observation_def
  example_transaction_def example_match_def example_snapshot_def

definition example_action :: ProviderTransactionAction where
  "example_action = fst (updateAction ProviderTransactionMatchStrategyProviderID
     (example_observation ''p1'' 500) (example_transaction ''tx1'' 700 500))"

lemma example_plan:
  "planTransactionAction (example_observation ''p1'' 500) example_snapshot = (example_action, None)"
  by (simp add: planTransactionAction_def strongMatches_def appendUniqueProviderTransactionMatches_def
      matchingProviderIDs_def strongTransaction_def snapshotTransaction_def updateAction_def
      example_action_def example_defs)

lemma example_action_update: "act_Type example_action = ProviderTransactionActionTypeUpdate"
  by (simp add: example_action_def updateAction_def)

lemma example_identity_rows:
  "identity_rows example_snapshot (example_observation ''p1'' 500) = {example_match ''p1'' ''tx1''}"
  by (auto simp: identity_rows_def same_identity_def example_defs)

theorem update_is_singled_out_witness:
  "\<exists>(m :: ProviderTransactionMatch) t.
     act_ExistingTransaction example_action = Some t \<and> tx_ID t = m_TransactionID m"
  using update_is_singled_out [OF example_plan example_action_update] by blast

theorem reobserved_transaction_is_updated_witness:
  "\<exists>t. act_ExistingTransaction example_action = Some t \<and> tx_ID t = ''tx1''"
  using reobserved_transaction_is_updated [OF _ example_identity_rows _ example_plan]
  by (simp add: example_defs)

section \<open>What the merge policy keeps\<close>

text \<open>
  A field was edited by the user when its current value differs from the provider's
  original. The merge refreshes the fields that were not edited.
\<close>

lemma merge_identity_fields:
  "tx_ID (mergeTransaction e obs) = tx_ID e"
  "tx_TenantID (mergeTransaction e obs) = tx_TenantID e"
  "tx_AccountID (mergeTransaction e obs) = tx_AccountID e"
  "tx_Source (mergeTransaction e obs) = tx_Source e"
  "tx_Kind (mergeTransaction e obs) = tx_Kind e"
  "tx_CategoryID (mergeTransaction e obs) = tx_CategoryID e"
  "tx_TagIDs (mergeTransaction e obs) = tx_TagIDs e"
  "tx_TransferGroupID (mergeTransaction e obs) = tx_TransferGroupID e"
  "tx_TransferMatchedAt (mergeTransaction e obs) = tx_TransferMatchedAt e"
  "tx_TransferMatchingExcluded (mergeTransaction e obs) = tx_TransferMatchingExcluded e"
  "tx_HiddenAt (mergeTransaction e obs) = tx_HiddenAt e"
  "tx_CreatedAt (mergeTransaction e obs) = tx_CreatedAt e"
  "tx_UpdatedAt (mergeTransaction e obs) = tx_UpdatedAt e"
  by (simp_all add: mergeTransaction_def Let_def)

lemmas merge_defs = mergeTransaction_def shouldRefreshInt64_def shouldRefreshString_def
  shouldRefreshStringValue_def shouldRefreshTime_def buildProviderOriginal_def



text \<open>The provider original an observation carries says the same as its fields.\<close>

definition consistent_original :: "ProviderTransactionObservation \<Rightarrow> bool" where
  "consistent_original obs \<longleftrightarrow>
     (case ot_ProviderOriginal obs of
        None \<Rightarrow> True
      | Some original \<Rightarrow>
          orig_AmountMinor original = ot_AmountMinor obs \<and> orig_Currency original = ot_Currency obs \<and>
          orig_Description original = ot_Description obs \<and>
          (orig_EffectiveAt original = None \<or> orig_EffectiveAt original = Some (ot_EffectiveAt obs)))"

text \<open>
  Merging the same observation twice is merging it once (an overlapping window or a
  redelivered sync does not drift), whatever the user had edited, for an observation whose
  provider original agrees with its own fields.
\<close>

theorem merge_idempotent:
  assumes "consistent_original obs"
  shows "mergeTransaction (mergeTransaction e obs) obs = mergeTransaction e obs"
proof -
  have "shouldRefreshInt64 a (Some (buildProviderOriginal obs)) \<Longrightarrow> ot_AmountMinor obs = a"
    "shouldRefreshString s (Some (buildProviderOriginal obs)) \<Longrightarrow> ot_Currency obs = s"
    "shouldRefreshStringValue s (Some (buildProviderOriginal obs)) \<Longrightarrow> ot_Description obs = s"
    "shouldRefreshTime t (Some (buildProviderOriginal obs)) \<Longrightarrow> ot_EffectiveAt obs = t" for a s t
    using assms by (auto simp: consistent_original_def merge_defs split: option.splits)
  note agree = this
  define m where "m = mergeTransaction e obs"
  have m: "tx_ProviderOriginal m = Some (buildProviderOriginal obs)" "tx_Status m = ot_Status obs"
    by (simp_all add: m_def mergeTransaction_def Let_def)
  have keep:
    "(if shouldRefreshInt64 (tx_AmountMinor m) (tx_ProviderOriginal m) then ot_AmountMinor obs else tx_AmountMinor m) = tx_AmountMinor m"
    "(if shouldRefreshString (tx_Currency m) (tx_ProviderOriginal m) then ot_Currency obs else tx_Currency m) = tx_Currency m"
    "(if shouldRefreshStringValue (tx_Description m) (tx_ProviderOriginal m) then ot_Description obs else tx_Description m) = tx_Description m"
    "(if shouldRefreshTime (tx_EffectiveAt m) (tx_ProviderOriginal m) then ot_EffectiveAt obs else tx_EffectiveAt m) = tx_EffectiveAt m"
    unfolding m(1) using agree by (metis, metis, metis, metis)
  have "mergeTransaction m obs = m"
    unfolding mergeTransaction_def [of m] Let_def keep
    by (rule Transaction.equality) (simp_all add: m)
  then show ?thesis by (simp add: m_def)
qed

theorem merge_idempotent_witness:
  "mergeTransaction (mergeTransaction (example_transaction ''tx1'' 500 500) (example_observation ''p1'' 900))
     (example_observation ''p1'' 900)
   = mergeTransaction (example_transaction ''tx1'' 500 500) (example_observation ''p1'' 900)"
  by (rule merge_idempotent) (simp add: consistent_original_def example_observation_def)

lemma applyPlan_merged:
  "write_MergedTransaction (applyWrite a) = Some t \<Longrightarrow>
     \<exists>e. act_ExistingTransaction a = Some e \<and> is_update a \<and> t = mergeTransaction e (act_Observation a)"
  by (auto simp: applyWrite_def split: option.splits if_splits)

end
