(* ===== verification/SyncStore.thy ===== *)
theory SyncStore
  imports DiffApply
begin

text \<open>
  \<^verbatim>\<open>ProviderWindowSyncStore\<close> (\<^verbatim>\<open>finance/internal/providers/window_sync_store.go\<close>): it
  loads the stored snapshot of a window and applies a planned sync inside one database
  transaction. The Go interfaces it calls (\<^verbatim>\<open>contracts.go\<close>) are records of actions over
  an abstract state \<open>'s\<close>; theory \<open>Persistence\<close> provides them. A Go map that a loop
  fills is a map returned by the loop; the id generator and the clock are actions.
\<close>

section \<open>The interfaces\<close>

record ProviderTransactionIdentity =
  ident_ProviderAccountID :: string
  ident_ProviderTransactionID :: string

record ProviderTransactionIdentityMatch =
  im_Transaction :: Transaction
  im_Match :: ProviderTransactionMatch

record 's WindowSyncApplyStore =
  as_SQLTransaction :: "('s, unit) action"
  as_AppendSyncState :: "ProviderSyncState \<Rightarrow> ('s, unit) action"
  as_GetBankConnection :: "string \<Rightarrow> ('s, BankConnection option) action"
  as_GetAccount :: "string \<Rightarrow> ('s, Account option) action"
  as_SaveAccount :: "Account \<Rightarrow> ('s, Account) action"
  as_SaveConnectionProviderAccount :: "ConnectionProviderAccount \<Rightarrow> ('s, ConnectionProviderAccount) action"
  as_SaveBalanceSnapshot :: "BalanceSnapshot \<Rightarrow> ('s, BalanceSnapshot) action"
  as_SaveProviderSnapshot :: "ProviderSnapshot \<Rightarrow> ('s, ProviderSnapshot) action"
  as_SaveTransaction :: "Transaction \<Rightarrow> ('s, Transaction) action"
  as_SaveProviderTransactionMatch :: "ProviderTransactionMatch \<Rightarrow> ('s, ProviderTransactionMatch) action"

record 's WindowSyncPersistence =
  wp_ListConnectionProviderAccounts :: "string \<Rightarrow> ('s, ConnectionProviderAccount list) action"
  wp_ListProviderTransactionsInWindow ::
    "string list \<Rightarrow> ProviderSyncWindow \<Rightarrow> ('s, Transaction list) action"
  wp_ListProviderTransactionMatchesByTransactionIDs ::
    "string \<Rightarrow> string list \<Rightarrow> ('s, ProviderTransactionMatch list) action"
  wp_ListProviderTransactionIdentityMatches ::
    "string \<Rightarrow> ProviderTransactionIdentity list \<Rightarrow> ('s, ProviderTransactionIdentityMatch list) action"
  wp_WithTransaction ::
    "('s WindowSyncApplyStore \<Rightarrow> ('s, ProviderSyncStats) action) \<Rightarrow> ('s, ProviderSyncStats) action"

record 's ProviderWindowSyncStore =
  ws_persistence :: "'s WindowSyncPersistence"
  ws_publisher :: "(BankSyncWindowCompleted \<Rightarrow> ('s, unit) action) option"
  ws_idGenerator :: "'s \<Rightarrow> string \<times> 's"
  ws_now :: "'s \<Rightarrow> time \<times> 's"

section \<open>Pure helpers\<close>

definition mergeProviderSyncStats :: "ProviderSyncStats \<Rightarrow> ProviderSyncStats \<Rightarrow> ProviderSyncStats" where
  "mergeProviderSyncStats left right =
     \<lparr>ObservedAccounts = ObservedAccounts left + ObservedAccounts right,
      CreatedAccounts = CreatedAccounts left + CreatedAccounts right,
      ObservedTransactions = ObservedTransactions left + ObservedTransactions right,
      CreatedTransactions = CreatedTransactions left + CreatedTransactions right,
      UpdatedTransactions = UpdatedTransactions left + UpdatedTransactions right,
      AmbiguousCreatedTransactions = AmbiguousCreatedTransactions left + AmbiguousCreatedTransactions right\<rparr>"

definition mappedFinanceAccountIDs :: "ConnectionProviderAccount list \<Rightarrow> string list" where
  "mappedFinanceAccountIDs accounts =
     first_seen (\<lambda>x. x) [] (filter (\<lambda>i. i \<noteq> '''') (map pa_FinanceAccountID accounts))"

definition transactionIDs :: "Transaction list \<Rightarrow> string list" where
  "transactionIDs transactions =
     first_seen (\<lambda>x. x) [] (filter (\<lambda>i. i \<noteq> '''') (map tx_ID transactions))"

definition providerTransactionIdentities ::
  "ProviderTransactionObservation list \<Rightarrow> ProviderTransactionIdentity list" where
  "providerTransactionIdentities observations =
     first_seen (\<lambda>x. x) []
       (filter (\<lambda>i. ident_ProviderAccountID i \<noteq> '''' \<and> ident_ProviderTransactionID i \<noteq> '''')
         (map (\<lambda>obs. \<lparr>ident_ProviderAccountID = ot_ProviderAccountID obs,
                 ident_ProviderTransactionID = ot_ProviderTransactionID obs\<rparr>) observations))"

definition providerTransactionIdentitiesFromActions ::
  "ProviderTransactionAction list \<Rightarrow> ProviderTransactionIdentity list" where
  "providerTransactionIdentitiesFromActions actions =
     providerTransactionIdentities (map act_Observation actions)"

definition identityMatchTransactions :: "ProviderTransactionIdentityMatch list \<Rightarrow> Transaction list" where
  "identityMatchTransactions matches = map im_Transaction matches"

definition identityMatchRows :: "ProviderTransactionIdentityMatch list \<Rightarrow> ProviderTransactionMatch list" where
  "identityMatchRows matches = map im_Match matches"

type_synonym provider_accounts = "string \<rightharpoonup> ConnectionProviderAccount"

definition providerAccountsByProviderID :: "ConnectionProviderAccount list \<Rightarrow> provider_accounts" where
  "providerAccountsByProviderID accounts =
     foldl (\<lambda>m account. m(pa_ProviderAccountID account \<mapsto> account)) Map.empty accounts"

definition resolveProviderAccount ::
  "provider_accounts \<Rightarrow> string \<Rightarrow> go_error + ConnectionProviderAccount" where
  "resolveProviderAccount providerAccounts providerAccountID =
     (case providerAccounts providerAccountID of
        None \<Rightarrow> Inl (Errorf (''provider account mapping not found: '' @ providerAccountID))
      | Some account \<Rightarrow>
          (if pa_FinanceAccountID account = ''''
           then Inl (Errorf (''provider account mapping not found: '' @ providerAccountID))
           else Inr account))"

definition existingSnapshotMatch ::
  "ProviderTransactionAction \<Rightarrow> ProviderTransactionMatch list \<Rightarrow> ProviderTransactionMatch option" where
  "existingSnapshotMatch action matches =
     (case act_ExistingTransaction action of
        None \<Rightarrow> None
      | Some existing \<Rightarrow>
          (case filter (\<lambda>match.
                  m_TransactionID match = tx_ID existing \<and>
                  m_ProviderAccountID match = ot_ProviderAccountID (act_Observation action) \<and>
                  (case act_MatchStrategy action of
                     ProviderTransactionMatchStrategyProviderID \<Rightarrow>
                       m_ProviderTransactionID match = ot_ProviderTransactionID (act_Observation action)
                   | ProviderTransactionMatchStrategyFingerprint \<Rightarrow>
                       m_Fingerprint match = ot_Fingerprint (act_Observation action)
                   | _ \<Rightarrow> False)) matches of
             [match] \<Rightarrow> Some match
           | _ \<Rightarrow> None))"

definition timePointerOrNil :: "time \<Rightarrow> time option" where
  "timePointerOrNil value = (if IsZero value then None else Some value)"

definition providerObservationObjectID :: "ProviderTransactionObservation \<Rightarrow> string" where
  "providerObservationObjectID observation =
     (if ot_ProviderTransactionID observation \<noteq> '''' then ot_ProviderTransactionID observation
      else ot_Fingerprint observation)"

definition providerSnapshotTransactionKey :: "string \<Rightarrow> string \<Rightarrow> string" where
  "providerSnapshotTransactionKey providerAccountID providerObjectID =
     providerAccountID @ [char_of_byte 0] @ providerObjectID"

fun firstNonBlank :: "string list \<Rightarrow> string" where
  "firstNonBlank [] = ''''"
| "firstNonBlank (v # vs) = (if TrimSpace v \<noteq> '''' then TrimSpace v else firstNonBlank vs)"

definition providerAccountDisplayName :: "ConnectionProviderAccount \<Rightarrow> string" where
  "providerAccountDisplayName account =
     firstNonBlank [pa_Name account, pa_IBAN account, pa_ProviderAccountID account]"

definition shouldRefreshLinkedAccountName ::
  "string \<Rightarrow> ConnectionProviderAccount \<Rightarrow> ConnectionProviderAccount \<Rightarrow> bool" where
  "shouldRefreshLinkedAccountName current existing observed =
     (let trimmed = TrimSpace current
      in trimmed = '''' \<or> trimmed = TrimSpace (pa_Name existing) \<or>
         trimmed = TrimSpace (pa_ProviderAccountID observed))"

definition shouldRefreshLinkedAccountCurrency :: "string \<Rightarrow> ConnectionProviderAccount \<Rightarrow> bool" where
  "shouldRefreshLinkedAccountCurrency current existing =
     (let trimmed = ToUpper (TrimSpace current)
      in trimmed = '''' \<or> trimmed = ToUpper (TrimSpace (pa_Currency existing)))"

definition buildObservedProviderAccount ::
  "ConnectionProviderAccount \<Rightarrow> ProviderConnectionRef \<Rightarrow> ProviderAccountObservation \<Rightarrow> time \<Rightarrow>
   ConnectionProviderAccount" where
  "buildObservedProviderAccount existing connection observation now =
     \<lparr>pa_ID = pa_ID existing,
      pa_ConnectionID = ref_ConnectionID connection,
      pa_ProviderAccountID = oa_ProviderAccountID observation,
      pa_FinanceAccountID = pa_FinanceAccountID existing,
      pa_Name = oa_Name observation,
      pa_Currency = oa_Currency observation,
      pa_IBAN = oa_IBAN observation,
      pa_MaskedPAN = oa_MaskedPAN observation,
      pa_LastSuccessfulSyncAt = timePointerOrNil now,
      pa_CreatedAt = pa_CreatedAt existing,
      pa_UpdatedAt = now\<rparr>"

definition newLinkedFinanceAccount ::
  "string \<Rightarrow> BankConnection \<Rightarrow> ProviderConnectionRef \<Rightarrow> ProviderAccountObservation \<Rightarrow> time \<Rightarrow> Account" where
  "newLinkedFinanceAccount newID bankConnection connection observation now =
     \<lparr>acc_ID = newID,
      acc_TenantID = bc_TenantID bankConnection,
      acc_Name = firstNonBlank [oa_Name observation, oa_IBAN observation, oa_ProviderAccountID observation],
      acc_Currency = ToUpper (TrimSpace (oa_Currency observation)),
      acc_Kind = AccountKindLinked,
      acc_BookedBalanceMinor = 0, acc_PendingBalanceMinor = 0,
      acc_LinkedAccount = Some \<lparr>la_Provider = ref_ProviderID connection,
        la_ProviderAccountID = oa_ProviderAccountID observation\<rparr>,
      acc_HiddenAt = None,
      acc_CreatedAt = now,
      acc_UpdatedAt = now\<rparr>"

section \<open>Loading the stored window\<close>

definition LoadExistingWindow ::
  "'s ProviderWindowSyncStore \<Rightarrow> ProviderConnectionRef \<Rightarrow> ProviderSyncWindow \<Rightarrow>
   ProviderTransactionIdentity list \<Rightarrow> ('s, ExistingWindowSnapshot) action" where
  "LoadExistingWindow s connection window identities =
     bindA (wrapA ''list connection provider accounts''
              (wp_ListConnectionProviderAccounts (ws_persistence s) (ref_ConnectionID connection)))
     (\<lambda>accounts. bindA (wrapA ''list provider transactions in window''
              (wp_ListProviderTransactionsInWindow (ws_persistence s) (mappedFinanceAccountIDs accounts) window))
     (\<lambda>transactions. bindA (wrapA ''list provider transaction matches by transaction ids''
              (wp_ListProviderTransactionMatchesByTransactionIDs (ws_persistence s)
                 (ref_ConnectionID connection) (transactionIDs transactions)))
     (\<lambda>matches. bindA
              (if identities \<noteq> [] then
                 wrapA ''list provider transaction identity matches''
                   (wp_ListProviderTransactionIdentityMatches (ws_persistence s)
                      (ref_ConnectionID connection) identities)
               else returnA [])
     (\<lambda>identityMatches. returnA
        \<lparr>snap_Connection = connection, snap_SnapshotWindow = window,
         snap_Accounts = accounts, snap_Transactions = transactions, snap_Matches = matches,
         snap_IdentityTransactions = identityMatchTransactions identityMatches,
         snap_IdentityMatches = identityMatchRows identityMatches\<rparr>))))"

section \<open>The writes of an apply\<close>

fun saveConnectionSnapshots ::
  "'s ProviderWindowSyncStore \<Rightarrow> 's WindowSyncApplyStore \<Rightarrow> BankConnection \<Rightarrow>
   ProviderSnapshotObservation list \<Rightarrow> ('s, unit) action" where
  "saveConnectionSnapshots s store bankConnection [] = returnA ()"
| "saveConnectionSnapshots s store bankConnection (observation # rest) =
     (if os_Kind observation \<noteq> ProviderSnapshotKindConnection
      then saveConnectionSnapshots s store bankConnection rest
      else
        bindA (liftA (ws_idGenerator s)) (\<lambda>newID.
        bindA (wrapA ''save connection provider snapshot'' (as_SaveProviderSnapshot store
          \<lparr>ps_ID = newID, ps_TenantID = bc_TenantID bankConnection, ps_ConnectionID = bc_ID bankConnection,
           ps_FinanceAccountID = '''', ps_FinanceTransactionID = '''',
           ps_Subject = ProviderSnapshotSubjectConnection, ps_Kind = ProviderSnapshotKindConnection,
           ps_ProviderObjectID = os_ProviderObjectID observation,
           ps_DocumentJSON = os_DocumentJSON observation,
           ps_CapturedAt = os_CapturedAt observation\<rparr>)) (\<lambda>_.
        saveConnectionSnapshots s store bankConnection rest)))"

definition refreshLinkedFinanceAccount ::
  "'s WindowSyncApplyStore \<Rightarrow> ConnectionProviderAccount \<Rightarrow> ConnectionProviderAccount \<Rightarrow> time \<Rightarrow>
   ('s, unit) action" where
  "refreshLinkedFinanceAccount store existing observed now =
     (if pa_FinanceAccountID observed = '''' then returnA ()
      else
        bindA (wrapA ''get linked finance account'' (as_GetAccount store (pa_FinanceAccountID observed)))
        (\<lambda>found.
          case found of
            None \<Rightarrow> returnA ()
          | Some account \<Rightarrow>
              (case acc_LinkedAccount account of
                 None \<Rightarrow> returnA ()
               | Some linked \<Rightarrow>
                   if la_ProviderAccountID linked \<noteq> pa_ProviderAccountID observed then returnA ()
                   else
                     (let name = (if shouldRefreshLinkedAccountName (acc_Name account) existing observed
                                  then providerAccountDisplayName observed else acc_Name account);
                          currency = (if shouldRefreshLinkedAccountCurrency (acc_Currency account) existing
                                      then ToUpper (TrimSpace (pa_Currency observed)) else acc_Currency account)
                      in if name = acc_Name account \<and> currency = acc_Currency account then returnA ()
                         else bindA (wrapA ''save linked finance account'' (as_SaveAccount store
                                (account\<lparr>acc_Name := name, acc_Currency := currency, acc_UpdatedAt := now\<rparr>)))
                              (\<lambda>_. returnA ())))))"

text \<open>The finance account id is drawn before the mapping id, as in the source.\<close>

definition claimObservedProviderAccount ::
  "'s ProviderWindowSyncStore \<Rightarrow> 's WindowSyncApplyStore \<Rightarrow> ProviderConnectionRef \<Rightarrow> BankConnection \<Rightarrow>
   ProviderAccountObservation \<Rightarrow> time \<Rightarrow> ('s, ConnectionProviderAccount \<times> bool) action" where
  "claimObservedProviderAccount s store connection bankConnection observation now =
     bindA (liftA (ws_idGenerator s)) (\<lambda>financeID.
     bindA (liftA (ws_idGenerator s)) (\<lambda>mappingID.
       let financeAccount = newLinkedFinanceAccount financeID bankConnection connection observation now;
           candidateMapping = buildObservedProviderAccount
             \<lparr>pa_ID = mappingID, pa_ConnectionID = ref_ConnectionID connection,
              pa_ProviderAccountID = oa_ProviderAccountID observation,
              pa_FinanceAccountID = acc_ID financeAccount, pa_Name = '''', pa_Currency = '''',
              pa_IBAN = '''', pa_MaskedPAN = '''', pa_LastSuccessfulSyncAt = None,
              pa_CreatedAt = now, pa_UpdatedAt = zero_time\<rparr> connection observation now
       in bindA (wrapA ''claim connection provider account''
                   (as_SaveConnectionProviderAccount store candidateMapping)) (\<lambda>savedAccount.
          if pa_FinanceAccountID savedAccount \<noteq> acc_ID financeAccount
          then returnA (savedAccount, False)
          else bindA (wrapA ''save linked finance account'' (as_SaveAccount store financeAccount))
                 (\<lambda>_. returnA (savedAccount, True)))))"

fun saveObservedAccounts ::
  "'s ProviderWindowSyncStore \<Rightarrow> 's WindowSyncApplyStore \<Rightarrow> provider_accounts \<Rightarrow> ProviderConnectionRef \<Rightarrow>
   BankConnection \<Rightarrow> ProviderAccountObservation list \<Rightarrow> time \<Rightarrow> int \<Rightarrow>
   ('s, int \<times> provider_accounts) action" where
  "saveObservedAccounts s store providerAccounts connection bankConnection [] now createdAccounts =
     returnA (createdAccounts, providerAccounts)"
| "saveObservedAccounts s store providerAccounts connection bankConnection (observation # rest) now createdAccounts =
     (case providerAccounts (oa_ProviderAccountID observation) of
        None \<Rightarrow>
          bindA (claimObservedProviderAccount s store connection bankConnection observation now)
          (\<lambda>(savedAccount, created).
          bindA (refreshLinkedFinanceAccount store savedAccount savedAccount now) (\<lambda>_.
          saveObservedAccounts s store
            (providerAccounts(pa_ProviderAccountID savedAccount \<mapsto> savedAccount))
            connection bankConnection rest now (if created then createdAccounts + 1 else createdAccounts)))
      | Some existingAccount \<Rightarrow>
          bindA (wrapA ''save connection provider account'' (as_SaveConnectionProviderAccount store
                   (buildObservedProviderAccount existingAccount connection observation now)))
          (\<lambda>savedAccount.
          bindA (refreshLinkedFinanceAccount store existingAccount savedAccount now) (\<lambda>_.
          saveObservedAccounts s store
            (providerAccounts(pa_ProviderAccountID savedAccount \<mapsto> savedAccount))
            connection bankConnection rest now createdAccounts)))"

fun saveBalanceSnapshots ::
  "'s ProviderWindowSyncStore \<Rightarrow> 's WindowSyncApplyStore \<Rightarrow> provider_accounts \<Rightarrow> ProviderConnectionRef \<Rightarrow>
   ProviderBalanceObservation list \<Rightarrow> ('s, unit) action" where
  "saveBalanceSnapshots s store providerAccounts connection [] = returnA ()"
| "saveBalanceSnapshots s store providerAccounts connection (observation # rest) =
     bindA (resultA (resolveProviderAccount providerAccounts (ob_ProviderAccountID observation)))
     (\<lambda>providerAccount. bindA (liftA (ws_idGenerator s)) (\<lambda>newID.
     bindA (wrapA ''save balance snapshot'' (as_SaveBalanceSnapshot store
       \<lparr>bs_ID = newID, bs_ConnectionID = ref_ConnectionID connection,
        bs_ProviderAccountID = ob_ProviderAccountID observation,
        bs_FinanceAccountID = pa_FinanceAccountID providerAccount,
        bs_Currency = ob_Currency observation,
        bs_CurrentBalanceMinor = ob_CurrentBalanceMinor observation,
        bs_AvailableBalanceMinor = ob_AvailableBalanceMinor observation,
        bs_CapturedAt = ob_CapturedAt observation\<rparr>)) (\<lambda>_.
     saveBalanceSnapshots s store providerAccounts connection rest)))"

fun saveAccountSnapshots ::
  "'s ProviderWindowSyncStore \<Rightarrow> 's WindowSyncApplyStore \<Rightarrow> provider_accounts \<Rightarrow> ProviderConnectionRef \<Rightarrow>
   ProviderSnapshotObservation list \<Rightarrow> ('s, unit) action" where
  "saveAccountSnapshots s store providerAccounts connection [] = returnA ()"
| "saveAccountSnapshots s store providerAccounts connection (observation # rest) =
     (if os_Kind observation \<noteq> ProviderSnapshotKindAccount \<and>
         os_Kind observation \<noteq> ProviderSnapshotKindAccountBalance
      then saveAccountSnapshots s store providerAccounts connection rest
      else
        bindA (resultA (resolveProviderAccount providerAccounts (os_ProviderAccountID observation)))
        (\<lambda>providerAccount. bindA (wrapA ''get finance account for provider snapshot''
          (as_GetAccount store (pa_FinanceAccountID providerAccount)))
        (\<lambda>found. case found of
            None \<Rightarrow> failA (Errorf (''finance account not found for provider snapshot: ''
                             @ pa_FinanceAccountID providerAccount))
          | Some financeAccount \<Rightarrow>
              bindA (liftA (ws_idGenerator s)) (\<lambda>newID.
              bindA (wrapA ''save provider snapshot'' (as_SaveProviderSnapshot store
                \<lparr>ps_ID = newID, ps_TenantID = acc_TenantID financeAccount,
                 ps_ConnectionID = ref_ConnectionID connection,
                 ps_FinanceAccountID = pa_FinanceAccountID providerAccount,
                 ps_FinanceTransactionID = '''',
                 ps_Subject = ProviderSnapshotSubjectAccount, ps_Kind = os_Kind observation,
                 ps_ProviderObjectID = os_ProviderObjectID observation,
                 ps_DocumentJSON = os_DocumentJSON observation,
                 ps_CapturedAt = os_CapturedAt observation\<rparr>)) (\<lambda>_.
              saveAccountSnapshots s store providerAccounts connection rest)))))"

definition buildTransactionWrite ::
  "'s ProviderWindowSyncStore \<Rightarrow> ApplyTransactionWrite \<Rightarrow> provider_accounts \<Rightarrow> string \<Rightarrow> time \<Rightarrow>
   ('s, Transaction) action" where
  "buildTransactionWrite s write providerAccounts tenantID now =
     (case write_MergedTransaction write of
        Some merged \<Rightarrow> returnA (merged\<lparr>tx_UpdatedAt := now\<rparr>)
      | None \<Rightarrow>
          (let observation = act_Observation (write_Action write)
           in bindA (resultA (resolveProviderAccount providerAccounts (ot_ProviderAccountID observation)))
              (\<lambda>providerAccount. bindA (liftA (ws_idGenerator s)) (\<lambda>newID. returnA
                \<lparr>tx_ID = newID, tx_TenantID = tenantID,
                 tx_AccountID = pa_FinanceAccountID providerAccount,
                 tx_Source = TransactionSourceProvider,
                 tx_Status = ot_Status observation,
                 tx_Kind = TransactionKindRegular,
                 tx_AmountMinor = ot_AmountMinor observation,
                 tx_Currency = ot_Currency observation,
                 tx_Description = ot_Description observation,
                 tx_EffectiveAt = ot_EffectiveAt observation,
                 tx_CategoryID = None, tx_TagIDs = [], tx_TransferGroupID = None,
                 tx_TransferMatchedAt = None, tx_TransferMatchingExcluded = False, tx_HiddenAt = None,
                 tx_CreatedAt = now, tx_UpdatedAt = now,
                 tx_ProviderOriginal = Some (buildProviderOriginal observation)\<rparr>))))"

definition providerTransactionMatchIdentity ::
  "'s ProviderWindowSyncStore \<Rightarrow> ProviderTransactionMatch option \<Rightarrow> time \<Rightarrow> ('s, string \<times> time) action" where
  "providerTransactionMatchIdentity s existingMatch now =
     (case existingMatch of
        Some match \<Rightarrow> returnA (m_ID match, m_CreatedAt match)
      | None \<Rightarrow> bindA (liftA (ws_idGenerator s)) (\<lambda>newID. returnA (newID, now)))"

definition buildProviderTransactionMatch ::
  "'s ProviderWindowSyncStore \<Rightarrow> ProviderConnectionRef \<Rightarrow> ApplyTransactionWrite \<Rightarrow> Transaction \<Rightarrow>
   ProviderTransactionMatch list \<Rightarrow> time \<Rightarrow> ('s, ProviderTransactionMatch) action" where
  "buildProviderTransactionMatch s connection write transaction snapshotMatches now =
     bindA (providerTransactionMatchIdentity s (existingSnapshotMatch (write_Action write) snapshotMatches) now)
     (\<lambda>(matchID, createdAt). returnA
       (let observation = act_Observation (write_Action write)
        in \<lparr>m_ID = matchID, m_ConnectionID = ref_ConnectionID connection,
            m_ProviderAccountID = ot_ProviderAccountID observation,
            m_ProviderTransactionID = ot_ProviderTransactionID observation,
            m_Fingerprint = ot_Fingerprint observation,
            m_TransactionID = tx_ID transaction, m_Status = tx_Status transaction,
            m_CreatedAt = createdAt, m_UpdatedAt = now\<rparr>))"

fun saveTransactionWritesWithResults ::
  "'s ProviderWindowSyncStore \<Rightarrow> 's WindowSyncApplyStore \<Rightarrow> provider_accounts \<Rightarrow> ProviderConnectionRef \<Rightarrow>
   string \<Rightarrow> ProviderTransactionMatch list \<Rightarrow> ApplyTransactionWrite list \<Rightarrow> time \<Rightarrow>
   (string \<rightharpoonup> Transaction) \<Rightarrow> ('s, string \<rightharpoonup> Transaction) action" where
  "saveTransactionWritesWithResults s store providerAccounts connection tenantID snapshotMatches [] now saved =
     returnA saved"
| "saveTransactionWritesWithResults s store providerAccounts connection tenantID snapshotMatches
     (write # rest) now saved =
     bindA (buildTransactionWrite s write providerAccounts tenantID now) (\<lambda>transaction.
     bindA (wrapA ''save transaction'' (as_SaveTransaction store transaction)) (\<lambda>savedTransaction.
     bindA (buildProviderTransactionMatch s connection write savedTransaction snapshotMatches now) (\<lambda>match.
     bindA (wrapA ''save provider transaction match'' (as_SaveProviderTransactionMatch store match)) (\<lambda>_.
     saveTransactionWritesWithResults s store providerAccounts connection tenantID snapshotMatches rest now
       (saved(providerSnapshotTransactionKey
          (ot_ProviderAccountID (act_Observation (write_Action write)))
          (providerObservationObjectID (act_Observation (write_Action write))) \<mapsto> savedTransaction))))))"

fun saveTransactionSnapshots ::
  "'s ProviderWindowSyncStore \<Rightarrow> 's WindowSyncApplyStore \<Rightarrow> provider_accounts \<Rightarrow> ProviderConnectionRef \<Rightarrow>
   (string \<rightharpoonup> Transaction) \<Rightarrow> ProviderSnapshotObservation list \<Rightarrow> ('s, unit) action" where
  "saveTransactionSnapshots s store providerAccounts connection transactions [] = returnA ()"
| "saveTransactionSnapshots s store providerAccounts connection transactions (observation # rest) =
     (if os_Kind observation \<noteq> ProviderSnapshotKindTransaction
      then saveTransactionSnapshots s store providerAccounts connection transactions rest
      else
        bindA (resultA (resolveProviderAccount providerAccounts (os_ProviderAccountID observation)))
        (\<lambda>providerAccount.
          case transactions (providerSnapshotTransactionKey (os_ProviderAccountID observation)
                 (os_ProviderObjectID observation)) of
            None \<Rightarrow> saveTransactionSnapshots s store providerAccounts connection transactions rest
          | Some transaction \<Rightarrow>
              bindA (liftA (ws_idGenerator s)) (\<lambda>newID.
              bindA (wrapA ''save transaction provider snapshot'' (as_SaveProviderSnapshot store
                \<lparr>ps_ID = newID, ps_TenantID = tx_TenantID transaction,
                 ps_ConnectionID = ref_ConnectionID connection,
                 ps_FinanceAccountID = pa_FinanceAccountID providerAccount,
                 ps_FinanceTransactionID = tx_ID transaction,
                 ps_Subject = ProviderSnapshotSubjectTransaction, ps_Kind = ProviderSnapshotKindTransaction,
                 ps_ProviderObjectID = os_ProviderObjectID observation,
                 ps_DocumentJSON = os_DocumentJSON observation,
                 ps_CapturedAt = os_CapturedAt observation\<rparr>)) (\<lambda>_.
              saveTransactionSnapshots s store providerAccounts connection transactions rest))))"

definition appendSuccessfulSyncState ::
  "'s WindowSyncApplyStore \<Rightarrow> ProviderSyncState list \<Rightarrow> ProviderSyncStats \<Rightarrow> ('s, unit) action" where
  "appendSuccessfulSyncState store successStates stats =
     (case successStates of
        [] \<Rightarrow> returnA ()
      | successState # _ \<Rightarrow>
          wrapA ''append successful provider sync state'' (as_AppendSyncState store
            (successState\<lparr>st_AggregateStats := mergeProviderSyncStats (st_AggregateStats successState) stats\<rparr>)))"

fun publishStates ::
  "(BankSyncWindowCompleted \<Rightarrow> ('s, unit) action) \<Rightarrow> BankConnection \<Rightarrow> ProviderSyncState list \<Rightarrow>
   ('s, unit) action" where
  "publishStates publish connection [] = returnA ()"
| "publishStates publish connection (state # rest) =
     bindA (wrapA ''publish bank sync window completion'' (publish
       \<lparr>ev_TenantID = bc_TenantID connection, ev_ConnectionID = bc_ID connection,
        ev_RangeStart = win_Start (st_Window state), ev_RangeEndExclusive = win_End (st_Window state),
        ev_SourceSyncMessageID = st_JobID state\<rparr>)) (\<lambda>_.
     publishStates publish connection rest)"

definition publishBankSyncWindowCompleted ::
  "'s ProviderWindowSyncStore \<Rightarrow> 's WindowSyncApplyStore \<Rightarrow> BankConnection \<Rightarrow> ProviderSyncState list \<Rightarrow>
   ('s, unit) action" where
  "publishBankSyncWindowCompleted s store connection successStates =
     (if successStates = [] then returnA ()
      else case ws_publisher s of
        None \<Rightarrow> returnA ()
      | Some publish \<Rightarrow>
          bindA (wrapA ''get bank sync apply transaction'' (as_SQLTransaction store)) (\<lambda>_.
          publishStates publish connection successStates))"

section \<open>Applying a sync\<close>

text \<open>
  The closure \<^verbatim>\<open>ApplySync\<close> runs inside \<^verbatim>\<open>WithTransaction\<close>, and \<^verbatim>\<open>ApplySync\<close>. The Go closure
  updates the outer variable \<open>stats\<close>; here it returns it.
\<close>

definition applyInTransaction ::
  "'s ProviderWindowSyncStore \<Rightarrow> ProviderDiffPlan \<Rightarrow> ApplyPlan \<Rightarrow> ProviderSyncState list \<Rightarrow>
   ExistingWindowSnapshot \<Rightarrow> time \<Rightarrow> 's WindowSyncApplyStore \<Rightarrow> ('s, ProviderSyncStats) action" where
  "applyInTransaction s plan aplan successStates snapshot now store =
     bindA (wrapA ''get bank connection for sync apply''
              (as_GetBankConnection store (ref_ConnectionID (dp_Connection plan))))
     (\<lambda>found. case found of
        None \<Rightarrow> failA (Errorf (''bank connection not found for sync apply: '' @ ref_ConnectionID (dp_Connection plan)))
      | Some bankConnection \<Rightarrow>
          bindA (saveConnectionSnapshots s store bankConnection (dp_SnapshotObservations plan)) (\<lambda>_.
          bindA (saveObservedAccounts s store (providerAccountsByProviderID (snap_Accounts snapshot))
                   (dp_Connection plan) bankConnection (dp_AccountObservations plan) now 0)
          (\<lambda>(createdAccounts, providerAccounts).
          let stats = (ap_Stats aplan)\<lparr>CreatedAccounts := CreatedAccounts (ap_Stats aplan) + createdAccounts\<rparr>
          in
          bindA (saveBalanceSnapshots s store providerAccounts (dp_Connection plan)
                   (dp_BalanceObservations plan)) (\<lambda>_.
          bindA (saveAccountSnapshots s store providerAccounts (dp_Connection plan)
                   (dp_SnapshotObservations plan)) (\<lambda>_.
          bindA (saveTransactionWritesWithResults s store providerAccounts (dp_Connection plan)
                   (bc_TenantID bankConnection)
                   (appendUniqueProviderTransactionMatches (snap_Matches snapshot) (snap_IdentityMatches snapshot))
                   (ap_TransactionWrites aplan) now Map.empty) (\<lambda>transactions.
          bindA (saveTransactionSnapshots s store providerAccounts (dp_Connection plan) transactions
                   (dp_SnapshotObservations plan)) (\<lambda>_.
          bindA (appendSuccessfulSyncState store successStates stats) (\<lambda>_.
          bindA (publishBankSyncWindowCompleted s store bankConnection successStates) (\<lambda>_.
          returnA stats)))))))))"

definition ApplySync ::
  "'s ProviderWindowSyncStore \<Rightarrow> ProviderDiffPlan \<Rightarrow> ApplyPlan \<Rightarrow> ProviderSyncState list \<Rightarrow>
   ('s, ProviderSyncStats) action" where
  "ApplySync s plan aplan successStates =
     bindA (wrapA ''load existing apply snapshot''
              (LoadExistingWindow s (dp_Connection plan) (dp_SnapshotWindow plan)
                 (providerTransactionIdentitiesFromActions (dp_TransactionActions plan))))
     (\<lambda>snapshot. bindA (liftA (ws_now s)) (\<lambda>now.
     wp_WithTransaction (ws_persistence s)
       (applyInTransaction s plan aplan successStates snapshot now)))"

end
