(* ===== verification/SyncPersistence.thy ===== *)
theory SyncPersistence
  imports Database SyncStore
begin

text \<open>
  The stores of \<^verbatim>\<open>finance/persistence\<close> that the window sync uses, on the tables of
  \<open>Database\<close>: one definition per method, one statement per SQL call, in the order of the
  source (\<^verbatim>\<open>core_store.go\<close>, \<^verbatim>\<open>provider_sync_store.go\<close>, \<^verbatim>\<open>provider_snapshot_store.go\<close>,
  \<^verbatim>\<open>provider_sync_state_journal_store.go\<close>, \<^verbatim>\<open>provider_window_sync_persistence.go\<close>,
  \<^verbatim>\<open>transaction_tag_store.go\<close>). They provide the interface records of \<open>SyncStore\<close>.
\<close>

section \<open>Accounts and transactions\<close>

definition accountUpdate :: "accountModel \<Rightarrow> accountModel \<Rightarrow> accountModel" where
  "accountUpdate old new = old\<lparr>am_TenantID := am_TenantID new, am_Name := am_Name new,
     am_Currency := am_Currency new, am_Kind := am_Kind new, am_Provider := am_Provider new,
     am_ProviderAccountID := am_ProviderAccountID new, am_HiddenAt := am_HiddenAt new,
     am_UpdatedAt := am_UpdatedAt new\<rparr>"

definition SaveAccount :: "Account \<Rightarrow> (World, Account) action" where
  "SaveAccount account =
     (let model = newAccountModel account
      in bindA (wrapA ''save account'' (changeSQL (\<lambda>t.
           map_sum (\<lambda>e. e) (\<lambda>rows. t\<lparr>t_accounts := rows\<rparr>)
             (upsertRows am_ID am_ID accountUpdate model (t_accounts t)))))
         (\<lambda>_. returnA (accountFromModel model)))"

definition GetAccount :: "string \<Rightarrow> (World, Account option) action" where
  "GetAccount accountID =
     bindA (wrapA ''get account'' (readSQL (\<lambda>t. lookupRow am_ID accountID (t_accounts t))))
     (\<lambda>found. case found of
        None \<Rightarrow> failA (Sentinel PersistenceErrAccountNotFound)
      | Some model \<Rightarrow> returnA (Some (accountFromModel model)))"

text \<open>
  The conflict update leaves \<^verbatim>\<open>kind\<close>, the transfer columns and \<^verbatim>\<open>created_at\<close> as they are
  stored; the stored pairing is read back into the result.
\<close>

definition transactionUpdate :: "transactionModel \<Rightarrow> transactionModel \<Rightarrow> transactionModel" where
  "transactionUpdate old new = old\<lparr>tm_TenantID := tm_TenantID new, tm_AccountID := tm_AccountID new,
     tm_Source := tm_Source new, tm_Status := tm_Status new, tm_AmountMinor := tm_AmountMinor new,
     tm_Currency := tm_Currency new, tm_Description := tm_Description new,
     tm_EffectiveAt := tm_EffectiveAt new, tm_CategoryID := tm_CategoryID new,
     tm_HiddenAt := tm_HiddenAt new, tm_OriginalAmountMinor := tm_OriginalAmountMinor new,
     tm_OriginalCurrency := tm_OriginalCurrency new,
     tm_OriginalDescription := tm_OriginalDescription new,
     tm_OriginalEffectiveAt := tm_OriginalEffectiveAt new, tm_UpdatedAt := tm_UpdatedAt new\<rparr>"

definition saveTransactionModel :: "transactionModel \<Rightarrow> (World, transactionModel) action" where
  "saveTransactionModel model =
     bindA (changeSQL (\<lambda>t. map_sum (\<lambda>e. e) (\<lambda>rows. t\<lparr>t_transactions := rows\<rparr>)
              (upsertRows tm_ID tm_ID transactionUpdate model (t_transactions t))))
     (\<lambda>_. wrapA ''load saved transaction record''
       (bindA (readSQL (\<lambda>t. lookupRow tm_ID (tm_ID model) (t_transactions t)))
       (\<lambda>found. case found of
          None \<Rightarrow> failA (Sentinel GormErrRecordNotFound)
        | Some stored \<Rightarrow> returnA (model\<lparr>tm_Kind := tm_Kind stored,
            tm_TransferGroupID := tm_TransferGroupID stored,
            tm_TransferMatchedAt := tm_TransferMatchedAt stored,
            tm_TransferMatchingExcluded := tm_TransferMatchingExcluded stored\<rparr>))))"

definition SaveTransaction :: "Transaction \<Rightarrow> (World, Transaction) action" where
  "SaveTransaction transaction =
     bindA (wrapA ''save transaction'' (saveTransactionModel (newTransactionModel transaction)))
     (\<lambda>model. returnA (transactionFromModel model))"

section \<open>Connections, provider accounts, balances, matches\<close>

definition GetBankConnection :: "string \<Rightarrow> (World, BankConnection option) action" where
  "GetBankConnection connectionID =
     bindA (wrapA ''get bank connection''
       (readSQL (\<lambda>t. lookupRow bm_ID (TrimSpace connectionID) (t_bankConnections t))))
     (\<lambda>found. case found of
        None \<Rightarrow> failA (Sentinel PersistenceErrBankConnectionNotFound)
      | Some model \<Rightarrow> returnA (Some (bankConnectionFromModel model)))"

definition providerAccountKey :: "connectionProviderAccountModel \<Rightarrow> string \<times> string" where
  "providerAccountKey row = (pm_ConnectionID row, pm_ProviderAccountID row)"

definition providerAccountUpdate ::
  "connectionProviderAccountModel \<Rightarrow> connectionProviderAccountModel \<Rightarrow> connectionProviderAccountModel" where
  "providerAccountUpdate old new = old\<lparr>pm_Name := pm_Name new, pm_Currency := pm_Currency new,
     pm_IBAN := pm_IBAN new, pm_MaskedPAN := pm_MaskedPAN new,
     pm_LastSuccessfulSyncAt := pm_LastSuccessfulSyncAt new, pm_UpdatedAt := pm_UpdatedAt new\<rparr>"

definition SaveConnectionProviderAccount ::
  "ConnectionProviderAccount \<Rightarrow> (World, ConnectionProviderAccount) action" where
  "SaveConnectionProviderAccount account =
     (let model = newConnectionProviderAccountModel account
      in bindA (wrapA ''save connection provider account'' (changeSQL (\<lambda>t.
           map_sum (\<lambda>e. e) (\<lambda>rows. t\<lparr>t_providerAccounts := rows\<rparr>)
             (upsertRows providerAccountKey pm_ID providerAccountUpdate model (t_providerAccounts t)))))
         (\<lambda>_. wrapA ''load saved connection provider account''
           (bindA (readSQL (\<lambda>t. lookupRow providerAccountKey (providerAccountKey model) (t_providerAccounts t)))
           (\<lambda>found. case found of
              None \<Rightarrow> failA (Sentinel GormErrRecordNotFound)
            | Some saved \<Rightarrow> returnA (connectionProviderAccountFromModel saved)))))"

definition ListConnectionProviderAccounts :: "string \<Rightarrow> (World, ConnectionProviderAccount list) action" where
  "ListConnectionProviderAccounts connectionID =
     bindA (wrapA ''list connection provider accounts'' (readSQL (\<lambda>t.
       orderAsc (\<lambda>r. (pm_CreatedAt r, pm_ID r))
         (filter (\<lambda>r. pm_ConnectionID r = TrimSpace connectionID) (t_providerAccounts t)))))
     (\<lambda>models. returnA (map connectionProviderAccountFromModel models))"

definition SaveBalanceSnapshot :: "BalanceSnapshot \<Rightarrow> (World, BalanceSnapshot) action" where
  "SaveBalanceSnapshot snapshot =
     (let model = newBalanceSnapshotModel snapshot
      in bindA (wrapA ''save balance snapshot'' (changeSQL (\<lambda>t.
           map_sum (\<lambda>e. e) (\<lambda>rows. t\<lparr>t_balanceSnapshots := rows\<rparr>)
             (insertRows bsm_ID model (t_balanceSnapshots t)))))
         (\<lambda>_. returnA (balanceSnapshotFromModel model)))"

definition matchUpdate ::
  "providerTransactionMatchModel \<Rightarrow> providerTransactionMatchModel \<Rightarrow> providerTransactionMatchModel" where
  "matchUpdate old new = old\<lparr>mm_ProviderTransactionID := mm_ProviderTransactionID new,
     mm_Fingerprint := mm_Fingerprint new, mm_TransactionID := mm_TransactionID new,
     mm_Status := mm_Status new, mm_UpdatedAt := mm_UpdatedAt new\<rparr>"

definition SaveProviderTransactionMatch ::
  "ProviderTransactionMatch \<Rightarrow> (World, ProviderTransactionMatch) action" where
  "SaveProviderTransactionMatch match =
     (let model = newProviderTransactionMatchModel match
      in bindA (wrapA ''save provider transaction match'' (changeSQL (\<lambda>t.
           map_sum (\<lambda>e. e) (\<lambda>rows. t\<lparr>t_matches := rows\<rparr>)
             (upsertRows mm_ID mm_ID matchUpdate model (t_matches t)))))
         (\<lambda>_. returnA (providerTransactionMatchFromModel model)))"

section \<open>Provider source snapshots\<close>

definition requireAccount :: "string \<Rightarrow> string \<Rightarrow> (World, unit) action" where
  "requireAccount tenantID accountID =
     bindA (wrapA ''check provider snapshot account'' (readSQL (\<lambda>t.
       length (filter (\<lambda>r. am_ID r = TrimSpace accountID \<and> am_TenantID r = TrimSpace tenantID) (t_accounts t)))))
     (\<lambda>count. if count = 0 then failA (Sentinel PersistenceErrAccountNotFound) else returnA ())"

definition requireTransactionAttachment :: "ProviderSnapshot \<Rightarrow> (World, unit) action" where
  "requireTransactionAttachment snapshot =
     bindA (wrapA ''check provider snapshot transaction attachment'' (readSQL (\<lambda>t.
       length (filter (\<lambda>r. tm_ID r = ps_FinanceTransactionID snapshot \<and>
         tm_TenantID r = ps_TenantID snapshot \<and> tm_AccountID r = ps_FinanceAccountID snapshot)
         (t_transactions t)))))
     (\<lambda>count. if count = 0 then failA (Sentinel PersistenceErrTransactionNotFound) else returnA ())"

definition requireSnapshotOwnership :: "ProviderSnapshot \<Rightarrow> (World, unit) action" where
  "requireSnapshotOwnership snapshot =
     bindA (wrapA ''check provider snapshot connection'' (readSQL (\<lambda>t.
       length (filter (\<lambda>r. bm_ID r = ps_ConnectionID snapshot \<and> bm_TenantID r = ps_TenantID snapshot)
         (t_bankConnections t)))))
     (\<lambda>connectionCount.
        if connectionCount = 0 then failA (Sentinel PersistenceErrBankConnectionNotFound)
        else
          (case ps_Subject snapshot of
             ProviderSnapshotSubjectConnection \<Rightarrow> returnA ()
           | ProviderSnapshotSubjectAccount \<Rightarrow>
               requireAccount (ps_TenantID snapshot) (ps_FinanceAccountID snapshot)
           | ProviderSnapshotSubjectTransaction \<Rightarrow>
               bindA (requireAccount (ps_TenantID snapshot) (ps_FinanceAccountID snapshot))
                 (\<lambda>_. requireTransactionAttachment snapshot)
           | ProviderSnapshotSubjectOther _ \<Rightarrow>
               failA (Errorf ''provider snapshot subject is unsupported'')))"

type_synonym snapshot_identity =
  "string \<times> string \<times> ProviderSnapshotSubject \<times> string \<times> string \<times> ProviderSnapshotKind \<times> string"

definition snapshotIdentity :: "providerSnapshotModel \<Rightarrow> snapshot_identity" where
  "snapshotIdentity r = (psm_TenantID r, psm_ConnectionID r, psm_Subject r, psm_FinanceAccountID r,
     psm_FinanceTransactionID r, psm_Kind r, psm_ProviderObjectID r)"

text \<open>The update applies only when the new observation is not older than the stored one.\<close>

definition snapshotUpdate :: "providerSnapshotModel \<Rightarrow> providerSnapshotModel \<Rightarrow> providerSnapshotModel" where
  "snapshotUpdate old new =
     (if psm_CapturedAt old \<le> psm_CapturedAt new
      then old\<lparr>psm_DocumentJSON := psm_DocumentJSON new, psm_CapturedAt := psm_CapturedAt new\<rparr>
      else old)"

definition saveProviderSnapshotModel :: "providerSnapshotModel \<Rightarrow> (World, ProviderSnapshot) action" where
  "saveProviderSnapshotModel model =
     bindA (wrapA ''save provider snapshot'' (changeSQL (\<lambda>t.
       map_sum (\<lambda>e. e) (\<lambda>rows. t\<lparr>t_providerSnapshots := rows\<rparr>)
         (upsertRows snapshotIdentity psm_ID snapshotUpdate model (t_providerSnapshots t)))))
     (\<lambda>_. wrapA ''read saved provider snapshot''
       (bindA (readSQL (\<lambda>t. lookupRow snapshotIdentity (snapshotIdentity model) (t_providerSnapshots t)))
       (\<lambda>found. case found of
          None \<Rightarrow> failA (Sentinel GormErrRecordNotFound)
        | Some persisted \<Rightarrow> returnA (providerSnapshotFromModel persisted))))"

definition SaveProviderSnapshot :: "ProviderSnapshot \<Rightarrow> (World, ProviderSnapshot) action" where
  "SaveProviderSnapshot snapshot = (\<lambda>w.
     (case snapshotValidate (w_json w) snapshot of
        Some e \<Rightarrow> (Inl (Wrap ''validate provider snapshot'' e), w)
      | None \<Rightarrow>
          bindA (wrapA ''validate provider snapshot ownership'' (requireSnapshotOwnership snapshot)) (\<lambda>_.
          bindA (wrapA ''sanitize provider snapshot document''
                  (resultA (SanitizeProviderSnapshotJSON (w_json w) (ps_DocumentJSON snapshot))))
          (\<lambda>sanitizedDocument. saveProviderSnapshotModel
            (newProviderSnapshotModel (snapshot\<lparr>ps_DocumentJSON := sanitizedDocument\<rparr>)))) w))"

section \<open>The sync state journal\<close>

definition LoadLastState :: "ProviderConnectionRef \<Rightarrow> (World, ProviderSyncState option) action" where
  "LoadLastState connection =
     bindA (wrapA ''load provider sync state journal'' (readSQL (\<lambda>t.
       firstRow (orderDesc (\<lambda>r. (jm_CreatedAt r, jm_JournalID r))
         (filter (\<lambda>r. jm_ConnectionID r = ref_ConnectionID connection) (t_journal t))))))
     (\<lambda>found. returnA (map_option (\<lambda>model. providerSyncStateFromJournalModel model connection) found))"

definition AppendSyncState :: "ProviderSyncState \<Rightarrow> (World, unit) action" where
  "AppendSyncState state =
     bindA (liftA readClock) (\<lambda>now.
     wrapA ''append provider sync state journal'' (changeSQL (\<lambda>t.
       Inr (t\<lparr>t_journal := t_journal t @ [newProviderSyncStateJournalModel state now (t_journalNext t)],
              t_journalNext := t_journalNext t + 1\<rparr>))))"

section \<open>The reads of a window\<close>

definition nonEmptyTrimmedStrings :: "string list \<Rightarrow> string list" where
  "nonEmptyTrimmedStrings values = filter (\<lambda>s. s \<noteq> '''') (map TrimSpace values)"

definition nonEmptyProviderTransactionIdentities ::
  "ProviderTransactionIdentity list \<Rightarrow> ProviderTransactionIdentity list" where
  "nonEmptyProviderTransactionIdentities identities =
     first_seen (\<lambda>x. x) [] (filter (\<lambda>i. \<not> (ident_ProviderAccountID i = '''' \<or>
       ident_ProviderTransactionID i = '''')) identities)"

definition ListProviderTransactionsInWindow ::
  "string list \<Rightarrow> ProviderSyncWindow \<Rightarrow> (World, Transaction list) action" where
  "ListProviderTransactionsInWindow financeAccountIDs window =
     (let accountIDs = nonEmptyTrimmedStrings financeAccountIDs
      in if accountIDs = [] then returnA []
         else bindA (wrapA ''list provider transactions in window'' (readSQL (\<lambda>t.
           orderDesc (\<lambda>r. (tm_EffectiveAt r, tm_CreatedAt r, tm_ID r))
             (filter (\<lambda>r. tm_AccountID r \<in> set accountIDs \<and> tm_Source r = TransactionSourceProvider \<and>
                win_Start window \<le> tm_EffectiveAt r \<and> tm_EffectiveAt r < win_End window)
               (t_transactions t)))))
           (\<lambda>models. returnA (map transactionFromModel models)))"

definition ListProviderTransactionMatchesByTransactionIDs ::
  "string \<Rightarrow> string list \<Rightarrow> (World, ProviderTransactionMatch list) action" where
  "ListProviderTransactionMatchesByTransactionIDs connectionID ids =
     (let trimmed = nonEmptyTrimmedStrings ids
      in if trimmed = [] then returnA []
         else bindA (wrapA ''list provider transaction matches by transaction ids'' (readSQL (\<lambda>t.
           orderAsc (\<lambda>r. (mm_CreatedAt r, mm_ID r))
             (filter (\<lambda>r. mm_ConnectionID r = TrimSpace connectionID \<and> mm_TransactionID r \<in> set trimmed)
               (t_matches t)))))
           (\<lambda>models. returnA (map providerTransactionMatchFromModel models)))"

definition ListProviderTransactionIdentityMatches ::
  "string \<Rightarrow> ProviderTransactionIdentity list \<Rightarrow> (World, ProviderTransactionIdentityMatch list) action" where
  "ListProviderTransactionIdentityMatches connectionID givenIdentities =
     (let identities = nonEmptyProviderTransactionIdentities givenIdentities
      in if identities = [] then returnA []
         else
           bindA (wrapA ''list provider transaction identity matches'' (readSQL (\<lambda>t.
             orderAsc (\<lambda>r. (mm_CreatedAt r, mm_ID r))
               (filter (\<lambda>r. mm_ConnectionID r = connectionID \<and>
                  (\<exists>i \<in> set identities. mm_ProviderAccountID r = ident_ProviderAccountID i \<and>
                     mm_ProviderTransactionID r = ident_ProviderTransactionID i)) (t_matches t)))))
           (\<lambda>matchModels.
             if matchModels = [] then returnA []
             else
               bindA (wrapA ''list provider identity match transactions'' (readSQL (\<lambda>t.
                 filter (\<lambda>r. tm_ID r \<in> set (map mm_TransactionID matchModels) \<and>
                   tm_Source r = TransactionSourceProvider) (t_transactions t))))
               (\<lambda>transactionModels.
                  let transactionsByID = foldl (\<lambda>m model. m(tm_ID model \<mapsto> transactionFromModel model))
                        Map.empty transactionModels
                  in returnA (List.map_filter (\<lambda>model.
                       map_option (\<lambda>transaction. \<lparr>im_Transaction = transaction,
                         im_Match = providerTransactionMatchFromModel model\<rparr>)
                       (transactionsByID (mm_TransactionID model))) matchModels))))"

section \<open>The interfaces of the sync store\<close>

definition SQLTransaction :: "(World, unit) action" where
  "SQLTransaction w =
     (if w_inTransaction w then (Inr (), w)
      else (Inl (Errorf ''provider window apply SQL transaction is required''), w))"

text \<open>The application's publisher writes the event in the transaction it is given.\<close>

definition publishInTransaction :: "BankSyncWindowCompleted \<Rightarrow> (World, unit) action" where
  "publishInTransaction event =
     wrapA ''publish bank sync window completed event''
       (changeSQL (\<lambda>t. Inr (t\<lparr>t_outbox := t_outbox t @ [event]\<rparr>)))"

definition providerWindowSyncApplyStore :: "World WindowSyncApplyStore" where
  "providerWindowSyncApplyStore =
     \<lparr>as_SQLTransaction = SQLTransaction,
      as_AppendSyncState = AppendSyncState,
      as_GetBankConnection = GetBankConnection,
      as_GetAccount = GetAccount,
      as_SaveAccount = SaveAccount,
      as_SaveConnectionProviderAccount = SaveConnectionProviderAccount,
      as_SaveBalanceSnapshot = SaveBalanceSnapshot,
      as_SaveProviderSnapshot = SaveProviderSnapshot,
      as_SaveTransaction = SaveTransaction,
      as_SaveProviderTransactionMatch = SaveProviderTransactionMatch\<rparr>"

definition WithTransaction ::
  "(World WindowSyncApplyStore \<Rightarrow> (World, ProviderSyncStats) action) \<Rightarrow> (World, ProviderSyncStats) action" where
  "WithTransaction fn = transactionSQL (fn providerWindowSyncApplyStore)"

definition providerWindowSyncPersistence :: "World WindowSyncPersistence" where
  "providerWindowSyncPersistence =
     \<lparr>wp_ListConnectionProviderAccounts = ListConnectionProviderAccounts,
      wp_ListProviderTransactionsInWindow = ListProviderTransactionsInWindow,
      wp_ListProviderTransactionMatchesByTransactionIDs = ListProviderTransactionMatchesByTransactionIDs,
      wp_ListProviderTransactionIdentityMatches = ListProviderTransactionIdentityMatches,
      wp_WithTransaction = WithTransaction\<rparr>"

definition databaseSyncStore :: "World ProviderWindowSyncStore" where
  "databaseSyncStore =
     \<lparr>ws_persistence = providerWindowSyncPersistence,
      ws_publisher = Some publishInTransaction,
      ws_idGenerator = drawID,
      ws_now = readClock\<rparr>"

end
