(* ===== verification/SyncFrame.thy ===== *)
theory SyncFrame
  imports SyncStore
begin

text \<open>
  What \<^verbatim>\<open>ApplySync\<close> relies on in the store it is given, as interfaces: \<open>sync_frame\<close> and
  \<open>sync_frame_complete\<close> (each operation keeps a predicate) and \<open>atomic_store\<close> (reads
  change nothing, a failed transaction is undone). The consequences for the whole
  operation are proved here once; theory \<open>SyncInvariants\<close> interprets the interfaces on the
  database.
\<close>

lemma preserves_case_sum [preserves_rules]:
  "(\<And>e. preserves P (f e)) \<Longrightarrow> (\<And>a. preserves P (g a)) \<Longrightarrow> preserves P (case x of Inl e \<Rightarrow> f e | Inr a \<Rightarrow> g a)"
  by (cases x) auto

lemma preserves_case_prod [preserves_rules]:
  "(\<And>a b. preserves P (f a b)) \<Longrightarrow> preserves P (case x of (a, b) \<Rightarrow> f a b)"
  by (cases x) auto

lemma preserves_Let [preserves_rules]: "preserves P (f x) \<Longrightarrow> preserves P (let y = x in f y)"
  by simp

section \<open>A predicate every store operation keeps\<close>

locale sync_frame =
  fixes s :: "'s ProviderWindowSyncStore" and store :: "'s WindowSyncApplyStore" and P :: "'s \<Rightarrow> bool"
  assumes id_keeps: "preserves P (liftA (ws_idGenerator s))"
    and get_account_keeps: "preserves P (as_GetAccount store i)"
    and save_account_keeps: "preserves P (as_SaveAccount store account)"
    and save_provider_account_keeps: "preserves P (as_SaveConnectionProviderAccount store pa)"
    and save_balance_keeps: "preserves P (as_SaveBalanceSnapshot store b)"
    and save_snapshot_keeps: "preserves P (as_SaveProviderSnapshot store ps)"
    and save_transaction_keeps: "preserves P (as_SaveTransaction store t)"
    and save_match_keeps: "preserves P (as_SaveProviderTransactionMatch store m)"
begin

lemmas keeps = id_keeps get_account_keeps save_account_keeps save_provider_account_keeps
  save_balance_keeps save_snapshot_keeps save_transaction_keeps save_match_keeps

lemma saveConnectionSnapshots_keeps: "preserves P (saveConnectionSnapshots s store c obs)"
  by (induction obs) (auto intro!: preserves_rules keeps)

lemma refreshLinkedFinanceAccount_keeps: "preserves P (refreshLinkedFinanceAccount store e a now)"
  unfolding refreshLinkedFinanceAccount_def by (intro preserves_rules keeps)

lemma claimObservedProviderAccount_keeps:
  "preserves P (claimObservedProviderAccount s store connection c a now)"
  unfolding claimObservedProviderAccount_def by (intro preserves_rules keeps)

lemma saveObservedAccounts_keeps:
  "preserves P (saveObservedAccounts s store pas connection c obs now n)"
proof (induction obs arbitrary: pas n)
  case (Cons a obs)
  show ?case
    unfolding saveObservedAccounts.simps
    by (intro preserves_rules keeps claimObservedProviderAccount_keeps refreshLinkedFinanceAccount_keeps Cons.IH)
qed (simp add: preserves_return)

lemma saveBalanceSnapshots_keeps: "preserves P (saveBalanceSnapshots s store pas connection obs)"
  by (induction obs) (auto intro!: preserves_rules keeps)

lemma saveAccountSnapshots_keeps: "preserves P (saveAccountSnapshots s store pas connection obs)"
proof (induction obs)
  case (Cons a obs)
  show ?case
    unfolding saveAccountSnapshots.simps by (intro preserves_rules keeps Cons.IH)
qed (simp add: preserves_return)

lemma buildTransactionWrite_keeps: "preserves P (buildTransactionWrite s write pas tenantID now)"
  unfolding buildTransactionWrite_def by (intro preserves_rules keeps)

lemma buildProviderTransactionMatch_keeps:
  "preserves P (buildProviderTransactionMatch s connection write t ms now)"
  unfolding buildProviderTransactionMatch_def providerTransactionMatchIdentity_def
  by (intro preserves_rules keeps)

lemma saveTransactionWritesWithResults_keeps:
  "preserves P (saveTransactionWritesWithResults s store pas connection tenantID ms writes now saved)"
proof (induction writes arbitrary: saved)
  case (Cons a writes)
  show ?case
    unfolding saveTransactionWritesWithResults.simps
    by (intro preserves_rules keeps buildTransactionWrite_keeps buildProviderTransactionMatch_keeps Cons.IH)
qed (simp add: preserves_return)

lemma saveTransactionSnapshots_keeps:
  "preserves P (saveTransactionSnapshots s store pas connection ts obs)"
proof (induction obs)
  case (Cons a obs)
  show ?case
    unfolding saveTransactionSnapshots.simps by (intro preserves_rules keeps Cons.IH)
qed (simp add: preserves_return)

end

section \<open>A predicate the whole apply keeps\<close>

locale sync_frame_complete = sync_frame +
  assumes append_keeps: "preserves P (as_AppendSyncState store st)"
    and connection_keeps: "preserves P (as_GetBankConnection store i)"
    and sql_keeps: "preserves P (as_SQLTransaction store)"
    and publish_keeps: "ws_publisher s = Some publish \<Longrightarrow> preserves P (publish event)"
begin

lemma appendSuccessfulSyncState_keeps: "preserves P (appendSuccessfulSyncState store states stats)"
  by (cases states) (auto simp: appendSuccessfulSyncState_def intro!: preserves_rules append_keeps)

lemma publishStates_keeps:
  "ws_publisher s = Some publish \<Longrightarrow> preserves P (publishStates publish c states)"
  by (induction states) (auto intro: preserves_bind preserves_mapErr preserves_return publish_keeps)

lemma publishBankSyncWindowCompleted_keeps:
  "preserves P (publishBankSyncWindowCompleted s store c states)"
  unfolding publishBankSyncWindowCompleted_def
  by (cases "ws_publisher s") (auto intro!: preserves_rules sql_keeps publishStates_keeps)

lemma applyInTransaction_keeps:
  "preserves P (applyInTransaction s plan aplan states snapshot now store)"
  unfolding applyInTransaction_def
  by (intro preserves_rules connection_keeps saveConnectionSnapshots_keeps saveObservedAccounts_keeps
      saveBalanceSnapshots_keeps saveAccountSnapshots_keeps saveTransactionWritesWithResults_keeps
      saveTransactionSnapshots_keeps appendSuccessfulSyncState_keeps publishBankSyncWindowCompleted_keeps)

end

section \<open>Reads change nothing, a failed transaction is undone\<close>

text \<open>\<open>data\<close> is the part of the state that is stored.\<close>

locale atomic_store =
  fixes s :: "'s ProviderWindowSyncStore" and data :: "'s \<Rightarrow> 'd"
  assumes accounts_read:
      "preserves (\<lambda>w. data w = d) (wp_ListConnectionProviderAccounts (ws_persistence s) i)"
    and window_read:
      "preserves (\<lambda>w. data w = d) (wp_ListProviderTransactionsInWindow (ws_persistence s) ids win)"
    and matches_read:
      "preserves (\<lambda>w. data w = d) (wp_ListProviderTransactionMatchesByTransactionIDs (ws_persistence s) i txids)"
    and identities_read:
      "preserves (\<lambda>w. data w = d) (wp_ListProviderTransactionIdentityMatches (ws_persistence s) i idents)"
    and now_read: "preserves (\<lambda>w. data w = d) (liftA (ws_now s))"
    and rollback: "wp_WithTransaction (ws_persistence s) fn w = (Inl e, w') \<Longrightarrow> data w' = data w"
begin

lemma LoadExistingWindow_reads: "preserves (\<lambda>w. data w = d) (LoadExistingWindow s connection win idents)"
  unfolding LoadExistingWindow_def
  by (intro preserves_rules accounts_read window_read matches_read identities_read)

lemma ApplySync_error_undone:
  assumes "ApplySync s plan aplan states w = (Inl e, w')"
  shows "data w' = data w"
proof -
  let ?load = "wrapA ''load existing apply snapshot'' (LoadExistingWindow s (dp_Connection plan)
      (dp_SnapshotWindow plan) (providerTransactionIdentitiesFromActions (dp_TransactionActions plan)))"
  have load: "preserves (\<lambda>w. data w = data w0) ?load" for w0
    by (intro preserves_rules LoadExistingWindow_reads)
  obtain r u where r: "?load w = (r, u)" by force
  have u: "data u = data w" using preservesD [OF load refl r] .
  show ?thesis
  proof (cases r)
    case (Inl e')
    with assms r u show ?thesis by (simp add: ApplySync_def bindA_run)
  next
    case (Inr snapshot)
    obtain now v where v: "ws_now s u = (now, v)" by force
    have "data v = data u"
      using preservesD [OF now_read [of "data u"] refl, of _ v] v by (simp add: liftA_def)
    moreover have "wp_WithTransaction (ws_persistence s) (applyInTransaction s plan aplan states snapshot now) v
        = (Inl e, w')"
      using assms r Inr v by (simp add: ApplySync_def bindA_run liftA_def)
    ultimately show ?thesis using rollback u by metis
  qed
qed

end

end
