(* ===== verification/SyncInvariants.thy ===== *)
theory SyncInvariants
  imports SyncPersistence SyncFrame
begin

text \<open>
  The stores on the database keep the interfaces of \<open>SyncFrame\<close>, for every predicate on
  the tables that each single-row write keeps (locale \<open>table_frame\<close>). Three such
  predicates are interpreted: the keys of the tables, what is stored of an existing
  transaction, and what a stored provider document is.
\<close>

section \<open>Statements that keep a predicate on the tables\<close>

definition table_inv :: "(Tables \<Rightarrow> bool) \<Rightarrow> json_codec \<Rightarrow> World \<Rightarrow> bool" where
  "table_inv I codec w \<longleftrightarrow> I (w_tables w) \<and> w_json w = codec"

lemma readSQL_keeps [intro]: "preserves (table_inv I codec) (readSQL q)"
  by (auto simp: preserves_def table_inv_def readSQL_def execSQL_def split: option.splits)

lemma changeSQL_keeps:
  "(\<And>t t'. I t \<Longrightarrow> f t = Inr t' \<Longrightarrow> I t') \<Longrightarrow> preserves (table_inv I codec) (changeSQL f)"
  by (auto simp: preserves_def table_inv_def changeSQL_def execSQL_def split: option.splits sum.splits)

lemma drawID_keeps: "preserves (table_inv I codec) (liftA drawID)"
  by (auto simp: preserves_def table_inv_def liftA_def drawID_def)

lemma readClock_keeps: "preserves (table_inv I codec) (liftA readClock)"
  by (auto simp: preserves_def table_inv_def liftA_def readClock_def)

lemma transactionSQL_keeps:
  assumes "preserves (table_inv I codec) body"
  shows "preserves (table_inv I codec) (transactionSQL body)"
proof (rule preservesI)
  fix w assume w: "table_inv I codec w"
  define w1 where "w1 = w\<lparr>w_statement := Suc (w_statement w), w_inTransaction := True\<rparr>"
  define run where "run = bindA body (\<lambda>a. bindA (readSQL (\<lambda>_. ())) (\<lambda>_. returnA a))"
  have "preserves (table_inv I codec) run"
    unfolding run_def by (intro preserves_rules assms readSQL_keeps)
  moreover have "table_inv I codec w1" using w by (simp add: table_inv_def w1_def)
  ultimately have "table_inv I codec (snd (run w1))" by (simp add: preserves_def)
  then show "table_inv I codec (snd (transactionSQL body w))"
    using w unfolding transactionSQL_def run_def [symmetric]
    by (auto simp: bindA_def readSQL_def execSQL_def w1_def table_inv_def split: option.splits prod.splits sum.splits)
qed

lemma map_sum_Inr: "map_sum (\<lambda>e. e) f x = Inr y \<longleftrightarrow> (\<exists>z. x = Inr z \<and> y = f z)"
  by (cases x) auto

section \<open>The single-row writes of a sync\<close>

text \<open>
  \<open>owned t r\<close>: the connection of a provider document belongs to its tenant. \<open>sanitized\<close>:
  the document is an output of the sanitizer.
\<close>

definition owned :: "Tables \<Rightarrow> providerSnapshotModel \<Rightarrow> bool" where
  "owned t r \<longleftrightarrow> (\<exists>c \<in> set (t_bankConnections t). bm_ID c = psm_ConnectionID r \<and> bm_TenantID c = psm_TenantID r)"

definition sanitized :: "json_codec \<Rightarrow> providerSnapshotModel \<Rightarrow> bool" where
  "sanitized codec r \<longleftrightarrow> (\<exists>v. json_Marshal codec (sanitizeProviderSnapshotValue v) = Inr (psm_DocumentJSON r))"

lemma requireSnapshotOwnership_keeps: "preserves (table_inv I codec) (requireSnapshotOwnership ps)"
proof -
  have *: "preserves (table_inv I codec) (requireAccount a b)"
    "preserves (table_inv I codec) (requireTransactionAttachment ps)" for a b
    unfolding requireAccount_def requireTransactionAttachment_def by (intro preserves_rules readSQL_keeps)+
  show ?thesis
    unfolding requireSnapshotOwnership_def
    by (cases "ps_Subject ps") (auto intro!: preserves_rules readSQL_keeps *)
qed

text \<open>What its success says of the tables it ran on.\<close>

lemma requireSnapshotOwnership_owned:
  assumes "requireSnapshotOwnership ps w = (Inr (), w')"
  shows "w_tables w' = w_tables w" "w_json w' = w_json w"
    "\<exists>c \<in> set (t_bankConnections (w_tables w)). bm_ID c = ps_ConnectionID ps \<and> bm_TenantID c = ps_TenantID ps"
proof -
  have "table_inv (\<lambda>t. t = w_tables w) (w_json w) w'"
    using requireSnapshotOwnership_keeps [of "\<lambda>t. t = w_tables w" "w_json w" ps] assms
    by (fastforce simp: preserves_def table_inv_def)
  then show "w_tables w' = w_tables w" "w_json w' = w_json w" by (auto simp: table_inv_def)
  show "\<exists>c \<in> set (t_bankConnections (w_tables w)). bm_ID c = ps_ConnectionID ps \<and> bm_TenantID c = ps_TenantID ps"
    using assms unfolding requireSnapshotOwnership_def
    by (auto simp: bindA_Inr filter_empty_conv split: if_splits)
qed

lemma changeSQL_keeps_at:
  "table_inv I codec w \<Longrightarrow> (\<And>t'. f (w_tables w) = Inr t' \<Longrightarrow> I t') \<Longrightarrow> table_inv I codec (snd (changeSQL f w))"
  by (auto simp: table_inv_def changeSQL_def execSQL_def split: option.splits sum.splits)

lemma bindA_keeps_at:
  "P (snd (m w)) \<Longrightarrow> (\<And>a. preserves P (f a)) \<Longrightarrow> P (snd (bindA m f w))"
  by (auto simp: bindA_def preserves_def split: prod.splits sum.splits)

lemma mapErrA_snd [simp]: "snd (mapErrA g m w) = snd (m w)"
  by (auto simp: mapErrA_def split: prod.splits sum.splits)

locale table_frame =
  fixes I :: "Tables \<Rightarrow> bool" and codec :: json_codec
  assumes keeps_accounts:
      "I t \<Longrightarrow> upsertRows am_ID am_ID accountUpdate account (t_accounts t) = Inr accounts \<Longrightarrow>
       I (t\<lparr>t_accounts := accounts\<rparr>)"
    and keeps_transactions:
      "I t \<Longrightarrow> upsertRows tm_ID tm_ID transactionUpdate transaction (t_transactions t) = Inr transactions \<Longrightarrow>
       I (t\<lparr>t_transactions := transactions\<rparr>)"
    and keeps_provider_accounts:
      "I t \<Longrightarrow> upsertRows providerAccountKey pm_ID providerAccountUpdate mapping (t_providerAccounts t)
         = Inr mappings \<Longrightarrow> I (t\<lparr>t_providerAccounts := mappings\<rparr>)"
    and keeps_balances:
      "I t \<Longrightarrow> insertRows bsm_ID balance (t_balanceSnapshots t) = Inr balances \<Longrightarrow>
       I (t\<lparr>t_balanceSnapshots := balances\<rparr>)"
    and keeps_documents:
      "I t \<Longrightarrow> owned t document \<Longrightarrow> sanitized codec document \<Longrightarrow>
       upsertRows snapshotIdentity psm_ID snapshotUpdate document (t_providerSnapshots t) = Inr documents \<Longrightarrow>
       I (t\<lparr>t_providerSnapshots := documents\<rparr>)"
    and keeps_matches:
      "I t \<Longrightarrow> upsertRows mm_ID mm_ID matchUpdate match (t_matches t) = Inr matches \<Longrightarrow>
       I (t\<lparr>t_matches := matches\<rparr>)"
begin

abbreviation inv :: "World \<Rightarrow> bool" where
  "inv \<equiv> table_inv I codec"

lemma SaveAccount_keeps: "preserves inv (SaveAccount account)"
  unfolding SaveAccount_def Let_def
  by (intro preserves_rules changeSQL_keeps) (auto simp: map_sum_Inr intro: keeps_accounts)

lemma GetAccount_keeps: "preserves inv (GetAccount i)"
  unfolding GetAccount_def by (intro preserves_rules readSQL_keeps)

lemma saveTransactionModel_keeps: "preserves inv (saveTransactionModel m)"
  unfolding saveTransactionModel_def
  by (intro preserves_rules changeSQL_keeps readSQL_keeps) (auto simp: map_sum_Inr intro: keeps_transactions)

lemma SaveTransaction_keeps: "preserves inv (SaveTransaction t)"
  unfolding SaveTransaction_def by (intro preserves_rules saveTransactionModel_keeps)

lemma SaveConnectionProviderAccount_keeps: "preserves inv (SaveConnectionProviderAccount a)"
  unfolding SaveConnectionProviderAccount_def Let_def
  by (intro preserves_rules changeSQL_keeps readSQL_keeps)
    (auto simp: map_sum_Inr intro: keeps_provider_accounts)

lemma SaveBalanceSnapshot_keeps: "preserves inv (SaveBalanceSnapshot b)"
  unfolding SaveBalanceSnapshot_def Let_def
  by (intro preserves_rules changeSQL_keeps) (auto simp: map_sum_Inr intro: keeps_balances)

lemma SaveProviderTransactionMatch_keeps: "preserves inv (SaveProviderTransactionMatch m)"
  unfolding SaveProviderTransactionMatch_def Let_def
  by (intro preserves_rules changeSQL_keeps) (auto simp: map_sum_Inr intro: keeps_matches)

lemma GetBankConnection_keeps: "preserves inv (GetBankConnection i)"
  unfolding GetBankConnection_def by (intro preserves_rules readSQL_keeps)

text \<open>The document is stored only after its ownership was checked on the same tables.\<close>

lemma saveProviderSnapshotModel_keeps:
  assumes "owned (w_tables u) row" "sanitized codec row" "inv u"
  shows "inv (snd (saveProviderSnapshotModel row u))"
  unfolding saveProviderSnapshotModel_def
proof (rule bindA_keeps_at)
  show "inv (snd (wrapA ''save provider snapshot'' (changeSQL (\<lambda>t. map_sum (\<lambda>e. e)
      (\<lambda>rows. t\<lparr>t_providerSnapshots := rows\<rparr>) (upsertRows snapshotIdentity psm_ID snapshotUpdate row
        (t_providerSnapshots t)))) u))"
    unfolding mapErrA_snd
    using assms by (intro changeSQL_keeps_at) (auto simp: map_sum_Inr table_inv_def intro: keeps_documents)
qed (intro preserves_rules readSQL_keeps)

lemma SaveProviderSnapshot_keeps: "preserves inv (SaveProviderSnapshot ps)"
proof (rule preservesI)
  fix w assume w: "inv w"
  define own where "own = wrapA ''validate provider snapshot ownership'' (requireSnapshotOwnership ps)"
  obtain r u where ru: "own w = (r, u)" by force
  have "preserves inv own" unfolding own_def by (intro preserves_rules requireSnapshotOwnership_keeps)
  then have u: "inv u" using w ru by (rule preservesD)
  show "inv (snd (SaveProviderSnapshot ps w))"
  proof (cases "snapshotValidate (w_json w) ps")
    case (Some e)
    then show ?thesis using w by (simp add: SaveProviderSnapshot_def)
  next
    case None
    show ?thesis
    proof (cases r)
      case (Inl e)
      then show ?thesis
        using ru u None by (simp add: SaveProviderSnapshot_def bindA_run flip: own_def)
    next
      case (Inr x)
      then have own: "requireSnapshotOwnership ps w = (Inr (), u)" using ru by (simp add: own_def)
      have json: "w_json w = codec" using w by (simp add: table_inv_def)
      show ?thesis
      proof (cases "SanitizeProviderSnapshotJSON (w_json w) (ps_DocumentJSON ps)")
        case (Inl e)
        then show ?thesis
          using ru u None Inr by (simp add: SaveProviderSnapshot_def bindA_run mapErrA_run flip: own_def)
      next
        case doc: (Inr doc)
        define row where "row = newProviderSnapshotModel (ps\<lparr>ps_DocumentJSON := doc\<rparr>)"
        have "owned (w_tables u) row"
          using requireSnapshotOwnership_owned [OF own]
          by (simp add: owned_def row_def newProviderSnapshotModel_def)
        moreover have "sanitized codec row"
          using doc json
          by (auto simp: sanitized_def row_def newProviderSnapshotModel_def SanitizeProviderSnapshotJSON_def
              split: sum.splits)
        ultimately have "inv (snd (saveProviderSnapshotModel row u))"
          using u by (rule saveProviderSnapshotModel_keeps)
        moreover have "SaveProviderSnapshot ps w = saveProviderSnapshotModel row u"
          using ru None Inr doc
          by (simp add: SaveProviderSnapshot_def bindA_run mapErrA_run flip: own_def row_def)
        ultimately show ?thesis by simp
      qed
    qed
  qed
qed

end

section \<open>The interfaces of the sync, provided by the database\<close>

lemmas store_simps = databaseSyncStore_def providerWindowSyncApplyStore_def providerWindowSyncPersistence_def

sublocale table_frame \<subseteq> sync_frame databaseSyncStore providerWindowSyncApplyStore inv
  by unfold_locales
    (simp_all add: store_simps drawID_keeps GetAccount_keeps SaveAccount_keeps
      SaveConnectionProviderAccount_keeps SaveBalanceSnapshot_keeps SaveProviderSnapshot_keeps
      SaveTransaction_keeps SaveProviderTransactionMatch_keeps)

locale table_invariant = table_frame +
  assumes keeps_journal:
      "I t \<Longrightarrow> I (t\<lparr>t_journal := t_journal t @ [newProviderSyncStateJournalModel state now (t_journalNext t)],
                  t_journalNext := t_journalNext t + 1\<rparr>)"
    and keeps_outbox: "I t \<Longrightarrow> I (t\<lparr>t_outbox := t_outbox t @ [event]\<rparr>)"
begin

lemma AppendSyncState_keeps: "preserves inv (AppendSyncState state)"
  unfolding AppendSyncState_def
  by (intro preserves_rules readClock_keeps changeSQL_keeps) (auto intro: keeps_journal)

lemma publishInTransaction_keeps: "preserves inv (publishInTransaction event)"
  unfolding publishInTransaction_def
  by (intro preserves_rules changeSQL_keeps) (auto intro: keeps_outbox)

lemma SQLTransaction_keeps: "preserves inv SQLTransaction"
  by (simp add: preserves_def SQLTransaction_def)

end

sublocale table_invariant \<subseteq> sync_frame_complete databaseSyncStore providerWindowSyncApplyStore inv
  by unfold_locales
    (auto simp: store_simps AppendSyncState_keeps publishInTransaction_keeps SQLTransaction_keeps
      GetBankConnection_keeps)

text \<open>The reads of a window leave the tables alone, whatever they hold.\<close>

lemma window_reads:
  "preserves (table_inv I codec) (ListConnectionProviderAccounts i)"
  "preserves (table_inv I codec) (ListProviderTransactionsInWindow ids win)"
  "preserves (table_inv I codec) (ListProviderTransactionMatchesByTransactionIDs i txids)"
  "preserves (table_inv I codec) (ListProviderTransactionIdentityMatches i idents)"
  unfolding ListConnectionProviderAccounts_def ListProviderTransactionsInWindow_def
    ListProviderTransactionMatchesByTransactionIDs_def ListProviderTransactionIdentityMatches_def Let_def
  by (intro preserves_rules readSQL_keeps)+

lemma tables_only: "(\<And>c. preserves (table_inv (\<lambda>t. t = d) c) m) \<Longrightarrow> preserves (\<lambda>w. w_tables w = d) m"
  by (auto simp: preserves_def table_inv_def)

interpretation db: atomic_store databaseSyncStore w_tables
proof
  fix fn w e w'
  assume "wp_WithTransaction (ws_persistence databaseSyncStore) fn w = (Inl e, w')"
  then show "w_tables w' = w_tables w"
    by (simp add: store_simps WithTransaction_def transactionSQL_error)
qed (auto simp: store_simps intro!: tables_only window_reads readClock_keeps)

context table_invariant
begin

lemma LoadExistingWindow_keeps: "preserves inv (LoadExistingWindow databaseSyncStore c win idents)"
  unfolding LoadExistingWindow_def
  by (intro preserves_rules) (simp_all add: store_simps window_reads)

lemma ApplySync_keeps: "preserves inv (ApplySync databaseSyncStore plan aplan states)"
proof -
  have "preserves inv (applyInTransaction databaseSyncStore plan aplan states snapshot now
      providerWindowSyncApplyStore)" for snapshot now
    by (rule applyInTransaction_keeps)
  moreover have "ws_now databaseSyncStore = readClock"
    "wp_WithTransaction (ws_persistence databaseSyncStore) = WithTransaction"
    by (simp_all add: store_simps)
  ultimately show ?thesis
    unfolding ApplySync_def
    by (auto simp: WithTransaction_def intro!: preserves_rules LoadExistingWindow_keeps readClock_keeps
        transactionSQL_keeps)
qed

end

section \<open>The keys of the tables\<close>

interpretation accounts: conflict_table am_ID accountUpdate
  by unfold_locales (simp add: accountUpdate_def)

interpretation transactions: conflict_table tm_ID transactionUpdate
  by unfold_locales (simp add: transactionUpdate_def)

interpretation mappings: conflict_table providerAccountKey providerAccountUpdate
  by unfold_locales (simp add: providerAccountUpdate_def providerAccountKey_def)

interpretation documents: conflict_table snapshotIdentity snapshotUpdate
  by unfold_locales (simp add: snapshotUpdate_def snapshotIdentity_def)

interpretation matches: conflict_table mm_ID matchUpdate
  by unfold_locales (simp add: matchUpdate_def)

definition keys_ok :: "Tables \<Rightarrow> bool" where
  "keys_ok t \<longleftrightarrow>
     distinct (map am_ID (t_accounts t)) \<and> distinct (map tm_ID (t_transactions t)) \<and>
     distinct (map pm_ID (t_providerAccounts t)) \<and>
     distinct (map providerAccountKey (t_providerAccounts t)) \<and>
     distinct (map bsm_ID (t_balanceSnapshots t)) \<and>
     distinct (map psm_ID (t_providerSnapshots t)) \<and>
     distinct (map snapshotIdentity (t_providerSnapshots t)) \<and>
     distinct (map mm_ID (t_matches t)) \<and> distinct (map bm_ID (t_bankConnections t)) \<and>
     distinct (map jm_JournalID (t_journal t)) \<and>
     (\<forall>j \<in> set (t_journal t). jm_JournalID j < t_journalNext t)"

lemma insertRows_distinct:
  "insertRows primary row rows = Inr rows' \<Longrightarrow> distinct (map primary rows) \<Longrightarrow> distinct (map primary rows')"
  by (auto simp: insertRows_def split: if_splits)

interpretation keys: table_invariant keys_ok codec for codec
proof
  fix t account accounts assume "keys_ok t"
    "upsertRows am_ID am_ID accountUpdate account (t_accounts t) = Inr accounts"
  then show "keys_ok (t\<lparr>t_accounts := accounts\<rparr>)" by (simp add: keys_ok_def accounts.upsert_key)
next
  fix t transaction transactions assume "keys_ok t"
    "upsertRows tm_ID tm_ID transactionUpdate transaction (t_transactions t) = Inr transactions"
  then show "keys_ok (t\<lparr>t_transactions := transactions\<rparr>)"
    by (simp add: keys_ok_def transactions.upsert_key)
next
  fix t mapping mappings assume "keys_ok t"
    "upsertRows providerAccountKey pm_ID providerAccountUpdate mapping (t_providerAccounts t) = Inr mappings"
  then show "keys_ok (t\<lparr>t_providerAccounts := mappings\<rparr>)"
    using mappings.upsert_primary [of pm_ID mapping "t_providerAccounts t" mappings]
    by (simp add: keys_ok_def mappings.upsert_key) (simp add: providerAccountUpdate_def)
next
  fix t balance balances assume "keys_ok t" "insertRows bsm_ID balance (t_balanceSnapshots t) = Inr balances"
  then show "keys_ok (t\<lparr>t_balanceSnapshots := balances\<rparr>)" by (simp add: keys_ok_def insertRows_distinct)
next
  fix t document documents assume "keys_ok t"
    "upsertRows snapshotIdentity psm_ID snapshotUpdate document (t_providerSnapshots t) = Inr documents"
  then show "keys_ok (t\<lparr>t_providerSnapshots := documents\<rparr>)"
    using documents.upsert_primary [of psm_ID document "t_providerSnapshots t" documents]
    by (simp add: keys_ok_def documents.upsert_key) (simp add: snapshotUpdate_def)
next
  fix t match matches assume "keys_ok t"
    "upsertRows mm_ID mm_ID matchUpdate match (t_matches t) = Inr matches"
  then show "keys_ok (t\<lparr>t_matches := matches\<rparr>)" by (simp add: keys_ok_def matches.upsert_key)
next
  fix t state now assume "keys_ok t"
  then show "keys_ok (t\<lparr>t_journal := t_journal t @ [newProviderSyncStateJournalModel state now (t_journalNext t)],
      t_journalNext := t_journalNext t + 1\<rparr>)"
    by (fastforce simp: keys_ok_def newProviderSyncStateJournalModel_def)
qed (simp add: keys_ok_def)

section \<open>What a sync keeps of the transactions stored before\<close>

definition same_pairing :: "transactionModel \<Rightarrow> transactionModel \<Rightarrow> bool" where
  "same_pairing r r' \<longleftrightarrow>
     tm_ID r' = tm_ID r \<and> tm_Kind r' = tm_Kind r \<and> tm_TransferGroupID r' = tm_TransferGroupID r \<and>
     tm_TransferMatchedAt r' = tm_TransferMatchedAt r \<and>
     tm_TransferMatchingExcluded r' = tm_TransferMatchingExcluded r \<and> tm_CreatedAt r' = tm_CreatedAt r"

definition pairing_kept :: "transactionModel list \<Rightarrow> Tables \<Rightarrow> bool" where
  "pairing_kept old t \<longleftrightarrow> (\<forall>r \<in> set old. \<exists>r' \<in> set (t_transactions t). same_pairing r r')"

interpretation pairing: table_invariant "pairing_kept old" codec for old codec
proof
  fix t transaction transactions assume kept: "pairing_kept old t"
    and upsert: "upsertRows tm_ID tm_ID transactionUpdate transaction (t_transactions t) = Inr transactions"
  have update: "same_pairing r (transactionUpdate r' transaction)" if "same_pairing r r'" for r r'
    using that by (simp add: same_pairing_def transactionUpdate_def)
  have "\<exists>r'' \<in> set transactions. same_pairing r r''" if "r' \<in> set (t_transactions t)" "same_pairing r r'" for r r'
    using transactions.upsert_keeps [OF upsert that(1)] that(2) update by blast
  with kept show "pairing_kept old (t\<lparr>t_transactions := transactions\<rparr>)"
    by (fastforce simp: pairing_kept_def)
qed (simp_all add: pairing_kept_def)

section \<open>What a stored provider document is\<close>

definition documents_ok :: "json_codec \<Rightarrow> Tables \<Rightarrow> bool" where
  "documents_ok codec t \<longleftrightarrow> (\<forall>r \<in> set (t_providerSnapshots t). owned t r \<and> sanitized codec r)"

interpretation document_rows: table_invariant "documents_ok codec" codec for codec
proof
  fix t document documents assume ok: "documents_ok codec t"
    and document: "owned t document" "sanitized codec document"
    and upsert: "upsertRows snapshotIdentity psm_ID snapshotUpdate document (t_providerSnapshots t) = Inr documents"
  have "owned t r \<and> sanitized codec r" if "r \<in> set documents" for r
    using documents.upsert_origin [OF upsert that] ok document
    by (auto simp: documents_ok_def owned_def sanitized_def snapshotUpdate_def split: if_splits)
  then show "documents_ok codec (t\<lparr>t_providerSnapshots := documents\<rparr>)"
    by (simp add: documents_ok_def owned_def)
qed (simp_all add: documents_ok_def owned_def)

section \<open>What the row writes never touch\<close>

definition untouched :: "Tables \<Rightarrow> Tables \<Rightarrow> bool" where
  "untouched t0 t \<longleftrightarrow>
     t_journal t = t_journal t0 \<and> t_journalNext t = t_journalNext t0 \<and> t_outbox t = t_outbox t0 \<and>
     t_bankConnections t = t_bankConnections t0 \<and> t_memberships t = t_memberships t0 \<and>
     t_categories t = t_categories t0 \<and> t_tags t = t_tags t0 \<and>
     t_transactionTags t = t_transactionTags t0"

interpretation rest: table_frame "untouched t0" codec for t0 codec
  by unfold_locales (simp_all add: untouched_def)

end
