(* ===== verification/SyncProperties.thy ===== *)
theory SyncProperties
  imports SyncInvariants
begin

text \<open>
  What \<^verbatim>\<open>ApplySync\<close> guarantees on the database: it is atomic, it keeps the tables well
  formed, it keeps the transfer pairing of stored transactions, it stores only sanitized
  documents of its own tenant, and a success appends one journal row and publishes one
  event per state in the same transaction as the data.
\<close>

section \<open>Concrete data for the witnesses\<close>

definition example_codec :: json_codec where
  "example_codec = \<lparr>json_Valid = (\<lambda>s. s \<noteq> ''''), json_Unmarshal = (\<lambda>s. Inr (JString s)),
     json_Marshal = (\<lambda>v. case v of JString s \<Rightarrow> Inr s | _ \<Rightarrow> Inr ''null'')\<rparr>"

definition example_connection_row :: bankConnectionModel where
  "example_connection_row = \<lparr>bm_ID = ''c1'', bm_TenantID = ''t1'', bm_Provider = ''pko'',
     bm_ConnectorID = ''enable-banking'', bm_DisplayName = ''PKO'', bm_ProviderReference = ''r1'',
     bm_SecretID = ''s1'', bm_State = BankConnectionStateActive, bm_ReauthRequiredAt = None,
     bm_ReauthReason = '''', bm_LastSyncJobID = '''', bm_LastSyncStartedAt = None,
     bm_LastSuccessfulSyncAt = None, bm_LastSyncError = '''', bm_CreatedAt = 1, bm_UpdatedAt = 1\<rparr>"

definition example_tables :: Tables where
  "example_tables = \<lparr>t_tenants = [], t_invites = [], t_memberships = [], t_accounts = [], t_categories = [], t_tags = [],
     t_rules = [], t_ruleTags = [], t_fxRates = [],
     t_transactions = [newTransactionModel (example_transaction ''tx1'' 700 500)], t_transactionTags = [],
     t_bankConnections = [example_connection_row], t_providerAccounts = [], t_balanceSnapshots = [],
     t_providerSnapshots = [], t_matches = [newProviderTransactionMatchModel (example_match ''p1'' ''tx1'')],
     t_journal = [], t_journalNext = 1, t_outbox = [], t_schedules = [], t_fxSchedules = [],
     t_messages = [], t_publications = []\<rparr>"

definition id_of_nat :: "nat \<Rightarrow> string" where
  "id_of_nat n = ''id'' @ replicate n (CHR ''x'')"

definition example_world :: "(nat \<Rightarrow> go_error option) \<Rightarrow> World" where
  "example_world fault = \<lparr>w_tables = example_tables, w_inTransaction = False, w_statement = 0,
     w_idsDrawn = 0, w_timesRead = 0, w_fault = fault, w_idSource = id_of_nat,
     w_clock = (\<lambda>n. 1000 + int n), w_json = example_codec,
     w_contextChecks = 0, w_context = (\<lambda>_. None), w_fetches = 0, w_bank = (\<lambda>n request. Inl (Errorf ''offline''))\<rparr>"

definition example_account_observation :: ProviderAccountObservation where
  "example_account_observation = \<lparr>oa_Connection = example_ref, oa_ProviderAccountID = ''pa1'',
     oa_Name = ''Main'', oa_Currency = ''pln'', oa_IBAN = ''PL1'', oa_MaskedPAN = ''''\<rparr>"

definition example_batch :: ProviderSyncBatch where
  "example_batch = \<lparr>batch_Connection = example_ref, batch_RequestedWindow = example_window,
     batch_Accounts = [example_account_observation], batch_Balances = [],
     batch_Transactions = [example_observation ''p2'' 900], batch_Snapshots = []\<rparr>"

definition example_plan_record :: ProviderDiffPlan where
  "example_plan_record = diffPlan example_batch \<lparr>snap_Connection = example_ref,
     snap_SnapshotWindow = example_window, snap_Accounts = [], snap_Transactions = [],
     snap_Matches = [], snap_IdentityTransactions = [], snap_IdentityMatches = []\<rparr>"

definition example_success :: ProviderSyncState where
  "example_success = \<lparr>st_Connection = example_ref, st_AttemptedAt = Some 900, st_SucceededAt = Some 950,
     st_Window = example_window, st_RunID = ''run1'', st_JobID = ''job1'', st_ErrorSummary = '''',
     st_AggregateStats = zero_stats\<rparr>"

definition example_apply :: "(nat \<Rightarrow> go_error option) \<Rightarrow> (go_error + ProviderSyncStats) \<times> World" where
  "example_apply fault = ApplySync databaseSyncStore example_plan_record (applyPlan example_plan_record)
     [example_success] (example_world fault)"

section \<open>The effect of a successful apply\<close>

definition completion_event :: "BankConnection \<Rightarrow> ProviderSyncState \<Rightarrow> BankSyncWindowCompleted" where
  "completion_event connection state =
     \<lparr>ev_TenantID = bc_TenantID connection, ev_ConnectionID = bc_ID connection,
      ev_RangeStart = win_Start (st_Window state), ev_RangeEndExclusive = win_End (st_Window state),
      ev_SourceSyncMessageID = st_JobID state\<rparr>"

text \<open>
  \<open>applied plan aplan states stats t t'\<close>: the tables went from \<open>t\<close> to \<open>t'\<close> in a successful
  apply. The connection row the plan names is there and stays; the result adds only newly
  created accounts, at most one per observed account, to the planned statistics; the
  first state is journalled with the statistics merged in; one event per state is in the
  outbox, for the tenant of the connection.
\<close>

definition applied ::
  "ProviderDiffPlan \<Rightarrow> ApplyPlan \<Rightarrow> ProviderSyncState list \<Rightarrow> ProviderSyncStats \<Rightarrow> Tables \<Rightarrow> Tables \<Rightarrow> bool" where
  "applied plan aplan states stats t t' \<longleftrightarrow>
     (\<exists>row created now.
        lookupRow bm_ID (TrimSpace (ref_ConnectionID (dp_Connection plan))) (t_bankConnections t) = Some row \<and>
        t_bankConnections t' = t_bankConnections t \<and>
        0 \<le> created \<and> created \<le> int (length (dp_AccountObservations plan)) \<and>
        stats = (ap_Stats aplan)\<lparr>CreatedAccounts := CreatedAccounts (ap_Stats aplan) + created\<rparr> \<and>
        t_outbox t' = t_outbox t @ map (completion_event (bankConnectionFromModel row)) states \<and>
        t_journal t' = t_journal t @
          (case states of
             [] \<Rightarrow> []
           | state # _ \<Rightarrow>
               [newProviderSyncStateJournalModel
                  (state\<lparr>st_AggregateStats := mergeProviderSyncStats (st_AggregateStats state) stats\<rparr>)
                  now (t_journalNext t)]))"

lemma publishStates_effect:
  "publishStates publishInTransaction c states w = (Inr (), w') \<Longrightarrow>
   w_tables w' = (w_tables w)\<lparr>t_outbox := t_outbox (w_tables w) @ map (completion_event c) states\<rparr>"
proof (induction states arbitrary: w)
  case (Cons state states)
  then obtain u where u: "publishInTransaction (completion_event c state) w = (Inr (), u)"
    "publishStates publishInTransaction c states u = (Inr (), w')"
    by (auto simp: completion_event_def)
  have "w_tables u = (w_tables w)\<lparr>t_outbox := t_outbox (w_tables w) @ [completion_event c state]\<rparr>"
    using u(1) by (auto simp: publishInTransaction_def)
  with Cons.IH [OF u(2)] show ?case by simp
qed simp

lemma publish_effect:
  assumes "publishBankSyncWindowCompleted databaseSyncStore providerWindowSyncApplyStore c states w = (Inr (), w')"
  shows "w_tables w' = (w_tables w)\<lparr>t_outbox := t_outbox (w_tables w) @ map (completion_event c) states\<rparr>"
proof (cases "states = []")
  case True
  with assms show ?thesis by (simp add: publishBankSyncWindowCompleted_def)
next
  case False
  with assms obtain u where "SQLTransaction w = (Inr (), u)"
    "publishStates publishInTransaction c states u = (Inr (), w')"
    by (auto simp: publishBankSyncWindowCompleted_def store_simps)
  with publishStates_effect show ?thesis
    by (fastforce simp: SQLTransaction_def split: if_splits)
qed

lemma append_effect:
  assumes "appendSuccessfulSyncState providerWindowSyncApplyStore states stats w = (Inr (), w')"
  shows "\<exists>now. w_tables w' = (case states of
      [] \<Rightarrow> w_tables w
    | state # _ \<Rightarrow> (w_tables w)\<lparr>t_journal := t_journal (w_tables w) @
        [newProviderSyncStateJournalModel
           (state\<lparr>st_AggregateStats := mergeProviderSyncStats (st_AggregateStats state) stats\<rparr>)
           now (t_journalNext (w_tables w))],
        t_journalNext := t_journalNext (w_tables w) + 1\<rparr>)"
  using assms
  by (cases states)
    (auto simp: appendSuccessfulSyncState_def store_simps AppendSyncState_def bindA_Inr liftA_Inr readClock_def)

lemma created_accounts_bounds:
  "saveObservedAccounts s store pas connection c obs now n w = (Inr (k, pas'), w') \<Longrightarrow>
   n \<le> k \<and> k \<le> n + int (length obs)"
proof (induction obs arbitrary: pas n w)
  case (Cons a obs)
  show ?case
  proof (cases "pas (oa_ProviderAccountID a)")
    case None
    with Cons.prems obtain created pas2 w2 where
      "saveObservedAccounts s store pas2 connection c obs now (if created then n + 1 else n) w2 = (Inr (k, pas'), w')"
      by (auto simp: bindA_Inr split: prod.splits)
    from Cons.IH [OF this] show ?thesis by (auto split: if_splits)
  next
    case (Some existing)
    with Cons.prems obtain pas2 w2 where
      "saveObservedAccounts s store pas2 connection c obs now n w2 = (Inr (k, pas'), w')"
      by (auto simp: bindA_Inr split: prod.splits)
    from Cons.IH [OF this] show ?thesis by auto
  qed
qed simp

lemma rest_after:
  "preserves (table_inv (untouched t0) (w_json w)) m \<Longrightarrow> m w = (r, w') \<Longrightarrow>
   untouched t0 (w_tables w) \<Longrightarrow> untouched t0 (w_tables w') \<and> w_json w' = w_json w"
  by (drule preservesD [of _ m w]) (auto simp: table_inv_def)

lemma GetBankConnection_found:
  "GetBankConnection i w = (Inr found, w') \<Longrightarrow>
   w_tables w' = w_tables w \<and>
   (\<exists>row. lookupRow bm_ID (TrimSpace i) (t_bankConnections (w_tables w)) = Some row \<and>
          found = Some (bankConnectionFromModel row))"
  by (auto simp: GetBankConnection_def bindA_Inr split: option.splits simp del: lookupRow_None)

lemma applyInTransaction_effect:
  assumes run: "applyInTransaction databaseSyncStore plan aplan states snapshot now
      providerWindowSyncApplyStore w = (Inr stats, w')"
  shows "applied plan aplan states stats (w_tables w) (w_tables w')"
proof -
  let ?s = databaseSyncStore and ?st = providerWindowSyncApplyStore
  let ?t0 = "w_tables w" and ?c = "dp_Connection plan"
  obtain found w1 where found: "GetBankConnection (ref_ConnectionID ?c) w = (Inr found, w1)"
    using run by (auto simp: applyInTransaction_def store_simps bindA_Inr)
  from GetBankConnection_found [OF found] obtain row where
    row: "lookupRow bm_ID (TrimSpace (ref_ConnectionID ?c)) (t_bankConnections ?t0) = Some row"
    "found = Some (bankConnectionFromModel row)" and t1: "w_tables w1 = ?t0" by blast
  let ?bc = "bankConnectionFromModel row"
  have get: "as_GetBankConnection ?st = GetBankConnection" by (simp add: store_simps)
  obtain w2 created pas w3 w4 w5 ts w6 w7 w8 where
    steps: "saveConnectionSnapshots ?s ?st ?bc (dp_SnapshotObservations plan) w1 = (Inr (), w2)"
    "saveObservedAccounts ?s ?st (providerAccountsByProviderID (snap_Accounts snapshot)) ?c ?bc
       (dp_AccountObservations plan) now 0 w2 = (Inr (created, pas), w3)"
    "saveBalanceSnapshots ?s ?st pas ?c (dp_BalanceObservations plan) w3 = (Inr (), w4)"
    "saveAccountSnapshots ?s ?st pas ?c (dp_SnapshotObservations plan) w4 = (Inr (), w5)"
    "saveTransactionWritesWithResults ?s ?st pas ?c (bc_TenantID ?bc)
       (appendUniqueProviderTransactionMatches (snap_Matches snapshot) (snap_IdentityMatches snapshot))
       (ap_TransactionWrites aplan) now Map.empty w5 = (Inr ts, w6)"
    "saveTransactionSnapshots ?s ?st pas ?c ts (dp_SnapshotObservations plan) w6 = (Inr (), w7)"
    and stats: "stats = (ap_Stats aplan)\<lparr>CreatedAccounts := CreatedAccounts (ap_Stats aplan) + created\<rparr>"
    and append: "appendSuccessfulSyncState ?st states stats w7 = (Inr (), w8)"
    and publish: "publishBankSyncWindowCompleted ?s ?st ?bc states w8 = (Inr (), w')"
    using run found row(2)
    by (auto simp: applyInTransaction_def get bindA_Inr Let_def split: prod.splits)
  have "untouched ?t0 (w_tables w1)" by (simp add: t1 untouched_def)
  note u2 = rest_after [OF rest.saveConnectionSnapshots_keeps steps(1) this, THEN conjunct1]
  note u3 = rest_after [OF rest.saveObservedAccounts_keeps steps(2) u2, THEN conjunct1]
  note u4 = rest_after [OF rest.saveBalanceSnapshots_keeps steps(3) u3, THEN conjunct1]
  note u5 = rest_after [OF rest.saveAccountSnapshots_keeps steps(4) u4, THEN conjunct1]
  note u6 = rest_after [OF rest.saveTransactionWritesWithResults_keeps steps(5) u5, THEN conjunct1]
  note u7 = rest_after [OF rest.saveTransactionSnapshots_keeps steps(6) u6, THEN conjunct1]
  have created: "0 \<le> created" "created \<le> int (length (dp_AccountObservations plan))"
    using created_accounts_bounds [OF steps(2)] by auto
  from append_effect [OF append] obtain appendedAt where
    t8: "w_tables w8 = (case states of [] \<Rightarrow> w_tables w7
        | state # _ \<Rightarrow> (w_tables w7)\<lparr>t_journal := t_journal (w_tables w7) @
            [newProviderSyncStateJournalModel
               (state\<lparr>st_AggregateStats := mergeProviderSyncStats (st_AggregateStats state) stats\<rparr>)
               appendedAt (t_journalNext (w_tables w7))],
            t_journalNext := t_journalNext (w_tables w7) + 1\<rparr>)" ..
  note t' = publish_effect [OF publish]
  show ?thesis
    unfolding applied_def
    by (rule exI [of _ row], rule exI [of _ created], rule exI [of _ appendedAt])
      (use row(1) created stats u7 in \<open>cases states; simp add: t' t8 untouched_def\<close>)
qed

lemma ApplySync_effect:
  assumes run: "ApplySync databaseSyncStore plan aplan states w = (Inr stats, w')"
  shows "applied plan aplan states stats (w_tables w) (w_tables w')"
proof -
  from run obtain snapshot u now v where
    load: "LoadExistingWindow databaseSyncStore (dp_Connection plan) (dp_SnapshotWindow plan)
      (providerTransactionIdentitiesFromActions (dp_TransactionActions plan)) w = (Inr snapshot, u)"
    and clock: "readClock u = (now, v)"
    and body: "transactionSQL (applyInTransaction databaseSyncStore plan aplan states snapshot now
      providerWindowSyncApplyStore) v = (Inr stats, w')"
    unfolding ApplySync_def
    by (auto simp: bindA_Inr liftA_Inr store_simps WithTransaction_def)
  have "w_tables u = w_tables w"
    using preservesD [OF db.LoadExistingWindow_reads refl load] .
  moreover have "w_tables v = w_tables u" using clock by (auto simp: readClock_def)
  moreover from body obtain x where
    x: "applyInTransaction databaseSyncStore plan aplan states snapshot now providerWindowSyncApplyStore
          (v\<lparr>w_statement := Suc (w_statement v), w_inTransaction := True\<rparr>) = (Inr stats, x)"
      "w_tables w' = w_tables x" by (rule transactionSQL_ok)
  ultimately show ?thesis
    using applyInTransaction_effect [OF x(1)] by simp
qed

text \<open>
  C11. Applying a planned sync is all or nothing. If any statement fails, at any point of
  the load, the writes, the journal or the publication, the tables are exactly as they
  were; if it succeeds, the journal has one row for the window, with the planned
  statistics and the created accounts merged in, and the outbox one event per state, for
  the tenant of the connection, written in the same transaction as the data.
\<close>

theorem apply_sync_all_or_nothing:
  "case ApplySync databaseSyncStore plan aplan states w of
     (Inl e, w') \<Rightarrow> w_tables w' = w_tables w
   | (Inr stats, w') \<Rightarrow> applied plan aplan states stats (w_tables w) (w_tables w')"
  using db.ApplySync_error_undone ApplySync_effect by (auto split: prod.splits sum.splits)

section \<open>Invariants of the stored data\<close>

text \<open>What a predicate on the tables that \<open>ApplySync\<close> preserves gives for a run.\<close>

lemma table_inv_after:
  "preserves (table_inv I (w_json w)) m \<Longrightarrow> I (w_tables w) \<Longrightarrow> I (w_tables (snd (m w)))"
  by (auto simp: preserves_def table_inv_def)

text \<open>
  C12. A sync keeps the tables well formed, whether it succeeds or fails: ids stay unique
  in every table it writes, a provider account is mapped once per connection, a provider
  document is stored once per identity, and journal ids grow.
\<close>

theorem apply_sync_keeps_keys:
  assumes "keys_ok (w_tables w)"
  shows "keys_ok (w_tables (snd (ApplySync databaseSyncStore plan aplan states w)))"
  by (rule table_inv_after [OF keys.ApplySync_keeps assms])

lemma example_keys_ok: "keys_ok (w_tables (example_world fault))"
  by (simp add: keys_ok_def example_world_def example_tables_def)

theorem apply_sync_keeps_keys_witness:
  "keys_ok (w_tables (snd (example_apply (\<lambda>n. if n = 8 then Some (Errorf ''disk'') else None))))"
  unfolding example_apply_def by (rule apply_sync_keeps_keys [OF example_keys_ok])

text \<open>
  C13. A sync never deletes a stored transaction and never changes what the ledger and the
  transfer matcher decided about it: its kind, transfer group, match time, exclusion from
  matching and creation time are those it had, whatever the provider sent and whatever
  the applied plan says.
\<close>

theorem apply_sync_keeps_pairing:
  assumes "r \<in> set (t_transactions (w_tables w))"
  shows "\<exists>r' \<in> set (t_transactions (w_tables (snd (ApplySync databaseSyncStore plan aplan states w)))).
           same_pairing r r'"
proof -
  have "pairing_kept (t_transactions (w_tables w)) (w_tables w)"
    by (auto simp: pairing_kept_def same_pairing_def)
  then have "pairing_kept (t_transactions (w_tables w))
      (w_tables (snd (ApplySync databaseSyncStore plan aplan states w)))"
    by (rule table_inv_after [OF pairing.ApplySync_keeps])
  with assms show ?thesis by (simp add: pairing_kept_def)
qed

theorem apply_sync_keeps_pairing_witness:
  "\<exists>r' \<in> set (t_transactions (w_tables (snd (example_apply (\<lambda>_. None))))). tm_ID r' = ''tx1''"
  using apply_sync_keeps_pairing [of "newTransactionModel (example_transaction ''tx1'' 700 500)"
      "example_world (\<lambda>_. None)" example_plan_record "applyPlan example_plan_record" "[example_success]"]
  by (auto simp: example_apply_def example_world_def example_tables_def same_pairing_def
      newTransactionModel_def example_transaction_def)



section \<open>Saving a provider document\<close>

text \<open>
  C15. Provider documents never go back in time: saving an observation of an object that is
  already stored keeps the stored row's id and keeps the document observed later (the new
  one when both were observed at the same instant); no other object's document changes.
\<close>

theorem save_snapshot_latest_wins:
  "case saveProviderSnapshotModel row w of
     (Inl e, w') \<Rightarrow> True
   | (Inr saved, w') \<Rightarrow>
       (case lookupRow snapshotIdentity (snapshotIdentity row) (t_providerSnapshots (w_tables w)) of
          None \<Rightarrow> saved = providerSnapshotFromModel row
        | Some old \<Rightarrow>
            ps_ID saved = psm_ID old \<and>
            ps_CapturedAt saved = max (psm_CapturedAt old) (psm_CapturedAt row) \<and>
            ps_DocumentJSON saved =
              (if psm_CapturedAt old \<le> psm_CapturedAt row then psm_DocumentJSON row else psm_DocumentJSON old)) \<and>
       (\<forall>identity. identity = snapshotIdentity row \<or>
          lookupRow snapshotIdentity identity (t_providerSnapshots (w_tables w')) =
          lookupRow snapshotIdentity identity (t_providerSnapshots (w_tables w)))"
proof (cases "saveProviderSnapshotModel row w")
  case (Pair r w')
  show ?thesis
  proof (cases r)
    case (Inr saved)
    with Pair have run: "saveProviderSnapshotModel row w = (Inr saved, w')" by simp
    then obtain rows persisted where
      upsert: "upsertRows snapshotIdentity psm_ID snapshotUpdate row (t_providerSnapshots (w_tables w)) = Inr rows"
      and rows: "t_providerSnapshots (w_tables w') = rows"
      and read: "lookupRow snapshotIdentity (snapshotIdentity row) rows = Some persisted"
      and saved: "saved = providerSnapshotFromModel persisted"
      by (auto simp: saveProviderSnapshotModel_def bindA_Inr map_sum_Inr split: option.splits
          simp del: lookupRow_None)
    have rows_eq: "rows = insertOnConflict snapshotIdentity snapshotUpdate row (t_providerSnapshots (w_tables w))"
      using upsert by (auto simp: upsertRows_def split: if_splits)
    show ?thesis
      using read Pair Inr saved
      by (auto simp: rows rows_eq documents.lookup_insert snapshotUpdate_def providerSnapshotFromModel_def
          split: option.splits if_splits simp del: lookupRow_None)
  qed (simp add: Pair)
qed

end
