(* ===== verification/SyncPipeline.thy ===== *)
theory SyncPipeline
  imports WindowPolicies SyncProperties
begin

text \<open>
  One provider sync from end to end: the registries (\<^verbatim>\<open>registry.go\<close>), the executor of one
  window (\<^verbatim>\<open>window_sync_executor.go\<close>) and the orchestrator that plans the windows,
  executes them oldest first and journals a failure (\<^verbatim>\<open>sync_orchestrator.go\<close>). Logging is
  left out; constructors only store their arguments.
\<close>

section \<open>Registries\<close>

type_synonym profile_registry = "ProviderID \<rightharpoonup> ProviderProfile"

definition NewStaticProviderProfileRegistry :: "ProviderProfile list \<Rightarrow> profile_registry" where
  "NewStaticProviderProfileRegistry profiles =
     foldl (\<lambda>registry profile.
       if prof_ProviderID profile = '''' then registry
       else if registry (prof_ProviderID profile) \<noteq> None then registry
       else registry(prof_ProviderID profile \<mapsto> profile)) Map.empty profiles"

definition ResolveProfile :: "profile_registry \<Rightarrow> ProviderID \<Rightarrow> go_error + ProviderProfile" where
  "ResolveProfile registry providerID =
     (if providerID = '''' then Inl (Sentinel ErrProviderIDRequired)
      else case registry providerID of
        None \<Rightarrow> Inl (WrapSuffix (Sentinel ErrProviderNotConfigured) providerID)
      | Some profile \<Rightarrow> Inr profile)"

type_synonym 's connector_registry = "ProviderConnectorID \<rightharpoonup> 's Connector"

definition NewStaticConnectorRegistry :: "'s Connector option list \<Rightarrow> 's connector_registry" where
  "NewStaticConnectorRegistry connectors =
     foldl (\<lambda>registry candidate.
       case candidate of
         None \<Rightarrow> registry
       | Some connector \<Rightarrow>
           if con_ConnectorID connector = '''' then registry
           else if registry (con_ConnectorID connector) \<noteq> None then registry
           else registry(con_ConnectorID connector \<mapsto> connector)) Map.empty connectors"

definition ResolveConnector :: "'s connector_registry \<Rightarrow> ProviderConnectorID \<Rightarrow> go_error + 's Connector" where
  "ResolveConnector registry connectorID =
     (if connectorID = '''' then Inl (Sentinel ErrConnectorIDRequired)
      else case registry connectorID of
        None \<Rightarrow> Inl (WrapSuffix (Sentinel ErrConnectorNotConfigured) connectorID)
      | Some connector \<Rightarrow> Inr connector)"

section \<open>The window executor\<close>

record WindowSyncRequest =
  wsr_Connection :: ProviderConnectionRef
  wsr_Secret :: ConnectionSecret
  wsr_RequestedWindow :: ProviderSyncWindow
  wsr_SyncState :: "ProviderSyncState option"
  wsr_JobID :: string
  wsr_Reason :: string

record WindowSyncResult =
  res_RunID :: string
  res_Batch :: ProviderSyncBatch
  res_Stats :: ProviderSyncStats
  res_Issues :: "ProviderSyncIssue list"

record 's WindowSyncStore =
  wss_LoadExistingWindow :: "ProviderConnectionRef \<Rightarrow> ProviderSyncWindow \<Rightarrow>
    ProviderTransactionIdentity list \<Rightarrow> ('s, ExistingWindowSnapshot) action"
  wss_ApplySync :: "ProviderDiffPlan \<Rightarrow> ApplyPlan \<Rightarrow> ProviderSyncState list \<Rightarrow>
    ('s, ProviderSyncStats) action"

record 's WindowSyncExecutor =
  ex_connectorRegistry :: "ProviderConnectorID \<Rightarrow> go_error + 's Connector"
  ex_snapshotWindowPolicy :: "ProviderSyncWindow \<Rightarrow> go_error + ProviderSyncWindow"
  ex_windowSyncStore :: "'s WindowSyncStore"
  ex_runIDGenerator :: "'s \<Rightarrow> string \<times> 's"
  ex_now :: "'s \<Rightarrow> time \<times> 's"

definition success_state :: "WindowSyncRequest \<Rightarrow> string \<Rightarrow> time \<Rightarrow> ProviderSyncState" where
  "success_state request runID completedAt =
     (let base = (case wsr_SyncState request of
          Some state \<Rightarrow> state
        | None \<Rightarrow> \<lparr>st_Connection = wsr_Connection request, st_AttemptedAt = None, st_SucceededAt = None,
            st_Window = wsr_RequestedWindow request, st_RunID = '''', st_JobID = wsr_JobID request,
            st_ErrorSummary = '''', st_AggregateStats = zero_stats\<rparr>)
      in base\<lparr>st_Connection := wsr_Connection request, st_Window := wsr_RequestedWindow request,
           st_JobID := wsr_JobID request, st_RunID := runID, st_SucceededAt := Some completedAt\<rparr>)"

definition Execute :: "'s WindowSyncExecutor \<Rightarrow> WindowSyncRequest \<Rightarrow> ('s, WindowSyncResult) action" where
  "Execute c request =
     (case validateSyncWindow (wsr_RequestedWindow request) ErrInvalidRequestedWindow of
        Some err \<Rightarrow> failA err
      | None \<Rightarrow>
          bindA (wrapA ''resolve sync connector''
            (resultA (ex_connectorRegistry c (ref_ConnectorID (wsr_Connection request)))))
          (\<lambda>connector.
          bindA (wrapA ''fetch sync batch'' (con_Fetch connector
            \<lparr>fr_Connection = wsr_Connection request, fr_Secret = wsr_Secret request,
             fr_RequestedWindow = wsr_RequestedWindow request, fr_SyncState = wsr_SyncState request\<rparr>))
          (\<lambda>fetched.
          let batch = fetched\<lparr>batch_Connection := wsr_Connection request,
                        batch_RequestedWindow := wsr_RequestedWindow request\<rparr>
          in
          bindA (wrapA ''determine snapshot window''
            (resultA (ex_snapshotWindowPolicy c (wsr_RequestedWindow request)))) (\<lambda>snapshotWindow.
          bindA (wrapA ''load existing snapshot'' (wss_LoadExistingWindow (ex_windowSyncStore c)
            (wsr_Connection request) snapshotWindow (providerTransactionIdentities (batch_Transactions batch))))
          (\<lambda>snapshot.
          let plan = diffPlan batch snapshot; aplan = applyPlan plan
          in
          bindA (liftA (ex_runIDGenerator c)) (\<lambda>runID.
          bindA (liftA (ex_now c)) (\<lambda>completedAt.
          bindA (wrapA ''apply sync'' (wss_ApplySync (ex_windowSyncStore c) plan aplan
            [success_state request runID completedAt])) (\<lambda>stats.
          returnA \<lparr>res_RunID = runID, res_Batch = batch, res_Stats = stats,
            res_Issues = ap_Issues aplan\<rparr>))))))))"

section \<open>The orchestrator\<close>

record SyncOrchestrationRequest =
  orq_Connection :: ProviderConnectionRef
  orq_Secret :: ConnectionSecret
  orq_JobID :: string
  orq_Reason :: string
  orq_WindowStart :: "time option"
  orq_WindowEnd :: "time option"

record SyncOrchestrationResult =
  ors_TargetWindow :: ProviderSyncWindow
  ors_ExecutedWindows :: "ProviderSyncWindow list"
  ors_WindowResults :: "WindowSyncResult list"
  ors_Stats :: ProviderSyncStats
  ors_Issues :: "ProviderSyncIssue list"

record 's SyncOrchestrator =
  so_LoadLastState :: "ProviderConnectionRef \<Rightarrow> ('s, ProviderSyncState option) action"
  so_AppendSyncState :: "ProviderSyncState \<Rightarrow> ('s, unit) action"
  so_targetWindowPolicy :: "TargetWindowRequest \<Rightarrow> go_error + ProviderSyncWindow"
  so_windowChunkPolicy :: "ProviderSyncWindow \<Rightarrow> go_error + ProviderSyncWindow list"
  so_windowExecutor :: "WindowSyncRequest \<Rightarrow> ('s, WindowSyncResult) action"
  so_now :: "'s \<Rightarrow> time \<times> 's"
  so_errorText :: "go_error \<Rightarrow> string"

definition planRequestedWindows ::
  "'s SyncOrchestrator \<Rightarrow> ProviderSyncWindow \<Rightarrow> ('s, ProviderSyncWindow list) action" where
  "planRequestedWindows orc targetWindow =
     wrapA ''split target window'' (resultA (so_windowChunkPolicy orc targetWindow))"

definition chunk_state ::
  "SyncOrchestrationRequest \<Rightarrow> ProviderSyncWindow \<Rightarrow> ProviderSyncStats \<Rightarrow> time \<Rightarrow> ProviderSyncState" where
  "chunk_state request requestedWindow aggregateStats attemptedAt =
     \<lparr>st_Connection = orq_Connection request, st_AttemptedAt = Some attemptedAt, st_SucceededAt = None,
      st_Window = requestedWindow, st_RunID = '''', st_JobID = orq_JobID request, st_ErrorSummary = '''',
      st_AggregateStats = aggregateStats\<rparr>"

definition window_request ::
  "SyncOrchestrationRequest \<Rightarrow> ProviderSyncWindow \<Rightarrow> ProviderSyncState \<Rightarrow> WindowSyncRequest" where
  "window_request request requestedWindow chunkState =
     \<lparr>wsr_Connection = orq_Connection request, wsr_Secret = orq_Secret request,
      wsr_RequestedWindow = requestedWindow, wsr_SyncState = Some chunkState,
      wsr_JobID = orq_JobID request, wsr_Reason = orq_Reason request\<rparr>"

definition executeRequestedWindow ::
  "'s SyncOrchestrator \<Rightarrow> SyncOrchestrationRequest \<Rightarrow> ProviderSyncWindow \<Rightarrow> ProviderSyncStats \<Rightarrow>
   ('s, WindowSyncResult \<times> ProviderSyncStats) action" where
  "executeRequestedWindow orc request requestedWindow aggregateStats =
     bindA (liftA (so_now orc)) (\<lambda>attemptedAt s.
       let chunkState = chunk_state request requestedWindow aggregateStats attemptedAt
       in case so_windowExecutor orc (window_request request requestedWindow chunkState) s of
          (Inl executeErr, s') \<Rightarrow>
            bindA (wrapA ''append failed sync state'' (so_AppendSyncState orc
              (chunkState\<lparr>st_ErrorSummary := so_errorText orc executeErr\<rparr>)))
            (\<lambda>_. failA (Wrap ''execute requested window'' executeErr)) s'
        | (Inr windowResult, s') \<Rightarrow>
            (Inr (windowResult, mergeProviderSyncStats aggregateStats (res_Stats windowResult)), s'))"

fun executeWindows ::
  "'s SyncOrchestrator \<Rightarrow> SyncOrchestrationRequest \<Rightarrow> ProviderSyncWindow list \<Rightarrow> SyncOrchestrationResult \<Rightarrow>
   ('s, SyncOrchestrationResult) action" where
  "executeWindows orc request [] result = returnA result"
| "executeWindows orc request (requestedWindow # rest) result =
     bindA (executeRequestedWindow orc request requestedWindow (ors_Stats result))
     (\<lambda>(windowResult, updatedStats).
       executeWindows orc request rest
         (result\<lparr>ors_ExecutedWindows := ors_ExecutedWindows result @ [requestedWindow],
                 ors_WindowResults := ors_WindowResults result @ [windowResult],
                 ors_Stats := updatedStats,
                 ors_Issues := ors_Issues result @ res_Issues windowResult\<rparr>))"

definition Orchestrate ::
  "'s SyncOrchestrator \<Rightarrow> SyncOrchestrationRequest \<Rightarrow> ('s, SyncOrchestrationResult) action" where
  "Orchestrate orc request =
     bindA (case orq_WindowStart request of
              None \<Rightarrow> wrapA ''load sync state'' (so_LoadLastState orc (orq_Connection request))
            | Some _ \<Rightarrow> returnA None)
     (\<lambda>lastState.
     bindA (liftA (so_now orc)) (\<lambda>now.
     bindA (wrapA ''determine target window'' (resultA (so_targetWindowPolicy orc
       \<lparr>tr_Now = now, tr_State = lastState, tr_WindowStart = orq_WindowStart request,
        tr_WindowEnd = orq_WindowEnd request\<rparr>))) (\<lambda>targetWindow.
     bindA (planRequestedWindows orc targetWindow) (\<lambda>requestedWindows.
     executeWindows orc request requestedWindows
       \<lparr>ors_TargetWindow = targetWindow, ors_ExecutedWindows = [], ors_WindowResults = [],
        ors_Stats = zero_stats, ors_Issues = []\<rparr>))))"

section \<open>The composition of the application\<close>

definition databaseWindowSyncStore :: "World WindowSyncStore" where
  "databaseWindowSyncStore = \<lparr>wss_LoadExistingWindow = LoadExistingWindow databaseSyncStore,
     wss_ApplySync = ApplySync databaseSyncStore\<rparr>"

text \<open>A connector whose fetches go to the banks of the world; linking is not used by a sync.\<close>

definition bankConnector :: "ProviderConnectorID \<Rightarrow> World Connector" where
  "bankConnector connectorID = \<lparr>con_ConnectorID = connectorID,
     con_Capabilities = \<lparr>SupportsStartLink = False, SupportsFinishLink = False,
       RequiresRedirectCode = False, SupportsTokenLink = False, SupportsFetch = True\<rparr>,
     con_StartLink = (\<lambda>_. failA (Errorf ''link start not supported'')),
     con_FinishLink = (\<lambda>_. failA (Errorf ''link finish not supported'')),
     con_LinkToken = (\<lambda>_. failA (Errorf ''token link not supported'')),
     con_Fetch = fetchFromBank\<rparr>"

definition databaseExecutor :: "ProviderConnectorID list \<Rightarrow> World WindowSyncExecutor" where
  "databaseExecutor connectorIDs =
     \<lparr>ex_connectorRegistry = ResolveConnector
        (NewStaticConnectorRegistry (map (\<lambda>i. Some (bankConnector i)) connectorIDs)),
      ex_snapshotWindowPolicy = snapshotWindowDetermine,
      ex_windowSyncStore = databaseWindowSyncStore,
      ex_runIDGenerator = drawID,
      ex_now = readClock\<rparr>"

definition databaseOrchestrator :: "ProviderConnectorID list \<Rightarrow> string \<Rightarrow> World SyncOrchestrator" where
  "databaseOrchestrator connectorIDs constraintText =
     \<lparr>so_LoadLastState = LoadLastState,
      so_AppendSyncState = AppendSyncState,
      so_targetWindowPolicy = targetWindowDetermine,
      so_windowChunkPolicy = chunkSplit,
      so_windowExecutor = Execute (databaseExecutor connectorIDs),
      so_now = readClock,
      so_errorText = error_text constraintText\<rparr>"

end
