(* ===== verification/PipelineProperties.thy ===== *)
theory PipelineProperties
  imports SyncPipeline
begin

text \<open>
  What the orchestration of windows guarantees. The interface \<open>journaled_windows\<close> states
  what it needs of an executor and a journal; the trace of a run is proved in it once and
  interpreted on the database.
\<close>

section \<open>Trace of the executed windows\<close>

text \<open>What a successful window leaves in the journal.\<close>

definition recorded :: "WindowSyncRequest \<Rightarrow> WindowSyncResult \<Rightarrow> ProviderSyncState \<Rightarrow> bool" where
  "recorded request res st \<longleftrightarrow>
     st_Window st = wsr_RequestedWindow request \<and> st_SucceededAt st \<noteq> None \<and>
     st_Connection st = wsr_Connection request \<and> st_JobID st = wsr_JobID request \<and>
     st_RunID st = res_RunID res \<and>
     st_AggregateStats st = mergeProviderSyncStats
       (case wsr_SyncState request of Some before \<Rightarrow> st_AggregateStats before | None \<Rightarrow> zero_stats)
       (res_Stats res)"

definition success_row :: "(ProviderSyncState \<Rightarrow> 'j \<Rightarrow> bool) \<Rightarrow> SyncOrchestrationRequest \<Rightarrow>
    ProviderSyncWindow \<Rightarrow> 'j \<Rightarrow> bool" where
  "success_row entry request window j \<longleftrightarrow>
     (\<exists>st. entry st j \<and> st_Window st = window \<and> st_SucceededAt st \<noteq> None \<and>
        st_Connection st = orq_Connection request \<and> st_JobID st = orq_JobID request)"

definition failed_row :: "(ProviderSyncState \<Rightarrow> 'j \<Rightarrow> bool) \<Rightarrow> SyncOrchestrationRequest \<Rightarrow>
    ProviderSyncWindow \<Rightarrow> 'j \<Rightarrow> bool" where
  "failed_row entry request window j \<longleftrightarrow>
     (\<exists>st. entry st j \<and> st_Window st = window \<and> st_SucceededAt st = None \<and> st_AttemptedAt st \<noteq> None \<and>
        st_Connection st = orq_Connection request \<and> st_JobID st = orq_JobID request)"

text \<open>
  The rows a run adds: one success row per executed window in order, then, if a window
  failed, its failed row (none when the journal itself refused it).
\<close>

definition run_rows :: "(ProviderSyncState \<Rightarrow> 'j \<Rightarrow> bool) \<Rightarrow> SyncOrchestrationRequest \<Rightarrow>
    ProviderSyncWindow list \<Rightarrow> bool \<Rightarrow> 'j list \<Rightarrow> bool" where
  "run_rows entry request windows succeeded rows \<longleftrightarrow>
     (if succeeded then list_all2 (success_row entry request) windows rows
      else \<exists>done failed rest ok_rows. windows = done @ failed # rest \<and>
             list_all2 (success_row entry request) done ok_rows \<and>
             (rows = ok_rows \<or> (\<exists>j. failed_row entry request failed j \<and> rows = ok_rows @ [j])))"

lemma run_rows_Cons:
  assumes "success_row entry request w j" "run_rows entry request ws b rows"
  shows "run_rows entry request (w # ws) b (j # rows)"
proof (cases b)
  case True
  with assms show ?thesis by (simp add: run_rows_def)
next
  case False
  with assms(2) obtain ok failed rest ok_rows where
    *: "ws = ok @ failed # rest" "list_all2 (success_row entry request) ok ok_rows"
    "rows = ok_rows \<or> (\<exists>j. failed_row entry request failed j \<and> rows = ok_rows @ [j])"
    by (auto simp: run_rows_def)
  have "list_all2 (success_row entry request) (w # ok) (j # ok_rows)" using assms(1) *(2) by simp
  moreover have "w # ws = (w # ok) @ failed # rest" using *(1) by simp
  moreover have "j # rows = j # ok_rows \<or> (\<exists>j'. failed_row entry request failed j' \<and> j # rows = (j # ok_rows) @ [j'])"
    using *(3) by auto
  ultimately show ?thesis unfolding run_rows_def using False by (simp only: if_False) blast
qed

locale journaled_windows =
  fixes orc :: "'s SyncOrchestrator" and journal :: "'s \<Rightarrow> 'j list"
    and entry :: "ProviderSyncState \<Rightarrow> 'j \<Rightarrow> bool"
  assumes execute_ok: "so_windowExecutor orc rq s = (Inr res, s') \<Longrightarrow>
      \<exists>st j. journal s' = journal s @ [j] \<and> entry st j \<and> recorded rq res st"
    and execute_error: "so_windowExecutor orc rq s = (Inl e, s') \<Longrightarrow> journal s' = journal s"
    and append_ok: "so_AppendSyncState orc st s = (Inr (), s') \<Longrightarrow>
      \<exists>j. journal s' = journal s @ [j] \<and> entry st j"
    and append_error: "so_AppendSyncState orc st s = (Inl e, s') \<Longrightarrow> journal s' = journal s"
    and load_keeps: "so_LoadLastState orc c s = (r, s') \<Longrightarrow> journal s' = journal s"
    and now_keeps: "so_now orc s = (t, s') \<Longrightarrow> journal s' = journal s"
begin

lemma window_ok:
  assumes "executeRequestedWindow orc request w stats s = (Inr (res, stats'), s')"
  shows "stats' = mergeProviderSyncStats stats (res_Stats res)"
    and "\<exists>j. journal s' = journal s @ [j] \<and> success_row entry request w j"
proof -
  obtain attempted u where now: "so_now orc s = (attempted, u)" by force
  let ?rq = "window_request request w (chunk_state request w stats attempted)"
  from assms now have run: "so_windowExecutor orc ?rq u = (Inr res, s')"
    and stats': "stats' = mergeProviderSyncStats stats (res_Stats res)"
    by (auto simp: executeRequestedWindow_def bindA_run [of "liftA _"] liftA_run bindA_Inr Let_def
        split: prod.splits sum.splits)
  show "stats' = mergeProviderSyncStats stats (res_Stats res)" by (rule stats')
  show "\<exists>j. journal s' = journal s @ [j] \<and> success_row entry request w j"
    using execute_ok [OF run] now_keeps [OF now]
    by (fastforce simp: success_row_def recorded_def window_request_def)
qed

lemma window_error:
  assumes "executeRequestedWindow orc request w stats s = (Inl e, s')"
  shows "journal s' = journal s \<or> (\<exists>j. journal s' = journal s @ [j] \<and> failed_row entry request w j)"
proof -
  obtain attempted u where now: "so_now orc s = (attempted, u)" by force
  define st where "st = chunk_state request w stats attempted"
  obtain r v where run: "so_windowExecutor orc (window_request request w st) u = (r, v)" by force
  with assms now obtain e' where r: "r = Inl e'"
    by (cases r) (auto simp: executeRequestedWindow_def bindA_run [of "liftA _"] liftA_run Let_def st_def)
  let ?failed = "st\<lparr>st_ErrorSummary := so_errorText orc e'\<rparr>"
  have same: "journal v = journal s" using execute_error [OF run [unfolded r]] now_keeps [OF now] by simp
  obtain r2 x where append: "so_AppendSyncState orc ?failed v = (r2, x)" by force
  have x: "x = s'"
    using assms now run r append
    by (cases r2)
      (auto simp: executeRequestedWindow_def bindA_run [of "liftA _"] liftA_run Let_def st_def
        bindA_run mapErrA_run)
  show ?thesis
  proof (cases r2)
    case (Inl e2)
    with append_error append x same show ?thesis by metis
  next
    case (Inr y)
    from append_ok append Inr x same obtain j where "journal s' = journal s @ [j]" "entry ?failed j"
      by (metis (full_types) old.unit.exhaust)
    then show ?thesis by (fastforce simp: failed_row_def st_def chunk_state_def)
  qed
qed

lemma executeWindows_trace:
  "executeWindows orc request ws result s = (r, s') \<Longrightarrow>
   \<exists>rows. journal s' = journal s @ rows \<and> run_rows entry request ws (\<exists>x. r = Inr x) rows"
proof (induction ws arbitrary: result s)
  case Nil
  then have "r = Inr result" "s' = s" by (auto simp: returnA_def)
  then show ?case by (simp add: run_rows_def)
next
  case (Cons w ws)
  obtain r1 u where step: "executeRequestedWindow orc request w (ors_Stats result) s = (r1, u)" by force
  show ?case
  proof (cases r1)
    case (Inl e)
    with step Cons.prems have "r = Inl e" "s' = u" by (auto simp: bindA_run)
    with window_error [of request w "ors_Stats result" s e u] step Inl
    have "\<exists>rows. journal s' = journal s @ rows \<and>
        (rows = [] \<or> (\<exists>j. failed_row entry request w j \<and> rows = [] @ [j]))" by auto
    with \<open>r = Inl e\<close> show ?thesis
      unfolding run_rows_def by (auto intro!: exI [of _ "[] :: ProviderSyncWindow list"])
  next
    case (Inr x)
    obtain res stats' where x: "x = (res, stats')" by force
    from window_ok(2) [of request w "ors_Stats result" s res stats' u] step Inr x
    obtain j where j: "journal u = journal s @ [j]" "success_row entry request w j" by auto
    from Cons.prems step Inr x obtain result' where
      "executeWindows orc request ws result' u = (r, s')" by (auto simp: bindA_run)
    from Cons.IH [OF this] obtain rows where
      "journal s' = journal u @ rows" "run_rows entry request ws (\<exists>x. r = Inr x) rows" by blast
    with j run_rows_Cons [OF j(2)] show ?thesis by fastforce
  qed
qed

lemma executeWindows_result:
  "executeWindows orc request ws result s = (Inr result', s') \<Longrightarrow>
   \<exists>results. length results = length ws \<and>
     ors_TargetWindow result' = ors_TargetWindow result \<and>
     ors_ExecutedWindows result' = ors_ExecutedWindows result @ ws \<and>
     ors_WindowResults result' = ors_WindowResults result @ results \<and>
     ors_Stats result' = foldl mergeProviderSyncStats (ors_Stats result) (map res_Stats results) \<and>
     ors_Issues result' = ors_Issues result @ concat (map res_Issues results)"
proof (induction ws arbitrary: result s)
  case (Cons w ws)
  then obtain res stats' u where
    step: "executeRequestedWindow orc request w (ors_Stats result) s = (Inr (res, stats'), u)"
    and rest: "executeWindows orc request ws
       (result\<lparr>ors_ExecutedWindows := ors_ExecutedWindows result @ [w],
               ors_WindowResults := ors_WindowResults result @ [res],
               ors_Stats := stats', ors_Issues := ors_Issues result @ res_Issues res\<rparr>) u = (Inr result', s')"
    by (auto simp: bindA_Inr split: prod.splits)
  note stats' = window_ok(1) [OF step]
  from Cons.IH [OF rest] obtain results where "length results = length ws \<and>
     ors_TargetWindow result' = ors_TargetWindow result \<and>
     ors_ExecutedWindows result' = ors_ExecutedWindows result @ w # ws \<and>
     ors_WindowResults result' = ors_WindowResults result @ res # results \<and>
     ors_Stats result' = foldl mergeProviderSyncStats stats' (map res_Stats results) \<and>
     ors_Issues result' = ors_Issues result @ res_Issues res @ concat (map res_Issues results)"
    by auto
  then show ?case using stats' by (intro exI [of _ "res # results"]) simp
qed simp

end

section \<open>The journal of the database\<close>

definition db_entry :: "ProviderSyncState \<Rightarrow> providerSyncStateJournalModel \<Rightarrow> bool" where
  "db_entry st j \<longleftrightarrow> j = newProviderSyncStateJournalModel st (jm_CreatedAt j) (jm_JournalID j)"

abbreviation db_journal :: "World \<Rightarrow> providerSyncStateJournalModel list" where
  "db_journal w \<equiv> t_journal (w_tables w)"

lemma db_entry_new: "db_entry st (newProviderSyncStateJournalModel st now i)"
  by (simp add: db_entry_def newProviderSyncStateJournalModel_def)

lemma resolve_bank_connector:
  assumes "ResolveConnector (NewStaticConnectorRegistry (map (\<lambda>i. Some (bankConnector i)) ids)) c = Inr connector"
  shows "con_Fetch connector = fetchFromBank"
proof -
  define step :: "World connector_registry \<Rightarrow> ProviderConnectorID \<Rightarrow> World connector_registry" where
    "step = (\<lambda>registry i. if con_ConnectorID (bankConnector i) = '''' then registry
       else if registry (con_ConnectorID (bankConnector i)) \<noteq> None then registry
       else registry(con_ConnectorID (bankConnector i) \<mapsto> bankConnector i))"
  have "\<forall>x \<in> ran (foldl step m ids). con_Fetch x = fetchFromBank"
    if "\<forall>x \<in> ran m. con_Fetch x = fetchFromBank" for m
    using that
  proof (induction ids arbitrary: m)
    case (Cons i ids)
    have "\<forall>x \<in> ran (step m i). con_Fetch x = fetchFromBank"
      using Cons.prems by (auto simp: step_def ran_def bankConnector_def)
    from Cons.IH [OF this] show ?case by simp
  qed simp
  from this [of Map.empty] have all: "\<forall>x \<in> ran (foldl step Map.empty ids). con_Fetch x = fetchFromBank" by simp
  have "NewStaticConnectorRegistry (map (\<lambda>i. Some (bankConnector i)) ids) = foldl step Map.empty ids"
    unfolding NewStaticConnectorRegistry_def step_def foldl_map by simp
  with assms have "foldl step Map.empty ids c = Some connector"
    by (auto simp: ResolveConnector_def split: if_splits option.splits)
  with all show ?thesis by (auto simp: ran_def)
qed

lemma fetch_tables [simp]: "w_tables (snd (fetchFromBank request w)) = w_tables w"
  by (simp add: fetchFromBank_def)

lemma tables_kept_fetch: "tables_kept (fetchFromBank request)"
  by (simp add: tables_kept_def preserves_def fetchFromBank_def)

lemma Load_tables_kept: "tables_kept (LoadExistingWindow databaseSyncStore c win idents)"
  using db.LoadExistingWindow_reads by (auto simp: tables_kept_def)

lemma ApplySync_undone: "undone (ApplySync databaseSyncStore plan aplan states)"
  unfolding undone_def using db.ApplySync_error_undone by blast

lemma Execute_error:
  assumes "Execute (databaseExecutor ids) request w = (Inl e, w')"
  shows "w_tables w' = w_tables w"
proof (cases "ResolveConnector (NewStaticConnectorRegistry (map (\<lambda>i. Some (bankConnector i)) ids))
    (ref_ConnectorID (wsr_Connection request))")
  case (Inl err)
  with assms show ?thesis
    by (auto simp: Execute_def databaseExecutor_def bindA_run mapErrA_run split: option.splits)
next
  case (Inr connector)
  have "undone (Execute (databaseExecutor ids) request)"
  proof (cases "validateSyncWindow (wsr_RequestedWindow request) ErrInvalidRequestedWindow")
    case (Some err)
    then show ?thesis by (simp add: Execute_def undone_rules)
  next
    case None
    have fetch: "con_Fetch connector = fetchFromBank" by (rule resolve_bank_connector [OF Inr])
    have resolve: "bindA (wrapA ''resolve sync connector'' (resultA (Inr connector :: go_error + World Connector))) f
        = f connector" for f :: "World Connector \<Rightarrow> (World, WindowSyncResult) action"
      by (rule ext) (simp add: bindA_run mapErrA_run)
    show ?thesis
      unfolding Execute_def None option.case databaseExecutor_def WindowSyncExecutor.simps Inr resolve fetch
        databaseWindowSyncStore_def WindowSyncStore.simps Let_def
      by (intro undone_bind tables_kept_mapErr tables_kept_fetch tables_kept_pure Load_tables_kept
          tables_kept_draw undone_return undone_mapErr ApplySync_undone)
  qed
  from undoneD [OF this assms] show ?thesis .
qed

lemma Execute_ok:
  assumes "Execute (databaseExecutor ids) request w = (Inr res, w')"
  shows "\<exists>st j. db_journal w' = db_journal w @ [j] \<and> db_entry st j \<and> recorded request res st"
proof -
  obtain connector w1 w2 w3 w4 w5 fetched sw snapshot runID at plan aplan where
    valid: "validateSyncWindow (wsr_RequestedWindow request) ErrInvalidRequestedWindow = None"
    and resolve: "ResolveConnector (NewStaticConnectorRegistry (map (\<lambda>i. Some (bankConnector i)) ids))
        (ref_ConnectorID (wsr_Connection request)) = Inr connector"
    and fetch: "con_Fetch connector \<lparr>fr_Connection = wsr_Connection request, fr_Secret = wsr_Secret request,
        fr_RequestedWindow = wsr_RequestedWindow request, fr_SyncState = wsr_SyncState request\<rparr> w = (Inr fetched, w1)"
    and load: "LoadExistingWindow databaseSyncStore (wsr_Connection request) sw
        (providerTransactionIdentities (batch_Transactions fetched)) w1 = (Inr snapshot, w2)"
    and draw: "drawID w2 = (runID, w3)" and clock: "readClock w3 = (at, w4)"
    and applying: "ApplySync databaseSyncStore plan aplan [success_state request runID at] w4 = (Inr (res_Stats res), w')"
    and res: "res_RunID res = runID"
    using assms
    by (auto simp: Execute_def databaseExecutor_def databaseWindowSyncStore_def bindA_Inr liftA_Inr Let_def
        split: option.splits)
  have "w_tables w1 = w_tables w"
    using fetch resolve_bank_connector [OF resolve] by (auto simp: fetchFromBank_def)
  moreover have "w_tables w2 = w_tables w1" using tables_keptD [OF Load_tables_kept load] .
  moreover have "w_tables w4 = w_tables w2" using draw clock by (auto simp: drawID_def readClock_def)
  ultimately have same: "w_tables w4 = w_tables w" by simp
  obtain now where j: "db_journal w' = db_journal w @ [newProviderSyncStateJournalModel
      ((success_state request runID at)\<lparr>st_AggregateStats :=
         mergeProviderSyncStats (st_AggregateStats (success_state request runID at)) (res_Stats res)\<rparr>)
      now (t_journalNext (w_tables w))]"
    using ApplySync_effect [OF applying] by (auto simp: applied_def same)
  show ?thesis
    by (intro exI conjI, rule j, rule db_entry_new)
      (simp add: recorded_def success_state_def res Let_def split: option.splits)
qed

lemma LoadLastState_tables_kept: "tables_kept (LoadLastState c)"
  unfolding LoadLastState_def by (intro tables_kept_bind tables_kept_mapErr tables_kept_read tables_kept_pure)

lemma AppendSyncState_ok:
  "AppendSyncState st w = (Inr (), w') \<Longrightarrow>
   db_journal w' = db_journal w @
     [newProviderSyncStateJournalModel st (w_clock w (w_timesRead w)) (t_journalNext (w_tables w))]"
  by (auto simp: AppendSyncState_def bindA_Inr liftA_Inr readClock_def)

lemma AppendSyncState_error: "AppendSyncState st w = (Inl e, w') \<Longrightarrow> w_tables w' = w_tables w"
  by (auto simp: AppendSyncState_def bindA_run liftA_run mapErrA_run readClock_def changeSQL_def execSQL_def
      split: option.splits sum.splits prod.splits)

interpretation db_run: journaled_windows "databaseOrchestrator ids constraintText" db_journal db_entry for ids constraintText
proof
  fix rq s res s' assume "so_windowExecutor (databaseOrchestrator ids constraintText) rq s = (Inr res, s')"
  then show "\<exists>st j. db_journal s' = db_journal s @ [j] \<and> db_entry st j \<and> recorded rq res st"
    by (simp add: databaseOrchestrator_def Execute_ok)
next
  fix rq s e s' assume "so_windowExecutor (databaseOrchestrator ids constraintText) rq s = (Inl e, s')"
  then show "db_journal s' = db_journal s" by (simp add: databaseOrchestrator_def Execute_error)
next
  fix st s s' assume "so_AppendSyncState (databaseOrchestrator ids constraintText) st s = (Inr (), s')"
  then show "\<exists>j. db_journal s' = db_journal s @ [j] \<and> db_entry st j"
    using AppendSyncState_ok db_entry_new by (auto simp: databaseOrchestrator_def)
next
  fix st s e s' assume "so_AppendSyncState (databaseOrchestrator ids constraintText) st s = (Inl e, s')"
  then show "db_journal s' = db_journal s" using AppendSyncState_error by (auto simp: databaseOrchestrator_def)
next
  fix c s r s' assume "so_LoadLastState (databaseOrchestrator ids constraintText) c s = (r, s')"
  then show "db_journal s' = db_journal s"
    using tables_keptD [OF LoadLastState_tables_kept] by (auto simp: databaseOrchestrator_def)
next
  fix s t s' assume "so_now (databaseOrchestrator ids constraintText) s = (t, s')"
  then show "db_journal s' = db_journal s" by (auto simp: databaseOrchestrator_def readClock_def)
qed

section \<open>A run of the orchestrator on the database\<close>

text \<open>The state \<^verbatim>\<open>LoadLastState\<close> finds, as a function of the tables.\<close>

definition latest_state :: "ProviderConnectionRef \<Rightarrow> Tables \<Rightarrow> ProviderSyncState option" where
  "latest_state c t =
     map_option (\<lambda>model. providerSyncStateFromJournalModel model c)
       (firstRow (orderDesc (\<lambda>r. (jm_CreatedAt r, jm_JournalID r))
         (filter (\<lambda>r. jm_ConnectionID r = ref_ConnectionID c) (t_journal t))))"

lemma LoadLastState_Inr: "LoadLastState c w = (Inr found, w') \<Longrightarrow> found = latest_state c (w_tables w)"
  by (auto simp: LoadLastState_def latest_state_def bindA_Inr)

definition target_request :: "SyncOrchestrationRequest \<Rightarrow> time \<Rightarrow> ProviderSyncState option \<Rightarrow> TargetWindowRequest" where
  "target_request request now state =
     \<lparr>tr_Now = now, tr_State = state, tr_WindowStart = orq_WindowStart request,
      tr_WindowEnd = orq_WindowEnd request\<rparr>"

lemma orchestrator_parts:
  "so_LoadLastState (databaseOrchestrator ids ct) = LoadLastState"
  "so_targetWindowPolicy (databaseOrchestrator ids ct) = targetWindowDetermine"
  "so_windowChunkPolicy (databaseOrchestrator ids ct) = chunkSplit"
  "so_now (databaseOrchestrator ids ct) = readClock"
  by (simp_all add: databaseOrchestrator_def)

lemmas orchestrate_unfold = Orchestrate_def planRequestedWindows_def orchestrator_parts

lemma tables_kept_load:
  "tables_kept (case orq_WindowStart request of
      None \<Rightarrow> wrapA msg (LoadLastState (orq_Connection request)) | Some _ \<Rightarrow> returnA None)"
  by (cases "orq_WindowStart request") (auto intro: tables_kept_mapErr LoadLastState_tables_kept)

text \<open>
  Either planning fails and the journal is untouched, or the run is the execution of the
  windows planned from the latest state of the tables it started on.
\<close>

lemma orchestrate_cases:
  assumes run: "Orchestrate (databaseOrchestrator ids ct) request w = (r, w')"
  obtains (planning) e where "r = Inl e" "db_journal w' = db_journal w"
  | (executing) state now target windows u where
      "orq_WindowStart request = None \<Longrightarrow> state = latest_state (orq_Connection request) (w_tables w)"
      "targetWindowDetermine (target_request request now state) = Inr target"
      "chunkSplit target = Inr windows" "db_journal u = db_journal w"
      "executeWindows (databaseOrchestrator ids ct) request windows
         \<lparr>ors_TargetWindow = target, ors_ExecutedWindows = [], ors_WindowResults = [],
          ors_Stats = zero_stats, ors_Issues = []\<rparr> u = (r, w')"
proof -
  let ?load = "case orq_WindowStart request of
      None \<Rightarrow> wrapA ''load sync state'' (LoadLastState (orq_Connection request)) | Some _ \<Rightarrow> returnA None"
  obtain r1 w1 where load: "?load w = (r1, w1)" by force
  have t1: "w_tables w1 = w_tables w" using tables_keptD [OF tables_kept_load load] .
  obtain now w2 where clock: "readClock w1 = (now, w2)" by force
  have t2: "w_tables w2 = w_tables w" using clock t1 by (auto simp: readClock_def)
  show ?thesis
  proof (cases r1)
    case (Inl e)
    with run load have "r = Inl e" "w' = w1"
      unfolding orchestrate_unfold bindA_run [of ?load] by simp_all
    with t1 planning show ?thesis by simp
  next
    case (Inr state)
    have state: "orq_WindowStart request = None \<Longrightarrow> state = latest_state (orq_Connection request) (w_tables w)"
      using load Inr LoadLastState_Inr by (auto simp: mapErrA_Inr)
    show ?thesis
    proof (cases "targetWindowDetermine (target_request request now state)")
      case (Inl e)
      with run load Inr clock have "\<exists>e'. r = Inl e'" "w' = w2"
        unfolding orchestrate_unfold bindA_run [of ?load]
        by (auto simp: bindA_run mapErrA_run liftA_run target_request_def)
      with t2 planning show ?thesis by auto
    next
      case target: (Inr target)
      show ?thesis
      proof (cases "chunkSplit target")
        case (Inl e)
        with run load Inr clock target have "\<exists>e'. r = Inl e'" "w' = w2"
          unfolding orchestrate_unfold bindA_run [of ?load]
          by (auto simp: bindA_run mapErrA_run liftA_run target_request_def)
        with t2 planning show ?thesis by auto
      next
        case windows: (Inr windows)
        have "executeWindows (databaseOrchestrator ids ct) request windows
           \<lparr>ors_TargetWindow = target, ors_ExecutedWindows = [], ors_WindowResults = [],
            ors_Stats = zero_stats, ors_Issues = []\<rparr> w2 = (r, w')"
          using run load Inr clock target windows
          unfolding orchestrate_unfold bindA_run [of ?load]
          by (simp add: bindA_run mapErrA_run liftA_run target_request_def)
        from executing [OF state target windows _ this] t2 show ?thesis by simp
      qed
    qed
  qed
qed

text \<open>
  C16. A sync executes its windows oldest first, one after the other, and the journal is
  the record of it. When it succeeds, the executed windows run from the start of the
  target to its end without gap or overlap, there is one result and one success row per
  window in that order, and the returned statistics and issues are those of all windows;
  when it fails after planning, the journal has the success rows of a prefix of the planned
  windows and at most one failed row, for the window that failed.
\<close>

theorem orchestrate_journals_its_windows:
  "case Orchestrate (databaseOrchestrator ids ct) request w of
     (Inr result, w') \<Rightarrow>
       contiguous (win_Start (ors_TargetWindow result)) (ors_ExecutedWindows result)
         (win_End (ors_TargetWindow result)) \<and>
       length (ors_WindowResults result) = length (ors_ExecutedWindows result) \<and>
       ors_Stats result = foldl mergeProviderSyncStats zero_stats (map res_Stats (ors_WindowResults result)) \<and>
       ors_Issues result = concat (map res_Issues (ors_WindowResults result)) \<and>
       (\<exists>rows. db_journal w' = db_journal w @ rows \<and>
          list_all2 (success_row db_entry request) (ors_ExecutedWindows result) rows)
   | (Inl e, w') \<Rightarrow>
       db_journal w' = db_journal w \<or>
       (\<exists>target windows rows. chunkSplit target = Inr windows \<and>
          db_journal w' = db_journal w @ rows \<and> run_rows db_entry request windows False rows)"
proof (cases "Orchestrate (databaseOrchestrator ids ct) request w")
  case (Pair r w')
  from Pair show ?thesis
  proof (cases rule: orchestrate_cases)
    case (executing state now target windows u)
    from db_run.executeWindows_trace [OF executing(5)] executing(4) obtain rows where
      rows: "db_journal w' = db_journal w @ rows" "run_rows db_entry request windows (\<exists>x. r = Inr x) rows" by auto
    show ?thesis
    proof (cases r)
      case (Inl e)
      with rows executing(3) Pair show ?thesis by auto
    next
      case (Inr result)
      from db_run.executeWindows_result [OF executing(5) [unfolded Inr]] chunkSplit_Inr(2) [OF executing(3)]
        rows Inr Pair show ?thesis by (auto simp: run_rows_def)
    qed
  qed (simp add: Pair)
qed

section \<open>No instant is skipped\<close>

definition row_checkpoint :: "providerSyncStateJournalModel \<Rightarrow> time" where
  "row_checkpoint j = (if jm_SucceededAt j \<noteq> None then jm_WindowEnd j else jm_WindowStart j)"

definition covered :: "SyncOrchestrationRequest \<Rightarrow> providerSyncStateJournalModel list \<Rightarrow> time \<Rightarrow> bool" where
  "covered request rows t \<longleftrightarrow>
     (\<exists>j \<in> set rows. \<exists>window. success_row db_entry request window j \<and> in_window t window)"

lemma db_entry_fields:
  "db_entry st j \<Longrightarrow> jm_SucceededAt j = st_SucceededAt st \<and> jm_WindowStart j = win_Start (st_Window st) \<and>
     jm_WindowEnd j = win_End (st_Window st)"
  by (auto simp: db_entry_def newProviderSyncStateJournalModel_def)
     (metis providerSyncStateJournalModel.select_convs)+

lemma success_row_checkpoint: "success_row db_entry request win j \<Longrightarrow> row_checkpoint j = win_End win"
  by (auto simp: success_row_def row_checkpoint_def dest: db_entry_fields)

lemma failed_row_checkpoint: "failed_row db_entry request win j \<Longrightarrow> row_checkpoint j = win_Start win"
  by (auto simp: failed_row_def row_checkpoint_def dest: db_entry_fields)

lemma contiguous_last: "contiguous s ws e \<Longrightarrow> ws \<noteq> [] \<Longrightarrow> win_End (last ws) = e"
  by (induction ws arbitrary: s) auto

lemma success_rows_cover:
  assumes "list_all2 (success_row db_entry request) ws rows" and "contiguous s ws e"
    and "s \<le> t" and "t < e"
  shows "covered request rows t"
proof -
  have "filter (in_window t) ws \<noteq> []" using contiguous_once [OF assms(2-4)] by auto
  then obtain win where win: "win \<in> set ws" "in_window t win" by (auto simp: filter_empty_conv)
  then obtain i where i: "i < length ws" "ws ! i = win" by (auto simp: in_set_conv_nth)
  with assms(1) have "success_row db_entry request win (rows ! i)" "i < length rows"
    by (auto simp: list_all2_conv_all_nth)
  with win(2) show ?thesis unfolding covered_def by (meson nth_mem)
qed

lemma run_rows_checkpoint:
  assumes "run_rows db_entry request windows b rows" and "contiguous s windows e" and "rows \<noteq> []"
    and "s \<le> t" and "t < row_checkpoint (last rows)"
  shows "covered request rows t"
proof (cases b)
  case True
  with assms have all: "list_all2 (success_row db_entry request) windows rows" by (simp add: run_rows_def)
  with assms(3) have ne: "windows \<noteq> []" by auto
  with all have "success_row db_entry request (last windows) (last rows)"
    using list_all2_nthD [OF all, of "length windows - 1"] assms(3)
    by (simp add: last_conv_nth list_all2_lengthD)
  with contiguous_last [OF assms(2) ne] have "row_checkpoint (last rows) = e"
    by (simp add: success_row_checkpoint)
  with success_rows_cover [OF all assms(2,4)] assms(5) show ?thesis by simp
next
  case False
  with assms(1) obtain ok failed rest ok_rows where ws: "windows = ok @ failed # rest"
    and all: "list_all2 (success_row db_entry request) ok ok_rows"
    and rows: "rows = ok_rows \<or> (\<exists>j. failed_row db_entry request failed j \<and> rows = ok_rows @ [j])"
    by (auto simp: run_rows_def)
  from assms(2) ws obtain m where m: "contiguous s ok m" "win_Start failed = m"
    by (auto simp: contiguous_append)
  have "row_checkpoint (last rows) = m"
  proof (cases "rows = ok_rows")
    case True
    with assms(3) all have "ok \<noteq> []" by auto
    with all True assms(3) have "success_row db_entry request (last ok) (last rows)"
      using list_all2_nthD [OF all, of "length ok - 1"] by (simp add: last_conv_nth list_all2_lengthD)
    with contiguous_last [OF m(1) \<open>ok \<noteq> []\<close>] show ?thesis by (simp add: success_row_checkpoint)
  next
    case False
    with rows m(2) show ?thesis by (auto simp: failed_row_checkpoint)
  qed
  with success_rows_cover [OF all m(1) assms(4)] assms(5) have "covered request ok_rows t" by simp
  then show ?thesis using rows by (auto simp: covered_def)
qed


definition example_request :: SyncOrchestrationRequest where
  "example_request = \<lparr>orq_Connection = example_ref,
     orq_Secret = \<lparr>sec_ID = ''s1'', sec_Provider = ''pko'', sec_Reference = ''r1'',
       sec_Envelope = \<lparr>env_KeyVersion = ''v1'', env_Algorithm = ''AES'', env_Nonce = ''n'', env_Ciphertext = ''c''\<rparr>,
       sec_CreatedAt = 1, sec_UpdatedAt = 1\<rparr>,
     orq_JobID = ''job1'', orq_Reason = ''manual'', orq_WindowStart = None, orq_WindowEnd = None\<rparr>"


section \<open>The journal is read back\<close>

lemma insort_key_snoc: "k x < k y \<Longrightarrow> insort_key k x (zs @ [y]) = insort_key k x zs @ [y]"
  by (induction zs) auto

lemma sort_key_snoc:
  fixes k :: "'a \<Rightarrow> 'k::linorder"
  shows "\<forall>x \<in> set xs. k x < k y \<Longrightarrow> sort_key k (xs @ [y]) = sort_key k xs @ [y]"
  by (induction xs) (simp_all add: insort_key_snoc)

lemma orderDesc_snoc:
  "\<forall>x \<in> set xs. k x < k y \<Longrightarrow> firstRow (orderDesc k (xs @ [y])) = Some y"
  by (simp add: orderDesc_def sort_key_snoc)



end
