(* ===== verification/TransferStore.thy ===== *)
theory TransferStore
  imports SyncInvariants
begin

text \<open>
  The stores of transfer pairs: \<^verbatim>\<open>finance/persistence/transfer_pair_store.go\<close> (the load of
  one matching attempt and the link and unlink of two transactions), and the reads of
  \<^verbatim>\<open>finance/persistence/transfer_candidate_store.go\<close>'s membership check that the access
  guard uses.
\<close>

section \<open>Loading the eligible transactions\<close>

record TransferMatchingTransaction =
  tmt_ID :: string
  tmt_AccountID :: string
  tmt_Currency :: string
  tmt_AmountMinor :: int64
  tmt_EffectiveAt :: time
  tmt_Description :: string
  tmt_ConnectionID :: "string option"
  tmt_ProviderID :: "string option"
  tmt_ConnectorID :: "string option"
  tmt_TrackedAccountIBAN :: "string option"
  tmt_ProviderOriginalAmountMinor :: "int64 option"
  tmt_ProviderOriginalCurrency :: "string option"
  tmt_SnapshotJSON :: "string option"

definition transferMatchingLoadExtension :: duration where
  "transferMatchingLoadExtension = 144 * hour"

text \<open>SQL's \<^verbatim>\<open>MIN\<close> over the strings of a group.\<close>

definition minText :: "string list \<Rightarrow> string option" where
  "minText xs = (case xs of [] \<Rightarrow> None | x # xs \<Rightarrow> Some (fold min xs x))"

text \<open>\<^verbatim>\<open>JOIN ... ON connections.id = ... WHERE connections.tenant_id = ?\<close>.\<close>

definition joinConnections :: "Tables \<Rightarrow> string \<Rightarrow> ('r \<Rightarrow> string) \<Rightarrow> 'r list \<Rightarrow> ('r \<times> bankConnectionModel) list" where
  "joinConnections t tenantID connectionID rows =
     concat (map (\<lambda>r. map (Pair r)
       (filter (\<lambda>c. bm_ID c = connectionID r \<and> bm_TenantID c = tenantID) (t_bankConnections t))) rows)"

text \<open>The connection a transaction comes from, when all its matches name one connection.\<close>

definition provenanceOf :: "Tables \<Rightarrow> string \<Rightarrow> string \<Rightarrow> (string \<times> string option \<times> string option) option" where
  "provenanceOf t tenantID transactionID =
     (let joined = joinConnections t tenantID mm_ConnectionID
            (filter (\<lambda>m. mm_TransactionID m = transactionID) (t_matches t));
          ids = map (mm_ConnectionID \<circ> fst) joined
      in if length (remdups ids) = 1
         then map_option (\<lambda>connectionID.
                (connectionID, minText (map (bm_Provider \<circ> snd) joined),
                 minText (map (bm_ConnectorID \<circ> snd) joined)))
              (minText ids)
         else None)"

definition trackedAccountIBANOf :: "Tables \<Rightarrow> string \<Rightarrow> string \<Rightarrow> string \<Rightarrow> string option" where
  "trackedAccountIBANOf t tenantID connectionID accountID =
     (let joined = joinConnections t tenantID pm_ConnectionID
            (filter (\<lambda>p. pm_ConnectionID p = connectionID \<and> pm_FinanceAccountID p = accountID)
              (t_providerAccounts t))
      in if length joined = 1 then minText (map (pm_IBAN \<circ> fst) joined) else None)"

definition snapshotJSONOf :: "Tables \<Rightarrow> string \<Rightarrow> string \<Rightarrow> string \<Rightarrow> string option" where
  "snapshotJSONOf t tenantID connectionID transactionID =
     (let joined = joinConnections t tenantID psm_ConnectionID
            (filter (\<lambda>s. psm_TenantID s = tenantID \<and> psm_Subject s = ProviderSnapshotSubjectTransaction \<and>
                 psm_Kind s = ProviderSnapshotKindTransaction \<and>
                 psm_FinanceTransactionID s = transactionID \<and> psm_ConnectionID s = connectionID)
              (t_providerSnapshots t))
      in if length joined = 1 then minText (map (psm_DocumentJSON \<circ> fst) joined) else None)"

definition eligibleTransaction :: "string \<Rightarrow> time \<Rightarrow> time \<Rightarrow> transactionModel \<Rightarrow> bool" where
  "eligibleTransaction tenantID loadStart loadEndExclusive row \<longleftrightarrow>
     tm_TenantID row = tenantID \<and>
     loadStart \<le> tm_EffectiveAt row \<and> tm_EffectiveAt row < loadEndExclusive \<and>
     tm_HiddenAt row = None \<and>
     tm_Status row = TransactionStatusBooked \<and>
     tm_Kind row \<in> {TransactionKindRegular, TransactionKindExpense, TransactionKindIncome,
       TransactionKindTransfer} \<and>
     tm_Source row \<noteq> TransactionSourceSystem \<and>
     tm_AmountMinor row \<noteq> 0 \<and>
     \<not> tm_TransferMatchingExcluded row \<and>
     tm_TransferGroupID row = None \<and> tm_TransferMatchedAt row = None"

definition matchingRow :: "Tables \<Rightarrow> string \<Rightarrow> transactionModel \<Rightarrow> TransferMatchingTransaction" where
  "matchingRow t tenantID row =
     (let provenance = provenanceOf t tenantID (tm_ID row);
          connectionID = map_option fst provenance
      in \<lparr>tmt_ID = tm_ID row,
          tmt_AccountID = tm_AccountID row,
          tmt_Currency = tm_Currency row,
          tmt_AmountMinor = tm_AmountMinor row,
          tmt_EffectiveAt = tm_EffectiveAt row,
          tmt_Description = tm_Description row,
          tmt_ConnectionID = connectionID,
          tmt_ProviderID = Option.bind provenance (fst \<circ> snd),
          tmt_ConnectorID = Option.bind provenance (snd \<circ> snd),
          tmt_TrackedAccountIBAN =
            Option.bind connectionID (\<lambda>c. trackedAccountIBANOf t tenantID c (tm_AccountID row)),
          tmt_ProviderOriginalAmountMinor = Option.bind connectionID (\<lambda>_. tm_OriginalAmountMinor row),
          tmt_ProviderOriginalCurrency = Option.bind connectionID (\<lambda>_. tm_OriginalCurrency row),
          tmt_SnapshotJSON = Option.bind connectionID (\<lambda>c. snapshotJSONOf t tenantID c (tm_ID row))\<rparr>)"

text \<open>One result row for every visible account of the tenant the transaction joins.\<close>

definition eligibleRows :: "Tables \<Rightarrow> string \<Rightarrow> time \<Rightarrow> time \<Rightarrow> TransferMatchingTransaction list" where
  "eligibleRows t tenantID loadStart loadEndExclusive =
     concat (map (\<lambda>row.
       map (\<lambda>_. matchingRow t tenantID row)
         (filter (\<lambda>a. am_ID a = tm_AccountID row \<and> am_TenantID a = tm_TenantID row \<and> am_HiddenAt a = None)
           (t_accounts t)))
       (filter (eligibleTransaction tenantID loadStart loadEndExclusive) (t_transactions t)))"

definition ListEligibleTransferMatchingTransactions ::
  "string \<Rightarrow> time \<Rightarrow> time \<Rightarrow> (World, TransferMatchingTransaction list) action" where
  "ListEligibleTransferMatchingTransactions tenantID rangeStart rangeEndExclusive =
     (let loadStart = rangeStart - transferMatchingLoadExtension;
          loadEndExclusive = rangeEndExclusive + transferMatchingLoadExtension
      in wrapA ''list eligible transfer matching transactions''
           (readSQL (\<lambda>t. eligibleRows t tenantID loadStart loadEndExclusive)))"

section \<open>Linking and unlinking a pair\<close>

record TransferPairLinkParams =
  tpl_TenantID :: string
  tpl_FirstTransactionID :: string
  tpl_SecondTransactionID :: string
  tpl_TransferGroupID :: string
  tpl_TransferMatchedAt :: time
  tpl_UpdatedAt :: time

record TransferPairUnlinkParams =
  tpu_TenantID :: string
  tpu_FirstTransactionID :: string
  tpu_SecondTransactionID :: string
  tpu_UpdatedAt :: time

text \<open>
  \<^verbatim>\<open>UPDATE ... SET updates WHERE tenant_id = ? AND id = ?\<close>, and the number of rows it
  affected.
\<close>

definition updateRowsSQL ::
  "(transactionModel \<Rightarrow> bool) \<Rightarrow> (transactionModel \<Rightarrow> transactionModel) \<Rightarrow> (World, nat) action" where
  "updateRowsSQL selects updates =
     execSQL (\<lambda>t. (Inr (length (filter selects (t_transactions t))),
       t\<lparr>t_transactions := map (\<lambda>row. if selects row then updates row else row) (t_transactions t)\<rparr>))"

definition updateTransferPairLeg ::
  "string \<Rightarrow> string \<Rightarrow> (transactionModel \<Rightarrow> transactionModel) \<Rightarrow> (World, unit) action" where
  "updateTransferPairLeg tenantID transactionID updates =
     bindA (wrapA ''update transfer pair leg''
              (updateRowsSQL (\<lambda>row. tm_TenantID row = tenantID \<and> tm_ID row = transactionID) updates))
       (\<lambda>rowsAffected.
          if rowsAffected \<noteq> 1 then failA (Sentinel ErrTransferPairTransactionNotFound) else returnA ())"

definition updatePair ::
  "string \<Rightarrow> string \<Rightarrow> string \<Rightarrow> (transactionModel \<Rightarrow> transactionModel) \<Rightarrow> (World, unit) action" where
  "updatePair tenantID firstTransactionID secondTransactionID updates =
     (if firstTransactionID = secondTransactionID
      then failA (Sentinel ErrTransferPairTransactionIDsMustDiffer)
      else transactionSQL
        (bindA (updateTransferPairLeg tenantID firstTransactionID updates) (\<lambda>_.
           updateTransferPairLeg tenantID secondTransactionID updates)))"

definition linkUpdates :: "TransferPairLinkParams \<Rightarrow> transactionModel \<Rightarrow> transactionModel" where
  "linkUpdates params row =
     row\<lparr>tm_Kind := TransactionKindTransfer,
         tm_TransferGroupID := Some (tpl_TransferGroupID params),
         tm_TransferMatchedAt := Some (tpl_TransferMatchedAt params),
         tm_UpdatedAt := tpl_UpdatedAt params\<rparr>"

definition LinkTransferPair :: "TransferPairLinkParams \<Rightarrow> (World, unit) action" where
  "LinkTransferPair params =
     wrapA ''link transfer pair''
       (updatePair (tpl_TenantID params) (tpl_FirstTransactionID params) (tpl_SecondTransactionID params)
         (linkUpdates params))"

definition unlinkUpdates :: "TransferPairUnlinkParams \<Rightarrow> transactionModel \<Rightarrow> transactionModel" where
  "unlinkUpdates params row =
     row\<lparr>tm_Kind := TransactionKindRegular,
         tm_TransferGroupID := None,
         tm_TransferMatchedAt := None,
         tm_TransferMatchingExcluded := True,
         tm_UpdatedAt := tpu_UpdatedAt params\<rparr>"

definition UnlinkTransferPair :: "TransferPairUnlinkParams \<Rightarrow> (World, unit) action" where
  "UnlinkTransferPair params =
     wrapA ''unlink transfer pair''
       (updatePair (tpu_TenantID params) (tpu_FirstTransactionID params) (tpu_SecondTransactionID params)
         (unlinkUpdates params))"

end
