(* ===== verification/LedgerStore.thy ===== *)
theory LedgerStore
  imports TransferStore
begin

text \<open>
  The stores behind the ledger: \<^verbatim>\<open>finance/persistence/transaction_tag_store.go\<close>
  (transactions together with their tags), the membership, account, category, tag and
  transaction reads of \<^verbatim>\<open>finance/persistence/core_store.go\<close>, the sums of
  \<^verbatim>\<open>account_balance_store.go\<close>, the cash-flow filter of
  \<^verbatim>\<open>transaction_cash_flow.go\<close> and the reads of \<^verbatim>\<open>transfer_candidate_store.go\<close>.
\<close>

section \<open>Memberships, accounts, categories, tags\<close>

definition IsTenantMember :: "string \<Rightarrow> string \<Rightarrow> (World, bool) action" where
  "IsTenantMember tenantID userID =
     bindA (wrapA ''check tenant membership''
       (readSQL (\<lambda>t. length (filter (\<lambda>m. mbm_TenantID m = tenantID \<and> mbm_UserID m = userID) (t_memberships t)))))
     (\<lambda>count. returnA (count > 0))"

definition ListAccounts :: "string \<Rightarrow> bool \<Rightarrow> (World, Account list) action" where
  "ListAccounts tenantID includeHidden =
     bindA (wrapA ''list accounts''
       (readSQL (\<lambda>t. orderAsc (\<lambda>a. (am_CreatedAt a, am_ID a))
          (filter (\<lambda>a. am_TenantID a = tenantID \<and> (includeHidden \<or> am_HiddenAt a = None)) (t_accounts t)))))
     (\<lambda>models. returnA (map accountFromModel models))"

definition GetCategory :: "string \<Rightarrow> (World, Category option) action" where
  "GetCategory categoryID =
     bindA (wrapA ''get category'' (readSQL (\<lambda>t. lookupRow cm_ID categoryID (t_categories t))))
     (\<lambda>found. case found of
        None \<Rightarrow> failA (Sentinel PersistenceErrCategoryNotFound)
      | Some model \<Rightarrow> returnA (Some (categoryFromModel model)))"

definition GetTag :: "string \<Rightarrow> (World, Tag option) action" where
  "GetTag tagID =
     bindA (wrapA ''get tag'' (readSQL (\<lambda>t. lookupRow gm_ID tagID (t_tags t))))
     (\<lambda>found. case found of
        None \<Rightarrow> failA (Sentinel PersistenceErrTagNotFound)
      | Some model \<Rightarrow> returnA (Some (tagFromModel model)))"

section \<open>Listing transactions\<close>

record ListTransactionsPage =
  ltp_Limit :: int64
  ltp_Offset :: int64
  ltp_Kind :: TransactionKind
  ltp_IncludeCashFlow :: CashFlowInclusion
  ltp_StartDate :: time
  ltp_EndDate :: time
  ltp_SortAscending :: bool

text \<open>A Go \<^verbatim>\<open>int\<close> has the 64 bits of \<^verbatim>\<open>int64\<close>: no value exceeds \<^verbatim>\<open>maxInt\<close>.\<close>

definition dbPageInt :: "int64 \<Rightarrow> int" where
  "dbPageInt v = (let maxInt = 2 ^ 63 - 1 in if sint v > maxInt then maxInt else sint v)"

definition flowKinds :: "TransactionKind set" where
  "flowKinds = {TransactionKindRegular, TransactionKindIncome, TransactionKindExpense, TransactionKindTransfer}"

text \<open>The \<^verbatim>\<open>CASE\<close> of the cash-flow filter.\<close>

definition cashFlowGroup :: "transactionModel \<Rightarrow> CashFlowInclusion" where
  "cashFlowGroup row =
     (if tm_Kind row = TransactionKindRefund then CashFlowInclusionExpense
      else if tm_Kind row = TransactionKindTransfer \<and> tm_Status row = TransactionStatusBooked \<and>
         (case tm_TransferMatchedAt row of None \<Rightarrow> False | Some matchedAt \<Rightarrow> matchedAt \<noteq> zero_time)
      then CashFlowInclusionOther ''neutral''
      else if tm_Kind row \<in> flowKinds \<and> sint (tm_AmountMinor row) > 0 then CashFlowInclusionIncome
      else if tm_Kind row \<in> flowKinds \<and> sint (tm_AmountMinor row) < 0 then CashFlowInclusionExpense
      else CashFlowInclusionOther ''neutral'')"

definition filterTransactionCashFlow :: "CashFlowInclusion \<Rightarrow> transactionModel \<Rightarrow> bool" where
  "filterTransactionCashFlow inclusion row =
     (if inclusion = CashFlowInclusionOther '''' \<or> inclusion = CashFlowInclusionBoth then True
      else
        (let groups = [CashFlowInclusionOther ''neutral''] @
               (if inclusion = CashFlowInclusionIncome \<or> inclusion = CashFlowInclusionExpense
                then [inclusion] else [])
         in cashFlowGroup row \<in> set groups))"

definition listOrder :: "transactionModel \<Rightarrow> time \<times> time \<times> string" where
  "listOrder row = (tm_EffectiveAt row, tm_CreatedAt row, tm_ID row)"

definition listFilter ::
  "string \<Rightarrow> string \<Rightarrow> TransactionSource \<Rightarrow> TransactionStatus \<Rightarrow> bool \<Rightarrow> ListTransactionsPage option \<Rightarrow>
   transactionModel \<Rightarrow> bool" where
  "listFilter tenantID accountID source status includeHidden page row \<longleftrightarrow>
     tm_TenantID row = tenantID \<and>
     (accountID = '''' \<or> tm_AccountID row = accountID) \<and>
     (source = TransactionSourceOther '''' \<or> tm_Source row = source) \<and>
     (status = TransactionStatusOther '''' \<or> tm_Status row = status) \<and>
     (includeHidden \<or> tm_HiddenAt row = None) \<and>
     (case page of
        None \<Rightarrow> True
      | Some p \<Rightarrow>
          (ltp_Kind p = TransactionKindOther '''' \<or> tm_Kind row = ltp_Kind p) \<and>
          (IsZero (ltp_StartDate p) \<or> ltp_StartDate p \<le> tm_EffectiveAt row) \<and>
          (IsZero (ltp_EndDate p) \<or> tm_EffectiveAt row < ltp_EndDate p) \<and>
          filterTransactionCashFlow (ltp_IncludeCashFlow p) row)"

text \<open>\<^verbatim>\<open>ORDER BY\<close>, then \<^verbatim>\<open>OFFSET\<close>, then \<^verbatim>\<open>LIMIT\<close>.\<close>

definition listRows ::
  "string \<Rightarrow> string \<Rightarrow> TransactionSource \<Rightarrow> TransactionStatus \<Rightarrow> bool \<Rightarrow> ListTransactionsPage option \<Rightarrow>
   transactionModel list \<Rightarrow> transactionModel list" where
  "listRows tenantID accountID source status includeHidden page rows =
     (let selected = filter (listFilter tenantID accountID source status includeHidden page) rows
      in case page of
           None \<Rightarrow> orderDesc listOrder selected
         | Some p \<Rightarrow>
             (let ordered = (if ltp_SortAscending p then orderAsc listOrder selected
                             else orderDesc listOrder selected);
                  skipped = (if sint (ltp_Offset p) > 0 then drop (nat (dbPageInt (ltp_Offset p))) ordered
                             else ordered)
              in if sint (ltp_Limit p) > 0 then take (nat (dbPageInt (ltp_Limit p))) skipped else skipped))"

definition StoreListTransactions ::
  "string \<Rightarrow> string \<Rightarrow> TransactionSource \<Rightarrow> TransactionStatus \<Rightarrow> bool \<Rightarrow> ListTransactionsPage option \<Rightarrow>
   (World, Transaction list) action" where
  "StoreListTransactions tenantID accountID source status includeHidden page =
     bindA (wrapA ''list transactions''
       (readSQL (\<lambda>t. listRows tenantID accountID source status includeHidden page (t_transactions t))))
     (\<lambda>models. returnA (map transactionFromModel models))"

section \<open>Balances\<close>

record ListAccountBalancesParams =
  lab_TenantID :: string
  lab_AccountIDs :: "string list option"
  lab_EffectiveAtOnOrBefore :: "time option"
  lab_EffectiveAtBefore :: "time option"

text \<open>
  The database sums without a bound; reading a sum into an \<^verbatim>\<open>int64\<close> fails when it does not
  fit.
\<close>

definition scanInt64 :: "int \<Rightarrow> go_error + int64" where
  "scanInt64 v =
     (if - (2 ^ 63) \<le> v \<and> v < 2 ^ 63 then Inr (word_of_int v) else Inl (Sentinel DatabaseValueOutOfRange))"

definition sumMinor :: "transactionModel list \<Rightarrow> int" where
  "sumMinor rows = sum_list (map (\<lambda>r. sint (tm_AmountMinor r)) rows)"

definition balanceFilter :: "ListAccountBalancesParams \<Rightarrow> transactionModel \<Rightarrow> bool" where
  "balanceFilter params row \<longleftrightarrow>
     tm_TenantID row = lab_TenantID params \<and> tm_HiddenAt row = None \<and>
     (case lab_EffectiveAtOnOrBefore params of None \<Rightarrow> True | Some t \<Rightarrow> tm_EffectiveAt row \<le> t) \<and>
     (case lab_EffectiveAtBefore params of None \<Rightarrow> True | Some t \<Rightarrow> tm_EffectiveAt row < t) \<and>
     (case lab_AccountIDs params of None \<Rightarrow> True | Some ids \<Rightarrow> tm_AccountID row \<in> set ids)"

definition balanceRow :: "transactionModel list \<Rightarrow> string \<Rightarrow> go_error + AccountBalance" where
  "balanceRow rows accountID =
     (let own = filter (\<lambda>r. tm_AccountID r = accountID) rows
      in case scanInt64 (sumMinor (filter (\<lambda>r. tm_Status r = TransactionStatusBooked) own)) of
           Inl e \<Rightarrow> Inl e
         | Inr booked \<Rightarrow>
             (case scanInt64 (sumMinor (filter (\<lambda>r. tm_Status r \<noteq> TransactionStatusBooked) own)) of
                Inl e \<Rightarrow> Inl e
              | Inr pending \<Rightarrow> Inr \<lparr>ab_AccountID = accountID, ab_BookedBalanceMinor = booked,
                  ab_PendingBalanceMinor = pending, ab_Currency = ''''\<rparr>))"

fun balanceRows :: "transactionModel list \<Rightarrow> string list \<Rightarrow> go_error + AccountBalance list" where
  "balanceRows rows [] = Inr []"
| "balanceRows rows (accountID # accountIDs) =
     (case balanceRow rows accountID of
        Inl e \<Rightarrow> Inl e
      | Inr balance \<Rightarrow>
          (case balanceRows rows accountIDs of Inl e \<Rightarrow> Inl e | Inr balances \<Rightarrow> Inr (balance # balances)))"

definition ListAccountBalances :: "ListAccountBalancesParams \<Rightarrow> (World, AccountBalance list) action" where
  "ListAccountBalances params =
     (if lab_AccountIDs params = Some [] then returnA []
      else
        bindA (wrapA ''list account balances'' (readSQL (\<lambda>t. filter (balanceFilter params) (t_transactions t)))) (\<lambda>rows.
          wrapA ''list account balances'' (resultA (balanceRows rows (sort (remdups (map tm_AccountID rows)))))))"

section \<open>Transactions with tags\<close>

definition tagRowKey :: "transactionTagModel \<Rightarrow> string \<times> string" where
  "tagRowKey row = (ttm_TransactionID row, ttm_TagID row)"

text \<open>The tags of each transaction, in the order of the tag ids.\<close>

definition hydrateTransactionTags :: "Transaction list \<Rightarrow> (World, Transaction list) action" where
  "hydrateTransactionTags transactions =
     (if transactions = [] then returnA transactions
      else
        (let transactionIDs = map tx_ID transactions
         in bindA (wrapA ''list transaction tags''
              (readSQL (\<lambda>t. orderAsc tagRowKey
                 (filter (\<lambda>r. ttm_TransactionID r \<in> set transactionIDs) (t_transactionTags t)))))
            (\<lambda>assignments. returnA (map (\<lambda>transaction. transaction\<lparr>tx_TagIDs :=
               map ttm_TagID (filter (\<lambda>r. ttm_TransactionID r = tx_ID transaction) assignments)\<rparr>) transactions))))"

fun normalizeTagLoop :: "string list \<Rightarrow> string list \<Rightarrow> string list \<Rightarrow> go_error + string list" where
  "normalizeTagLoop seen result [] = Inr (sort result)"
| "normalizeTagLoop seen result (tagID # tagIDs) =
     (let trimmed = TrimSpace tagID
      in if trimmed \<in> set seen then Inl (Sentinel PersistenceErrDuplicateTransactionTag)
         else normalizeTagLoop (trimmed # seen) (result @ [trimmed]) tagIDs)"

definition normalizedTransactionTagIDs :: "string list \<Rightarrow> go_error + string list" where
  "normalizedTransactionTagIDs tagIDs = normalizeTagLoop [] [] tagIDs"

definition validateTransactionTags :: "string \<Rightarrow> string list \<Rightarrow> (World, unit) action" where
  "validateTransactionTags tenantID tagIDs =
     (if tagIDs = [] then returnA ()
      else
        bindA (wrapA ''validate transaction tags''
          (readSQL (\<lambda>t. length (filter (\<lambda>g. gm_TenantID g = TrimSpace tenantID \<and> gm_HiddenAt g = None \<and>
             gm_ID g \<in> set tagIDs) (t_tags t)))))
        (\<lambda>count. if count \<noteq> length tagIDs then failA (Sentinel PersistenceErrTagNotFound) else returnA ()))"

definition clearTransactionTags :: "string \<Rightarrow> (World, unit) action" where
  "clearTransactionTags transactionID =
     changeSQL (\<lambda>t. Inr (t\<lparr>t_transactionTags :=
       filter (\<lambda>r. ttm_TransactionID r \<noteq> transactionID) (t_transactionTags t)\<rparr>))"

definition createTransactionTags :: "transactionTagModel list \<Rightarrow> (World, unit) action" where
  "createTransactionTags assignments =
     changeSQL (\<lambda>t.
       if \<not> distinct (map tagRowKey assignments) \<or>
          set (map tagRowKey assignments) \<inter> set (map tagRowKey (t_transactionTags t)) \<noteq> {}
       then Inl (Sentinel DatabaseUniqueViolation)
       else Inr (t\<lparr>t_transactionTags := t_transactionTags t @ assignments\<rparr>))"

definition TagStoreSaveTransaction :: "Transaction \<Rightarrow> (World, Transaction) action" where
  "TagStoreSaveTransaction transaction =
     bindA (resultA (normalizedTransactionTagIDs (tx_TagIDs transaction))) (\<lambda>tagIDs.
     bindA (wrapA ''save transaction with tags'' (transactionSQL
       (bindA (validateTransactionTags (tx_TenantID transaction) tagIDs) (\<lambda>_.
        bindA (wrapA ''save transaction record'' (saveTransactionModel (newTransactionModel transaction))) (\<lambda>model.
        bindA (wrapA ''clear transaction tags'' (clearTransactionTags (tx_ID transaction))) (\<lambda>_.
          if tagIDs = [] then returnA model
          else
            bindA (wrapA ''create transaction tags'' (createTransactionTags
              (map (\<lambda>tagID. \<lparr>ttm_TransactionID = tx_ID transaction, ttm_TagID = tagID\<rparr>) tagIDs)))
            (\<lambda>_. returnA model)))))))
     (\<lambda>model. returnA ((transactionFromModel model)\<lparr>tx_TagIDs := tagIDs\<rparr>)))"

definition TagStoreGetTransaction :: "string \<Rightarrow> (World, Transaction) action" where
  "TagStoreGetTransaction transactionID =
     bindA (wrapA ''get transaction'' (readSQL (\<lambda>t. lookupRow tm_ID (TrimSpace transactionID) (t_transactions t))))
     (\<lambda>found. case found of
        None \<Rightarrow> failA (Sentinel PersistenceErrTransactionNotFound)
      | Some model \<Rightarrow>
          bindA (hydrateTransactionTags [transactionFromModel model]) (\<lambda>transactions. returnA (transactions ! 0)))"

definition TagStoreListTransactions ::
  "string \<Rightarrow> string \<Rightarrow> TransactionSource \<Rightarrow> TransactionStatus \<Rightarrow> bool \<Rightarrow> ListTransactionsPage option \<Rightarrow>
   (World, Transaction list) action" where
  "TagStoreListTransactions tenantID accountID source status includeHidden page =
     bindA (wrapA ''list transactions''
       (readSQL (\<lambda>t. listRows (TrimSpace tenantID) accountID source status includeHidden page (t_transactions t))))
     (\<lambda>models. hydrateTransactionTags (map transactionFromModel models))"

section \<open>Reads of the transfer detail\<close>

definition CandidateStoreGetTransaction :: "string \<Rightarrow> (World, Transaction) action" where
  "CandidateStoreGetTransaction transactionID =
     bindA (wrapA ''get transfer transaction''
       (readSQL (\<lambda>t. lookupRow tm_ID (TrimSpace transactionID) (t_transactions t))))
     (\<lambda>found. case found of
        None \<Rightarrow> failA (Sentinel PersistenceErrTransactionNotFound)
      | Some model \<Rightarrow>
          bindA (wrapA ''hydrate transfer transaction tags'' (hydrateTransactionTags [transactionFromModel model]))
            (\<lambda>transactions. returnA (transactions ! 0)))"

definition transferTransactionsFromModels :: "transactionModel list \<Rightarrow> (World, Transaction list) action" where
  "transferTransactionsFromModels models =
     wrapA ''hydrate transfer transaction tags'' (hydrateTransactionTags (map transactionFromModel models))"

definition ListCandidates ::
  "string \<Rightarrow> string \<Rightarrow> string \<Rightarrow> time \<Rightarrow> time \<Rightarrow> int64 \<Rightarrow> int64 \<Rightarrow> (World, Transaction list) action" where
  "ListCandidates tenantID sourceTransactionID sourceAccountID effectiveFrom effectiveBefore limit offset =
     bindA (wrapA ''list transfer candidates'' (readSQL (\<lambda>t.
       let ordered = orderDesc listOrder (filter (\<lambda>row.
             tm_TenantID row = TrimSpace tenantID \<and> tm_ID row \<noteq> TrimSpace sourceTransactionID \<and>
             tm_AccountID row \<noteq> TrimSpace sourceAccountID \<and> tm_HiddenAt row = None \<and>
             effectiveFrom \<le> tm_EffectiveAt row \<and> tm_EffectiveAt row < effectiveBefore) (t_transactions t));
           skipped = (if sint offset > 0 then drop (nat (dbPageInt offset)) ordered else ordered)
       in take (nat (dbPageInt limit)) skipped)))
     transferTransactionsFromModels"

definition ListTransferGroupTransactions :: "string \<Rightarrow> string \<Rightarrow> (World, Transaction list) action" where
  "ListTransferGroupTransactions tenantID transferGroupID =
     bindA (wrapA ''list transfer-group transactions'' (readSQL (\<lambda>t.
       orderAsc tm_ID (filter (\<lambda>row. tm_TenantID row = TrimSpace tenantID \<and>
         tm_TransferGroupID row = Some (TrimSpace transferGroupID)) (t_transactions t)))))
     transferTransactionsFromModels"

end
