(* ===== verification/Ledger.thy ===== *)
theory Ledger
  imports LedgerStore
begin

text \<open>
  \<^verbatim>\<open>finance/service_ledger.go\<close>, \<^verbatim>\<open>service_ledger_contract.go\<close>, \<^verbatim>\<open>access_guard.go\<close>,
  \<^verbatim>\<open>timestamp.go\<close> and \<^verbatim>\<open>transfer_detail_service.go\<close>: the operations a user performs on a
  tenant's transactions, on the stores the process composes (transactions with their tags
  in the tag store, the rest in the core store, balances in the balance store).
\<close>

section \<open>Contract\<close>

definition DefaultTransactionListLimit :: int64 where "DefaultTransactionListLimit = 100"
definition MaxTransactionListLimit :: int64 where "MaxTransactionListLimit = 200"

definition NormalizeTransactionListLimit :: "int64 \<Rightarrow> go_error + int64" where
  "NormalizeTransactionListLimit limit =
     (if limit = 0 then Inr DefaultTransactionListLimit
      else if sint limit < 1 \<or> sint limit > sint MaxTransactionListLimit
      then Inl (Sentinel ErrInvalidTransactionListLimit)
      else Inr limit)"

fun NormalizeCashFlowInclusion :: "CashFlowInclusion \<Rightarrow> go_error + CashFlowInclusion" where
  "NormalizeCashFlowInclusion (CashFlowInclusionOther s) =
     (if s = '''' then Inr CashFlowInclusionBoth else Inl (Sentinel ErrInvalidCashFlowInclusion))"
| "NormalizeCashFlowInclusion inclusion = Inr inclusion"

record RecordTransactionParams =
  rtp_ActorUserID :: string
  rtp_TenantID :: string
  rtp_AccountID :: string
  rtp_Source :: TransactionSource
  rtp_Status :: TransactionStatus
  rtp_Kind :: TransactionKind
  rtp_AmountMinor :: int64
  rtp_Currency :: string
  rtp_Description :: string
  rtp_EffectiveAt :: time
  rtp_CategoryID :: string
  rtp_TagIDs :: "string list"
  rtp_TransferGroupID :: string
  rtp_ProviderOriginal :: "ProviderTransactionOriginal option"

record UpdateTransactionParams =
  utp_ActorUserID :: string
  utp_TenantID :: string
  utp_TransactionID :: string
  utp_Description :: string
  utp_AmountMinor :: int64
  utp_EffectiveAt :: "time option"
  utp_CategoryID :: string
  utp_ClearCategory :: bool
  utp_TagIDs :: "string list"

record TransactionRefParams =
  trp_ActorUserID :: string
  trp_TenantID :: string
  trp_TransactionID :: string

record TransferRefParams =
  lup_ActorUserID :: string
  lup_TenantID :: string
  lup_FirstTransactionID :: string
  lup_SecondTransactionID :: string

record ListTransactionsParams =
  lt_ActorUserID :: string
  lt_TenantID :: string
  lt_AccountID :: string
  lt_Source :: TransactionSource
  lt_Status :: TransactionStatus
  lt_Kind :: TransactionKind
  lt_IncludeCashFlow :: CashFlowInclusion
  lt_StartDate :: time
  lt_EndDate :: time
  lt_SortAscending :: bool
  lt_IncludeHidden :: bool
  lt_Limit :: int64
  lt_Offset :: int64

record SummarizeTransactionsParams =
  stp_ActorUserID :: string
  stp_TenantID :: string

definition bookedMatchedTransfer :: "Transaction \<Rightarrow> bool" where
  "bookedMatchedTransfer item =
     (if tx_HiddenAt item \<noteq> None \<or> tx_Status item \<noteq> TransactionStatusBooked \<or>
         tx_Kind item \<noteq> TransactionKindTransfer
      then False
      else if (case tx_TransferMatchedAt item of None \<Rightarrow> True | Some matchedAt \<Rightarrow> IsZero matchedAt)
      then False
      else tx_AmountMinor item \<noteq> 0)"

definition existingTransferGroupID :: "Transaction \<Rightarrow> Transaction \<Rightarrow> string" where
  "existingTransferGroupID firstTransaction secondTransaction =
     (let first = (case tx_TransferGroupID firstTransaction of None \<Rightarrow> '''' | Some i \<Rightarrow> TrimSpace i);
          second = (case tx_TransferGroupID secondTransaction of None \<Rightarrow> '''' | Some i \<Rightarrow> TrimSpace i)
      in if first \<noteq> '''' then first else second)"

section \<open>Access\<close>

definition requireTenantMember :: "string \<Rightarrow> string \<Rightarrow> (World, unit) action" where
  "requireTenantMember tenantID userID =
     bindA (wrapA ''check tenant membership'' (IsTenantMember tenantID userID)) (\<lambda>allowed.
       if \<not> allowed then failA (Sentinel ErrTenantAccessDenied) else returnA ())"

text \<open>\<^verbatim>\<open>if errors.Is(err, s) { return t }; return fmt.Errorf("msg: %w", err)\<close>.\<close>

definition translateError :: "sentinel \<Rightarrow> sentinel \<Rightarrow> string \<Rightarrow> go_error \<Rightarrow> go_error" where
  "translateError from to msg e = (if errors_is e from then Sentinel to else Wrap msg e)"

definition requireTenantAccount :: "string \<Rightarrow> string \<Rightarrow> string \<Rightarrow> (World, Account) action" where
  "requireTenantAccount tenantID userID accountID =
     bindA (requireTenantMember (TrimSpace tenantID) (TrimSpace userID)) (\<lambda>_.
     bindA (mapErrA (translateError PersistenceErrAccountNotFound ErrAccountNotFound ''get account'')
              (GetAccount (TrimSpace accountID))) (\<lambda>account.
       if acc_TenantID (the account) \<noteq> TrimSpace tenantID then failA (Sentinel ErrAccountNotFound)
       else returnA (the account)))"

definition requireTenantCategory :: "string \<Rightarrow> string \<Rightarrow> string \<Rightarrow> (World, Category) action" where
  "requireTenantCategory tenantID userID categoryID =
     bindA (requireTenantMember (TrimSpace tenantID) (TrimSpace userID)) (\<lambda>_.
     bindA (mapErrA (translateError PersistenceErrCategoryNotFound ErrCategoryNotFound ''get category'')
              (GetCategory (TrimSpace categoryID))) (\<lambda>category.
       if cat_TenantID (the category) \<noteq> TrimSpace tenantID then failA (Sentinel ErrCategoryNotFound)
       else returnA (the category)))"

definition requireTenantTransaction :: "string \<Rightarrow> string \<Rightarrow> string \<Rightarrow> (World, Transaction) action" where
  "requireTenantTransaction tenantID userID transactionID =
     bindA (requireTenantMember (TrimSpace tenantID) (TrimSpace userID)) (\<lambda>_.
     bindA (mapErrA (translateError PersistenceErrTransactionNotFound ErrTransactionNotFound ''get transaction'')
              (TagStoreGetTransaction (TrimSpace transactionID))) (\<lambda>txn.
       if tx_TenantID txn \<noteq> TrimSpace tenantID then failA (Sentinel ErrTransactionNotFound)
       else returnA txn))"

fun requireTagLoop ::
  "string \<Rightarrow> string list \<Rightarrow> string list \<Rightarrow> string list \<Rightarrow> (World, string list) action" where
  "requireTagLoop tenantID seen result [] = returnA (sort result)"
| "requireTagLoop tenantID seen result (tagID # tagIDs) =
     (let trimmed = TrimSpace tagID
      in if trimmed \<in> set seen then failA (Sentinel ErrDuplicateTagID)
         else
           bindA (mapErrA (translateError PersistenceErrTagNotFound ErrTagNotAssignable ''get tag'') (GetTag trimmed))
             (\<lambda>tag.
                if tag_TenantID (the tag) \<noteq> TrimSpace tenantID \<or> tag_HiddenAt (the tag) \<noteq> None
                then failA (Sentinel ErrTagNotAssignable)
                else requireTagLoop tenantID (trimmed # seen) (result @ [tag_ID (the tag)]) tagIDs))"

definition requireTenantTagIDs :: "string \<Rightarrow> string list \<Rightarrow> (World, string list) action" where
  "requireTenantTagIDs tenantID tagIDs = requireTagLoop tenantID [] [] tagIDs"

section \<open>Recording, updating, hiding\<close>

definition validateLedgerTimestamp :: "time \<Rightarrow> (World, unit) action" where
  "validateLedgerTimestamp v =
     (if IsZero v then failA (Errorf ''effectiveAt must be non-zero'') else returnA ())"

text \<open>The errors of saving with tags.\<close>

definition saveError :: "string \<Rightarrow> go_error \<Rightarrow> go_error" where
  "saveError msg e =
     (if errors_is e PersistenceErrTagNotFound \<or> errors_is e PersistenceErrDuplicateTransactionTag
      then Sentinel ErrTagNotAssignable else Wrap msg e)"

definition RecordTransaction :: "RecordTransactionParams \<Rightarrow> (World, Transaction) action" where
  "RecordTransaction params =
     bindA (validateLedgerTimestamp (rtp_EffectiveAt params)) (\<lambda>_.
     bindA (requireTenantAccount (rtp_TenantID params) (rtp_ActorUserID params) (rtp_AccountID params)) (\<lambda>account.
       if acc_HiddenAt account \<noteq> None then failA (Sentinel ErrHiddenAccount)
       else
         bindA (if TrimSpace (rtp_CategoryID params) = '''' then returnA None
                else bindA (requireTenantCategory (rtp_TenantID params) (rtp_ActorUserID params)
                              (TrimSpace (rtp_CategoryID params)))
                       (\<lambda>category. returnA (Some (cat_ID category)))) (\<lambda>categoryID.
         bindA (requireTenantTagIDs (rtp_TenantID params) (rtp_TagIDs params)) (\<lambda>tagIDs.
         bindA (liftA readClock) (\<lambda>now.
         bindA (liftA drawID) (\<lambda>newID.
           mapErrA (saveError ''record transaction'') (TagStoreSaveTransaction
             \<lparr>tx_ID = newID,
              tx_TenantID = acc_TenantID account,
              tx_AccountID = acc_ID account,
              tx_Source = rtp_Source params,
              tx_Status = rtp_Status params,
              tx_Kind = rtp_Kind params,
              tx_AmountMinor = rtp_AmountMinor params,
              tx_Currency = ToUpper (TrimSpace (rtp_Currency params)),
              tx_Description = TrimSpace (rtp_Description params),
              tx_EffectiveAt = rtp_EffectiveAt params,
              tx_CategoryID = categoryID,
              tx_TagIDs = tagIDs,
              tx_TransferGroupID =
                (if TrimSpace (rtp_TransferGroupID params) = '''' then None
                 else Some (TrimSpace (rtp_TransferGroupID params))),
              tx_TransferMatchedAt = None,
              tx_TransferMatchingExcluded = False,
              tx_HiddenAt = None,
              tx_CreatedAt = now,
              tx_UpdatedAt = now,
              tx_ProviderOriginal = rtp_ProviderOriginal params\<rparr>)))))))"

definition UpdateTransaction :: "UpdateTransactionParams \<Rightarrow> (World, Transaction) action" where
  "UpdateTransaction params =
     bindA (case utp_EffectiveAt params of None \<Rightarrow> returnA () | Some t \<Rightarrow> validateLedgerTimestamp t) (\<lambda>_.
     bindA (requireTenantTransaction (utp_TenantID params) (utp_ActorUserID params) (utp_TransactionID params)) (\<lambda>txn.
     bindA (if utp_ClearCategory params then returnA None
            else if utp_CategoryID params \<noteq> ''''
            then bindA (requireTenantCategory (utp_TenantID params) (utp_ActorUserID params) (utp_CategoryID params))
                   (\<lambda>category. returnA (Some (cat_ID category)))
            else returnA (tx_CategoryID txn)) (\<lambda>categoryID.
     bindA (requireTenantTagIDs (utp_TenantID params) (utp_TagIDs params)) (\<lambda>tagIDs.
     bindA (liftA readClock) (\<lambda>now.
       mapErrA (saveError ''update transaction'') (TagStoreSaveTransaction
         (txn\<lparr>tx_CategoryID := categoryID,
              tx_Description := TrimSpace (utp_Description params),
              tx_AmountMinor := utp_AmountMinor params,
              tx_TagIDs := tagIDs,
              tx_EffectiveAt := (case utp_EffectiveAt params of None \<Rightarrow> tx_EffectiveAt txn | Some t \<Rightarrow> t),
              tx_UpdatedAt := now\<rparr>)))))))"

definition LedgerGetTransaction :: "TransactionRefParams \<Rightarrow> (World, Transaction) action" where
  "LedgerGetTransaction params =
     requireTenantTransaction (trp_TenantID params) (trp_ActorUserID params) (trp_TransactionID params)"

definition HideTransaction :: "TransactionRefParams \<Rightarrow> (World, unit) action" where
  "HideTransaction params =
     bindA (requireTenantTransaction (trp_TenantID params) (trp_ActorUserID params) (trp_TransactionID params)) (\<lambda>txn.
     bindA (liftA readClock) (\<lambda>now.
     bindA (wrapA ''hide transaction'' (SaveTransaction (txn\<lparr>tx_HiddenAt := Some now, tx_UpdatedAt := now\<rparr>)))
       (\<lambda>_. returnA ())))"

section \<open>Transfers\<close>

definition validateTransferPair :: "Transaction \<Rightarrow> Transaction \<Rightarrow> go_error option" where
  "validateTransferPair firstTransaction secondTransaction =
     (if tx_ID firstTransaction = tx_ID secondTransaction \<or>
         tx_AccountID firstTransaction = tx_AccountID secondTransaction \<or>
         tx_Status firstTransaction \<noteq> TransactionStatusBooked \<or>
         tx_Status secondTransaction \<noteq> TransactionStatusBooked \<or>
         tx_AmountMinor firstTransaction = 0 \<or>
         tx_AmountMinor secondTransaction = 0 \<or>
         (sint (tx_AmountMinor firstTransaction) > 0) = (sint (tx_AmountMinor secondTransaction) > 0) \<or>
         tx_TransferGroupID firstTransaction \<noteq> None \<or>
         tx_TransferGroupID secondTransaction \<noteq> None \<or>
         tx_TransferMatchedAt firstTransaction \<noteq> None \<or>
         tx_TransferMatchedAt secondTransaction \<noteq> None
      then Some (Sentinel ErrInvalidTransferPair)
      else None)"

definition linkedTransferPair :: "Transaction \<Rightarrow> Transaction \<Rightarrow> bool" where
  "linkedTransferPair firstTransaction secondTransaction =
     (if tx_ID firstTransaction = tx_ID secondTransaction \<or>
         tx_Kind firstTransaction \<noteq> TransactionKindTransfer \<or>
         tx_Kind secondTransaction \<noteq> TransactionKindTransfer \<or>
         tx_TransferMatchedAt firstTransaction = None \<or>
         tx_TransferMatchedAt secondTransaction = None
      then False
      else
        (case (tx_TransferGroupID firstTransaction, tx_TransferGroupID secondTransaction) of
           (Some first, Some second) \<Rightarrow> first = second
         | _ \<Rightarrow> False))"

text \<open>Reading and checking the two legs, then the write; \<open>LinkTransfers\<close> is the two in a row.\<close>

definition checkTransferPair :: "TransferRefParams \<Rightarrow> (World, Transaction \<times> Transaction) action" where
  "checkTransferPair params =
     bindA (requireTenantTransaction (lup_TenantID params) (lup_ActorUserID params) (lup_FirstTransactionID params))
       (\<lambda>firstTransaction.
     bindA (requireTenantTransaction (lup_TenantID params) (lup_ActorUserID params) (lup_SecondTransactionID params))
       (\<lambda>secondTransaction.
       case validateTransferPair firstTransaction secondTransaction of
         Some e \<Rightarrow> failA e
       | None \<Rightarrow> returnA (firstTransaction, secondTransaction)))"

definition saveTransferPair :: "TransferRefParams \<Rightarrow> Transaction \<times> Transaction \<Rightarrow> (World, unit) action" where
  "saveTransferPair params pair =
     bindA (liftA drawID) (\<lambda>transferGroupID.
     bindA (liftA readClock) (\<lambda>now.
       wrapA ''link transfers'' (LinkTransferPair
         \<lparr>tpl_TenantID = lup_TenantID params,
          tpl_FirstTransactionID = tx_ID (fst pair),
          tpl_SecondTransactionID = tx_ID (snd pair),
          tpl_TransferGroupID = transferGroupID,
          tpl_TransferMatchedAt = now,
          tpl_UpdatedAt = now\<rparr>)))"

definition LinkTransfers :: "TransferRefParams \<Rightarrow> (World, unit) action" where
  "LinkTransfers params = bindA (checkTransferPair params) (saveTransferPair params)"

definition UnlinkTransfers :: "TransferRefParams \<Rightarrow> (World, unit) action" where
  "UnlinkTransfers params =
     bindA (requireTenantTransaction (lup_TenantID params) (lup_ActorUserID params) (lup_FirstTransactionID params))
       (\<lambda>firstTransaction.
     bindA (requireTenantTransaction (lup_TenantID params) (lup_ActorUserID params) (lup_SecondTransactionID params))
       (\<lambda>secondTransaction.
       if \<not> linkedTransferPair firstTransaction secondTransaction then failA (Sentinel ErrTransferNotLinked)
       else
         bindA (liftA readClock) (\<lambda>now.
           wrapA ''unlink transfers'' (UnlinkTransferPair
             \<lparr>tpu_TenantID = lup_TenantID params,
              tpu_FirstTransactionID = tx_ID firstTransaction,
              tpu_SecondTransactionID = tx_ID secondTransaction,
              tpu_UpdatedAt = now\<rparr>))))"

section \<open>Listing and summarizing\<close>

definition LedgerListTransactions :: "ListTransactionsParams \<Rightarrow> (World, Transaction list) action" where
  "LedgerListTransactions params =
     bindA (requireTenantMember (lt_TenantID params) (lt_ActorUserID params)) (\<lambda>_.
     bindA (wrapA ''list transactions'' (resultA (NormalizeCashFlowInclusion (lt_IncludeCashFlow params)))) (\<lambda>inclusion.
       wrapA ''list transactions'' (TagStoreListTransactions
         (TrimSpace (lt_TenantID params)) (TrimSpace (lt_AccountID params)) (lt_Source params) (lt_Status params)
         (lt_IncludeHidden params)
         (Some \<lparr>ltp_Limit = lt_Limit params, ltp_Offset = lt_Offset params, ltp_Kind = lt_Kind params,
            ltp_IncludeCashFlow = inclusion, ltp_StartDate = lt_StartDate params,
            ltp_EndDate = lt_EndDate params, ltp_SortAscending = lt_SortAscending params\<rparr>))))"

record AccountRefParams =
  arp_ActorUserID :: string
  arp_TenantID :: string
  arp_AccountID :: string

definition GetAccountBalance :: "AccountRefParams \<Rightarrow> (World, AccountBalance) action" where
  "GetAccountBalance params =
     bindA (requireTenantAccount (arp_TenantID params) (arp_ActorUserID params) (arp_AccountID params)) (\<lambda>account.
     bindA (wrapA ''get account balance'' (ListAccountBalances
              \<lparr>lab_TenantID = acc_TenantID account, lab_AccountIDs = Some [acc_ID account],
               lab_EffectiveAtOnOrBefore = None, lab_EffectiveAtBefore = None\<rparr>)) (\<lambda>items.
       returnA (case items of
           [] \<Rightarrow> \<lparr>ab_AccountID = acc_ID account, ab_BookedBalanceMinor = 0, ab_PendingBalanceMinor = 0,
              ab_Currency = acc_Currency account\<rparr>
         | item # _ \<Rightarrow> \<lparr>ab_AccountID = acc_ID account, ab_BookedBalanceMinor = ab_BookedBalanceMinor item,
              ab_PendingBalanceMinor = ab_PendingBalanceMinor item, ab_Currency = acc_Currency account\<rparr>)))"

definition transactionsForAccounts :: "Transaction list \<Rightarrow> Account list \<Rightarrow> Transaction list" where
  "transactionsForAccounts items accounts =
     filter (\<lambda>item. tx_AccountID item \<in> set (map acc_ID accounts)) items"

definition addFlow :: "int64 \<Rightarrow> TransactionSummary \<Rightarrow> TransactionSummary" where
  "addFlow amount summary =
     (if sint amount > 0 then summary\<lparr>IncomeMinor := IncomeMinor summary + amount\<rparr>
      else if sint amount < 0 then summary\<lparr>ExpenseMinor := ExpenseMinor summary + - amount\<rparr>
      else summary)"

definition summaryStep :: "TransactionSummary \<Rightarrow> Transaction \<Rightarrow> TransactionSummary" where
  "summaryStep summary item =
     (if tx_HiddenAt item \<noteq> None \<or> tx_Status item \<noteq> TransactionStatusBooked then summary
      else
        (case tx_Kind item of
           TransactionKindTransfer \<Rightarrow>
             if bookedMatchedTransfer item then summary else addFlow (tx_AmountMinor item) summary
         | TransactionKindReconciliation \<Rightarrow> summary
         | TransactionKindOpeningBalance \<Rightarrow> summary
         | TransactionKindRefund \<Rightarrow> summary\<lparr>ExpenseMinor := ExpenseMinor summary - tx_AmountMinor item\<rparr>
         | TransactionKindExpense \<Rightarrow> addFlow (tx_AmountMinor item) summary
         | TransactionKindIncome \<Rightarrow> addFlow (tx_AmountMinor item) summary
         | TransactionKindRegular \<Rightarrow> addFlow (tx_AmountMinor item) summary
         | TransactionKindOther _ \<Rightarrow> summary))"

definition summarizeBookedTransactions :: "Transaction list \<Rightarrow> TransactionSummary" where
  "summarizeBookedTransactions items =
     (let summary = foldl summaryStep \<lparr>IncomeMinor = 0, ExpenseMinor = 0, NetMinor = 0\<rparr> items
      in summary\<lparr>NetMinor := IncomeMinor summary - ExpenseMinor summary\<rparr>)"

definition SummarizeTransactions :: "SummarizeTransactionsParams \<Rightarrow> (World, TransactionSummary) action" where
  "SummarizeTransactions params =
     bindA (requireTenantMember (stp_TenantID params) (stp_ActorUserID params)) (\<lambda>_.
     bindA (wrapA ''summarize transactions'' (StoreListTransactions (TrimSpace (stp_TenantID params)) ''''
              (TransactionSourceOther '''') (TransactionStatusOther '''') False None)) (\<lambda>items.
     bindA (wrapA ''list active accounts for transaction summary''
              (ListAccounts (TrimSpace (stp_TenantID params)) False)) (\<lambda>accounts.
       returnA (summarizeBookedTransactions (transactionsForAccounts items accounts)))))"

section \<open>Reporting contribution\<close>

text \<open>\<^verbatim>\<open>reportingContribution\<close> of \<^verbatim>\<open>finance/reporting.go\<close>: income, expense, and whether it counts.\<close>

definition flowContribution :: "int64 \<Rightarrow> int64 \<times> int64 \<times> bool" where
  "flowContribution amount =
     (if sint amount > 0 then (amount, 0, True)
      else if sint amount < 0 then (0, - amount, True)
      else (0, 0, True))"

definition reportingContribution :: "Transaction \<Rightarrow> int64 \<times> int64 \<times> bool" where
  "reportingContribution transaction =
     (if tx_HiddenAt transaction \<noteq> None then (0, 0, False)
      else
        (case tx_Kind transaction of
           TransactionKindTransfer \<Rightarrow>
             if bookedMatchedTransfer transaction then (0, 0, False)
             else flowContribution (tx_AmountMinor transaction)
         | TransactionKindRefund \<Rightarrow> (0, - tx_AmountMinor transaction, True)
         | TransactionKindExpense \<Rightarrow> flowContribution (tx_AmountMinor transaction)
         | TransactionKindIncome \<Rightarrow> flowContribution (tx_AmountMinor transaction)
         | TransactionKindRegular \<Rightarrow> flowContribution (tx_AmountMinor transaction)
         | TransactionKindReconciliation \<Rightarrow> (0, 0, False)
         | TransactionKindOpeningBalance \<Rightarrow> (0, 0, False)
         | TransactionKindOther _ \<Rightarrow> (0, 0, False)))"

section \<open>Transfer detail\<close>

definition transferCandidateLimitMaximum :: int64 where "transferCandidateLimitMaximum = 200"

record ListTransferCandidatesParams =
  ltc_ActorUserID :: string
  ltc_TenantID :: string
  ltc_TransactionID :: string
  ltc_EffectiveFrom :: time
  ltc_EffectiveBefore :: time
  ltc_Limit :: int64
  ltc_Offset :: int64

definition validateTransferCandidateQuery :: "ListTransferCandidatesParams \<Rightarrow> go_error option" where
  "validateTransferCandidateQuery params =
     (let validRange = \<not> IsZero (ltc_EffectiveFrom params) \<and> \<not> IsZero (ltc_EffectiveBefore params) \<and>
            ltc_EffectiveFrom params < ltc_EffectiveBefore params;
          validPage = sint (ltc_Limit params) \<ge> 1 \<and>
            sint (ltc_Limit params) \<le> sint transferCandidateLimitMaximum \<and> sint (ltc_Offset params) \<ge> 0
      in if \<not> validRange \<or> \<not> validPage then Some (Sentinel ErrInvalidTransferCandidateQuery) else None)"

definition detailRequireTransaction :: "string \<Rightarrow> string \<Rightarrow> string \<Rightarrow> (World, Transaction) action" where
  "detailRequireTransaction tenantID userID transactionID =
     bindA (requireTenantMember (TrimSpace tenantID) (TrimSpace userID)) (\<lambda>_.
     bindA (mapErrA (translateError PersistenceErrTransactionNotFound ErrTransactionNotFound ''get transfer transaction'')
              (CandidateStoreGetTransaction (TrimSpace transactionID))) (\<lambda>transaction.
       if tx_TenantID transaction \<noteq> TrimSpace tenantID then failA (Sentinel ErrTransactionNotFound)
       else returnA transaction))"

definition ListTransferCandidates :: "ListTransferCandidatesParams \<Rightarrow> (World, Transaction list) action" where
  "ListTransferCandidates params =
     (case validateTransferCandidateQuery params of
        Some e \<Rightarrow> failA e
      | None \<Rightarrow>
          bindA (detailRequireTransaction (ltc_TenantID params) (ltc_ActorUserID params) (ltc_TransactionID params)) (\<lambda>source.
            wrapA ''list transfer candidates'' (ListCandidates (tx_TenantID source) (tx_ID source) (tx_AccountID source)
              (ltc_EffectiveFrom params) (ltc_EffectiveBefore params) (ltc_Limit params) (ltc_Offset params))))"

definition matchedTransferGroupID :: "Transaction \<Rightarrow> string option" where
  "matchedTransferGroupID transaction =
     (case (tx_TransferGroupID transaction, tx_TransferMatchedAt transaction) of
        (Some groupID, Some matchedAt) \<Rightarrow>
          if tx_Kind transaction \<noteq> TransactionKindTransfer \<or> IsZero matchedAt then None
          else if TrimSpace groupID = '''' then None else Some (TrimSpace groupID)
      | _ \<Rightarrow> None)"

definition GetTransferPartner :: "TransactionRefParams \<Rightarrow> (World, Transaction) action" where
  "GetTransferPartner params =
     bindA (detailRequireTransaction (trp_TenantID params) (trp_ActorUserID params) (trp_TransactionID params)) (\<lambda>source.
       case matchedTransferGroupID source of
         None \<Rightarrow> failA (Sentinel ErrTransferPartnerNotFound)
       | Some groupID \<Rightarrow>
           bindA (wrapA ''list transfer partner'' (ListTransferGroupTransactions (tx_TenantID source) groupID)) (\<lambda>items.
             let partners = filter (\<lambda>item. tx_ID item \<noteq> tx_ID source) items
             in if length partners = 0 then failA (Sentinel ErrTransferPartnerNotFound)
                else if length partners \<noteq> 1 then failA (Sentinel ErrInvalidTransferPartner)
                else if matchedTransferGroupID (partners ! 0) \<noteq> Some groupID
                then failA (Sentinel ErrInvalidTransferPartner)
                else returnA (partners ! 0)))"

end
