(* ===== verification/FxEvidence.thy ===== *)
theory FxEvidence
  imports Domain
begin

text \<open>
  \<^verbatim>\<open>finance/fx_evidence.go\<close>: the FX reference an exchange leaves in the description of
  its two transactions, the normal form of its rate, and the check that two amounts are
  the two sides of such an exchange. The parser is written over the description and a
  byte cursor, as in the source; a consumer that succeeds returns the moved cursor.

  \<^verbatim>\<open>golang.org/x/text/currency\<close> is not part of the repository: what the code asks of it
  is the record \<open>currency_library\<close>, an argument of every definition that uses it.
  \<^verbatim>\<open>math/big\<close> integers are HOL integers.
\<close>

section \<open>What is used of the currency library\<close>

record 'u currency_library =
  cur_ParseISO :: "string \<Rightarrow> 'u option"
  cur_XXX :: 'u
  cur_StandardRounding :: "'u \<Rightarrow> int"

definition parseCurrency :: "'u currency_library \<Rightarrow> string \<Rightarrow> 'u option" where
  "parseCurrency lib code =
     (case cur_ParseISO lib code of
        None \<Rightarrow> None
      | Some unit \<Rightarrow> if unit = cur_XXX lib then None else Some unit)"

definition isRecognizedCurrency :: "'u currency_library \<Rightarrow> string \<Rightarrow> bool" where
  "isRecognizedCurrency lib code = (parseCurrency lib code \<noteq> None)"

section \<open>Consuming a description\<close>

definition fxDecimalRadix :: int where "fxDecimalRadix = 10"
definition fxConcatenatedRateFractionDigits :: nat where "fxConcatenatedRateFractionDigits = 4"
definition fxLocalizedAmountGroupSize :: nat where "fxLocalizedAmountGroupSize = 3"

record fxEvidence =
  fx_namespace :: string
  fx_reference :: string
  fx_baseCurrency :: string
  fx_quoteCurrency :: string
  fx_rateCoefficient :: string
  fx_rateScale :: int

definition is_digit :: "char \<Rightarrow> bool" where
  "is_digit c \<longleftrightarrow> CHR ''0'' \<le> c \<and> c \<le> CHR ''9''"

text \<open>\<^verbatim>\<open>description[a:b]\<close>.\<close>

definition slice :: "string \<Rightarrow> nat \<Rightarrow> nat \<Rightarrow> string" where
  "slice description a b = take (b - a) (drop a description)"

definition consumeFXLiteral :: "string \<Rightarrow> nat \<Rightarrow> string \<Rightarrow> nat option" where
  "consumeFXLiteral description cursor literal =
     (if hasPrefix (drop cursor description) literal then Some (cursor + length literal) else None)"

definition digits_end :: "string \<Rightarrow> nat \<Rightarrow> nat" where
  "digits_end description cursor =
     cursor + length (takeWhile is_digit (drop cursor description))"

definition consumeFXDigits :: "string \<Rightarrow> nat \<Rightarrow> (string \<times> nat) option" where
  "consumeFXDigits description cursor =
     (let cursor' = digits_end description cursor
      in if cursor' > cursor then Some (slice description cursor cursor', cursor') else None)"

definition consumeFXCurrency :: "string \<Rightarrow> nat \<Rightarrow> (string \<times> nat) option" where
  "consumeFXCurrency description cursor =
     (if cursor + 3 > length description then None
      else let code = slice description cursor (cursor + 3)
           in if list_all (\<lambda>c. CHR ''A'' \<le> c \<and> c \<le> CHR ''Z'') code
              then Some (code, cursor + length code) else None)"

definition consumeFXCurrencyLiteral :: "string \<Rightarrow> nat \<Rightarrow> string \<Rightarrow> nat option" where
  "consumeFXCurrencyLiteral description cursor currency = consumeFXLiteral description cursor currency"

text \<open>The rate, whether amounts follow it, and the cursor behind it.\<close>

definition consumeFXRate :: "string \<Rightarrow> nat \<Rightarrow> (string \<times> bool \<times> nat) option" where
  "consumeFXRate description start =
     (case consumeFXDigits description start of
        None \<Rightarrow> None
      | Some (_, cursor) \<Rightarrow>
          if cursor = length description then Some (slice description start cursor, False, cursor)
          else if description ! cursor \<noteq> CHR ''.'' \<and> description ! cursor \<noteq> CHR '','' then None
          else
            (let fractionStart = cursor + 1
             in case consumeFXDigits description fractionStart of
                  None \<Rightarrow> None
                | Some (_, cursor) \<Rightarrow>
                    if cursor = length description
                    then Some (slice description start cursor, False, cursor)
                    else if fractionStart + fxConcatenatedRateFractionDigits \<ge> length description \<or>
                            \<not> is_digit (description ! (fractionStart + fxConcatenatedRateFractionDigits))
                    then None
                    else let cursor = fractionStart + fxConcatenatedRateFractionDigits
                         in Some (slice description start cursor, True, cursor)))"

text \<open>The no-break space U+00A0 in UTF-8, which groups the digits of an amount.\<close>

definition no_break_space :: string where
  "no_break_space = map char_of_byte [194, 160]"

function consumeFXGroups :: "string \<Rightarrow> nat \<Rightarrow> nat option" where
  "consumeFXGroups description cursor =
     (if hasPrefix (drop cursor description) no_break_space
      then (let groupStart = cursor + length no_break_space
            in case consumeFXDigits description groupStart of
                 None \<Rightarrow> None
               | Some (_, cursor') \<Rightarrow>
                   if cursor' - groupStart \<noteq> fxLocalizedAmountGroupSize then None
                   else consumeFXGroups description cursor')
      else Some cursor)"
  by pat_completeness auto
termination
proof (relation "measure (\<lambda>(description, cursor). length description - cursor)")
  show "wf (measure (\<lambda>(description :: string, cursor). length description - cursor))" by simp
next
  fix description :: string and cursor groupStart p digits cursor'
  assume prefix: "hasPrefix (drop cursor description) no_break_space"
    and "groupStart = cursor + length no_break_space"
    and "consumeFXDigits description groupStart = Some p" "(digits, cursor') = p"
  then have "cursor < cursor'"
    by (auto simp: consumeFXDigits_def Let_def split: if_splits)
  moreover have "drop cursor description \<noteq> []"
    using prefix by (auto simp: no_break_space_def hasPrefix_def)
  then have "cursor < length description" by simp
  ultimately show "((description, cursor'), description, cursor)
      \<in> measure (\<lambda>(description, cursor). length description - cursor)"
    by simp
qed

declare consumeFXGroups.simps [simp del]

definition consumeFXLocalizedAmount :: "string \<Rightarrow> nat \<Rightarrow> bool \<Rightarrow> nat option" where
  "consumeFXLocalizedAmount description cursor0 isSigned =
     (case if isSigned then consumeFXLiteral description cursor0 ''-'' else Some cursor0 of
        None \<Rightarrow> None
      | Some start \<Rightarrow>
          (case consumeFXDigits description start of
             None \<Rightarrow> None
           | Some (_, cursor) \<Rightarrow>
               if cursor - start > fxLocalizedAmountGroupSize then None
               else
                 (case consumeFXGroups description cursor of
                    None \<Rightarrow> None
                  | Some cursor \<Rightarrow>
                      (case consumeFXLiteral description cursor '','' of
                         None \<Rightarrow> None
                       | Some fractionStart \<Rightarrow>
                           (case consumeFXDigits description fractionStart of
                              None \<Rightarrow> None
                            | Some (_, cursor) \<Rightarrow>
                                if cursor - fractionStart = 2 then Some cursor else None)))))"

section \<open>The normal form of a rate\<close>

text \<open>\<^verbatim>\<open>strings.Cut\<close> at a one-byte separator.\<close>

definition stringsCut :: "string \<Rightarrow> char \<Rightarrow> string \<times> string \<times> bool" where
  "stringsCut s sep =
     (if sep \<in> set s
      then (takeWhile (\<lambda>c. c \<noteq> sep) s, tl (dropWhile (\<lambda>c. c \<noteq> sep) s), True)
      else (s, '''', False))"

text \<open>
  What a call can do: \<^verbatim>\<open>coefficient[len(coefficient)-1]\<close> panics on an empty string, and
  a call that does not panic returns its value with \<^verbatim>\<open>true\<close> or rejects with \<^verbatim>\<open>false\<close>.
\<close>

datatype 'a attempt = Panic | Rejected | Accepted 'a

fun dropTrailingZeros :: "string \<Rightarrow> nat \<Rightarrow> (string \<times> nat) attempt" where
  "dropTrailingZeros coefficient 0 = Accepted (coefficient, 0)"
| "dropTrailingZeros coefficient (Suc scale) =
     (if coefficient = '''' then Panic
      else if last coefficient = CHR ''0'' then dropTrailingZeros (butlast coefficient) scale
      else Accepted (coefficient, Suc scale))"

definition normalizeFXRate :: "string \<Rightarrow> (string \<times> int) attempt" where
  "normalizeFXRate rate =
     (let (integerPart, fractionalPart) =
        (case stringsCut rate (CHR ''.'') of
           (integerPart, fractionalPart, hasDecimal) \<Rightarrow>
             if \<not> hasDecimal
             then (case stringsCut integerPart (CHR '','') of (integerPart, fractionalPart, _) \<Rightarrow>
                     (integerPart, fractionalPart))
             else (integerPart, fractionalPart))
      in if list_ex (\<lambda>c. c = CHR ''.'' \<or> c = CHR '','') integerPart \<or>
            list_ex (\<lambda>c. c = CHR ''.'' \<or> c = CHR '','') fractionalPart
         then Rejected
         else
           (let coefficient = dropWhile (\<lambda>c. c = CHR ''0'') (integerPart @ fractionalPart)
            in if coefficient = '''' then Rejected
               else (case dropTrailingZeros coefficient (length fractionalPart) of
                       Panic \<Rightarrow> Panic
                     | Rejected \<Rightarrow> Rejected
                     | Accepted (coefficient, scale) \<Rightarrow> Accepted (coefficient, int scale))))"

text \<open>The two localised amounts that may follow the rate.\<close>

definition consumeFXAmounts :: "string \<Rightarrow> nat \<Rightarrow> string \<Rightarrow> string \<Rightarrow> nat option" where
  "consumeFXAmounts description cursor baseCurrency quoteCurrency =
     Option.bind (consumeFXLocalizedAmount description cursor False) (\<lambda>cursor.
     Option.bind (consumeFXLiteral description cursor '' '') (\<lambda>cursor.
     Option.bind (consumeFXCurrencyLiteral description cursor baseCurrency) (\<lambda>cursor.
     Option.bind (consumeFXLiteral description cursor '' '') (\<lambda>cursor.
     Option.bind (consumeFXLocalizedAmount description cursor True) (\<lambda>cursor.
     Option.bind (consumeFXLiteral description cursor '' '') (\<lambda>cursor.
     consumeFXCurrencyLiteral description cursor quoteCurrency))))))"

text \<open>The reference, the two currencies and the cursor behind them.\<close>

definition consumeFXHeader ::
  "'u currency_library \<Rightarrow> string \<Rightarrow> (string \<times> string \<times> string \<times> nat) option" where
  "consumeFXHeader lib description =
     Option.bind (consumeFXLiteral description 0 ''FX'') (\<lambda>cursor.
     Option.bind (consumeFXDigits description cursor) (\<lambda>(reference, cursor).
     Option.bind (consumeFXLiteral description cursor '' '') (\<lambda>cursor.
     Option.bind (consumeFXCurrency description cursor) (\<lambda>(baseCurrency, cursor).
     Option.bind (consumeFXLiteral description cursor ''/'') (\<lambda>cursor.
     Option.bind (consumeFXCurrency description cursor) (\<lambda>(quoteCurrency, cursor).
     Option.bind (consumeFXLiteral description cursor '' '') (\<lambda>cursor.
       if baseCurrency = quoteCurrency \<or> \<not> isRecognizedCurrency lib baseCurrency \<or>
          \<not> isRecognizedCurrency lib quoteCurrency
       then None else Some (reference, baseCurrency, quoteCurrency, cursor))))))))"

definition extractFXEvidence :: "'u currency_library \<Rightarrow> string \<Rightarrow> fxEvidence attempt" where
  "extractFXEvidence lib description =
     (case consumeFXHeader lib description of
        None \<Rightarrow> Rejected
      | Some (reference, baseCurrency, quoteCurrency, cursor) \<Rightarrow>
          (case consumeFXRate description cursor of
             None \<Rightarrow> Rejected
           | Some (rate, hasAmounts, cursor) \<Rightarrow>
               (case if hasAmounts then consumeFXAmounts description cursor baseCurrency quoteCurrency
                     else Some cursor of
                  None \<Rightarrow> Rejected
                | Some cursor \<Rightarrow>
                    if cursor \<noteq> length description then Rejected
                    else
                      (case normalizeFXRate rate of
                         Panic \<Rightarrow> Panic
                       | Rejected \<Rightarrow> Rejected
                       | Accepted (coefficient, scale) \<Rightarrow>
                           Accepted \<lparr>fx_namespace = ''FX'', fx_reference = reference,
                             fx_baseCurrency = baseCurrency, fx_quoteCurrency = quoteCurrency,
                             fx_rateCoefficient = coefficient, fx_rateScale = scale\<rparr>))))"

section \<open>Checking a conversion\<close>

definition minInt64 :: int64 where
  "minInt64 = push_bit 63 1"

definition positiveMinorMagnitude :: "int64 \<Rightarrow> int option" where
  "positiveMinorMagnitude amount =
     (if amount = 0 \<or> amount = minInt64 then None else Some \<bar>sint amount\<bar>)"

definition digit_value :: "char \<Rightarrow> int" where
  "digit_value c = int (of_char c - 48)"

text \<open>\<^verbatim>\<open>SetString(value, 10)\<close> on a string of digits.\<close>

definition decimal_value :: "string \<Rightarrow> int" where
  "decimal_value digits = foldl (\<lambda>n c. fxDecimalRadix * n + digit_value c) 0 digits"

text \<open>
  \<^verbatim>\<open>strings.Trim(value, "0123456789") != ""\<close>: what is left after trimming digits at both
  ends is empty exactly when every byte is a digit.
\<close>

definition positiveDecimalInteger :: "string \<Rightarrow> int option" where
  "positiveDecimalInteger value =
     (if value = '''' \<or> dropWhile is_digit value \<noteq> '''' then None
      else let integer = decimal_value value
           in if integer \<le> 0 then None else Some integer)"

definition powerOfTen :: "int \<Rightarrow> int" where
  "powerOfTen scale = fxDecimalRadix ^ nat scale"

definition fxConversionMatches ::
  "'u currency_library \<Rightarrow> fxEvidence \<Rightarrow> string \<Rightarrow> int64 \<Rightarrow> string \<Rightarrow> int64 \<Rightarrow> bool" where
  "fxConversionMatches lib evidence firstCurrency firstAmountMinor secondCurrency secondAmountMinor =
     (if fx_baseCurrency evidence = fx_quoteCurrency evidence \<or>
         \<not> isRecognizedCurrency lib (fx_baseCurrency evidence) \<or>
         \<not> isRecognizedCurrency lib (fx_quoteCurrency evidence) \<or>
         fx_rateScale evidence < 0 \<or>
         (sint firstAmountMinor < 0) = (sint secondAmountMinor < 0)
      then False
      else
        (case (positiveMinorMagnitude firstAmountMinor, positiveMinorMagnitude secondAmountMinor) of
           (Some firstMagnitude, Some secondMagnitude) \<Rightarrow>
             (case if firstCurrency = fx_baseCurrency evidence \<and> secondCurrency = fx_quoteCurrency evidence
                   then Some (firstMagnitude, secondMagnitude)
                   else if firstCurrency = fx_quoteCurrency evidence \<and> secondCurrency = fx_baseCurrency evidence
                   then Some (secondMagnitude, firstMagnitude)
                   else None of
                None \<Rightarrow> False
              | Some (baseMagnitude, quoteMagnitude) \<Rightarrow>
                  (case (positiveDecimalInteger (fx_rateCoefficient evidence),
                         parseCurrency lib (fx_baseCurrency evidence),
                         parseCurrency lib (fx_quoteCurrency evidence)) of
                     (Some rateCoefficient, Some baseUnit, Some quoteUnit) \<Rightarrow>
                       (let baseScale = cur_StandardRounding lib baseUnit;
                            quoteScale = cur_StandardRounding lib quoteUnit
                        in if baseScale < 0 \<or> quoteScale < 0 then False
                           else
                             (let numerator = baseMagnitude * rateCoefficient * powerOfTen quoteScale;
                                  denominator = powerOfTen (fx_rateScale evidence) * powerOfTen baseScale;
                                  quotient = numerator div denominator;
                                  remainder = numerator mod denominator;
                                  quotient = (if push_bit 1 remainder \<ge> denominator then quotient + 1
                                              else quotient)
                              in quotient = quoteMagnitude))
                   | _ \<Rightarrow> False))
         | _ \<Rightarrow> False))"

end
