(* ===== verification/ProviderEvidence.thy ===== *)
theory ProviderEvidence
  imports FxEvidence ProviderSnapshots "HOL-Library.Signed_Division"
begin

text \<open>
  What a stored provider document proves about a transaction, from
  \<^verbatim>\<open>finance/internal/monobank/transfer_matching_evidence.go\<close> and
  \<^verbatim>\<open>finance/internal/pko/transfer_matching_evidence.go\<close>: the operation side of a
  Monobank cross-currency transfer, and the route of a PKO internal exchange.

  \<^verbatim>\<open>json.Unmarshal\<close> into a struct is modelled on the parsed document
  (\<open>json_Unmarshal\<close> of the codec; a number is the text of its literal): a field takes
  the last member whose name equals the field's up to case folding, a null leaves the
  zero value, and a value of another type fails the whole call. A document that repeats a
  member name inside one object is outside the model.
\<close>

section \<open>Decoding into structs\<close>

text \<open>\<^verbatim>\<open>encoding/json\<close>'s folding of member names: ASCII case, U+212A as k, U+017F as s.\<close>

fun foldName :: "string \<Rightarrow> string" where
  "foldName [] = []"
| "foldName (c # s) =
     (case stripPrefix (map char_of_byte [226, 132, 170]) (c # s) of
        Some r \<Rightarrow> CHR ''k'' # (if length r \<le> length s then foldName r else [])
      | None \<Rightarrow>
          (case stripPrefix (map char_of_byte [197, 191]) (c # s) of
             Some r \<Rightarrow> CHR ''s'' # (if length r \<le> length s then foldName r else [])
           | None \<Rightarrow> lower_char c # foldName s))"

definition jsonMember :: "(string \<times> json) list \<Rightarrow> string \<Rightarrow> json" where
  "jsonMember members name =
     (case filter (\<lambda>(key, _). foldName key = foldName name) (rev members) of
        [] \<Rightarrow> JNull | (_, v) # _ \<Rightarrow> v)"

text \<open>\<^verbatim>\<open>strconv.ParseInt(s, 10, 64)\<close>: an optional sign, digits, and the range of \<^verbatim>\<open>int64\<close>.\<close>

definition parseInt64 :: "string \<Rightarrow> int64 option" where
  "parseInt64 s =
     (let negative = (s \<noteq> '''' \<and> hd s = CHR ''-'');
          body = (if s \<noteq> '''' \<and> (hd s = CHR ''-'' \<or> hd s = CHR ''+'') then tl s else s)
      in if body = '''' \<or> \<not> list_all is_digit body then None
         else (let n = (if negative then - decimal_value body else decimal_value body)
               in if n < - (2 ^ 63) \<or> 2 ^ 63 \<le> n then None else Some (word_of_int n)))"

definition decodeInt :: "json \<Rightarrow> int64 option option" where
  "decodeInt v =
     (case v of
        JNull \<Rightarrow> Some None
      | JNumber s \<Rightarrow> map_option Some (parseInt64 s)
      | _ \<Rightarrow> None)"

definition decodeString :: "json \<Rightarrow> string option option" where
  "decodeString v = (case v of JNull \<Rightarrow> Some None | JString s \<Rightarrow> Some (Some s) | _ \<Rightarrow> None)"

definition decodeMembers :: "json \<Rightarrow> (string \<times> json) list option" where
  "decodeMembers v = (case v of JNull \<Rightarrow> Some [] | JObject members \<Rightarrow> Some members | _ \<Rightarrow> None)"

section \<open>Monobank\<close>

record MonobankEvidenceInput =
  mei_ConnectorID :: string
  mei_CurrentAmountMinor :: int64
  mei_CurrentCurrency :: string
  mei_ProviderOriginalAmountMinor :: "int64 option"
  mei_ProviderOriginalCurrency :: "string option"
  mei_SnapshotJSON :: string

record MonobankEvidence =
  mev_AmountMinor :: int64
  mev_OperationAmountMinor :: int64
  mev_OperationCurrency :: string

record monobankMatchingSnapshot =
  mms_Amount :: "int64 option"
  mms_OperationAmount :: "int64 option"
  mms_CurrencyCode :: "int64 option"
  mms_MCC :: "int64 option"
  mms_OriginalMCC :: "int64 option"

definition monobankTransferMatchingMCC :: int64 where "monobankTransferMatchingMCC = 4829"

definition decodeMonobankSnapshot :: "json \<Rightarrow> monobankMatchingSnapshot option" where
  "decodeMonobankSnapshot document =
     Option.bind (decodeMembers document) (\<lambda>members.
     Option.bind (decodeInt (jsonMember members ''amount'')) (\<lambda>amount.
     Option.bind (decodeInt (jsonMember members ''operationAmount'')) (\<lambda>operationAmount.
     Option.bind (decodeInt (jsonMember members ''currencyCode'')) (\<lambda>currencyCode.
     Option.bind (decodeInt (jsonMember members ''mcc'')) (\<lambda>mcc.
     Option.bind (decodeInt (jsonMember members ''originalMcc'')) (\<lambda>originalMCC.
     Some \<lparr>mms_Amount = amount, mms_OperationAmount = operationAmount, mms_CurrencyCode = currencyCode,
           mms_MCC = mcc, mms_OriginalMCC = originalMCC\<rparr>))))))"

definition currencyCodeToISO :: "int64 \<Rightarrow> string" where
  "currencyCodeToISO code =
     (if code = 980 then ''UAH'' else if code = 978 then ''EUR'' else if code = 840 then ''USD'' else '''')"

definition monobankExtractEvidence :: "json_codec \<Rightarrow> MonobankEvidenceInput \<Rightarrow> MonobankEvidence option" where
  "monobankExtractEvidence codec input =
     (case (mei_ProviderOriginalAmountMinor input, mei_ProviderOriginalCurrency input) of
        (Some originalAmount, Some originalCurrency) \<Rightarrow>
          if mei_ConnectorID input \<noteq> ''monobank'' \<or> mei_SnapshotJSON input = '''' then None
          else
            (case json_Unmarshal codec (mei_SnapshotJSON input) of
               Inl _ \<Rightarrow> None
             | Inr document \<Rightarrow>
                 (case decodeMonobankSnapshot document of
                    None \<Rightarrow> None
                  | Some snapshot \<Rightarrow>
                      (case (mms_Amount snapshot, mms_OperationAmount snapshot,
                             mms_CurrencyCode snapshot, mms_MCC snapshot) of
                         (Some amount, Some operationAmount, Some currencyCode, Some mcc) \<Rightarrow>
                           if amount = 0 \<or> operationAmount = 0 \<or>
                              amount = minInt64 \<or> operationAmount = minInt64 \<or>
                              mcc \<noteq> monobankTransferMatchingMCC \<or>
                              (case mms_OriginalMCC snapshot of
                                 None \<Rightarrow> False
                               | Some originalMCC \<Rightarrow> originalMCC \<noteq> monobankTransferMatchingMCC)
                           then None
                           else
                             (let operationCurrency = currencyCodeToISO currencyCode
                              in if operationCurrency = '''' \<or>
                                    operationCurrency = mei_CurrentCurrency input \<or>
                                    originalAmount \<noteq> amount \<or>
                                    originalCurrency \<noteq> mei_CurrentCurrency input \<or>
                                    mei_CurrentAmountMinor input \<noteq> originalAmount \<or>
                                    (sint (mei_CurrentAmountMinor input) < 0) \<noteq> (sint operationAmount < 0)
                                 then None
                                 else Some \<lparr>mev_AmountMinor = amount,
                                            mev_OperationAmountMinor = operationAmount,
                                            mev_OperationCurrency = operationCurrency\<rparr>)
                       | _ \<Rightarrow> None)))
      | _ \<Rightarrow> None)"

section \<open>PKO\<close>

record PKOEvidenceInput =
  pei_ProviderID :: string
  pei_ConnectorID :: string
  pei_TrackedAccountIBAN :: string
  pei_CurrentAmountMinor :: int64
  pei_CurrentCurrency :: string
  pei_ProviderOriginalAmountMinor :: "int64 option"
  pei_ProviderOriginalCurrency :: "string option"
  pei_SnapshotJSON :: string

record PKOEvidence =
  pev_Direction :: string
  pev_SourceIBAN :: string
  pev_DestinationIBAN :: string
  pev_AmountMinor :: int64
  pev_Currency :: string

text \<open>\<open>pks_DebtorAccount\<close> is nil, or the account's IBAN, itself possibly nil.\<close>

record pkoMatchingSnapshot =
  pks_Amount :: "string option"
  pks_Currency :: "string option"
  pks_CreditDebitIndicator :: "string option"
  pks_RemittanceInformation :: "string list"
  pks_DebtorAccount :: "string option option"
  pks_CreditorAccount :: "string option option"

definition decodeAccount :: "json \<Rightarrow> string option option option" where
  "decodeAccount v =
     (case v of
        JNull \<Rightarrow> Some None
      | JObject members \<Rightarrow> map_option Some (decodeString (jsonMember members ''iban''))
      | _ \<Rightarrow> None)"

fun decodeStrings :: "json list \<Rightarrow> string list option" where
  "decodeStrings [] = Some []"
| "decodeStrings (v # vs) =
     (case decodeString v of
        None \<Rightarrow> None
      | Some s \<Rightarrow> map_option (\<lambda>rest. (case s of None \<Rightarrow> '''' | Some s \<Rightarrow> s) # rest) (decodeStrings vs))"

definition decodeStringList :: "json \<Rightarrow> string list option" where
  "decodeStringList v = (case v of JNull \<Rightarrow> Some [] | JArray vs \<Rightarrow> decodeStrings vs | _ \<Rightarrow> None)"

definition decodePKOSnapshot :: "json \<Rightarrow> pkoMatchingSnapshot option" where
  "decodePKOSnapshot document =
     Option.bind (decodeMembers document) (\<lambda>members.
     Option.bind (decodeMembers (jsonMember members ''transaction_amount'')) (\<lambda>amountMembers.
     Option.bind (decodeString (jsonMember amountMembers ''amount'')) (\<lambda>amount.
     Option.bind (decodeString (jsonMember amountMembers ''currency'')) (\<lambda>currency.
     Option.bind (decodeString (jsonMember members ''credit_debit_indicator'')) (\<lambda>indicator.
     Option.bind (decodeStringList (jsonMember members ''remittance_information'')) (\<lambda>remittance.
     Option.bind (decodeAccount (jsonMember members ''debtor_account'')) (\<lambda>debtor.
     Option.bind (decodeAccount (jsonMember members ''creditor_account'')) (\<lambda>creditor.
     Some \<lparr>pks_Amount = amount, pks_Currency = currency, pks_CreditDebitIndicator = indicator,
           pks_RemittanceInformation = remittance, pks_DebtorAccount = debtor,
           pks_CreditorAccount = creditor\<rparr>))))))))"

definition hasRequiredInput :: "PKOEvidenceInput \<Rightarrow> bool" where
  "hasRequiredInput input \<longleftrightarrow>
     pei_ProviderID input = ''pko'' \<and> pei_ConnectorID input = ''enable-banking'' \<and>
     pei_TrackedAccountIBAN input \<noteq> '''' \<and> pei_ProviderOriginalAmountMinor input \<noteq> None \<and>
     pei_ProviderOriginalCurrency input \<noteq> None \<and> pei_SnapshotJSON input \<noteq> ''''"

text \<open>
  A decoded snapshot with its required parts: amount, currency, direction and the
  debtor's IBAN, next to the snapshot itself.
\<close>

definition decodeSnapshot ::
  "json_codec \<Rightarrow> string \<Rightarrow> (string \<times> string \<times> string \<times> string \<times> pkoMatchingSnapshot) option" where
  "decodeSnapshot codec value =
     (case json_Unmarshal codec value of
        Inl _ \<Rightarrow> None
      | Inr document \<Rightarrow>
          (case decodePKOSnapshot document of
             None \<Rightarrow> None
           | Some snapshot \<Rightarrow>
               (case (pks_Amount snapshot, pks_Currency snapshot, pks_CreditDebitIndicator snapshot,
                      pks_DebtorAccount snapshot) of
                  (Some amount, Some currency, Some indicator, Some (Some iban)) \<Rightarrow>
                    if iban = '''' then None else Some (amount, currency, indicator, iban, snapshot)
                | _ \<Rightarrow> None)))"

text \<open>\<^verbatim>\<open>strings.Split\<close> at a one-byte separator.\<close>

fun splitAt :: "char \<Rightarrow> string \<Rightarrow> string list" where
  "splitAt sep [] = [[]]"
| "splitAt sep (c # s) =
     (if c = sep then '''' # splitAt sep s
      else (case splitAt sep s of [] \<Rightarrow> [[c]] | p # ps \<Rightarrow> (c # p) # ps))"

definition maxInt64 :: int64 where "maxInt64 = word_of_int (2 ^ 63 - 1)"

text \<open>Go's division on \<^verbatim>\<open>int64\<close>, which truncates towards zero.\<close>

definition div64 :: "int64 \<Rightarrow> int64 \<Rightarrow> int64" where
  "div64 a b = word_of_int (sint a sdiv sint b)"

definition minorScale :: int64 where "minorScale = 100"
definition decimalParts :: nat where "decimalParts = 2"

definition parseAmountMinor :: "string \<Rightarrow> int64 option" where
  "parseAmountMinor value0 =
     (if value0 = '''' then None
      else
        (let negative = (hd value0 = CHR ''-'');
             value = (if negative \<or> hd value0 = CHR ''+'' then tl value0 else value0);
             parts = splitAt (CHR ''.'') value
         in if length parts > 2 \<or> hd parts = '''' then None
            else
              (let fraction = (if length parts = decimalParts then parts ! 1 else '''')
               in if length fraction > decimalParts then None
                  else
                    (let fraction = fraction @ replicate (2 - length fraction) (CHR ''0'')
                     in case (parseInt64 (hd parts), parseInt64 fraction) of
                          (Some whole, Some minor) \<Rightarrow>
                            if sint whole > sint (div64 (maxInt64 - minor) minorScale) then None
                            else
                              (let result = whole * minorScale + minor
                               in Some (if negative then - result else result))
                        | _ \<Rightarrow> None))))"

definition currencyCodeLen :: nat where "currencyCodeLen = 3"

definition canonicalProviderCurrency :: "string \<Rightarrow> string option" where
  "canonicalProviderCurrency value =
     (if length value \<noteq> currencyCodeLen then None
      else if list_all (\<lambda>c. \<not> ((c < CHR ''A'' \<or> c > CHR ''Z'') \<and> (c < CHR ''a'' \<or> c > CHR ''z''))) value
      then Some (ToUpper value) else None)"

definition snapshotAmountMinor :: "string \<Rightarrow> string \<Rightarrow> string \<Rightarrow> int64 option" where
  "snapshotAmountMinor amountText currencyText currency =
     (case (parseAmountMinor amountText, canonicalProviderCurrency currencyText) of
        (Some amount, Some snapshotCurrency) \<Rightarrow>
          if amount = 0 \<or> amount = minInt64 \<or> snapshotCurrency \<noteq> currency then None else Some amount
      | _ \<Rightarrow> None)"

fun equalStrings :: "string list \<Rightarrow> string list \<Rightarrow> bool" where
  "equalStrings [] [] = True"
| "equalStrings (a # as) (b # bs) = (a = b \<and> equalStrings as bs)"
| "equalStrings _ _ = False"

definition directionDebit :: string where "directionDebit = ''DBIT''"
definition directionCredit :: string where "directionCredit = ''CRDT''"

text \<open>The source and destination account of the exchange, and the amount with its sign.\<close>

definition exchangeRoute ::
  "PKOEvidenceInput \<Rightarrow> string \<Rightarrow> string \<Rightarrow> pkoMatchingSnapshot \<Rightarrow> int64 \<Rightarrow> (string \<times> string \<times> int64) option" where
  "exchangeRoute input direction sourceIBAN snapshot amount =
     (if direction = directionDebit then
        (let amount = (if sint amount > 0 then - amount else amount)
         in if \<not> equalStrings (pks_RemittanceInformation snapshot) [''EXCHANGE'', ''TRANSFER''] \<or>
               pei_TrackedAccountIBAN input \<noteq> sourceIBAN then None
            else (case pks_CreditorAccount snapshot of
                    Some (Some iban) \<Rightarrow> if iban = '''' then None else Some (sourceIBAN, iban, amount)
                  | _ \<Rightarrow> None))
      else if direction = directionCredit then
        (if \<not> equalStrings (pks_RemittanceInformation snapshot) [''EXCHANGE'', ''TRANSFER-IN''] \<or> sint amount < 0
         then None
         else Some (sourceIBAN, pei_TrackedAccountIBAN input, amount))
      else None)"

definition pkoExtractEvidence :: "json_codec \<Rightarrow> PKOEvidenceInput \<Rightarrow> PKOEvidence option" where
  "pkoExtractEvidence codec input =
     (if \<not> hasRequiredInput input then None
      else
        (case decodeSnapshot codec (pei_SnapshotJSON input) of
           None \<Rightarrow> None
         | Some (amountText, currencyText, indicator, debtorIBAN, snapshot) \<Rightarrow>
             (case snapshotAmountMinor amountText currencyText (pei_CurrentCurrency input) of
                None \<Rightarrow> None
              | Some amount \<Rightarrow>
                  (case exchangeRoute input indicator debtorIBAN snapshot amount of
                     None \<Rightarrow> None
                   | Some (sourceIBAN, destinationIBAN, amount) \<Rightarrow>
                       if pei_CurrentAmountMinor input \<noteq> amount \<or>
                          pei_ProviderOriginalAmountMinor input \<noteq> Some amount \<or>
                          pei_ProviderOriginalCurrency input \<noteq> Some (pei_CurrentCurrency input)
                       then None
                       else Some \<lparr>pev_Direction = indicator, pev_SourceIBAN = sourceIBAN,
                              pev_DestinationIBAN = destinationIBAN, pev_AmountMinor = amount,
                              pev_Currency = pei_CurrentCurrency input\<rparr>))))"

section \<open>What a parsed amount is\<close>

lemma splitAt_plain: "sep \<notin> set s \<Longrightarrow> splitAt sep s = [s]"
  by (induction s) auto

lemma splitAt_two: "sep \<notin> set a \<Longrightarrow> sep \<notin> set b \<Longrightarrow> splitAt sep (a @ sep # b) = [a, b]"
  by (induction a) (auto simp: splitAt_plain)

text \<open>An unguarded second sign: the amount is the number with both signs applied.\<close>

lemma second_sign_is_accepted: "parseAmountMinor ''--5'' = Some 500" "parseAmountMinor ''1.+5'' = Some 105"
  by code_simp+

lemma parseInt64_digits:
  assumes "list_all is_digit s" "s \<noteq> ''''"
  shows "parseInt64 s = (if 2 ^ 63 \<le> decimal_value s then None else Some (word_of_int (decimal_value s)))"
proof -
  have "hd s \<noteq> CHR ''-''" "hd s \<noteq> CHR ''+''"
    using assms by (auto simp: neq_Nil_conv is_digit_def)
  moreover have "0 \<le> decimal_value s"
    using assms(1)
    by (induction s rule: rev_induct)
       (auto simp: decimal_value_def fxDecimalRadix_def is_digit_def digit_value_def less_eq_char_def)
  ultimately show ?thesis using assms by (simp add: parseInt64_def Let_def)
qed

text \<open>An amount in the documented form: a sign, the whole part, at most two fraction digits.\<close>

definition amountText :: "string \<Rightarrow> string \<Rightarrow> string \<Rightarrow> string" where
  "amountText sign whole fraction =
     sign @ whole @ (if fraction = '''' then '''' else CHR ''.'' # fraction)"

definition paddedFraction :: "string \<Rightarrow> string" where
  "paddedFraction fraction = fraction @ replicate (2 - length fraction) (CHR ''0'')"

lemma sint_of_int64: "- (2 ^ 63) \<le> n \<Longrightarrow> n < 2 ^ 63 \<Longrightarrow> sint (word_of_int n :: int64) = n"
  by (simp add: signed_take_bit_int_eq_self sint_sbintrunc')

lemma decimal_value_two: "list_all is_digit s \<Longrightarrow> length s = 2 \<Longrightarrow> 0 \<le> decimal_value s \<and> decimal_value s \<le> 99"
  by (auto simp: decimal_value_def fxDecimalRadix_def is_digit_def digit_value_def less_eq_char_def
      numeral_2_eq_2 length_Suc_conv)

lemma decimal_value_nonneg': "list_all is_digit s \<Longrightarrow> 0 \<le> decimal_value s"
  by (induction s rule: rev_induct)
     (auto simp: decimal_value_def fxDecimalRadix_def is_digit_def digit_value_def less_eq_char_def)

lemma parseAmountMinor_parts:
  assumes "sign \<in> {'''', ''+'', ''-''}" "list_all is_digit whole" "whole \<noteq> ''''" "list_all is_digit fraction"
    "length fraction \<le> 2"
  shows "parseAmountMinor (amountText sign whole fraction) =
    (case (parseInt64 whole, parseInt64 (paddedFraction fraction)) of
       (Some w, Some m) \<Rightarrow>
         if sint w > sint (div64 (maxInt64 - m) minorScale) then None
         else Some (if sign = ''-'' then - (w * minorScale + m) else w * minorScale + m)
     | _ \<Rightarrow> None)"
proof -
  have plain: "CHR ''.'' \<notin> set whole" "CHR ''.'' \<notin> set fraction" "hd whole \<noteq> CHR ''-''" "hd whole \<noteq> CHR ''+''"
    using assms by (auto simp: list_all_iff is_digit_def neq_Nil_conv)
  define body where "body = whole @ (if fraction = '''' then '''' else CHR ''.'' # fraction)"
  have parts: "splitAt (CHR ''.'') body = (if fraction = '''' then [whole] else [whole, fraction])"
    using plain by (simp add: body_def splitAt_plain splitAt_two)
  have body: "body \<noteq> ''''" "hd body = hd whole"
    using assms(3) by (auto simp: body_def)
  let ?given = "amountText sign whole fraction"
  have "?given = sign @ body" by (simp add: amountText_def body_def)
  then have shape: "(?given = '''') = False" "(hd ?given = CHR ''-'') = (sign = ''-'')"
      "(if sign = ''-'' \<or> hd ?given = CHR ''+'' then tl ?given else ?given) = body"
    using assms(1) body plain by auto
  have counts: "(2 < length (splitAt (CHR ''.'') body)) = False" "(whole = '''') = False"
      "(if length (splitAt (CHR ''.'') body) = decimalParts then splitAt (CHR ''.'') body ! 1 else '''') = fraction"
      "(decimalParts < length fraction) = False" "hd (splitAt (CHR ''.'') body) = whole"
    using assms(3,5) by (simp_all add: parts decimalParts_def)
  show ?thesis
    unfolding parseAmountMinor_def Let_def paddedFraction_def shape counts simp_thms if_False ..
qed



end
