(* ===== verification/TransferMatching.thy ===== *)
theory TransferMatching
  imports TransferStore ProviderEvidence
begin

text \<open>
  \<^verbatim>\<open>finance/service_transfer_matching.go\<close>: the service that finds, among the loaded
  transactions, the pairs that are two sides of one transfer. Transactions are indexed
  four ways (by amount, FX evidence, Monobank evidence, PKO route), each bucket is
  scanned within 72 hours for at most two candidates, and a pair is planned when the two
  transactions are each other's only candidate.

  A Go map of slices is a function from keys to lists; a pair \<^verbatim>\<open>(evidence, ok)\<close> is an
  option. Logging is left out. \<^verbatim>\<open>sort.Slice\<close> is a stable sort here; equal elements (same
  instant and same id) occur only when one transaction is loaded twice.
\<close>

definition transferMatchingWindow :: duration where "transferMatchingWindow = 72 * hour"
definition transferMatchingMaxCandidates :: nat where "transferMatchingMaxCandidates = 2"

record TransferMatchingAttemptCounts =
  MatchedPairs :: int
  Unmatched :: int
  Ambiguous :: int
  Skipped :: int

definition zero_counts :: TransferMatchingAttemptCounts where
  "zero_counts = \<lparr>MatchedPairs = 0, Unmatched = 0, Ambiguous = 0, Skipped = 0\<rparr>"

definition addTransferMatchingAttemptCounts ::
  "TransferMatchingAttemptCounts \<Rightarrow> TransferMatchingAttemptCounts \<Rightarrow> TransferMatchingAttemptCounts" where
  "addTransferMatchingAttemptCounts current delta =
     \<lparr>MatchedPairs = MatchedPairs current + MatchedPairs delta,
      Unmatched = Unmatched current + Unmatched delta,
      Ambiguous = Ambiguous current + Ambiguous delta,
      Skipped = Skipped current + Skipped delta\<rparr>"

record TransferMatchingParams =
  tmp_TenantID :: string
  tmp_RangeStart :: time
  tmp_RangeEndExclusive :: time
  tmp_MessageID :: string
  tmp_SourceSyncMessageID :: string

definition validateTransferMatchingRange :: "time \<Rightarrow> time \<Rightarrow> go_error option" where
  "validateTransferMatchingRange rangeStart rangeEndExclusive =
     (if IsZero rangeStart
      then Some (WrapSuffix (Sentinel ErrInvalidTimestampRange) ''start timestamp is required'')
      else if IsZero rangeEndExclusive
      then Some (WrapSuffix (Sentinel ErrInvalidTimestampRange) ''end timestamp is required'')
      else if \<not> rangeStart < rangeEndExclusive
      then Some (WrapSuffix (Sentinel ErrInvalidTimestampRange) ''start timestamp must be before end timestamp'')
      else None)"

section \<open>The indexes\<close>

record transferMatchingAmountKey =
  amk_currency :: string
  amk_amount :: int64

record transferMatchingFXKey =
  fxk_connectionID :: string
  fxk_namespace :: string
  fxk_reference :: string
  fxk_baseCurrency :: string
  fxk_quoteCurrency :: string
  fxk_rateCoefficient :: string
  fxk_rateScale :: int

record transferMatchingMonobankKey =
  mok_connectionID :: string
  mok_currency :: string
  mok_amount :: int64

record transferMatchingPKOKey =
  pkk_connectionID :: string
  pkk_sourceIBAN :: string
  pkk_destinationIBAN :: string

record transferMatchingIndexedTransaction =
  ix_transaction :: TransferMatchingTransaction
  ix_evidence :: "fxEvidence option"
  ix_monobankEvidence :: "MonobankEvidence option"
  ix_pkoEvidence :: "PKOEvidence option"

record transferMatchingIndexes =
  byAmount :: "transferMatchingAmountKey \<Rightarrow> transferMatchingIndexedTransaction list"
  byFX :: "transferMatchingFXKey \<Rightarrow> transferMatchingIndexedTransaction list"
  byMonobank :: "transferMatchingMonobankKey \<Rightarrow> transferMatchingIndexedTransaction list"
  byPKO :: "transferMatchingPKOKey \<Rightarrow> transferMatchingIndexedTransaction list"
  ix_starting :: "transferMatchingIndexedTransaction list"

record transferMatchingPair =
  pair_first :: TransferMatchingTransaction
  pair_second :: TransferMatchingTransaction

type_synonym transferMatchingEvidenceExtractor = "string \<Rightarrow> fxEvidence option"

definition transferMatchingPKOEvidenceFor ::
  "json_codec \<Rightarrow> TransferMatchingTransaction \<Rightarrow> PKOEvidence option" where
  "transferMatchingPKOEvidenceFor codec transaction =
     (case (tmt_ConnectionID transaction, tmt_ProviderID transaction, tmt_ConnectorID transaction,
            tmt_TrackedAccountIBAN transaction, tmt_SnapshotJSON transaction) of
        (Some _, Some providerID, Some connectorID, Some trackedAccountIBAN, Some snapshotJSON) \<Rightarrow>
          pkoExtractEvidence codec
            \<lparr>pei_ProviderID = providerID, pei_ConnectorID = connectorID,
             pei_TrackedAccountIBAN = trackedAccountIBAN,
             pei_CurrentAmountMinor = tmt_AmountMinor transaction,
             pei_CurrentCurrency = tmt_Currency transaction,
             pei_ProviderOriginalAmountMinor = tmt_ProviderOriginalAmountMinor transaction,
             pei_ProviderOriginalCurrency = tmt_ProviderOriginalCurrency transaction,
             pei_SnapshotJSON = snapshotJSON\<rparr>
      | _ \<Rightarrow> None)"

definition transferMatchingMonobankEvidenceFor ::
  "json_codec \<Rightarrow> TransferMatchingTransaction \<Rightarrow> MonobankEvidence option" where
  "transferMatchingMonobankEvidenceFor codec transaction =
     (case (tmt_ConnectionID transaction, tmt_ConnectorID transaction, tmt_SnapshotJSON transaction) of
        (Some _, Some connectorID, Some snapshotJSON) \<Rightarrow>
          monobankExtractEvidence codec
            \<lparr>mei_ConnectorID = connectorID,
             mei_CurrentAmountMinor = tmt_AmountMinor transaction,
             mei_CurrentCurrency = tmt_Currency transaction,
             mei_ProviderOriginalAmountMinor = tmt_ProviderOriginalAmountMinor transaction,
             mei_ProviderOriginalCurrency = tmt_ProviderOriginalCurrency transaction,
             mei_SnapshotJSON = snapshotJSON\<rparr>
      | _ \<Rightarrow> None)"

definition transferMatchingPKOKeyFor ::
  "transferMatchingIndexedTransaction \<Rightarrow> transferMatchingPKOKey option" where
  "transferMatchingPKOKeyFor transaction =
     (case (ix_pkoEvidence transaction, tmt_ConnectionID (ix_transaction transaction)) of
        (Some evidence, Some connectionID) \<Rightarrow>
          Some \<lparr>pkk_connectionID = connectionID, pkk_sourceIBAN = pev_SourceIBAN evidence,
                pkk_destinationIBAN = pev_DestinationIBAN evidence\<rparr>
      | _ \<Rightarrow> None)"

definition transferMatchingMonobankKeyFor ::
  "transferMatchingIndexedTransaction \<Rightarrow> transferMatchingMonobankKey option" where
  "transferMatchingMonobankKeyFor transaction =
     (case (ix_monobankEvidence transaction, tmt_ConnectionID (ix_transaction transaction)) of
        (Some evidence, Some connectionID) \<Rightarrow>
          Some \<lparr>mok_connectionID = connectionID,
                mok_currency = tmt_Currency (ix_transaction transaction),
                mok_amount = tmt_AmountMinor (ix_transaction transaction)\<rparr>
      | _ \<Rightarrow> None)"

definition transferMatchingFXKeyFor ::
  "transferMatchingIndexedTransaction \<Rightarrow> transferMatchingFXKey option" where
  "transferMatchingFXKeyFor transaction =
     (case (ix_evidence transaction, tmt_ConnectionID (ix_transaction transaction)) of
        (Some evidence, Some connectionID) \<Rightarrow>
          Some \<lparr>fxk_connectionID = connectionID,
                fxk_namespace = fx_namespace evidence, fxk_reference = fx_reference evidence,
                fxk_baseCurrency = fx_baseCurrency evidence, fxk_quoteCurrency = fx_quoteCurrency evidence,
                fxk_rateCoefficient = fx_rateCoefficient evidence, fxk_rateScale = fx_rateScale evidence\<rparr>
      | _ \<Rightarrow> None)"

text \<open>\<^verbatim>\<open>m[key] = append(m[key], x)\<close>, and the same when the key exists.\<close>

definition appendAt :: "'k \<Rightarrow> 'a \<Rightarrow> ('k \<Rightarrow> 'a list) \<Rightarrow> 'k \<Rightarrow> 'a list" where
  "appendAt key x m = m(key := m key @ [x])"

definition appendAtSome :: "'k option \<Rightarrow> 'a \<Rightarrow> ('k \<Rightarrow> 'a list) \<Rightarrow> 'k \<Rightarrow> 'a list" where
  "appendAtSome key x m = (case key of None \<Rightarrow> m | Some k \<Rightarrow> appendAt k x m)"

definition candidateOrder :: "transferMatchingIndexedTransaction \<Rightarrow> time \<times> string" where
  "candidateOrder transaction =
     (tmt_EffectiveAt (ix_transaction transaction), tmt_ID (ix_transaction transaction))"

definition sortTransferMatchingTransactions ::
  "transferMatchingIndexedTransaction list \<Rightarrow> transferMatchingIndexedTransaction list" where
  "sortTransferMatchingTransactions transactions = sort_key candidateOrder transactions"

definition indexedTransaction ::
  "json_codec \<Rightarrow> transferMatchingEvidenceExtractor \<Rightarrow> TransferMatchingTransaction \<Rightarrow> transferMatchingIndexedTransaction" where
  "indexedTransaction codec extractEvidence transaction =
     \<lparr>ix_transaction = transaction,
      ix_evidence = extractEvidence (tmt_Description transaction),
      ix_monobankEvidence = transferMatchingMonobankEvidenceFor codec transaction,
      ix_pkoEvidence = transferMatchingPKOEvidenceFor codec transaction\<rparr>"

definition inMatchingRange :: "time \<Rightarrow> time \<Rightarrow> TransferMatchingTransaction \<Rightarrow> bool" where
  "inMatchingRange rangeStart rangeEndExclusive transaction \<longleftrightarrow>
     \<not> tmt_EffectiveAt transaction < rangeStart \<and> tmt_EffectiveAt transaction < rangeEndExclusive"

definition indexStep ::
  "time \<Rightarrow> time \<Rightarrow> transferMatchingIndexes \<Rightarrow> transferMatchingIndexedTransaction \<Rightarrow> transferMatchingIndexes" where
  "indexStep rangeStart rangeEndExclusive indexes indexed =
     (let transaction = ix_transaction indexed
      in indexes
           \<lparr>byAmount := appendAt \<lparr>amk_currency = tmt_Currency transaction, amk_amount = tmt_AmountMinor transaction\<rparr>
              indexed (byAmount indexes),
            byFX := appendAtSome (transferMatchingFXKeyFor indexed) indexed (byFX indexes),
            byMonobank := appendAtSome (transferMatchingMonobankKeyFor indexed) indexed (byMonobank indexes),
            byPKO := appendAtSome (transferMatchingPKOKeyFor indexed) indexed (byPKO indexes),
            ix_starting := ix_starting indexes @
              (if inMatchingRange rangeStart rangeEndExclusive transaction then [indexed] else [])\<rparr>)"

definition transferMatchingIndex ::
  "json_codec \<Rightarrow> TransferMatchingTransaction list \<Rightarrow> time \<Rightarrow> time \<Rightarrow> transferMatchingEvidenceExtractor \<Rightarrow>
   transferMatchingIndexes" where
  "transferMatchingIndex codec transactions rangeStart rangeEndExclusive extractEvidence =
     (let indexes = foldl (indexStep rangeStart rangeEndExclusive)
            \<lparr>byAmount = \<lambda>_. [], byFX = \<lambda>_. [], byMonobank = \<lambda>_. [], byPKO = \<lambda>_. [], ix_starting = []\<rparr>
            (map (indexedTransaction codec extractEvidence) transactions)
      in \<lparr>byAmount = sortTransferMatchingTransactions \<circ> byAmount indexes,
          byFX = sortTransferMatchingTransactions \<circ> byFX indexes,
          byMonobank = sortTransferMatchingTransactions \<circ> byMonobank indexes,
          byPKO = sortTransferMatchingTransactions \<circ> byPKO indexes,
          ix_starting = sortTransferMatchingTransactions (ix_starting indexes)\<rparr>)"

section \<open>Candidates in one bucket\<close>

abbreviation effectiveAt :: "transferMatchingIndexedTransaction \<Rightarrow> time" where
  "effectiveAt transaction \<equiv> tmt_EffectiveAt (ix_transaction transaction)"

abbreviation rowID :: "transferMatchingIndexedTransaction \<Rightarrow> string" where
  "rowID transaction \<equiv> tmt_ID (ix_transaction transaction)"

abbreviation accountID :: "transferMatchingIndexedTransaction \<Rightarrow> string" where
  "accountID transaction \<equiv> tmt_AccountID (ix_transaction transaction)"

abbreviation rowCurrency :: "transferMatchingIndexedTransaction \<Rightarrow> string" where
  "rowCurrency transaction \<equiv> tmt_Currency (ix_transaction transaction)"

abbreviation rowAmount :: "transferMatchingIndexedTransaction \<Rightarrow> int64" where
  "rowAmount transaction \<equiv> tmt_AmountMinor (ix_transaction transaction)"

text \<open>
  The loop the four searches share: stop at the first candidate after the window, pass
  over those to skip, stop when \<open>room\<close> candidates are collected.
\<close>

fun scanCandidates ::
  "time \<Rightarrow> (transferMatchingIndexedTransaction \<Rightarrow> bool) \<Rightarrow> nat \<Rightarrow>
   transferMatchingIndexedTransaction list \<Rightarrow> transferMatchingIndexedTransaction list" where
  "scanCandidates windowEnd skip room [] = []"
| "scanCandidates windowEnd skip room (candidate # rest) =
     (if effectiveAt candidate > windowEnd then []
      else if skip candidate then scanCandidates windowEnd skip room rest
      else candidate # (if room \<le> 1 then [] else scanCandidates windowEnd skip (room - 1) rest))"

text \<open>\<^verbatim>\<open>sort.Search\<close> for the first candidate in the window, then the loop.\<close>

definition searchBucket ::
  "time \<Rightarrow> (transferMatchingIndexedTransaction \<Rightarrow> bool) \<Rightarrow>
   transferMatchingIndexedTransaction list \<Rightarrow> transferMatchingIndexedTransaction list" where
  "searchBucket instant skip bucket =
     (let windowStart = instant - transferMatchingWindow;
          windowEnd = instant + transferMatchingWindow;
          start = sort_Search (length bucket) (\<lambda>index. \<not> effectiveAt (bucket ! index) < windowStart)
      in scanCandidates windowEnd skip transferMatchingMaxCandidates (drop start bucket))"

definition transferMatchingSameCurrencyCandidates ::
  "transferMatchingIndexedTransaction \<Rightarrow> (transferMatchingAmountKey \<Rightarrow> transferMatchingIndexedTransaction list) \<Rightarrow>
   transferMatchingIndexedTransaction list" where
  "transferMatchingSameCurrencyCandidates transaction buckets =
     (if rowAmount transaction = minInt64 then []
      else
        (let bucket = buckets \<lparr>amk_currency = rowCurrency transaction, amk_amount = - rowAmount transaction\<rparr>
         in if bucket = [] then []
            else searchBucket (effectiveAt transaction)
                   (\<lambda>candidate. accountID candidate = accountID transaction) bucket))"

definition transferMatchingFXCandidates ::
  "'u currency_library \<Rightarrow> transferMatchingIndexedTransaction \<Rightarrow>
   (transferMatchingFXKey \<Rightarrow> transferMatchingIndexedTransaction list) \<Rightarrow>
   transferMatchingIndexedTransaction list" where
  "transferMatchingFXCandidates lib transaction buckets =
     (case (transferMatchingFXKeyFor transaction, ix_evidence transaction) of
        (Some key, Some evidence) \<Rightarrow>
          (let windowStart = effectiveAt transaction - transferMatchingWindow;
               windowEnd = effectiveAt transaction + transferMatchingWindow
           in scanCandidates windowEnd
                (\<lambda>candidate. effectiveAt candidate < windowStart \<or>
                   accountID candidate = accountID transaction \<or> rowID candidate = rowID transaction \<or>
                   \<not> fxConversionMatches lib evidence (rowCurrency transaction) (rowAmount transaction)
                       (rowCurrency candidate) (rowAmount candidate))
                transferMatchingMaxCandidates (buckets key))
      | _ \<Rightarrow> [])"

definition transferMatchingMonobankCandidates ::
  "transferMatchingIndexedTransaction \<Rightarrow> (transferMatchingMonobankKey \<Rightarrow> transferMatchingIndexedTransaction list) \<Rightarrow>
   transferMatchingIndexedTransaction list" where
  "transferMatchingMonobankCandidates transaction buckets =
     (case (ix_monobankEvidence transaction, tmt_ConnectionID (ix_transaction transaction)) of
        (Some evidence, Some connectionID) \<Rightarrow>
          if mev_OperationAmountMinor evidence = minInt64 \<or> rowAmount transaction = minInt64 then []
          else searchBucket (effectiveAt transaction)
            (\<lambda>candidate. rowID candidate = rowID transaction \<or> accountID candidate = accountID transaction \<or>
               (case ix_monobankEvidence candidate of
                  None \<Rightarrow> True
                | Some other \<Rightarrow>
                    mev_OperationCurrency other \<noteq> rowCurrency transaction \<or>
                    mev_OperationAmountMinor other \<noteq> - rowAmount transaction))
            (buckets \<lparr>mok_connectionID = connectionID, mok_currency = mev_OperationCurrency evidence,
               mok_amount = - mev_OperationAmountMinor evidence\<rparr>)
      | _ \<Rightarrow> [])"

definition transferMatchingPKOCandidates ::
  "transferMatchingIndexedTransaction \<Rightarrow> (transferMatchingPKOKey \<Rightarrow> transferMatchingIndexedTransaction list) \<Rightarrow>
   transferMatchingIndexedTransaction list" where
  "transferMatchingPKOCandidates transaction buckets =
     (case (transferMatchingPKOKeyFor transaction, ix_pkoEvidence transaction) of
        (Some key, Some evidence) \<Rightarrow>
          searchBucket (effectiveAt transaction)
            (\<lambda>candidate. rowID candidate = rowID transaction \<or> accountID candidate = accountID transaction \<or>
               (case ix_pkoEvidence candidate of
                  None \<Rightarrow> True
                | Some other \<Rightarrow>
                    pev_Direction other = pev_Direction evidence \<or> rowCurrency candidate = rowCurrency transaction))
            (buckets key)
      | _ \<Rightarrow> [])"

section \<open>Candidates of all kinds\<close>

text \<open>\<^verbatim>\<open>addCandidate\<close>: whether the candidate list is full, and the list and ids after it.\<close>

type_synonym candidate_list = "transferMatchingIndexedTransaction list \<times> string list"

definition addCandidate ::
  "transferMatchingIndexedTransaction \<Rightarrow> transferMatchingIndexedTransaction \<Rightarrow> candidate_list \<Rightarrow>
   bool \<times> candidate_list" where
  "addCandidate transaction candidate state =
     (case state of
        (candidates, candidateIDs) \<Rightarrow>
          if rowID candidate = rowID transaction
          then (length candidates = transferMatchingMaxCandidates, state)
          else if rowID candidate \<in> set candidateIDs
          then (length candidates = transferMatchingMaxCandidates, state)
          else (length (candidates @ [candidate]) = transferMatchingMaxCandidates,
                (candidates @ [candidate], rowID candidate # candidateIDs)))"

text \<open>\<^verbatim>\<open>slices.ContainsFunc\<close> with a function that keeps a state.\<close>

fun containsFunc :: "('a \<Rightarrow> 's \<Rightarrow> bool \<times> 's) \<Rightarrow> 'a list \<Rightarrow> 's \<Rightarrow> bool \<times> 's" where
  "containsFunc f [] s = (False, s)"
| "containsFunc f (x # xs) s = (case f x s of (True, s') \<Rightarrow> (True, s') | (False, s') \<Rightarrow> containsFunc f xs s')"

text \<open>The four searches in order, left at the first that fills the list.\<close>

fun addAll ::
  "transferMatchingIndexedTransaction \<Rightarrow> transferMatchingIndexedTransaction list list \<Rightarrow> candidate_list \<Rightarrow>
   transferMatchingIndexedTransaction list" where
  "addAll transaction [] state = fst state"
| "addAll transaction (kind # kinds) state =
     (case containsFunc (addCandidate transaction) kind state of
        (True, state') \<Rightarrow> fst state'
      | (False, state') \<Rightarrow> addAll transaction kinds state')"

definition transferMatchingCandidates ::
  "'u currency_library \<Rightarrow> transferMatchingIndexedTransaction \<Rightarrow> transferMatchingIndexes \<Rightarrow>
   transferMatchingIndexedTransaction list" where
  "transferMatchingCandidates lib transaction indexes =
     addAll transaction
       [transferMatchingSameCurrencyCandidates transaction (byAmount indexes),
        transferMatchingFXCandidates lib transaction (byFX indexes),
        transferMatchingMonobankCandidates transaction (byMonobank indexes),
        transferMatchingPKOCandidates transaction (byPKO indexes)] ([], [])"

section \<open>Deciding\<close>

definition evaluateTransferMatchingStart ::
  "'u currency_library \<Rightarrow> transferMatchingIndexedTransaction \<Rightarrow> transferMatchingIndexes \<Rightarrow>
   transferMatchingPair option \<times> TransferMatchingAttemptCounts" where
  "evaluateTransferMatchingStart lib transaction indexes =
     (let counterparts = transferMatchingCandidates lib transaction indexes
      in if length counterparts = 0 then (None, zero_counts\<lparr>Unmatched := 1\<rparr>)
         else if length counterparts > 1 then (None, zero_counts\<lparr>Ambiguous := 1\<rparr>)
         else
           (let counterpart = counterparts ! 0;
                reverseCandidates = transferMatchingCandidates lib counterpart indexes
            in if length reverseCandidates \<noteq> 1 \<or> rowID (reverseCandidates ! 0) \<noteq> rowID transaction
               then (None, zero_counts\<lparr>Ambiguous := 1\<rparr>)
               else
                 (let first = ix_transaction transaction; second = ix_transaction counterpart
                  in if tmt_ID second < tmt_ID first
                     then (Some \<lparr>pair_first = second, pair_second = first\<rparr>, zero_counts)
                     else (Some \<lparr>pair_first = first, pair_second = second\<rparr>, zero_counts))))"

definition pairKey :: "transferMatchingPair \<Rightarrow> string \<times> string" where
  "pairKey pair = (tmt_ID (pair_first pair), tmt_ID (pair_second pair))"

text \<open>\<^verbatim>\<open>accepted[key] = *pair\<close>.\<close>

definition acceptPair :: "transferMatchingPair option \<Rightarrow> transferMatchingPair list \<Rightarrow> transferMatchingPair list" where
  "acceptPair pair accepted =
     (case pair of
        None \<Rightarrow> accepted
      | Some p \<Rightarrow> filter (\<lambda>q. pairKey q \<noteq> pairKey p) accepted @ [p])"

fun decideLoop ::
  "'u currency_library \<Rightarrow> transferMatchingIndexes \<Rightarrow> transferMatchingIndexedTransaction list \<Rightarrow>
   transferMatchingPair list \<Rightarrow> TransferMatchingAttemptCounts \<Rightarrow> World \<Rightarrow>
   (transferMatchingPair list \<times> TransferMatchingAttemptCounts \<times> go_error option) \<times> World" where
  "decideLoop lib indexes [] accepted counts w = ((accepted, counts, None), w)"
| "decideLoop lib indexes (transaction # rest) accepted counts w =
     (case contextErr w of
        (Some e, w') \<Rightarrow> (([], counts, Some e), w')
      | (None, w') \<Rightarrow>
          (case evaluateTransferMatchingStart lib transaction indexes of
             (pair, delta) \<Rightarrow>
               decideLoop lib indexes rest (acceptPair pair accepted)
                 (addTransferMatchingAttemptCounts counts delta) w'))"

text \<open>The extractor \<^verbatim>\<open>extractFXEvidence\<close> as a function with a boolean result.\<close>

definition extractOption :: "'u currency_library \<Rightarrow> string \<Rightarrow> fxEvidence option" where
  "extractOption lib description =
     (case extractFXEvidence lib description of Accepted e \<Rightarrow> Some e | _ \<Rightarrow> None)"

definition decideTransferMatchingPairs ::
  "'u currency_library \<Rightarrow> json_codec \<Rightarrow> TransferMatchingTransaction list \<Rightarrow> time \<Rightarrow> time \<Rightarrow> World \<Rightarrow>
   (transferMatchingPair list \<times> TransferMatchingAttemptCounts \<times> go_error option) \<times> World" where
  "decideTransferMatchingPairs lib codec transactions rangeStart rangeEndExclusive w =
     (let indexes = transferMatchingIndex codec transactions rangeStart rangeEndExclusive (extractOption lib)
      in case decideLoop lib indexes (ix_starting indexes) [] zero_counts w of
           ((accepted, counts, err), w') \<Rightarrow> ((sort_key pairKey accepted, counts, err), w'))"

section \<open>One matching attempt\<close>

definition loadTransferMatchingTransactions ::
  "TransferMatchingParams \<Rightarrow> (World, TransferMatchingTransaction list) action" where
  "loadTransferMatchingTransactions params =
     (case validateTransferMatchingRange (tmp_RangeStart params) (tmp_RangeEndExclusive params) of
        Some e \<Rightarrow> failA e
      | None \<Rightarrow>
          bindA (liftA contextErr) (\<lambda>cancelled. case cancelled of
            Some e \<Rightarrow> failA e
          | None \<Rightarrow>
              wrapA ''load eligible transfer matching transactions''
                (ListEligibleTransferMatchingTransactions (tmp_TenantID params) (tmp_RangeStart params)
                  (tmp_RangeEndExclusive params))))"

fun saveTransferMatchingPairs ::
  "TransferMatchingParams \<Rightarrow> transferMatchingPair list \<Rightarrow> TransferMatchingAttemptCounts \<Rightarrow> World \<Rightarrow>
   (TransferMatchingAttemptCounts \<times> go_error option) \<times> World" where
  "saveTransferMatchingPairs params [] counts w =
     (case contextErr w of (cancelled, w') \<Rightarrow> ((counts, cancelled), w'))"
| "saveTransferMatchingPairs params (pair # rest) counts w =
     (case contextErr w of
        (Some e, w') \<Rightarrow> ((counts, Some e), w')
      | (None, w') \<Rightarrow>
          (case readClock w' of
             (matchedAt, w') \<Rightarrow>
               (case drawID w' of
                  (groupID, w') \<Rightarrow>
                    (case LinkTransferPair
                            \<lparr>tpl_TenantID = tmp_TenantID params,
                             tpl_FirstTransactionID = tmt_ID (pair_first pair),
                             tpl_SecondTransactionID = tmt_ID (pair_second pair),
                             tpl_TransferGroupID = groupID,
                             tpl_TransferMatchedAt = matchedAt,
                             tpl_UpdatedAt = matchedAt\<rparr> w' of
                       (Inr _, w') \<Rightarrow>
                         saveTransferMatchingPairs params rest
                           (counts\<lparr>MatchedPairs := MatchedPairs counts + 1\<rparr>) w'
                     | (Inl e, w') \<Rightarrow>
                         if errors_is e ErrTransferPairTransactionNotFound
                         then saveTransferMatchingPairs params rest
                                (counts\<lparr>Skipped := Skipped counts + 1\<rparr>) w'
                         else ((counts, Some (Wrap ''save transfer matching pair'' e)), w')))))"

text \<open>Counts are returned next to an error.\<close>

definition TransferMatch ::
  "'u currency_library \<Rightarrow> TransferMatchingParams \<Rightarrow> World \<Rightarrow>
   (TransferMatchingAttemptCounts \<times> go_error option) \<times> World" where
  "TransferMatch lib params w =
     (case readClock w of
        (startedAt, w) \<Rightarrow>
          (case loadTransferMatchingTransactions params w of
             (Inl e, w') \<Rightarrow> ((zero_counts, Some e), w')
           | (Inr transactions, w') \<Rightarrow>
               (case decideTransferMatchingPairs lib (w_json w') transactions (tmp_RangeStart params)
                       (tmp_RangeEndExclusive params) w' of
                  ((plannedPairs, counts, Some e), w') \<Rightarrow> ((counts, Some e), w')
                | ((plannedPairs, counts, None), w') \<Rightarrow>
                    saveTransferMatchingPairs params plannedPairs counts w')))"

end
