(* ===== verification/FxProperties.thy ===== *)
theory FxProperties
  imports FxEvidence
begin

text \<open>
  What the FX evidence is worth: the parser never panics, a description written in the
  documented form is read back, two rates have the same normal form exactly when they
  are the same number, and the conversion check is symmetric in the two transactions and
  rounds half up.
\<close>

section \<open>Digits\<close>

abbreviation digits :: "string \<Rightarrow> bool" where
  "digits s \<equiv> list_all is_digit s"

lemma is_digit_code: "is_digit c \<longleftrightarrow> 48 \<le> (of_char c :: nat) \<and> (of_char c :: nat) \<le> 57"
  by (simp add: is_digit_def less_eq_char_def)

lemma digit_value_bounds: "is_digit c \<Longrightarrow> 0 \<le> digit_value c \<and> digit_value c \<le> 9"
  by (auto simp: is_digit_code digit_value_def)

lemma digit_value_inject:
  assumes "is_digit c" "is_digit d" "digit_value c = digit_value d"
  shows "c = d"
proof -
  have "(of_char c :: nat) = of_char d" using assms by (auto simp: is_digit_code digit_value_def)
  then show ?thesis by simp
qed

lemma digit_value_zero: "is_digit c \<Longrightarrow> digit_value c = 0 \<longleftrightarrow> c = CHR ''0''"
  using digit_value_inject [of c "CHR ''0''"] by (auto simp: digit_value_def is_digit_def)

lemma not_digit_separators:
  "\<not> is_digit (CHR ''.'')" "\<not> is_digit (CHR '','')" "\<not> is_digit (CHR '' '')" "\<not> is_digit (CHR ''/'')"
  by (simp_all add: is_digit_code)

lemma decimal_value_snoc [simp]: "decimal_value (s @ [c]) = 10 * decimal_value s + digit_value c"
  by (simp add: decimal_value_def fxDecimalRadix_def)

lemma decimal_value_Nil [simp]: "decimal_value [] = 0"
  by (simp add: decimal_value_def)

lemma decimal_value_single [simp]: "decimal_value [c] = digit_value c"
  by (simp add: decimal_value_def)

lemma decimal_value_zeros: "decimal_value (s @ replicate k (CHR ''0'')) = decimal_value s * 10 ^ k"
proof (induction k)
  case (Suc k)
  have "s @ replicate (Suc k) (CHR ''0'') = (s @ replicate k (CHR ''0'')) @ [CHR ''0'']"
    by (simp add: replicate_append_same)
  then show ?case using Suc by (simp only: decimal_value_snoc) (simp add: digit_value_def)
qed simp

lemma decimal_value_leading: "decimal_value (CHR ''0'' # s) = decimal_value s"
  by (simp add: decimal_value_def digit_value_def)

lemma decimal_value_stripped: "decimal_value (dropWhile (\<lambda>c. c = CHR ''0'') s) = decimal_value s"
  by (induction s) (auto simp: decimal_value_leading)

lemma decimal_value_nonneg: "digits s \<Longrightarrow> 0 \<le> decimal_value s"
  by (induction s rule: rev_induct) (auto dest: digit_value_bounds)

lemma decimal_value_pos:
  "digits s \<Longrightarrow> s \<noteq> [] \<Longrightarrow> hd s \<noteq> CHR ''0'' \<Longrightarrow> 0 < decimal_value s"
proof (induction s rule: rev_induct)
  case (snoc c s)
  show ?case
  proof (cases "s = []")
    case True
    then show ?thesis
      using snoc.prems digit_value_zero [of c] digit_value_bounds [of c] by auto
  next
    case False
    then show ?thesis using snoc digit_value_bounds [of c] by auto
  qed
qed simp

lemma decimal_value_last: "digits s \<Longrightarrow> s \<noteq> [] \<Longrightarrow> decimal_value s mod 10 = digit_value (last s)"
  by (cases s rule: rev_cases) (auto dest!: digit_value_bounds)

text \<open>Without leading zeros a number is written in one way.\<close>

lemma decimal_value_inject:
  assumes "digits s" "digits t" "decimal_value s = decimal_value t"
    and "s \<noteq> [] \<Longrightarrow> hd s \<noteq> CHR ''0''" "t \<noteq> [] \<Longrightarrow> hd t \<noteq> CHR ''0''"
  shows "s = t"
  using assms
proof (induction s arbitrary: t rule: rev_induct)
  case Nil
  then show ?case using decimal_value_pos [of t] by fastforce
next
  case (snoc c s)
  then have "t \<noteq> []" using decimal_value_pos [of "s @ [c]"] by auto
  then obtain u d where t: "t = u @ [d]" by (cases t rule: rev_cases) auto
  have bounds: "0 \<le> digit_value c" "digit_value c \<le> 9" "0 \<le> digit_value d" "digit_value d \<le> 9"
    using snoc.prems t digit_value_bounds by auto
  have "10 * decimal_value s + digit_value c = 10 * decimal_value u + digit_value d"
    using snoc.prems(3) t by simp
  with bounds have same: "decimal_value s = decimal_value u" by linarith
  with \<open>10 * decimal_value s + digit_value c = _\<close> have "digit_value c = digit_value d" by simp
  moreover have "s = u"
    using snoc.IH [of u] snoc.prems t same by (auto simp: hd_append split: if_splits)
  ultimately show ?case using t snoc.prems digit_value_inject by auto
qed

section \<open>The normal form of a rate\<close>

lemma dropTrailingZeros_spec:
  assumes "c \<noteq> []" "hd c \<noteq> CHR ''0''"
  obtains c' s where "dropTrailingZeros c n = Accepted (c', s)" "s \<le> n"
    "c = c' @ replicate (n - s) (CHR ''0'')" "c' \<noteq> []" "hd c' = hd c"
    "s > 0 \<Longrightarrow> last c' \<noteq> CHR ''0''"
proof -
  have "\<exists>c' s. dropTrailingZeros c n = Accepted (c', s) \<and> s \<le> n \<and>
      c = c' @ replicate (n - s) (CHR ''0'') \<and> c' \<noteq> [] \<and> hd c' = hd c \<and>
      (s > 0 \<longrightarrow> last c' \<noteq> CHR ''0'')"
    using assms
  proof (induction n arbitrary: c)
    case (Suc n)
    show ?case
    proof (cases "last c = CHR ''0''")
      case True
      then obtain b where b: "c = b @ [CHR ''0'']" "b \<noteq> []" "hd b = hd c"
        using Suc.prems by (cases c rule: rev_cases) (auto simp: hd_append split: if_splits)
      then have "hd b \<noteq> CHR ''0''" using Suc.prems by simp
      with Suc.IH [OF b(2)] obtain c' s where "dropTrailingZeros b n = Accepted (c', s)" "s \<le> n"
        "b = c' @ replicate (n - s) (CHR ''0'')" "c' \<noteq> []" "hd c' = hd b" "s > 0 \<longrightarrow> last c' \<noteq> CHR ''0''"
        by blast
      moreover from this b have "c = c' @ replicate (Suc n - s) (CHR ''0'')"
        by (simp add: Suc_diff_le replicate_append_same)
      moreover have "dropTrailingZeros c (Suc n) = dropTrailingZeros b n"
        using b by simp
      moreover have "s \<le> Suc n" "hd c' = hd c" using calculation b(3) by simp_all
      ultimately show ?thesis by metis
    qed (use Suc.prems in auto)
  qed auto
  with that show thesis by blast
qed

text \<open>A rate as it is written: the integer digits, and after a separator the fraction.\<close>

definition rateText :: "string \<Rightarrow> char \<Rightarrow> string \<Rightarrow> string" where
  "rateText integer separator fraction =
     (if fraction = '''' then integer else integer @ separator # fraction)"

lemma digits_no_separator:
  "digits s \<Longrightarrow> CHR ''.'' \<notin> set s \<and> CHR '','' \<notin> set s"
  using not_digit_separators by (auto simp: list_all_iff)

lemma digits_list_ex: "digits s \<Longrightarrow> \<not> list_ex (\<lambda>c. c = CHR ''.'' \<or> c = CHR '','') s"
  using digits_no_separator by (auto simp: list_ex_iff)

lemma stringsCut_at:
  "c \<notin> set a \<Longrightarrow> stringsCut (a @ c # b) c = (a, b, True)"
  by (simp add: stringsCut_def takeWhile_tail)
     (induction a, auto)

lemma stringsCut_none: "c \<notin> set a \<Longrightarrow> stringsCut a c = (a, '''', False)"
  by (simp add: stringsCut_def)

lemma normalizeFXRate_text:
  assumes "digits i" "digits f" "sep = CHR ''.'' \<or> sep = CHR '',''"
  shows "normalizeFXRate (rateText i sep f) =
    (let coefficient = dropWhile (\<lambda>c. c = CHR ''0'') (i @ f)
     in if coefficient = '''' then Rejected
        else (case dropTrailingZeros coefficient (length f) of
                Panic \<Rightarrow> Panic | Rejected \<Rightarrow> Rejected
              | Accepted (coefficient, scale) \<Rightarrow> Accepted (coefficient, int scale)))"
proof -
  note parts = digits_no_separator [OF assms(1)] digits_no_separator [OF assms(2)]
  note plain = digits_list_ex [OF assms(1)] digits_list_ex [OF assms(2)]
  have "(case stringsCut (rateText i sep f) (CHR ''.'') of
          (integerPart, fractionalPart, hasDecimal) \<Rightarrow>
            if \<not> hasDecimal
            then (case stringsCut integerPart (CHR '','') of (integerPart, fractionalPart, _) \<Rightarrow>
                    (integerPart, fractionalPart))
            else (integerPart, fractionalPart)) = (i, f)"
  proof (cases "f = ''''")
    case True
    with parts show ?thesis by (simp add: rateText_def stringsCut_none)
  next
    case False
    show ?thesis
    proof (cases "sep = CHR ''.''")
      case True
      with parts False show ?thesis by (simp add: rateText_def stringsCut_at)
    next
      case False
      with assms(3) have sep: "sep = CHR '',''" by simp
      with parts \<open>f \<noteq> ''''\<close> show ?thesis
        by (simp add: rateText_def stringsCut_none [of "CHR ''.''"] stringsCut_at)
    qed
  qed
  then show ?thesis using plain by (simp only: normalizeFXRate_def Let_def) simp
qed

lemma normalizeFXRate_value:
  assumes "digits i" "digits f" "sep = CHR ''.'' \<or> sep = CHR '',''"
  shows "(normalizeFXRate (rateText i sep f) = Rejected \<and> decimal_value (i @ f) = 0) \<or>
    (\<exists>c s. normalizeFXRate (rateText i sep f) = Accepted (c, int s) \<and> digits c \<and> c \<noteq> [] \<and>
       hd c \<noteq> CHR ''0'' \<and> (s > 0 \<longrightarrow> last c \<noteq> CHR ''0'') \<and> s \<le> length f \<and>
       decimal_value (i @ f) = decimal_value c * 10 ^ (length f - s))"
proof (cases "dropWhile (\<lambda>c. c = CHR ''0'') (i @ f) = ''''")
  case True
  then have "decimal_value (i @ f) = 0"
    using decimal_value_stripped [of "i @ f"] by (metis decimal_value_Nil)
  with True show ?thesis using normalizeFXRate_text [OF assms] by simp
next
  case False
  define k where "k = dropWhile (\<lambda>c. c = CHR ''0'') (i @ f)"
  have "hd k \<noteq> CHR ''0''" "k \<noteq> []"
    using False hd_dropWhile [of "\<lambda>c. c = CHR ''0''" "i @ f"] by (auto simp: k_def)
  then obtain c s where cs: "dropTrailingZeros k (length f) = Accepted (c, s)" "s \<le> length f"
      "k = c @ replicate (length f - s) (CHR ''0'')" "c \<noteq> []" "hd c = hd k" "s > 0 \<Longrightarrow> last c \<noteq> CHR ''0''"
    by (blast elim: dropTrailingZeros_spec)
  have "digits (i @ f)" using assms by simp
  then have "digits k" unfolding k_def by (auto simp: list_all_iff dest: set_dropWhileD)
  then have "digits c" using cs(3) by simp
  moreover have "decimal_value (i @ f) = decimal_value c * 10 ^ (length f - s)"
    using decimal_value_stripped [of "i @ f"] decimal_value_zeros [of c] cs(3) by (simp add: k_def)
  moreover have "normalizeFXRate (rateText i sep f) = Accepted (c, int s)"
    using normalizeFXRate_text [OF assms] cs(1) False by (simp add: k_def)
  moreover have "hd c \<noteq> CHR ''0''" using cs(5) \<open>hd k \<noteq> CHR ''0''\<close> by (simp only: not_False_eq_True)
  moreover have "s > 0 \<longrightarrow> last c \<noteq> CHR ''0''" using cs(6) by blast
  ultimately show ?thesis using cs(2,4) by blast
qed

text \<open>Two rates in normal form that are the same number are the same text and scale.\<close>

lemma normal_rates_equal:
  assumes "digits c" "c \<noteq> []" "hd c \<noteq> CHR ''0''" "s > 0 \<longrightarrow> last c \<noteq> CHR ''0''"
    and "digits d" "d \<noteq> []" "hd d \<noteq> CHR ''0''" "t > 0 \<longrightarrow> last d \<noteq> CHR ''0''"
    and same: "decimal_value c * 10 ^ t = decimal_value d * 10 ^ s"
  shows "c = d \<and> s = t"
proof -
  have above: "\<not> s < t" if "digits d" "d \<noteq> []" "t > 0 \<longrightarrow> last d \<noteq> CHR ''0''"
    and same: "decimal_value c * 10 ^ t = decimal_value d * 10 ^ s" for c d s t
  proof
    assume "s < t"
    then obtain k where t: "t = s + Suc k" using less_imp_Suc_add by auto
    have "decimal_value d * 10 ^ s = (10 * (decimal_value c * 10 ^ k)) * 10 ^ s"
      using same by (simp add: t power_add ac_simps)
    then have "decimal_value d = 10 * (decimal_value c * 10 ^ k)" by simp
    then have "decimal_value d mod 10 = 0" by simp
    then have "digit_value (last d) = 0" using decimal_value_last [of d] that by simp
    moreover have "is_digit (last d)" using that by (simp add: list_all_iff)
    ultimately show False using that t digit_value_zero by auto
  qed
  have "\<not> s < t" by (rule above [OF assms(5,6,8) same])
  moreover have "\<not> t < s" by (rule above [OF assms(1,2,4) same [symmetric]])
  ultimately have "s = t" by simp
  with same have "decimal_value c = decimal_value d" by simp
  with decimal_value_inject [of c d] assms \<open>s = t\<close> show ?thesis by simp
qed

text \<open>C19. The normal form of a written rate is a name for the number: two rates, written
  with any number of leading and trailing zeros and either decimal separator, get the
  same coefficient and scale (or are both rejected) exactly when they are the same
  number.\<close>

theorem equal_rates_have_one_normal_form:
  assumes "digits i" "digits f" "sep = CHR ''.'' \<or> sep = CHR '',''"
    and "digits j" "digits g" "sep' = CHR ''.'' \<or> sep' = CHR '',''"
  shows "normalizeFXRate (rateText i sep f) = normalizeFXRate (rateText j sep' g) \<longleftrightarrow>
    decimal_value (i @ f) * 10 ^ length g = decimal_value (j @ g) * 10 ^ length f"
    (is "?n1 = ?n2 \<longleftrightarrow> ?v * _ = ?w * _")
proof -
  note first = normalizeFXRate_value [OF assms(1-3)]
  note second = normalizeFXRate_value [OF assms(4-6)]
  show ?thesis
  proof (cases "?n1 = Rejected \<or> ?n2 = Rejected")
    case True
    then show ?thesis using first second decimal_value_pos by (auto; fastforce)
  next
    case False
    then obtain c s d t where
      c: "?n1 = Accepted (c, int s)" "digits c" "c \<noteq> []" "hd c \<noteq> CHR ''0''"
        "s > 0 \<longrightarrow> last c \<noteq> CHR ''0''" "s \<le> length f" "?v = decimal_value c * 10 ^ (length f - s)" and
      d: "?n2 = Accepted (d, int t)" "digits d" "d \<noteq> []" "hd d \<noteq> CHR ''0''"
        "t > 0 \<longrightarrow> last d \<noteq> CHR ''0''" "t \<le> length g" "?w = decimal_value d * 10 ^ (length g - t)"
      using first second by blast
    have v: "?v * 10 ^ length g * (10 ^ s * 10 ^ t) = decimal_value c * 10 ^ t * (10 ^ length f * 10 ^ length g)"
      using c(6) by (simp add: c(7) flip: power_add)
    have w: "?w * 10 ^ length f * (10 ^ s * 10 ^ t) = decimal_value d * 10 ^ s * (10 ^ length f * 10 ^ length g)"
      using d(6) by (simp add: d(7) flip: power_add)
    have "?v * 10 ^ length g = ?w * 10 ^ length f \<longleftrightarrow>
        decimal_value c * 10 ^ t = decimal_value d * 10 ^ s"
      using v w by (metis mult_right_cancel no_zero_divisors power_not_zero zero_neq_numeral)
    also have "\<dots> \<longleftrightarrow> c = d \<and> s = t"
      using normal_rates_equal [OF c(2-5) d(2-5)] by blast
    finally show ?thesis using c(1) d(1) by auto
  qed
qed

theorem equal_rates_have_one_normal_form_witness:
  "normalizeFXRate (rateText ''004'' (CHR '','') ''2500'') = normalizeFXRate (rateText ''4'' (CHR ''.'') ''25'')"
  by (subst equal_rates_have_one_normal_form) (simp_all add: is_digit_code decimal_value_def fxDecimalRadix_def digit_value_def)

section \<open>No description makes the parser panic\<close>

lemma normalizeFXRate_no_panic: "normalizeFXRate rate \<noteq> Panic"
proof -
  have no_panic: "dropTrailingZeros (dropWhile (\<lambda>c. c = CHR ''0'') x) n \<noteq> Panic"
    if "dropWhile (\<lambda>c. c = CHR ''0'') x \<noteq> ''''" for x n
    using dropTrailingZeros_spec [of "dropWhile (\<lambda>c. c = CHR ''0'') x" n]
      hd_dropWhile [of "\<lambda>c. c = CHR ''0''" x] that by (metis attempt.distinct(3))
  obtain ip fp where
    "(case stringsCut rate (CHR ''.'') of
       (integerPart, fractionalPart, hasDecimal) \<Rightarrow>
         if \<not> hasDecimal
         then (case stringsCut integerPart (CHR '','') of (integerPart, fractionalPart, _) \<Rightarrow>
                 (integerPart, fractionalPart))
         else (integerPart, fractionalPart)) = (ip, fp)"
    by (rule prod.exhaust)
  then show ?thesis
    using no_panic [of "ip @ fp" "length fp"] unfolding normalizeFXRate_def
    by (simp add: Let_def split: attempt.splits del: dropWhile_eq_Nil_conv) blast
qed


section \<open>Descriptions that are read back\<close>

text \<open>The consumers on a description whose next part is known.\<close>

lemma consume_literal [simp]: "consumeFXLiteral (pre @ lit @ suf) (length pre) lit = Some (length (pre @ lit))"
  by (simp add: consumeFXLiteral_def hasPrefix_def)

lemma takeWhile_digits:
  assumes "digits ds" "suf = [] \<or> \<not> is_digit (hd suf)"
  shows "takeWhile is_digit (ds @ suf) = ds"
proof -
  have "takeWhile is_digit (ds @ suf) = ds @ takeWhile is_digit suf"
    using assms(1) by (intro takeWhile_append2) (simp add: list_all_iff)
  with assms(2) show ?thesis by (cases suf) auto
qed

lemma consume_digits:
  assumes "digits ds" "ds \<noteq> []" "suf = [] \<or> \<not> is_digit (hd suf)"
  shows "consumeFXDigits (pre @ ds @ suf) (length pre) = Some (ds, length (pre @ ds))"
  using assms by (simp add: consumeFXDigits_def digits_end_def takeWhile_digits slice_def)

lemma consume_currency:
  assumes "length code = 3" "list_all (\<lambda>c. CHR ''A'' \<le> c \<and> c \<le> CHR ''Z'') code"
  shows "consumeFXCurrency (pre @ code @ suf) (length pre) = Some (code, length (pre @ code))"
  using assms by (simp add: consumeFXCurrency_def slice_def Let_def)

lemma consume_rate:
  assumes "digits i" "i \<noteq> []" "digits f" "f \<noteq> []" "sep = CHR ''.'' \<or> sep = CHR '',''"
  shows "consumeFXRate (pre @ i @ sep # f) (length pre) = Some (i @ sep # f, False, length (pre @ i @ sep # f))"
proof -
  have first: "consumeFXDigits (pre @ i @ sep # f) (length pre) = Some (i, length (pre @ i))"
    using assms not_digit_separators by (intro consume_digits) auto
  have second: "consumeFXDigits (pre @ i @ sep # f) (Suc (length pre + length i)) =
      Some (f, length (pre @ i @ sep # f))"
    using consume_digits [OF assms(3,4), of "[]" "pre @ i @ [sep]"] by simp
  have at: "(pre @ i @ sep # f) ! (length pre + length i) = sep"
    by (simp add: nth_append)
  show ?thesis
    using assms(5) by (auto simp: consumeFXRate_def first second at slice_def)
qed

lemma consume_whole_rate:
  assumes "digits i" "i \<noteq> []"
  shows "consumeFXRate (pre @ i) (length pre) = Some (i, False, length (pre @ i))"
  using consume_digits [OF assms, of "[]" pre] by (simp add: consumeFXRate_def slice_def)

text \<open>The documented form of an exchange's description.\<close>

definition fxDescription :: "string \<Rightarrow> string \<Rightarrow> string \<Rightarrow> string \<Rightarrow> string" where
  "fxDescription reference baseCurrency quoteCurrency rate =
     ''FX'' @ reference @ '' '' @ baseCurrency @ ''/'' @ quoteCurrency @ '' '' @ rate"

definition currency_code :: "string \<Rightarrow> bool" where
  "currency_code code \<longleftrightarrow> length code = 3 \<and> list_all (\<lambda>c. CHR ''A'' \<le> c \<and> c \<le> CHR ''Z'') code"

lemma consume_header:
  assumes "digits reference" "reference \<noteq> []" "currency_code base" "currency_code quote" "base \<noteq> quote"
    and "isRecognizedCurrency lib base" "isRecognizedCurrency lib quote"
  shows "consumeFXHeader lib (fxDescription reference base quote rate) =
    Some (reference, base, quote, length (''FX'' @ reference @ '' '' @ base @ ''/'' @ quote @ '' ''))"
proof -
  let ?d = "fxDescription reference base quote rate"
  have 1: "consumeFXLiteral ?d 0 ''FX'' = Some 2"
    using consume_literal [of "[]" "''FX''"] by (simp add: fxDescription_def)
  have 2: "consumeFXDigits ?d 2 = Some (reference, 2 + length reference)"
    using consume_digits [of reference "'' '' @ base @ ''/'' @ quote @ '' '' @ rate" "''FX''"]
      assms not_digit_separators by (simp add: fxDescription_def numeral_eq_Suc)
  have 3: "consumeFXLiteral ?d (2 + length reference) '' '' = Some (3 + length reference)"
    using consume_literal [of "''FX'' @ reference" "'' ''"] by (simp add: fxDescription_def)
  have 4: "consumeFXCurrency ?d (3 + length reference) = Some (base, 6 + length reference)"
    using consume_currency [of base "''FX'' @ reference @ '' ''"] assms
    by (simp add: fxDescription_def currency_code_def numeral_eq_Suc)
  have 5: "consumeFXLiteral ?d (6 + length reference) ''/'' = Some (7 + length reference)"
    using consume_literal [of "''FX'' @ reference @ '' '' @ base" "''/''"] assms
    by (simp add: fxDescription_def currency_code_def numeral_eq_Suc)
  have 6: "consumeFXCurrency ?d (7 + length reference) = Some (quote, 10 + length reference)"
    using consume_currency [of quote "''FX'' @ reference @ '' '' @ base @ ''/''"] assms
    by (simp add: fxDescription_def currency_code_def numeral_eq_Suc)
  have 7: "consumeFXLiteral ?d (10 + length reference) '' '' = Some (11 + length reference)"
    using consume_literal [of "''FX'' @ reference @ '' '' @ base @ ''/'' @ quote" "'' ''"] assms
    by (simp add: fxDescription_def currency_code_def numeral_eq_Suc)
  show ?thesis
    unfolding consumeFXHeader_def
    by (simp only: Option.bind.simps prod.case 1 2 3 4 5 6 7)
       (use assms in \<open>simp add: currency_code_def\<close>)
qed

text \<open>Evidence as the parser is meant to return it, and how it is written.\<close>

definition well_formed_fx :: "'u currency_library \<Rightarrow> fxEvidence \<Rightarrow> bool" where
  "well_formed_fx lib e \<longleftrightarrow>
     fx_namespace e = ''FX'' \<and> digits (fx_reference e) \<and> fx_reference e \<noteq> '''' \<and>
     currency_code (fx_baseCurrency e) \<and> currency_code (fx_quoteCurrency e) \<and>
     fx_baseCurrency e \<noteq> fx_quoteCurrency e \<and>
     isRecognizedCurrency lib (fx_baseCurrency e) \<and> isRecognizedCurrency lib (fx_quoteCurrency e) \<and>
     digits (fx_rateCoefficient e) \<and> fx_rateCoefficient e \<noteq> '''' \<and>
     hd (fx_rateCoefficient e) \<noteq> CHR ''0'' \<and> 0 \<le> fx_rateScale e \<and>
     (0 < fx_rateScale e \<longrightarrow> last (fx_rateCoefficient e) \<noteq> CHR ''0'')"

definition writeFXRate :: "char \<Rightarrow> string \<Rightarrow> nat \<Rightarrow> string" where
  "writeFXRate separator coefficient scale =
     (let padded = replicate (Suc scale - length coefficient) (CHR ''0'') @ coefficient;
          point = length padded - scale
      in rateText (take point padded) separator (drop point padded))"

definition describeFX :: "char \<Rightarrow> fxEvidence \<Rightarrow> string" where
  "describeFX separator e =
     fxDescription (fx_reference e) (fx_baseCurrency e) (fx_quoteCurrency e)
       (writeFXRate separator (fx_rateCoefficient e) (nat (fx_rateScale e)))"

lemma writeFXRate_parts:
  assumes "digits c" "c \<noteq> ''''"
  obtains i f where "writeFXRate sep c s = rateText i sep f" "digits i" "i \<noteq> ''''" "digits f"
    "length f = s" "i @ f = replicate (Suc s - length c) (CHR ''0'') @ c"
proof -
  define p where "p = replicate (Suc s - length c) (CHR ''0'') @ c"
  have "digits p" using assms by (auto simp: p_def list_all_iff is_digit_def)
  moreover have long: "s < length p" using assms by (simp add: p_def)
  moreover have "digits (take (length p - s) p)" "digits (drop (length p - s) p)"
    using \<open>digits p\<close> by (auto simp: list_all_iff dest: in_set_takeD in_set_dropD)
  moreover have "take (length p - s) p \<noteq> ''''" using long by auto
  ultimately show thesis
    using that [of "take (length p - s) p" "drop (length p - s) p"]
    by (simp add: writeFXRate_def Let_def flip: p_def)
qed

lemma dropWhile_zeros: "c \<noteq> [] \<Longrightarrow> hd c \<noteq> z \<Longrightarrow> dropWhile (\<lambda>x. x = z) (replicate k z @ c) = c"
  by (induction k) (auto simp: neq_Nil_conv)

lemma normalize_written:
  assumes "digits c" "c \<noteq> ''''" "hd c \<noteq> CHR ''0''" "s > 0 \<longrightarrow> last c \<noteq> CHR ''0''"
    and "sep = CHR ''.'' \<or> sep = CHR '',''"
  shows "normalizeFXRate (writeFXRate sep c s) = Accepted (c, int s)"
proof -
  obtain i f where p: "writeFXRate sep c s = rateText i sep f" "digits i" "digits f" "length f = s"
      "i @ f = replicate (Suc s - length c) (CHR ''0'') @ c"
    using writeFXRate_parts [OF assms(1,2)] by metis
  have "dropTrailingZeros c s = Accepted (c, s)"
    using assms by (cases s) auto
  with p assms show ?thesis
    by (simp add: normalizeFXRate_text dropWhile_zeros del: dropWhile_eq_Nil_conv replicate_Suc)
qed

text \<open>C21. Every well-formed piece of FX evidence, written as a transaction description with
  either decimal separator, is read back as exactly that evidence.\<close>

theorem fx_description_round_trip:
  assumes "well_formed_fx lib e" "sep = CHR ''.'' \<or> sep = CHR '',''"
  shows "extractFXEvidence lib (describeFX sep e) = Accepted e"
proof -
  let ?rate = "writeFXRate sep (fx_rateCoefficient e) (nat (fx_rateScale e))"
  note wf = assms(1) [unfolded well_formed_fx_def]
  define pre where "pre = ''FX'' @ fx_reference e @ '' '' @ fx_baseCurrency e @ ''/'' @ fx_quoteCurrency e @ '' ''"
  have header: "consumeFXHeader lib (describeFX sep e) =
      Some (fx_reference e, fx_baseCurrency e, fx_quoteCurrency e, length pre)"
    unfolding describeFX_def pre_def using wf by (intro consume_header) auto
  obtain i f where parts: "?rate = rateText i sep f" "digits i" "i \<noteq> ''''" "digits f"
    using writeFXRate_parts [of "fx_rateCoefficient e"] wf by metis
  have written: "describeFX sep e = pre @ rateText i sep f"
    by (simp add: describeFX_def fxDescription_def pre_def parts(1))
  have "consumeFXRate (pre @ rateText i sep f) (length pre) =
      Some (rateText i sep f, False, length (pre @ rateText i sep f))"
    using parts assms(2) consume_whole_rate consume_rate by (cases "f = ''''") (auto simp: rateText_def)
  moreover have "normalizeFXRate (rateText i sep f) = Accepted (fx_rateCoefficient e, fx_rateScale e)"
    using normalize_written [of "fx_rateCoefficient e" "nat (fx_rateScale e)" sep] wf assms(2) parts(1) by simp
  ultimately show ?thesis
    using header wf by (simp add: extractFXEvidence_def written)
qed

text \<open>The currencies of the examples; the library itself is not part of the repository.\<close>

definition example_currencies :: "string currency_library" where
  "example_currencies =
     \<lparr>cur_ParseISO = (\<lambda>code. if code \<in> {''EUR'', ''USD'', ''PLN'', ''JPY'', ''XXX''} then Some code else None),
      cur_XXX = ''XXX'',
      cur_StandardRounding = (\<lambda>unit. if unit = ''JPY'' then 0 else 2)\<rparr>"

definition example_evidence :: fxEvidence where
  "example_evidence =
     \<lparr>fx_namespace = ''FX'', fx_reference = ''7'', fx_baseCurrency = ''EUR'', fx_quoteCurrency = ''PLN'',
      fx_rateCoefficient = ''425'', fx_rateScale = 2\<rparr>"

theorem fx_description_round_trip_witness:
  "extractFXEvidence example_currencies ''FX7 EUR/PLN 4,25'' = Accepted example_evidence"
proof -
  have "describeFX (CHR '','') example_evidence = ''FX7 EUR/PLN 4,25''"
    by code_simp
  moreover have "well_formed_fx example_currencies example_evidence"
    by code_simp
  ultimately show ?thesis
    using fx_description_round_trip [of example_currencies example_evidence "CHR '',''"] by simp
qed

text \<open>
  Between the decimal separator and the amounts, the parser checks only that the byte
  after four fraction bytes is a digit; the four bytes need not be digits. Such evidence
  has a coefficient that is no number; \<open>fxConversionMatches\<close> later rejects it.
\<close>

lemma malformed_rate_is_evidence:
  "extractFXEvidence example_currencies ''FX7 EUR/PLN 1.2xyz5,00 EUR -5,00 PLN'' =
   Accepted (example_evidence\<lparr>fx_rateCoefficient := ''12xyz'', fx_rateScale := 4\<rparr>)"
  by code_simp

section \<open>The conversion check\<close>

text \<open>
  The specification: the quote amount is the base amount times the rate, in the minor
  units of the quote currency, rounded half up. \<open>n\<close> over \<open>d\<close> is the exact value.
\<close>

definition rounds_half_up :: "int \<Rightarrow> int \<Rightarrow> int \<Rightarrow> bool" where
  "rounds_half_up n d q \<longleftrightarrow> (2 * q - 1) * d \<le> 2 * n \<and> 2 * n < (2 * q + 1) * d"

lemma half_up_quotient:
  assumes "0 < d"
  shows "(if d \<le> push_bit 1 (n mod d) then n div d + 1 else n div d) = q \<longleftrightarrow> rounds_half_up n d q"
proof -
  define k r where "k = n div d" and "r = n mod d"
  have n: "n = k * d + r" and r: "0 \<le> r" "r < d" using assms by (auto simp: k_def r_def)
  have split: "rounds_half_up n d q \<longleftrightarrow> (2 * (q - k) - 1) * d \<le> 2 * r \<and> 2 * r < (2 * (q - k) + 1) * d"
    by (simp add: rounds_half_up_def n algebra_simps)
  have unique: "rounds_half_up n d x \<Longrightarrow> rounds_half_up n d y \<Longrightarrow> x = y" for x y
  proof -
    assume "rounds_half_up n d x" "rounds_half_up n d y"
    then have "(2 * x - 1) * d < (2 * y + 1) * d" "(2 * y - 1) * d < (2 * x + 1) * d"
      by (auto simp: rounds_half_up_def)
    then have "2 * x - 1 < 2 * y + 1" "2 * y - 1 < 2 * x + 1"
      using assms by (auto simp: mult_less_cancel_right)
    then show "x = y" by linarith
  qed
  have "rounds_half_up n d (if d \<le> 2 * r then k + 1 else k)"
    using r by (auto simp: rounds_half_up_def n algebra_simps)
  then show ?thesis using unique by (auto simp: k_def r_def)
qed


lemma powerOfTen_pos: "0 < powerOfTen s"
  by (simp add: powerOfTen_def fxDecimalRadix_def)

text \<open>The conversion check does not depend on which of the two transactions is named
  first, so a candidate of a transaction has that transaction as its candidate.\<close>

theorem fx_conversion_is_symmetric:
  "fxConversionMatches lib e c1 a1 c2 a2 = fxConversionMatches lib e c2 a2 c1 a1"
proof (cases "fx_baseCurrency e = fx_quoteCurrency e")
  case False
  then show ?thesis
    unfolding fxConversionMatches_def
    by (cases "positiveMinorMagnitude a1"; cases "positiveMinorMagnitude a2"; auto)
qed (simp add: fxConversionMatches_def)

text \<open>C23. For evidence with recognized currencies and a positive rate, the check on a base
  amount and a quote amount of opposite signs decides exactly whether the quote amount is
  the base amount converted at the rate and rounded half up to the quote currency's minor
  unit, with no overflow at any magnitude.\<close>

theorem fx_conversion_rounds_half_up:
  assumes "fx_baseCurrency e \<noteq> fx_quoteCurrency e" "0 \<le> fx_rateScale e"
    and "parseCurrency lib (fx_baseCurrency e) = Some baseUnit" "0 \<le> cur_StandardRounding lib baseUnit"
    and "parseCurrency lib (fx_quoteCurrency e) = Some quoteUnit" "0 \<le> cur_StandardRounding lib quoteUnit"
    and "positiveDecimalInteger (fx_rateCoefficient e) = Some rate"
    and "(sint base < 0) \<noteq> (sint quote < 0)" "base \<noteq> 0" "quote \<noteq> 0" "base \<noteq> minInt64" "quote \<noteq> minInt64"
  shows "fxConversionMatches lib e (fx_baseCurrency e) base (fx_quoteCurrency e) quote \<longleftrightarrow>
    rounds_half_up (\<bar>sint base\<bar> * rate * 10 ^ nat (cur_StandardRounding lib quoteUnit))
      (10 ^ nat (fx_rateScale e) * 10 ^ nat (cur_StandardRounding lib baseUnit)) \<bar>sint quote\<bar>"
proof -
  have den: "0 < powerOfTen (fx_rateScale e) * powerOfTen (cur_StandardRounding lib baseUnit)"
    using powerOfTen_pos by simp
  show ?thesis
    using assms half_up_quotient [OF den]
    by (simp add: fxConversionMatches_def positiveMinorMagnitude_def isRecognizedCurrency_def Let_def)
       (simp add: powerOfTen_def fxDecimalRadix_def)
qed

theorem fx_conversion_rounds_half_up_witness:
  "fxConversionMatches example_currencies example_evidence ''EUR'' 1003 ''PLN'' (- 4263)"
proof -
  have "fxConversionMatches example_currencies example_evidence (fx_baseCurrency example_evidence) 1003
      (fx_quoteCurrency example_evidence) (- 4263)"
    by (subst fx_conversion_rounds_half_up [where baseUnit = "''EUR''" and quoteUnit = "''PLN''" and rate = 425])
       (simp_all add: example_evidence_def example_currencies_def parseCurrency_def positiveDecimalInteger_def
          decimal_value_def digit_value_def fxDecimalRadix_def is_digit_code minInt64_def rounds_half_up_def)
  then show ?thesis by (simp add: example_evidence_def)
qed

end
