(* ===== verification/MatchingIndex.thy ===== *)
theory MatchingIndex
  imports TransferMatching FxProperties
begin

text \<open>
  What the four indexes and searches of transfer matching compute. \<open>counterpart\<close> is the
  reference: one predicate on two transactions, with no index, no sorting, no binary
  search and no early stop. The locale \<open>matching_index\<close> holds what a search may rely on in
  a bucket; the interpretations discharge it for the four indexes of the code.
\<close>

section \<open>The reference\<close>

definition withinWindow ::
  "transferMatchingIndexedTransaction \<Rightarrow> transferMatchingIndexedTransaction \<Rightarrow> bool" where
  "withinWindow t c \<longleftrightarrow> \<bar>effectiveAt c - effectiveAt t\<bar> \<le> transferMatchingWindow"

definition sameCurrencyCounterpart ::
  "transferMatchingIndexedTransaction \<Rightarrow> transferMatchingIndexedTransaction \<Rightarrow> bool" where
  "sameCurrencyCounterpart t c \<longleftrightarrow>
     rowCurrency c = rowCurrency t \<and> rowAmount c = - rowAmount t \<and> rowAmount t \<noteq> minInt64"

definition fxCounterpart ::
  "'u currency_library \<Rightarrow> transferMatchingIndexedTransaction \<Rightarrow> transferMatchingIndexedTransaction \<Rightarrow> bool" where
  "fxCounterpart lib t c \<longleftrightarrow>
     transferMatchingFXKeyFor t \<noteq> None \<and> transferMatchingFXKeyFor c = transferMatchingFXKeyFor t \<and>
     fxConversionMatches lib (the (ix_evidence t)) (rowCurrency t) (rowAmount t) (rowCurrency c) (rowAmount c)"

definition monobankCounterpart ::
  "transferMatchingIndexedTransaction \<Rightarrow> transferMatchingIndexedTransaction \<Rightarrow> bool" where
  "monobankCounterpart t c \<longleftrightarrow>
     (case (ix_monobankEvidence t, ix_monobankEvidence c) of
        (Some e, Some f) \<Rightarrow>
          tmt_ConnectionID (ix_transaction t) \<noteq> None \<and>
          tmt_ConnectionID (ix_transaction c) = tmt_ConnectionID (ix_transaction t) \<and>
          mev_OperationAmountMinor e \<noteq> minInt64 \<and> rowAmount t \<noteq> minInt64 \<and>
          rowCurrency c = mev_OperationCurrency e \<and> rowAmount c = - mev_OperationAmountMinor e \<and>
          mev_OperationCurrency f = rowCurrency t \<and> mev_OperationAmountMinor f = - rowAmount t
      | _ \<Rightarrow> False)"

definition pkoCounterpart ::
  "transferMatchingIndexedTransaction \<Rightarrow> transferMatchingIndexedTransaction \<Rightarrow> bool" where
  "pkoCounterpart t c \<longleftrightarrow>
     (case (ix_pkoEvidence t, ix_pkoEvidence c) of
        (Some e, Some f) \<Rightarrow>
          tmt_ConnectionID (ix_transaction t) \<noteq> None \<and>
          tmt_ConnectionID (ix_transaction c) = tmt_ConnectionID (ix_transaction t) \<and>
          pev_SourceIBAN f = pev_SourceIBAN e \<and> pev_DestinationIBAN f = pev_DestinationIBAN e \<and>
          pev_Direction f \<noteq> pev_Direction e \<and> rowCurrency c \<noteq> rowCurrency t
      | _ \<Rightarrow> False)"

definition counterpart ::
  "'u currency_library \<Rightarrow> transferMatchingIndexedTransaction \<Rightarrow> transferMatchingIndexedTransaction \<Rightarrow> bool" where
  "counterpart lib t c \<longleftrightarrow>
     accountID c \<noteq> accountID t \<and> rowID c \<noteq> rowID t \<and> withinWindow t c \<and>
     (sameCurrencyCounterpart t c \<or> fxCounterpart lib t c \<or> monobankCounterpart t c \<or> pkoCounterpart t c)"

section \<open>Scanning a sorted bucket\<close>

lemma sorted_candidateOrder:
  "sorted (map candidateOrder xs) \<Longrightarrow> sorted (map effectiveAt xs)"
  by (induction xs) (auto simp: candidateOrder_def less_eq_prod_def)

lemma sorted_sort: "sorted (map effectiveAt (sort_key candidateOrder xs))"
  by (rule sorted_candidateOrder) simp

lemma scanCandidates_take:
  assumes "sorted (map effectiveAt xs)" "0 < n"
  shows "scanCandidates windowEnd skip n xs =
    take n (filter (\<lambda>c. \<not> skip c \<and> effectiveAt c \<le> windowEnd) xs)"
  using assms
proof (induction xs arbitrary: n)
  case (Cons x xs)
  show ?case
  proof (cases "effectiveAt x > windowEnd")
    case True
    with Cons.prems(1) have "filter (\<lambda>c. \<not> skip c \<and> effectiveAt c \<le> windowEnd) (x # xs) = []"
      by (auto simp: filter_empty_conv)
    with True show ?thesis by simp
  next
    case False
    have "n = 1 \<or> 0 < n - 1" using Cons.prems(2) by auto
    with False Cons show ?thesis by (cases n) auto
  qed
qed simp

lemma searchBucket_take:
  assumes "sorted (map effectiveAt bucket)"
  shows "searchBucket instant skip bucket =
    take 2 (filter (\<lambda>c. \<not> skip c \<and> \<bar>effectiveAt c - instant\<bar> \<le> transferMatchingWindow) bucket)"
proof -
  have "drop (sort_Search (length bucket)
      (\<lambda>index. \<not> effectiveAt (bucket ! index) < instant - transferMatchingWindow)) bucket =
    filter (\<lambda>c. instant - transferMatchingWindow \<le> effectiveAt c) bucket"
    by (rule drop_sort_Search [OF assms])
  moreover have "sorted (map effectiveAt (filter (\<lambda>c. instant - transferMatchingWindow \<le> effectiveAt c) bucket))"
    by (rule sorted_filter [OF assms])
  moreover have "(\<bar>effectiveAt c - instant\<bar> \<le> transferMatchingWindow) =
      (instant - transferMatchingWindow \<le> effectiveAt c \<and> effectiveAt c \<le> instant + transferMatchingWindow)" for c
    by arith
  ultimately show ?thesis
    by (simp add: searchBucket_def Let_def scanCandidates_take transferMatchingMaxCandidates_def conj_ac)
qed

section \<open>The indexes\<close>

definition amountKeyFor :: "transferMatchingIndexedTransaction \<Rightarrow> transferMatchingAmountKey option" where
  "amountKeyFor t = Some \<lparr>amk_currency = rowCurrency t, amk_amount = rowAmount t\<rparr>"

text \<open>
  A bucket holds the rows of its key, sorted. What a search of a bucket finds follows:
  the first two rows, in time order, that have the key and pass the search's conditions.
\<close>

locale matching_index =
  fixes rows :: "transferMatchingIndexedTransaction list"
    and keyFor :: "transferMatchingIndexedTransaction \<Rightarrow> 'k option"
    and buckets :: "'k \<Rightarrow> transferMatchingIndexedTransaction list"
  assumes bucket_rows: "buckets k = sort_key candidateOrder (filter (\<lambda>x. keyFor x = Some k) rows)"
begin

lemma sorted_bucket: "sorted (map effectiveAt (buckets k))"
  unfolding bucket_rows by (rule sorted_sort)

lemma search_finds:
  "searchBucket instant skip (buckets k) =
   take 2 (filter (\<lambda>c. keyFor c = Some k \<and> \<not> skip c \<and> \<bar>effectiveAt c - instant\<bar> \<le> transferMatchingWindow)
     (sort_key candidateOrder rows))"
  using searchBucket_take [OF sorted_bucket, of instant skip k]
  by (simp add: bucket_rows filter_sort conj_ac)

lemma scan_finds:
  "scanCandidates windowEnd skip 2 (buckets k) =
   take 2 (filter (\<lambda>c. keyFor c = Some k \<and> \<not> skip c \<and> effectiveAt c \<le> windowEnd)
     (sort_key candidateOrder rows))"
  using scanCandidates_take [OF sorted_bucket, of 2]
  by (simp add: bucket_rows filter_sort conj_ac)

end

abbreviation indexedRows ::
  "json_codec \<Rightarrow> transferMatchingEvidenceExtractor \<Rightarrow> TransferMatchingTransaction list \<Rightarrow>
   transferMatchingIndexedTransaction list" where
  "indexedRows codec fx_of rows \<equiv> map (indexedTransaction codec fx_of) rows"

lemma appendAt_apply: "appendAt key x m k = m k @ (if key = k then [x] else [])"
  by (simp add: appendAt_def)

lemma appendAtSome_apply: "appendAtSome key x m k = m k @ (if key = Some k then [x] else [])"
  by (simp add: appendAtSome_def appendAt_apply split: option.splits)

lemma indexStep_fields:
  "byAmount (indexStep a b ixs x) k = byAmount ixs k @ (if amountKeyFor x = Some k then [x] else [])"
  "byFX (indexStep a b ixs x) f = byFX ixs f @ (if transferMatchingFXKeyFor x = Some f then [x] else [])"
  "byMonobank (indexStep a b ixs x) m =
     byMonobank ixs m @ (if transferMatchingMonobankKeyFor x = Some m then [x] else [])"
  "byPKO (indexStep a b ixs x) p = byPKO ixs p @ (if transferMatchingPKOKeyFor x = Some p then [x] else [])"
  "ix_starting (indexStep a b ixs x) = ix_starting ixs @ (if inMatchingRange a b (ix_transaction x) then [x] else [])"
  by (simp_all add: indexStep_def Let_def appendAt_apply appendAtSome_apply amountKeyFor_def)

lemma index_foldl:
  "byAmount (foldl (indexStep a b) ixs xs) k = byAmount ixs k @ filter (\<lambda>x. amountKeyFor x = Some k) xs"
  "byFX (foldl (indexStep a b) ixs xs) f = byFX ixs f @ filter (\<lambda>x. transferMatchingFXKeyFor x = Some f) xs"
  "byMonobank (foldl (indexStep a b) ixs xs) m =
     byMonobank ixs m @ filter (\<lambda>x. transferMatchingMonobankKeyFor x = Some m) xs"
  "byPKO (foldl (indexStep a b) ixs xs) p = byPKO ixs p @ filter (\<lambda>x. transferMatchingPKOKeyFor x = Some p) xs"
  "ix_starting (foldl (indexStep a b) ixs xs) =
     ix_starting ixs @ filter (\<lambda>x. inMatchingRange a b (ix_transaction x)) xs"
  by (induction xs arbitrary: ixs) (simp_all add: indexStep_fields)

interpretation amount_index: matching_index "indexedRows codec fx_of rows" amountKeyFor
    "byAmount (transferMatchingIndex codec rows a b fx_of)" for codec fx_of rows a b
  by unfold_locales (simp add: transferMatchingIndex_def Let_def index_foldl sortTransferMatchingTransactions_def)

interpretation fx_index: matching_index "indexedRows codec fx_of rows" transferMatchingFXKeyFor
    "byFX (transferMatchingIndex codec rows a b fx_of)" for codec fx_of rows a b
  by unfold_locales (simp add: transferMatchingIndex_def Let_def index_foldl sortTransferMatchingTransactions_def)

interpretation monobank_index: matching_index "indexedRows codec fx_of rows" transferMatchingMonobankKeyFor
    "byMonobank (transferMatchingIndex codec rows a b fx_of)" for codec fx_of rows a b
  by unfold_locales (simp add: transferMatchingIndex_def Let_def index_foldl sortTransferMatchingTransactions_def)

interpretation pko_index: matching_index "indexedRows codec fx_of rows" transferMatchingPKOKeyFor
    "byPKO (transferMatchingIndex codec rows a b fx_of)" for codec fx_of rows a b
  by unfold_locales (simp add: transferMatchingIndex_def Let_def index_foldl sortTransferMatchingTransactions_def)

lemma starting_rows:
  "ix_starting (transferMatchingIndex codec rows a b fx_of) =
   sort_key candidateOrder (filter (\<lambda>x. inMatchingRange a b (ix_transaction x)) (indexedRows codec fx_of rows))"
  by (simp add: transferMatchingIndex_def Let_def index_foldl sortTransferMatchingTransactions_def)

end
