(* ===== verification/MatchingProperties.thy ===== *)
theory MatchingProperties
  imports MatchingIndex SyncProperties "HOL-Library.Multiset"
begin

text \<open>
  What transfer matching decides: the candidates of a transaction against the reference
  predicate \<open>counterpart\<close>, the pairs that are planned, their independence of the order of
  the loaded rows, and what the counts count.
\<close>

section \<open>The four searches against the reference\<close>

definition kindCandidates ::
  "(transferMatchingIndexedTransaction \<Rightarrow> transferMatchingIndexedTransaction \<Rightarrow> bool) \<Rightarrow>
   transferMatchingIndexedTransaction \<Rightarrow> transferMatchingIndexedTransaction list \<Rightarrow>
   transferMatchingIndexedTransaction list" where
  "kindCandidates related t rows =
     filter (\<lambda>c. accountID c \<noteq> accountID t \<and> rowID c \<noteq> rowID t \<and> withinWindow t c \<and> related t c)
       (sort_key candidateOrder rows)"

lemma same_id_same_row:
  "distinct (map rowID xs) \<Longrightarrow> t \<in> set xs \<Longrightarrow> c \<in> set xs \<Longrightarrow> rowID c = rowID t \<Longrightarrow> c = t"
  by (simp add: distinct_map inj_on_def)

lemma same_currency_search:
  assumes "distinct (map rowID (indexedRows codec fx_of rows))" "t \<in> set (indexedRows codec fx_of rows)"
  shows "transferMatchingSameCurrencyCandidates t (byAmount (transferMatchingIndex codec rows a b fx_of)) =
    take 2 (kindCandidates sameCurrencyCounterpart t (indexedRows codec fx_of rows))"
proof -
  let ?I = "indexedRows codec fx_of rows" and ?m = "byAmount (transferMatchingIndex codec rows a b fx_of)"
  let ?k = "\<lparr>amk_currency = rowCurrency t, amk_amount = - rowAmount t\<rparr>"
  have "transferMatchingSameCurrencyCandidates t ?m =
      (if rowAmount t = minInt64 then []
       else searchBucket (effectiveAt t) (\<lambda>c. accountID c = accountID t) (?m ?k))"
    by (simp add: transferMatchingSameCurrencyCandidates_def Let_def searchBucket_take)
  also have "\<dots> = take 2 (kindCandidates sameCurrencyCounterpart t ?I)"
  proof (cases "rowAmount t = minInt64")
    case True
    then show ?thesis by (simp add: kindCandidates_def sameCurrencyCounterpart_def)
  next
    case False
    have "accountID c \<noteq> accountID t \<Longrightarrow> rowID c \<noteq> rowID t" if "c \<in> set ?I" for c
      using same_id_same_row [OF assms that] by auto
    then show ?thesis
      unfolding amount_index.search_finds kindCandidates_def if_not_P [OF False]
      using False by (intro arg_cong [where f = "take 2"])
         (auto intro!: filter_cong simp: amountKeyFor_def sameCurrencyCounterpart_def withinWindow_def)
  qed
  finally show ?thesis .
qed

lemma fx_search:
  "transferMatchingFXCandidates lib t (byFX (transferMatchingIndex codec rows a b fx_of)) =
   take 2 (kindCandidates (fxCounterpart lib) t (indexedRows codec fx_of rows))"
proof (cases "transferMatchingFXKeyFor t")
  case None
  then show ?thesis by (simp add: transferMatchingFXCandidates_def kindCandidates_def fxCounterpart_def)
next
  case (Some k)
  then obtain e where e: "ix_evidence t = Some e"
    by (auto simp: transferMatchingFXKeyFor_def split: option.splits)
  show ?thesis
    unfolding transferMatchingFXCandidates_def transferMatchingMaxCandidates_def kindCandidates_def
    using Some e
    by (simp add: Let_def fx_index.scan_finds)
       (auto intro!: arg_cong [where f = "take 2"] filter_cong simp: fxCounterpart_def withinWindow_def)
qed

lemma monobank_search:
  "transferMatchingMonobankCandidates t (byMonobank (transferMatchingIndex codec rows a b fx_of)) =
   take 2 (kindCandidates monobankCounterpart t (indexedRows codec fx_of rows))"
proof (cases "ix_monobankEvidence t = None \<or> tmt_ConnectionID (ix_transaction t) = None")
  case True
  then show ?thesis
    by (auto simp: transferMatchingMonobankCandidates_def kindCandidates_def monobankCounterpart_def
        split: option.splits)
next
  case False
  then obtain e k where "ix_monobankEvidence t = Some e" "tmt_ConnectionID (ix_transaction t) = Some k"
    by auto
  then show ?thesis
    unfolding transferMatchingMonobankCandidates_def kindCandidates_def
    by (auto intro!: arg_cong [where f = "take 2"] filter_cong
        simp: monobank_index.search_finds monobankCounterpart_def withinWindow_def transferMatchingMonobankKeyFor_def
        split: option.splits)
qed

lemma pko_search:
  "transferMatchingPKOCandidates t (byPKO (transferMatchingIndex codec rows a b fx_of)) =
   take 2 (kindCandidates pkoCounterpart t (indexedRows codec fx_of rows))"
proof (cases "ix_pkoEvidence t = None \<or> tmt_ConnectionID (ix_transaction t) = None")
  case True
  then show ?thesis
    by (auto simp: transferMatchingPKOCandidates_def transferMatchingPKOKeyFor_def kindCandidates_def
        pkoCounterpart_def split: option.splits)
next
  case False
  then obtain e k where "ix_pkoEvidence t = Some e" "tmt_ConnectionID (ix_transaction t) = Some k"
    by auto
  then show ?thesis
    unfolding transferMatchingPKOCandidates_def kindCandidates_def
    by (auto intro!: arg_cong [where f = "take 2"] filter_cong
        simp: pko_index.search_finds pkoCounterpart_def withinWindow_def transferMatchingPKOKeyFor_def
        split: option.splits)
qed

section \<open>Collecting the candidates of all kinds\<close>

text \<open>The state of the collection: the ids are those of the candidates, each once, never the own.\<close>

definition collected :: "transferMatchingIndexedTransaction \<Rightarrow> candidate_list \<Rightarrow> bool" where
  "collected t state \<longleftrightarrow>
     distinct (map rowID (fst state)) \<and> set (snd state) = rowID ` set (fst state) \<and>
     rowID t \<notin> rowID ` set (fst state)"

lemma addCandidate_collected:
  assumes "collected t state" "length (fst state) < 2" "addCandidate t c state = (full, state')"
  shows "collected t state'" "full \<longleftrightarrow> length (fst state') = 2" "length (fst state') \<le> 2"
    "set (fst state) \<subseteq> set (fst state')" "set (fst state') \<subseteq> insert c (set (fst state))"
    "rowID c = rowID t \<or> rowID c \<in> rowID ` set (fst state')"
  using assms
  by (auto simp: addCandidate_def collected_def transferMatchingMaxCandidates_def split: prod.splits if_splits)

lemma containsFunc_collected:
  assumes "collected t state" "length (fst state) < 2"
    and "containsFunc (addCandidate t) cs state = (full, state')"
  shows "collected t state' \<and> (full \<longleftrightarrow> length (fst state') = 2) \<and> length (fst state') \<le> 2 \<and>
    set (fst state) \<subseteq> set (fst state') \<and> set (fst state') \<subseteq> set cs \<union> set (fst state) \<and>
    (\<not> full \<longrightarrow> (\<forall>c \<in> set cs. rowID c = rowID t \<or> rowID c \<in> rowID ` set (fst state')))"
  using assms
proof (induction cs arbitrary: state)
  case (Cons c cs)
  obtain full1 state1 where step: "addCandidate t c state = (full1, state1)" by (rule prod.exhaust)
  note added = addCandidate_collected [OF Cons.prems(1,2) step]
  show ?case
  proof (cases full1)
    case True
    with Cons.prems(3) step have "full" "state' = state1" by auto
    with added True show ?thesis by auto
  next
    case False
    with added have "length (fst state1) < 2" by auto
    moreover have "containsFunc (addCandidate t) cs state1 = (full, state')"
      using Cons.prems(3) step False by simp
    ultimately show ?thesis using Cons.IH [OF added(1)] added(4-6) by fastforce
  qed
qed auto

lemma addAll_collected:
  assumes "collected t state" "length (fst state) < 2"
    and "cs = addAll t kinds state"
  shows "distinct (map rowID cs) \<and> length cs \<le> 2 \<and> set (fst state) \<subseteq> set cs \<and>
    set cs \<subseteq> \<Union> (set ` set kinds) \<union> set (fst state) \<and>
    (length cs < 2 \<longrightarrow> (\<forall>kind \<in> set kinds. \<forall>c \<in> set kind. rowID c = rowID t \<or> rowID c \<in> rowID ` set cs))"
  using assms
proof (induction kinds arbitrary: state)
  case (Cons kind kinds)
  obtain full state1 where step: "containsFunc (addCandidate t) kind state = (full, state1)" by (rule prod.exhaust)
  note added = containsFunc_collected [OF Cons.prems(1,2) step]
  show ?case
  proof (cases full)
    case True
    with Cons.prems(3) step have "cs = fst state1" by simp
    with added True show ?thesis by (auto simp: collected_def)
  next
    case False
    with added have "length (fst state1) < 2" by auto
    moreover have "cs = addAll t kinds state1" using Cons.prems(3) step False by simp
    ultimately show ?thesis using Cons.IH [of state1] added False by (auto; blast)
  qed
qed (auto simp: collected_def)

lemma take_two_all:
  assumes "distinct xs" "set (take 2 xs) \<subseteq> A" "finite A" "card A \<le> 1"
  shows "take 2 xs = xs"
proof -
  have "card (set (take 2 xs)) \<le> 1" using card_mono [OF assms(3,2)] assms(4) by simp
  moreover have "card (set (take 2 xs)) = length (take 2 xs)"
    using assms(1) by (intro distinct_card) simp
  ultimately have "length xs \<le> 1" by auto
  then show ?thesis by simp
qed

text \<open>
  The candidates of a loaded row: at most two, all counterparts, and all the counterparts
  there are unless there are two.
\<close>

lemma candidates_spec:
  assumes distinct: "distinct (map rowID (indexedRows codec fx_of rows))"
    and t: "t \<in> set (indexedRows codec fx_of rows)"
    and cs: "cs = transferMatchingCandidates lib t (transferMatchingIndex codec rows a b fx_of)"
  shows "length cs \<le> 2" "distinct cs"
    "set cs \<subseteq> {c \<in> set (indexedRows codec fx_of rows). counterpart lib t c}"
    "length cs < 2 \<Longrightarrow> set cs = {c \<in> set (indexedRows codec fx_of rows). counterpart lib t c}"
proof -
  let ?I = "indexedRows codec fx_of rows"
  let ?related = "[sameCurrencyCounterpart, fxCounterpart lib, monobankCounterpart, pkoCounterpart]"
  define kinds where "kinds = map (\<lambda>r. take 2 (kindCandidates r t ?I)) ?related"
  have "cs = addAll t kinds ([], [])"
    using same_currency_search [OF distinct t] cs
    by (simp add: transferMatchingCandidates_def kinds_def fx_search monobank_search pko_search)
  from addAll_collected [OF _ _ this]
  have spec: "distinct (map rowID cs)" "length cs \<le> 2" "set cs \<subseteq> \<Union> (set ` set kinds)"
      "length cs < 2 \<Longrightarrow> kind \<in> set kinds \<Longrightarrow> c \<in> set kind \<Longrightarrow> rowID c = rowID t \<or> rowID c \<in> rowID ` set cs"
    for kind c by (auto simp: collected_def)
  have union: "(\<Union>r \<in> set ?related. set (kindCandidates r t ?I)) = {c \<in> set ?I. counterpart lib t c}"
    by (auto simp: kindCandidates_def counterpart_def)
  have "\<Union> (set ` set kinds) \<subseteq> (\<Union>r \<in> set ?related. set (kindCandidates r t ?I))"
    by (auto simp: kinds_def dest: in_set_takeD)
  with spec(3) show sub: "set cs \<subseteq> {c \<in> set ?I. counterpart lib t c}"
    unfolding union by blast
  show "length cs \<le> 2" by (rule spec(2))
  show "distinct cs" using spec(1) by (simp add: distinct_map)
  assume short: "length cs < 2"
  have found: "take 2 (kindCandidates r t ?I) = kindCandidates r t ?I \<and> set (kindCandidates r t ?I) \<subseteq> set cs"
    if r: "r \<in> set ?related" for r
  proof -
    have "c \<in> set cs" if c: "c \<in> set (take 2 (kindCandidates r t ?I))" for c
    proof -
      have own: "c \<in> set ?I" "rowID c \<noteq> rowID t"
        using c by (auto simp: kindCandidates_def dest: in_set_takeD)
      moreover have "take 2 (kindCandidates r t ?I) \<in> set kinds" using r by (auto simp: kinds_def)
      ultimately obtain d where "d \<in> set cs" "rowID d = rowID c"
        using spec(4) [OF short _ c] by auto
      moreover have "d \<in> set ?I" using sub \<open>d \<in> set cs\<close> by blast
      ultimately show ?thesis using same_id_same_row [OF distinct own(1), of d] by simp
    qed
    then have sub2: "set (take 2 (kindCandidates r t ?I)) \<subseteq> set cs" by blast
    have "distinct (kindCandidates r t ?I)"
      unfolding kindCandidates_def
      by (rule distinct_filter) (simp only: distinct_sort conjunct1 [OF distinct_map [THEN iffD1, OF distinct]])
    moreover have "card (set cs) \<le> 1" using short card_length [of cs] by linarith
    ultimately have "take 2 (kindCandidates r t ?I) = kindCandidates r t ?I"
      using sub2 by (intro take_two_all [of _ "set cs"]) auto
    with sub2 show ?thesis by simp
  qed
  show "set cs = {c \<in> set ?I. counterpart lib t c}"
    using sub found unfolding union [symmetric] by blast
qed

section \<open>Evaluating one starting transaction\<close>

text \<open>All counterparts of a row, and two rows that are each other's only counterpart.\<close>

definition counterpartsOf ::
  "'u currency_library \<Rightarrow> transferMatchingIndexedTransaction list \<Rightarrow> transferMatchingIndexedTransaction \<Rightarrow>
   transferMatchingIndexedTransaction list" where
  "counterpartsOf lib rows t = filter (counterpart lib t) rows"

definition onlyCounterparts ::
  "'u currency_library \<Rightarrow> transferMatchingIndexedTransaction list \<Rightarrow> transferMatchingIndexedTransaction \<Rightarrow>
   transferMatchingIndexedTransaction \<Rightarrow> bool" where
  "onlyCounterparts lib rows x y \<longleftrightarrow> counterpartsOf lib rows x = [y] \<and> counterpartsOf lib rows y = [x]"

definition orderedPair ::
  "transferMatchingIndexedTransaction \<Rightarrow> transferMatchingIndexedTransaction \<Rightarrow> transferMatchingPair" where
  "orderedPair x y =
     (if rowID y < rowID x then \<lparr>pair_first = ix_transaction y, pair_second = ix_transaction x\<rparr>
      else \<lparr>pair_first = ix_transaction x, pair_second = ix_transaction y\<rparr>)"

lemma onlyCounterparts_sym: "onlyCounterparts lib rows x y \<Longrightarrow> onlyCounterparts lib rows y x"
  by (simp add: onlyCounterparts_def)

lemma counterpartsOf_single: "counterpartsOf lib rows x = [y] \<Longrightarrow> y \<in> set rows \<and> counterpart lib x y"
proof -
  assume "counterpartsOf lib rows x = [y]"
  then have "y \<in> set (filter (counterpart lib x) rows)" by (simp add: counterpartsOf_def)
  then show ?thesis by simp
qed

lemma short_lists:
  assumes "length cs < 2 \<and> length cs = length all \<and> set cs = set all \<or> length cs = 2 \<and> 2 \<le> length all"
  shows "cs = [] \<longleftrightarrow> all = []" "cs = [c] \<longleftrightarrow> all = [c]"
proof -
  show "cs = [] \<longleftrightarrow> all = []" using assms by auto
  show "cs = [c] \<longleftrightarrow> all = [c]"
  proof (cases "length cs < 2")
    case True
    then have "length all < 2" "set cs = set all" using assms by auto
    with True show ?thesis by (cases cs; cases all) auto
  qed (use assms in auto)
qed

lemma distinct_rows:
  assumes distinct: "distinct (map rowID (indexedRows codec fx_of rows))"
  shows "distinct (indexedRows codec fx_of rows)"
  using distinct_map [THEN iffD1, OF distinct] by blast

lemma candidates_length:
  assumes distinct: "distinct (map rowID (indexedRows codec fx_of rows))"
    and "t \<in> set (indexedRows codec fx_of rows)"
    and "cs = transferMatchingCandidates lib t (transferMatchingIndex codec rows a b fx_of)"
    and "all = counterpartsOf lib (indexedRows codec fx_of rows) t"
  shows "length cs < 2 \<and> length cs = length all \<and> set cs = set all \<or> length cs = 2 \<and> 2 \<le> length all"
proof -
  note spec = candidates_spec [OF distinct assms(2,3)]
  have all: "distinct all" "set all = {c \<in> set (indexedRows codec fx_of rows). counterpart lib t c}"
    unfolding assms(4) counterpartsOf_def by (auto intro: distinct_filter distinct_rows [OF distinct])
  show ?thesis
  proof (cases "length cs < 2")
    case True
    then have "set cs = set all" using spec(4) all(2) by blast
    with True show ?thesis using distinct_card [OF spec(2)] distinct_card [OF all(1)] by simp
  next
    case False
    then have "length cs = 2" using spec(1) by simp
    moreover have "card (set cs) \<le> card (set all)" using spec(3) all(2) by (intro card_mono) auto
    ultimately show ?thesis using distinct_card [OF spec(2)] distinct_card [OF all(1)] by simp
  qed
qed

lemma candidates_cases:
  assumes distinct: "distinct (map rowID (indexedRows codec fx_of rows))"
    and "t \<in> set (indexedRows codec fx_of rows)"
  shows "transferMatchingCandidates lib t (transferMatchingIndex codec rows a b fx_of) = [] \<longleftrightarrow>
      counterpartsOf lib (indexedRows codec fx_of rows) t = []"
    and "transferMatchingCandidates lib t (transferMatchingIndex codec rows a b fx_of) = [c] \<longleftrightarrow>
      counterpartsOf lib (indexedRows codec fx_of rows) t = [c]"
  using short_lists [OF candidates_length [OF distinct assms(2) refl refl]] by blast+

lemma evaluate_spec:
  assumes distinct: "distinct (map rowID (indexedRows codec fx_of rows))"
    and t: "t \<in> set (indexedRows codec fx_of rows)"
  shows "evaluateTransferMatchingStart lib t (transferMatchingIndex codec rows a b fx_of) =
    (case counterpartsOf lib (indexedRows codec fx_of rows) t of
       [] \<Rightarrow> (None, zero_counts\<lparr>Unmatched := 1\<rparr>)
     | [c] \<Rightarrow> if onlyCounterparts lib (indexedRows codec fx_of rows) t c
              then (Some (orderedPair t c), zero_counts) else (None, zero_counts\<lparr>Ambiguous := 1\<rparr>)
     | _ \<Rightarrow> (None, zero_counts\<lparr>Ambiguous := 1\<rparr>))"
proof -
  let ?I = "indexedRows codec fx_of rows" and ?x = "transferMatchingIndex codec rows a b fx_of"
  define cs where "cs = transferMatchingCandidates lib t ?x"
  note found = candidates_cases [OF distinct t, where lib = lib and a = a and b = b, folded cs_def]
  consider "cs = []" | c where "cs = [c]" | "length cs = 2" "2 \<le> length (counterpartsOf lib ?I t)"
    using candidates_length [OF distinct t cs_def refl]
    by (cases cs) (auto simp: less_2_cases_iff)
  then show ?thesis
  proof cases
    case 1
    with found show ?thesis by (simp add: evaluateTransferMatchingStart_def cs_def)
  next
    case 3
    then show ?thesis
      by (auto simp: evaluateTransferMatchingStart_def Let_def simp flip: cs_def split: list.splits)
  next
    case (2 c)
    then have all: "counterpartsOf lib ?I t = [c]" using found(2) by simp
    then have c: "c \<in> set ?I" using counterpartsOf_single by blast
    define rs where "rs = transferMatchingCandidates lib c ?x"
    have "length rs = 1 \<and> rowID (rs ! 0) = rowID t \<longleftrightarrow> counterpartsOf lib ?I c = [t]"
    proof
      assume rs: "length rs = 1 \<and> rowID (rs ! 0) = rowID t"
      then obtain r where r: "rs = [r]" by (auto simp: length_Suc_conv)
      then have "counterpartsOf lib ?I c = [r]"
        using candidates_cases(2) [OF distinct c, where lib = lib and a = a and b = b and c = r] rs_def by simp
      moreover have "r = t"
        using same_id_same_row [OF distinct t, of r] counterpartsOf_single [OF calculation] rs r by simp
      ultimately show "counterpartsOf lib ?I c = [t]" by simp
    next
      assume "counterpartsOf lib ?I c = [t]"
      then have "rs = [t]"
        using candidates_cases(2) [OF distinct c, where lib = lib and a = a and b = b and c = t] rs_def by simp
      then show "length rs = 1 \<and> rowID (rs ! 0) = rowID t" by simp
    qed
    then have mutual: "(length rs \<noteq> 1 \<or> rowID (rs ! 0) \<noteq> rowID t) \<longleftrightarrow> \<not> onlyCounterparts lib ?I t c"
      using all by (auto simp: onlyCounterparts_def)
    show ?thesis
      unfolding evaluateTransferMatchingStart_def Let_def cs_def [symmetric] 2 all
      using mutual [unfolded rs_def] by (simp add: orderedPair_def)
  qed
qed

section \<open>The planned pairs\<close>

lemma decideLoop_ok:
  assumes "decideLoop lib ixs ts accepted counts w = ((accepted', counts', None), w')"
  shows "accepted' = foldl (\<lambda>acc t. acceptPair (fst (evaluateTransferMatchingStart lib t ixs)) acc) accepted ts"
    "counts' = foldl (\<lambda>n t. addTransferMatchingAttemptCounts n (snd (evaluateTransferMatchingStart lib t ixs)))
       counts ts"
proof -
  have "accepted' = foldl (\<lambda>acc t. acceptPair (fst (evaluateTransferMatchingStart lib t ixs)) acc) accepted ts \<and>
    counts' = foldl (\<lambda>n t. addTransferMatchingAttemptCounts n (snd (evaluateTransferMatchingStart lib t ixs)))
       counts ts"
    using assms
    by (induction ts arbitrary: accepted counts w) (auto split: prod.splits option.splits)
  then show "accepted' = foldl (\<lambda>acc t. acceptPair (fst (evaluateTransferMatchingStart lib t ixs)) acc) accepted ts"
    "counts' = foldl (\<lambda>n t. addTransferMatchingAttemptCounts n (snd (evaluateTransferMatchingStart lib t ixs)))
       counts ts" by blast+
qed

text \<open>Accepting pairs whose key names them: the map holds each of them once.\<close>

lemma acceptPairs:
  assumes "inj_on pairKey P" "set accepted \<subseteq> P" "distinct (map pairKey accepted)"
    and "\<And>t p. t \<in> set ts \<Longrightarrow> g t = Some p \<Longrightarrow> p \<in> P"
  shows "set (foldl (\<lambda>acc t. acceptPair (g t) acc) accepted ts) = set accepted \<union> {p. \<exists>t \<in> set ts. g t = Some p} \<and>
    distinct (map pairKey (foldl (\<lambda>acc t. acceptPair (g t) acc) accepted ts))"
  using assms(2-4)
proof (induction ts arbitrary: accepted)
  case (Cons t ts)
  have "set (acceptPair (g t) accepted) = set accepted \<union> {p. g t = Some p} \<and>
      distinct (map pairKey (acceptPair (g t) accepted))"
  proof (cases "g t")
    case None
    then show ?thesis using Cons.prems by (simp add: acceptPair_def)
  next
    case (Some p)
    have "q = p" if "q \<in> set accepted" "pairKey q = pairKey p" for q
      using assms(1) that Cons.prems(1) Cons.prems(3) [of t p] Some by (auto dest: inj_onD)
    then have "set (acceptPair (g t) accepted) = insert p (set accepted)"
      using Some by (auto simp: acceptPair_def)
    moreover have "distinct (map pairKey (filter (\<lambda>q. pairKey q \<noteq> pairKey p) accepted))"
      using Cons.prems(2) by (simp add: distinct_map_filter)
    ultimately show ?thesis using Some by (auto simp: acceptPair_def)
  qed
  then show ?case
    using Cons.IH [of "acceptPair (g t) accepted"] Cons.prems by fastforce
qed simp

definition inRange :: "time \<Rightarrow> time \<Rightarrow> transferMatchingIndexedTransaction \<Rightarrow> bool" where
  "inRange a b x \<longleftrightarrow> inMatchingRange a b (ix_transaction x)"

text \<open>The pairs the service is to plan, by the reference predicate alone.\<close>

definition plannedPairs ::
  "'u currency_library \<Rightarrow> transferMatchingIndexedTransaction list \<Rightarrow> time \<Rightarrow> time \<Rightarrow> transferMatchingPair set" where
  "plannedPairs lib rows a b =
     {\<lparr>pair_first = ix_transaction x, pair_second = ix_transaction y\<rparr> | x y.
        x \<in> set rows \<and> y \<in> set rows \<and> onlyCounterparts lib rows x y \<and> rowID x < rowID y \<and>
        (inRange a b x \<or> inRange a b y)}"

lemma evaluate_pair:
  assumes distinct: "distinct (map rowID (indexedRows codec fx_of rows))"
    and t: "t \<in> set (indexedRows codec fx_of rows)"
  shows "fst (evaluateTransferMatchingStart lib t (transferMatchingIndex codec rows a b fx_of)) = Some p \<longleftrightarrow>
    (\<exists>c. onlyCounterparts lib (indexedRows codec fx_of rows) t c \<and> p = orderedPair t c)"
proof -
  have single: "onlyCounterparts lib (indexedRows codec fx_of rows) t c \<Longrightarrow>
      counterpartsOf lib (indexedRows codec fx_of rows) t = [c]" for c
    by (simp add: onlyCounterparts_def)
  have unique: "c = d" if "onlyCounterparts lib (indexedRows codec fx_of rows) t c"
      "onlyCounterparts lib (indexedRows codec fx_of rows) t d" for c d
    using single [OF that(1)] single [OF that(2)] by simp
  show ?thesis
    unfolding evaluate_spec [OF assms] using single by (auto split: list.splits dest: unique)
qed

lemma orderedPair_first:
  "rowID x \<noteq> rowID y \<Longrightarrow> rowID x < rowID y \<and> orderedPair x y = \<lparr>pair_first = ix_transaction x, pair_second = ix_transaction y\<rparr> \<or>
   rowID y < rowID x \<and> orderedPair x y = \<lparr>pair_first = ix_transaction y, pair_second = ix_transaction x\<rparr>"
  by (auto simp: orderedPair_def)

lemma planned_from_starts:
  assumes distinct: "distinct (map rowID (indexedRows codec fx_of rows))"
  shows "{p. \<exists>t \<in> set (indexedRows codec fx_of rows). inRange a b t \<and>
      fst (evaluateTransferMatchingStart lib t (transferMatchingIndex codec rows a b fx_of)) = Some p} =
    plannedPairs lib (indexedRows codec fx_of rows) a b" (is "?L = ?R")
proof -
  let ?I = "indexedRows codec fx_of rows"
  have rows: "c \<in> set ?I \<and> rowID c \<noteq> rowID t" if "onlyCounterparts lib ?I t c" for t c
    using that counterpartsOf_single [of lib ?I t c] by (auto simp: onlyCounterparts_def counterpart_def)
  have "?L = {orderedPair t c | t c. t \<in> set ?I \<and> inRange a b t \<and> onlyCounterparts lib ?I t c}"
    using evaluate_pair [OF distinct] by blast
  also have "\<dots> = ?R"
  proof (intro equalityI subsetI)
    fix p assume "p \<in> {orderedPair t c | t c. t \<in> set ?I \<and> inRange a b t \<and> onlyCounterparts lib ?I t c}"
    then obtain t c where p: "p = orderedPair t c" "t \<in> set ?I" "inRange a b t" "onlyCounterparts lib ?I t c"
      by blast
    note c = rows [OF p(4)] onlyCounterparts_sym [OF p(4)]
    show "p \<in> ?R"
    proof (cases "rowID t < rowID c")
      case True
      then have "p = \<lparr>pair_first = ix_transaction t, pair_second = ix_transaction c\<rparr>"
        using p(1) by (auto simp: orderedPair_def)
      with True p(2-4) c show ?thesis unfolding plannedPairs_def by blast
    next
      case False
      then have "rowID c < rowID t" using c(1) by auto
      moreover have "p = \<lparr>pair_first = ix_transaction c, pair_second = ix_transaction t\<rparr>"
        using p(1) calculation by (simp add: orderedPair_def)
      ultimately show ?thesis using p(2-4) c unfolding plannedPairs_def by blast
    qed
  next
    fix p assume "p \<in> ?R"
    then obtain x y where p: "p = \<lparr>pair_first = ix_transaction x, pair_second = ix_transaction y\<rparr>"
        "x \<in> set ?I" "y \<in> set ?I" "onlyCounterparts lib ?I x y" "rowID x < rowID y" "inRange a b x \<or> inRange a b y"
      unfolding plannedPairs_def by blast
    then have "p = orderedPair x y" "p = orderedPair y x" by (auto simp: orderedPair_def)
    then show "p \<in> {orderedPair t c | t c. t \<in> set ?I \<and> inRange a b t \<and> onlyCounterparts lib ?I t c}"
      using p(2-4,6) onlyCounterparts_sym [OF p(4)] by blast
  qed
  finally show ?thesis .
qed

lemma rowIDs_indexed: "map rowID (indexedRows codec fx_of rows) = map tmt_ID rows"
  by (simp add: indexedTransaction_def)

lemma plannedPairs_key:
  assumes "distinct (map rowID (indexedRows codec fx_of rows))"
  shows "inj_on pairKey (plannedPairs lib (indexedRows codec fx_of rows) a b)"
proof (rule inj_onI)
  fix p q assume "p \<in> plannedPairs lib (indexedRows codec fx_of rows) a b"
    "q \<in> plannedPairs lib (indexedRows codec fx_of rows) a b" and key: "pairKey p = pairKey q"
  then obtain x y u v where rows:
    "p = \<lparr>pair_first = ix_transaction x, pair_second = ix_transaction y\<rparr>"
    "q = \<lparr>pair_first = ix_transaction u, pair_second = ix_transaction v\<rparr>"
    "x \<in> set (indexedRows codec fx_of rows)" "y \<in> set (indexedRows codec fx_of rows)"
    "u \<in> set (indexedRows codec fx_of rows)" "v \<in> set (indexedRows codec fx_of rows)"
    unfolding plannedPairs_def by blast
  then have "rowID u = rowID x" "rowID v = rowID y" using key by (simp_all add: pairKey_def)
  with rows(3-6) have "u = x" "v = y" using same_id_same_row [OF assms] by blast+
  with rows(1,2) show "p = q" by simp
qed

lemma decide_ok:
  assumes distinct: "distinct (map tmt_ID rows)"
    and ok: "decideTransferMatchingPairs lib codec rows a b w = ((pairs, counts, None), w')"
  shows "set pairs = plannedPairs lib (indexedRows codec (extractOption lib) rows) a b"
    "distinct (map pairKey pairs)" "sorted (map pairKey pairs)"
proof -
  let ?I = "indexedRows codec (extractOption lib) rows"
  let ?x = "transferMatchingIndex codec rows a b (extractOption lib)"
  have distinct': "distinct (map rowID ?I)" unfolding rowIDs_indexed by (rule distinct)
  obtain accepted where loop: "decideLoop lib ?x (ix_starting ?x) [] zero_counts w = ((accepted, counts, None), w')"
      and pairs: "pairs = sort_key pairKey accepted"
    using ok by (auto simp: decideTransferMatchingPairs_def Let_def split: prod.splits)
  have starts: "set (ix_starting ?x) = {t \<in> set ?I. inRange a b t}"
    by (simp only: starting_rows set_sort set_filter inRange_def)
  have planned: "{p. \<exists>t \<in> set (ix_starting ?x). fst (evaluateTransferMatchingStart lib t ?x) = Some p} =
      plannedPairs lib ?I a b"
    unfolding starts planned_from_starts [OF distinct', symmetric] by blast
  have member: "p \<in> plannedPairs lib ?I a b"
    if "t \<in> set (ix_starting ?x)" "fst (evaluateTransferMatchingStart lib t ?x) = Some p" for t p
    using that unfolding planned [symmetric] by blast
  have "set accepted = plannedPairs lib ?I a b \<and> distinct (map pairKey accepted)"
    using acceptPairs [OF plannedPairs_key [OF distinct', where lib = lib and a = a and b = b],
        where accepted = "[]" and ts = "ix_starting ?x" and
        g = "\<lambda>t. fst (evaluateTransferMatchingStart lib t ?x)"] member
    unfolding decideLoop_ok(1) [OF loop] planned by simp
  then have acc: "set accepted = plannedPairs lib ?I a b" "distinct accepted" "inj_on pairKey (set accepted)"
    unfolding distinct_map by blast+
  show "set pairs = plannedPairs lib ?I a b" "distinct (map pairKey pairs)"
    unfolding pairs using acc by (simp_all only: distinct_map distinct_sort set_sort)
  show "sorted (map pairKey pairs)" unfolding pairs by simp
qed

section \<open>The properties\<close>

text \<open>C25. The indexed search is the plain one: for a loaded transaction the candidates found
  through the four sorted indexes, binary search and early stops are the transaction's
  counterparts among all loaded rows (different account, within 72 hours, same currency
  with opposite amount, or confirmed by FX, Monobank or PKO evidence), except that the
  search stops at two.\<close>

theorem indexed_candidates_are_the_counterparts:
  assumes "distinct (map tmt_ID rows)"
    and "t \<in> set (map (indexedTransaction codec fx_of) rows)"
    and "cs = transferMatchingCandidates lib t (transferMatchingIndex codec rows a b fx_of)"
    and "all = filter (counterpart lib t) (map (indexedTransaction codec fx_of) rows)"
  shows "length cs = min 2 (length all) \<and> distinct cs \<and> set cs \<subseteq> set all"
proof -
  have distinct: "distinct (map rowID (indexedRows codec fx_of rows))"
    unfolding rowIDs_indexed by (rule assms(1))
  show ?thesis
    using candidates_length [OF distinct assms(2,3), of all] candidates_spec(2,3) [OF distinct assms(2,3)] assms(4)
    by (auto simp: counterpartsOf_def)
qed

text \<open>C26. A pair is planned exactly when its two transactions are each other's only
  counterpart among all loaded rows and one of them lies in the requested range; each such
  pair is planned once, smaller id first, in the order of the ids.\<close>

theorem planned_pairs_are_the_only_counterparts:
  assumes "distinct (map tmt_ID rows)"
    and "decideTransferMatchingPairs lib codec rows a b w = ((pairs, counts, None), w')"
  shows "set pairs = plannedPairs lib (map (indexedTransaction codec (extractOption lib)) rows) a b \<and>
    sorted (map pairKey pairs) \<and> distinct (map pairKey pairs)"
  using decide_ok [OF assms] by blast

lemma planned_disjoint:
  assumes distinct: "distinct (map rowID I)"
    and p: "p \<in> plannedPairs lib I a b" and q: "q \<in> plannedPairs lib I a b"
    and shared: "{tmt_ID (pair_first p), tmt_ID (pair_second p)} \<inter> {tmt_ID (pair_first q), tmt_ID (pair_second q)} \<noteq> {}"
  shows "p = q"
proof -
  obtain x y where x: "p = \<lparr>pair_first = ix_transaction x, pair_second = ix_transaction y\<rparr>"
      "x \<in> set I" "y \<in> set I" "onlyCounterparts lib I x y" "rowID x < rowID y"
    using p unfolding plannedPairs_def by blast
  obtain u v where u: "q = \<lparr>pair_first = ix_transaction u, pair_second = ix_transaction v\<rparr>"
      "u \<in> set I" "v \<in> set I" "onlyCounterparts lib I u v" "rowID u < rowID v"
    using q unfolding plannedPairs_def by blast
  note same = same_id_same_row [OF distinct]
  consider "u = x" | "v = x" | "u = y" | "v = y"
    using shared x u same by auto
  then show ?thesis
  proof cases
    case 1 then show ?thesis using x u by (simp add: onlyCounterparts_def)
  next
    case 2 then have "u = y" using x(4) u(4) by (simp add: onlyCounterparts_def)
    with 2 x(5) u(5) show ?thesis by simp
  next
    case 3 then have "v = x" using x(4) u(4) by (simp add: onlyCounterparts_def)
    with 3 x(5) u(5) show ?thesis by simp
  next
    case 4 then show ?thesis using x u by (simp add: onlyCounterparts_def)
  qed
qed

lemma distinct_concat_pairs:
  assumes "distinct ps"
    and "\<And>p. p \<in> set ps \<Longrightarrow> f p \<noteq> g p"
    and "\<And>p q. p \<in> set ps \<Longrightarrow> q \<in> set ps \<Longrightarrow> {f p, g p} \<inter> {f q, g q} \<noteq> {} \<Longrightarrow> p = q"
  shows "distinct (concat (map (\<lambda>p. [f p, g p]) ps))"
  using assms
proof (induction ps)
  case (Cons p ps)
  have "{f p, g p} \<inter> {f q, g q} = {}" if "q \<in> set ps" for q
    using Cons.prems(3) [of p q] Cons.prems(1) that by auto
  moreover have "set (concat (map (\<lambda>p. [f p, g p]) ps)) = (\<Union>q \<in> set ps. {f q, g q})" by auto
  ultimately have "{f p, g p} \<inter> set (concat (map (\<lambda>p. [f p, g p]) ps)) = {}" by blast
  moreover have "distinct (concat (map (\<lambda>p. [f p, g p]) ps))"
    using Cons.prems by (intro Cons.IH) auto
  ultimately show ?case using Cons.prems(2) [of p] by simp
qed simp

lemma planned_pairs_apart:
  assumes "distinct (map tmt_ID rows)"
    and "decideTransferMatchingPairs lib codec rows a b w = ((pairs, counts, None), w')"
  shows "distinct (concat (map (\<lambda>p. [tmt_ID (pair_first p), tmt_ID (pair_second p)]) pairs))"
proof (rule distinct_concat_pairs)
  note planned = decide_ok [OF assms]
  have distinct: "distinct (map rowID (indexedRows codec (extractOption lib) rows))"
    unfolding rowIDs_indexed by (rule assms(1))
  show "distinct pairs" using planned(2) unfolding distinct_map by blast
  show "tmt_ID (pair_first p) \<noteq> tmt_ID (pair_second p)" if "p \<in> set pairs" for p
    using that unfolding planned(1) plannedPairs_def by auto
  show "p = q" if "p \<in> set pairs" "q \<in> set pairs"
    "{tmt_ID (pair_first p), tmt_ID (pair_second p)} \<inter> {tmt_ID (pair_first q), tmt_ID (pair_second q)} \<noteq> {}" for p q
    using planned_disjoint [OF distinct] that unfolding planned(1) by blast
qed

text \<open>C27. No transaction is in two planned pairs, or twice in one: linking every planned pair
  never overwrites a leg another pair has linked.\<close>

theorem no_transaction_is_planned_twice:
  assumes "distinct (map tmt_ID rows)"
    and "decideTransferMatchingPairs lib codec rows a b w = ((pairs, counts, None), w')"
  shows "distinct (concat (map (\<lambda>p. [tmt_ID (pair_first p), tmt_ID (pair_second p)]) pairs))"
  by (rule planned_pairs_apart [OF assms])

text \<open>C28. The decision does not depend on the order in which the database returns the
  eligible transactions: pairs, counts and the point of a cancellation are the same.\<close>

theorem decision_ignores_row_order:
  assumes "distinct (map tmt_ID rows)" and "mset rows' = mset rows"
  shows "decideTransferMatchingPairs lib codec rows' a b w = decideTransferMatchingPairs lib codec rows a b w"
proof -
  let ?f = "indexedTransaction codec (extractOption lib)"
  have "inj_on (tmt_ID \<circ> ix_transaction) (set (map ?f rows))"
    using assms(1) by (auto simp: distinct_map inj_on_def indexedTransaction_def)
  then have key: "inj_on candidateOrder (set (map ?f rows))"
    by (auto simp: inj_on_def candidateOrder_def)
  have same: "mset (map ?f rows) = mset (map ?f rows')"
    using assms(2) by (metis mset_map)
  have sorts: "sort_key candidateOrder (filter P (map ?f rows)) = sort_key candidateOrder (filter P (map ?f rows'))" for P
    using same key by (intro sort_key_eq_sort_key) (auto simp: mset_filter inj_on_def)
  have "transferMatchingIndex codec rows' a b (extractOption lib) = transferMatchingIndex codec rows a b (extractOption lib)"
    unfolding transferMatchingIndex_def Let_def
    by (simp add: fun_eq_iff index_foldl sortTransferMatchingTransactions_def sorts)
  then show ?thesis by (simp add: decideTransferMatchingPairs_def)
qed

section \<open>What the counts count\<close>

lemma foldl_counts:
  "foldl (\<lambda>n t. addTransferMatchingAttemptCounts n (g t)) n0 ts =
   \<lparr>MatchedPairs = MatchedPairs n0 + (\<Sum>t\<leftarrow>ts. MatchedPairs (g t)),
    Unmatched = Unmatched n0 + (\<Sum>t\<leftarrow>ts. Unmatched (g t)),
    Ambiguous = Ambiguous n0 + (\<Sum>t\<leftarrow>ts. Ambiguous (g t)),
    Skipped = Skipped n0 + (\<Sum>t\<leftarrow>ts. Skipped (g t))\<rparr>"
  by (induction ts arbitrary: n0) (simp_all add: addTransferMatchingAttemptCounts_def)

lemma sum_list_sort: "(\<Sum>x\<leftarrow>sort_key k xs. f x) = (\<Sum>x\<leftarrow>xs. (f x :: int))"
proof -
  have "mset (map f (sort_key k xs)) = mset (map f xs)" by (simp add: mset_map)
  then show ?thesis by (metis sum_mset_sum_list)
qed

lemma sum_list_count: "(\<Sum>x\<leftarrow>xs. if P x then 1 else 0) = int (length (filter P xs))"
  by (induction xs) auto

lemma decision_counts:
  assumes "distinct (map tmt_ID rows)"
    and "decideTransferMatchingPairs lib codec rows a b w = ((pairs, counts, None), w')"
    and "indexed = map (indexedTransaction codec (extractOption lib)) rows"
    and "planned = (\<lambda>t. \<exists>c \<in> set indexed. onlyCounterparts lib indexed t c)"
  shows "counts =
    \<lparr>MatchedPairs = 0,
     Unmatched = int (length (filter (\<lambda>t. inRange a b t \<and> filter (counterpart lib t) indexed = []) indexed)),
     Ambiguous = int (length (filter (\<lambda>t. inRange a b t \<and> filter (counterpart lib t) indexed \<noteq> [] \<and> \<not> planned t) indexed)),
     Skipped = 0\<rparr>"
proof -
  let ?x = "transferMatchingIndex codec rows a b (extractOption lib)"
  have distinct: "distinct (map rowID indexed)"
    unfolding assms(3) rowIDs_indexed by (rule assms(1))
  define g where "g = (\<lambda>t. snd (evaluateTransferMatchingStart lib t ?x))"
  obtain accepted where loop: "decideLoop lib ?x (ix_starting ?x) [] zero_counts w = ((accepted, counts, None), w')"
    using assms(2) by (auto simp: decideTransferMatchingPairs_def Let_def split: prod.splits)
  have starts: "ix_starting ?x = sort_key candidateOrder (filter (inRange a b) indexed)"
    unfolding starting_rows assms(3) inRange_def [abs_def] ..
  have delta: "g t = zero_counts
      \<lparr>Unmatched := if filter (counterpart lib t) indexed = [] then 1 else 0,
       Ambiguous := if filter (counterpart lib t) indexed \<noteq> [] \<and> \<not> planned t then 1 else 0\<rparr>"
    if "t \<in> set indexed" for t
  proof -
    have only: "onlyCounterparts lib indexed t c \<Longrightarrow> filter (counterpart lib t) indexed = [c] \<and> c \<in> set indexed" for c
      using counterpartsOf_single [of lib indexed t c] by (simp add: onlyCounterparts_def counterpartsOf_def)
    show ?thesis
      unfolding g_def evaluate_spec [OF distinct [unfolded assms(3)] that [unfolded assms(3)]]
        assms(3) [symmetric] counterpartsOf_def assms(4)
      using only by (auto simp: zero_counts_def split: list.splits)
  qed
  have sums: "(\<Sum>t\<leftarrow>ix_starting ?x. f (g t)) =
      (\<Sum>t\<leftarrow>filter (inRange a b) indexed. f (zero_counts
        \<lparr>Unmatched := if filter (counterpart lib t) indexed = [] then 1 else 0,
         Ambiguous := if filter (counterpart lib t) indexed \<noteq> [] \<and> \<not> planned t then 1 else 0\<rparr>))"
    for f :: "TransferMatchingAttemptCounts \<Rightarrow> int"
    unfolding starts sum_list_sort by (intro arg_cong [where f = sum_list] map_cong) (auto simp: delta)
  have "counts = foldl (\<lambda>n t. addTransferMatchingAttemptCounts n (g t)) zero_counts (ix_starting ?x)"
    using decideLoop_ok(2) [OF loop] by (simp add: g_def)
  then show ?thesis
    unfolding foldl_counts sums by (simp add: zero_counts_def sum_list_count conj_commute)
qed

text \<open>C29. Every transaction of the requested range is accounted for once: it is unmatched when
  it has no counterpart, ambiguous when it has one or more without being in a mutually
  unique pair, and planned otherwise.\<close>

theorem counts_partition_the_range:
  assumes "distinct (map tmt_ID rows)"
    and "decideTransferMatchingPairs lib codec rows a b w = ((pairs, counts, None), w')"
    and "indexed = map (indexedTransaction codec (extractOption lib)) rows"
    and "planned = (\<lambda>t. \<exists>c \<in> set indexed. onlyCounterparts lib indexed t c)"
  shows "counts =
    \<lparr>MatchedPairs = 0,
     Unmatched = int (length (filter (\<lambda>t. inRange a b t \<and> filter (counterpart lib t) indexed = []) indexed)),
     Ambiguous = int (length (filter (\<lambda>t. inRange a b t \<and> filter (counterpart lib t) indexed \<noteq> [] \<and> \<not> planned t) indexed)),
     Skipped = 0\<rparr>"
  by (rule decision_counts [OF assms])

section \<open>An example\<close>

definition example_row :: "string \<Rightarrow> string \<Rightarrow> int64 \<Rightarrow> time \<Rightarrow> TransferMatchingTransaction" where
  "example_row rid account amount instant =
     \<lparr>tmt_ID = rid, tmt_AccountID = account, tmt_Currency = ''EUR'', tmt_AmountMinor = amount,
      tmt_EffectiveAt = instant, tmt_Description = '''', tmt_ConnectionID = None, tmt_ProviderID = None,
      tmt_ConnectorID = None, tmt_TrackedAccountIBAN = None, tmt_ProviderOriginalAmountMinor = None,
      tmt_ProviderOriginalCurrency = None, tmt_SnapshotJSON = None\<rparr>"

definition example_rows :: "TransferMatchingTransaction list" where
  "example_rows =
     [example_row ''r1'' ''a1'' 500 10, example_row ''r2'' ''a2'' (- 500) 20, example_row ''r3'' ''a1'' 7 30]"

abbreviation example_pair :: transferMatchingPair where
  "example_pair \<equiv> \<lparr>pair_first = example_row ''r1'' ''a1'' 500 10, pair_second = example_row ''r2'' ''a2'' (- 500) 20\<rparr>"

abbreviation example_decision where
  "example_decision rows \<equiv>
     decideTransferMatchingPairs example_currencies example_codec rows 1 100 (example_world (\<lambda>_. None))"

lemma example_rows_distinct: "distinct (map tmt_ID example_rows)"
  by (simp add: example_rows_def example_row_def)

lemma example_decides: "fst (example_decision example_rows) = ([example_pair], zero_counts\<lparr>Unmatched := 1\<rparr>, None)"
  by code_simp

lemma example_decides': "example_decision example_rows =
    (([example_pair], zero_counts\<lparr>Unmatched := 1\<rparr>, None), snd (example_decision example_rows))"
  by (simp add: prod_eq_iff example_decides)

theorem indexed_candidates_are_the_counterparts_witness:
  "length (transferMatchingCandidates example_currencies
      (indexedTransaction example_codec (extractOption example_currencies) (example_row ''r1'' ''a1'' 500 10))
      (transferMatchingIndex example_codec example_rows 1 100 (extractOption example_currencies))) =
   min 2 (length (filter (counterpart example_currencies
      (indexedTransaction example_codec (extractOption example_currencies) (example_row ''r1'' ''a1'' 500 10)))
      (map (indexedTransaction example_codec (extractOption example_currencies)) example_rows)))"
proof -
  have "indexedTransaction example_codec (extractOption example_currencies) (example_row ''r1'' ''a1'' 500 10)
      \<in> set (map (indexedTransaction example_codec (extractOption example_currencies)) example_rows)"
    by (simp add: example_rows_def)
  then show ?thesis
    by (rule conjunct1 [OF indexed_candidates_are_the_counterparts [OF example_rows_distinct _ refl refl]])
qed

theorem planned_pairs_are_the_only_counterparts_witness:
  "plannedPairs example_currencies
     (map (indexedTransaction example_codec (extractOption example_currencies)) example_rows) 1 100 = {example_pair}"
  using planned_pairs_are_the_only_counterparts [OF example_rows_distinct example_decides'] by simp

theorem no_transaction_is_planned_twice_witness:
  "distinct [tmt_ID (pair_first example_pair), tmt_ID (pair_second example_pair)]"
  using no_transaction_is_planned_twice [OF example_rows_distinct example_decides'] by simp

theorem decision_ignores_row_order_witness:
  "example_decision (rev example_rows) = example_decision example_rows"
  by (rule decision_ignores_row_order [OF example_rows_distinct]) simp

theorem counts_partition_the_range_witness:
  "length (filter (\<lambda>t. inRange 1 100 t \<and> filter (counterpart example_currencies t)
       (map (indexedTransaction example_codec (extractOption example_currencies)) example_rows) = [])
     (map (indexedTransaction example_codec (extractOption example_currencies)) example_rows)) = 1"
  using counts_partition_the_range [OF example_rows_distinct example_decides' refl refl]
  by (simp add: zero_counts_def)

end
