(* ===== verification/PairProperties.thy ===== *)
theory PairProperties
  imports MatchingProperties
begin

text \<open>
  Linking and unlinking a pair in the database, and a whole matching attempt. The locale
  \<open>leg_update\<close> holds what the two updates share; it is interpreted for both.
\<close>

section \<open>Statements keep the fault plan\<close>

definition faults :: "(nat \<Rightarrow> go_error option) \<Rightarrow> World \<Rightarrow> bool" where
  "faults f w \<longleftrightarrow> w_fault w = f"

lemma updateRowsSQL_run:
  "updateRowsSQL selects updates w =
   (case w_fault w (w_statement w) of
      Some e \<Rightarrow> (Inl e, w\<lparr>w_statement := Suc (w_statement w)\<rparr>)
    | None \<Rightarrow> (Inr (length (filter selects (t_transactions (w_tables w)))),
        w\<lparr>w_statement := Suc (w_statement w),
          w_tables := (w_tables w)\<lparr>t_transactions :=
            map (\<lambda>row. if selects row then updates row else row) (t_transactions (w_tables w))\<rparr>\<rparr>))"
  by (simp add: updateRowsSQL_def execSQL_def split: option.splits)

lemma transactionSQL_fault:
  assumes "\<And>u. w_fault (snd (body u)) = w_fault u"
  shows "w_fault (snd (transactionSQL body w)) = w_fault w"
proof -
  define w1 where "w1 = w\<lparr>w_statement := Suc (w_statement w), w_inTransaction := True\<rparr>"
  have "w_fault (snd (body w1)) = w_fault w" using assms [of w1] by (simp add: w1_def)
  then show ?thesis
    unfolding transactionSQL_def
    by (cases "body w1") (auto simp: bindA_def readSQL_def execSQL_def w1_def split: option.splits sum.splits)
qed

text \<open>An error of a transaction is an error of its body or one of the database.\<close>

lemma transactionSQL_error_from:
  assumes "transactionSQL body w = (Inl e, w')" and "\<And>u. w_fault (snd (body u)) = w_fault u"
  shows "(\<exists>n. w_fault w n = Some e) \<or>
    (\<exists>u. body (w\<lparr>w_statement := Suc (w_statement w), w_inTransaction := True\<rparr>) = (Inl e, u))"
proof -
  define w1 where "w1 = w\<lparr>w_statement := Suc (w_statement w), w_inTransaction := True\<rparr>"
  have "w_fault (snd (body w1)) = w_fault w" using assms(2) [of w1] by (simp add: w1_def)
  then show ?thesis
    using assms(1) unfolding transactionSQL_def w1_def [symmetric]
    by (cases "body w1")
       (auto simp: bindA_def readSQL_def execSQL_def w1_def split: option.splits sum.splits)
qed

section \<open>Updating a pair\<close>

text \<open>Both legs changed, everything else as it was.\<close>

definition updateLegs ::
  "string \<Rightarrow> string set \<Rightarrow> (transactionModel \<Rightarrow> transactionModel) \<Rightarrow> Tables \<Rightarrow> Tables" where
  "updateLegs tenantID ids updates t =
     t\<lparr>t_transactions :=
         map (\<lambda>row. if tm_TenantID row = tenantID \<and> tm_ID row \<in> ids then updates row else row) (t_transactions t)\<rparr>"

definition oneRow :: "string \<Rightarrow> string \<Rightarrow> Tables \<Rightarrow> bool" where
  "oneRow tenantID transactionID t \<longleftrightarrow>
     length (filter (\<lambda>row. tm_TenantID row = tenantID \<and> tm_ID row = transactionID) (t_transactions t)) = 1"

lemma updateTransferPairLeg_run:
  "updateTransferPairLeg tenantID i updates w =
   (case w_fault w (w_statement w) of
      Some e \<Rightarrow> (Inl (Wrap ''update transfer pair leg'' e), w\<lparr>w_statement := Suc (w_statement w)\<rparr>)
    | None \<Rightarrow>
        (if oneRow tenantID i (w_tables w) then Inr () else Inl (Sentinel ErrTransferPairTransactionNotFound),
         w\<lparr>w_statement := Suc (w_statement w), w_tables := updateLegs tenantID {i} updates (w_tables w)\<rparr>))"
  by (simp add: updateTransferPairLeg_def bindA_run mapErrA_run updateRowsSQL_run oneRow_def updateLegs_def
      split: option.splits)

locale leg_update =
  fixes updates :: "transactionModel \<Rightarrow> transactionModel"
  assumes keeps_id: "tm_ID (updates row) = tm_ID row"
    and keeps_tenant: "tm_TenantID (updates row) = tm_TenantID row"
begin

lemma other_leg:
  "oneRow tenantID j (updateLegs tenantID {i} updates t) = oneRow tenantID j t"
proof -
  have "length (filter (\<lambda>row. tm_TenantID row = tenantID \<and> tm_ID row = j)
      (map (\<lambda>row. if tm_TenantID row = tenantID \<and> tm_ID row \<in> {i} then updates row else row) rows)) =
    length (filter (\<lambda>row. tm_TenantID row = tenantID \<and> tm_ID row = j) rows)" for rows
    by (induction rows) (auto simp: keeps_id keeps_tenant)
  then show ?thesis by (simp add: oneRow_def updateLegs_def)
qed

lemma both_legs:
  "i \<noteq> j \<Longrightarrow> updateLegs tenantID {j} updates (updateLegs tenantID {i} updates t) = updateLegs tenantID {i, j} updates t"
  unfolding updateLegs_def by (auto simp: keeps_id keeps_tenant intro!: arg_cong2 [where f = t_transactions_update])

abbreviation body where
  "body tenantID i j \<equiv> bindA (updateTransferPairLeg tenantID i updates) (\<lambda>_. updateTransferPairLeg tenantID j updates)"

lemma body_fault: "w_fault (snd (body tenantID i j w)) = w_fault w"
  by (simp add: bindA_run updateTransferPairLeg_run split: option.splits prod.splits sum.splits)

lemma pair_fault: "w_fault (snd (updatePair tenantID i j updates w)) = w_fault w"
  unfolding updatePair_def using transactionSQL_fault [of "body tenantID i j" w] body_fault by simp

lemma pair_error:
  "updatePair tenantID i j updates w = (Inl e, w') \<Longrightarrow> w_tables w' = w_tables w"
  by (auto simp: updatePair_def dest: transactionSQL_error split: if_splits)

lemma pair_ok:
  assumes "updatePair tenantID i j updates w = (Inr u, w')"
  shows "i \<noteq> j" "oneRow tenantID i (w_tables w)" "oneRow tenantID j (w_tables w)"
    "w_tables w' = updateLegs tenantID {i, j} updates (w_tables w)"
proof -
  show "i \<noteq> j" using assms by (auto simp: updatePair_def)
  then obtain u' where "body tenantID i j (w\<lparr>w_statement := Suc (w_statement w), w_inTransaction := True\<rparr>) = (Inr u, u')"
      "w_tables w' = w_tables u'"
    using assms by (auto simp: updatePair_def elim: transactionSQL_ok)
  then show "oneRow tenantID i (w_tables w)" "oneRow tenantID j (w_tables w)"
    "w_tables w' = updateLegs tenantID {i, j} updates (w_tables w)"
    by (auto simp: bindA_Inr updateTransferPairLeg_run other_leg both_legs [OF \<open>i \<noteq> j\<close>]
        split: option.splits if_splits)
qed

text \<open>When both rows are there, only the database can make it fail.\<close>

lemma pair_error_from:
  assumes "updatePair tenantID i j updates w = (Inl e, w')" "i \<noteq> j"
    and "oneRow tenantID i (w_tables w)" "oneRow tenantID j (w_tables w)"
  shows "\<exists>n f. w_fault w n = Some f \<and> (\<forall>s. errors_is e s = errors_is f s)"
proof -
  let ?w1 = "w\<lparr>w_statement := Suc (w_statement w), w_inTransaction := True\<rparr>"
  have "transactionSQL (body tenantID i j) w = (Inl e, w')" using assms(1,2) by (simp add: updatePair_def)
  then consider n where "w_fault w n = Some e" | u where "body tenantID i j ?w1 = (Inl e, u)"
    using transactionSQL_error_from body_fault by blast
  then show ?thesis
  proof cases
    case 2
    then obtain n f where "w_fault w n = Some f" "e = Wrap ''update transfer pair leg'' f"
      using assms(3,4) by (auto simp: bindA_Inl updateTransferPairLeg_run other_leg split: option.splits if_splits)
    then show ?thesis by auto
  qed auto
qed

end

interpretation link: leg_update "linkUpdates params" for params
  by unfold_locales (simp_all add: linkUpdates_def)

interpretation unlink: leg_update "unlinkUpdates params" for params
  by unfold_locales (simp_all add: unlinkUpdates_def)

text \<open>C30. Linking is all or nothing: on success both transactions, and only they, become one
  transfer group (each exists once in the tenant, and they are two different ones); on any
  error the tables are as they were, also when only the second leg is missing.\<close>

theorem link_pair_is_atomic:
  "case LinkTransferPair params w of
     (Inl e, w') \<Rightarrow> w_tables w' = w_tables w
   | (Inr u, w') \<Rightarrow>
       tpl_FirstTransactionID params \<noteq> tpl_SecondTransactionID params \<and>
       oneRow (tpl_TenantID params) (tpl_FirstTransactionID params) (w_tables w) \<and>
       oneRow (tpl_TenantID params) (tpl_SecondTransactionID params) (w_tables w) \<and>
       w_tables w' = updateLegs (tpl_TenantID params) {tpl_FirstTransactionID params, tpl_SecondTransactionID params}
         (linkUpdates params) (w_tables w)"
  unfolding LinkTransferPair_def
  by (auto simp: mapErrA_Inl split: prod.splits sum.splits dest: link.pair_error link.pair_ok)

text \<open>C31. Unlinking is final for matching: an unlinked pair is never loaded again by a matching
  attempt, whatever its range, until another write changes the rows.\<close>

theorem unlinked_pair_is_not_rematched:
  "case UnlinkTransferPair params w of
     (Inl e, w') \<Rightarrow> w_tables w' = w_tables w
   | (Inr u, w') \<Rightarrow>
       tmt_ID ` set (eligibleRows (w_tables w') (tpu_TenantID params) loadStart loadEnd) \<inter>
       {tpu_FirstTransactionID params, tpu_SecondTransactionID params} = {}"
proof (cases "UnlinkTransferPair params w")
  case (Pair r w')
  show ?thesis
  proof (cases r)
    case (Inl e)
    with Pair have "w_tables w' = w_tables w"
      by (auto simp: UnlinkTransferPair_def mapErrA_Inl dest: unlink.pair_error)
    with Pair Inl show ?thesis by simp
  next
    case (Inr u)
    with Pair have "w_tables w' = updateLegs (tpu_TenantID params)
        {tpu_FirstTransactionID params, tpu_SecondTransactionID params} (unlinkUpdates params) (w_tables w)"
      unfolding UnlinkTransferPair_def by (auto dest: unlink.pair_ok)
    then show ?thesis
      using Pair Inr
      by (auto simp: eligibleRows_def eligibleTransaction_def updateLegs_def unlinkUpdates_def matchingRow_def Let_def
          split: if_splits)
  qed
qed

section \<open>Saving the planned pairs\<close>

definition legs :: "transferMatchingPair \<Rightarrow> string set" where
  "legs pair = {tmt_ID (pair_first pair), tmt_ID (pair_second pair)}"

text \<open>The rows of a planned pair form one transfer group.\<close>

definition linkedPair :: "transferMatchingPair \<Rightarrow> Tables \<Rightarrow> bool" where
  "linkedPair pair t \<longleftrightarrow>
     (\<exists>group matched. \<forall>row \<in> set (t_transactions t). tm_ID row \<in> legs pair \<longrightarrow>
        tm_Kind row = TransactionKindTransfer \<and> tm_TransferGroupID row = Some group \<and>
        tm_TransferMatchedAt row = Some matched)"

definition identities :: "Tables \<Rightarrow> (string \<times> string) list" where
  "identities t = map (\<lambda>row. (tm_TenantID row, tm_ID row)) (t_transactions t)"

lemma oneRow_identities: "oneRow tenantID i t \<longleftrightarrow> length (filter (\<lambda>k. k = (tenantID, i)) (identities t)) = 1"
  by (simp add: oneRow_def identities_def filter_map comp_def)

text \<open>The leg rows exist once, and ids name rows across tenants.\<close>

definition legsPresent :: "string \<Rightarrow> transferMatchingPair \<Rightarrow> Tables \<Rightarrow> bool" where
  "legsPresent tenantID pair t \<longleftrightarrow>
     tmt_ID (pair_first pair) \<noteq> tmt_ID (pair_second pair) \<and>
     (\<forall>i \<in> legs pair. oneRow tenantID i t \<and> (\<forall>k \<in> set (identities t). snd k = i \<longrightarrow> fst k = tenantID))"

lemma legsPresent_identities: "identities t' = identities t \<Longrightarrow> legsPresent tenantID pair t' = legsPresent tenantID pair t"
  by (simp add: legsPresent_def oneRow_identities)

lemma link_identities: "identities (updateLegs tenantID ids (linkUpdates params) t) = identities t"
  by (simp add: identities_def updateLegs_def comp_def linkUpdates_def cong: map_cong)

lemma linked_now:
  assumes "legsPresent tenantID pair t"
  shows "linkedPair pair (updateLegs tenantID (legs pair) (linkUpdates params) t)"
proof -
  have "tm_TenantID row = tenantID" if "row \<in> set (t_transactions t)" "tm_ID row \<in> legs pair" for row
    using assms that unfolding legsPresent_def identities_def by force
  note tenant = this
  have "row \<in> linkUpdates params ` set (t_transactions t)"
    if "row \<in> set (t_transactions (updateLegs tenantID (legs pair) (linkUpdates params) t))" "tm_ID row \<in> legs pair" for row
  proof -
    obtain old where old: "old \<in> set (t_transactions t)"
        "row = (if tm_TenantID old = tenantID \<and> tm_ID old \<in> legs pair then linkUpdates params old else old)"
      using \<open>row \<in> set (t_transactions (updateLegs tenantID (legs pair) (linkUpdates params) t))\<close>
      by (auto simp: updateLegs_def)
    then have "tm_ID old \<in> legs pair"
      using \<open>tm_ID row \<in> legs pair\<close> by (simp add: linkUpdates_def split: if_splits)
    with old tenant [OF old(1)] show ?thesis by simp
  qed
  moreover have "tm_Kind (linkUpdates params old) = TransactionKindTransfer"
    "tm_TransferGroupID (linkUpdates params old) = Some (tpl_TransferGroupID params)"
    "tm_TransferMatchedAt (linkUpdates params old) = Some (tpl_TransferMatchedAt params)" for old
    by (simp_all add: linkUpdates_def)
  ultimately show ?thesis
    unfolding linkedPair_def by (metis (no_types, lifting) imageE)
qed

lemma linked_later:
  "linkedPair pair t \<Longrightarrow> legs pair \<inter> ids = {} \<Longrightarrow> linkedPair pair (updateLegs tenantID ids (linkUpdates params) t)"
proof -
  assume linked: "linkedPair pair t" and apart: "legs pair \<inter> ids = {}"
  have "row \<in> set (t_transactions t)"
    if "row \<in> set (t_transactions (updateLegs tenantID ids (linkUpdates params) t))" "tm_ID row \<in> legs pair" for row
    using that apart by (auto simp: updateLegs_def linkUpdates_def split: if_splits)
  then show ?thesis using linked unfolding linkedPair_def by meson
qed

definition ownFaults :: "World \<Rightarrow> bool" where
  "ownFaults w \<longleftrightarrow> (\<forall>n f. w_fault w n = Some f \<longrightarrow> \<not> errors_is f ErrTransferPairTransactionNotFound)"

lemma LinkTransferPair_fault: "w_fault (snd (LinkTransferPair params w)) = w_fault w"
  by (simp add: LinkTransferPair_def link.pair_fault)

lemma LinkTransferPair_error_from:
  assumes "LinkTransferPair params w = (Inl e, w')" "ownFaults w"
    and "legs pair = {tpl_FirstTransactionID params, tpl_SecondTransactionID params}"
    and "legsPresent (tpl_TenantID params) pair (w_tables w)"
  shows "\<not> errors_is e ErrTransferPairTransactionNotFound"
proof -
  obtain f where f: "updatePair (tpl_TenantID params) (tpl_FirstTransactionID params)
      (tpl_SecondTransactionID params) (linkUpdates params) w = (Inl f, w')" "e = Wrap ''link transfer pair'' f"
    using assms(1) by (auto simp: LinkTransferPair_def mapErrA_Inl)
  have two: "tpl_FirstTransactionID params \<noteq> tpl_SecondTransactionID params"
    using assms(3,4) by (auto simp: legsPresent_def legs_def doubleton_eq_iff)
  have "\<exists>n g. w_fault w n = Some g \<and> (\<forall>s. errors_is f s = errors_is g s)"
    using assms(3,4) by (intro link.pair_error_from [OF f(1) two]) (auto simp: legsPresent_def)
  with assms(2) f(2) show ?thesis by (auto simp: ownFaults_def)
qed

definition untouched :: "string set \<Rightarrow> Tables \<Rightarrow> transactionModel list" where
  "untouched ids t = filter (\<lambda>row. tm_ID row \<notin> ids) (t_transactions t)"

lemma untouched_link: "ids \<subseteq> all \<Longrightarrow> untouched all (updateLegs tenantID ids (linkUpdates params) t) = untouched all t"
proof -
  assume sub: "ids \<subseteq> all"
  have "filter (\<lambda>row. tm_ID row \<notin> all)
      (map (\<lambda>row. if tm_TenantID row = tenantID \<and> tm_ID row \<in> ids then linkUpdates params row else row) rows) =
    filter (\<lambda>row. tm_ID row \<notin> all) rows" for rows
    using sub by (induction rows) (auto simp: linkUpdates_def)
  then show ?thesis by (simp add: untouched_def updateLegs_def)
qed

text \<open>The loop over disjoint pairs whose rows exist: every pair is linked and stays linked.\<close>

lemma save_links_all:
  assumes "saveTransferMatchingPairs params pairs counts w = ((counts', None), w')"
    and "\<And>p. p \<in> set pairs \<Longrightarrow> legsPresent (tmp_TenantID params) p (w_tables w)"
    and "ownFaults w"
    and "distinct (concat (map (\<lambda>p. [tmt_ID (pair_first p), tmt_ID (pair_second p)]) pairs))"
  shows "counts' = counts\<lparr>MatchedPairs := MatchedPairs counts + int (length pairs)\<rparr> \<and>
    (\<forall>p \<in> set pairs. linkedPair p (w_tables w')) \<and>
    (\<forall>q. linkedPair q (w_tables w) \<longrightarrow> (\<forall>p \<in> set pairs. legs q \<inter> legs p = {}) \<longrightarrow> linkedPair q (w_tables w')) \<and>
    untouched (\<Union> (legs ` set pairs)) (w_tables w') = untouched (\<Union> (legs ` set pairs)) (w_tables w)"
  using assms
proof (induction pairs arbitrary: counts w)
  case Nil
  then show ?case by (auto simp: contextErr_def)
next
  case (Cons pair pairs)
  define P where "P = \<lparr>tpl_TenantID = tmp_TenantID params,
      tpl_FirstTransactionID = tmt_ID (pair_first pair), tpl_SecondTransactionID = tmt_ID (pair_second pair),
      tpl_TransferGroupID = w_idSource w (w_idsDrawn w),
      tpl_TransferMatchedAt = w_clock w (w_timesRead w), tpl_UpdatedAt = w_clock w (w_timesRead w)\<rparr>"
  define u where "u = w\<lparr>w_contextChecks := Suc (w_contextChecks w), w_timesRead := Suc (w_timesRead w),
      w_idsDrawn := Suc (w_idsDrawn w)\<rparr>"
  have u: "w_tables u = w_tables w" "w_fault u = w_fault w" by (simp_all add: u_def)
  have P: "tpl_TenantID P = tmp_TenantID params" "{tpl_FirstTransactionID P, tpl_SecondTransactionID P} = legs pair"
    by (simp_all add: P_def legs_def)
  obtain r v where link: "LinkTransferPair P u = (r, v)" by (rule prod.exhaust)
  have v: "w_fault v = w_fault w" using LinkTransferPair_fault [of P u] link u by simp
  have here: "legsPresent (tmp_TenantID params) pair (w_tables u)" using Cons.prems(2) u by simp
  have run: "saveTransferMatchingPairs params (pair # pairs) counts w =
      (case r of
         Inr x \<Rightarrow> saveTransferMatchingPairs params pairs (counts\<lparr>MatchedPairs := MatchedPairs counts + 1\<rparr>) v
       | Inl e \<Rightarrow> if errors_is e ErrTransferPairTransactionNotFound
           then saveTransferMatchingPairs params pairs (counts\<lparr>Skipped := Skipped counts + 1\<rparr>) v
           else ((counts, Some (Wrap ''save transfer matching pair'' e)), v))"
    if "w_context w (w_contextChecks w) = None"
    using that link by (simp add: contextErr_def readClock_def drawID_def P_def u_def split: sum.splits)
  have none: "w_context w (w_contextChecks w) = None"
    using Cons.prems(1) by (auto simp: contextErr_def split: option.splits)
  show ?case
  proof (cases r)
    case (Inl e)
    have "ownFaults u" using Cons.prems(3) u by (simp add: ownFaults_def)
    then have "\<not> errors_is e ErrTransferPairTransactionNotFound"
      using LinkTransferPair_error_from [of P u e v pair] link Inl P here by simp
    with run [OF none] Inl Cons.prems(1) show ?thesis by simp
  next
    case (Inr x)
    have tables: "w_tables v = updateLegs (tmp_TenantID params) (legs pair) (linkUpdates P) (w_tables w)"
      using link Inr link.pair_ok(4) u P unfolding LinkTransferPair_def by fastforce
    have rest: "saveTransferMatchingPairs params pairs (counts\<lparr>MatchedPairs := MatchedPairs counts + 1\<rparr>) v =
        ((counts', None), w')"
      using run [OF none] Inr Cons.prems(1) by simp
    have apart: "legs pair \<inter> legs p = {}" if "p \<in> set pairs" for p
      using Cons.prems(4) that by (auto simp: legs_def)
    have "legsPresent (tmp_TenantID params) p (w_tables v)" if "p \<in> set pairs" for p
      using Cons.prems(2) [of p] that legsPresent_identities [OF link_identities] by (simp add: tables)
    moreover have "ownFaults v" using Cons.prems(3) v by (simp add: ownFaults_def)
    moreover have "distinct (concat (map (\<lambda>p. [tmt_ID (pair_first p), tmt_ID (pair_second p)]) pairs))"
      using Cons.prems(4) by simp
    ultimately have IH: "counts' = counts\<lparr>MatchedPairs := MatchedPairs counts + 1 + int (length pairs)\<rparr>"
        "\<forall>p \<in> set pairs. linkedPair p (w_tables w')"
        "\<And>q. linkedPair q (w_tables v) \<Longrightarrow> (\<forall>p \<in> set pairs. legs q \<inter> legs p = {}) \<Longrightarrow> linkedPair q (w_tables w')"
        "untouched (\<Union> (legs ` set pairs)) (w_tables w') = untouched (\<Union> (legs ` set pairs)) (w_tables v)"
      using Cons.IH [OF rest] by simp_all
    have "linkedPair pair (w_tables v)" unfolding tables using here u by (intro linked_now) simp
    with IH(3) apart have "linkedPair pair (w_tables w')" by blast
    moreover have "linkedPair q (w_tables w')"
      if "linkedPair q (w_tables w)" "\<forall>p \<in> set (pair # pairs). legs q \<inter> legs p = {}" for q
      using that IH(3) [of q] linked_later [of q "w_tables w" "legs pair"] by (simp add: tables)
    moreover have "untouched (\<Union> (legs ` set (pair # pairs))) (w_tables w') =
        untouched (\<Union> (legs ` set (pair # pairs))) (w_tables w)"
    proof -
      have "untouched (\<Union> (legs ` set (pair # pairs))) t =
          filter (\<lambda>row. tm_ID row \<notin> legs pair) (untouched (\<Union> (legs ` set pairs)) t)" for t
        by (simp add: untouched_def conj_commute)
      moreover have "untouched (\<Union> (legs ` set (pair # pairs))) (w_tables v) =
          untouched (\<Union> (legs ` set (pair # pairs))) (w_tables w)"
        unfolding tables by (rule untouched_link) simp
      ultimately show ?thesis using IH(4) by metis
    qed
    ultimately show ?thesis using IH(1,2) by simp
  qed
qed

section \<open>A whole matching attempt\<close>

lemma eligible_ids:
  assumes "keys_ok t"
  shows "distinct (map tmt_ID (eligibleRows t tenantID a b))"
    "row \<in> set (eligibleRows t tenantID a b) \<Longrightarrow> oneRow tenantID (tmt_ID row) t"
    "row \<in> set (eligibleRows t tenantID a b) \<Longrightarrow> k \<in> set (identities t) \<Longrightarrow> snd k = tmt_ID row \<Longrightarrow> fst k = tenantID"
proof -
  have ids: "distinct (map tm_ID (t_transactions t))" and accounts: "distinct (map am_ID (t_accounts t))"
    using assms by (auto simp: keys_ok_def)
  have one: "length (filter (\<lambda>a. am_ID a = i \<and> am_TenantID a = ten \<and> am_HiddenAt a = None) (t_accounts t)) \<le> 1" for i ten
  proof -
    have "length (filter (\<lambda>a. am_TenantID a = ten \<and> am_HiddenAt a = None) (filter (\<lambda>a. am_ID a = i) (t_accounts t)))
        \<le> length (filter (\<lambda>a. am_ID a = i) (t_accounts t))" by (rule length_filter_le)
    moreover have "length (filter (\<lambda>a. am_ID a = i) (t_accounts t)) \<le> 1"
    proof (cases "i \<in> am_ID ` set (t_accounts t)")
      case True
      then show ?thesis using filter_distinct_key [OF accounts] by auto
    next
      case False
      then have "filter (\<lambda>a. am_ID a = i) (t_accounts t) = []" by (auto simp: filter_empty_conv)
      then show ?thesis by simp
    qed
    ultimately show ?thesis by (simp add: conj_ac)
  qed
  have rows: "map tmt_ID (eligibleRows t tenantID a b) =
      concat (map (\<lambda>row. replicate (length (filter (\<lambda>a. am_ID a = tm_AccountID row \<and> am_TenantID a = tm_TenantID row \<and>
          am_HiddenAt a = None) (t_accounts t))) (tm_ID row))
        (filter (eligibleTransaction tenantID a b) (t_transactions t)))"
    by (simp add: eligibleRows_def map_concat matchingRow_def Let_def comp_def map_replicate_const)
  have spread: "distinct (concat (map (\<lambda>row. replicate (n row) (tm_ID row)) xs))"
    if "distinct (map tm_ID xs)" "\<And>row. n row \<le> Suc 0" for xs n
    using that(1)
  proof (induction xs)
    case (Cons x xs)
    have "set (concat (map (\<lambda>row. replicate (n row) (tm_ID row)) xs)) \<subseteq> tm_ID ` set xs"
      by auto
    moreover have "n x = 0 \<or> n x = Suc 0" using that(2) [of x] by arith
    ultimately show ?case using Cons by auto
  qed simp
  show "distinct (map tmt_ID (eligibleRows t tenantID a b))"
    unfolding rows by (rule spread) (use one ids distinct_map_filter in auto)
  assume "row \<in> set (eligibleRows t tenantID a b)"
  then obtain x where x: "x \<in> set (t_transactions t)" "tm_TenantID x = tenantID" "tmt_ID row = tm_ID x"
    by (auto simp: eligibleRows_def eligibleTransaction_def matchingRow_def Let_def)
  have same: "filter (\<lambda>r. tm_ID r = tm_ID x) (t_transactions t) = [x]"
    by (rule filter_distinct_key [OF ids x(1)])
  have "filter (\<lambda>r. tm_TenantID r = tenantID \<and> tm_ID r = tm_ID x) (t_transactions t) =
      filter (\<lambda>r. tm_TenantID r = tenantID) (filter (\<lambda>r. tm_ID r = tm_ID x) (t_transactions t))"
    by (simp add: conj_ac)
  then show "oneRow tenantID (tmt_ID row) t" using same x by (simp add: oneRow_def)
  assume "k \<in> set (identities t)" "snd k = tmt_ID row"
  then obtain y where "y \<in> set (filter (\<lambda>r. tm_ID r = tm_ID x) (t_transactions t))" "fst k = tm_TenantID y"
    using x(3) by (auto simp: identities_def)
  with same x(2) show "fst k = tenantID" by simp
qed

text \<open>What the attempt decides on: the rows eligible in the extended range, indexed.\<close>

definition attemptRows ::
  "'u currency_library \<Rightarrow> TransferMatchingParams \<Rightarrow> World \<Rightarrow> transferMatchingIndexedTransaction list" where
  "attemptRows lib params w =
     map (indexedTransaction (w_json w) (extractOption lib))
       (eligibleRows (w_tables w) (tmp_TenantID params) (tmp_RangeStart params - 144 * hour)
         (tmp_RangeEndExclusive params + 144 * hour))"

lemma load_ok:
  assumes "loadTransferMatchingTransactions params w = (Inr rows, w')"
  shows "rows = eligibleRows (w_tables w) (tmp_TenantID params) (tmp_RangeStart params - 144 * hour)
      (tmp_RangeEndExclusive params + 144 * hour)"
    "w_tables w' = w_tables w" "w_fault w' = w_fault w" "w_json w' = w_json w"
  using assms
  by (auto simp: loadTransferMatchingTransactions_def bindA_Inr liftA_Inr contextErr_def
      ListEligibleTransferMatchingTransactions_def Let_def transferMatchingLoadExtension_def split: option.splits)

lemma decideLoop_world:
  "decideLoop lib ixs ts acc n w = (r, w') \<Longrightarrow> w_tables w' = w_tables w \<and> w_fault w' = w_fault w"
proof (induction ts arbitrary: acc n w)
  case (Cons t ts)
  then show ?case by (fastforce simp: contextErr_def split: option.splits prod.splits)
qed simp

text \<open>The three phases of an attempt that reports no error.\<close>

lemma attempt_phases:
  assumes "TransferMatch lib params w = ((counts, None), w')"
  obtains rows pairs counts0 w2 w3 where
    "rows = eligibleRows (w_tables w) (tmp_TenantID params) (tmp_RangeStart params - 144 * hour)
      (tmp_RangeEndExclusive params + 144 * hour)"
    "attemptRows lib params w = map (indexedTransaction (w_json w2) (extractOption lib)) rows"
    "decideTransferMatchingPairs lib (w_json w2) rows (tmp_RangeStart params) (tmp_RangeEndExclusive params) w2 =
      ((pairs, counts0, None), w3)"
    "saveTransferMatchingPairs params pairs counts0 w3 = ((counts, None), w')"
    "w_tables w3 = w_tables w" "w_fault w3 = w_fault w"
proof -
  define w1 where "w1 = w\<lparr>w_timesRead := Suc (w_timesRead w)\<rparr>"
  obtain rows w2 where load: "loadTransferMatchingTransactions params w1 = (Inr rows, w2)"
    using assms(1) by (auto simp: TransferMatch_def readClock_def w1_def split: prod.splits sum.splits)
  note loaded = load_ok [OF load]
  obtain pairs counts0 w3 where
    decide: "decideTransferMatchingPairs lib (w_json w2) rows (tmp_RangeStart params) (tmp_RangeEndExclusive params) w2 =
      ((pairs, counts0, None), w3)" and
    save: "saveTransferMatchingPairs params pairs counts0 w3 = ((counts, None), w')"
    using assms(1) load
    by (auto simp: TransferMatch_def readClock_def w1_def split: prod.splits sum.splits option.splits)
  have w3: "w_tables w3 = w_tables w" "w_fault w3 = w_fault w"
    using decideLoop_world decide loaded
    by (fastforce simp: decideTransferMatchingPairs_def Let_def w1_def split: prod.splits)+
  have rows: "rows = eligibleRows (w_tables w) (tmp_TenantID params) (tmp_RangeStart params - 144 * hour)
      (tmp_RangeEndExclusive params + 144 * hour)"
    using loaded(1) by (simp add: w1_def)
  moreover have "attemptRows lib params w = map (indexedTransaction (w_json w2) (extractOption lib)) rows"
    using loaded(4) by (simp add: attemptRows_def rows w1_def)
  ultimately show thesis using that decide save w3 by blast
qed

text \<open>C32. A matching attempt that reports no error has linked every planned pair: nothing was
  skipped, the count of matched pairs is the number of mutually unique pairs touching the
  range, the two rows of each form one transfer group, and no other transaction changed.\<close>

theorem match_links_every_planned_pair:
  assumes "TransferMatch lib params w = ((counts, None), w')" and "keys_ok (w_tables w)" and "ownFaults w"
    and "planned = plannedPairs lib (attemptRows lib params w) (tmp_RangeStart params) (tmp_RangeEndExclusive params)"
  shows "MatchedPairs counts = int (card planned) \<and> Skipped counts = 0 \<and>
    (\<forall>p \<in> planned. linkedPair p (w_tables w')) \<and>
    untouched (\<Union> (legs ` planned)) (w_tables w') = untouched (\<Union> (legs ` planned)) (w_tables w)"
proof -
  obtain rows pairs counts0 w2 w3 where
    rows: "rows = eligibleRows (w_tables w) (tmp_TenantID params) (tmp_RangeStart params - 144 * hour)
      (tmp_RangeEndExclusive params + 144 * hour)" and
    indexed: "attemptRows lib params w = map (indexedTransaction (w_json w2) (extractOption lib)) rows" and
    decide: "decideTransferMatchingPairs lib (w_json w2) rows (tmp_RangeStart params) (tmp_RangeEndExclusive params) w2 =
      ((pairs, counts0, None), w3)" and
    save: "saveTransferMatchingPairs params pairs counts0 w3 = ((counts, None), w')" and
    w3: "w_tables w3 = w_tables w" "w_fault w3 = w_fault w"
    using attempt_phases [OF assms(1)] .
  have distinct: "distinct (map tmt_ID rows)" unfolding rows by (rule eligible_ids(1) [OF assms(2)])
  have pairs: "set pairs = planned" "distinct (map pairKey pairs)"
    using decide_ok [OF distinct decide] assms(4) indexed by simp_all
  have once: "distinct (concat (map (\<lambda>p. [tmt_ID (pair_first p), tmt_ID (pair_second p)]) pairs))"
    using planned_pairs_apart [OF distinct decide] .
  have present: "legsPresent (tmp_TenantID params) p (w_tables w3)" if p: "p \<in> set pairs" for p
  proof -
    have "{pair_first p, pair_second p} \<subseteq> set rows" "tmt_ID (pair_first p) \<noteq> tmt_ID (pair_second p)"
      using p decide_ok(1) [OF distinct decide] by (auto simp: plannedPairs_def indexedTransaction_def)
    moreover have each: "oneRow (tmp_TenantID params) (tmt_ID row) (w_tables w) \<and>
        (\<forall>k \<in> set (identities (w_tables w)). snd k = tmt_ID row \<longrightarrow> fst k = tmp_TenantID params)"
      if "row \<in> set rows" for row
      using that eligible_ids(2,3) [OF assms(2)] unfolding rows by blast
    ultimately show ?thesis
      using each [of "pair_first p"] each [of "pair_second p"] unfolding legsPresent_def legs_def w3 by blast
  qed
  have counts0: "MatchedPairs counts0 = 0" "Skipped counts0 = 0"
    using decision_counts [OF distinct decide refl refl] by simp_all
  have "ownFaults w3" using assms(3) w3 by (simp add: ownFaults_def)
  from save_links_all [OF save present this once]
  have "counts = counts0\<lparr>MatchedPairs := MatchedPairs counts0 + int (length pairs)\<rparr>"
    "\<forall>p \<in> set pairs. linkedPair p (w_tables w')"
    "untouched (\<Union> (legs ` set pairs)) (w_tables w') = untouched (\<Union> (legs ` set pairs)) (w_tables w)"
    using w3 by simp_all
  moreover have "length pairs = card planned"
    using pairs distinct_card [of pairs] unfolding distinct_map by simp
  ultimately show ?thesis using pairs(1) counts0 by simp
qed

section \<open>An example\<close>

definition example_leg :: "string \<Rightarrow> string \<Rightarrow> int64 \<Rightarrow> time \<Rightarrow> transactionModel" where
  "example_leg i account amount instant =
     \<lparr>tm_ID = i, tm_TenantID = ''t1'', tm_AccountID = account, tm_Source = TransactionSourceManual,
      tm_Status = TransactionStatusBooked, tm_Kind = TransactionKindRegular, tm_AmountMinor = amount,
      tm_Currency = ''EUR'', tm_Description = '''', tm_EffectiveAt = instant, tm_CategoryID = None,
      tm_TransferGroupID = None, tm_TransferMatchedAt = None, tm_TransferMatchingExcluded = False,
      tm_HiddenAt = None, tm_OriginalAmountMinor = None, tm_OriginalCurrency = None,
      tm_OriginalDescription = None, tm_OriginalEffectiveAt = None, tm_CreatedAt = 1, tm_UpdatedAt = 1\<rparr>"

definition example_account_row :: "string \<Rightarrow> accountModel" where
  "example_account_row i =
     \<lparr>am_ID = i, am_TenantID = ''t1'', am_Name = i, am_Currency = ''EUR'', am_Kind = AccountKindManual,
      am_Provider = None, am_ProviderAccountID = None, am_HiddenAt = None, am_CreatedAt = 1, am_UpdatedAt = 1\<rparr>"

definition matching_world :: World where
  "matching_world = (example_world (\<lambda>_. None))
     \<lparr>w_tables := example_tables
        \<lparr>t_accounts := [example_account_row ''a1'', example_account_row ''a2''],
         t_transactions := [example_leg ''r1'' ''a1'' 500 10, example_leg ''r2'' ''a2'' (- 500) 20,
           example_leg ''r3'' ''a1'' 7 30]\<rparr>\<rparr>"

definition example_attempt :: TransferMatchingParams where
  "example_attempt = \<lparr>tmp_TenantID = ''t1'', tmp_RangeStart = 5, tmp_RangeEndExclusive = 100,
     tmp_MessageID = ''m1'', tmp_SourceSyncMessageID = ''''\<rparr>"

lemma example_attempt_result:
  "fst (TransferMatch example_currencies example_attempt matching_world) =
   (zero_counts\<lparr>MatchedPairs := 1, Unmatched := 1\<rparr>, None)"
  by code_simp

theorem match_links_every_planned_pair_witness:
  "card (plannedPairs example_currencies (attemptRows example_currencies example_attempt matching_world) 5 100) = 1"
proof -
  have run: "TransferMatch example_currencies example_attempt matching_world =
      ((zero_counts\<lparr>MatchedPairs := 1, Unmatched := 1\<rparr>, None),
       snd (TransferMatch example_currencies example_attempt matching_world))"
    by (simp add: prod_eq_iff example_attempt_result)
  have "keys_ok (w_tables matching_world)" "ownFaults matching_world"
    by (simp_all add: matching_world_def keys_ok_def example_tables_def example_world_def example_account_row_def
        example_leg_def ownFaults_def)
  from match_links_every_planned_pair [OF run this refl]
  show ?thesis by (simp add: example_attempt_def zero_counts_def)
qed

end
