(* ===== verification/LedgerProperties.thy ===== *)
theory LedgerProperties
  imports Ledger PairProperties
begin

text \<open>
  What single calls of the ledger do to the database: \<open>quiet\<close> operations change neither the
  tables nor the source of ids, the guards let through what they promise, a save
  writes one row and its tags. The collection \<open>quiet_rules\<close> carries the proofs.
\<close>

section \<open>Reads\<close>

definition member :: "string \<Rightarrow> string \<Rightarrow> Tables \<Rightarrow> bool" where
  "member tenantID userID t \<longleftrightarrow> (\<exists>m \<in> set (t_memberships t). mbm_TenantID m = tenantID \<and> mbm_UserID m = userID)"

text \<open>
  \<open>quiet m\<close>: \<open>m\<close> changes neither the tables nor the sources of ids and faults.
\<close>

definition unchanged :: "World \<Rightarrow> World \<Rightarrow> bool" where
  "unchanged w w' \<longleftrightarrow> w_tables w' = w_tables w \<and> w_idSource w' = w_idSource w \<and> w_idsDrawn w' = w_idsDrawn w"

definition quiet :: "(World, 'a) action \<Rightarrow> bool" where
  "quiet m \<longleftrightarrow> (\<forall>w. unchanged w (snd (m w)))"

named_theorems quiet_rules "introduction rules for quiet"

lemma unchanged_refl [simp]: "unchanged w w"
  by (simp add: unchanged_def)

lemma unchanged_trans: "unchanged a b \<Longrightarrow> unchanged b c \<Longrightarrow> unchanged a c"
  by (simp add: unchanged_def)

lemma quietD: "quiet m \<Longrightarrow> m w = (r, w') \<Longrightarrow> unchanged w w'"
  unfolding quiet_def by (metis snd_conv)

lemma quiet_read [quiet_rules]: "quiet (readSQL q)"
  by (auto simp: quiet_def unchanged_def readSQL_def execSQL_def split: option.splits)

lemma quiet_pure [quiet_rules]: "quiet (returnA a)" "quiet (failA e)" "quiet (resultA r)"
  by (simp_all add: quiet_def)

lemma quiet_bind [quiet_rules]:
  assumes "quiet m" "\<And>a. quiet (f a)" shows "quiet (bindA m f)"
  unfolding quiet_def
proof
  fix w
  obtain r u where m: "m w = (r, u)" by (rule prod.exhaust)
  then have u: "unchanged w u" using assms(1) by (rule quietD [rotated])
  show "unchanged w (snd (bindA m f w))"
  proof (cases r)
    case (Inr a)
    then show ?thesis
      using m u assms(2) [of a] unchanged_trans [OF u] unfolding quiet_def by (simp add: bindA_run)
  qed (use m u in \<open>simp add: bindA_run\<close>)
qed

lemma quiet_mapErr [quiet_rules]: "quiet m \<Longrightarrow> quiet (mapErrA g m)"
  by (simp add: quiet_def)

lemma quiet_if [quiet_rules]: "quiet m \<Longrightarrow> quiet n \<Longrightarrow> quiet (if b then m else n)"
  by simp

lemma quiet_option [quiet_rules]:
  "quiet m \<Longrightarrow> (\<And>a. quiet (f a)) \<Longrightarrow> quiet (case x of None \<Rightarrow> m | Some a \<Rightarrow> f a)"
  by (cases x) auto

lemma quiet_clock [quiet_rules]: "quiet (liftA readClock)"
  by (simp add: quiet_def liftA_def readClock_def unchanged_def)

lemma quiet_hydrate [quiet_rules]: "quiet (hydrateTransactionTags txs)"
  unfolding hydrateTransactionTags_def Let_def by (intro quiet_rules)

lemma quiet_reads [quiet_rules]:
  "quiet (IsTenantMember a b)" "quiet (GetAccount i)" "quiet (GetCategory i)" "quiet (GetTag i)"
  "quiet (TagStoreGetTransaction i)" "quiet (CandidateStoreGetTransaction i)"
  unfolding IsTenantMember_def GetAccount_def GetCategory_def GetTag_def TagStoreGetTransaction_def
    CandidateStoreGetTransaction_def
  by (intro quiet_rules)+

lemma quiet_require [quiet_rules]:
  "quiet (requireTenantMember a b)" "quiet (requireTenantAccount a b i)" "quiet (requireTenantCategory a b i)"
  "quiet (requireTenantTransaction a b i)"
  unfolding requireTenantMember_def requireTenantAccount_def requireTenantCategory_def requireTenantTransaction_def
  by (intro quiet_rules)+

lemma quiet_tag_loop [quiet_rules]: "quiet (requireTagLoop ten seen result tagIDs)"
proof (induction tagIDs arbitrary: seen result)
  case (Cons i tagIDs)
  show ?case unfolding requireTagLoop.simps Let_def by (intro quiet_rules Cons.IH)
qed (simp add: quiet_rules)

lemma quiet_tags [quiet_rules]: "quiet (requireTenantTagIDs ten tagIDs)"
  unfolding requireTenantTagIDs_def by (rule quiet_tag_loop)

section \<open>What a successful check says\<close>

lemma requireTenantMember_ok:
  "requireTenantMember ten user w = (Inr u, w') \<Longrightarrow> member ten user (w_tables w) \<and> w_tables w' = w_tables w"
  by (auto simp: requireTenantMember_def IsTenantMember_def bindA_Inr member_def filter_empty_conv split: if_splits)

text \<open>The stored row behind a transaction that was read, with its tags.\<close>

definition tagsOf :: "string \<Rightarrow> Tables \<Rightarrow> string list" where
  "tagsOf i t = map ttm_TagID (filter (\<lambda>r. ttm_TransactionID r = i)
     (sort_key tagRowKey (filter (\<lambda>r. ttm_TransactionID r = i) (t_transactionTags t))))"

definition readBack :: "transactionModel \<Rightarrow> Tables \<Rightarrow> Transaction" where
  "readBack row t = (transactionFromModel row)\<lparr>tx_TagIDs := tagsOf (tm_ID row) t\<rparr>"

lemma transactionFromModel_ids [simp]:
  "tx_ID (transactionFromModel row) = tm_ID row" "tx_TenantID (transactionFromModel row) = tm_TenantID row"
  by (simp_all add: transactionFromModel_def)

lemma hydrate_one:
  "hydrateTransactionTags [transactionFromModel row] w = (Inr txs, w') \<Longrightarrow> txs = [readBack row (w_tables w)]"
  by (auto simp: hydrateTransactionTags_def Let_def bindA_Inr readBack_def tagsOf_def orderAsc_def)

lemma TagStoreGet_ok:
  assumes "TagStoreGetTransaction i w = (Inr txn, w')"
  obtains row where "lookupRow tm_ID (TrimSpace i) (t_transactions (w_tables w)) = Some row"
    "txn = readBack row (w_tables w)"
  using assms that
  by (auto simp: TagStoreGetTransaction_def bindA_Inr simp del: lookupRow_None split: option.splits
      dest!: hydrate_one)

lemma requireTenantTransaction_ok:
  assumes "requireTenantTransaction ten user i w = (Inr txn, w')"
  obtains row where "member (TrimSpace ten) (TrimSpace user) (w_tables w)"
    "lookupRow tm_ID (TrimSpace (TrimSpace i)) (t_transactions (w_tables w)) = Some row"
    "tm_TenantID row = TrimSpace ten" "txn = readBack row (w_tables w)" "unchanged w w'"
proof -
  obtain w1 where 1: "requireTenantMember (TrimSpace ten) (TrimSpace user) w = (Inr (), w1)"
    and 2: "TagStoreGetTransaction (TrimSpace i) w1 = (Inr txn, w')" and 3: "tx_TenantID txn = TrimSpace ten"
    using assms by (auto simp: requireTenantTransaction_def bindA_Inr split: if_splits)
  note m = requireTenantMember_ok [OF 1]
  obtain row where row: "lookupRow tm_ID (TrimSpace (TrimSpace i)) (t_transactions (w_tables w1)) = Some row"
      "txn = readBack row (w_tables w1)"
    using TagStoreGet_ok [OF 2] .
  moreover have "unchanged w w'" using assms quiet_require(4) by (rule quietD [rotated])
  ultimately show thesis using that m 3 by (simp add: readBack_def)
qed

section \<open>Writes\<close>

lemma upsertRows_same_key: "upsertRows key key update row rows = Inr (insertOnConflict key update row rows)"
  by (simp add: upsertRows_def)

lemma saveTransactionModel_tables:
  assumes "saveTransactionModel model w = (r, w')"
  shows "w_tables w' = w_tables w \<or>
    w_tables w' = (w_tables w)\<lparr>t_transactions := insertOnConflict tm_ID transactionUpdate model (t_transactions (w_tables w))\<rparr>"
  using assms
  by (auto simp: saveTransactionModel_def bindA_run mapErrA_run changeSQL_def readSQL_def execSQL_def upsertRows_same_key
      simp del: lookupRow_None split: option.splits)

lemma saveTransactionModel_ok:
  assumes "saveTransactionModel model w = (Inr m, w')"
  obtains stored where
    "w_tables w' = (w_tables w)\<lparr>t_transactions := insertOnConflict tm_ID transactionUpdate model (t_transactions (w_tables w))\<rparr>"
    "lookupRow tm_ID (tm_ID model) (insertOnConflict tm_ID transactionUpdate model (t_transactions (w_tables w))) = Some stored"
    "m = model\<lparr>tm_Kind := tm_Kind stored, tm_TransferGroupID := tm_TransferGroupID stored,
       tm_TransferMatchedAt := tm_TransferMatchedAt stored,
       tm_TransferMatchingExcluded := tm_TransferMatchingExcluded stored\<rparr>"
  using assms that
  by (auto simp: saveTransactionModel_def bindA_Inr upsertRows_same_key simp del: lookupRow_None split: option.splits)

text \<open>What saving with tags leaves in the tables.\<close>

definition storedTags :: "string \<Rightarrow> string list \<Rightarrow> transactionTagModel list" where
  "storedTags i tagIDs = map (\<lambda>tagID. \<lparr>ttm_TransactionID = i, ttm_TagID = tagID\<rparr>) tagIDs"

definition savedTables :: "Transaction \<Rightarrow> string list \<Rightarrow> Tables \<Rightarrow> Tables" where
  "savedTables tx tagIDs t =
     t\<lparr>t_transactions := insertOnConflict tm_ID transactionUpdate (newTransactionModel tx) (t_transactions t),
       t_transactionTags := filter (\<lambda>r. ttm_TransactionID r \<noteq> tx_ID tx) (t_transactionTags t) @ storedTags (tx_ID tx) tagIDs\<rparr>"

lemma validateTransactionTags_ok:
  "validateTransactionTags ten tagIDs w = (Inr u, w') \<Longrightarrow> w_tables w' = w_tables w"
  by (auto simp: validateTransactionTags_def bindA_Inr split: if_splits)

lemma newTransactionModel_ids [simp]:
  "tm_ID (newTransactionModel tx) = tx_ID tx" "tm_TenantID (newTransactionModel tx) = tx_TenantID tx"
  by (simp_all add: newTransactionModel_def)

lemma TagStoreSave_ok:
  assumes "TagStoreSaveTransaction tx w = (Inr saved, w')"
  obtains tagIDs stored where
    "normalizedTransactionTagIDs (tx_TagIDs tx) = Inr tagIDs"
    "w_tables w' = savedTables tx tagIDs (w_tables w)"
    "lookupRow tm_ID (tx_ID tx) (t_transactions (w_tables w')) = Some stored"
    "saved = (transactionFromModel ((newTransactionModel tx)\<lparr>tm_Kind := tm_Kind stored,
       tm_TransferGroupID := tm_TransferGroupID stored, tm_TransferMatchedAt := tm_TransferMatchedAt stored,
       tm_TransferMatchingExcluded := tm_TransferMatchingExcluded stored\<rparr>))\<lparr>tx_TagIDs := tagIDs\<rparr>"
proof -
  obtain tagIDs m where tags: "normalizedTransactionTagIDs (tx_TagIDs tx) = Inr tagIDs"
    and saved: "saved = (transactionFromModel m)\<lparr>tx_TagIDs := tagIDs\<rparr>"
    and run: "transactionSQL
       (bindA (validateTransactionTags (tx_TenantID tx) tagIDs) (\<lambda>_.
        bindA (wrapA ''save transaction record'' (saveTransactionModel (newTransactionModel tx))) (\<lambda>model.
        bindA (wrapA ''clear transaction tags'' (clearTransactionTags (tx_ID tx))) (\<lambda>_.
          if tagIDs = [] then returnA model
          else
            bindA (wrapA ''create transaction tags'' (createTransactionTags
              (map (\<lambda>tagID. \<lparr>ttm_TransactionID = tx_ID tx, ttm_TagID = tagID\<rparr>) tagIDs)))
            (\<lambda>_. returnA model))))) w = (Inr m, w')"
    using assms unfolding TagStoreSaveTransaction_def by (auto simp: bindA_Inr)
  obtain u where "bindA (validateTransactionTags (tx_TenantID tx) tagIDs) (\<lambda>_.
        bindA (wrapA ''save transaction record'' (saveTransactionModel (newTransactionModel tx))) (\<lambda>model.
        bindA (wrapA ''clear transaction tags'' (clearTransactionTags (tx_ID tx))) (\<lambda>_.
          if tagIDs = [] then returnA model
          else
            bindA (wrapA ''create transaction tags'' (createTransactionTags
              (map (\<lambda>tagID. \<lparr>ttm_TransactionID = tx_ID tx, ttm_TagID = tagID\<rparr>) tagIDs)))
            (\<lambda>_. returnA model))))
      (w\<lparr>w_statement := Suc (w_statement w), w_inTransaction := True\<rparr>) = (Inr m, u)"
    and tables: "w_tables w' = w_tables u"
    using transactionSQL_ok [OF run] by blast
  then obtain a v1 v2 v3 where
    valid: "validateTransactionTags (tx_TenantID tx) tagIDs (w\<lparr>w_statement := Suc (w_statement w), w_inTransaction := True\<rparr>)
      = (Inr (), v1)" and
    save': "saveTransactionModel (newTransactionModel tx) v1 = (Inr a, v2)" and
    clear: "clearTransactionTags (tx_ID tx) v2 = (Inr (), v3)" and
    create: "(if tagIDs = [] then returnA a
       else bindA (wrapA ''create transaction tags'' (createTransactionTags (storedTags (tx_ID tx) tagIDs)))
         (\<lambda>_. returnA a)) v3 = (Inr m, u)"
    unfolding storedTags_def by (auto simp: bindA_Inr)
  have "a = m" using create by (auto simp: bindA_Inr split: if_splits)
  with save' have save: "saveTransactionModel (newTransactionModel tx) v1 = (Inr m, v2)" by simp
  have v1: "w_tables v1 = w_tables w" using validateTransactionTags_ok [OF valid] by simp
  obtain stored where
    v2: "w_tables v2 = (w_tables v1)\<lparr>t_transactions :=
      insertOnConflict tm_ID transactionUpdate (newTransactionModel tx) (t_transactions (w_tables v1))\<rparr>" and
    found: "lookupRow tm_ID (tx_ID tx)
      (insertOnConflict tm_ID transactionUpdate (newTransactionModel tx) (t_transactions (w_tables v1))) = Some stored" and
    m: "m = (newTransactionModel tx)\<lparr>tm_Kind := tm_Kind stored, tm_TransferGroupID := tm_TransferGroupID stored,
       tm_TransferMatchedAt := tm_TransferMatchedAt stored,
       tm_TransferMatchingExcluded := tm_TransferMatchingExcluded stored\<rparr>"
    using saveTransactionModel_ok [OF save] by auto
  have v3: "w_tables v3 = (w_tables v2)\<lparr>t_transactionTags :=
      filter (\<lambda>r. ttm_TransactionID r \<noteq> tx_ID tx) (t_transactionTags (w_tables v2))\<rparr>"
    using clear by (auto simp: clearTransactionTags_def)
  have u: "w_tables u = (w_tables v3)\<lparr>t_transactionTags := t_transactionTags (w_tables v3) @ storedTags (tx_ID tx) tagIDs\<rparr>"
    using create by (auto simp: createTransactionTags_def bindA_Inr storedTags_def split: if_splits)
  have "w_tables w' = savedTables tx tagIDs (w_tables w)"
    by (simp add: tables u v3 v2 v1 savedTables_def)
  then show thesis using that [OF tags _ _ saved [unfolded m]] found v1 by (simp add: savedTables_def)
qed

lemma TagStoreSave_error:
  "TagStoreSaveTransaction tx w = (Inl e, w') \<Longrightarrow> w_tables w' = w_tables w"
  by (auto simp: TagStoreSaveTransaction_def bindA_Inl mapErrA_Inl dest: transactionSQL_error)

end

