(* ===== verification/LedgerSpec.thy ===== *)
theory LedgerSpec
  imports LedgerProperties
begin

text \<open>
  What the ledger promises, as a step relation on the tables: a request of a tenant leaves
  them alone, adds one transaction with a fresh id, rewrites one transaction of the tenant,
  or joins or separates two of them. \<open>serve\<close> runs a request of the ledger service; the
  refinement says that each of its requests is one such step, whatever fails on the way.
\<close>

section \<open>Requests\<close>

datatype ledgerRequest =
    RecordRequest RecordTransactionParams
  | UpdateRequest UpdateTransactionParams
  | HideRequest TransactionRefParams
  | LinkRequest TransferRefParams
  | UnlinkRequest TransferRefParams
  | GetRequest TransactionRefParams
  | ListRequest ListTransactionsParams
  | SummarizeRequest SummarizeTransactionsParams
  | CandidatesRequest ListTransferCandidatesParams
  | PartnerRequest TransactionRefParams
  | BalanceRequest AccountRefParams

fun requestTenant :: "ledgerRequest \<Rightarrow> string" where
  "requestTenant (RecordRequest p) = TrimSpace (rtp_TenantID p)"
| "requestTenant (UpdateRequest p) = TrimSpace (utp_TenantID p)"
| "requestTenant (HideRequest p) = TrimSpace (trp_TenantID p)"
| "requestTenant (LinkRequest p) = TrimSpace (lup_TenantID p)"
| "requestTenant (UnlinkRequest p) = TrimSpace (lup_TenantID p)"
| "requestTenant (GetRequest p) = TrimSpace (trp_TenantID p)"
| "requestTenant (ListRequest p) = TrimSpace (lt_TenantID p)"
| "requestTenant (SummarizeRequest p) = TrimSpace (stp_TenantID p)"
| "requestTenant (CandidatesRequest p) = TrimSpace (ltc_TenantID p)"
| "requestTenant (PartnerRequest p) = TrimSpace (trp_TenantID p)"
| "requestTenant (BalanceRequest p) = TrimSpace (arp_TenantID p)"

text \<open>The world a request leaves behind, whether it answers or fails.\<close>

fun serve :: "ledgerRequest \<Rightarrow> World \<Rightarrow> World" where
  "serve (RecordRequest p) w = snd (RecordTransaction p w)"
| "serve (UpdateRequest p) w = snd (UpdateTransaction p w)"
| "serve (HideRequest p) w = snd (HideTransaction p w)"
| "serve (LinkRequest p) w = snd (LinkTransfers p w)"
| "serve (UnlinkRequest p) w = snd (UnlinkTransfers p w)"
| "serve (GetRequest p) w = snd (LedgerGetTransaction p w)"
| "serve (ListRequest p) w = snd (LedgerListTransactions p w)"
| "serve (SummarizeRequest p) w = snd (SummarizeTransactions p w)"
| "serve (CandidatesRequest p) w = snd (ListTransferCandidates p w)"
| "serve (PartnerRequest p) w = snd (GetTransferPartner p w)"
| "serve (BalanceRequest p) w = snd (GetAccountBalance p w)"

text \<open>Requests one after another; between two of them only clocks, faults and the like move.\<close>

inductive ledger_run :: "World \<Rightarrow> ledgerRequest list \<Rightarrow> World \<Rightarrow> bool" where
  Done: "unchanged w w' \<Longrightarrow> ledger_run w [] w'"
| Serve: "unchanged w u \<Longrightarrow> ledger_run (serve q u) qs w' \<Longrightarrow> ledger_run w (q # qs) w'"

inductive_cases ledger_run_NilE: "ledger_run w [] w'"
inductive_cases ledger_run_ConsE: "ledger_run w (q # qs) w'"

section \<open>The specification\<close>

text \<open>
  The state is the tables and the number of ids drawn; \<open>ids\<close> is the source of ids.
\<close>

definition storedRow :: "transactionModel \<Rightarrow> Tables \<Rightarrow> bool" where
  "storedRow row t \<longleftrightarrow> row \<in> set (t_transactions t)"

inductive ledger_step ::
  "(nat \<Rightarrow> string) \<Rightarrow> string \<Rightarrow> Tables \<times> nat \<Rightarrow> Tables \<times> nat \<Rightarrow> bool"
  for ids :: "nat \<Rightarrow> string" and tenant :: string where
  Unchanged: "n \<le> m \<Longrightarrow> ledger_step ids tenant (t, n) (t, m)"
| Recorded: "tx_ID tx = ids n \<Longrightarrow> tx_TenantID tx = tenant \<Longrightarrow> tx_TransferMatchedAt tx = None \<Longrightarrow>
    ledger_step ids tenant (t, n) (savedTables tx tagIDs t, Suc n)"
| Updated: "storedRow row t \<Longrightarrow> tm_TenantID row = tenant \<Longrightarrow>
    ledger_step ids tenant (t, n)
      (savedTables ((readBack row t)\<lparr>tx_CategoryID := category, tx_Description := description, tx_AmountMinor := amount,
          tx_TagIDs := given, tx_EffectiveAt := effective, tx_UpdatedAt := now\<rparr>) tagIDs t, n)"
| Hidden: "storedRow row t \<Longrightarrow> tm_TenantID row = tenant \<Longrightarrow>
    ledger_step ids tenant (t, n)
      (t\<lparr>t_transactions := insertOnConflict tm_ID transactionUpdate
          (newTransactionModel ((readBack row t)\<lparr>tx_HiddenAt := Some now, tx_UpdatedAt := now\<rparr>)) (t_transactions t)\<rparr>, n)"
| Linked: "storedRow first t \<Longrightarrow> storedRow second t \<Longrightarrow>
    tm_TenantID first = tenant \<Longrightarrow> tm_TenantID second = tenant \<Longrightarrow>
    validateTransferPair (transactionFromModel first) (transactionFromModel second) = None \<Longrightarrow>
    tpl_TransferGroupID params = ids n \<Longrightarrow>
    ledger_step ids tenant (t, n) (updateLegs tenant {tm_ID first, tm_ID second} (linkUpdates params) t, Suc n)"
| Unlinked: "storedRow first t \<Longrightarrow> storedRow second t \<Longrightarrow>
    tm_TenantID first = tenant \<Longrightarrow> tm_TenantID second = tenant \<Longrightarrow>
    linkedTransferPair (transactionFromModel first) (transactionFromModel second) \<Longrightarrow>
    ledger_step ids tenant (t, n) (updateLegs tenant {tm_ID first, tm_ID second} (unlinkUpdates params) t, n)"

inductive ledger_steps :: "(nat \<Rightarrow> string) \<Rightarrow> string list \<Rightarrow> Tables \<times> nat \<Rightarrow> Tables \<times> nat \<Rightarrow> bool"
  for ids :: "nat \<Rightarrow> string" where
  Stop: "ledger_steps ids [] s s"
| Step: "ledger_step ids tenant s s1 \<Longrightarrow> ledger_steps ids tenants s1 s2 \<Longrightarrow> ledger_steps ids (tenant # tenants) s s2"

definition ledgerState :: "World \<Rightarrow> Tables \<times> nat" where
  "ledgerState w = (w_tables w, w_idsDrawn w)"

lemma unchanged_state: "unchanged w w' \<Longrightarrow> ledgerState w' = ledgerState w \<and> w_idSource w' = w_idSource w"
  by (simp add: unchanged_def ledgerState_def)

section \<open>Every request is a step\<close>

text \<open>\<open>sameSource m\<close>: \<open>m\<close> keeps the source of ids and how far it is drawn.\<close>

definition sameSource :: "(World, 'a) action \<Rightarrow> bool" where
  "sameSource m \<longleftrightarrow> (\<forall>w. w_idSource (snd (m w)) = w_idSource w \<and> w_idsDrawn (snd (m w)) = w_idsDrawn w)"

named_theorems source_rules "introduction rules for sameSource"

lemma sameSourceD: "sameSource m \<Longrightarrow> m w = (r, w') \<Longrightarrow> w_idSource w' = w_idSource w \<and> w_idsDrawn w' = w_idsDrawn w"
  unfolding sameSource_def by (metis snd_conv)

lemma source_exec [source_rules]: "sameSource (execSQL f)"
  by (auto simp: sameSource_def execSQL_def split: option.splits prod.splits)

lemma source_sql [source_rules]: "sameSource (readSQL q)" "sameSource (changeSQL c)"
  unfolding readSQL_def changeSQL_def by (intro source_rules)+

lemma source_quiet: "quiet m \<Longrightarrow> sameSource m"
  by (simp add: quiet_def sameSource_def unchanged_def)

lemma source_bind [source_rules]: "sameSource m \<Longrightarrow> (\<And>a. sameSource (f a)) \<Longrightarrow> sameSource (bindA m f)"
  unfolding sameSource_def bindA_run by (auto split: prod.splits sum.splits) (metis snd_conv)+

lemma source_mapErr [source_rules]: "sameSource m \<Longrightarrow> sameSource (mapErrA g m)"
  unfolding sameSource_def mapErrA_run by (auto split: prod.splits sum.splits) (metis snd_conv)+

lemma source_if [source_rules]: "sameSource m \<Longrightarrow> sameSource n \<Longrightarrow> sameSource (if b then m else n)"
  by simp

lemma source_option [source_rules]:
  "sameSource m \<Longrightarrow> (\<And>a. sameSource (f a)) \<Longrightarrow> sameSource (case x of None \<Rightarrow> m | Some a \<Rightarrow> f a)"
  by (cases x) auto

lemma source_pure [source_rules]: "sameSource (returnA a)" "sameSource (failA e)" "sameSource (resultA r)"
  by (simp_all add: sameSource_def)

lemma source_transaction [source_rules]:
  assumes "sameSource body" shows "sameSource (transactionSQL body)"
  unfolding sameSource_def
proof
  fix w :: World
  define w1 where "w1 = w\<lparr>w_statement := Suc (w_statement w), w_inTransaction := True\<rparr>"
  have "w_idSource (snd (body w1)) = w_idSource w \<and> w_idsDrawn (snd (body w1)) = w_idsDrawn w"
    using assms by (simp add: sameSource_def w1_def)
  then show "w_idSource (snd (transactionSQL body w)) = w_idSource w \<and>
      w_idsDrawn (snd (transactionSQL body w)) = w_idsDrawn w"
    unfolding transactionSQL_def
    by (cases "body w1") (auto simp: bindA_def readSQL_def execSQL_def w1_def split: option.splits sum.splits)
qed

lemma source_saves [source_rules]:
  "sameSource (saveTransactionModel m)" "sameSource (SaveTransaction tx)" "sameSource (TagStoreSaveTransaction tx)"
  "sameSource (LinkTransferPair lp)" "sameSource (UnlinkTransferPair up)"
  unfolding SaveTransaction_def TagStoreSaveTransaction_def saveTransactionModel_def validateTransactionTags_def
    clearTransactionTags_def createTransactionTags_def LinkTransferPair_def UnlinkTransferPair_def
    updatePair_def updateTransferPairLeg_def updateRowsSQL_def Let_def
  by (intro source_rules)+

text \<open>
  \<open>served tenant w w'\<close>: going from \<open>w\<close> to \<open>w'\<close> is one step of the specification for \<open>tenant\<close>.
\<close>

definition served :: "string \<Rightarrow> World \<Rightarrow> World \<Rightarrow> bool" where
  "served tenant w w' \<longleftrightarrow>
     w_idSource w' = w_idSource w \<and> ledger_step (w_idSource w) tenant (ledgerState w) (ledgerState w')"

lemma served_unchanged: "unchanged w w' \<Longrightarrow> served tenant w w'"
  by (simp add: served_def ledgerState_def unchanged_def Unchanged)

lemma served_from: "unchanged w u \<Longrightarrow> served tenant u w' \<Longrightarrow> served tenant w w'"
  by (simp add: served_def ledgerState_def unchanged_def)

lemma served_quiet: "quiet m \<Longrightarrow> served tenant w (snd (m w))"
  by (simp add: quiet_def served_unchanged)

lemma served_fail [simp]: "served tenant w (snd (failA e w))"
  by (simp add: served_unchanged)

lemma served_bind:
  assumes "quiet m" "\<And>a u. m w = (Inr a, u) \<Longrightarrow> unchanged w u \<Longrightarrow> served tenant u (snd (f a u))"
  shows "served tenant w (snd (bindA m f w))"
proof -
  obtain r u where m: "m w = (r, u)" by (rule prod.exhaust)
  then have u: "unchanged w u" using assms(1) by (rule quietD [rotated])
  show ?thesis
  proof (cases r)
    case (Inl e)
    with m u show ?thesis by (simp add: bindA_run served_unchanged)
  next
    case (Inr a)
    with m u have "served tenant w (snd (f a u))" using assms(2) by (blast intro: served_from)
    with m Inr show ?thesis by (simp add: bindA_run)
  qed
qed

lemma served_mapErr: "served tenant w (snd (m w)) \<Longrightarrow> served tenant w (snd (mapErrA g m w))"
  by simp

lemma served_clock:
  "(\<And>now u. unchanged w u \<Longrightarrow> served tenant u (snd (f now u))) \<Longrightarrow> served tenant w (snd (bindA (liftA readClock) f w))"
  by (rule served_bind) (simp_all add: quiet_clock)

text \<open>What the saves built of the tables, as steps.\<close>

lemma TagStoreSave_tables:
  "w_tables (snd (TagStoreSaveTransaction tx w)) = w_tables w \<or>
   (\<exists>tagIDs. w_tables (snd (TagStoreSaveTransaction tx w)) = savedTables tx tagIDs (w_tables w))"
proof (cases "TagStoreSaveTransaction tx w")
  case (Pair r w')
  then show ?thesis
    by (cases r) (auto dest: TagStoreSave_error elim: TagStoreSave_ok)
qed

lemma served_recorded:
  assumes "tx_TenantID (built (w_idSource w (w_idsDrawn w))) = tenant"
    and "tx_TransferMatchedAt (built (w_idSource w (w_idsDrawn w))) = None"
    and "tx_ID (built (w_idSource w (w_idsDrawn w))) = w_idSource w (w_idsDrawn w)"
  shows "served tenant w (snd (bindA (liftA drawID) (\<lambda>i. mapErrA g (TagStoreSaveTransaction (built i))) w))"
proof -
  define tx where "tx = built (w_idSource w (w_idsDrawn w))"
  define u where "u = w\<lparr>w_idsDrawn := Suc (w_idsDrawn w)\<rparr>"
  define w' where "w' = snd (TagStoreSaveTransaction tx u)"
  have run: "snd (bindA (liftA drawID) (\<lambda>i. mapErrA g (TagStoreSaveTransaction (built i))) w) = w'"
    by (simp add: bindA_run liftA_run drawID_def tx_def u_def w'_def)
  have source: "w_idSource w' = w_idSource w" "w_idsDrawn w' = Suc (w_idsDrawn w)"
    using source_saves(3) [of tx] by (simp_all add: sameSource_def w'_def u_def)
  from TagStoreSave_tables [of tx u]
  have "ledger_step (w_idSource w) tenant (w_tables w, w_idsDrawn w) (w_tables w', Suc (w_idsDrawn w))"
  proof (elim disjE exE)
    fix tagIDs assume "w_tables (snd (TagStoreSaveTransaction tx u)) = savedTables tx tagIDs (w_tables u)"
    then show ?thesis
      using assms Recorded [of tx "w_idSource w" "w_idsDrawn w" tenant "w_tables w" tagIDs] by (simp add: w'_def u_def tx_def)
  qed (simp add: w'_def u_def Unchanged)
  with source run show ?thesis by (simp add: served_def ledgerState_def)
qed

lemma served_updated:
  assumes "storedRow row (w_tables w)" "tm_TenantID row = tenant"
    and "tx = (readBack row (w_tables w))\<lparr>tx_CategoryID := category, tx_Description := description, tx_AmountMinor := amount,
          tx_TagIDs := given, tx_EffectiveAt := effective, tx_UpdatedAt := now\<rparr>"
  shows "served tenant w (snd (TagStoreSaveTransaction tx w))"
proof -
  define w' where "w' = snd (TagStoreSaveTransaction tx w)"
  have source: "w_idSource w' = w_idSource w" "w_idsDrawn w' = w_idsDrawn w"
    using source_saves(3) [of tx] by (simp_all add: sameSource_def w'_def)
  from TagStoreSave_tables [of tx w]
  have "ledger_step (w_idSource w) tenant (w_tables w, w_idsDrawn w) (w_tables w', w_idsDrawn w)"
  proof (elim disjE exE)
    fix tagIDs assume tables: "w_tables (snd (TagStoreSaveTransaction tx w)) = savedTables tx tagIDs (w_tables w)"
    show ?thesis
      unfolding tables [folded w'_def] unfolding assms(3) by (rule Updated [OF assms(1,2)])
  qed (simp add: w'_def Unchanged)
  with source show ?thesis unfolding w'_def [symmetric] by (simp add: served_def ledgerState_def)
qed

lemma served_hidden:
  assumes "storedRow row (w_tables w)" "tm_TenantID row = tenant"
    and "tx = (readBack row (w_tables w))\<lparr>tx_HiddenAt := Some now, tx_UpdatedAt := now\<rparr>"
  shows "served tenant w (snd (SaveTransaction tx w))"
proof -
  define w' where "w' = snd (SaveTransaction tx w)"
  have source: "w_idSource w' = w_idSource w" "w_idsDrawn w' = w_idsDrawn w"
    using source_saves(2) [of tx] by (simp_all add: sameSource_def w'_def)
  obtain r where "saveTransactionModel (newTransactionModel tx) w = (r, w')"
    unfolding w'_def SaveTransaction_def
    by (cases "saveTransactionModel (newTransactionModel tx) w") (auto simp: bindA_run mapErrA_run split: sum.splits)
  from saveTransactionModel_tables [OF this]
  have "ledger_step (w_idSource w) tenant (w_tables w, w_idsDrawn w) (w_tables w', w_idsDrawn w)"
  proof (elim disjE)
    assume tables: "w_tables w' = (w_tables w)\<lparr>t_transactions :=
      insertOnConflict tm_ID transactionUpdate (newTransactionModel tx) (t_transactions (w_tables w))\<rparr>"
    show ?thesis unfolding tables assms(3) by (rule Hidden [OF assms(1,2)])
  qed (simp add: Unchanged)
  with source show ?thesis unfolding w'_def [symmetric] by (simp add: served_def ledgerState_def)
qed

lemma updateLegs_other:
  assumes "distinct (map tm_ID (t_transactions t))" "storedRow first t" "tm_TenantID first = tenant"
    and "oneRow other (tm_ID first) t"
  shows "other = tenant"
proof -
  have "filter (\<lambda>row. tm_TenantID row = other \<and> tm_ID row = tm_ID first) (t_transactions t) \<noteq> []"
    using assms(4) by (auto simp: oneRow_def)
  then obtain row where "row \<in> set (t_transactions t)" "tm_TenantID row = other" "tm_ID row = tm_ID first"
    by (auto simp: filter_empty_conv)
  then have "row = first" using assms(1,2) by (auto simp: storedRow_def dest: distinct_map [THEN iffD1] inj_onD)
  with \<open>tm_TenantID row = other\<close> assms(3) show ?thesis by simp
qed

lemma validate_readBack [simp]:
  "validateTransferPair (readBack first t) (readBack second t) =
   validateTransferPair (transactionFromModel first) (transactionFromModel second)"
  "linkedTransferPair (readBack first t) (readBack second t) =
   linkedTransferPair (transactionFromModel first) (transactionFromModel second)"
  by (simp_all add: readBack_def validateTransferPair_def linkedTransferPair_def)

lemma readBack_ids [simp]: "tx_ID (readBack row t) = tm_ID row" "tx_TenantID (readBack row t) = tm_TenantID row"
  by (simp_all add: readBack_def)

lemma served_linked:
  assumes "distinct (map tm_ID (t_transactions (w_tables w)))"
    and "storedRow first (w_tables w)" "storedRow second (w_tables w)"
    and "tm_TenantID first = tenant" "tm_TenantID second = tenant"
    and "validateTransferPair (transactionFromModel first) (transactionFromModel second) = None"
  shows "served tenant w (snd (saveTransferPair params (readBack first t, readBack second t) w))"
proof -
  define now where "now = w_clock w (w_timesRead w)"
  define lp where "lp = \<lparr>tpl_TenantID = lup_TenantID params, tpl_FirstTransactionID = tm_ID first,
    tpl_SecondTransactionID = tm_ID second, tpl_TransferGroupID = w_idSource w (w_idsDrawn w),
    tpl_TransferMatchedAt = now, tpl_UpdatedAt = now\<rparr>"
  define u where "u = w\<lparr>w_idsDrawn := Suc (w_idsDrawn w), w_timesRead := Suc (w_timesRead w)\<rparr>"
  obtain r w' where link: "LinkTransferPair lp u = (r, w')" by (rule prod.exhaust)
  have run: "snd (saveTransferPair params (readBack first t, readBack second t) w) = w'"
    using link by (simp add: saveTransferPair_def bindA_run liftA_run drawID_def readClock_def u_def lp_def now_def)
  have source: "w_idSource w' = w_idSource w" "w_idsDrawn w' = Suc (w_idsDrawn w)"
    using sameSourceD [OF source_saves(4) link] by (simp_all add: u_def)
  have "ledger_step (w_idSource w) tenant (w_tables w, w_idsDrawn w) (w_tables w', Suc (w_idsDrawn w))"
  proof (cases r)
    case (Inl e)
    then have "w_tables w' = w_tables w"
      using link by (auto simp: LinkTransferPair_def mapErrA_Inl u_def dest: link.pair_error)
    then show ?thesis by (simp add: Unchanged)
  next
    case (Inr x)
    then have "updatePair (lup_TenantID params) (tm_ID first) (tm_ID second) (linkUpdates lp) u = (Inr x, w')"
      using link by (simp add: LinkTransferPair_def lp_def)
    note ok = link.pair_ok [OF this]
    have "lup_TenantID params = tenant"
      using ok(2) assms(1,2,4) updateLegs_other [of "w_tables w" first tenant "lup_TenantID params"] by (simp add: u_def)
    then show ?thesis
      using ok(4) Linked [OF assms(2-6), of lp "w_idSource w" "w_idsDrawn w"] by (simp add: u_def lp_def)
  qed
  with source run show ?thesis by (simp add: served_def ledgerState_def)
qed

lemma served_unlinked:
  assumes "distinct (map tm_ID (t_transactions (w_tables w)))"
    and "storedRow first (w_tables w)" "storedRow second (w_tables w)"
    and "tm_TenantID first = tenant" "tm_TenantID second = tenant"
    and "linkedTransferPair (transactionFromModel first) (transactionFromModel second)"
    and "tpu_FirstTransactionID up = tm_ID first" "tpu_SecondTransactionID up = tm_ID second"
  shows "served tenant w (snd (UnlinkTransferPair up w))"
proof -
  obtain r w' where unlink: "UnlinkTransferPair up w = (r, w')" by (rule prod.exhaust)
  note source = sameSourceD [OF source_saves(5) unlink]
  have "ledger_step (w_idSource w) tenant (w_tables w, w_idsDrawn w) (w_tables w', w_idsDrawn w)"
  proof (cases r)
    case (Inl e)
    then have "w_tables w' = w_tables w"
      using unlink by (auto simp: UnlinkTransferPair_def mapErrA_Inl dest: unlink.pair_error)
    then show ?thesis by (simp add: Unchanged)
  next
    case (Inr x)
    then have "updatePair (tpu_TenantID up) (tm_ID first) (tm_ID second) (unlinkUpdates up) w = (Inr x, w')"
      using unlink assms(7,8) by (simp add: UnlinkTransferPair_def)
    note ok = unlink.pair_ok [OF this]
    have "tpu_TenantID up = tenant"
      using ok(2) assms(1,2,4) by (rule updateLegs_other [rotated 3])
    then show ?thesis
      using ok(4) Unlinked [OF assms(2-6), of "w_idSource w" "w_idsDrawn w" up] by simp
  qed
  with source unlink show ?thesis by (simp add: served_def ledgerState_def)
qed

section \<open>The refinement\<close>

lemma quiet_requests [quiet_rules]:
  "quiet (LedgerGetTransaction p)" "quiet (LedgerListTransactions lp)" "quiet (SummarizeTransactions sp)"
  "quiet (ListTransferCandidates cp)" "quiet (GetTransferPartner p)" "quiet (GetAccountBalance ap)"
  unfolding GetAccountBalance_def ListAccountBalances_def LedgerGetTransaction_def LedgerListTransactions_def SummarizeTransactions_def ListTransferCandidates_def
    GetTransferPartner_def StoreListTransactions_def TagStoreListTransactions_def ListAccounts_def ListCandidates_def
    ListTransferGroupTransactions_def transferTransactionsFromModels_def detailRequireTransaction_def Let_def
  by (intro quiet_rules)+

lemma requireTenantTransaction_row:
  assumes "requireTenantTransaction ten user i w = (Inr txn, w')"
  obtains row where "storedRow row (w_tables w')" "tm_TenantID row = TrimSpace ten" "txn = readBack row (w_tables w')"
    "unchanged w w'"
proof (rule requireTenantTransaction_ok [OF assms])
  fix row assume row: "lookupRow tm_ID (TrimSpace (TrimSpace i)) (t_transactions (w_tables w)) = Some row"
    "tm_TenantID row = TrimSpace ten" "txn = readBack row (w_tables w)" "unchanged w w'"
  then have "storedRow row (w_tables w)" by (auto simp: storedRow_def dest: lookupRow_Some)
  with row that show thesis by (simp add: unchanged_def)
qed

lemma requireTenantAccount_tenant:
  "requireTenantAccount ten user i w = (Inr account, w') \<Longrightarrow> acc_TenantID account = TrimSpace ten"
  by (auto simp: requireTenantAccount_def bindA_Inr split: if_splits)

text \<open>One rule per construct of a request, so that a request is walked through by \<open>rule\<close>.\<close>

lemma served_if:
  "(b \<Longrightarrow> served tenant w (snd (m w))) \<Longrightarrow> (\<not> b \<Longrightarrow> served tenant w (snd (n w))) \<Longrightarrow>
   served tenant w (snd ((if b then m else n) w))"
  by simp

lemma served_row:
  assumes "\<And>row u. storedRow row (w_tables u) \<Longrightarrow> tm_TenantID row = TrimSpace ten \<Longrightarrow> unchanged w u \<Longrightarrow>
    served tenant u (snd (f (readBack row (w_tables u)) u))"
  shows "served tenant w (snd (bindA (requireTenantTransaction ten user i) f w))"
  by (rule served_bind [OF quiet_require(4)]) (auto elim!: requireTenantTransaction_row intro!: assms)

lemma served_updated_later:
  "storedRow row (w_tables u) \<Longrightarrow> tm_TenantID row = tenant \<Longrightarrow> unchanged u w \<Longrightarrow>
   served tenant w (snd (TagStoreSaveTransaction ((readBack row (w_tables u))\<lparr>tx_CategoryID := category,
     tx_Description := description, tx_AmountMinor := amount, tx_TagIDs := given, tx_EffectiveAt := effective,
     tx_UpdatedAt := now\<rparr>) w))"
  by (rule served_updated [of row]) (simp_all add: unchanged_def)

lemma served_hidden_later:
  "storedRow row (w_tables u) \<Longrightarrow> tm_TenantID row = tenant \<Longrightarrow> unchanged u w \<Longrightarrow>
   served tenant w (snd (SaveTransaction ((readBack row (w_tables u))\<lparr>tx_HiddenAt := Some now, tx_UpdatedAt := now\<rparr>) w))"
  by (rule served_hidden [of row]) (simp_all add: unchanged_def)

lemma quiet_validate [quiet_rules]: "quiet (validateLedgerTimestamp t)"
  unfolding validateLedgerTimestamp_def by (intro quiet_rules)

lemma served_ignore: "served tenant w (snd (m w)) \<Longrightarrow> served tenant w (snd (bindA m (\<lambda>_. returnA ()) w))"
  by (cases "m w") (auto simp: bindA_run split: sum.splits)

lemma served_Record: "served (TrimSpace (rtp_TenantID p)) w (snd (RecordTransaction p w))"
  unfolding RecordTransaction_def
  apply (rule served_bind [OF quiet_validate])
  apply (rule served_bind [OF quiet_require(2)])
  apply (drule requireTenantAccount_tenant)
  apply (rule served_if [OF served_fail])
  apply (rule served_bind, (intro quiet_rules)[1])
  apply (rule served_bind [OF quiet_tags])
  apply (rule served_clock)
  apply (rule served_recorded)
    apply simp_all
  done

lemma served_Update: "served (TrimSpace (utp_TenantID p)) w (snd (UpdateTransaction p w))"
  unfolding UpdateTransaction_def
  apply (rule served_bind, (intro quiet_rules)[1])
  apply (rule served_row)
  apply (rule served_bind, (intro quiet_rules)[1])
  apply (rule served_bind [OF quiet_tags])
  apply (rule served_clock, rule served_mapErr)
  apply (rule served_updated_later, assumption, assumption)
  apply (blast intro: unchanged_trans)
  done

lemma served_Hide: "served (TrimSpace (trp_TenantID p)) w (snd (HideTransaction p w))"
  unfolding HideTransaction_def
  apply (rule served_row, rule served_clock, rule served_ignore, rule served_mapErr)
  apply (rule served_hidden_later)
    apply assumption+
  done

lemma distinct_unchanged:
  "unchanged w u \<Longrightarrow> distinct (map tm_ID (t_transactions (w_tables w))) \<Longrightarrow> distinct (map tm_ID (t_transactions (w_tables u)))"
  by (simp add: unchanged_def)

text \<open>The two legs, read one after the other from the same tables.\<close>

lemma served_pair:
  assumes "distinct (map tm_ID (t_transactions (w_tables w)))"
    and "\<And>first second u. storedRow first (w_tables u) \<Longrightarrow> storedRow second (w_tables u) \<Longrightarrow>
      tm_TenantID first = TrimSpace ten \<Longrightarrow> tm_TenantID second = TrimSpace ten \<Longrightarrow>
      distinct (map tm_ID (t_transactions (w_tables u))) \<Longrightarrow> unchanged w u \<Longrightarrow>
      served tenant u (snd (f (readBack first (w_tables u)) (readBack second (w_tables u)) u))"
  shows "served tenant w (snd (bindA (requireTenantTransaction ten user i) (\<lambda>a.
    bindA (requireTenantTransaction ten user j) (\<lambda>b. f a b)) w))"
proof (rule served_row, rule served_row)
  fix first u1 second u2
  assume *: "storedRow first (w_tables u1)" "tm_TenantID first = TrimSpace ten" "unchanged w u1"
    "storedRow second (w_tables u2)" "tm_TenantID second = TrimSpace ten" "unchanged u1 u2"
  then have same: "w_tables u1 = w_tables u2" and "unchanged w u2" by (auto simp: unchanged_def)
  with * show "served tenant u2 (snd (f (readBack first (w_tables u1)) (readBack second (w_tables u2)) u2))"
    unfolding same using assms(1) by (intro assms(2)) (auto dest: distinct_unchanged)
qed

lemma bindA_assoc: "bindA (bindA m f) g = bindA m (\<lambda>a. bindA (f a) g)"
  by (auto simp: bindA_def fun_eq_iff split: prod.splits sum.splits)

lemma served_Link:
  assumes "distinct (map tm_ID (t_transactions (w_tables w)))"
  shows "served (TrimSpace (lup_TenantID p)) w (snd (LinkTransfers p w))"
  unfolding LinkTransfers_def checkTransferPair_def bindA_assoc
proof (rule served_pair [OF assms])
  fix first second and u :: World
  assume "storedRow first (w_tables u)" "storedRow second (w_tables u)"
    "tm_TenantID first = TrimSpace (lup_TenantID p)" "tm_TenantID second = TrimSpace (lup_TenantID p)"
    "distinct (map tm_ID (t_transactions (w_tables u)))"
  note pair = served_linked [OF this(5) this(1-4)]
  show "served (TrimSpace (lup_TenantID p)) u (snd (bindA
      (case validateTransferPair (readBack first (w_tables u)) (readBack second (w_tables u)) of
         Some e \<Rightarrow> failA e
       | None \<Rightarrow> returnA (readBack first (w_tables u), readBack second (w_tables u)))
      (saveTransferPair p) u))"
    using pair by (auto simp: bindA_run served_unchanged split: option.splits)
qed

lemma served_Unlink:
  assumes "distinct (map tm_ID (t_transactions (w_tables w)))"
  shows "served (TrimSpace (lup_TenantID p)) w (snd (UnlinkTransfers p w))"
  unfolding UnlinkTransfers_def
proof (rule served_pair [OF assms])
  fix first second and u :: World
  assume row: "storedRow first (w_tables u)" "storedRow second (w_tables u)"
    "tm_TenantID first = TrimSpace (lup_TenantID p)" "tm_TenantID second = TrimSpace (lup_TenantID p)"
    "distinct (map tm_ID (t_transactions (w_tables u)))"
  let ?f = "readBack first (w_tables u)" and ?s = "readBack second (w_tables u)"
  show "served (TrimSpace (lup_TenantID p)) u (snd ((if \<not> linkedTransferPair ?f ?s then failA (Sentinel ErrTransferNotLinked)
       else bindA (liftA readClock) (\<lambda>now. wrapA ''unlink transfers'' (UnlinkTransferPair
             \<lparr>tpu_TenantID = lup_TenantID p, tpu_FirstTransactionID = tx_ID ?f, tpu_SecondTransactionID = tx_ID ?s,
              tpu_UpdatedAt = now\<rparr>))) u))"
  proof (rule served_if [OF served_fail], rule served_clock, rule served_mapErr)
    fix now v assume "\<not> \<not> linkedTransferPair ?f ?s" and same: "unchanged u v"
    then have "linkedTransferPair (transactionFromModel first) (transactionFromModel second)" "w_tables v = w_tables u"
      by (simp_all add: unchanged_def)
    with row show "served (TrimSpace (lup_TenantID p)) v (snd (UnlinkTransferPair
       \<lparr>tpu_TenantID = lup_TenantID p, tpu_FirstTransactionID = tx_ID ?f, tpu_SecondTransactionID = tx_ID ?s,
        tpu_UpdatedAt = now\<rparr> v))"
      by (intro served_unlinked [of v first second]) simp_all
  qed
qed

lemma serve_served:
  assumes "distinct (map tm_ID (t_transactions (w_tables w)))"
  shows "served (requestTenant q) w (serve q w)"
  by (cases q) (simp_all add: served_Record served_Update served_Hide served_Link [OF assms] served_Unlink [OF assms]
      served_quiet quiet_requests)

end
