(* ===== verification/LedgerInvariants.thy ===== *)
theory LedgerInvariants
  imports LedgerSpec
begin

text \<open>
  What every step of the ledger's specification keeps, and through the refinement every run
  of requests: transaction ids are unique and future ids are unused, the rows of other
  tenants are untouched, and matched legs come in pairs. The last section serves two
  requests interleaved, where the pairs are no longer kept.
\<close>

section \<open>Unique and fresh ids\<close>

definition uniqueIDs :: "Tables \<Rightarrow> bool" where
  "uniqueIDs t \<longleftrightarrow> distinct (map tm_ID (t_transactions t))"

definition freshIDs :: "(nat \<Rightarrow> string) \<Rightarrow> Tables \<times> nat \<Rightarrow> bool" where
  "freshIDs ids s \<longleftrightarrow> (\<forall>k \<ge> snd s. ids k \<notin> tm_ID ` set (t_transactions (fst s)))"

lemma same_row: "uniqueIDs t \<Longrightarrow> storedRow a t \<Longrightarrow> r \<in> set (t_transactions t) \<Longrightarrow> tm_ID r = tm_ID a \<Longrightarrow> r = a"
  unfolding uniqueIDs_def storedRow_def by (auto dest: distinct_map [THEN iffD1] inj_onD)

text \<open>Saving a transaction that is stored rewrites its row; one that is not is appended.\<close>

lemma save_stored:
  assumes "uniqueIDs t" "storedRow row t" "tm_ID model = tm_ID row"
  shows "insertOnConflict tm_ID transactionUpdate model (t_transactions t) =
    map (\<lambda>r. if tm_ID r = tm_ID row then transactionUpdate row model else r) (t_transactions t)"
proof -
  have "\<exists>r \<in> set (t_transactions t). tm_ID r = tm_ID model" using assms(2,3) by (auto simp: storedRow_def)
  then show ?thesis
    using same_row [OF assms(1,2)] by (auto simp: insertOnConflict_def assms(3))
qed

lemma save_new:
  assumes "tm_ID model \<notin> tm_ID ` set rows"
  shows "insertOnConflict tm_ID transactionUpdate model rows = rows @ [model]"
proof -
  have "tm_ID r \<noteq> tm_ID model" if "r \<in> set rows" for r using assms imageI [OF that, of tm_ID] by auto
  then show ?thesis by (simp add: insertOnConflict_def)
qed

text \<open>
  \<open>recast f t t'\<close>: the rows of \<open>t'\<close> are those of \<open>t\<close> rewritten by \<open>f\<close>, which keeps
  id, tenant and account. All steps but a recording are such.
\<close>

definition recast :: "(transactionModel \<Rightarrow> transactionModel) \<Rightarrow> Tables \<Rightarrow> Tables \<Rightarrow> bool" where
  "recast f t t' \<longleftrightarrow> t_transactions t' = map f (t_transactions t) \<and>
     (\<forall>r \<in> set (t_transactions t). tm_ID (f r) = tm_ID r \<and> tm_TenantID (f r) = tm_TenantID r \<and>
        tm_AccountID (f r) = tm_AccountID r)"

lemma recast_ids: "recast f t t' \<Longrightarrow> map tm_ID (t_transactions t') = map tm_ID (t_transactions t)"
  by (simp add: recast_def)

lemma recast_unique: "recast f t t' \<Longrightarrow> uniqueIDs t' = uniqueIDs t"
  unfolding uniqueIDs_def by (simp only: recast_ids)

lemma recast_id_set: "recast f t t' \<Longrightarrow> tm_ID ` set (t_transactions t') = tm_ID ` set (t_transactions t)"
  by (metis recast_ids list.set_map)

text \<open>The rewriting of one row, as an update or a hiding does it.\<close>

definition rewrite :: "transactionModel \<Rightarrow> transactionModel \<Rightarrow> transactionModel \<Rightarrow> transactionModel" where
  "rewrite row model r = (if tm_ID r = tm_ID row then transactionUpdate row model else r)"

lemma recast_saved:
  assumes "uniqueIDs t" "storedRow row t" "tm_ID model = tm_ID row" "tm_TenantID model = tm_TenantID row"
    "tm_AccountID model = tm_AccountID row"
    "t_transactions t' = insertOnConflict tm_ID transactionUpdate model (t_transactions t)"
  shows "recast (rewrite row model) t t'"
proof -
  have "t_transactions t' = map (rewrite row model) (t_transactions t)"
    using save_stored [OF assms(1-3)] assms(6) unfolding rewrite_def by simp
  moreover have "tm_ID (rewrite row model r) = tm_ID r \<and> tm_TenantID (rewrite row model r) = tm_TenantID r \<and>
      tm_AccountID (rewrite row model r) = tm_AccountID r" if "r \<in> set (t_transactions t)" for r
    using same_row [OF assms(1,2) that] assms(4,5) by (auto simp: rewrite_def transactionUpdate_def)
  ultimately show ?thesis by (simp add: recast_def)
qed

lemma newTransactionModel_readBack [simp]:
  "tm_AccountID (newTransactionModel tx) = tx_AccountID tx"
  "tm_TransferMatchedAt (newTransactionModel tx) = tx_TransferMatchedAt tx"
  "tx_AccountID (readBack row t) = tm_AccountID row"
  by (simp_all add: newTransactionModel_def readBack_def transactionFromModel_def)

lemma savedTables_transactions [simp]:
  "t_transactions (savedTables tx tagIDs t) =
   insertOnConflict tm_ID transactionUpdate (newTransactionModel tx) (t_transactions t)"
  by (simp add: savedTables_def)

lemma recast_update:
  "uniqueIDs t \<Longrightarrow> storedRow row t \<Longrightarrow> tx_ID tx = tm_ID row \<Longrightarrow> tx_TenantID tx = tm_TenantID row \<Longrightarrow>
   tx_AccountID tx = tm_AccountID row \<Longrightarrow>
   recast (rewrite row (newTransactionModel tx)) t (savedTables tx tagIDs t)"
  by (rule recast_saved) simp_all

lemma recast_hide:
  "uniqueIDs t \<Longrightarrow> storedRow row t \<Longrightarrow> tx_ID tx = tm_ID row \<Longrightarrow> tx_TenantID tx = tm_TenantID row \<Longrightarrow>
   tx_AccountID tx = tm_AccountID row \<Longrightarrow>
   recast (rewrite row (newTransactionModel tx)) t (t\<lparr>t_transactions :=
     insertOnConflict tm_ID transactionUpdate (newTransactionModel tx) (t_transactions t)\<rparr>)"
  by (rule recast_saved) simp_all

text \<open>The legs a link or an unlink rewrites.\<close>

definition rewriteLegs ::
  "string \<Rightarrow> string set \<Rightarrow> (transactionModel \<Rightarrow> transactionModel) \<Rightarrow> transactionModel \<Rightarrow> transactionModel" where
  "rewriteLegs tenant ids f r = (if tm_TenantID r = tenant \<and> tm_ID r \<in> ids then f r else r)"

lemma recast_legs:
  "recast (rewriteLegs tenant ids (linkUpdates lp)) t (updateLegs tenant ids (linkUpdates lp) t)"
  "recast (rewriteLegs tenant ids (unlinkUpdates up)) t (updateLegs tenant ids (unlinkUpdates up) t)"
  by (auto simp: recast_def updateLegs_def rewriteLegs_def linkUpdates_def unlinkUpdates_def)

text \<open>Every step either leaves the rows, appends a row with a fresh id, or recasts them.\<close>

lemma step_shape:
  assumes "ledger_step ids tenant (t, n) (t', m)" "uniqueIDs t"
  shows "(t' = t \<and> n \<le> m) \<or>
    (\<exists>tx tagIDs. t' = savedTables tx tagIDs t \<and> m = Suc n \<and> tx_ID tx = ids n \<and> tx_TenantID tx = tenant \<and>
       tx_TransferMatchedAt tx = None) \<or>
    (n \<le> m \<and> (\<exists>f. recast f t t'))"
  using assms(1)
proof (cases rule: ledger_step.cases)
  case Updated
  then have "\<exists>f. recast f t t'" by (auto intro!: exI recast_update assms(2))
  with Updated show ?thesis by simp
next
  case Hidden
  then have "\<exists>f. recast f t t'" by (auto intro!: exI recast_hide assms(2))
  with Hidden show ?thesis by simp
next
  case (Linked first second params)
  then show ?thesis using recast_legs(1) [of tenant _ params t] by auto
next
  case (Unlinked first second params)
  then show ?thesis using recast_legs(2) [of tenant _ params t] by auto
qed auto

lemma step_ids:
  assumes "ledger_step ids tenant (t, n) (t', m)" "uniqueIDs t" "freshIDs ids (t, n)" "inj ids"
  shows "uniqueIDs t' \<and> freshIDs ids (t', m)"
  using step_shape [OF assms(1,2)]
proof (elim disjE exE conjE)
  fix f assume "n \<le> m" "recast f t t'"
  with assms(2,3) show ?thesis by (auto simp: recast_unique freshIDs_def recast_id_set)
next
  fix tx tagIDs assume tx: "t' = savedTables tx tagIDs t" "m = Suc n" "tx_ID tx = ids n"
  then have "t_transactions t' = t_transactions t @ [newTransactionModel tx]"
    using assms(3) by (simp add: save_new freshIDs_def)
  with tx assms(2-4) show ?thesis
    by (auto simp: uniqueIDs_def freshIDs_def inj_eq)
qed (use assms(2,3) in \<open>auto simp: freshIDs_def\<close>)

section \<open>Other tenants\<close>

text \<open>What a tenant has in the ledger: its transactions and their tags.\<close>

definition tenantRows :: "string \<Rightarrow> Tables \<Rightarrow> transactionModel list" where
  "tenantRows v t = filter (\<lambda>r. tm_TenantID r = v) (t_transactions t)"

definition tenantView :: "string \<Rightarrow> Tables \<Rightarrow> transactionModel list \<times> transactionTagModel list" where
  "tenantView v t = (tenantRows v t,
     filter (\<lambda>a. ttm_TransactionID a \<in> tm_ID ` set (tenantRows v t)) (t_transactionTags t))"

definition foreignID :: "string \<Rightarrow> string \<Rightarrow> Tables \<Rightarrow> bool" where
  "foreignID v i t \<longleftrightarrow> (\<forall>r \<in> set (t_transactions t). tm_ID r = i \<longrightarrow> tm_TenantID r \<noteq> v)"

lemma filter_map_same:
  "(\<And>r. r \<in> set rows \<Longrightarrow> P (f r) = P r) \<Longrightarrow> (\<And>r. r \<in> set rows \<Longrightarrow> P r \<Longrightarrow> f r = r) \<Longrightarrow>
   filter P (map f rows) = filter P rows"
  by (induction rows) auto

lemma rows_insert:
  assumes "tm_TenantID model \<noteq> v" "foreignID v (tm_ID model) t"
    and "t_transactions t' = insertOnConflict tm_ID transactionUpdate model (t_transactions t)"
  shows "tenantRows v t' = tenantRows v t"
  unfolding tenantRows_def assms(3) insertOnConflict_def
proof (split if_split, intro conjI impI)
  show "filter (\<lambda>r. tm_TenantID r = v) (map (\<lambda>r. if tm_ID r = tm_ID model then transactionUpdate r model else r)
      (t_transactions t)) = filter (\<lambda>r. tm_TenantID r = v) (t_transactions t)"
    using assms(1,2) by (intro filter_map_same) (auto simp: foreignID_def transactionUpdate_def)
qed (use assms(1) in simp)

lemma view_insert:
  assumes "tm_TenantID model \<noteq> v" "foreignID v (tm_ID model) t"
  shows "tenantView v (t\<lparr>t_transactions := insertOnConflict tm_ID transactionUpdate model (t_transactions t)\<rparr>) = tenantView v t"
  using rows_insert [OF assms, of "t\<lparr>t_transactions := insertOnConflict tm_ID transactionUpdate model (t_transactions t)\<rparr>"]
  by (simp add: tenantView_def)

lemma view_saved:
  assumes "tx_TenantID tx \<noteq> v" "foreignID v (tx_ID tx) t"
  shows "tenantView v (savedTables tx tagIDs t) = tenantView v t"
proof -
  have rows: "tenantRows v (savedTables tx tagIDs t) = tenantRows v t"
    using assms by (intro rows_insert [of "newTransactionModel tx"]) simp_all
  have "tx_ID tx \<notin> tm_ID ` set (tenantRows v t)" using assms(2) by (auto simp: foreignID_def tenantRows_def)
  then have "filter (\<lambda>a. ttm_TransactionID a \<in> tm_ID ` set (tenantRows v t)) (t_transactionTags (savedTables tx tagIDs t)) =
      filter (\<lambda>a. ttm_TransactionID a \<in> tm_ID ` set (tenantRows v t)) (t_transactionTags t)"
    by (auto simp: savedTables_def storedTags_def comp_def filter_empty_conv intro!: filter_cong)
  then show ?thesis by (simp add: tenantView_def rows)
qed

lemma view_legs:
  assumes "tenant \<noteq> v" "\<And>r. tm_TenantID (f r) = tm_TenantID r"
  shows "tenantView v (updateLegs tenant ids f t) = tenantView v t"
proof -
  have "tenantRows v (updateLegs tenant ids f t) = tenantRows v t"
    using assms unfolding tenantRows_def updateLegs_def by (auto intro!: filter_map_same)
  then show ?thesis by (simp add: tenantView_def updateLegs_def)
qed

lemma foreign_stored: "uniqueIDs t \<Longrightarrow> storedRow row t \<Longrightarrow> tm_TenantID row \<noteq> v \<Longrightarrow> foreignID v (tm_ID row) t"
  by (auto simp: foreignID_def dest: same_row)

lemma step_foreign:
  assumes "ledger_step ids tenant (t, n) (t', m)" "uniqueIDs t" "freshIDs ids (t, n)" "tenant \<noteq> v"
  shows "tenantView v t' = tenantView v t"
  using assms(1)
proof cases
  case (Recorded tx tagIDs)
  then have "foreignID v (tx_ID tx) t" using assms(3) by (force simp: foreignID_def freshIDs_def)
  with Recorded assms(4) show ?thesis by (simp add: view_saved)
next
  case Updated
  then show ?thesis using assms(2,4) by (auto intro!: view_saved foreign_stored)
next
  case Hidden
  then show ?thesis using assms(2,4) by (simp add: view_insert foreign_stored)
next
  case Linked
  then show ?thesis using assms(4) by (auto intro!: view_legs simp: linkUpdates_def)
next
  case Unlinked
  then show ?thesis using assms(4) by (auto intro!: view_legs simp: unlinkUpdates_def)
qed simp

section \<open>Matched legs\<close>

definition matched :: "transactionModel \<Rightarrow> bool" where
  "matched r \<longleftrightarrow> tm_TransferMatchedAt r \<noteq> None"

definition legsOf :: "string \<Rightarrow> Tables \<Rightarrow> transactionModel list" where
  "legsOf g t = filter (\<lambda>r. matched r \<and> tm_TransferGroupID r = Some g) (t_transactions t)"

definition twoLegs :: "transactionModel list \<Rightarrow> bool" where
  "twoLegs rows \<longleftrightarrow>
     (case rows of
        [a, b] \<Rightarrow> tm_TenantID a = tm_TenantID b \<and> tm_AccountID a \<noteq> tm_AccountID b \<and>
          tm_Kind a = TransactionKindTransfer \<and> tm_Kind b = TransactionKindTransfer
      | _ \<Rightarrow> False)"

text \<open>
  Every matched transaction carries a group id, and the matched transactions of a group id are
  none or exactly two, transfers of one tenant on two accounts.
\<close>

definition matchedInPairs :: "Tables \<Rightarrow> bool" where
  "matchedInPairs t \<longleftrightarrow>
     (\<forall>r \<in> set (t_transactions t). matched r \<longrightarrow> tm_TransferGroupID r \<noteq> None) \<and>
     (\<forall>g. legsOf g t = [] \<or> twoLegs (legsOf g t))"

lemma matchedInPairsI:
  assumes "\<And>r. r \<in> set (t_transactions t) \<Longrightarrow> matched r \<Longrightarrow> tm_TransferGroupID r \<noteq> None"
    "\<And>g. legsOf g t = [] \<or> twoLegs (legsOf g t)"
  shows "matchedInPairs t"
  using assms by (simp add: matchedInPairs_def)

lemma matchedInPairsD: "matchedInPairs t \<Longrightarrow> legsOf g t = [] \<or> twoLegs (legsOf g t)"
  by (simp add: matchedInPairs_def)

definition freshGroups :: "(nat \<Rightarrow> string) \<Rightarrow> Tables \<times> nat \<Rightarrow> bool" where
  "freshGroups ids s \<longleftrightarrow> (\<forall>k \<ge> snd s. legsOf (ids k) (fst s) = [])"

definition pairing :: "transactionModel \<Rightarrow> bool \<times> string option" where
  "pairing r = (matched r, tm_TransferGroupID r)"

lemma filter_map_kept:
  "(\<And>r. r \<in> set rows \<Longrightarrow> P (f r) = P r) \<Longrightarrow> filter P (map f rows) = map f (filter P rows)"
  by (induction rows) auto

text \<open>A rewriting that keeps the pairing keeps the legs.\<close>

lemma recast_pairs:
  assumes "recast f t t'" "matchedInPairs t"
    and "\<And>r. r \<in> set (t_transactions t) \<Longrightarrow> pairing (f r) = pairing r \<and> tm_Kind (f r) = tm_Kind r"
  shows "matchedInPairs t' \<and> (\<forall>g. legsOf g t' = map f (legsOf g t))"
proof -
  have legs: "legsOf g t' = map f (legsOf g t)" for g
    using assms(1,3) unfolding legsOf_def by (auto simp: recast_def pairing_def intro!: filter_map_kept)
  have kept: "tm_TenantID (f r) = tm_TenantID r \<and> tm_AccountID (f r) = tm_AccountID r \<and> tm_Kind (f r) = tm_Kind r"
    if "r \<in> set (legsOf g t)" for r g
    using that assms(1,3) by (simp add: legsOf_def recast_def)
  have "twoLegs (map f (legsOf g t))" if "twoLegs (legsOf g t)" for g
    using that kept [of _ g] by (auto simp: twoLegs_def split: list.splits)
  moreover have "matched r \<longrightarrow> tm_TransferGroupID r \<noteq> None" if "r \<in> set (t_transactions t')" for r
    using that assms by (auto simp: recast_def pairing_def matchedInPairs_def)
  ultimately show ?thesis using assms(2) legs by (auto simp: matchedInPairs_def)
qed

lemma rewrite_pairing:
  "uniqueIDs t \<Longrightarrow> storedRow row t \<Longrightarrow> r \<in> set (t_transactions t) \<Longrightarrow>
   pairing (rewrite row model r) = pairing r \<and> tm_Kind (rewrite row model r) = tm_Kind r"
  using same_row [of t row r] by (auto simp: rewrite_def transactionUpdate_def pairing_def matched_def)

lemma legs_append:
  "\<not> matched r \<Longrightarrow> t_transactions t' = t_transactions t @ [r] \<Longrightarrow>
   legsOf g t' = legsOf g t \<and> (matchedInPairs t \<longrightarrow> matchedInPairs t')"
  by (simp add: legsOf_def matchedInPairs_def)

text \<open>The two rows with the ids of two stored rows.\<close>

lemma filter_two:
  assumes "distinct (map key xs)" "a \<in> set xs" "b \<in> set xs" "key a \<noteq> key b"
  shows "filter (\<lambda>x. key x \<in> {key a, key b}) xs \<in> {[a, b], [b, a]}"
  using assms
proof (induction xs)
  case (Cons x xs)
  have one: "filter (\<lambda>y. key y = key c) xs = [c]" if "c \<in> set xs" for c
    using filter_distinct_key [of key xs c] Cons.prems(1) that by simp
  have apart: "c \<in> set xs \<Longrightarrow> key c \<noteq> key x" for c using Cons.prems(1) by (auto simp: rev_image_eqI)
  consider "x = a" | "x = b" | "x \<noteq> a" "x \<noteq> b" by blast
  then show ?case
  proof cases
    case 1
    then have "b \<in> set xs" using Cons.prems by auto
    have "filter (\<lambda>y. key y \<in> {key a, key b}) xs = filter (\<lambda>y. key y = key b) xs"
      using apart 1 by (auto intro!: filter_cong)
    with 1 one [OF \<open>b \<in> set xs\<close>] show ?thesis by simp
  next
    case 2
    then have "a \<in> set xs" using Cons.prems by auto
    have "filter (\<lambda>y. key y \<in> {key a, key b}) xs = filter (\<lambda>y. key y = key a) xs"
      using apart 2 by (auto intro!: filter_cong)
    with 2 one [OF \<open>a \<in> set xs\<close>] show ?thesis by simp
  next
    case 3
    then have "a \<in> set xs" "b \<in> set xs" using Cons.prems by auto
    with Cons apart show ?thesis by (auto dest!: apart)
  qed
qed simp

lemma link_rewrites:
  assumes "uniqueIDs t" "storedRow first t" "storedRow second t" "r \<in> set (t_transactions t)"
    "tm_TenantID first = tenant" "tm_TenantID second = tenant"
  shows "rewriteLegs tenant {tm_ID first, tm_ID second} f r = (if r \<in> {first, second} then f r else r)"
  using assms same_row [OF assms(1,2,4)] same_row [OF assms(1,3,4)] by (auto simp: rewriteLegs_def)

lemma updateLegs_rows:
  "t_transactions (updateLegs tenant ids f t) = map (rewriteLegs tenant ids f) (t_transactions t)"
  by (simp add: updateLegs_def rewriteLegs_def)

lemma linkUpdates_leg [simp]:
  "matched (linkUpdates lp r)" "tm_TransferGroupID (linkUpdates lp r) = Some (tpl_TransferGroupID lp)"
  "tm_Kind (linkUpdates lp r) = TransactionKindTransfer" "tm_AccountID (linkUpdates lp r) = tm_AccountID r"
  "tm_TenantID (linkUpdates lp r) = tm_TenantID r"
  by (simp_all add: linkUpdates_def matched_def)

lemma unlinkUpdates_leg [simp]: "\<not> matched (unlinkUpdates up r)"
  by (simp add: unlinkUpdates_def matched_def)

lemma validate_legs:
  assumes "validateTransferPair (transactionFromModel first) (transactionFromModel second) = None"
  shows "tm_ID first \<noteq> tm_ID second" "tm_AccountID first \<noteq> tm_AccountID second" "\<not> matched first" "\<not> matched second"
  using assms by (auto simp: validateTransferPair_def transactionFromModel_def matched_def split: if_splits)

lemma linked_legs:
  assumes "linkedTransferPair (transactionFromModel first) (transactionFromModel second)"
  obtains g where "tm_ID first \<noteq> tm_ID second" "matched first" "matched second"
    "tm_TransferGroupID first = Some g" "tm_TransferGroupID second = Some g"
  using assms by (auto simp: linkedTransferPair_def transactionFromModel_def matched_def split: if_splits option.splits)

lemma link_legs:
  fixes lp :: TransferPairLinkParams
  assumes "uniqueIDs t" "storedRow first t" "storedRow second t"
    "tm_TenantID first = tenant" "tm_TenantID second = tenant"
    "validateTransferPair (transactionFromModel first) (transactionFromModel second) = None"
    "legsOf (tpl_TransferGroupID lp) t = []"
  defines "t' \<equiv> updateLegs tenant {tm_ID first, tm_ID second} (linkUpdates lp) t"
  shows "g \<noteq> tpl_TransferGroupID lp \<Longrightarrow> legsOf g t' = legsOf g t"
    and "twoLegs (legsOf (tpl_TransferGroupID lp) t')"
proof -
  let ?F = "rewriteLegs tenant {tm_ID first, tm_ID second} (linkUpdates lp)"
  let ?g = "tpl_TransferGroupID lp"
  note F = link_rewrites [OF assms(1-3) _ assms(4,5), of _ "linkUpdates lp"]
  note valid = validate_legs [OF assms(6)]
  show "legsOf g t' = legsOf g t" if "g \<noteq> ?g"
    unfolding legsOf_def t'_def updateLegs_rows using that F valid by (intro filter_map_same) auto
  have none: "\<not> (matched r \<and> tm_TransferGroupID r = Some ?g)" if "r \<in> set (t_transactions t)" for r
    using assms(7) that by (auto simp: legsOf_def filter_empty_conv)
  have "filter (\<lambda>r. matched (?F r) \<and> tm_TransferGroupID (?F r) = Some ?g) (t_transactions t) =
      filter (\<lambda>r. tm_ID r \<in> {tm_ID first, tm_ID second}) (t_transactions t)"
    using F none same_row [OF assms(1,2)] same_row [OF assms(1,3)]
    by (intro filter_cong refl) (auto split: if_splits)
  moreover have "filter (\<lambda>r. tm_ID r \<in> {tm_ID first, tm_ID second}) (t_transactions t) \<in> {[first, second], [second, first]}"
    using assms(1-3) valid(1) unfolding uniqueIDs_def storedRow_def by (rule filter_two)
  ultimately have "legsOf ?g t' \<in> {[?F first, ?F second], [?F second, ?F first]}"
    by (auto simp: legsOf_def t'_def updateLegs_rows filter_map comp_def)
  moreover have "?F first = linkUpdates lp first" "?F second = linkUpdates lp second"
    using assms(4,5) by (simp_all add: rewriteLegs_def)
  ultimately show "twoLegs (legsOf ?g t')" using valid(2) assms(4,5) by (auto simp: twoLegs_def)
qed

lemma unlink_legs:
  fixes up :: TransferPairUnlinkParams
  assumes "uniqueIDs t" "storedRow first t" "storedRow second t" "matchedInPairs t"
    "tm_TenantID first = tenant" "tm_TenantID second = tenant"
    "linkedTransferPair (transactionFromModel first) (transactionFromModel second)"
  defines "t' \<equiv> updateLegs tenant {tm_ID first, tm_ID second} (unlinkUpdates up) t"
  shows "legsOf g t' = legsOf g t \<or> legsOf g t' = []"
proof -
  let ?F = "rewriteLegs tenant {tm_ID first, tm_ID second} (unlinkUpdates up)"
  note F = link_rewrites [OF assms(1-3) _ assms(5,6), of _ "unlinkUpdates up"]
  obtain h where h: "tm_ID first \<noteq> tm_ID second" "matched first" "matched second"
    "tm_TransferGroupID first = Some h" "tm_TransferGroupID second = Some h"
    using linked_legs [OF assms(7)] .
  show ?thesis
  proof (cases "g = h")
    case False
    then have "legsOf g t' = legsOf g t"
      unfolding legsOf_def t'_def updateLegs_rows using F h by (intro filter_map_same) auto
    then show ?thesis ..
  next
    case True
    have legs: "first \<in> set (legsOf g t)" "second \<in> set (legsOf g t)"
      using assms(2,3) h True by (auto simp: legsOf_def storedRow_def)
    then have "twoLegs (legsOf g t)" using matchedInPairsD [OF assms(4), of g] by auto
    then obtain a b where "legsOf g t = [a, b]" by (auto simp: twoLegs_def split: list.splits)
    with legs h(1) have "set (legsOf g t) = {first, second}" by auto
    then have "\<not> (matched (?F r) \<and> tm_TransferGroupID (?F r) = Some g)" if "r \<in> set (t_transactions t)" for r
      using F [OF that] that by (cases "r \<in> {first, second}") (auto simp: legsOf_def)
    then have "legsOf g t' = []" by (auto simp: legsOf_def t'_def updateLegs_rows filter_empty_conv)
    then show ?thesis ..
  qed
qed

definition soundLedger :: "(nat \<Rightarrow> string) \<Rightarrow> Tables \<times> nat \<Rightarrow> bool" where
  "soundLedger ids s \<longleftrightarrow> inj ids \<and> uniqueIDs (fst s) \<and> freshIDs ids s \<and> matchedInPairs (fst s) \<and> freshGroups ids s"

lemma grouped_rewrite:
  assumes "matchedInPairs t" "r \<in> set (t_transactions (updateLegs tenant ids f t))" "matched r"
    and "\<And>x. matched (f x) \<Longrightarrow> tm_TransferGroupID (f x) \<noteq> None"
  shows "tm_TransferGroupID r \<noteq> None"
  using assms by (auto simp: updateLegs_def matchedInPairs_def split: if_splits)

lemma recast_sound:
  assumes "recast f t t'" "matchedInPairs t" "freshGroups ids (t, n)"
    and "\<And>r. r \<in> set (t_transactions t) \<Longrightarrow> pairing (f r) = pairing r \<and> tm_Kind (f r) = tm_Kind r"
  shows "matchedInPairs t' \<and> freshGroups ids (t', n)"
  using recast_pairs [OF assms(1,2,4)] assms(3) by (simp add: freshGroups_def)

lemma step_pairs:
  assumes "ledger_step ids tenant (t, n) (t', m)" "soundLedger ids (t, n)"
  shows "matchedInPairs t' \<and> freshGroups ids (t', m)"
proof -
  have sound: "inj ids" "uniqueIDs t" "freshIDs ids (t, n)" "matchedInPairs t" "freshGroups ids (t, n)"
    using assms(2) by (simp_all add: soundLedger_def)
  note rewrite = recast_sound [OF _ sound(4,5) rewrite_pairing [OF sound(2)]]
  show ?thesis
    using assms(1)
  proof cases
    case Unchanged
    with sound show ?thesis by (simp add: freshGroups_def)
  next
    case (Recorded tx tagIDs)
    then have "t_transactions t' = t_transactions t @ [newTransactionModel tx]" "\<not> matched (newTransactionModel tx)"
      using sound(3) by (simp_all add: save_new freshIDs_def matched_def)
    note append = legs_append [OF this(2,1)]
    show ?thesis using append sound(4,5) Recorded by (simp add: freshGroups_def)
  next
    case Updated
    then show ?thesis using rewrite [OF recast_update [OF sound(2)]] by simp
  next
    case Hidden
    then show ?thesis using rewrite [OF recast_hide [OF sound(2)]] by simp
  next
    case (Linked first second lp)
    have none: "legsOf (tpl_TransferGroupID lp) t = []" using sound(5) Linked by (simp add: freshGroups_def)
    note legs = link_legs [OF sound(2) Linked(3-7) none]
    have "legsOf g t' = [] \<or> twoLegs (legsOf g t')" for g
      using legs matchedInPairsD [OF sound(4), of g] unfolding Linked(1) by (cases "g = tpl_TransferGroupID lp") auto
    moreover have "tm_TransferGroupID r \<noteq> None" if "r \<in> set (t_transactions t')" "matched r" for r
      using that unfolding Linked(1) by (rule grouped_rewrite [OF sound(4)]) simp
    moreover have "legsOf (ids k) t' = []" if "Suc n \<le> k" for k
    proof -
      have "ids k \<noteq> tpl_TransferGroupID lp" using that sound(1) Linked(8) by (auto dest: injD)
      with legs(1) that sound(5) show ?thesis unfolding Linked(1) by (simp add: freshGroups_def)
    qed
    ultimately show ?thesis unfolding Linked(2) freshGroups_def by (simp add: matchedInPairs_def)
  next
    case (Unlinked first second up)
    note legs = unlink_legs [OF sound(2) Unlinked(3,4) sound(4) Unlinked(5-7), of _ up]
    have "legsOf g t' = [] \<or> twoLegs (legsOf g t')" for g
      using legs [of g] matchedInPairsD [OF sound(4), of g] unfolding Unlinked(1) by auto
    moreover have "tm_TransferGroupID r \<noteq> None" if "r \<in> set (t_transactions t')" "matched r" for r
      using that unfolding Unlinked(1) by (rule grouped_rewrite [OF sound(4)]) simp
    moreover have "legsOf (ids k) t' = []" if "n \<le> k" for k
      using legs [of "ids k"] sound(5) that unfolding Unlinked(1) by (auto simp: freshGroups_def)
    ultimately show ?thesis unfolding Unlinked(2) by (simp add: matchedInPairs_def freshGroups_def)
  qed
qed

lemma step_sound:
  assumes "ledger_step ids tenant s s'" "soundLedger ids s" shows "soundLedger ids s'"
  using assms step_ids [of ids tenant "fst s" "snd s" "fst s'" "snd s'"]
    step_pairs [of ids tenant "fst s" "snd s" "fst s'" "snd s'"]
  by (simp add: soundLedger_def)

section \<open>Runs of requests\<close>

definition wellIdentified :: "World \<Rightarrow> bool" where
  "wellIdentified w \<longleftrightarrow> inj (w_idSource w) \<and> uniqueIDs (w_tables w) \<and> freshIDs (w_idSource w) (ledgerState w)"

definition soundWorld :: "World \<Rightarrow> bool" where
  "soundWorld w \<longleftrightarrow> soundLedger (w_idSource w) (ledgerState w)"

lemma soundWorld_identified: "soundWorld w \<Longrightarrow> wellIdentified w"
  by (simp add: soundWorld_def soundLedger_def wellIdentified_def ledgerState_def)

lemma unchanged_kept:
  "unchanged w u \<Longrightarrow> wellIdentified u = wellIdentified w \<and> soundWorld u = soundWorld w"
  by (simp add: unchanged_def wellIdentified_def soundWorld_def ledgerState_def)

lemma serve_identified:
  assumes "wellIdentified w"
  shows "wellIdentified (serve q w) \<and> served (requestTenant q) w (serve q w)"
proof -
  have "served (requestTenant q) w (serve q w)"
    using serve_served assms by (simp add: wellIdentified_def uniqueIDs_def)
  then show ?thesis
    using assms step_ids [of "w_idSource w" "requestTenant q" "w_tables w" "w_idsDrawn w"]
    by (auto simp: served_def wellIdentified_def ledgerState_def)
qed

lemma run_steps:
  assumes "ledger_run w qs w'" "wellIdentified w"
  shows "ledger_steps (w_idSource w) (map requestTenant qs) (ledgerState w) (ledgerState w')"
  using assms
proof (induction rule: ledger_run.induct)
  case (Done w w')
  then show ?case using unchanged_state [OF Done.hyps] by (simp add: Stop)
next
  case (Serve w u q qs w')
  then have u: "wellIdentified u" "ledgerState u = ledgerState w" "w_idSource u = w_idSource w"
    by (auto simp: unchanged_kept dest: unchanged_state)
  note s = serve_identified [OF u(1), of q]
  then have "ledger_step (w_idSource w) (requestTenant q) (ledgerState w) (ledgerState (serve q u))"
    "w_idSource (serve q u) = w_idSource w"
    using u by (simp_all add: served_def)
  then show ?case using Serve.IH s by (simp add: Step)
qed

text \<open>What every step keeps, every sequence of steps keeps.\<close>

lemma steps_keep:
  assumes "ledger_steps ids tenants s s'" "I s"
    and "\<And>tenant a b. tenant \<in> set tenants \<Longrightarrow> ledger_step ids tenant a b \<Longrightarrow> I a \<Longrightarrow> I b"
  shows "I s'"
  using assms
proof (induction rule: ledger_steps.induct)
  case (Step tenant s s1 tenants s2)
  have "I s1" using Step.prems(2) [OF _ Step.hyps(1) Step.prems(1)] by simp
  then show ?case
  proof (rule Step.IH)
    fix v a b assume "v \<in> set tenants" "ledger_step ids v a b" "I a"
    then show "I b" using Step.prems(2) [of v a b] by simp
  qed
qed

lemma steps_foreign:
  assumes "ledger_steps ids tenants s s'" "inj ids" "uniqueIDs (fst s)" "freshIDs ids s" "v \<notin> set tenants"
  shows "tenantView v (fst s') = tenantView v (fst s)"
proof -
  let ?I = "\<lambda>x. uniqueIDs (fst x) \<and> freshIDs ids x \<and> tenantView v (fst x) = tenantView v (fst s)"
  have "?I s'"
  proof (rule steps_keep [OF assms(1)])
    fix tenant a b
    assume step: "tenant \<in> set tenants" "ledger_step ids tenant a b" "?I a"
    then have *: "ledger_step ids tenant (fst a, snd a) (fst b, snd b)" "uniqueIDs (fst a)" "freshIDs ids (fst a, snd a)"
      by simp_all
    have "tenant \<noteq> v" using step(1) assms(5) by auto
    then have "tenantView v (fst b) = tenantView v (fst a)" by (rule step_foreign [OF *])
    moreover have "uniqueIDs (fst b) \<and> freshIDs ids (fst b, snd b)" using * assms(2) by (rule step_ids)
    ultimately show "?I b" using step(3) by simp
  qed (use assms in simp)
  then show ?thesis by blast
qed

lemma steps_sound: "ledger_steps ids tenants s s' \<Longrightarrow> soundLedger ids s \<Longrightarrow> soundLedger ids s'"
  by (erule steps_keep) (auto intro: step_sound)

end
