(* ===== verification/LedgerRuns.thy ===== *)
theory LedgerRuns
  imports LedgerInvariants
begin

text \<open>
  The properties of the ledger over whole runs of requests, on the invariants of
  \<^verbatim>\<open>LedgerInvariants\<close>, and what becomes of matched pairs when two links interleave.
\<close>

section \<open>An example\<close>

definition ledger_world :: World where
  "ledger_world = (example_world (\<lambda>_. None))
     \<lparr>w_tables := example_tables
        \<lparr>t_memberships := [\<lparr>mbm_TenantID = ''t1'', mbm_UserID = ''u1'', mbm_JoinedAt = 1, mbm_CreatedAt = 1\<rparr>],
         t_accounts := [example_account_row ''a1'', example_account_row ''a2''],
         t_transactions := [example_leg ''r1'' ''a1'' 500 10, example_leg ''r2'' ''a2'' (- 500) 20,
           example_leg ''r3'' ''a2'' (- 500) 30, (example_leg ''r9'' ''a9'' 7 30)\<lparr>tm_TenantID := ''t2''\<rparr>]\<rparr>\<rparr>"

definition link_request :: "string \<Rightarrow> TransferRefParams" where
  "link_request second = \<lparr>lup_ActorUserID = ''u1'', lup_TenantID = ''t1'', lup_FirstTransactionID = ''r1'',
     lup_SecondTransactionID = second\<rparr>"

definition ref_request :: "string \<Rightarrow> TransactionRefParams" where
  "ref_request i = \<lparr>trp_ActorUserID = ''u1'', trp_TenantID = '' t1 '', trp_TransactionID = i\<rparr>"

definition record_request :: "RecordTransactionParams" where
  "record_request = \<lparr>rtp_ActorUserID = ''u1'', rtp_TenantID = ''t1'', rtp_AccountID = ''a1'',
     rtp_Source = TransactionSourceManual, rtp_Status = TransactionStatusBooked, rtp_Kind = TransactionKindExpense,
     rtp_AmountMinor = - 250, rtp_Currency = '' pln'', rtp_Description = '' Lunch '', rtp_EffectiveAt = 77,
     rtp_CategoryID = '''', rtp_TagIDs = [], rtp_TransferGroupID = '''', rtp_ProviderOriginal = None\<rparr>"

definition example_requests :: "ledgerRequest list" where
  "example_requests = [RecordRequest record_request, LinkRequest (link_request ''r2''), HideRequest (ref_request ''r3'')]"

definition served_world :: World where
  "served_world = fold serve example_requests ledger_world"

lemma run_fold: "ledger_run w qs (fold serve qs w)"
proof (induction qs arbitrary: w)
  case (Cons q qs)
  then show ?case by (auto intro: Serve [of w w])
qed (simp add: Done)

lemma example_run: "ledger_run ledger_world example_requests served_world"
  unfolding served_world_def by (rule run_fold)

lemma ledger_world_source: "w_idSource ledger_world = id_of_nat"
  by (simp add: ledger_world_def example_world_def)

lemma ledger_world_rows:
  "t_transactions (w_tables ledger_world) = [example_leg ''r1'' ''a1'' 500 10, example_leg ''r2'' ''a2'' (- 500) 20,
     example_leg ''r3'' ''a2'' (- 500) 30, (example_leg ''r9'' ''a9'' 7 30)\<lparr>tm_TenantID := ''t2''\<rparr>]"
  by (simp add: ledger_world_def)

lemma inj_id_of_nat: "inj id_of_nat"
  by (auto simp: inj_def id_of_nat_def dest: arg_cong [where f = length])

lemma ledger_world_sound: "soundWorld ledger_world"
  by (simp add: soundWorld_def soundLedger_def ledger_world_source inj_id_of_nat uniqueIDs_def freshIDs_def
      freshGroups_def matchedInPairs_def legsOf_def ledgerState_def ledger_world_rows example_leg_def matched_def
      id_of_nat_def)

lemmas ledger_world_identified = soundWorld_identified [OF ledger_world_sound]

section \<open>Properties\<close>

text \<open>C33. The ledger service refines its specification: along any sequence of requests,
  each request, whether it succeeds or fails at any of its reads and writes, is one step of
  \<open>ledger_step\<close> for the tenant it names. So it leaves the tables alone, appends one
  transaction with a fresh id and no match, rewrites the user fields of one transaction of
  that tenant (with its tags) or hides it, or joins or separates two of that tenant's
  transactions that passed the pair check.\<close>

theorem requests_refine_the_ledger:
  assumes "ledger_run w qs w'" and "wellIdentified w"
  shows "ledger_steps (w_idSource w) (map requestTenant qs) (ledgerState w) (ledgerState w')"
  using assms by (rule run_steps)

theorem requests_refine_the_ledger_witness:
  "ledger_steps id_of_nat [''t1'', ''t1'', ''t1''] (ledgerState ledger_world) (ledgerState served_world)"
proof -
  have "map requestTenant example_requests = [''t1'', ''t1'', ''t1'']"
    by code_simp
  then show ?thesis
    using requests_refine_the_ledger [OF example_run ledger_world_identified] by (simp add: ledger_world_source)
qed

text \<open>C34. Tenants are isolated: no sequence of requests, valid or not, authorised or not,
  changes the transactions (or the tags on them) of a tenant that none of the requests names.\<close>

theorem tenants_are_isolated:
  assumes "ledger_run w qs w'" and "wellIdentified w"
    and "\<forall>q \<in> set qs. requestTenant q \<noteq> tenant"
  shows "tenantView tenant (w_tables w') = tenantView tenant (w_tables w)"
proof -
  have "ledger_steps (w_idSource w) (map requestTenant qs) (ledgerState w) (ledgerState w')"
    using assms(1,2) by (rule run_steps)
  from steps_foreign [OF this, of tenant] assms(2,3) show ?thesis
    by (auto simp: wellIdentified_def ledgerState_def)
qed

theorem tenants_are_isolated_witness:
  "tenantView ''t2'' (w_tables served_world) = ([(example_leg ''r9'' ''a9'' 7 30)\<lparr>tm_TenantID := ''t2''\<rparr>], [])"
proof -
  have "\<forall>q \<in> set example_requests. requestTenant q \<noteq> ''t2''" by code_simp
  from tenants_are_isolated [OF example_run ledger_world_identified this]
  have "tenantView ''t2'' (w_tables served_world) = tenantView ''t2'' (w_tables ledger_world)" .
  also have "\<dots> = ([(example_leg ''r9'' ''a9'' 7 30)\<lparr>tm_TenantID := ''t2''\<rparr>], [])"
    by (simp add: tenantView_def tenantRows_def ledger_world_def example_tables_def example_leg_def)
  finally show ?thesis .
qed

text \<open>C35. Matched transfers come in pairs: as long as requests are served one after another, the
  matched transactions that share a group id are exactly two, of one tenant, on two accounts,
  both of kind transfer; recording, updating and hiding never break a pair, linking makes one
  and unlinking removes both of its legs.\<close>

theorem matched_legs_come_in_pairs:
  assumes "ledger_run w qs w'" and "soundWorld w"
  shows "matchedInPairs (w_tables w')"
proof -
  have "ledger_steps (w_idSource w) (map requestTenant qs) (ledgerState w) (ledgerState w')"
    using assms(1) soundWorld_identified [OF assms(2)] by (rule run_steps)
  from steps_sound [OF this] assms(2) show ?thesis by (simp add: soundWorld_def soundLedger_def ledgerState_def)
qed

theorem matched_legs_come_in_pairs_witness:
  "matchedInPairs (w_tables served_world) \<and>
   map tm_ID (legsOf (id_of_nat 1) (w_tables served_world)) = [''r1'', ''r2'']"
  using matched_legs_come_in_pairs [OF example_run ledger_world_sound] by (rule conjI) code_simp

section \<open>Two links at the same time\<close>

text \<open>
  \<open>LinkTransfers\<close> checks the legs before the update and the update does not check them
  again. When two requests both check first, the second takes over a leg the first linked:
  transaction \<open>r2\<close> stays matched in a group of its own.
\<close>

definition interleaved_links :: World where
  "interleaved_links =
     (case checkTransferPair (link_request ''r2'') ledger_world of
        (Inl e, w) \<Rightarrow> w
      | (Inr one, w) \<Rightarrow>
          (case checkTransferPair (link_request ''r3'') w of
             (Inl e, w) \<Rightarrow> w
           | (Inr two, w) \<Rightarrow>
               snd (saveTransferPair (link_request ''r3'') two (snd (saveTransferPair (link_request ''r2'') one w)))))"

lemma interleaved_links_orphan_a_leg:
  "map tm_ID (legsOf (id_of_nat 0) (w_tables interleaved_links)) = [''r2'']"
  "map tm_ID (legsOf (id_of_nat 1) (w_tables interleaved_links)) = [''r1'', ''r3'']"
  by code_simp+

lemma interleaved_links_break_pairs: "\<not> matchedInPairs (w_tables interleaved_links)"
proof
  assume "matchedInPairs (w_tables interleaved_links)"
  then have "length (legsOf (id_of_nat 0) (w_tables interleaved_links)) \<in> {0, 2}"
    using matchedInPairsD [of "w_tables interleaved_links" "id_of_nat 0"]
    by (auto simp: twoLegs_def split: list.splits)
  moreover have "length (map tm_ID (legsOf (id_of_nat 0) (w_tables interleaved_links))) = 1"
    by (simp only: interleaved_links_orphan_a_leg) simp
  ultimately show False by simp
qed

end
