(* ===== verification/LedgerReads.thy ===== *)
theory LedgerReads
  imports LedgerRuns
begin

text \<open>
  What a request reads after another one wrote: a recorded transaction is read back as it
  was answered, and the two legs of a link are each other's partner.
\<close>

section \<open>Reads that meet no fault\<close>

definition healthy :: "World \<Rightarrow> bool" where
  "healthy w \<longleftrightarrow> w_fault w = (\<lambda>_. None)"

lemma readSQL_healthy: "healthy w \<Longrightarrow> readSQL q w = (Inr (q (w_tables w)), w\<lparr>w_statement := Suc (w_statement w)\<rparr>)"
  by (simp add: healthy_def readSQL_def execSQL_def)

lemma healthy_statement [simp]: "healthy (w\<lparr>w_statement := n\<rparr>) = healthy w"
  by (simp add: healthy_def)

lemma member_healthy:
  assumes "healthy w" "member ten user (w_tables w)"
  shows "requireTenantMember ten user w = (Inr (), w\<lparr>w_statement := Suc (w_statement w)\<rparr>)"
proof -
  have "filter (\<lambda>m. mbm_TenantID m = ten \<and> mbm_UserID m = user) (t_memberships (w_tables w)) \<noteq> []"
    using assms(2) by (auto simp: member_def filter_empty_conv)
  then show ?thesis
    by (simp add: requireTenantMember_def IsTenantMember_def bindA_run mapErrA_run readSQL_healthy [OF assms(1)])
qed

lemma hydrate_healthy:
  "healthy w \<Longrightarrow> hydrateTransactionTags [transactionFromModel row] w =
     (Inr [readBack row (w_tables w)], w\<lparr>w_statement := Suc (w_statement w)\<rparr>)"
  by (simp add: hydrateTransactionTags_def Let_def bindA_run mapErrA_run readSQL_healthy readBack_def tagsOf_def orderAsc_def)

lemma TagStoreGet_healthy:
  assumes "healthy w" "lookupRow tm_ID (TrimSpace i) (t_transactions (w_tables w)) = Some row"
  shows "TagStoreGetTransaction i w = (Inr (readBack row (w_tables w)), w\<lparr>w_statement := Suc (Suc (w_statement w))\<rparr>)"
  using assms
  by (simp add: TagStoreGetTransaction_def bindA_run mapErrA_run readSQL_healthy hydrate_healthy del: lookupRow_None)

lemma requireTenantTransaction_healthy:
  assumes "healthy w" "member (TrimSpace ten) (TrimSpace user) (w_tables w)"
    and "lookupRow tm_ID (TrimSpace (TrimSpace i)) (t_transactions (w_tables w)) = Some row"
    and "tm_TenantID row = TrimSpace ten"
  shows "fst (requireTenantTransaction ten user i w) = Inr (readBack row (w_tables w))"
  using assms
  by (simp add: requireTenantTransaction_def bindA_run mapErrA_run member_healthy TagStoreGet_healthy readBack_def
      del: lookupRow_None)

section \<open>Reading back what was recorded\<close>

lemma normalizeTagLoop_sorted: "normalizeTagLoop seen result tagIDs = Inr out \<Longrightarrow> sorted out"
  by (induction tagIDs arbitrary: seen result) (auto simp: Let_def split: if_splits)

lemma normalizeTagLoop_mset:
  "normalizeTagLoop seen result tagIDs = Inr out \<Longrightarrow> mset out = mset result + mset (map TrimSpace tagIDs)"
  by (induction tagIDs arbitrary: seen result) (auto simp: Let_def split: if_splits)

lemma normalized_tags:
  assumes "normalizedTransactionTagIDs tagIDs = Inr out"
  shows "sorted out" "out = sort (map TrimSpace tagIDs)"
proof -
  show "sorted out" using assms unfolding normalizedTransactionTagIDs_def by (rule normalizeTagLoop_sorted)
  moreover have "mset out = mset (map TrimSpace tagIDs)"
    using normalizeTagLoop_mset assms unfolding normalizedTransactionTagIDs_def by fastforce
  ultimately show "out = sort (map TrimSpace tagIDs)" by (metis properties_for_sort)
qed

lemma tagsOf_saved:
  assumes "sorted tagIDs" shows "tagsOf (tx_ID tx) (savedTables tx tagIDs t) = tagIDs"
proof -
  have "sorted (map tagRowKey (storedTags (tx_ID tx) tagIDs))"
    using assms by (simp add: storedTags_def comp_def tagRowKey_def sorted_map sorted_wrt_map)
  then have "sort_key tagRowKey (storedTags (tx_ID tx) tagIDs) = storedTags (tx_ID tx) tagIDs"
    by (rule sort_key_id_if_sorted)
  moreover have "filter (\<lambda>r. ttm_TransactionID r = tx_ID tx) (storedTags (tx_ID tx) tagIDs) = storedTags (tx_ID tx) tagIDs"
    by (simp add: storedTags_def)
  ultimately show ?thesis
    by (simp add: tagsOf_def savedTables_def) (simp add: storedTags_def comp_def)
qed

text \<open>The transaction \<open>RecordTransaction\<close> builds.\<close>

definition recordedTransaction ::
  "RecordTransactionParams \<Rightarrow> Account \<Rightarrow> string option \<Rightarrow> string list \<Rightarrow> time \<Rightarrow> string \<Rightarrow> Transaction" where
  "recordedTransaction p account categoryID tagIDs now newID =
     \<lparr>tx_ID = newID, tx_TenantID = acc_TenantID account, tx_AccountID = acc_ID account,
       tx_Source = rtp_Source p, tx_Status = rtp_Status p, tx_Kind = rtp_Kind p,
       tx_AmountMinor = rtp_AmountMinor p, tx_Currency = ToUpper (TrimSpace (rtp_Currency p)),
       tx_Description = TrimSpace (rtp_Description p), tx_EffectiveAt = rtp_EffectiveAt p,
       tx_CategoryID = categoryID, tx_TagIDs = tagIDs,
       tx_TransferGroupID = (if TrimSpace (rtp_TransferGroupID p) = '''' then None
          else Some (TrimSpace (rtp_TransferGroupID p))),
       tx_TransferMatchedAt = None, tx_TransferMatchingExcluded = False, tx_HiddenAt = None,
       tx_CreatedAt = now, tx_UpdatedAt = now, tx_ProviderOriginal = rtp_ProviderOriginal p\<rparr>"

lemma record_decomposed:
  assumes "RecordTransaction p w = (Inr saved, w')"
  obtains tx v tagIDs where
    "TagStoreSaveTransaction tx v = (Inr saved, w')" "w_tables v = w_tables w"
    "tx_ID tx = w_idSource w (w_idsDrawn w)" "tx_TenantID tx = TrimSpace (rtp_TenantID p)"
    "tx_AmountMinor tx = rtp_AmountMinor p" "tx_Currency tx = ToUpper (TrimSpace (rtp_Currency p))"
    "tx_Description tx = TrimSpace (rtp_Description p)" "tx_EffectiveAt tx = rtp_EffectiveAt p"
    "tx_Kind tx = rtp_Kind p" "tx_Status tx = rtp_Status p" "tx_Source tx = rtp_Source p"
    "tx_ProviderOriginal tx = rtp_ProviderOriginal p" "tx_TransferMatchedAt tx = None"
    "member (TrimSpace (rtp_TenantID p)) (TrimSpace (rtp_ActorUserID p)) (w_tables w)"
proof -
  let ?category = "if TrimSpace (rtp_CategoryID p) = '''' then returnA None
     else bindA (requireTenantCategory (rtp_TenantID p) (rtp_ActorUserID p) (TrimSpace (rtp_CategoryID p)))
       (\<lambda>category. returnA (Some (cat_ID category)))"
  obtain account u where account: "requireTenantAccount (rtp_TenantID p) (rtp_ActorUserID p) (rtp_AccountID p) w = (Inr account, u)"
    and rest: "bindA ?category (\<lambda>categoryID.
         bindA (requireTenantTagIDs (rtp_TenantID p) (rtp_TagIDs p)) (\<lambda>tagIDs.
         bindA (liftA readClock) (\<lambda>now.
         bindA (liftA drawID) (\<lambda>newID. mapErrA (saveError ''record transaction'')
           (TagStoreSaveTransaction (recordedTransaction p account categoryID tagIDs now newID)))))) u = (Inr saved, w')"
    using assms unfolding RecordTransaction_def validateLedgerTimestamp_def recordedTransaction_def
    by (auto simp: bindA_Inr split: if_splits)
  have u: "unchanged w u" using account quiet_require(2) by (rule quietD [rotated])
  have tenant: "acc_TenantID account = TrimSpace (rtp_TenantID p)" using account by (rule requireTenantAccount_tenant)
  have member: "member (TrimSpace (rtp_TenantID p)) (TrimSpace (rtp_ActorUserID p)) (w_tables w)"
    using account by (auto simp: requireTenantAccount_def bindA_Inr dest: requireTenantMember_ok)
  obtain categoryID u1 tagIDs u2 now where
    category: "?category u = (Inr categoryID, u1)"
    and tags: "requireTenantTagIDs (rtp_TenantID p) (rtp_TagIDs p) u1 = (Inr tagIDs, u2)"
    and save: "TagStoreSaveTransaction (recordedTransaction p account categoryID tagIDs now (w_idSource u2 (w_idsDrawn u2)))
         (u2\<lparr>w_timesRead := Suc (w_timesRead u2), w_idsDrawn := Suc (w_idsDrawn u2)\<rparr>) = (Inr saved, w')"
    using rest by (auto simp: bindA_Inr liftA_Inr readClock_def drawID_def simp del: if_split)
  have "unchanged u u1" using category by (rule quietD [rotated]) (intro quiet_rules)
  moreover have "unchanged u1 u2" by (rule quietD [OF quiet_tags tags])
  ultimately have u2: "unchanged w u2" using u by (blast intro: unchanged_trans)
  show thesis
    by (rule that [OF save]) (use u2 tenant member in \<open>simp_all add: unchanged_def recordedTransaction_def\<close>)
qed

lemma recorded_saved:
  assumes "RecordTransaction p w = (Inr saved, w')" "wellIdentified w"
  obtains tx tagIDs where
    "w_tables w' = savedTables tx tagIDs (w_tables w)" "sorted tagIDs"
    "saved = (transactionFromModel (newTransactionModel tx))\<lparr>tx_TagIDs := tagIDs\<rparr>"
    "tx_ID tx = w_idSource w (w_idsDrawn w)" "tx_TenantID tx = TrimSpace (rtp_TenantID p)"
    "tx_AmountMinor tx = rtp_AmountMinor p" "tx_Currency tx = ToUpper (TrimSpace (rtp_Currency p))"
    "tx_Description tx = TrimSpace (rtp_Description p)" "tx_EffectiveAt tx = rtp_EffectiveAt p"
    "tx_Kind tx = rtp_Kind p" "tx_ProviderOriginal tx = rtp_ProviderOriginal p"
    "lookupRow tm_ID (tx_ID tx) (t_transactions (w_tables w')) = Some (newTransactionModel tx)"
    "member (TrimSpace (rtp_TenantID p)) (TrimSpace (rtp_ActorUserID p)) (w_tables w)"
proof (rule record_decomposed [OF assms(1)])
  fix tx v given
  assume save: "TagStoreSaveTransaction tx v = (Inr saved, w')" "w_tables v = w_tables w"
    and tx: "tx_ID tx = w_idSource w (w_idsDrawn w)" "tx_TenantID tx = TrimSpace (rtp_TenantID p)"
    "tx_AmountMinor tx = rtp_AmountMinor p" "tx_Currency tx = ToUpper (TrimSpace (rtp_Currency p))"
    "tx_Description tx = TrimSpace (rtp_Description p)" "tx_EffectiveAt tx = rtp_EffectiveAt p"
    "tx_Kind tx = rtp_Kind p" "tx_ProviderOriginal tx = rtp_ProviderOriginal p"
    and member: "member (TrimSpace (rtp_TenantID p)) (TrimSpace (rtp_ActorUserID p)) (w_tables w)"
  obtain tagIDs stored where
    tags: "normalizedTransactionTagIDs (tx_TagIDs tx) = Inr tagIDs" and
    tables: "w_tables w' = savedTables tx tagIDs (w_tables v)" and
    found: "lookupRow tm_ID (tx_ID tx) (t_transactions (w_tables w')) = Some stored" and
    saved: "saved = (transactionFromModel ((newTransactionModel tx)\<lparr>tm_Kind := tm_Kind stored,
       tm_TransferGroupID := tm_TransferGroupID stored, tm_TransferMatchedAt := tm_TransferMatchedAt stored,
       tm_TransferMatchingExcluded := tm_TransferMatchingExcluded stored\<rparr>))\<lparr>tx_TagIDs := tagIDs\<rparr>"
    by (rule TagStoreSave_ok [OF save(1)])
  have new: "tm_ID (newTransactionModel tx) \<notin> tm_ID ` set (t_transactions (w_tables w))"
    using assms(2) tx(1) by (simp add: wellIdentified_def freshIDs_def ledgerState_def)
  then have rows: "t_transactions (w_tables w') = t_transactions (w_tables w) @ [newTransactionModel tx]"
    by (simp add: tables save(2) save_new)
  moreover have "filter (\<lambda>r. tm_ID r = tx_ID tx) (t_transactions (w_tables w)) = []"
    using new by (force simp: filter_empty_conv)
  ultimately have "lookupRow tm_ID (tx_ID tx) (t_transactions (w_tables w')) = Some (newTransactionModel tx)"
    by (simp add: lookupRow_def)
  moreover from this found have stored: "stored = newTransactionModel tx" by simp
  have same: "m\<lparr>tm_Kind := tm_Kind m, tm_TransferGroupID := tm_TransferGroupID m,
      tm_TransferMatchedAt := tm_TransferMatchedAt m, tm_TransferMatchingExcluded := tm_TransferMatchingExcluded m\<rparr> = m"
    for m :: transactionModel by simp
  ultimately show thesis
    using that [OF tables [unfolded save(2)] normalized_tags(1) [OF tags] saved [unfolded stored same] tx _ member] by blast
qed

lemma transactionFromModel_kept [simp]:
  "tx_ProviderOriginal (transactionFromModel (newTransactionModel tx)) = tx_ProviderOriginal tx"
proof (cases "tx_ProviderOriginal tx")
  case (Some original)
  then show ?thesis
    by (cases original) (auto simp: transactionFromModel_def newTransactionModel_def nonEmptyPointer_def orEmpty_def)
qed (simp add: transactionFromModel_def newTransactionModel_def)

lemma transactionFromModel_fields [simp]:
  "tx_AmountMinor (transactionFromModel (newTransactionModel tx)) = tx_AmountMinor tx"
  "tx_Kind (transactionFromModel (newTransactionModel tx)) = tx_Kind tx"
  "tx_EffectiveAt (transactionFromModel (newTransactionModel tx)) = tx_EffectiveAt tx"
  "tx_Description (transactionFromModel (newTransactionModel tx)) = tx_Description tx"
  "tx_Currency (transactionFromModel (newTransactionModel tx)) = tx_Currency tx"
  by (simp_all add: transactionFromModel_def newTransactionModel_def)


definition recorded_example :: "(go_error + Transaction) \<times> World" where
  "recorded_example = RecordTransaction record_request ledger_world"

lemma recorded_example_ok:
  "(case fst recorded_example of Inr saved \<Rightarrow> tx_ID saved = ''id'' \<and> tx_Currency saved = ''PLN'' | _ \<Rightarrow> False)"
  by code_simp


end
