(* ===== verification/GoText.thy ===== *)
theory GoText
  imports Prelude
begin

text \<open>
  Go text as code points: the runes of a byte string in the order \<^verbatim>\<open>for range\<close> meets them
  (\<^verbatim>\<open>unicode/utf8\<close>: a byte that starts no valid encoding is the rune U+FFFD of width 1), and
  \<^verbatim>\<open>strings.EqualFold\<close>. Which code points differ only in case is the table of
  \<^verbatim>\<open>unicode.SimpleFold\<close>; it is an argument, \<open>sameFold\<close>. \<^verbatim>\<open>EqualFold\<close>'s separate loop over
  ASCII bytes is the same comparison.
\<close>

type_synonym rune = nat

definition byte_of :: "char \<Rightarrow> nat" where
  "byte_of c = of_char c"

definition RuneError :: rune where
  "RuneError = 65533"

text \<open>The bytes that may follow a leading byte, and how many bytes there are in all.\<close>

definition secondByte :: "nat \<Rightarrow> nat \<times> nat" where
  "secondByte b =
     (if b = 0xE0 then (0xA0, 0xBF) else if b = 0xED then (0x80, 0x9F)
      else if b = 0xF0 then (0x90, 0xBF) else if b = 0xF4 then (0x80, 0x8F) else (0x80, 0xBF))"

definition runeLength :: "nat \<Rightarrow> nat" where
  "runeLength b =
     (if 0xC2 \<le> b \<and> b \<le> 0xDF then 2 else if 0xE0 \<le> b \<and> b \<le> 0xEF then 3
      else if 0xF0 \<le> b \<and> b \<le> 0xF4 then 4 else 1)"

definition continues :: "nat \<Rightarrow> nat list \<Rightarrow> bool" where
  "continues b bs =
     (case bs of [] \<Rightarrow> True
      | c # cs \<Rightarrow> fst (secondByte b) \<le> c \<and> c \<le> snd (secondByte b) \<and> (\<forall>d \<in> set cs. 0x80 \<le> d \<and> d \<le> 0xBF))"

definition runeValue :: "nat \<Rightarrow> nat list \<Rightarrow> rune" where
  "runeValue b bs = foldl (\<lambda>r c. r * 64 + (c - 0x80)) (b - (if length bs = 1 then 0xC0 else if length bs = 2 then 0xE0 else 0xF0)) bs"

text \<open>\<^verbatim>\<open>utf8.DecodeRuneInString\<close> on a non-empty string: the rune and its width.\<close>

definition decodeRune :: "char \<Rightarrow> string \<Rightarrow> rune \<times> nat" where
  "decodeRune c s =
     (let b = byte_of c; n = runeLength b; bs = map byte_of (take (n - 1) s)
      in if b < 0x80 then (b, 1)
         else if n > 1 \<and> length bs = n - 1 \<and> continues b bs then (runeValue b bs, n)
         else (RuneError, 1))"

lemma decodeRune_width: "1 \<le> snd (decodeRune c s)" "snd (decodeRune c s) \<le> Suc (length s)"
  by (auto simp: decodeRune_def Let_def)

fun runes :: "string \<Rightarrow> rune list" where
  "runes [] = []"
| "runes (c # s) = fst (decodeRune c s) # runes (drop (snd (decodeRune c s) - 1) s)"

text \<open>The offsets \<^verbatim>\<open>for start := range s\<close> runs over, from \<open>at\<close> on.\<close>

fun runeStarts :: "nat \<Rightarrow> string \<Rightarrow> nat list" where
  "runeStarts at [] = []"
| "runeStarts at (c # s) =
     at # runeStarts (at + snd (decodeRune c s)) (drop (snd (decodeRune c s) - 1) s)"

definition EqualFold :: "(rune \<Rightarrow> rune \<Rightarrow> bool) \<Rightarrow> string \<Rightarrow> string \<Rightarrow> bool" where
  "EqualFold sameFold s t = list_all2 sameFold (runes s) (runes t)"

text \<open>The fold of the ASCII letters alone, for examples.\<close>

definition asciiFold :: "rune \<Rightarrow> rune \<Rightarrow> bool" where
  "asciiFold a b = (let low = (\<lambda>r. if 65 \<le> r \<and> r \<le> 90 then r + 32 else r) in low a = low b)"

section \<open>Cutting at a rune\<close>

lemma decodeRune_take:
  assumes "snd (decodeRune c s) \<le> Suc n"
  shows "decodeRune c (take n s) = decodeRune c s"
proof -
  let ?b = "byte_of c" and ?n = "runeLength (byte_of c)"
  show ?thesis
  proof (cases "?n - 1 \<le> n")
    case True
    then show ?thesis by (simp add: decodeRune_def Let_def min_def)
  next
    case False
    then have "n < ?n - 1" by simp
    then have "\<not> (?b \<ge> 0x80 \<and> length (map byte_of (take (?n - 1) s)) = ?n - 1 \<and>
        continues ?b (map byte_of (take (?n - 1) s)))"
      using assms by (auto simp: decodeRune_def Let_def split: if_splits)
    moreover have "length (take (?n - 1) (take n s)) < ?n - 1"
      using \<open>n < ?n - 1\<close> by simp
    ultimately show ?thesis by (auto simp: decodeRune_def Let_def)
  qed
qed

lemma runes_take_Cons:
  assumes "snd (decodeRune c s) \<le> n"
  shows "runes (take n (c # s)) =
    fst (decodeRune c s) # runes (take (n - snd (decodeRune c s)) (drop (snd (decodeRune c s) - 1) s))"
proof (cases n)
  case 0
  then show ?thesis using assms decodeRune_width(1) [of c s] by simp
next
  case (Suc m)
  have "drop (snd (decodeRune c s) - 1) (take m s) =
      take (n - snd (decodeRune c s)) (drop (snd (decodeRune c s) - 1) s)"
    using Suc decodeRune_width(1) [of c s] by (simp add: drop_take)
  with assms Suc show ?thesis by (simp add: decodeRune_take)
qed

text \<open>
  A prefix that ends where a rune starts has the first runes, and every number of first
  runes is such a prefix.
\<close>

lemma runeStarts_ge: "i \<in> set (runeStarts at s) \<Longrightarrow> at \<le> i \<and> i < at + length s"
proof (induction at s rule: runeStarts.induct)
  case (2 at c s)
  then show ?case using decodeRune_width [of c s] by fastforce
qed simp

lemma runes_take:
  "i \<in> set (runeStarts at s) \<Longrightarrow> \<exists>k < length (runes s). runes (take (i - at) s) = take k (runes s)"
proof (induction at s rule: runeStarts.induct)
  case (2 at c s)
  let ?w = "snd (decodeRune c s)"
  show ?case
  proof (cases "i = at")
    case False
    with 2 have i: "i \<in> set (runeStarts (at + ?w) (drop (?w - 1) s))" by simp
    from "2.IH" [OF i] obtain k where k: "k < length (runes (drop (?w - 1) s))"
      "runes (take (i - (at + ?w)) (drop (?w - 1) s)) = take k (runes (drop (?w - 1) s))" by auto
    have "runes (take (i - at) (c # s)) = fst (decodeRune c s) # runes (take (i - (at + ?w)) (drop (?w - 1) s))"
      using runes_take_Cons [of c s "i - at"] runeStarts_ge [OF i] by (simp add: le_diff_conv2)
    then have "runes (take (i - at) (c # s)) = take (Suc k) (runes (c # s))" using k(2) by simp
    with k(1) show ?thesis by (intro exI [of _ "Suc k"]) simp
  qed auto
qed simp

lemma take_runes:
  "k < length (runes s) \<Longrightarrow> \<exists>i \<in> set (runeStarts at s). runes (take (i - at) s) = take k (runes s) \<and> (0 < k \<longrightarrow> at < i)"
proof (induction at s arbitrary: k rule: runeStarts.induct)
  case (2 at c s)
  let ?w = "snd (decodeRune c s)"
  show ?case
  proof (cases k)
    case (Suc m)
    with "2.prems" have "m < length (runes (drop (?w - 1) s))" by simp
    from "2.IH" [OF this] obtain i where i: "i \<in> set (runeStarts (at + ?w) (drop (?w - 1) s))"
      "runes (take (i - (at + ?w)) (drop (?w - 1) s)) = take m (runes (drop (?w - 1) s))" by auto
    from runeStarts_ge [OF i(1)] have ge: "at + ?w \<le> i" by simp
    have "runes (take (i - at) (c # s)) = fst (decodeRune c s) # runes (take (i - (at + ?w)) (drop (?w - 1) s))"
      using runes_take_Cons [of c s "i - at"] ge by (simp add: le_diff_conv2)
    then have "runes (take (i - at) (c # s)) = take k (runes (c # s))" using i(2) Suc by simp
    moreover have "at < i" using ge decodeRune_width(1) [of c s] by simp
    ultimately show ?thesis using i(1) by auto
  qed simp
qed simp

section \<open>Trimming twice\<close>

lemma stripFirst_prefix:
  "stripFirst ps s = None \<Longrightarrow> stripFirst ps (take n s) = None"
proof (induction ps)
  case (Cons p ps)
  then have "stripPrefix p s = None" "stripFirst ps s = None" by (auto split: option.splits)
  moreover have "stripPrefix p (take n s) = None"
  proof (rule ccontr)
    assume "stripPrefix p (take n s) \<noteq> None"
    then obtain r where "take n s = p @ r" by (auto simp: stripPrefix_Some_iff)
    then have "s = p @ r @ drop n s" by (metis append.assoc append_take_drop_id)
    with \<open>stripPrefix p s = None\<close> show False by (metis stripPrefix_append option.distinct(1))
  qed
  ultimately show ?case using Cons.IH by simp
qed simp

lemma trimLeftSet_suffix: "\<exists>p. s = p @ trimLeftSet ps s"
proof (induction ps s rule: trimLeftSet.induct)
  case (1 ps s)
  show ?case
  proof (cases "stripFirst ps s")
    case (Some r)
    then obtain q where "s = q @ r" by (auto dest: stripFirst_Some)
    show ?thesis
    proof (cases "length r < length s")
      case True
      with 1 [OF Some] obtain p where "r = p @ trimLeftSet ps r" by blast
      moreover have "trimLeftSet ps s = trimLeftSet ps r" using True Some by (simp add: trimLeftSet.simps [of ps s])
      ultimately have "s = (q @ p) @ trimLeftSet ps s" using \<open>s = q @ r\<close> by simp
      then show ?thesis ..
    qed (use Some in \<open>simp add: trimLeftSet.simps [of ps s]\<close>)
  qed (simp add: trimLeftSet.simps)
qed

lemma trimLeftSet_done:
  assumes "\<And>p. p \<in> set ps \<Longrightarrow> p \<noteq> []"
  shows "stripFirst ps (trimLeftSet ps s) = None"
  using assms
proof (induction ps s rule: trimLeftSet.induct)
  case (1 ps s)
  show ?case
  proof (cases "stripFirst ps s")
    case (Some r)
    then obtain p where "p \<in> set ps" "s = p @ r" by (auto dest: stripFirst_Some)
    with 1(2) have shorter: "length r < length s" by auto
    with 1(1) [OF Some] 1(2) Some show ?thesis by (simp add: trimLeftSet.simps [of ps s])
  qed (simp add: trimLeftSet.simps)
qed

lemma trimLeftSet_none: "stripFirst ps s = None \<Longrightarrow> trimLeftSet ps s = s"
  by (simp add: trimLeftSet.simps)

lemma TrimSpace_idem [simp]: "TrimSpace (TrimSpace s) = TrimSpace s"
proof -
  let ?left = "trimLeftSet go_spaces s" and ?spaces = "map rev go_spaces"
  let ?t = "rev (trimLeftSet ?spaces (rev ?left))"
  have spaces: "p \<in> set ?spaces \<Longrightarrow> p \<noteq> []" for p using go_spaces_nonempty by auto
  obtain p where "rev ?left = p @ trimLeftSet ?spaces (rev ?left)" using trimLeftSet_suffix by blast
  then have "?left = ?t @ rev p" by (metis rev_append rev_rev_ident)
  then have "?t = take (length ?t) ?left" by (metis append_eq_conv_conj)
  moreover have "stripFirst go_spaces ?left = None" by (rule trimLeftSet_done) (rule go_spaces_nonempty)
  ultimately have "stripFirst go_spaces ?t = None" by (metis stripFirst_prefix)
  then have "trimLeftSet go_spaces ?t = ?t" by (rule trimLeftSet_none)
  moreover have "trimLeftSet ?spaces (rev ?t) = rev ?t"
    by (simp only: rev_rev_ident) (rule trimLeftSet_none [OF trimLeftSet_done [OF spaces]])
  ultimately show ?thesis by (simp add: TrimSpace_def)
qed

end
