(* ===== verification/Classification.thy ===== *)
theory Classification
  imports Ledger GoText
begin

text \<open>
  Classification rules and the attempt that applies them:
  \<^verbatim>\<open>finance/persistence/classification_rule_store.go\<close>,
  \<^verbatim>\<open>finance/persistence/classification_transaction_store.go\<close>,
  \<^verbatim>\<open>finance/service_classification_rule.go\<close> and
  \<^verbatim>\<open>finance/service_classification.go\<close>. The attempt reads batches until one is empty; it is
  \<open>None\<close> when that never happens. Logging, the constructors and \<^verbatim>\<open>Submit\<close> (which only
  publishes a command) are left out.
\<close>

section \<open>The rule store\<close>

definition ruleOrder :: "classificationRuleModel \<Rightarrow> int \<times> string" where
  "ruleOrder r = (rm_Position r, rm_ID r)"

definition ruleTagOrder :: "classificationRuleTagModel \<Rightarrow> string \<times> string" where
  "ruleTagOrder a = (rtm_RuleID a, rtm_TagID a)"

definition hydrateClassificationRuleTags :: "ClassificationRule list \<Rightarrow> (World, ClassificationRule list) action" where
  "hydrateClassificationRuleTags rules =
     (if rules = [] then returnA rules
      else
        (let ruleIDs = map rule_ID rules
         in bindA (wrapA ''list classification rule tags''
              (readSQL (\<lambda>t. orderAsc ruleTagOrder (filter (\<lambda>a. rtm_RuleID a \<in> set ruleIDs) (t_ruleTags t)))))
            (\<lambda>assignments. returnA (map (\<lambda>rule. rule\<lparr>rule_TagIDs :=
               map rtm_TagID (filter (\<lambda>a. rtm_RuleID a = rule_ID rule) assignments)\<rparr>) rules))))"

definition classificationRulesFromModels :: "classificationRuleModel list \<Rightarrow> ClassificationRule list" where
  "classificationRulesFromModels models = map classificationRuleFromModel models"

definition ListClassificationRules :: "string \<Rightarrow> string \<Rightarrow> (World, ClassificationRule list) action" where
  "ListClassificationRules tenantID categoryID =
     bindA (wrapA ''list classification rules''
       (readSQL (\<lambda>t. orderAsc ruleOrder (filter (\<lambda>r. rm_TenantID r = TrimSpace tenantID \<and>
          (categoryID \<noteq> '''' \<longrightarrow> rm_CategoryID r = TrimSpace categoryID)) (t_rules t)))))
     (\<lambda>models. hydrateClassificationRuleTags (classificationRulesFromModels models))"

definition clearRuleTags :: "string \<Rightarrow> (World, unit) action" where
  "clearRuleTags ruleID =
     changeSQL (\<lambda>t. Inr (t\<lparr>t_ruleTags := filter (\<lambda>a. rtm_RuleID a \<noteq> ruleID) (t_ruleTags t)\<rparr>))"

definition createRuleTags :: "classificationRuleTagModel list \<Rightarrow> (World, unit) action" where
  "createRuleTags assignments =
     changeSQL (\<lambda>t.
       if \<not> distinct (map ruleTagOrder assignments) \<or>
          set (map ruleTagOrder assignments) \<inter> set (map ruleTagOrder (t_ruleTags t)) \<noteq> {}
       then Inl (Sentinel DatabaseUniqueViolation)
       else Inr (t\<lparr>t_ruleTags := t_ruleTags t @ assignments\<rparr>))"

definition replaceClassificationRuleTags :: "string \<Rightarrow> string list \<Rightarrow> (World, unit) action" where
  "replaceClassificationRuleTags ruleID tagIDs =
     bindA (wrapA ''clear classification rule tags'' (clearRuleTags ruleID)) (\<lambda>_.
       if tagIDs = [] then returnA ()
       else wrapA ''create classification rule tags''
         (createRuleTags (map (\<lambda>tagID. \<lparr>rtm_RuleID = ruleID, rtm_TagID = tagID\<rparr>) tagIDs)))"

text \<open>\<^verbatim>\<open>COALESCE(MAX(position), 0)\<close>.\<close>

definition maximumPosition :: "string \<Rightarrow> classificationRuleModel list \<Rightarrow> int" where
  "maximumPosition tenantID rows =
     (case map rm_Position (filter (\<lambda>r. rm_TenantID r = tenantID) rows) of
        [] \<Rightarrow> 0
      | p # ps \<Rightarrow> foldl max p ps)"

definition createRule :: "classificationRuleModel \<Rightarrow> (World, unit) action" where
  "createRule model =
     changeSQL (\<lambda>t. case insertRows rm_ID model (t_rules t) of
        Inl e \<Rightarrow> Inl e
      | Inr rows \<Rightarrow> Inr (t\<lparr>t_rules := rows\<rparr>))"

definition AppendClassificationRule :: "ClassificationRule \<Rightarrow> (World, ClassificationRule) action" where
  "AppendClassificationRule rule =
     wrapA ''append classification rule'' (transactionSQL
       (bindA (wrapA ''read classification rule position''
          (readSQL (\<lambda>t. maximumPosition (rule_TenantID rule) (t_rules t)))) (\<lambda>maximum.
        let model = newClassificationRuleModel (rule\<lparr>rule_Position := maximum + 1\<rparr>)
        in bindA (wrapA ''append classification rule'' (createRule model)) (\<lambda>_.
           bindA (replaceClassificationRuleTags (rm_ID model) (rule_TagIDs rule)) (\<lambda>_.
             returnA ((classificationRuleFromModel model)\<lparr>rule_TagIDs := rule_TagIDs rule\<rparr>))))))"

text \<open>\<^verbatim>\<open>UPDATE ... WHERE\<close> on the rules; the result is \<^verbatim>\<open>RowsAffected\<close>.\<close>

definition updateRules ::
  "(classificationRuleModel \<Rightarrow> bool) \<Rightarrow> (classificationRuleModel \<Rightarrow> classificationRuleModel) \<Rightarrow> (World, nat) action" where
  "updateRules sel change =
     execSQL (\<lambda>t. (Inr (length (filter sel (t_rules t))),
       t\<lparr>t_rules := map (\<lambda>r. if sel r then change r else r) (t_rules t)\<rparr>))"

definition replacedRule :: "ClassificationRule \<Rightarrow> classificationRuleModel \<Rightarrow> classificationRuleModel" where
  "replacedRule rule r =
     r\<lparr>rm_MatchType := rule_MatchType rule, rm_Condition := rule_Condition rule,
       rm_CategoryID := rule_CategoryID rule, rm_UpdatedAt := rule_UpdatedAt rule\<rparr>"

definition ReplaceClassificationRule :: "ClassificationRule \<Rightarrow> (World, unit) action" where
  "ReplaceClassificationRule rule =
     transactionSQL
       (bindA (wrapA ''replace classification rule''
          (updateRules (\<lambda>r. rm_TenantID r = TrimSpace (rule_TenantID rule) \<and> rm_ID r = TrimSpace (rule_ID rule))
             (replacedRule rule))) (\<lambda>affected.
        if affected = 0 then failA (Sentinel PersistenceErrClassificationRuleNotFound)
        else replaceClassificationRuleTags (rule_ID rule) (rule_TagIDs rule)))"

definition deleteRuleRow :: "string \<Rightarrow> (World, unit) action" where
  "deleteRuleRow ruleID =
     changeSQL (\<lambda>t. Inr (t\<lparr>t_rules := filter (\<lambda>r. rm_ID r \<noteq> ruleID) (t_rules t)\<rparr>))"

definition findRule :: "string \<Rightarrow> string \<Rightarrow> string \<Rightarrow> (World, classificationRuleModel) action" where
  "findRule msg tenantID ruleID =
     bindA (wrapA msg
       (readSQL (\<lambda>t. firstRow (orderAsc rm_ID (filter (\<lambda>r. rm_TenantID r = TrimSpace tenantID \<and>
          rm_ID r = TrimSpace ruleID) (t_rules t))))))
     (\<lambda>found. case found of
        None \<Rightarrow> failA (Sentinel PersistenceErrClassificationRuleNotFound)
      | Some model \<Rightarrow> returnA model)"

definition DeleteClassificationRule :: "string \<Rightarrow> string \<Rightarrow> (World, unit) action" where
  "DeleteClassificationRule tenantID ruleID =
     transactionSQL
       (bindA (findRule ''get classification rule for delete'' tenantID ruleID) (\<lambda>model.
        bindA (wrapA ''delete classification rule tags'' (clearRuleTags (rm_ID model))) (\<lambda>_.
        bindA (wrapA ''delete classification rule'' (deleteRuleRow (rm_ID model))) (\<lambda>_.
        bindA (wrapA ''close classification rule position gap''
          (updateRules (\<lambda>r. rm_TenantID r = rm_TenantID model \<and> rm_Position r > rm_Position model)
             (\<lambda>r. r\<lparr>rm_Position := rm_Position r - 1\<rparr>))) (\<lambda>_.
          returnA ())))))"

text \<open>The rule next to the current one in the direction of the move.\<close>

definition adjacentRule ::
  "classificationRuleModel \<Rightarrow> int \<Rightarrow> classificationRuleModel list \<Rightarrow> classificationRuleModel option" where
  "adjacentRule current direction rows =
     (let others = filter (\<lambda>r. rm_TenantID r = rm_TenantID current) rows
      in if direction < 0
         then firstRow (orderDesc ruleOrder (filter (\<lambda>r. rm_Position r < rm_Position current) others))
         else firstRow (orderAsc ruleOrder (filter (\<lambda>r. rm_Position r > rm_Position current) others)))"

definition movedTo :: "int \<Rightarrow> time \<Rightarrow> classificationRuleModel \<Rightarrow> classificationRuleModel" where
  "movedTo position now r = r\<lparr>rm_Position := position, rm_UpdatedAt := now\<rparr>"

definition MoveClassificationRule :: "string \<Rightarrow> string \<Rightarrow> int \<Rightarrow> time \<Rightarrow> (World, unit) action" where
  "MoveClassificationRule tenantID ruleID direction now =
     transactionSQL
       (bindA (findRule ''get classification rule for move'' tenantID ruleID) (\<lambda>current.
        bindA (wrapA ''get adjacent classification rule''
          (readSQL (\<lambda>t. adjacentRule current direction (t_rules t)))) (\<lambda>found.
          case found of
            None \<Rightarrow> returnA ()
          | Some neighbor \<Rightarrow>
              bindA (wrapA ''move classification rule''
                (updateRules (\<lambda>r. rm_ID r = rm_ID current) (movedTo (rm_Position neighbor) now))) (\<lambda>_.
              bindA (wrapA ''move adjacent classification rule''
                (updateRules (\<lambda>r. rm_ID r = rm_ID neighbor) (movedTo (rm_Position current) now))) (\<lambda>_.
                returnA ())))))"

definition ListClassificationRuleIDsReferencingCategory :: "string \<Rightarrow> string \<Rightarrow> (World, string list) action" where
  "ListClassificationRuleIDsReferencingCategory tenantID categoryID =
     wrapA ''list classification rule category references''
       (readSQL (\<lambda>t. map rm_ID (orderAsc ruleOrder (filter (\<lambda>r. rm_TenantID r = TrimSpace tenantID \<and>
          rm_CategoryID r = TrimSpace categoryID) (t_rules t)))))"

text \<open>The join: one row for each assignment of the tag to a rule of the tenant.\<close>

definition tagReferences :: "string \<Rightarrow> string \<Rightarrow> Tables \<Rightarrow> classificationRuleModel list" where
  "tagReferences tenantID tagID t =
     concat (map (\<lambda>a. filter (\<lambda>r. rm_ID r = rtm_RuleID a \<and> rm_TenantID r = TrimSpace tenantID) (t_rules t))
       (filter (\<lambda>a. rtm_TagID a = TrimSpace tagID) (t_ruleTags t)))"

definition ListClassificationRuleIDsReferencingTag :: "string \<Rightarrow> string \<Rightarrow> (World, string list) action" where
  "ListClassificationRuleIDsReferencingTag tenantID tagID =
     wrapA ''list classification rule tag references''
       (readSQL (\<lambda>t. map rm_ID (orderAsc ruleOrder (tagReferences tenantID tagID t))))"

section \<open>The transactions to classify\<close>

definition classificationBatchSize :: nat where "classificationBatchSize = 200"

definition eligibleClassificationTransaction :: "string \<Rightarrow> time \<Rightarrow> time \<Rightarrow> transactionModel \<Rightarrow> bool" where
  "eligibleClassificationTransaction tenantID rangeStart rangeEndExclusive row \<longleftrightarrow>
     tm_TenantID row = TrimSpace tenantID \<and> tm_CategoryID row = None \<and> tm_HiddenAt row = None \<and>
     tm_Status row = TransactionStatusBooked \<and>
     tm_Kind row \<in> {TransactionKindRegular, TransactionKindExpense, TransactionKindIncome, TransactionKindRefund} \<and>
     (\<not> IsZero rangeStart \<longrightarrow> tm_EffectiveAt row \<ge> rangeStart) \<and>
     (\<not> IsZero rangeEndExclusive \<longrightarrow> tm_EffectiveAt row < rangeEndExclusive)"

record ListEligibleClassificationTransactionsParams =
  lec_TenantID :: string
  lec_RangeStart :: time
  lec_RangeEndExclusive :: time
  lec_AfterID :: string

definition classificationBatch ::
  "ListEligibleClassificationTransactionsParams \<Rightarrow> transactionModel list \<Rightarrow> transactionModel list" where
  "classificationBatch p rows =
     (let afterID = TrimSpace (lec_AfterID p)
      in take classificationBatchSize (orderAsc tm_ID (filter (\<lambda>row.
           eligibleClassificationTransaction (lec_TenantID p) (lec_RangeStart p) (lec_RangeEndExclusive p) row \<and>
           (afterID \<noteq> '''' \<longrightarrow> tm_ID row > afterID)) rows)))"

definition ListEligibleClassificationTransactions ::
  "ListEligibleClassificationTransactionsParams \<Rightarrow> (World, Transaction list) action" where
  "ListEligibleClassificationTransactions p =
     bindA (wrapA ''list eligible classification transactions''
       (readSQL (\<lambda>t. classificationBatch p (t_transactions t))))
     (\<lambda>models. returnA (map transactionFromModel models))"

record AssignClassificationParams =
  acp_TenantID :: string
  acp_TransactionID :: string
  acp_CategoryID :: string
  acp_TagIDs :: "string list"
  acp_UpdatedAt :: time

definition classifiedRow :: "AssignClassificationParams \<Rightarrow> transactionModel \<Rightarrow> transactionModel" where
  "classifiedRow p row = row\<lparr>tm_CategoryID := Some (acp_CategoryID p), tm_UpdatedAt := acp_UpdatedAt p\<rparr>"

definition assignCategory :: "AssignClassificationParams \<Rightarrow> (World, nat) action" where
  "assignCategory p =
     (let sel = (\<lambda>row. eligibleClassificationTransaction (acp_TenantID p) zero_time zero_time row \<and>
            tm_ID row = TrimSpace (acp_TransactionID p))
      in execSQL (\<lambda>t. (Inr (length (filter sel (t_transactions t))),
           t\<lparr>t_transactions := map (\<lambda>row. if sel row then classifiedRow p row else row) (t_transactions t)\<rparr>)))"

text \<open>\<^verbatim>\<open>INSERT ... ON CONFLICT DO NOTHING\<close>: a pair that is already there is skipped.\<close>

fun addTagRows :: "transactionTagModel list \<Rightarrow> transactionTagModel list \<Rightarrow> transactionTagModel list" where
  "addTagRows [] rows = rows"
| "addTagRows (a # as) rows =
     addTagRows as (if tagRowKey a \<in> tagRowKey ` set rows then rows else rows @ [a])"

definition AssignClassification :: "AssignClassificationParams \<Rightarrow> (World, bool) action" where
  "AssignClassification p =
     wrapA ''assign classification'' (transactionSQL
       (bindA (wrapA ''update classification category'' (assignCategory p)) (\<lambda>affected.
          if affected = 0 then returnA False
          else if acp_TagIDs p = [] then returnA True
          else
            bindA (wrapA ''assign classification tags'' (changeSQL (\<lambda>t. Inr (t\<lparr>t_transactionTags :=
              addTagRows (map (\<lambda>tagID. \<lparr>ttm_TransactionID = acp_TransactionID p, ttm_TagID = tagID\<rparr>) (acp_TagIDs p))
                (t_transactionTags t)\<rparr>)))) (\<lambda>_. returnA True))))"

section \<open>Which rule matches\<close>

text \<open>
  The two loops of \<^verbatim>\<open>containsFold\<close>: from every rune on, up to every later rune, and to the
  end of the text.
\<close>

fun containsFrom :: "(rune \<Rightarrow> rune \<Rightarrow> bool) \<Rightarrow> string \<Rightarrow> string \<Rightarrow> bool" where
  "containsFrom sameFold [] part = False"
| "containsFrom sameFold (c # s) part =
     ((\<exists>stop \<in> set (runeStarts 0 (c # s)). stop \<noteq> 0 \<and> EqualFold sameFold (take stop (c # s)) part) \<or>
      EqualFold sameFold (c # s) part \<or>
      containsFrom sameFold (drop (snd (decodeRune c s) - 1) s) part)"

definition containsFold :: "(rune \<Rightarrow> rune \<Rightarrow> bool) \<Rightarrow> string \<Rightarrow> string \<Rightarrow> bool" where
  "containsFold sameFold v part = (part \<noteq> '''' \<and> containsFrom sameFold v part)"

definition ruleMatches :: "(rune \<Rightarrow> rune \<Rightarrow> bool) \<Rightarrow> string \<Rightarrow> ClassificationRule \<Rightarrow> bool" where
  "ruleMatches sameFold normalizedDescription rule =
     (let condition = TrimSpace (rule_Condition rule)
      in condition \<noteq> '''' \<and>
         (case rule_MatchType rule of
            ClassificationMatchTypeExact \<Rightarrow> EqualFold sameFold normalizedDescription condition
          | ClassificationMatchTypeContains \<Rightarrow> containsFold sameFold normalizedDescription condition
          | ClassificationMatchTypeOther _ \<Rightarrow> False))"

definition matchClassificationRule ::
  "(rune \<Rightarrow> rune \<Rightarrow> bool) \<Rightarrow> string \<Rightarrow> ClassificationRule list \<Rightarrow> ClassificationRule option" where
  "matchClassificationRule sameFold description rules =
     (let normalizedDescription = TrimSpace description
      in if normalizedDescription = '''' then None
         else find (ruleMatches sameFold normalizedDescription) rules)"

section \<open>The attempt\<close>

record ClassificationAttemptCounts =
  cac_Classified :: int
  cac_Unmatched :: int
  cac_Skipped :: int

definition noCounts :: ClassificationAttemptCounts where
  "noCounts = \<lparr>cac_Classified = 0, cac_Unmatched = 0, cac_Skipped = 0\<rparr>"

definition addClassificationAttemptCounts ::
  "ClassificationAttemptCounts \<Rightarrow> ClassificationAttemptCounts \<Rightarrow> ClassificationAttemptCounts" where
  "addClassificationAttemptCounts current delta =
     \<lparr>cac_Classified = cac_Classified current + cac_Classified delta,
      cac_Unmatched = cac_Unmatched current + cac_Unmatched delta,
      cac_Skipped = cac_Skipped current + cac_Skipped delta\<rparr>"

record ClassificationParams =
  clp_TenantID :: string
  clp_RangeStart :: time
  clp_RangeEndExclusive :: time
  clp_MessageID :: string
  clp_SourceSyncMessageID :: string

definition unavailableClassificationCategoryFailure :: "string \<Rightarrow> go_error \<Rightarrow> go_error" where
  "unavailableClassificationCategoryFailure categoryID cause =
     TerminalFailure (Wrap (''classification rule category '' @ quotedText categoryID @ '' is unavailable'') cause)
       ''classification_category_unavailable''
       ''A classification rule references an unavailable category.''
       ''Update or delete the classification rule before retrying.''"

definition unavailableClassificationTagFailure :: "string \<Rightarrow> go_error \<Rightarrow> go_error" where
  "unavailableClassificationTagFailure tagID cause =
     TerminalFailure (Wrap (''classification rule tag '' @ quotedText tagID @ '' is unavailable'') cause)
       ''classification_tag_unavailable''
       ''A classification rule references an unavailable tag.''
       ''Update or delete the classification rule before retrying.''"

fun validateClassificationTags :: "string \<Rightarrow> string list \<Rightarrow> (World, unit) action" where
  "validateClassificationTags tenantID [] = returnA ()"
| "validateClassificationTags tenantID (tagID # tagIDs) =
     bindA (mapErrA (\<lambda>e. if errors_is e PersistenceErrTagNotFound
              then unavailableClassificationTagFailure tagID e else Wrap ''get classification rule tag'' e)
              (GetTag tagID)) (\<lambda>tag.
       if tag = None \<or> tag_TenantID (the tag) \<noteq> tenantID \<or> tag_HiddenAt (the tag) \<noteq> None
       then failA (unavailableClassificationTagFailure tagID (Errorf ''tag not found''))
       else validateClassificationTags tenantID tagIDs)"

definition classifyTransaction ::
  "(rune \<Rightarrow> rune \<Rightarrow> bool) \<Rightarrow> string \<Rightarrow> Transaction \<Rightarrow> ClassificationRule list \<Rightarrow>
   (World, ClassificationAttemptCounts) action" where
  "classifyTransaction sameFold tenantID txn rules =
     (case matchClassificationRule sameFold (tx_Description txn) rules of
        None \<Rightarrow> returnA (noCounts\<lparr>cac_Unmatched := 1\<rparr>)
      | Some rule \<Rightarrow>
          bindA (mapErrA (\<lambda>e. if errors_is e PersistenceErrCategoryNotFound
                   then unavailableClassificationCategoryFailure (rule_CategoryID rule) e
                   else Wrap ''get classification rule category'' e)
                   (GetCategory (rule_CategoryID rule))) (\<lambda>category.
            if category = None \<or> cat_TenantID (the category) \<noteq> tenantID \<or> cat_HiddenAt (the category) \<noteq> None
            then failA (unavailableClassificationCategoryFailure (rule_CategoryID rule) (Errorf ''category not found''))
            else
              bindA (validateClassificationTags tenantID (rule_TagIDs rule)) (\<lambda>_.
              bindA (liftA readClock) (\<lambda>now.
              bindA (wrapA ''assign classification'' (AssignClassification
                \<lparr>acp_TenantID = tenantID, acp_TransactionID = tx_ID txn, acp_CategoryID = cat_ID (the category),
                 acp_TagIDs = rule_TagIDs rule, acp_UpdatedAt = now\<rparr>)) (\<lambda>assigned.
                returnA (if assigned then noCounts\<lparr>cac_Classified := 1\<rparr> else noCounts\<lparr>cac_Skipped := 1\<rparr>))))))"

text \<open>
  One batch: the counts so far, the error that stops it if there is one, and the id of the
  last transaction it reached.
\<close>

fun classifyBatch ::
  "(rune \<Rightarrow> rune \<Rightarrow> bool) \<Rightarrow> string \<Rightarrow> ClassificationRule list \<Rightarrow> ClassificationAttemptCounts \<Rightarrow> string \<Rightarrow>
   Transaction list \<Rightarrow> World \<Rightarrow> (ClassificationAttemptCounts \<times> go_error option \<times> string) \<times> World" where
  "classifyBatch sameFold tenantID rules counts lastID [] w = ((counts, None, lastID), w)"
| "classifyBatch sameFold tenantID rules counts lastID (txn # txns) w =
     (case classifyTransaction sameFold tenantID txn rules w of
        (Inl e, w') \<Rightarrow> ((counts, Some e, tx_ID txn), w')
      | (Inr delta, w') \<Rightarrow>
          classifyBatch sameFold tenantID rules (addClassificationAttemptCounts counts delta) (tx_ID txn) txns w')"

definition classificationPage :: "ClassificationParams \<Rightarrow> string \<Rightarrow> ListEligibleClassificationTransactionsParams" where
  "classificationPage p lastID =
     \<lparr>lec_TenantID = clp_TenantID p, lec_RangeStart = clp_RangeStart p,
      lec_RangeEndExclusive = clp_RangeEndExclusive p, lec_AfterID = lastID\<rparr>"

partial_function (option) classifyLoop ::
  "(rune \<Rightarrow> rune \<Rightarrow> bool) \<Rightarrow> ClassificationParams \<Rightarrow> ClassificationRule list \<Rightarrow> ClassificationAttemptCounts \<Rightarrow>
   string \<Rightarrow> World \<Rightarrow> ((ClassificationAttemptCounts \<times> go_error option) \<times> World) option" where
  "classifyLoop sameFold p rules counts lastID w =
     (case ListEligibleClassificationTransactions (classificationPage p lastID) w of
        (Inl e, w') \<Rightarrow> Some ((counts, Some (Wrap ''list eligible classification transactions'' e)), w')
      | (Inr txns, w') \<Rightarrow>
          if txns = [] then Some ((counts, None), w')
          else
            (case classifyBatch sameFold (clp_TenantID p) rules counts lastID txns w' of
               ((counts', Some e, _), w'') \<Rightarrow> Some ((counts', Some e), w'')
             | ((counts', None, lastID'), w'') \<Rightarrow> classifyLoop sameFold p rules counts' lastID' w''))"

declare classifyLoop.simps [code]

definition Classify ::
  "(rune \<Rightarrow> rune \<Rightarrow> bool) \<Rightarrow> ClassificationParams \<Rightarrow> World \<Rightarrow>
   ((ClassificationAttemptCounts \<times> go_error option) \<times> World) option" where
  "Classify sameFold p w =
     (let w = snd (readClock w)
      in case ListClassificationRules (clp_TenantID p) '''' w of
           (Inl e, w') \<Rightarrow> Some ((noCounts, Some (Wrap ''load classification rules'' e)), w')
         | (Inr rules, w') \<Rightarrow> classifyLoop sameFold p rules noCounts '''' w')"

end
