(* ===== verification/CatalogStore.thy ===== *)
theory CatalogStore
  imports Classification
begin

text \<open>
  The rest of \<^verbatim>\<open>finance/persistence/core_store.go\<close>: tenants, memberships, invites, categories
  and tags. Rows are written with \<^verbatim>\<open>INSERT ... ON CONFLICT\<close>, as accounts are; the primary key
  of a membership is the pair of its ids.
\<close>

section \<open>Tenants and memberships\<close>

definition tenantUpdate :: "tenantModel \<Rightarrow> tenantModel \<Rightarrow> tenantModel" where
  "tenantUpdate old new = old\<lparr>nm_Name := nm_Name new, nm_DisplayCurrency := nm_DisplayCurrency new,
     nm_ArchivedAt := nm_ArchivedAt new, nm_UpdatedAt := nm_UpdatedAt new\<rparr>"

definition SaveTenant :: "Tenant \<Rightarrow> (World, Tenant) action" where
  "SaveTenant tenant =
     (let model = newTenantModel tenant
      in bindA (wrapA ''save tenant'' (changeSQL (\<lambda>t.
           map_sum (\<lambda>e. e) (\<lambda>rows. t\<lparr>t_tenants := rows\<rparr>) (upsertRows nm_ID nm_ID tenantUpdate model (t_tenants t)))))
         (\<lambda>_. returnA (tenantFromModel model)))"

definition GetTenant :: "string \<Rightarrow> (World, Tenant) action" where
  "GetTenant tenantID =
     bindA (wrapA ''get tenant'' (bindA (readSQL (\<lambda>t. lookupRow nm_ID tenantID (t_tenants t))) (\<lambda>found.
        case found of None \<Rightarrow> failA (Sentinel GormErrRecordNotFound) | Some model \<Rightarrow> returnA model)))
     (\<lambda>model. returnA (tenantFromModel model))"

definition membershipKey :: "tenantMembershipModel \<Rightarrow> string \<times> string" where
  "membershipKey m = (mbm_TenantID m, mbm_UserID m)"

text \<open>\<^verbatim>\<open>ON CONFLICT DO NOTHING\<close>: a membership that is there stays as it is.\<close>

definition SaveTenantMembership :: "TenantMembership \<Rightarrow> (World, TenantMembership) action" where
  "SaveTenantMembership membership =
     (let model = newTenantMembershipModel membership
      in bindA (wrapA ''save tenant membership'' (changeSQL (\<lambda>t.
           Inr (t\<lparr>t_memberships := insertOnConflict membershipKey (\<lambda>old new. old) model (t_memberships t)\<rparr>))))
         (\<lambda>_. returnA (tenantMembershipFromModel model)))"

text \<open>The join of memberships and tenants; archived tenants are left out.\<close>

definition membershipJoin :: "string \<Rightarrow> Tables \<Rightarrow> (tenantModel \<times> tenantMembershipModel) list" where
  "membershipJoin userID t =
     orderAsc (\<lambda>(tenant, m). (nm_CreatedAt tenant, nm_ID tenant))
       (concat (map (\<lambda>m. map (\<lambda>tenant. (tenant, m))
          (filter (\<lambda>tenant. nm_ID tenant = mbm_TenantID m \<and> nm_ArchivedAt tenant = None) (t_tenants t)))
          (filter (\<lambda>m. mbm_UserID m = userID) (t_memberships t))))"

definition membershipView :: "string \<Rightarrow> tenantModel \<times> tenantMembershipModel \<Rightarrow> TenantMembershipView" where
  "membershipView userID = (\<lambda>(tenant, m).
     \<lparr>view_Tenant = \<lparr>ten_ID = nm_ID tenant, ten_Name = nm_Name tenant, ten_DisplayCurrency = nm_DisplayCurrency tenant,
        ten_ArchivedAt = None, ten_CreatedAt = nm_CreatedAt tenant, ten_UpdatedAt = nm_UpdatedAt tenant\<rparr>,
      view_Membership = \<lparr>mem_TenantID = nm_ID tenant, mem_UserID = userID, mem_JoinedAt = mbm_JoinedAt m,
        mem_CreatedAt = mbm_CreatedAt m\<rparr>\<rparr>)"

definition StoreListTenantsForUser :: "string \<Rightarrow> (World, TenantMembershipView list) action" where
  "StoreListTenantsForUser userID =
     bindA (wrapA ''list tenants for user'' (readSQL (membershipJoin userID)))
     (\<lambda>rows. returnA (map (membershipView userID) rows))"

definition StoreListTenantMembers :: "string \<Rightarrow> (World, TenantMember list) action" where
  "StoreListTenantMembers tenantID =
     bindA (wrapA ''list tenant members''
       (readSQL (\<lambda>t. orderAsc (\<lambda>m. (mbm_JoinedAt m, mbm_UserID m))
          (filter (\<lambda>m. mbm_TenantID m = tenantID) (t_memberships t)))))
     (\<lambda>models. returnA (map (\<lambda>model. \<lparr>tmb_TenantID = mbm_TenantID model, tmb_UserID = mbm_UserID model,
        tmb_JoinedAt = mbm_JoinedAt model\<rparr>) models))"

section \<open>Invites\<close>

definition SaveTenantInvite :: "TenantInvite \<Rightarrow> (World, TenantInvite) action" where
  "SaveTenantInvite invite =
     (let model = newTenantInviteModel invite
      in bindA (wrapA ''save tenant invite'' (changeSQL (\<lambda>t.
           if im_Code model \<in> im_Code ` set (t_invites t) then Inl (Sentinel DatabaseUniqueViolation)
           else map_sum (\<lambda>e. e) (\<lambda>rows. t\<lparr>t_invites := rows\<rparr>) (insertRows im_ID model (t_invites t)))))
         (\<lambda>_. returnA (tenantInviteFromModel model)))"

definition GetTenantInviteByCode :: "string \<Rightarrow> (World, TenantInvite) action" where
  "GetTenantInviteByCode code =
     bindA (wrapA ''get tenant invite by code'' (readSQL (\<lambda>t. lookupRow im_Code code (t_invites t))))
     (\<lambda>found. case found of
        None \<Rightarrow> failA (Sentinel PersistenceErrTenantInviteNotFound)
      | Some model \<Rightarrow> returnA (tenantInviteFromModel model))"

definition acceptedInvite :: "tenantInviteModel \<Rightarrow> tenantInviteModel \<Rightarrow> tenantInviteModel" where
  "acceptedInvite model r = r\<lparr>im_AcceptedByUserID := im_AcceptedByUserID model, im_AcceptedAt := im_AcceptedAt model\<rparr>"

definition UpdateTenantInvite :: "TenantInvite \<Rightarrow> (World, TenantInvite) action" where
  "UpdateTenantInvite invite =
     (let model = newTenantInviteModel invite
      in bindA (wrapA ''update tenant invite'' (changeSQL (\<lambda>t.
           Inr (t\<lparr>t_invites := map (\<lambda>r. if im_ID r = im_ID model then acceptedInvite model r else r) (t_invites t)\<rparr>))))
         (\<lambda>_. returnA (tenantInviteFromModel model)))"

definition StoreListTenantInvites :: "string \<Rightarrow> (World, TenantInvite list) action" where
  "StoreListTenantInvites tenantID =
     bindA (wrapA ''list tenant invites''
       (readSQL (\<lambda>t. orderAsc (\<lambda>i. (im_CreatedAt i, im_ID i)) (filter (\<lambda>i. im_TenantID i = tenantID) (t_invites t)))))
     (\<lambda>models. returnA (map tenantInviteFromModel models))"

section \<open>Categories and tags\<close>

definition categoryUpdate :: "categoryModel \<Rightarrow> categoryModel \<Rightarrow> categoryModel" where
  "categoryUpdate old new = old\<lparr>cm_TenantID := cm_TenantID new, cm_Name := cm_Name new, cm_Kind := cm_Kind new,
     cm_SeededDefault := cm_SeededDefault new, cm_HiddenAt := cm_HiddenAt new, cm_UpdatedAt := cm_UpdatedAt new\<rparr>"

definition SaveCategory :: "Category \<Rightarrow> (World, Category) action" where
  "SaveCategory category =
     (let model = newCategoryModel category
      in bindA (wrapA ''save category'' (changeSQL (\<lambda>t.
           map_sum (\<lambda>e. e) (\<lambda>rows. t\<lparr>t_categories := rows\<rparr>)
             (upsertRows cm_ID cm_ID categoryUpdate model (t_categories t)))))
         (\<lambda>_. returnA (categoryFromModel model)))"

text \<open>\<^verbatim>\<open>seeded_default DESC\<close>: the seeded ones first.\<close>

definition StoreListCategories :: "string \<Rightarrow> bool \<Rightarrow> (World, Category list) action" where
  "StoreListCategories tenantID includeHidden =
     bindA (wrapA ''list categories''
       (readSQL (\<lambda>t. orderAsc (\<lambda>c. (\<not> cm_SeededDefault c, cm_CreatedAt c, cm_ID c))
          (filter (\<lambda>c. cm_TenantID c = tenantID \<and> (includeHidden \<or> cm_HiddenAt c = None)) (t_categories t)))))
     (\<lambda>models. returnA (map categoryFromModel models))"

definition tagUpdate :: "tagModel \<Rightarrow> tagModel \<Rightarrow> tagModel" where
  "tagUpdate old new = old\<lparr>gm_TenantID := gm_TenantID new, gm_Name := gm_Name new, gm_HiddenAt := gm_HiddenAt new,
     gm_UpdatedAt := gm_UpdatedAt new\<rparr>"

text \<open>How many rules, of any tenant, assign a tag.\<close>

definition tagRuleCount :: "string \<Rightarrow> Tables \<Rightarrow> nat" where
  "tagRuleCount tagID t =
     length (concat (map (\<lambda>a. filter (\<lambda>r. rm_ID r = rtm_RuleID a) (t_rules t))
       (filter (\<lambda>a. rtm_TagID a = tagID) (t_ruleTags t))))"

definition upsertTag :: "tagModel \<Rightarrow> (World, Tag) action" where
  "upsertTag model =
     bindA (wrapA ''save tag'' (changeSQL (\<lambda>t.
       map_sum (\<lambda>e. e) (\<lambda>rows. t\<lparr>t_tags := rows\<rparr>) (upsertRows gm_ID gm_ID tagUpdate model (t_tags t)))))
     (\<lambda>_. returnA (tagFromModel model))"

definition SaveTag :: "Tag \<Rightarrow> (World, Tag) action" where
  "SaveTag tag =
     (let model = newTagModel tag
      in if gm_HiddenAt model \<noteq> None
         then bindA (wrapA ''check classification rule tag references'' (readSQL (tagRuleCount (gm_ID model)))) (\<lambda>count.
              if count > 0 then failA (Sentinel PersistenceErrTagReferencedByClassificationRules)
              else upsertTag model)
         else upsertTag model)"

definition StoreListTags :: "string \<Rightarrow> bool \<Rightarrow> (World, Tag list) action" where
  "StoreListTags tenantID includeHidden =
     bindA (wrapA ''list tags''
       (readSQL (\<lambda>t. orderAsc (\<lambda>g. (gm_CreatedAt g, gm_ID g))
          (filter (\<lambda>g. gm_TenantID g = tenantID \<and> (includeHidden \<or> gm_HiddenAt g = None)) (t_tags t)))))
     (\<lambda>models. returnA (map tagFromModel models))"

end
