(* ===== verification/Catalog.thy ===== *)
theory Catalog
  imports CatalogStore
begin

text \<open>
  Accounts, categories and tags (\<^verbatim>\<open>finance/service_catalog.go\<close>) and classification rules
  (\<^verbatim>\<open>finance/service_classification_rule.go\<close>). The account and category checks are those of
  the ledger service. A category or tag that a rule refers to cannot be hidden.
\<close>

section \<open>Parameters\<close>

record CreateAccountParams =
  cap_ActorUserID :: string
  cap_TenantID :: string
  cap_Name :: string
  cap_Currency :: string
  cap_Kind :: AccountKind

record UpdateAccountParams =
  uap_ActorUserID :: string
  uap_TenantID :: string
  uap_AccountID :: string
  uap_Name :: string

record AttachLinkedAccountParams =
  alp_ActorUserID :: string
  alp_TenantID :: string
  alp_AccountID :: string
  alp_Provider :: string
  alp_ProviderAccountID :: string

record ListAccountsParams =
  lap_ActorUserID :: string
  lap_TenantID :: string
  lap_IncludeHidden :: bool

record CreateCategoryParams =
  ccp_ActorUserID :: string
  ccp_TenantID :: string
  ccp_Name :: string
  ccp_Kind :: CategoryKind

record UpdateCategoryParams =
  ucp_ActorUserID :: string
  ucp_TenantID :: string
  ucp_CategoryID :: string
  ucp_Name :: string
  ucp_Kind :: CategoryKind

record HideCategoryParams =
  hcp_ActorUserID :: string
  hcp_TenantID :: string
  hcp_CategoryID :: string

record ListCategoriesParams =
  lcp_ActorUserID :: string
  lcp_TenantID :: string
  lcp_IncludeHidden :: bool

record CreateTagParams =
  ctp_ActorUserID :: string
  ctp_TenantID :: string
  ctp_Name :: string

record UpdateTagParams =
  utp_ActorUserID :: string
  utp_TenantID :: string
  utp_TagID :: string
  utp_Name :: string

record HideTagParams =
  htp_ActorUserID :: string
  htp_TenantID :: string
  htp_TagID :: string

record ListTagsParams =
  ltg_ActorUserID :: string
  ltg_TenantID :: string
  ltg_IncludeHidden :: bool

section \<open>Accounts\<close>

definition requireTenantTag :: "string \<Rightarrow> string \<Rightarrow> string \<Rightarrow> (World, Tag) action" where
  "requireTenantTag tenantID userID tagID =
     bindA (requireTenantMember (TrimSpace tenantID) (TrimSpace userID)) (\<lambda>_.
     bindA (mapErrA (translateError PersistenceErrTagNotFound ErrTagNotFound ''get tag'') (GetTag (TrimSpace tagID))) (\<lambda>tag.
       if tag_TenantID (the tag) \<noteq> TrimSpace tenantID then failA (Sentinel ErrTagNotFound)
       else returnA (the tag)))"

definition CatalogGetAccount :: "AccountRefParams \<Rightarrow> (World, Account) action" where
  "CatalogGetAccount params =
     bindA (requireTenantAccount (arp_TenantID params) (arp_ActorUserID params) (arp_AccountID params)) (\<lambda>account.
     bindA (wrapA ''get account balance aggregate'' (ListAccountBalances
              \<lparr>lab_TenantID = acc_TenantID account, lab_AccountIDs = Some [acc_ID account],
               lab_EffectiveAtOnOrBefore = None, lab_EffectiveAtBefore = None\<rparr>)) (\<lambda>balances.
       returnA (case balances of
           [] \<Rightarrow> account
         | balance # _ \<Rightarrow> account\<lparr>acc_BookedBalanceMinor := ab_BookedBalanceMinor balance,
              acc_PendingBalanceMinor := ab_PendingBalanceMinor balance\<rparr>)))"

definition CreateAccount :: "CreateAccountParams \<Rightarrow> (World, Account) action" where
  "CreateAccount params =
     bindA (requireTenantMember (cap_TenantID params) (cap_ActorUserID params)) (\<lambda>_.
     bindA (liftA readClock) (\<lambda>now.
     bindA (liftA drawID) (\<lambda>i.
       wrapA ''create account'' (SaveAccount
         \<lparr>acc_ID = i, acc_TenantID = TrimSpace (cap_TenantID params), acc_Name = TrimSpace (cap_Name params),
          acc_Currency = ToUpper (TrimSpace (cap_Currency params)), acc_Kind = cap_Kind params,
          acc_BookedBalanceMinor = 0, acc_PendingBalanceMinor = 0, acc_LinkedAccount = None, acc_HiddenAt = None,
          acc_CreatedAt = now, acc_UpdatedAt = now\<rparr>))))"

definition UpdateAccount :: "UpdateAccountParams \<Rightarrow> (World, Account) action" where
  "UpdateAccount params =
     bindA (requireTenantAccount (uap_TenantID params) (uap_ActorUserID params) (uap_AccountID params)) (\<lambda>account.
     bindA (liftA readClock) (\<lambda>now.
       wrapA ''update account''
         (SaveAccount (account\<lparr>acc_Name := TrimSpace (uap_Name params), acc_UpdatedAt := now\<rparr>))))"

definition HideAccount :: "AccountRefParams \<Rightarrow> (World, unit) action" where
  "HideAccount params =
     bindA (requireTenantAccount (arp_TenantID params) (arp_ActorUserID params) (arp_AccountID params)) (\<lambda>account.
     bindA (liftA readClock) (\<lambda>now.
     bindA (wrapA ''hide account'' (SaveAccount (account\<lparr>acc_HiddenAt := Some now, acc_UpdatedAt := now\<rparr>)))
       (\<lambda>_. returnA ())))"

definition UnhideAccount :: "AccountRefParams \<Rightarrow> (World, unit) action" where
  "UnhideAccount params =
     bindA (requireTenantAccount (arp_TenantID params) (arp_ActorUserID params) (arp_AccountID params)) (\<lambda>account.
     bindA (liftA readClock) (\<lambda>now.
     bindA (wrapA ''unhide account'' (SaveAccount (account\<lparr>acc_HiddenAt := None, acc_UpdatedAt := now\<rparr>)))
       (\<lambda>_. returnA ())))"

definition AttachLinkedAccount :: "AttachLinkedAccountParams \<Rightarrow> (World, Account) action" where
  "AttachLinkedAccount params =
     bindA (requireTenantAccount (alp_TenantID params) (alp_ActorUserID params) (alp_AccountID params)) (\<lambda>account.
     bindA (liftA readClock) (\<lambda>now.
       wrapA ''attach linked account'' (SaveAccount (account\<lparr>acc_Kind := AccountKindLinked,
         acc_LinkedAccount := Some \<lparr>la_Provider = TrimSpace (alp_Provider params),
           la_ProviderAccountID = TrimSpace (alp_ProviderAccountID params)\<rparr>, acc_UpdatedAt := now\<rparr>))))"

definition accountIDs :: "Account list \<Rightarrow> string list" where
  "accountIDs items = map acc_ID items"

text \<open>The balances indexed by account: the last one of an account counts, none is zero.\<close>

definition applyAccountBalances :: "Account list \<Rightarrow> AccountBalance list \<Rightarrow> Account list" where
  "applyAccountBalances accounts balances =
     map (\<lambda>account.
       case filter (\<lambda>b. ab_AccountID b = acc_ID account) balances of
         [] \<Rightarrow> account\<lparr>acc_BookedBalanceMinor := 0, acc_PendingBalanceMinor := 0\<rparr>
       | bs \<Rightarrow> account\<lparr>acc_BookedBalanceMinor := ab_BookedBalanceMinor (last bs),
            acc_PendingBalanceMinor := ab_PendingBalanceMinor (last bs)\<rparr>) accounts"

definition CatalogListAccounts :: "ListAccountsParams \<Rightarrow> (World, Account list) action" where
  "CatalogListAccounts params =
     bindA (requireTenantMember (lap_TenantID params) (lap_ActorUserID params)) (\<lambda>_.
     bindA (wrapA ''list accounts'' (ListAccounts (TrimSpace (lap_TenantID params)) (lap_IncludeHidden params))) (\<lambda>accounts.
     bindA (wrapA ''list account balances'' (ListAccountBalances
              \<lparr>lab_TenantID = TrimSpace (lap_TenantID params), lab_AccountIDs = Some (accountIDs accounts),
               lab_EffectiveAtOnOrBefore = None, lab_EffectiveAtBefore = None\<rparr>)) (\<lambda>balances.
       returnA (applyAccountBalances accounts balances))))"

section \<open>Categories\<close>

definition CreateCategory :: "CreateCategoryParams \<Rightarrow> (World, Category) action" where
  "CreateCategory params =
     bindA (requireTenantMember (ccp_TenantID params) (ccp_ActorUserID params)) (\<lambda>_.
     bindA (liftA readClock) (\<lambda>now.
     bindA (liftA drawID) (\<lambda>i.
       wrapA ''create category'' (SaveCategory
         \<lparr>cat_ID = i, cat_TenantID = TrimSpace (ccp_TenantID params), cat_Name = TrimSpace (ccp_Name params),
          cat_Kind = ccp_Kind params, cat_SeededDefault = False, cat_HiddenAt = None,
          cat_CreatedAt = now, cat_UpdatedAt = now\<rparr>))))"

definition UpdateCategory :: "UpdateCategoryParams \<Rightarrow> (World, Category) action" where
  "UpdateCategory params =
     bindA (requireTenantCategory (ucp_TenantID params) (ucp_ActorUserID params) (ucp_CategoryID params)) (\<lambda>category.
     bindA (liftA readClock) (\<lambda>now.
       wrapA ''update category'' (SaveCategory (category\<lparr>cat_Name := TrimSpace (ucp_Name params),
         cat_Kind := ucp_Kind params, cat_UpdatedAt := now\<rparr>))))"

definition HideCategory :: "HideCategoryParams \<Rightarrow> (World, unit) action" where
  "HideCategory params =
     bindA (requireTenantCategory (hcp_TenantID params) (hcp_ActorUserID params) (hcp_CategoryID params)) (\<lambda>category.
     bindA (wrapA ''check category classification rule references''
       (ListClassificationRuleIDsReferencingCategory (cat_TenantID category) (cat_ID category))) (\<lambda>ruleIDs.
       if ruleIDs \<noteq> [] then failA (ReferencedByRules ErrCategoryReferencedByClassificationRules ruleIDs)
       else
         bindA (liftA readClock) (\<lambda>now.
         bindA (wrapA ''hide category'' (SaveCategory (category\<lparr>cat_HiddenAt := Some now, cat_UpdatedAt := now\<rparr>)))
           (\<lambda>_. returnA ()))))"

definition CatalogListCategories :: "ListCategoriesParams \<Rightarrow> (World, Category list) action" where
  "CatalogListCategories params =
     bindA (requireTenantMember (lcp_TenantID params) (lcp_ActorUserID params)) (\<lambda>_.
       wrapA ''list categories'' (StoreListCategories (TrimSpace (lcp_TenantID params)) (lcp_IncludeHidden params)))"

section \<open>Tags\<close>

definition CreateTag :: "CreateTagParams \<Rightarrow> (World, Tag) action" where
  "CreateTag params =
     bindA (requireTenantMember (ctp_TenantID params) (ctp_ActorUserID params)) (\<lambda>_.
     bindA (liftA readClock) (\<lambda>now.
     bindA (liftA drawID) (\<lambda>i.
       wrapA ''create tag'' (SaveTag
         \<lparr>tag_ID = i, tag_TenantID = TrimSpace (ctp_TenantID params), tag_Name = TrimSpace (ctp_Name params),
          tag_HiddenAt = None, tag_CreatedAt = now, tag_UpdatedAt = now\<rparr>))))"

definition UpdateTag :: "UpdateTagParams \<Rightarrow> (World, Tag) action" where
  "UpdateTag params =
     bindA (requireTenantTag (utp_TenantID params) (utp_ActorUserID params) (utp_TagID params)) (\<lambda>tag.
     bindA (liftA readClock) (\<lambda>now.
       wrapA ''update tag'' (SaveTag (tag\<lparr>tag_Name := TrimSpace (utp_Name params), tag_UpdatedAt := now\<rparr>))))"

definition HideTag :: "HideTagParams \<Rightarrow> (World, unit) action" where
  "HideTag params =
     bindA (requireTenantTag (htp_TenantID params) (htp_ActorUserID params) (htp_TagID params)) (\<lambda>tag.
     bindA (wrapA ''check tag classification rule references''
       (ListClassificationRuleIDsReferencingTag (tag_TenantID tag) (tag_ID tag))) (\<lambda>ruleIDs.
       if ruleIDs \<noteq> [] then failA (ReferencedByRules ErrTagReferencedByClassificationRules ruleIDs)
       else
         bindA (liftA readClock) (\<lambda>now.
         bindA (wrapA ''hide tag'' (SaveTag (tag\<lparr>tag_HiddenAt := Some now, tag_UpdatedAt := now\<rparr>)))
           (\<lambda>_. returnA ()))))"

definition CatalogListTags :: "ListTagsParams \<Rightarrow> (World, Tag list) action" where
  "CatalogListTags params =
     bindA (requireTenantMember (ltg_TenantID params) (ltg_ActorUserID params)) (\<lambda>_.
       wrapA ''list tags'' (StoreListTags (TrimSpace (ltg_TenantID params)) (ltg_IncludeHidden params)))"

section \<open>Classification rules\<close>

record ListClassificationRulesParams =
  lrp_ActorUserID :: string
  lrp_TenantID :: string
  lrp_CategoryID :: string

record CreateClassificationRuleParams =
  crp_ActorUserID :: string
  crp_TenantID :: string
  crp_MatchType :: ClassificationMatchType
  crp_Condition :: string
  crp_CategoryID :: string
  crp_TagIDs :: "string list"

record UpdateClassificationRuleParams =
  urp_ActorUserID :: string
  urp_TenantID :: string
  urp_RuleID :: string
  urp_MatchType :: ClassificationMatchType
  urp_Condition :: string
  urp_CategoryID :: string
  urp_TagIDs :: "string list"

record DeleteClassificationRuleParams =
  drp_ActorUserID :: string
  drp_TenantID :: string
  drp_RuleID :: string

datatype ClassificationRuleMoveDirection =
  ClassificationRuleMoveDirectionUp | ClassificationRuleMoveDirectionDown | ClassificationRuleMoveDirectionOther string

record MoveClassificationRuleParams =
  mrp_ActorUserID :: string
  mrp_TenantID :: string
  mrp_RuleID :: string
  mrp_Direction :: ClassificationRuleMoveDirection

fun normalizeRuleTagLoop :: "string list \<Rightarrow> string list \<Rightarrow> string list \<Rightarrow> go_error + string list" where
  "normalizeRuleTagLoop seen result [] = Inr result"
| "normalizeRuleTagLoop seen result (tagID # tagIDs) =
     (let trimmedTagID = TrimSpace tagID
      in if trimmedTagID = '''' then Inl (WrapSuffix (Sentinel ErrInvalidClassificationRule) ''tag ID'')
         else if trimmedTagID \<in> set seen
           then Inl (WrapSuffix (Sentinel ErrInvalidClassificationRule) ''duplicate tag ID'')
         else normalizeRuleTagLoop (trimmedTagID # seen) (result @ [trimmedTagID]) tagIDs)"

definition normalizedClassificationRuleTagIDs :: "string list \<Rightarrow> go_error + string list" where
  "normalizedClassificationRuleTagIDs tagIDs = normalizeRuleTagLoop [] [] tagIDs"

fun requireRuleTags :: "string \<Rightarrow> string list \<Rightarrow> (World, unit) action" where
  "requireRuleTags tenantID [] = returnA ()"
| "requireRuleTags tenantID (tagID # tagIDs) =
     bindA (mapErrA (translateError PersistenceErrTagNotFound ErrTagNotFound ''get classification rule tag'')
              (GetTag tagID)) (\<lambda>tag.
       if tag_TenantID (the tag) \<noteq> TrimSpace tenantID \<or> tag_HiddenAt (the tag) \<noteq> None
       then failA (Sentinel ErrTagNotFound)
       else requireRuleTags tenantID tagIDs)"

definition validateRule ::
  "string \<Rightarrow> ClassificationMatchType \<Rightarrow> string \<Rightarrow> string \<Rightarrow> string list \<Rightarrow>
   (World, string \<times> Category \<times> string list) action" where
  "validateRule tenantID matchType condition categoryID tagIDs =
     bindA (resultA (normalizedClassificationRuleTagIDs tagIDs)) (\<lambda>normalizedTagIDs.
       if matchType \<notin> {ClassificationMatchTypeExact, ClassificationMatchTypeContains}
       then failA (WrapSuffix (Sentinel ErrInvalidClassificationRule) ''match type'')
       else if TrimSpace condition = ''''
         then failA (WrapSuffix (Sentinel ErrInvalidClassificationRule) ''condition'')
       else
         bindA (mapErrA (translateError PersistenceErrCategoryNotFound ErrCategoryNotFound
                  ''get classification rule category'') (GetCategory (TrimSpace categoryID))) (\<lambda>category.
           if cat_TenantID (the category) \<noteq> TrimSpace tenantID \<or> cat_HiddenAt (the category) \<noteq> None
           then failA (Sentinel ErrCategoryNotFound)
           else
             bindA (requireRuleTags tenantID normalizedTagIDs) (\<lambda>_.
               returnA (TrimSpace condition, the category, normalizedTagIDs))))"

definition RuleServiceList :: "ListClassificationRulesParams \<Rightarrow> (World, ClassificationRule list) action" where
  "RuleServiceList params =
     bindA (requireTenantMember (lrp_TenantID params) (lrp_ActorUserID params)) (\<lambda>_.
       wrapA ''list classification rules''
         (ListClassificationRules (TrimSpace (lrp_TenantID params)) (TrimSpace (lrp_CategoryID params))))"

definition RuleServiceCreate :: "CreateClassificationRuleParams \<Rightarrow> (World, ClassificationRule) action" where
  "RuleServiceCreate params =
     bindA (requireTenantMember (crp_TenantID params) (crp_ActorUserID params)) (\<lambda>_.
     bindA (validateRule (crp_TenantID params) (crp_MatchType params) (crp_Condition params) (crp_CategoryID params)
              (crp_TagIDs params)) (\<lambda>(condition, category, tagIDs).
     bindA (liftA readClock) (\<lambda>now.
     bindA (liftA drawID) (\<lambda>i.
       wrapA ''create classification rule'' (AppendClassificationRule
         \<lparr>rule_ID = i, rule_TenantID = TrimSpace (crp_TenantID params), rule_Position = 0,
          rule_MatchType = crp_MatchType params, rule_Condition = condition, rule_CategoryID = cat_ID category,
          rule_TagIDs = tagIDs, rule_CreatedAt = now, rule_UpdatedAt = now\<rparr>)))))"

definition RuleServiceUpdate :: "UpdateClassificationRuleParams \<Rightarrow> (World, unit) action" where
  "RuleServiceUpdate params =
     bindA (requireTenantMember (urp_TenantID params) (urp_ActorUserID params)) (\<lambda>_.
     bindA (validateRule (urp_TenantID params) (urp_MatchType params) (urp_Condition params) (urp_CategoryID params)
              (urp_TagIDs params)) (\<lambda>(condition, category, tagIDs).
     bindA (liftA readClock) (\<lambda>now.
       mapErrA (translateError PersistenceErrClassificationRuleNotFound ErrClassificationRuleNotFound
                  ''update classification rule'')
         (ReplaceClassificationRule
           \<lparr>rule_ID = TrimSpace (urp_RuleID params), rule_TenantID = TrimSpace (urp_TenantID params), rule_Position = 0,
            rule_MatchType = urp_MatchType params, rule_Condition = condition, rule_CategoryID = cat_ID category,
            rule_TagIDs = tagIDs, rule_CreatedAt = zero_time, rule_UpdatedAt = now\<rparr>))))"

definition RuleServiceDelete :: "DeleteClassificationRuleParams \<Rightarrow> (World, unit) action" where
  "RuleServiceDelete params =
     bindA (requireTenantMember (drp_TenantID params) (drp_ActorUserID params)) (\<lambda>_.
       mapErrA (translateError PersistenceErrClassificationRuleNotFound ErrClassificationRuleNotFound
                  ''delete classification rule'')
         (DeleteClassificationRule (TrimSpace (drp_TenantID params)) (TrimSpace (drp_RuleID params))))"

fun classificationRuleMoveDirection :: "ClassificationRuleMoveDirection \<Rightarrow> go_error + int" where
  "classificationRuleMoveDirection ClassificationRuleMoveDirectionUp = Inr (- 1)"
| "classificationRuleMoveDirection ClassificationRuleMoveDirectionDown = Inr 1"
| "classificationRuleMoveDirection (ClassificationRuleMoveDirectionOther _) =
     Inl (WrapSuffix (Sentinel ErrInvalidClassificationRule) ''move direction'')"

definition RuleServiceMove :: "MoveClassificationRuleParams \<Rightarrow> (World, unit) action" where
  "RuleServiceMove params =
     bindA (requireTenantMember (mrp_TenantID params) (mrp_ActorUserID params)) (\<lambda>_.
     bindA (resultA (classificationRuleMoveDirection (mrp_Direction params))) (\<lambda>direction.
     bindA (liftA readClock) (\<lambda>now.
       mapErrA (translateError PersistenceErrClassificationRuleNotFound ErrClassificationRuleNotFound
                  ''move classification rule'')
         (MoveClassificationRule (TrimSpace (mrp_TenantID params)) (TrimSpace (mrp_RuleID params)) direction now))))"

definition ReferencingRuleIDs :: "string \<Rightarrow> string \<Rightarrow> (World, string list) action" where
  "ReferencingRuleIDs tenantID categoryID =
     wrapA ''list classification rule references'' (ListClassificationRuleIDsReferencingCategory tenantID categoryID)"

end
