(* ===== verification/Tenants.thy ===== *)
theory Tenants
  imports CatalogStore
begin

text \<open>
  Tenants, their invites and members: \<^verbatim>\<open>finance/service_tenants.go\<close> and
  \<^verbatim>\<open>finance/service_tenant_contract.go\<close>. Creating a tenant and accepting an invite are
  several writes, each a statement of its own and not in one database transaction.
\<close>

section \<open>Defaults\<close>

definition defaultTenantCategorySeeds :: "(string \<times> CategoryKind) list" where
  "defaultTenantCategorySeeds =
     [(''Paycheck'', CategoryKindIncome),
      (''Bonus'', CategoryKindIncome),
      (''Interest & Dividends'', CategoryKindIncome),
      (''Business Income'', CategoryKindIncome),
      (''Other Income'', CategoryKindIncome),
      (''Housing'', CategoryKindExpense),
      (''Utilities'', CategoryKindExpense),
      (''Groceries'', CategoryKindExpense),
      (''Dining & Coffee'', CategoryKindExpense),
      (''Transportation'', CategoryKindExpense),
      (''Health & Medical'', CategoryKindExpense),
      (''Insurance'', CategoryKindExpense),
      (''Education & Childcare'', CategoryKindExpense),
      (''Pets'', CategoryKindExpense),
      (''Personal Care'', CategoryKindExpense),
      (''Entertainment'', CategoryKindExpense),
      (''Shopping'', CategoryKindExpense),
      (''Home Improvement & Furnishings'', CategoryKindExpense),
      (''Travel & Vacation'', CategoryKindExpense),
      (''Gifts & Donations'', CategoryKindExpense),
      (''Taxes & Fees'', CategoryKindExpense),
      (''Debt Payments'', CategoryKindExpense),
      (''Miscellaneous'', CategoryKindExpense)]"

definition defaultTenantTags :: "string list" where
  "defaultTenantTags = [''Tax'', ''Reimburse'', ''Split'', ''Business'', ''Subscription'', ''Travel'']"

definition supportedTenantDisplayCurrencies :: "string list" where
  "supportedTenantDisplayCurrencies = [''USD'', ''EUR'', ''PLN'', ''UAH'']"

definition normalizeTenantDisplayCurrency :: "string \<Rightarrow> go_error + string" where
  "normalizeTenantDisplayCurrency displayCurrency =
     (let code = ToUpper (TrimSpace displayCurrency)
      in if code = '''' then Inl (Sentinel ErrInvalidTenantDisplayCurrency)
         else if code \<notin> set supportedTenantDisplayCurrencies then Inl (Sentinel ErrInvalidTenantDisplayCurrency)
         else Inr code)"

section \<open>Tenants\<close>

record CreateTenantParams =
  ctn_ActorUserID :: string
  ctn_Name :: string
  ctn_DisplayCurrency :: string
  ctn_SeedDefaults :: bool

record UpdateTenantParams =
  utn_ActorUserID :: string
  utn_TenantID :: string
  utn_Name :: string
  utn_DisplayCurrency :: string

record ArchiveTenantParams =
  atn_ActorUserID :: string
  atn_TenantID :: string

fun seedCategories :: "string \<Rightarrow> time \<Rightarrow> (string \<times> CategoryKind) list \<Rightarrow> (World, unit) action" where
  "seedCategories tenantID now [] = returnA ()"
| "seedCategories tenantID now ((name, kind) # seeds) =
     bindA (liftA drawID) (\<lambda>i.
     bindA (wrapA ''create tenant'' (SaveCategory
       \<lparr>cat_ID = i, cat_TenantID = tenantID, cat_Name = name, cat_Kind = kind, cat_SeededDefault = True,
        cat_HiddenAt = None, cat_CreatedAt = now, cat_UpdatedAt = now\<rparr>)) (\<lambda>_.
       seedCategories tenantID now seeds))"

fun seedTags :: "string \<Rightarrow> time \<Rightarrow> string list \<Rightarrow> (World, unit) action" where
  "seedTags tenantID now [] = returnA ()"
| "seedTags tenantID now (name # names) =
     bindA (liftA drawID) (\<lambda>i.
     bindA (wrapA ''create tenant'' (SaveTag
       \<lparr>tag_ID = i, tag_TenantID = tenantID, tag_Name = name, tag_HiddenAt = None,
        tag_CreatedAt = now, tag_UpdatedAt = now\<rparr>)) (\<lambda>_.
       seedTags tenantID now names))"

definition CreateTenant :: "CreateTenantParams \<Rightarrow> (World, Tenant) action" where
  "CreateTenant params =
     (let tenantName = TrimSpace (ctn_Name params); userID = TrimSpace (ctn_ActorUserID params)
      in bindA (resultA (normalizeTenantDisplayCurrency (ctn_DisplayCurrency params))) (\<lambda>currency.
           if tenantName = '''' \<or> currency = '''' \<or> userID = ''''
           then failA (Errorf ''tenant name, display currency, and actor user id are required'')
           else
             bindA (liftA readClock) (\<lambda>now.
             bindA (liftA drawID) (\<lambda>i.
               let tenant = \<lparr>ten_ID = i, ten_Name = tenantName, ten_DisplayCurrency = currency, ten_ArchivedAt = None,
                     ten_CreatedAt = now, ten_UpdatedAt = now\<rparr>;
                   membership = \<lparr>mem_TenantID = i, mem_UserID = userID, mem_JoinedAt = now, mem_CreatedAt = now\<rparr>
               in bindA (wrapA ''create tenant'' (SaveTenant tenant)) (\<lambda>_.
                  bindA (wrapA ''create tenant'' (SaveTenantMembership membership)) (\<lambda>_.
                    if ctn_SeedDefaults params
                    then bindA (seedCategories i now defaultTenantCategorySeeds) (\<lambda>_.
                         bindA (seedTags i now defaultTenantTags) (\<lambda>_. returnA tenant))
                    else returnA tenant))))))"

definition UpdateTenant :: "UpdateTenantParams \<Rightarrow> (World, Tenant) action" where
  "UpdateTenant params =
     bindA (requireTenantMember (utn_TenantID params) (utn_ActorUserID params)) (\<lambda>_.
       let tenantName = TrimSpace (utn_Name params)
       in if tenantName = '''' then failA (Errorf ''tenant name is required'')
          else
            bindA (resultA (normalizeTenantDisplayCurrency (utn_DisplayCurrency params))) (\<lambda>currency.
            bindA (wrapA ''update tenant'' (GetTenant (TrimSpace (utn_TenantID params)))) (\<lambda>tenant.
            bindA (liftA readClock) (\<lambda>now.
              wrapA ''update tenant'' (SaveTenant (tenant\<lparr>ten_Name := tenantName, ten_DisplayCurrency := currency,
                ten_UpdatedAt := now\<rparr>))))))"

definition ArchiveTenant :: "ArchiveTenantParams \<Rightarrow> (World, Tenant) action" where
  "ArchiveTenant params =
     bindA (requireTenantMember (atn_TenantID params) (atn_ActorUserID params)) (\<lambda>_.
     bindA (wrapA ''archive tenant'' (GetTenant (TrimSpace (atn_TenantID params)))) (\<lambda>tenant.
     bindA (liftA readClock) (\<lambda>now.
       wrapA ''archive tenant'' (SaveTenant (tenant\<lparr>ten_ArchivedAt := Some now, ten_UpdatedAt := now\<rparr>)))))"

definition ListTenantsForUser :: "string \<Rightarrow> (World, TenantMembershipView list) action" where
  "ListTenantsForUser userID = wrapA ''list tenants for user'' (StoreListTenantsForUser (TrimSpace userID))"

section \<open>Invites and members\<close>

record CreateTenantInviteParams =
  cti_ActorUserID :: string
  cti_TenantID :: string
  cti_Recipient :: string

record AcceptTenantInviteParams =
  ati_ActorUserID :: string
  ati_Code :: string

record TenantRefParams =
  tnr_ActorUserID :: string
  tnr_TenantID :: string

definition CreateTenantInvite :: "CreateTenantInviteParams \<Rightarrow> (World, TenantInvite) action" where
  "CreateTenantInvite params =
     bindA (requireTenantMember (cti_TenantID params) (cti_ActorUserID params)) (\<lambda>_.
     bindA (liftA readClock) (\<lambda>now.
     bindA (liftA drawID) (\<lambda>i.
     bindA (liftA drawID) (\<lambda>code.
       wrapA ''create tenant invite'' (SaveTenantInvite
         \<lparr>inv_ID = i, inv_TenantID = TrimSpace (cti_TenantID params), inv_Code = code,
          inv_Recipient = TrimSpace (cti_Recipient params), inv_CreatedByUserID = TrimSpace (cti_ActorUserID params),
          inv_AcceptedByUserID = None, inv_CreatedAt = now, inv_AcceptedAt = None\<rparr>)))))"

definition AcceptTenantInvite :: "AcceptTenantInviteParams \<Rightarrow> (World, TenantMembership) action" where
  "AcceptTenantInvite params =
     bindA (mapErrA (translateError PersistenceErrTenantInviteNotFound ErrInviteNotFound ''accept tenant invite'')
              (GetTenantInviteByCode (TrimSpace (ati_Code params)))) (\<lambda>invite.
       if inv_AcceptedAt invite \<noteq> None then failA (Sentinel ErrInviteAccepted)
       else
         bindA (liftA readClock) (\<lambda>now.
           let membership = \<lparr>mem_TenantID = inv_TenantID invite, mem_UserID = TrimSpace (ati_ActorUserID params),
                 mem_JoinedAt = now, mem_CreatedAt = now\<rparr>
           in bindA (wrapA ''accept tenant invite'' (SaveTenantMembership membership)) (\<lambda>_.
              bindA (wrapA ''accept tenant invite'' (UpdateTenantInvite
                (invite\<lparr>inv_AcceptedByUserID := Some (mem_UserID membership), inv_AcceptedAt := Some now\<rparr>))) (\<lambda>_.
                returnA membership))))"

definition ListTenantMembers :: "TenantRefParams \<Rightarrow> (World, TenantMember list) action" where
  "ListTenantMembers params =
     bindA (requireTenantMember (tnr_TenantID params) (tnr_ActorUserID params)) (\<lambda>_.
       wrapA ''list tenant members'' (StoreListTenantMembers (TrimSpace (tnr_TenantID params))))"

definition ListTenantInvites :: "TenantRefParams \<Rightarrow> (World, TenantInvite list) action" where
  "ListTenantInvites params =
     bindA (requireTenantMember (tnr_TenantID params) (tnr_ActorUserID params)) (\<lambda>_.
       wrapA ''list tenant invites'' (StoreListTenantInvites (TrimSpace (tnr_TenantID params))))"

end
