(* ===== verification/RuleTables.thy ===== *)
theory RuleTables
  imports Catalog Tenants LedgerProperties
begin

text \<open>
  The invariant of a tenant's classification rules, on the tables alone: their positions
  are exactly \<open>1..n\<close>, and the category and the tags they refer to exist in the rules' tenant
  and are not hidden. Then what each statement of the rule store does to it.
\<close>

section \<open>Positions\<close>

definition densePositions :: "classificationRuleModel list \<Rightarrow> bool" where
  "densePositions rows \<longleftrightarrow>
     distinct (map rm_Position rows) \<and> rm_Position ` set rows = {1..int (length rows)}"

lemma densePositions_list:
  "densePositions rows \<longleftrightarrow> distinct (map rm_Position rows) \<and>
     set (map rm_Position rows) = {1..int (length (map rm_Position rows))}"
  by (simp add: densePositions_def)

definition tenantRules :: "string \<Rightarrow> classificationRuleModel list \<Rightarrow> classificationRuleModel list" where
  "tenantRules tenant rows = filter (\<lambda>r. rm_TenantID r = tenant) rows"

definition orderedRules :: "classificationRuleModel list \<Rightarrow> bool" where
  "orderedRules rows \<longleftrightarrow> distinct (map rm_ID rows) \<and> (\<forall>tenant. densePositions (tenantRules tenant rows))"

lemma foldl_max: "foldl max p ps = Max (insert p (set ps))" for p :: int
proof (induction ps arbitrary: p)
  case (Cons q ps)
  then show ?case by (cases "ps = []") (simp_all add: Max_insert max.assoc insert_commute)
qed simp

lemma maximum_dense:
  assumes "densePositions (tenantRules tenant rows)"
  shows "maximumPosition tenant rows = int (length (tenantRules tenant rows))"
proof (cases "map rm_Position (tenantRules tenant rows)")
  case Nil
  then show ?thesis by (simp add: maximumPosition_def tenantRules_def)
next
  case (Cons p ps)
  then have "maximumPosition tenant rows = Max (set (map rm_Position (tenantRules tenant rows)))"
    by (simp add: maximumPosition_def tenantRules_def foldl_max)
  also have "\<dots> = Max {1..int (length (tenantRules tenant rows))}"
    using assms by (simp add: densePositions_def)
  also have "\<dots> = int (length (tenantRules tenant rows))"
    using Cons by (intro Max_eqI) (auto simp: Suc_le_eq)
  finally show ?thesis .
qed

lemma dense_append:
  assumes "densePositions rows" and "rm_Position r = int (length rows) + 1"
  shows "densePositions (rows @ [r])"
  using assms by (auto simp: densePositions_def)

text \<open>The rule at \<open>d\<close> goes, the later ones move up.\<close>

lemma dense_delete:
  assumes "densePositions rows" and "r \<in> set rows" and "distinct rows"
    and "\<And>s. s \<in> set rows \<Longrightarrow> P s \<longleftrightarrow> s \<noteq> r"
  shows "densePositions (map (\<lambda>s. if rm_Position s > rm_Position r then s\<lparr>rm_Position := rm_Position s - 1\<rparr> else s)
    (filter P rows))"
proof -
  let ?d = "rm_Position r" and ?n = "int (length rows)"
  let ?up = "\<lambda>x :: int. if x > ?d then x - 1 else x"
  have pos: "map rm_Position (map (\<lambda>s. if rm_Position s > ?d then s\<lparr>rm_Position := rm_Position s - 1\<rparr> else s) xs)
      = map ?up (map rm_Position xs)" for xs by simp
  have rows: "distinct (map rm_Position rows)" "rm_Position ` set rows = {1..?n}"
    using assms(1) by (simp_all add: densePositions_def)
  have left: "set (filter P rows) = set rows - {r}" using assms(4) by auto
  then have "length (filter P rows) = card (set rows - {r})"
    using assms(3) by (metis distinct_card distinct_filter)
  then have "length (filter P rows) = length rows - 1" "0 < length rows"
    using assms(2,3) distinct_card [OF assms(3)] length_pos_if_in_set [OF assms(2)] by simp_all
  then have n: "int (length (filter P rows)) = ?n - 1" by presburger
  have set': "rm_Position ` set (filter P rows) = {1..?n} - {?d}"
    using rows left assms(2) by (auto simp: distinct_map inj_on_def)
  have d: "1 \<le> ?d" "?d \<le> ?n" using rows(2) assms(2) by auto
  have "distinct (map rm_Position (filter P rows))" using rows(1) by (rule distinct_map_filter)
  moreover have "inj_on ?up ({1..?n} - {?d})" by (auto simp: inj_on_def split: if_splits)
  ultimately have "distinct (map ?up (map rm_Position (filter P rows)))"
    unfolding distinct_map [of ?up "map rm_Position (filter P rows)"] using set' by simp
  moreover have "?up ` ({1..?n} - {?d}) = {1..?n - 1}"
  proof
    show "{1..?n - 1} \<subseteq> ?up ` ({1..?n} - {?d})"
    proof
      fix x assume "x \<in> {1..?n - 1}"
      then show "x \<in> ?up ` ({1..?n} - {?d})"
        by (cases "x < ?d") (auto intro: image_eqI [of _ _ x] image_eqI [of _ _ "x + 1"])
    qed
  qed (use d in auto)
  ultimately show ?thesis
    unfolding densePositions_list pos using set' n by (simp only: set_map length_map simp_thms)
qed

text \<open>Two positions are exchanged.\<close>

definition exchange :: "int \<Rightarrow> int \<Rightarrow> int \<Rightarrow> int" where
  "exchange a b x = (if x = a then b else if x = b then a else x)"

lemma dense_exchange:
  assumes "densePositions rows" and "a \<in> rm_Position ` set rows" and "b \<in> rm_Position ` set rows"
    and "map rm_Position rows' = map (exchange a b) (map rm_Position rows)"
  shows "densePositions rows'"
proof -
  let ?n = "int (length rows)"
  have rows: "distinct (map rm_Position rows)" "rm_Position ` set rows = {1..?n}"
    using assms(1) by (simp_all add: densePositions_def)
  have "length rows' = length rows" using assms(4) by (metis length_map)
  moreover have "distinct (map rm_Position rows')"
    unfolding assms(4) distinct_map [of "exchange a b"] using rows(1) by (auto simp: inj_on_def exchange_def)
  moreover have "rm_Position ` set rows' = exchange a b ` (rm_Position ` set rows)"
    using assms(4) by (metis image_image list.set_map)
  moreover have "exchange a b ` (rm_Position ` set rows) = rm_Position ` set rows"
  proof
    show "exchange a b ` (rm_Position ` set rows) \<subseteq> rm_Position ` set rows"
      using assms(2,3) by (auto simp: exchange_def)
    show "rm_Position ` set rows \<subseteq> exchange a b ` (rm_Position ` set rows)"
    proof
      fix x assume "x \<in> rm_Position ` set rows"
      then show "x \<in> exchange a b ` (rm_Position ` set rows)"
        using assms(2,3) by (intro image_eqI [of _ _ "exchange a b x"]) (auto simp: exchange_def)
    qed
  qed
  ultimately show ?thesis using rows(2) by (simp add: densePositions_def)
qed

section \<open>References\<close>

definition liveCategory :: "string \<Rightarrow> string \<Rightarrow> Tables \<Rightarrow> bool" where
  "liveCategory tenant i t \<longleftrightarrow>
     (\<exists>c \<in> set (t_categories t). cm_ID c = i \<and> cm_TenantID c = tenant \<and> cm_HiddenAt c = None)"

definition liveTag :: "string \<Rightarrow> string \<Rightarrow> Tables \<Rightarrow> bool" where
  "liveTag tenant i t \<longleftrightarrow> (\<exists>g \<in> set (t_tags t). gm_ID g = i \<and> gm_TenantID g = tenant \<and> gm_HiddenAt g = None)"

definition liveReferences :: "Tables \<Rightarrow> bool" where
  "liveReferences t \<longleftrightarrow>
     (\<forall>r \<in> set (t_rules t). liveCategory (rm_TenantID r) (rm_CategoryID r) t) \<and>
     (\<forall>a \<in> set (t_ruleTags t). \<exists>r \<in> set (t_rules t). rm_ID r = rtm_RuleID a \<and> liveTag (rm_TenantID r) (rtm_TagID a) t)"

definition soundRules :: "Tables \<Rightarrow> bool" where
  "soundRules t \<longleftrightarrow> orderedRules (t_rules t) \<and> liveReferences t \<and>
     distinct (map cm_ID (t_categories t)) \<and> distinct (map gm_ID (t_tags t))"

text \<open>The assignments of a rule, replaced.\<close>

definition withRuleTags :: "string \<Rightarrow> string list \<Rightarrow> Tables \<Rightarrow> Tables" where
  "withRuleTags i tagIDs t = t\<lparr>t_ruleTags := filter (\<lambda>a. rtm_RuleID a \<noteq> i) (t_ruleTags t) @
     map (\<lambda>g. \<lparr>rtm_RuleID = i, rtm_TagID = g\<rparr>) tagIDs\<rparr>"

lemma tenantRules_append: "tenantRules tenant (rows @ [r]) =
    (if rm_TenantID r = tenant then tenantRules tenant rows @ [r] else tenantRules tenant rows)"
  by (simp add: tenantRules_def)

lemma sound_append:
  assumes "soundRules t" and "rm_ID r \<notin> rm_ID ` set (t_rules t)"
    and "rm_Position r = maximumPosition (rm_TenantID r) (t_rules t) + 1"
    and "liveCategory (rm_TenantID r) (rm_CategoryID r) t" and "\<forall>g \<in> set tagIDs. liveTag (rm_TenantID r) g t"
  shows "soundRules (withRuleTags (rm_ID r) tagIDs (t\<lparr>t_rules := t_rules t @ [r]\<rparr>))"
proof -
  have dense: "densePositions (tenantRules tenant (t_rules t))" for tenant
    using assms(1) by (simp add: soundRules_def orderedRules_def)
  have "densePositions (tenantRules tenant (t_rules t @ [r]))" for tenant
    using dense [of tenant] assms(3) maximum_dense [OF dense] by (auto simp: tenantRules_append intro!: dense_append)
  moreover have "liveReferences (withRuleTags (rm_ID r) tagIDs (t\<lparr>t_rules := t_rules t @ [r]\<rparr>))"
    using assms(1,4,5) by (auto simp: soundRules_def liveReferences_def withRuleTags_def liveCategory_def liveTag_def)
  ultimately show ?thesis
    using assms(1,2) by (auto simp: soundRules_def orderedRules_def withRuleTags_def)
qed

lemma tenantRules_map:
  "(\<And>r. rm_TenantID (f r) = rm_TenantID r) \<Longrightarrow> tenantRules tenant (map f rows) = map f (tenantRules tenant rows)"
  by (induction rows) (simp_all add: tenantRules_def)

lemma dense_map: "(\<And>r. rm_Position (f r) = rm_Position r) \<Longrightarrow> densePositions (map f rows) = densePositions rows"
  by (simp add: densePositions_def image_image o_def)

lemma sound_replace:
  assumes "soundRules t" and "\<And>r. rm_ID (f r) = rm_ID r \<and> rm_TenantID (f r) = rm_TenantID r \<and> rm_Position (f r) = rm_Position r"
    and "\<And>r. r \<in> set (t_rules t) \<Longrightarrow> liveCategory (rm_TenantID r) (rm_CategoryID (f r)) t"
    and "r0 \<in> set (t_rules t)" and "\<forall>g \<in> set tagIDs. liveTag (rm_TenantID r0) g t"
  shows "soundRules (withRuleTags (rm_ID r0) tagIDs (t\<lparr>t_rules := map f (t_rules t)\<rparr>))"
proof -
  have "map rm_ID (map f rows) = map rm_ID rows" for rows using assms(2) by simp
  then have "orderedRules (map f (t_rules t))"
    using assms(1,2) by (simp add: soundRules_def orderedRules_def tenantRules_map dense_map del: map_map)
  moreover have "liveReferences (withRuleTags (rm_ID r0) tagIDs (t\<lparr>t_rules := map f (t_rules t)\<rparr>))"
    using assms by (fastforce simp: soundRules_def liveReferences_def withRuleTags_def liveCategory_def liveTag_def)
  ultimately show ?thesis using assms(1) by (simp add: soundRules_def withRuleTags_def)
qed

text \<open>A deleted rule.\<close>

definition withoutRule :: "classificationRuleModel \<Rightarrow> Tables \<Rightarrow> Tables" where
  "withoutRule r t = t\<lparr>t_ruleTags := filter (\<lambda>a. rtm_RuleID a \<noteq> rm_ID r) (t_ruleTags t),
     t_rules := map (\<lambda>s. if rm_TenantID s = rm_TenantID r \<and> rm_Position s > rm_Position r
         then s\<lparr>rm_Position := rm_Position s - 1\<rparr> else s)
       (filter (\<lambda>s. rm_ID s \<noteq> rm_ID r) (t_rules t))\<rparr>"

lemma same_rule: "distinct (map rm_ID rows) \<Longrightarrow> r \<in> set rows \<Longrightarrow> s \<in> set rows \<Longrightarrow> rm_ID s = rm_ID r \<Longrightarrow> s = r"
  by (auto simp: distinct_map inj_on_def)

lemma live_kept:
  assumes "liveReferences t" and "t_categories t' = t_categories t" and "t_tags t' = t_tags t"
    and rules: "t_rules t' = map f (filter P (t_rules t))"
    and f: "\<And>x. rm_ID (f x) = rm_ID x \<and> rm_TenantID (f x) = rm_TenantID x \<and> rm_CategoryID (f x) = rm_CategoryID x"
    and tags: "\<And>a. a \<in> set (t_ruleTags t') \<Longrightarrow> a \<in> set (t_ruleTags t) \<and> (\<forall>x. rm_ID x = rtm_RuleID a \<longrightarrow> P x)"
  shows "liveReferences t'"
  unfolding liveReferences_def
proof (intro conjI ballI)
  fix r assume "r \<in> set (t_rules t')"
  then obtain x where "x \<in> set (t_rules t)" "r = f x" using rules by auto
  then show "liveCategory (rm_TenantID r) (rm_CategoryID r) t'"
    using assms(1,2) f [of x] by (auto simp: liveReferences_def liveCategory_def)
next
  fix a assume a: "a \<in> set (t_ruleTags t')"
  then have "a \<in> set (t_ruleTags t)" using tags by blast
  then obtain x where x: "x \<in> set (t_rules t)" "rm_ID x = rtm_RuleID a" "liveTag (rm_TenantID x) (rtm_TagID a) t"
    using assms(1) unfolding liveReferences_def by blast
  then have "f x \<in> set (t_rules t')" using rules tags [OF a] by auto
  moreover have "liveTag (rm_TenantID (f x)) (rtm_TagID a) t'" using x f assms(3) by (simp add: liveTag_def)
  ultimately show "\<exists>r \<in> set (t_rules t'). rm_ID r = rtm_RuleID a \<and> liveTag (rm_TenantID r) (rtm_TagID a) t'"
    using x f by metis
qed

lemma sound_delete:
  assumes "soundRules t" and "r \<in> set (t_rules t)"
  shows "soundRules (withoutRule r t)"
proof -
  let ?rows = "t_rules t" and ?keep = "\<lambda>s. rm_ID s \<noteq> rm_ID r"
  let ?up = "\<lambda>s. if rm_TenantID s = rm_TenantID r \<and> rm_Position s > rm_Position r
    then s\<lparr>rm_Position := rm_Position s - 1\<rparr> else s"
  have ids: "distinct (map rm_ID ?rows)" and dense: "densePositions (tenantRules tenant ?rows)" for tenant
    using assms(1) by (simp_all add: soundRules_def orderedRules_def)
  have split: "tenantRules tenant (map ?up (filter ?keep ?rows)) = map ?up (filter ?keep (tenantRules tenant ?rows))" for tenant
    by (subst tenantRules_map) (auto simp: tenantRules_def conj_commute)
  have "densePositions (tenantRules tenant (map ?up (filter ?keep ?rows)))" for tenant
  proof (cases "tenant = rm_TenantID r")
    case True
    have only: "map ?up (filter ?keep (tenantRules tenant ?rows)) =
        map (\<lambda>s. if rm_Position s > rm_Position r then s\<lparr>rm_Position := rm_Position s - 1\<rparr> else s)
          (filter ?keep (tenantRules tenant ?rows))"
      using True by (auto simp: tenantRules_def)
    have "r \<in> set (tenantRules tenant ?rows)" using assms(2) True by (simp add: tenantRules_def)
    moreover have "distinct (tenantRules tenant ?rows)" using ids by (simp add: tenantRules_def distinct_map)
    moreover have "?keep s \<longleftrightarrow> s \<noteq> r" if "s \<in> set (tenantRules tenant ?rows)" for s
      using that same_rule [OF ids assms(2), of s] by (auto simp: tenantRules_def)
    ultimately show ?thesis unfolding split only by (rule dense_delete [OF dense])
  next
    case False
    have "filter ?keep (tenantRules tenant ?rows) = tenantRules tenant ?rows"
      using False same_rule [OF ids assms(2)] by (intro filter_True) (auto simp: tenantRules_def)
    moreover have "map ?up (tenantRules tenant ?rows) = tenantRules tenant ?rows"
      using False by (intro map_idI) (simp add: tenantRules_def)
    ultimately have "map ?up (filter ?keep (tenantRules tenant ?rows)) = tenantRules tenant ?rows" by simp
    with dense show ?thesis unfolding split by simp
  qed
  moreover have "map rm_ID (map ?up (filter ?keep ?rows)) = map rm_ID (filter ?keep ?rows)" by simp
  then have "distinct (map rm_ID (map ?up (filter ?keep ?rows)))"
    by (simp only: distinct_map_filter [OF ids])
  ultimately have "orderedRules (map ?up (filter ?keep ?rows))"
    unfolding orderedRules_def by blast
  moreover have "liveReferences (withoutRule r t)"
  proof (rule live_kept [where f = ?up and P = ?keep])
    show "liveReferences t" using assms(1) by (simp add: soundRules_def)
  qed (simp_all add: withoutRule_def)
  ultimately show ?thesis using assms(1) by (simp add: soundRules_def withoutRule_def)
qed

text \<open>Two rules of a tenant that exchange their positions.\<close>

definition exchangedRules ::
  "time \<Rightarrow> classificationRuleModel \<Rightarrow> classificationRuleModel \<Rightarrow> classificationRuleModel list \<Rightarrow> classificationRuleModel list" where
  "exchangedRules now r s rows =
     map (\<lambda>x. if rm_ID x = rm_ID s then movedTo (rm_Position r) now x else x)
       (map (\<lambda>x. if rm_ID x = rm_ID r then movedTo (rm_Position s) now x else x) rows)"

lemma sound_exchange:
  assumes "soundRules t" and "r \<in> set (t_rules t)" and "s \<in> set (t_rules t)" and "r \<noteq> s"
    and "rm_TenantID s = rm_TenantID r"
  shows "soundRules (t\<lparr>t_rules := exchangedRules now r s (t_rules t)\<rparr>)"
proof -
  let ?rows = "t_rules t"
  let ?f = "\<lambda>x. if rm_ID x = rm_ID s then movedTo (rm_Position r) now x
    else if rm_ID x = rm_ID r then movedTo (rm_Position s) now x else x"
  have ids: "distinct (map rm_ID ?rows)" and dense: "densePositions (tenantRules tenant ?rows)" for tenant
    using assms(1) by (simp_all add: soundRules_def orderedRules_def)
  have apart: "rm_ID r \<noteq> rm_ID s" using same_rule [OF ids assms(2,3)] assms(4) by auto
  have f: "exchangedRules now r s ?rows = map ?f ?rows"
    using apart by (auto simp: exchangedRules_def movedTo_def)
  have keep: "rm_ID (?f x) = rm_ID x" "rm_TenantID (?f x) = rm_TenantID x" "rm_CategoryID (?f x) = rm_CategoryID x" for x
    by (simp_all add: movedTo_def)
  have "densePositions (map ?f (tenantRules tenant ?rows))" for tenant
  proof (cases "tenant = rm_TenantID r")
    case True
    have distinctP: "distinct (map rm_Position (tenantRules tenant ?rows))"
      using dense by (simp add: densePositions_def)
    have in_t: "r \<in> set (tenantRules tenant ?rows)" "s \<in> set (tenantRules tenant ?rows)"
      using assms True by (simp_all add: tenantRules_def)
    have "rm_Position (?f x) = exchange (rm_Position r) (rm_Position s) (rm_Position x)"
      if x: "x \<in> set (tenantRules tenant ?rows)" for x
    proof -
      have "x \<in> set ?rows" using x by (simp add: tenantRules_def)
      then have "rm_ID x = rm_ID r \<longleftrightarrow> x = r" "rm_ID x = rm_ID s \<longleftrightarrow> x = s"
        using same_rule [OF ids assms(2)] same_rule [OF ids assms(3)] by auto
      moreover have "rm_Position x = rm_Position r \<longleftrightarrow> x = r" "rm_Position x = rm_Position s \<longleftrightarrow> x = s"
        using distinctP x in_t by (auto simp: distinct_map inj_on_def)
      ultimately show ?thesis by (auto simp: exchange_def movedTo_def)
    qed
    then have "map rm_Position (map ?f (tenantRules tenant ?rows)) =
        map (exchange (rm_Position r) (rm_Position s)) (map rm_Position (tenantRules tenant ?rows))"
      by (simp add: o_def)
    then show ?thesis
      by (rule dense_exchange [OF dense imageI [OF in_t(1)] imageI [OF in_t(2)]])
  next
    case False
    then have "map ?f (tenantRules tenant ?rows) = tenantRules tenant ?rows"
      using same_rule [OF ids assms(2)] same_rule [OF ids assms(3)] assms(5)
      by (intro map_idI) (auto simp: tenantRules_def)
    with dense show ?thesis by simp
  qed
  moreover have "map rm_ID (map ?f xs) = map rm_ID xs" for xs using keep(1) by simp
  ultimately have "orderedRules (map ?f ?rows)"
    using ids keep(2) by (simp add: orderedRules_def tenantRules_map del: map_map)
  moreover have "liveReferences (t\<lparr>t_rules := map ?f ?rows\<rparr>)"
  proof (rule live_kept [where f = ?f and P = "\<lambda>_. True"])
    show "liveReferences t" using assms(1) by (simp add: soundRules_def)
  qed (simp_all add: movedTo_def)
  ultimately show ?thesis using assms(1) f by (simp add: soundRules_def)
qed

end
