(* ===== verification/RuleInvariants.thy ===== *)
theory RuleInvariants
  imports RuleTables LedgerSpec
begin

text \<open>
  Every operation on categories, tags, tenants and classification rules keeps the invariant
  of \<^verbatim>\<open>RuleTables\<close>, whatever fails in it. New categories and tags take ids that were not used
  before: the invariant of the world says so of the ids still to be drawn.
\<close>

definition freshCatalog :: "World \<Rightarrow> bool" where
  "freshCatalog w \<longleftrightarrow> inj (w_idSource w) \<and> (\<forall>n \<ge> w_idsDrawn w.
     w_idSource w n \<notin> cm_ID ` set (t_categories (w_tables w)) \<union> gm_ID ` set (t_tags (w_tables w)))"

definition soundCatalog :: "World \<Rightarrow> bool" where
  "soundCatalog w \<longleftrightarrow> soundRules (w_tables w) \<and> freshCatalog w"

section \<open>Rules for actions\<close>

lemma sound_unchanged: "unchanged w w' \<Longrightarrow> soundCatalog w' = soundCatalog w"
  by (simp add: soundCatalog_def freshCatalog_def unchanged_def)

lemma preserves_quiet: "quiet m \<Longrightarrow> preserves soundCatalog m"
  unfolding quiet_def preserves_def using sound_unchanged by blast

lemma preserves_draw: "preserves soundCatalog (liftA drawID)"
  by (auto simp: preserves_def liftA_def drawID_def soundCatalog_def freshCatalog_def)

text \<open>A check first, then an action that may rely on what the check found.\<close>

lemma checked_here:
  assumes "soundCatalog w" and "quiet m"
    and "\<And>a w'. soundCatalog w' \<Longrightarrow> m w = (Inr a, w') \<Longrightarrow> unchanged w w' \<Longrightarrow> soundCatalog (snd (f a w'))"
  shows "soundCatalog (snd (bindA m f w))"
proof -
  obtain r w' where m: "m w = (r, w')" by fastforce
  from quietD [OF assms(2) m] have u: "unchanged w w'" .
  with \<open>soundCatalog w\<close> have "soundCatalog w'" by (simp add: sound_unchanged)
  with assms(3) [OF _ _ u] m show ?thesis by (cases r) (simp_all add: bindA_run)
qed

lemma preserves_checked:
  assumes "quiet m" and "\<And>w a w'. soundCatalog w' \<Longrightarrow> m w = (Inr a, w') \<Longrightarrow> unchanged w w' \<Longrightarrow> soundCatalog (snd (f a w'))"
  shows "preserves soundCatalog (bindA m f)"
  unfolding preserves_def using checked_here [OF _ assms(1)] assms(2) by blast

lemma preservesD_snd: "preserves soundCatalog m \<Longrightarrow> soundCatalog w \<Longrightarrow> soundCatalog (snd (m w))"
  by (simp add: preserves_def)

section \<open>Categories and tags\<close>

definition savableCategory :: "Category \<Rightarrow> World \<Rightarrow> bool" where
  "savableCategory c w \<longleftrightarrow> cat_ID c \<notin> w_idSource w ` {w_idsDrawn w..} \<and>
     (\<forall>old \<in> set (t_categories (w_tables w)). cm_ID old = cat_ID c \<longrightarrow> cm_TenantID old = cat_TenantID c \<and>
       (cat_HiddenAt c = None \<or> (\<forall>r \<in> set (t_rules (w_tables w)). rm_TenantID r = cat_TenantID c \<longrightarrow> rm_CategoryID r \<noteq> cat_ID c)))"

definition savableTag :: "Tag \<Rightarrow> World \<Rightarrow> bool" where
  "savableTag g w \<longleftrightarrow> tag_ID g \<notin> w_idSource w ` {w_idsDrawn w..} \<and>
     (\<forall>old \<in> set (t_tags (w_tables w)). gm_ID old = tag_ID g \<longrightarrow> gm_TenantID old = tag_TenantID g \<and>
       (tag_HiddenAt g = None \<or> (\<forall>a \<in> set (t_ruleTags (w_tables w)). rtm_TagID a \<noteq> tag_ID g)))"

interpretation category_rows: conflict_table cm_ID categoryUpdate
  by unfold_locales (simp add: categoryUpdate_def)

interpretation tag_rows: conflict_table gm_ID tagUpdate
  by unfold_locales (simp add: tagUpdate_def)

interpretation tenant_rows: conflict_table nm_ID tenantUpdate
  by unfold_locales (simp add: tenantUpdate_def)

interpretation membership_rows: conflict_table membershipKey "\<lambda>old new. old"
  by unfold_locales simp

lemma upsert_same_key: "upsertRows key key update row rows = Inr (insertOnConflict key update row rows)"
  by (simp add: upsertRows_def)

lemma live_saved_category:
  assumes "liveCategory tenant i t" and "cm_ID m = i \<Longrightarrow> cm_TenantID m = tenant \<and> cm_HiddenAt m = None"
  shows "liveCategory tenant i (t\<lparr>t_categories := insertOnConflict cm_ID categoryUpdate m (t_categories t)\<rparr>)"
proof -
  obtain c where c: "c \<in> set (t_categories t)" "cm_ID c = i" "cm_TenantID c = tenant" "cm_HiddenAt c = None"
    using assms(1) by (auto simp: liveCategory_def)
  show ?thesis
  proof (cases "cm_ID m = i")
    case True
    with c have "categoryUpdate c m \<in> set (insertOnConflict cm_ID categoryUpdate m (t_categories t))"
      by (force simp: insertOnConflict_def)
    with True assms(2) c show ?thesis
      unfolding liveCategory_def by (auto simp: categoryUpdate_def intro!: bexI [of _ "categoryUpdate c m"])
  next
    case False
    with c have "c \<in> set (insertOnConflict cm_ID categoryUpdate m (t_categories t))"
      by (intro category_rows.insert_keeps_others) auto
    with c show ?thesis unfolding liveCategory_def by auto
  qed
qed

lemma live_saved_tag:
  assumes "liveTag tenant i t" and "gm_ID m = i \<Longrightarrow> gm_TenantID m = tenant \<and> gm_HiddenAt m = None"
  shows "liveTag tenant i (t\<lparr>t_tags := insertOnConflict gm_ID tagUpdate m (t_tags t)\<rparr>)"
proof -
  obtain c where c: "c \<in> set (t_tags t)" "gm_ID c = i" "gm_TenantID c = tenant" "gm_HiddenAt c = None"
    using assms(1) by (auto simp: liveTag_def)
  show ?thesis
  proof (cases "gm_ID m = i")
    case True
    with c have "tagUpdate c m \<in> set (insertOnConflict gm_ID tagUpdate m (t_tags t))"
      by (force simp: insertOnConflict_def)
    with True assms(2) c show ?thesis
      unfolding liveTag_def by (auto simp: tagUpdate_def intro!: bexI [of _ "tagUpdate c m"])
  next
    case False
    with c have "c \<in> set (insertOnConflict gm_ID tagUpdate m (t_tags t))"
      by (intro tag_rows.insert_keeps_others) auto
    with c show ?thesis unfolding liveTag_def by auto
  qed
qed

lemma ids_insert: "key ` set (insertOnConflict key update m rows) \<subseteq> insert (key m) (key ` set rows)"
  if "conflict_table key update"
  using conflict_table.keys_insert [OF that, of m rows] by (auto simp flip: set_map split: if_splits)

lemma fresh_kept:
  assumes "freshCatalog w" and same: "w_idSource w' = w_idSource w" "w_idsDrawn w' = w_idsDrawn w"
    and ids: "cm_ID ` set (t_categories (w_tables w')) \<union> gm_ID ` set (t_tags (w_tables w')) \<subseteq>
      insert i (cm_ID ` set (t_categories (w_tables w)) \<union> gm_ID ` set (t_tags (w_tables w)))"
    and "i \<notin> w_idSource w ` {w_idsDrawn w..}"
  shows "freshCatalog w'"
  unfolding freshCatalog_def same
proof (intro conjI allI impI)
  fix n assume n: "w_idsDrawn w \<le> n"
  then have "w_idSource w n \<noteq> i" using assms(5) by auto
  moreover have "w_idSource w n \<notin> cm_ID ` set (t_categories (w_tables w)) \<union> gm_ID ` set (t_tags (w_tables w))"
    using assms(1) n by (simp add: freshCatalog_def)
  ultimately show "w_idSource w n \<notin> cm_ID ` set (t_categories (w_tables w')) \<union> gm_ID ` set (t_tags (w_tables w'))"
    using ids by blast
qed (use assms(1) in \<open>simp add: freshCatalog_def\<close>)

lemma saved_category_ids [simp]: "cm_ID (newCategoryModel c) = cat_ID c" "cm_TenantID (newCategoryModel c) = cat_TenantID c"
    "cm_HiddenAt (newCategoryModel c) = cat_HiddenAt c"
  by (simp_all add: newCategoryModel_def)

lemma saved_tag_ids [simp]: "gm_ID (newTagModel g) = tag_ID g" "gm_TenantID (newTagModel g) = tag_TenantID g"
    "gm_HiddenAt (newTagModel g) = tag_HiddenAt g"
  by (simp_all add: newTagModel_def)

lemma sound_saved_category:
  assumes "soundCatalog w" and "savableCategory c w"
  shows "soundCatalog (snd (SaveCategory c w))"
proof -
  let ?m = "newCategoryModel c" and ?t = "w_tables w"
  let ?rows = "insertOnConflict cm_ID categoryUpdate ?m (t_categories ?t)"
  let ?t' = "?t\<lparr>t_categories := ?rows\<rparr>"
  have "liveReferences ?t'"
    unfolding liveReferences_def
  proof (intro conjI ballI)
    fix r assume "r \<in> set (t_rules ?t')"
    then have r: "r \<in> set (t_rules ?t)" by simp
    then have live: "liveCategory (rm_TenantID r) (rm_CategoryID r) ?t"
      using assms(1) by (simp add: soundCatalog_def soundRules_def liveReferences_def)
    moreover have "cm_TenantID ?m = rm_TenantID r \<and> cm_HiddenAt ?m = None" if "cm_ID ?m = rm_CategoryID r"
      using live assms(2) r that by (fastforce simp: liveCategory_def savableCategory_def)
    ultimately show "liveCategory (rm_TenantID r) (rm_CategoryID r) ?t'" by (rule live_saved_category)
  next
    fix a assume "a \<in> set (t_ruleTags ?t')"
    then show "\<exists>r \<in> set (t_rules ?t'). rm_ID r = rtm_RuleID a \<and> liveTag (rm_TenantID r) (rtm_TagID a) ?t'"
      using assms(1) by (auto simp: soundCatalog_def soundRules_def liveReferences_def liveTag_def)
  qed
  moreover have "distinct (map cm_ID ?rows)"
    using assms(1) by (intro category_rows.distinct_insert) (simp add: soundCatalog_def soundRules_def)
  ultimately have rules: "soundRules ?t'" using assms(1) by (simp add: soundCatalog_def soundRules_def)
  have ids: "cm_ID ` set ?rows \<subseteq> insert (cat_ID c) (cm_ID ` set (t_categories ?t))"
    using ids_insert [OF category_rows.conflict_table_axioms, of ?m] by simp
  have fresh: "freshCatalog (w\<lparr>w_statement := Suc (w_statement w), w_tables := ?t'\<rparr>)"
  proof (rule fresh_kept [of w _ "cat_ID c"])
    show "freshCatalog w" using assms(1) by (simp add: soundCatalog_def)
    show "cat_ID c \<notin> w_idSource w ` {w_idsDrawn w..}" using assms(2) unfolding savableCategory_def by blast
  qed (use ids in \<open>simp_all, blast\<close>)
  from rules fresh have "soundCatalog (w\<lparr>w_statement := Suc (w_statement w), w_tables := ?t'\<rparr>)"
    by (simp add: soundCatalog_def)
  moreover have "soundCatalog (w\<lparr>w_statement := Suc (w_statement w)\<rparr>)"
    using assms(1) by (rule sound_unchanged [THEN iffD2, rotated]) (simp add: unchanged_def)
  ultimately show ?thesis
    by (simp add: SaveCategory_def Let_def bindA_run mapErrA_run changeSQL_def execSQL_def upsert_same_key
        split: option.splits)
qed

lemma sound_saved_tag:
  assumes "soundCatalog w" and "savableTag g w"
  shows "soundCatalog (snd (SaveTag g w))"
proof -
  let ?m = "newTagModel g" and ?t = "w_tables w"
  let ?rows = "insertOnConflict gm_ID tagUpdate ?m (t_tags ?t)"
  let ?t' = "?t\<lparr>t_tags := ?rows\<rparr>"
  have "liveReferences ?t'"
    unfolding liveReferences_def
  proof (intro conjI ballI)
    fix r assume "r \<in> set (t_rules ?t')"
    then show "liveCategory (rm_TenantID r) (rm_CategoryID r) ?t'"
      using assms(1) by (auto simp: soundCatalog_def soundRules_def liveReferences_def liveCategory_def)
  next
    fix a assume "a \<in> set (t_ruleTags ?t')"
    then have a: "a \<in> set (t_ruleTags ?t)" by simp
    then obtain r where r: "r \<in> set (t_rules ?t)" "rm_ID r = rtm_RuleID a" "liveTag (rm_TenantID r) (rtm_TagID a) ?t"
      using assms(1) unfolding soundCatalog_def soundRules_def liveReferences_def by blast
    moreover have "gm_TenantID ?m = rm_TenantID r \<and> gm_HiddenAt ?m = None" if "gm_ID ?m = rtm_TagID a"
      using r(3) assms(2) a that by (fastforce simp: liveTag_def savableTag_def)
    ultimately have "liveTag (rm_TenantID r) (rtm_TagID a) ?t'" by (intro live_saved_tag) auto
    with r show "\<exists>r \<in> set (t_rules ?t'). rm_ID r = rtm_RuleID a \<and> liveTag (rm_TenantID r) (rtm_TagID a) ?t'" by auto
  qed
  moreover have "distinct (map gm_ID ?rows)"
    using assms(1) by (intro tag_rows.distinct_insert) (simp add: soundCatalog_def soundRules_def)
  ultimately have rules: "soundRules ?t'" using assms(1) by (simp add: soundCatalog_def soundRules_def)
  have ids: "gm_ID ` set ?rows \<subseteq> insert (tag_ID g) (gm_ID ` set (t_tags ?t))"
    using ids_insert [OF tag_rows.conflict_table_axioms, of ?m] by simp
  have fresh: "freshCatalog (w\<lparr>w_statement := n, w_tables := ?t'\<rparr>)" for n
  proof (rule fresh_kept [of w _ "tag_ID g"])
    show "freshCatalog w" using assms(1) by (simp add: soundCatalog_def)
    show "tag_ID g \<notin> w_idSource w ` {w_idsDrawn w..}" using assms(2) unfolding savableTag_def by blast
  qed (use ids in \<open>simp_all, blast\<close>)
  from rules fresh have saved: "soundCatalog (w\<lparr>w_statement := n, w_tables := ?t'\<rparr>)" for n
    by (simp add: soundCatalog_def)
  have same: "soundCatalog (w\<lparr>w_statement := n\<rparr>)" for n
    using assms(1) by (rule sound_unchanged [THEN iffD2, rotated]) (simp add: unchanged_def)
  show ?thesis
    using saved same
    by (auto simp: SaveTag_def upsertTag_def Let_def bindA_run mapErrA_run changeSQL_def readSQL_def execSQL_def
        upsert_same_key split: option.splits)
qed

section \<open>What is saved\<close>

definition unusedID :: "string \<Rightarrow> World \<Rightarrow> bool" where
  "unusedID i w \<longleftrightarrow> i \<notin> w_idSource w ` {w_idsDrawn w..} \<and>
     (\<forall>c \<in> set (t_categories (w_tables w)). cm_ID c \<noteq> i) \<and> (\<forall>g \<in> set (t_tags (w_tables w)). gm_ID g \<noteq> i)"

lemma unused_savable:
  "unusedID (cat_ID c) w \<Longrightarrow> savableCategory c w" "unusedID (tag_ID g) w \<Longrightarrow> savableTag g w"
  unfolding unusedID_def savableCategory_def savableTag_def by blast+

lemma stored_not_drawn:
  assumes "soundCatalog w"
  shows "c \<in> set (t_categories (w_tables w)) \<Longrightarrow> cm_ID c \<notin> w_idSource w ` {w_idsDrawn w..}"
    "g \<in> set (t_tags (w_tables w)) \<Longrightarrow> gm_ID g \<notin> w_idSource w ` {w_idsDrawn w..}"
  using assms unfolding soundCatalog_def freshCatalog_def by force+

text \<open>An id that was drawn is not drawn again and not yet in use.\<close>

lemma preserves_drawn:
  assumes "\<And>i w. soundCatalog w \<Longrightarrow> unusedID i w \<Longrightarrow> soundCatalog (snd (f i w))"
  shows "preserves soundCatalog (bindA (liftA drawID) f)"
  unfolding preserves_def
proof (intro allI impI)
  fix w assume w: "soundCatalog w"
  let ?w = "snd (drawID w)" and ?i = "fst (drawID w)"
  have "soundCatalog ?w" using w preserves_draw by (simp add: preserves_def liftA_run)
  moreover have "unusedID ?i ?w"
    using w stored_not_drawn [OF w]
    by (fastforce simp: unusedID_def soundCatalog_def freshCatalog_def drawID_def dest: injD)
  ultimately show "soundCatalog (snd (bindA (liftA drawID) f w))"
    using assms [of ?w ?i] by (simp add: bindA_run liftA_run)
qed

lemma sound_identities:
  assumes "soundCatalog w"
  shows "c \<in> set (t_categories (w_tables w)) \<Longrightarrow> d \<in> set (t_categories (w_tables w)) \<Longrightarrow> cm_ID d = cm_ID c \<Longrightarrow> d = c"
    "g \<in> set (t_tags (w_tables w)) \<Longrightarrow> h \<in> set (t_tags (w_tables w)) \<Longrightarrow> gm_ID h = gm_ID g \<Longrightarrow> h = g"
  using assms by (auto simp: soundCatalog_def soundRules_def distinct_map inj_on_def)

lemma sound_references:
  assumes "soundCatalog w"
  shows "r \<in> set (t_rules (w_tables w)) \<Longrightarrow> liveCategory (rm_TenantID r) (rm_CategoryID r) (w_tables w)"
    "a \<in> set (t_ruleTags (w_tables w)) \<Longrightarrow> \<exists>r \<in> set (t_rules (w_tables w)). rm_ID r = rtm_RuleID a \<and>
       liveTag (rm_TenantID r) (rtm_TagID a) (w_tables w)"
  using assms unfolding soundCatalog_def soundRules_def liveReferences_def by blast+

lemma stored_savable:
  assumes "soundCatalog w" and row: "row \<in> set (t_categories (w_tables w))"
    and c: "cat_ID c = cm_ID row" "cat_TenantID c = cm_TenantID row"
    and hidden: "cat_HiddenAt c = cm_HiddenAt row \<or>
      (\<forall>r \<in> set (t_rules (w_tables w)). rm_TenantID r = cm_TenantID row \<longrightarrow> rm_CategoryID r \<noteq> cm_ID row)"
  shows "savableCategory c w"
proof -
  have "cm_HiddenAt row = None" if r: "r \<in> set (t_rules (w_tables w))" "rm_CategoryID r = cm_ID row" for r
    using sound_references(1) [OF assms(1) r(1)] sound_identities(1) [OF assms(1) row] r(2)
    unfolding liveCategory_def by metis
  moreover have "old = row" if "old \<in> set (t_categories (w_tables w))" "cm_ID old = cm_ID row" for old
    using that by (rule sound_identities(1) [OF assms(1) row])
  ultimately show ?thesis
    using hidden stored_not_drawn(1) [OF assms(1) row] unfolding savableCategory_def c by metis
qed

lemma stored_tag_savable:
  assumes "soundCatalog w" and row: "row \<in> set (t_tags (w_tables w))"
    and c: "tag_ID g = gm_ID row" "tag_TenantID g = gm_TenantID row"
    and hidden: "tag_HiddenAt g = gm_HiddenAt row \<or>
      (\<forall>a \<in> set (t_ruleTags (w_tables w)). rtm_TagID a = gm_ID row \<longrightarrow>
        (\<forall>r \<in> set (t_rules (w_tables w)). rm_ID r = rtm_RuleID a \<longrightarrow> rm_TenantID r \<noteq> gm_TenantID row))"
  shows "savableTag g w"
proof -
  have live: "\<exists>r \<in> set (t_rules (w_tables w)). rm_ID r = rtm_RuleID a \<and> rm_TenantID r = gm_TenantID row \<and> gm_HiddenAt row = None"
    if a: "a \<in> set (t_ruleTags (w_tables w))" "rtm_TagID a = gm_ID row" for a
    using sound_references(2) [OF assms(1) a(1)] sound_identities(2) [OF assms(1) row] a(2)
    unfolding liveTag_def by metis
  have "tag_HiddenAt g = None" if "a \<in> set (t_ruleTags (w_tables w))" "rtm_TagID a = gm_ID row" for a
    using live [OF that] hidden that by metis
  moreover have "old = row" if "old \<in> set (t_tags (w_tables w))" "gm_ID old = gm_ID row" for old
    using that by (rule sound_identities(2) [OF assms(1) row])
  ultimately show ?thesis
    using stored_not_drawn(2) [OF assms(1) row] unfolding savableTag_def c by metis
qed

lemma requireTenantCategory_ok:
  assumes "requireTenantCategory ten user i w = (Inr c, w')"
  obtains row where "row \<in> set (t_categories (w_tables w))" "c = categoryFromModel row"
    "TrimSpace (cm_ID row) = cm_ID row" "TrimSpace (cm_TenantID row) = cm_TenantID row"
  using assms that
  by (auto simp: requireTenantCategory_def GetCategory_def bindA_Inr categoryFromModel_def
      dest!: requireTenantMember_ok lookupRow_Some simp del: lookupRow_None split: option.splits if_splits)

lemma requireTenantTag_ok:
  assumes "requireTenantTag ten user i w = (Inr g, w')"
  obtains row where "row \<in> set (t_tags (w_tables w))" "g = tagFromModel row"
    "TrimSpace (gm_ID row) = gm_ID row" "TrimSpace (gm_TenantID row) = gm_TenantID row"
  using assms that
  by (auto simp: requireTenantTag_def GetTag_def bindA_Inr tagFromModel_def
      dest!: requireTenantMember_ok lookupRow_Some simp del: lookupRow_None split: option.splits if_splits)

section \<open>The catalog's operations\<close>

named_theorems keeps_catalog "preserves soundCatalog"

lemmas preserves_simple [keeps_catalog] = preserves_return preserves_fail preserves_result

lemma quiet_catalog_checks [quiet_rules]:
  "quiet (requireTenantTag a b i)" "quiet (ListClassificationRuleIDsReferencingCategory a i)"
  "quiet (ListClassificationRuleIDsReferencingTag a i)"
  unfolding requireTenantTag_def ListClassificationRuleIDsReferencingCategory_def
    ListClassificationRuleIDsReferencingTag_def
  by (intro quiet_rules)+

lemma sound_mapErr_return: "soundCatalog (snd (m w)) \<Longrightarrow> soundCatalog (snd (bindA (mapErrA g m) (\<lambda>_. returnA ()) w))"
  by (cases "m w"; cases "fst (m w)") (auto simp: bindA_run mapErrA_run)

lemma after_clock:
  assumes "soundCatalog w" and "\<And>now v. soundCatalog v \<Longrightarrow> unchanged w v \<Longrightarrow> soundCatalog (snd (f now v))"
  shows "soundCatalog (snd (bindA (liftA readClock) f w))"
proof -
  have "unchanged w (snd (readClock w))" by (simp add: unchanged_def readClock_def)
  with assms sound_unchanged [OF this] show ?thesis by (simp add: bindA_run liftA_run)
qed

lemma keeps_UpdateCategory [keeps_catalog]: "preserves soundCatalog (UpdateCategory params)"
  unfolding UpdateCategory_def
proof (rule preserves_checked, intro quiet_rules)
  fix w c v
  assume v: "soundCatalog v" and ok: "requireTenantCategory (ucp_TenantID params) (ucp_ActorUserID params)
    (ucp_CategoryID params) w = (Inr c, v)" and u: "unchanged w v"
  from ok obtain row where row: "row \<in> set (t_categories (w_tables v))" "c = categoryFromModel row"
    using u by (auto simp: unchanged_def elim!: requireTenantCategory_ok)
  show "soundCatalog (snd (bindA (liftA readClock) (\<lambda>now. wrapA ''update category''
    (SaveCategory (c\<lparr>cat_Name := TrimSpace (ucp_Name params), cat_Kind := ucp_Kind params, cat_UpdatedAt := now\<rparr>))) v))"
    using v
  proof (rule after_clock)
    fix now x assume "soundCatalog x" "unchanged v x"
    then show "soundCatalog (snd (wrapA ''update category'' (SaveCategory (c\<lparr>cat_Name := TrimSpace (ucp_Name params),
        cat_Kind := ucp_Kind params, cat_UpdatedAt := now\<rparr>)) x))"
      using row stored_savable [of x row] by (simp add: sound_saved_category unchanged_def categoryFromModel_def)
  qed
qed

lemma keeps_UpdateTag [keeps_catalog]: "preserves soundCatalog (UpdateTag params)"
  unfolding UpdateTag_def
proof (rule preserves_checked, intro quiet_rules)
  fix w g v
  assume v: "soundCatalog v" and ok: "requireTenantTag (utp_TenantID params) (utp_ActorUserID params)
    (utp_TagID params) w = (Inr g, v)" and u: "unchanged w v"
  from ok obtain row where row: "row \<in> set (t_tags (w_tables v))" "g = tagFromModel row"
    using u by (auto simp: unchanged_def elim!: requireTenantTag_ok)
  show "soundCatalog (snd (bindA (liftA readClock) (\<lambda>now. wrapA ''update tag''
    (SaveTag (g\<lparr>tag_Name := TrimSpace (utp_Name params), tag_UpdatedAt := now\<rparr>))) v))"
    using v
  proof (rule after_clock)
    fix now x assume "soundCatalog x" "unchanged v x"
    then show "soundCatalog (snd (wrapA ''update tag''
        (SaveTag (g\<lparr>tag_Name := TrimSpace (utp_Name params), tag_UpdatedAt := now\<rparr>)) x))"
      using row stored_tag_savable [of x row] by (simp add: sound_saved_tag unchanged_def tagFromModel_def)
  qed
qed

lemma keeps_HideCategory [keeps_catalog]: "preserves soundCatalog (HideCategory params)"
  unfolding HideCategory_def
proof (rule preserves_checked, intro quiet_rules)
  fix w c v
  assume v: "soundCatalog v" and ok: "requireTenantCategory (hcp_TenantID params) (hcp_ActorUserID params)
    (hcp_CategoryID params) w = (Inr c, v)" and u: "unchanged w v"
  from ok obtain row where row: "row \<in> set (t_categories (w_tables v))" "c = categoryFromModel row"
    "TrimSpace (cm_ID row) = cm_ID row" "TrimSpace (cm_TenantID row) = cm_TenantID row"
    using u by (auto simp: unchanged_def elim!: requireTenantCategory_ok)
  show "soundCatalog (snd (bindA (wrapA ''check category classification rule references''
       (ListClassificationRuleIDsReferencingCategory (cat_TenantID c) (cat_ID c))) (\<lambda>ruleIDs.
     if ruleIDs \<noteq> [] then failA (ReferencedByRules ErrCategoryReferencedByClassificationRules ruleIDs)
     else bindA (liftA readClock) (\<lambda>now. bindA (wrapA ''hide category''
       (SaveCategory (c\<lparr>cat_HiddenAt := Some now, cat_UpdatedAt := now\<rparr>))) (\<lambda>_. returnA ()))) v))"
    using v
  proof (rule checked_here, intro quiet_rules, goal_cases)
    case (1 ruleIDs x)
    show ?case
    proof (cases "ruleIDs = []")
      case True
      then have none: "\<forall>r \<in> set (t_rules (w_tables x)). rm_TenantID r = cm_TenantID row \<longrightarrow> rm_CategoryID r \<noteq> cm_ID row"
        using 1 row(2-4) by (auto simp: ListClassificationRuleIDsReferencingCategory_def categoryFromModel_def
            orderAsc_def filter_empty_conv simp flip: set_empty)
      have "soundCatalog (snd (bindA (liftA readClock) (\<lambda>now. bindA (wrapA ''hide category''
          (SaveCategory (c\<lparr>cat_HiddenAt := Some now, cat_UpdatedAt := now\<rparr>))) (\<lambda>_. returnA ())) x))"
        using 1(1)
      proof (rule after_clock)
        fix now y assume y: "soundCatalog y" "unchanged x y"
        then have "savableCategory (c\<lparr>cat_HiddenAt := Some now, cat_UpdatedAt := now\<rparr>) y"
          using row(1,2) 1(3) none by (intro stored_savable [of y row]) (auto simp: unchanged_def categoryFromModel_def)
        with y show "soundCatalog (snd (bindA (wrapA ''hide category''
            (SaveCategory (c\<lparr>cat_HiddenAt := Some now, cat_UpdatedAt := now\<rparr>))) (\<lambda>_. returnA ()) y))"
          by (intro sound_mapErr_return sound_saved_category)
      qed
      with True show ?thesis by simp
    qed (use 1(1) in simp)
  qed
qed

lemma no_references:
  assumes "tagReferences tenant i t = []" and "TrimSpace i = i" and "TrimSpace tenant = tenant"
  shows "\<forall>a \<in> set (t_ruleTags t). rtm_TagID a = i \<longrightarrow>
    (\<forall>r \<in> set (t_rules t). rm_ID r = rtm_RuleID a \<longrightarrow> rm_TenantID r \<noteq> tenant)"
  using assms by (auto simp: tagReferences_def filter_empty_conv)

lemma keeps_HideTag [keeps_catalog]: "preserves soundCatalog (HideTag params)"
  unfolding HideTag_def
proof (rule preserves_checked, intro quiet_rules)
  fix w g v
  assume v: "soundCatalog v" and ok: "requireTenantTag (htp_TenantID params) (htp_ActorUserID params)
    (htp_TagID params) w = (Inr g, v)" and u: "unchanged w v"
  from ok obtain row where row: "row \<in> set (t_tags (w_tables v))" "g = tagFromModel row"
    "TrimSpace (gm_ID row) = gm_ID row" "TrimSpace (gm_TenantID row) = gm_TenantID row"
    using u by (auto simp: unchanged_def elim!: requireTenantTag_ok)
  show "soundCatalog (snd (bindA (wrapA ''check tag classification rule references''
       (ListClassificationRuleIDsReferencingTag (tag_TenantID g) (tag_ID g))) (\<lambda>ruleIDs.
     if ruleIDs \<noteq> [] then failA (ReferencedByRules ErrTagReferencedByClassificationRules ruleIDs)
     else bindA (liftA readClock) (\<lambda>now. bindA (wrapA ''hide tag''
       (SaveTag (g\<lparr>tag_HiddenAt := Some now, tag_UpdatedAt := now\<rparr>))) (\<lambda>_. returnA ()))) v))"
    using v
  proof (rule checked_here, intro quiet_rules, goal_cases)
    case (1 ruleIDs x)
    show ?case
    proof (cases "ruleIDs = []")
      case True
      then have "tagReferences (gm_TenantID row) (gm_ID row) (w_tables x) = []"
        using 1 row(2-4) by (auto simp: ListClassificationRuleIDsReferencingTag_def tagFromModel_def
            orderAsc_def simp flip: set_empty)
      note none = no_references [OF this row(3,4)]
      have "soundCatalog (snd (bindA (liftA readClock) (\<lambda>now. bindA (wrapA ''hide tag''
          (SaveTag (g\<lparr>tag_HiddenAt := Some now, tag_UpdatedAt := now\<rparr>))) (\<lambda>_. returnA ())) x))"
        using 1(1)
      proof (rule after_clock)
        fix now y assume y: "soundCatalog y" "unchanged x y"
        then have "savableTag (g\<lparr>tag_HiddenAt := Some now, tag_UpdatedAt := now\<rparr>) y"
          using row(1,2) 1(3) none by (intro stored_tag_savable [of y row]) (auto simp: unchanged_def tagFromModel_def)
        with y show "soundCatalog (snd (bindA (wrapA ''hide tag''
            (SaveTag (g\<lparr>tag_HiddenAt := Some now, tag_UpdatedAt := now\<rparr>))) (\<lambda>_. returnA ()) y))"
          by (intro sound_mapErr_return sound_saved_tag)
      qed
      with True show ?thesis by simp
    qed (use 1(1) in simp)
  qed
qed

section \<open>New categories and tags\<close>

lemma preserves_mapErrA [keeps_catalog]: "preserves soundCatalog m \<Longrightarrow> preserves soundCatalog (mapErrA g m)"
  by (rule preserves_mapErr)

lemma keeps_bind [keeps_catalog]:
  "preserves soundCatalog m \<Longrightarrow> (\<And>a. preserves soundCatalog (f a)) \<Longrightarrow> preserves soundCatalog (bindA m f)"
  by (rule preserves_bind)

lemma keeps_reads [keeps_catalog]:
  "preserves soundCatalog (requireTenantMember a b)" "preserves soundCatalog (requireTenantAccount a b i)"
  "preserves soundCatalog (liftA readClock)" "preserves soundCatalog (liftA drawID)"
  "preserves soundCatalog (readSQL q)"
  by (rule preserves_quiet preserves_draw, (rule quiet_rules)?)+

lemma keeps_CreateCategory [keeps_catalog]: "preserves soundCatalog (CreateCategory params)"
  unfolding CreateCategory_def
  by (intro keeps_bind keeps_reads preserves_drawn) (simp add: sound_saved_category unused_savable)

lemma keeps_CreateTag [keeps_catalog]: "preserves soundCatalog (CreateTag params)"
  unfolding CreateTag_def
  by (intro keeps_bind keeps_reads preserves_drawn) (simp add: sound_saved_tag unused_savable)

lemma sound_then:
  assumes "soundCatalog (snd (m w))" and "\<And>a. preserves soundCatalog (f a)"
  shows "soundCatalog (snd (bindA (mapErrA g m) f w))"
proof -
  obtain r v where "m w = (r, v)" by fastforce
  with assms show ?thesis by (cases r) (simp_all add: bindA_run mapErrA_run preserves_def)
qed

lemma keeps_seedCategories [keeps_catalog]: "preserves soundCatalog (seedCategories tenantID now seeds)"
proof (induction seeds)
  case (Cons seed seeds)
  obtain name kind where "seed = (name, kind)" by fastforce
  with Cons.IH show ?case
    by (auto intro!: preserves_drawn sound_then sound_saved_category unused_savable)
qed (simp add: preserves_return del: returnA_run)

lemma keeps_seedTags [keeps_catalog]: "preserves soundCatalog (seedTags tenantID now names)"
proof (induction names)
  case (Cons name names)
  then show ?case by (auto intro!: preserves_drawn sound_then sound_saved_tag unused_savable)
qed (simp add: preserves_return del: returnA_run)

section \<open>Operations on other tables\<close>

lemma soundRules_same:
  "t_rules t' = t_rules t \<Longrightarrow> t_ruleTags t' = t_ruleTags t \<Longrightarrow> t_categories t' = t_categories t \<Longrightarrow> t_tags t' = t_tags t \<Longrightarrow>
   soundRules t' = soundRules t"
  by (simp add: soundRules_def liveReferences_def liveCategory_def liveTag_def)

lemma keeps_other_tables:
  assumes "\<And>t t'. f t = Inr t' \<Longrightarrow> t_rules t' = t_rules t \<and> t_ruleTags t' = t_ruleTags t \<and>
    t_categories t' = t_categories t \<and> t_tags t' = t_tags t"
  shows "preserves soundCatalog (changeSQL f)"
proof -
  have "soundCatalog (w\<lparr>w_statement := n, w_tables := t'\<rparr>) = soundCatalog w" if "f (w_tables w) = Inr t'" for w t' and n
    using assms [OF that] soundRules_same [of t' "w_tables w"] by (simp add: soundCatalog_def freshCatalog_def)
  moreover have "soundCatalog (w\<lparr>w_statement := n\<rparr>) = soundCatalog w" for w n
    by (rule sound_unchanged) (simp add: unchanged_def)
  ultimately show ?thesis
    by (auto simp: preserves_def changeSQL_def execSQL_def split: option.splits sum.splits)
qed

lemma map_sum_Inr': "map_sum (\<lambda>e. e) g r = Inr t' \<longleftrightarrow> (\<exists>rows. r = Inr rows \<and> t' = g rows)"
  by (cases r) auto

lemma keeps_stores [keeps_catalog]:
  "preserves soundCatalog (SaveTenant tenant)" "preserves soundCatalog (SaveTenantMembership membership)"
  "preserves soundCatalog (SaveTenantInvite invite)" "preserves soundCatalog (UpdateTenantInvite invite)"
  "preserves soundCatalog (SaveAccount account)"
  unfolding SaveTenant_def SaveTenantMembership_def SaveTenantInvite_def UpdateTenantInvite_def SaveAccount_def Let_def
  by (intro keeps_catalog keeps_other_tables; auto simp: map_sum_Inr' split: if_splits)+

lemma keeps_tenant_reads [keeps_catalog]:
  "preserves soundCatalog (GetTenant i)" "preserves soundCatalog (GetTenantInviteByCode code)"
  unfolding GetTenant_def GetTenantInviteByCode_def by (intro preserves_quiet quiet_rules)+

lemma keeps_tenants [keeps_catalog]:
  "preserves soundCatalog (CreateTenant p1)" "preserves soundCatalog (UpdateTenant p2)"
  "preserves soundCatalog (ArchiveTenant p3)" "preserves soundCatalog (CreateTenantInvite p4)"
  "preserves soundCatalog (AcceptTenantInvite p5)"
  unfolding CreateTenant_def UpdateTenant_def ArchiveTenant_def CreateTenantInvite_def AcceptTenantInvite_def Let_def
  by (intro keeps_catalog preserves_if)+

lemma keeps_accounts [keeps_catalog]:
  "preserves soundCatalog (CreateAccount p1)" "preserves soundCatalog (UpdateAccount p2)"
  "preserves soundCatalog (HideAccount p3)" "preserves soundCatalog (UnhideAccount p3)"
  "preserves soundCatalog (AttachLinkedAccount p4)"
  unfolding CreateAccount_def UpdateAccount_def HideAccount_def UnhideAccount_def AttachLinkedAccount_def
  by (intro keeps_catalog)+

section \<open>Rules\<close>

lemma sound_by_tables:
  assumes "soundCatalog w" and "sameSource m"
    and "m w = (r, w')" and "w_tables w' = w_tables w \<or> soundRules (w_tables w') \<and>
      t_categories (w_tables w') = t_categories (w_tables w) \<and> t_tags (w_tables w') = t_tags (w_tables w)"
  shows "soundCatalog w'"
  using assms(1,4) sameSourceD [OF assms(2,3)] by (auto simp: soundCatalog_def freshCatalog_def)

lemma source_rule_store [source_rules]:
  "sameSource (replaceClassificationRuleTags i tagIDs)" "sameSource (updateRules sel change)"
  "sameSource (AppendClassificationRule rule)" "sameSource (ReplaceClassificationRule rule)"
  "sameSource (DeleteClassificationRule ten i)" "sameSource (MoveClassificationRule ten i direction now)"
  unfolding replaceClassificationRuleTags_def updateRules_def AppendClassificationRule_def ReplaceClassificationRule_def
    DeleteClassificationRule_def MoveClassificationRule_def createRule_def deleteRuleRow_def findRule_def
    clearRuleTags_def createRuleTags_def Let_def
  by (intro source_rules)+

lemma replaceTags_ok:
  "replaceClassificationRuleTags i tagIDs w = (Inr u, w') \<Longrightarrow> w_tables w' = withRuleTags i tagIDs (w_tables w)"
  by (auto simp: replaceClassificationRuleTags_def clearRuleTags_def createRuleTags_def withRuleTags_def bindA_Inr
      split: if_splits)

lemma transaction_body:
  assumes "transactionSQL body w = (Inr a, w')"
  obtains v u where "body v = (Inr a, u)" "w_tables v = w_tables w" "w_tables w' = w_tables u"
  using transactionSQL_ok [OF assms] by (metis World.select_convs(1) World.surjective World.update_convs(2,3))

lemma Append_ok:
  assumes "AppendClassificationRule rule w = (Inr saved, w')"
  defines "model \<equiv> newClassificationRuleModel (rule\<lparr>rule_Position :=
    maximumPosition (rule_TenantID rule) (t_rules (w_tables w)) + 1\<rparr>)"
  shows "rm_ID model \<notin> rm_ID ` set (t_rules (w_tables w)) \<and>
    w_tables w' = withRuleTags (rm_ID model) (rule_TagIDs rule) ((w_tables w)\<lparr>t_rules := t_rules (w_tables w) @ [model]\<rparr>)"
proof -
  from assms(1) obtain v u where "bindA (wrapA ''read classification rule position''
      (readSQL (\<lambda>t. maximumPosition (rule_TenantID rule) (t_rules t)))) (\<lambda>maximum.
        let model = newClassificationRuleModel (rule\<lparr>rule_Position := maximum + 1\<rparr>)
        in bindA (wrapA ''append classification rule'' (createRule model)) (\<lambda>_.
           bindA (replaceClassificationRuleTags (rm_ID model) (rule_TagIDs rule)) (\<lambda>_.
             returnA ((classificationRuleFromModel model)\<lparr>rule_TagIDs := rule_TagIDs rule\<rparr>)))) v = (Inr saved, u)"
    "w_tables v = w_tables w" "w_tables w' = w_tables u"
    unfolding AppendClassificationRule_def mapErrA_Inr by (rule transaction_body)
  then show ?thesis
    by (auto simp: bindA_Inr Let_def createRule_def insertRows_def model_def dest!: replaceTags_ok
        split: sum.splits if_splits)
qed

lemma updateRules_ok:
  "updateRules sel change w = (Inr n, w') \<longleftrightarrow>
   w_fault w (w_statement w) = None \<and> n = length (filter sel (t_rules (w_tables w))) \<and>
   w' = w\<lparr>w_statement := Suc (w_statement w), w_tables := (w_tables w)\<lparr>t_rules :=
     map (\<lambda>r. if sel r then change r else r) (t_rules (w_tables w))\<rparr>\<rparr>"
  by (auto simp: updateRules_def execSQL_def split: option.splits)

lemma Replace_ok:
  assumes "ReplaceClassificationRule rule w = (Inr (), w')"
  defines "sel \<equiv> \<lambda>r. rm_TenantID r = TrimSpace (rule_TenantID rule) \<and> rm_ID r = TrimSpace (rule_ID rule)"
  shows "\<exists>r \<in> set (t_rules (w_tables w)). sel r"
    "w_tables w' = withRuleTags (rule_ID rule) (rule_TagIDs rule)
       ((w_tables w)\<lparr>t_rules := map (\<lambda>r. if sel r then replacedRule rule r else r) (t_rules (w_tables w))\<rparr>)"
proof -
  from assms(1) obtain v u where "bindA (wrapA ''replace classification rule''
          (updateRules sel (replacedRule rule))) (\<lambda>affected.
        if affected = 0 then failA (Sentinel PersistenceErrClassificationRuleNotFound)
        else replaceClassificationRuleTags (rule_ID rule) (rule_TagIDs rule)) v = (Inr (), u)"
    "w_tables v = w_tables w" "w_tables w' = w_tables u"
    unfolding ReplaceClassificationRule_def sel_def by (rule transaction_body)
  then have "(\<exists>r \<in> set (t_rules (w_tables w)). sel r) \<and>
    w_tables w' = withRuleTags (rule_ID rule) (rule_TagIDs rule)
       ((w_tables w)\<lparr>t_rules := map (\<lambda>r. if sel r then replacedRule rule r else r) (t_rules (w_tables w))\<rparr>)"
    by (auto simp: bindA_Inr updateRules_ok filter_empty_conv dest!: replaceTags_ok split: if_splits)
  then show "\<exists>r \<in> set (t_rules (w_tables w)). sel r"
    "w_tables w' = withRuleTags (rule_ID rule) (rule_TagIDs rule)
       ((w_tables w)\<lparr>t_rules := map (\<lambda>r. if sel r then replacedRule rule r else r) (t_rules (w_tables w))\<rparr>)"
    by blast+
qed

lemma firstRow_sorted: "firstRow (orderAsc key rows) = Some r \<Longrightarrow> r \<in> set rows"
    "firstRow (orderDesc key' rows') = Some r' \<Longrightarrow> r' \<in> set rows'"
  by (auto simp: orderAsc_def orderDesc_def dest!: firstRow_Some)

lemma findRule_ok:
  assumes "findRule msg tenantID ruleID w = (Inr r, w')"
  shows "r \<in> set (t_rules (w_tables w)) \<and> w_tables w' = w_tables w"
  using assms
  by (auto simp: findRule_def bindA_Inr split: option.splits dest!: firstRow_sorted)

lemma Delete_ok:
  assumes "DeleteClassificationRule tenantID ruleID w = (Inr u, w')"
  shows "\<exists>r \<in> set (t_rules (w_tables w)). w_tables w' = withoutRule r (w_tables w)"
  using assms unfolding DeleteClassificationRule_def
  by (elim transaction_body) (fastforce simp: bindA_Inr clearRuleTags_def deleteRuleRow_def updateRules_ok withoutRule_def
      dest!: findRule_ok)

lemma adjacent_ok:
  assumes "adjacentRule current direction rows = Some r"
  shows "r \<in> set rows \<and> rm_TenantID r = rm_TenantID current \<and> r \<noteq> current"
  using assms by (auto simp: adjacentRule_def Let_def dest!: firstRow_sorted split: if_splits)

lemma Move_ok:
  assumes "MoveClassificationRule tenantID ruleID direction now w = (Inr u, w')"
  shows "w_tables w' = w_tables w \<or> (\<exists>r s. r \<in> set (t_rules (w_tables w)) \<and> s \<in> set (t_rules (w_tables w)) \<and>
    rm_TenantID s = rm_TenantID r \<and> r \<noteq> s \<and>
    w_tables w' = (w_tables w)\<lparr>t_rules := exchangedRules now r s (t_rules (w_tables w))\<rparr>)"
  using assms unfolding MoveClassificationRule_def
  by (elim transaction_body) (fastforce simp: bindA_Inr updateRules_ok exchangedRules_def split: option.splits
      dest!: findRule_ok adjacent_ok)

text \<open>What a validated rule refers to is live.\<close>

lemma quiet_rule_tags [quiet_rules]: "quiet (requireRuleTags tenantID tagIDs)"
proof (induction tagIDs)
  case (Cons i tagIDs)
  show ?case unfolding requireRuleTags.simps by (intro quiet_rules Cons.IH)
qed (simp add: quiet_rules del: returnA_run)

lemma quiet_validateRule [quiet_rules]: "quiet (validateRule tenantID matchType condition categoryID tagIDs)"
  unfolding validateRule_def by (intro quiet_rules)

lemma GetTag_ok: "GetTag i w = (Inr g, w') \<Longrightarrow> \<exists>row \<in> set (t_tags (w_tables w)). g = Some (tagFromModel row) \<and>
    gm_ID row = i \<and> w_tables w' = w_tables w"
  by (auto simp: GetTag_def bindA_Inr simp del: lookupRow_None split: option.splits dest!: lookupRow_Some)

lemma requireRuleTags_ok:
  "requireRuleTags tenantID tagIDs w = (Inr u, w') \<Longrightarrow> g \<in> set tagIDs \<Longrightarrow> liveTag (TrimSpace tenantID) g (w_tables w)"
proof (induction tagIDs arbitrary: w)
  case (Cons i tagIDs)
  from Cons.prems(1) obtain tag v where tag: "GetTag i w = (Inr tag, v)" and
    own: "tag_TenantID (the tag) = TrimSpace tenantID" "tag_HiddenAt (the tag) = None" and
    rest: "requireRuleTags tenantID tagIDs v = (Inr u, w')"
    by (auto simp: bindA_Inr split: if_splits)
  from GetTag_ok [OF tag] own have "liveTag (TrimSpace tenantID) i (w_tables w)" "w_tables v = w_tables w"
    by (auto simp: liveTag_def tagFromModel_def)
  with Cons.IH [OF rest] Cons.prems(2) show ?case by auto
qed simp

lemma validateRule_ok:
  assumes "validateRule tenantID matchType condition categoryID tagIDs w = (Inr (text', category, ids), w')"
  shows "liveCategory (TrimSpace tenantID) (cat_ID category) (w_tables w) \<and>
    (\<forall>g \<in> set ids. liveTag (TrimSpace tenantID) g (w_tables w))"
proof -
  from assms obtain c v where c: "GetCategory (TrimSpace categoryID) w = (Inr c, v)" "category = the c"
    "cat_TenantID (the c) = TrimSpace tenantID" "cat_HiddenAt (the c) = None"
    and tags: "requireRuleTags tenantID ids v = (Inr (), w')"
    by (auto simp: validateRule_def bindA_Inr split: if_splits)
  from c have "liveCategory (TrimSpace tenantID) (cat_ID category) (w_tables w)" "w_tables v = w_tables w"
    by (auto simp: GetCategory_def bindA_Inr liveCategory_def categoryFromModel_def simp del: lookupRow_None
        split: option.splits dest!: lookupRow_Some)
  with requireRuleTags_ok [OF tags] show ?thesis by simp
qed

lemma live_tables: "unchanged w w' \<Longrightarrow> liveCategory a i (w_tables w') = liveCategory a i (w_tables w)"
    "unchanged w w' \<Longrightarrow> liveTag a i (w_tables w') = liveTag a i (w_tables w)"
  by (simp_all add: unchanged_def)

lemma sound_Append:
  assumes "soundCatalog w" and "liveCategory (rule_TenantID rule) (rule_CategoryID rule) (w_tables w)"
    and "\<forall>g \<in> set (rule_TagIDs rule). liveTag (rule_TenantID rule) g (w_tables w)"
  shows "soundCatalog (snd (AppendClassificationRule rule w))"
proof -
  obtain r w' where run: "AppendClassificationRule rule w = (r, w')" by fastforce
  have source: "sameSource (AppendClassificationRule rule)" by (rule source_rules)
  show ?thesis
  proof (cases r)
    case (Inl e)
    with run have "w_tables w' = w_tables w"
      by (auto simp: AppendClassificationRule_def mapErrA_Inl dest: transactionSQL_error)
    with sound_by_tables [OF assms(1) source run] run show ?thesis by simp
  next
    case (Inr saved)
    let ?m = "newClassificationRuleModel (rule\<lparr>rule_Position := maximumPosition (rule_TenantID rule) (t_rules (w_tables w)) + 1\<rparr>)"
    from Append_ok [OF run [unfolded Inr]] have i: "rm_ID ?m \<notin> rm_ID ` set (t_rules (w_tables w))" and
      t: "w_tables w' = withRuleTags (rm_ID ?m) (rule_TagIDs rule) ((w_tables w)\<lparr>t_rules := t_rules (w_tables w) @ [?m]\<rparr>)"
      by blast+
    have "soundRules (w_tables w')"
      unfolding t using assms i
      by (intro sound_append) (auto simp: soundCatalog_def newClassificationRuleModel_def)
    with sound_by_tables [OF assms(1) source run] run show ?thesis by (simp add: t withRuleTags_def)
  qed
qed

lemma replacedRule_ids [simp]:
  "rm_ID (replacedRule rule r) = rm_ID r" "rm_TenantID (replacedRule rule r) = rm_TenantID r"
  "rm_Position (replacedRule rule r) = rm_Position r" "rm_CategoryID (replacedRule rule r) = rule_CategoryID rule"
  by (simp_all add: replacedRule_def)

lemma sound_Replace:
  assumes "soundCatalog w" and "TrimSpace (rule_TenantID rule) = rule_TenantID rule" "TrimSpace (rule_ID rule) = rule_ID rule"
    and "liveCategory (rule_TenantID rule) (rule_CategoryID rule) (w_tables w)"
    and "\<forall>g \<in> set (rule_TagIDs rule). liveTag (rule_TenantID rule) g (w_tables w)"
  shows "soundCatalog (snd (ReplaceClassificationRule rule w))"
proof -
  obtain r w' where run: "ReplaceClassificationRule rule w = (r, w')" by fastforce
  have source: "sameSource (ReplaceClassificationRule rule)" by (rule source_rules)
  show ?thesis
  proof (cases r)
    case (Inl e)
    with run have "w_tables w' = w_tables w"
      by (auto simp: ReplaceClassificationRule_def dest: transactionSQL_error)
    with sound_by_tables [OF assms(1) source run] run show ?thesis by simp
  next
    case (Inr u)
    define change where "change r = (if rm_TenantID r = rule_TenantID rule \<and> rm_ID r = rule_ID rule
      then replacedRule rule r else r)" for r
    from Replace_ok [OF run [unfolded Inr unit_eq [of u]]] obtain r0 where r0: "r0 \<in> set (t_rules (w_tables w))"
      "rm_TenantID r0 = rule_TenantID rule" "rm_ID r0 = rule_ID rule" and
      t: "w_tables w' = withRuleTags (rm_ID r0) (rule_TagIDs rule) ((w_tables w)\<lparr>t_rules := map change (t_rules (w_tables w))\<rparr>)"
      unfolding change_def assms(2,3) by metis
    have "soundRules (w_tables w')"
      unfolding t
    proof (rule sound_replace [OF _ _ _ r0(1)])
      show "liveCategory (rm_TenantID r) (rm_CategoryID (change r)) (w_tables w)" if "r \<in> set (t_rules (w_tables w))" for r
        using that assms(4) sound_references(1) [OF assms(1)] by (simp add: change_def)
    qed (use assms(1,5) r0 in \<open>simp_all add: soundCatalog_def change_def\<close>)
    with sound_by_tables [OF assms(1) source run] run show ?thesis by (simp add: t withRuleTags_def)
  qed
qed

lemma keeps_Delete [keeps_catalog]: "preserves soundCatalog (DeleteClassificationRule tenantID ruleID)"
proof (rule preservesI)
  fix w assume w: "soundCatalog w"
  obtain r w' where run: "DeleteClassificationRule tenantID ruleID w = (r, w')" by fastforce
  have "w_tables w' = w_tables w \<or> (\<exists>r \<in> set (t_rules (w_tables w)). w_tables w' = withoutRule r (w_tables w))"
    using run by (cases r) (auto simp: DeleteClassificationRule_def dest: transactionSQL_error
        Delete_ok [unfolded DeleteClassificationRule_def])
  then have "w_tables w' = w_tables w \<or> soundRules (w_tables w') \<and>
      t_categories (w_tables w') = t_categories (w_tables w) \<and> t_tags (w_tables w') = t_tags (w_tables w)"
    using w by (auto simp: soundCatalog_def intro: sound_delete) (simp_all add: withoutRule_def)
  then have "soundCatalog w'" by (rule sound_by_tables [OF w source_rule_store(5) run])
  with run show "soundCatalog (snd (DeleteClassificationRule tenantID ruleID w))" by simp
qed

lemma keeps_Move [keeps_catalog]: "preserves soundCatalog (MoveClassificationRule tenantID ruleID direction now)"
proof (rule preservesI)
  fix w assume w: "soundCatalog w"
  obtain r w' where run: "MoveClassificationRule tenantID ruleID direction now w = (r, w')" by fastforce
  have "w_tables w' = w_tables w \<or> (\<exists>r s. r \<in> set (t_rules (w_tables w)) \<and> s \<in> set (t_rules (w_tables w)) \<and>
      rm_TenantID s = rm_TenantID r \<and> r \<noteq> s \<and>
      w_tables w' = (w_tables w)\<lparr>t_rules := exchangedRules now r s (t_rules (w_tables w))\<rparr>)"
  proof (cases r)
    case (Inl e)
    with run show ?thesis by (auto simp: MoveClassificationRule_def dest: transactionSQL_error)
  next
    case (Inr u)
    with run show ?thesis using Move_ok by blast
  qed
  then have "w_tables w' = w_tables w \<or> soundRules (w_tables w') \<and>
      t_categories (w_tables w') = t_categories (w_tables w) \<and> t_tags (w_tables w') = t_tags (w_tables w)"
    using w by (auto simp: soundCatalog_def intro: sound_exchange)
  then have "soundCatalog w'" by (rule sound_by_tables [OF w source_rule_store(6) run])
  with run show "soundCatalog (snd (MoveClassificationRule tenantID ruleID direction now w))" by simp
qed

lemma sound_mapErr: "soundCatalog (snd (m w)) \<Longrightarrow> soundCatalog (snd (mapErrA g m w))"
  by (cases "m w"; cases "fst (m w)") (auto simp: mapErrA_run)

lemma keeps_RuleServiceUpdate [keeps_catalog]: "preserves soundCatalog (RuleServiceUpdate params)"
  unfolding RuleServiceUpdate_def
proof (rule keeps_bind [OF keeps_reads(1) preserves_checked [OF quiet_validateRule]], goal_cases)
  case (1 _ w found v)
  obtain text' category ids where found: "found = (text', category, ids)" by (cases found)
  from validateRule_ok [OF 1(2) [unfolded found]] 1(3)
  have live: "liveCategory (TrimSpace (urp_TenantID params)) (cat_ID category) (w_tables v)"
    "\<forall>g \<in> set ids. liveTag (TrimSpace (urp_TenantID params)) g (w_tables v)" by (simp_all add: live_tables)
  show ?case unfolding found prod.case
  proof (rule after_clock [OF 1(1)])
    fix now x assume "soundCatalog x" "unchanged v x"
    then show "soundCatalog (snd (mapErrA (translateError PersistenceErrClassificationRuleNotFound
        ErrClassificationRuleNotFound ''update classification rule'') (ReplaceClassificationRule
        \<lparr>rule_ID = TrimSpace (urp_RuleID params), rule_TenantID = TrimSpace (urp_TenantID params), rule_Position = 0,
         rule_MatchType = urp_MatchType params, rule_Condition = text', rule_CategoryID = cat_ID category,
         rule_TagIDs = ids, rule_CreatedAt = zero_time, rule_UpdatedAt = now\<rparr>) x))"
      by (intro sound_mapErr sound_Replace) (use live in \<open>simp_all add: live_tables\<close>)
  qed
qed

lemma after_draw:
  assumes "soundCatalog w" and "\<And>i v. soundCatalog v \<Longrightarrow> w_tables v = w_tables w \<Longrightarrow> soundCatalog (snd (f i v))"
  shows "soundCatalog (snd (bindA (liftA drawID) f w))"
proof -
  have "soundCatalog (snd (drawID w))" using assms(1) preserves_draw by (simp add: preserves_def liftA_run)
  moreover have "w_tables (snd (drawID w)) = w_tables w" by (simp add: drawID_def)
  ultimately show ?thesis using assms(2) by (simp add: bindA_run liftA_run)
qed

lemma keeps_RuleServiceCreate [keeps_catalog]: "preserves soundCatalog (RuleServiceCreate params)"
  unfolding RuleServiceCreate_def
proof (rule keeps_bind [OF keeps_reads(1) preserves_checked [OF quiet_validateRule]], goal_cases)
  case (1 _ w found v)
  obtain text' category ids where found: "found = (text', category, ids)" by (cases found)
  from validateRule_ok [OF 1(2) [unfolded found]] 1(3)
  have live: "liveCategory (TrimSpace (crp_TenantID params)) (cat_ID category) (w_tables v)"
    "\<forall>g \<in> set ids. liveTag (TrimSpace (crp_TenantID params)) g (w_tables v)" by (simp_all add: live_tables)
  show ?case unfolding found prod.case
  proof (rule after_clock [OF 1(1)])
    fix now x assume x: "soundCatalog x" "unchanged v x"
    show "soundCatalog (snd (bindA (liftA drawID) (\<lambda>i. wrapA ''create classification rule''
        (AppendClassificationRule \<lparr>rule_ID = i, rule_TenantID = TrimSpace (crp_TenantID params), rule_Position = 0,
          rule_MatchType = crp_MatchType params, rule_Condition = text', rule_CategoryID = cat_ID category,
          rule_TagIDs = ids, rule_CreatedAt = now, rule_UpdatedAt = now\<rparr>)) x))"
      by (rule after_draw [OF x(1)], rule sound_mapErr, rule sound_Append)
        (use live x(2) in \<open>simp_all add: unchanged_def\<close>)
  qed
qed

lemma keeps_rule_service [keeps_catalog]:
  "preserves soundCatalog (RuleServiceDelete p1)" "preserves soundCatalog (RuleServiceMove p2)"
  unfolding RuleServiceDelete_def RuleServiceMove_def by (intro keeps_catalog)+

end
