(* ===== verification/ClassificationProperties.thy ===== *)
theory ClassificationProperties
  imports Classification PairProperties LedgerProperties
begin

text \<open>
  What a classification attempt does: the loop over batches ends and visits every
  transaction that was eligible exactly once; a rule matches a description when its text
  occurs in it, rune by rune, up to case.
\<close>

section \<open>The match is a search for a run of runes\<close>

lemma runes_empty [simp]: "runes s = [] \<longleftrightarrow> s = []"
  by (cases s) simp_all

lemma stops_are_prefixes:
  assumes "part \<noteq> []"
  shows "(\<exists>stop \<in> set (runeStarts 0 s). stop \<noteq> 0 \<and> EqualFold sameFold (take stop s) part) \<or> EqualFold sameFold s part \<longleftrightarrow>
    (\<exists>k. list_all2 sameFold (take k (runes s)) (runes part))" (is "?loop \<longleftrightarrow> ?prefix")
proof
  assume ?loop
  then show ?prefix
  proof (elim disjE bexE conjE)
    fix stop assume "stop \<in> set (runeStarts 0 s)" "EqualFold sameFold (take stop s) part"
    then show ?prefix using runes_take [of stop 0 s] by (auto simp: EqualFold_def)
  next
    assume "EqualFold sameFold s part"
    then show ?prefix by (intro exI [of _ "length (runes s)"]) (simp add: EqualFold_def)
  qed
next
  assume ?prefix
  then obtain k where k: "list_all2 sameFold (take k (runes s)) (runes part)" ..
  have "runes part \<noteq> []" using assms by simp
  with k have "0 < k" by (cases k) auto
  show ?loop
  proof (cases "k < length (runes s)")
    case True
    from take_runes [OF this, of 0] obtain stop where "stop \<in> set (runeStarts 0 s)"
      "runes (take stop s) = take k (runes s)" "0 < stop" using \<open>0 < k\<close> by auto
    with k show ?thesis unfolding EqualFold_def by (intro disjI1 bexI [of _ stop]) auto
  qed (use k in \<open>simp add: EqualFold_def\<close>)
qed

lemma containsFrom_runs:
  assumes "part \<noteq> []"
  shows "containsFrom sameFold s part \<longleftrightarrow>
    (\<exists>before k. before \<le> length (runes s) \<and> list_all2 sameFold (take k (drop before (runes s))) (runes part))"
  using assms
proof (induction sameFold s part rule: containsFrom.induct)
  case (1 sameFold part)
  then have "runes part \<noteq> []" by simp
  then show ?case by auto
next
  case (2 sameFold c s part)
  let ?rest = "drop (snd (decodeRune c s) - 1) s"
  have "containsFrom sameFold (c # s) part \<longleftrightarrow>
      (\<exists>k. list_all2 sameFold (take k (runes (c # s))) (runes part)) \<or> containsFrom sameFold ?rest part"
    using stops_are_prefixes [OF 2(2), of "c # s" sameFold] by (simp only: containsFrom.simps disj_assoc [symmetric])
  also have "\<dots> \<longleftrightarrow> (\<exists>k. list_all2 sameFold (take k (runes (c # s))) (runes part)) \<or>
      (\<exists>before k. before \<le> length (runes ?rest) \<and> list_all2 sameFold (take k (drop before (runes ?rest))) (runes part))"
    using 2 by simp
  also have "\<dots> \<longleftrightarrow> (\<exists>before k. before \<le> length (runes (c # s)) \<and>
      list_all2 sameFold (take k (drop before (runes (c # s)))) (runes part))" (is "?first \<or> ?later \<longleftrightarrow> ?any")
  proof
    assume "?first \<or> ?later"
    then show ?any
    proof
      assume ?later
      then obtain before k where "before \<le> length (runes ?rest)"
        "list_all2 sameFold (take k (drop before (runes ?rest))) (runes part)" by blast
      then show ?any by (intro exI [of _ "Suc before"] exI [of _ k]) simp
    next
      assume ?first
      then obtain k where "list_all2 sameFold (take k (drop 0 (runes (c # s)))) (runes part)" by auto
      then show ?any by blast
    qed
  next
    assume ?any
    then obtain before k where b: "before \<le> length (runes (c # s))"
      "list_all2 sameFold (take k (drop before (runes (c # s)))) (runes part)" by blast
    then show "?first \<or> ?later" by (cases before) auto
  qed
  finally show ?case .
qed

text \<open>A rule's text is found exactly where it occurs, rune by rune, up to case.\<close>

lemma containsFold_infix:
  "containsFold sameFold v part \<longleftrightarrow>
   part \<noteq> [] \<and> (\<exists>pre mid post. runes v = pre @ mid @ post \<and> list_all2 sameFold mid (runes part))"
proof (cases "part = []")
  case False
  have "(\<exists>before k. before \<le> length (runes v) \<and> list_all2 sameFold (take k (drop before (runes v))) (runes part)) \<longleftrightarrow>
      (\<exists>pre mid post. runes v = pre @ mid @ post \<and> list_all2 sameFold mid (runes part))" (is "?cut \<longleftrightarrow> ?piece")
  proof
    assume ?cut
    then show ?piece by (metis append_take_drop_id)
  next
    assume ?piece
    then obtain pre mid post where "runes v = pre @ mid @ post" "list_all2 sameFold mid (runes part)" by blast
    then show ?cut by (intro exI [of _ "length pre"] exI [of _ "length mid"]) simp
  qed
  with False show ?thesis by (simp add: containsFold_def containsFrom_runs)
qed (simp add: containsFold_def)

section \<open>One transaction\<close>

definition eligibleIDs :: "ClassificationParams \<Rightarrow> string \<Rightarrow> Tables \<Rightarrow> string list" where
  "eligibleIDs p y t = map tm_ID (filter (\<lambda>r.
     eligibleClassificationTransaction (clp_TenantID p) (clp_RangeStart p) (clp_RangeEndExclusive p) r \<and> tm_ID r > y)
     (t_transactions t))"

definition onlyTouches :: "string \<Rightarrow> World \<Rightarrow> World \<Rightarrow> bool" where
  "onlyTouches x w w' \<longleftrightarrow> (\<exists>g. t_transactions (w_tables w') = map g (t_transactions (w_tables w)) \<and>
     (\<forall>r. tm_ID (g r) = tm_ID r \<and> (tm_ID r \<noteq> x \<longrightarrow> g r = r)))"

lemma onlyTouches_same: "w_tables w' = w_tables w \<Longrightarrow> onlyTouches x w w'"
  by (auto simp: onlyTouches_def intro!: exI [of _ "\<lambda>r. r"])

lemma onlyTouches_trans:
  assumes "onlyTouches x u v" and "onlyTouches x v w"
  shows "onlyTouches x u w"
proof -
  from assms(1) obtain g where g: "t_transactions (w_tables v) = map g (t_transactions (w_tables u))"
    "\<And>r. tm_ID (g r) = tm_ID r \<and> (tm_ID r \<noteq> x \<longrightarrow> g r = r)" unfolding onlyTouches_def by blast
  from assms(2) obtain h where h: "t_transactions (w_tables w) = map h (t_transactions (w_tables v))"
    "\<And>r. tm_ID (h r) = tm_ID r \<and> (tm_ID r \<noteq> x \<longrightarrow> h r = r)" unfolding onlyTouches_def by blast
  have "\<forall>r. tm_ID ((h \<circ> g) r) = tm_ID r \<and> (tm_ID r \<noteq> x \<longrightarrow> (h \<circ> g) r = r)" using g(2) h(2) by auto
  moreover have "t_transactions (w_tables w) = map (h \<circ> g) (t_transactions (w_tables u))" using g(1) h(1) by simp
  ultimately show ?thesis unfolding onlyTouches_def by blast
qed

lemma onlyTouches_eligible:
  assumes "onlyTouches x w w'" and "x \<le> y"
  shows "eligibleIDs p y (w_tables w') = eligibleIDs p y (w_tables w)"
proof -
  from assms(1) obtain g where g: "t_transactions (w_tables w') = map g (t_transactions (w_tables w))"
    "\<And>r. tm_ID (g r) = tm_ID r" "\<And>r. tm_ID r \<noteq> x \<Longrightarrow> g r = r"
    by (auto simp: onlyTouches_def)
  have "map tm_ID (filter (\<lambda>r. Q r \<and> tm_ID r > y) (map g rows)) = map tm_ID (filter (\<lambda>r. Q r \<and> tm_ID r > y) rows)"
    for Q :: "transactionModel \<Rightarrow> bool" and rows
  proof (induction rows)
    case (Cons r rows)
    then show ?case using g(2) [of r] g(3) [of r] assms(2) by (cases "tm_ID r = x") auto
  qed simp
  then show ?thesis by (simp add: eligibleIDs_def g(1))
qed

lemma assign_touches:
  assumes "AssignClassification p w = (r, w')"
  shows "onlyTouches (TrimSpace (acp_TransactionID p)) w w'"
proof (cases r)
  case (Inl e)
  with assms show ?thesis
    by (auto simp: AssignClassification_def mapErrA_Inl intro!: onlyTouches_same dest: transactionSQL_error)
next
  case (Inr b)
  define sel where "sel row \<longleftrightarrow> eligibleClassificationTransaction (acp_TenantID p) zero_time zero_time row \<and>
     tm_ID row = TrimSpace (acp_TransactionID p)" for row
  let ?g = "\<lambda>row. if sel row then classifiedRow p row else row"
  from assms Inr have "\<exists>t. t_transactions (w_tables w') = map ?g (t_transactions (w_tables w)) \<and> t"
    by (auto simp: AssignClassification_def bindA_Inr assignCategory_def execSQL_def Let_def sel_def
        elim!: transactionSQL_ok split: if_splits option.splits)
  then show ?thesis
    by (auto simp: onlyTouches_def sel_def classifiedRow_def intro!: exI [of _ ?g])
qed

lemma quiet_validate_tags [quiet_rules]: "quiet (validateClassificationTags tenantID tagIDs)"
proof (induction tagIDs)
  case (Cons i tagIDs)
  show ?case unfolding validateClassificationTags.simps by (intro quiet_rules Cons.IH)
qed (simp add: quiet_rules del: returnA_run)

text \<open>\<open>touches x m\<close>: whatever happens, \<open>m\<close> changes no transaction but \<open>x\<close>.\<close>

definition touches :: "string \<Rightarrow> (World, 'a) action \<Rightarrow> bool" where
  "touches x m \<longleftrightarrow> (\<forall>w. onlyTouches x w (snd (m w)))"

lemma touches_quiet: "quiet m \<Longrightarrow> touches x m"
  unfolding touches_def quiet_def unchanged_def by (blast intro: onlyTouches_same)

lemma touches_bind:
  assumes "touches x m" and "\<And>a. touches x (f a)"
  shows "touches x (bindA m f)"
  unfolding touches_def
proof
  fix w
  have m: "onlyTouches x w (snd (m w))" using assms(1) by (simp add: touches_def)
  show "onlyTouches x w (snd (bindA m f w))"
  proof (cases "m w")
    case (Pair r u)
    show ?thesis
    proof (cases r)
      case (Inr a)
      have "onlyTouches x u (snd (f a u))" using assms(2) by (simp add: touches_def)
      with m Pair Inr show ?thesis by (simp add: bindA_run onlyTouches_trans)
    qed (use m Pair in \<open>simp add: bindA_run\<close>)
  qed
qed

lemma touches_mapErr: "touches x m \<Longrightarrow> touches x (mapErrA g m)"
  by (simp add: touches_def)

lemma touches_assign: "touches (TrimSpace (acp_TransactionID p)) (AssignClassification p)"
  unfolding touches_def
proof
  fix w
  show "onlyTouches (TrimSpace (acp_TransactionID p)) w (snd (AssignClassification p w))"
    by (rule assign_touches [of p w "fst (AssignClassification p w)"]) simp
qed

lemma classify_touches:
  assumes "TrimSpace (tx_ID txn) = tx_ID txn"
  shows "touches (tx_ID txn) (classifyTransaction sameFold tenantID txn rules)"
proof (cases "matchClassificationRule sameFold (tx_Description txn) rules")
  case None
  then show ?thesis
    by (simp add: classifyTransaction_def touches_quiet quiet_rules del: returnA_run)
next
  case (Some rule)
  have "touches (tx_ID txn) (AssignClassification
    \<lparr>acp_TenantID = tenantID, acp_TransactionID = tx_ID txn, acp_CategoryID = c, acp_TagIDs = tags, acp_UpdatedAt = now\<rparr>)"
    for c tags now
    using touches_assign [of "\<lparr>acp_TenantID = tenantID, acp_TransactionID = tx_ID txn, acp_CategoryID = c,
      acp_TagIDs = tags, acp_UpdatedAt = now\<rparr>"] assms by simp
  then show ?thesis
    unfolding classifyTransaction_def Some option.case
    by (auto intro!: touches_bind touches_mapErr simp: touches_quiet quiet_rules simp del: returnA_run failA_run split: if_splits)
qed

definition visited :: "ClassificationAttemptCounts \<Rightarrow> int" where
  "visited c = cac_Classified c + cac_Unmatched c + cac_Skipped c"

lemma classify_counts_one:
  "classifyTransaction sameFold tenantID txn rules w = (Inr d, w') \<Longrightarrow> visited d = 1"
proof (cases "matchClassificationRule sameFold (tx_Description txn) rules")
  case (Some rule)
  assume "classifyTransaction sameFold tenantID txn rules w = (Inr d, w')"
  then have "d \<in> {noCounts\<lparr>cac_Classified := 1\<rparr>, noCounts\<lparr>cac_Skipped := 1\<rparr>}"
    unfolding classifyTransaction_def Some option.case
    by (elim bindA_InrE) (simp only: if_splits failA_Inr simp_thms split: if_split_asm; elim bindA_InrE; auto split: if_splits)
  then show "visited d = 1" by (auto simp: visited_def noCounts_def)
qed (auto simp: classifyTransaction_def visited_def noCounts_def)

lemma visited_add: "visited (addClassificationAttemptCounts c d) = visited c + visited d"
  by (simp add: visited_def addClassificationAttemptCounts_def)

section \<open>One batch\<close>

definition plainIDs :: "string list \<Rightarrow> bool" where
  "plainIDs ids \<longleftrightarrow> distinct ids \<and> (\<forall>i \<in> set ids. i \<noteq> [] \<and> TrimSpace i = i)"

abbreviation transactionIDs_of :: "World \<Rightarrow> string list" where
  "transactionIDs_of w \<equiv> map tm_ID (t_transactions (w_tables w))"

lemma onlyTouches_ids: "onlyTouches x w w' \<Longrightarrow> transactionIDs_of w' = transactionIDs_of w"
  by (auto simp: onlyTouches_def)

lemma batch_result:
  assumes "classifyBatch sameFold tenantID rules counts lastID txns w = ((counts', None, lastID'), w')"
    and "\<forall>txn \<in> set txns. TrimSpace (tx_ID txn) = tx_ID txn \<and> tx_ID txn \<le> y"
  shows "eligibleIDs p y (w_tables w') = eligibleIDs p y (w_tables w) \<and> transactionIDs_of w' = transactionIDs_of w \<and>
    visited counts' = visited counts + int (length txns) \<and> lastID' = last (lastID # map tx_ID txns)"
  using assms
proof (induction txns arbitrary: counts lastID w)
  case (Cons txn txns)
  then obtain d u where one: "classifyTransaction sameFold tenantID txn rules w = (Inr d, u)" and
    rest: "classifyBatch sameFold tenantID rules (addClassificationAttemptCounts counts d) (tx_ID txn) txns u =
      ((counts', None, lastID'), w')"
    by (auto split: prod.splits sum.splits)
  have touched: "onlyTouches (tx_ID txn) w u"
    using classify_touches [of txn sameFold tenantID rules] Cons.prems(2) one
    unfolding touches_def by (metis list.set_intros(1) snd_conv)
  then have "eligibleIDs p y (w_tables u) = eligibleIDs p y (w_tables w)"
    using Cons.prems(2) by (simp add: onlyTouches_eligible)
  with Cons.IH [OF rest] Cons.prems(2) classify_counts_one [OF one] onlyTouches_ids [OF touched] show ?case
    by (simp add: visited_add)
qed simp

section \<open>The loop\<close>

lemma sorted_last: "sorted xs \<Longrightarrow> x \<in> set xs \<Longrightarrow> x \<le> last xs"
  by (induction xs) auto

lemma filter_last_take:
  fixes xs :: "'a::linorder list"
  assumes "sorted xs" "distinct xs" "0 < n" "xs \<noteq> []"
  shows "filter (\<lambda>x. x > last (take n xs)) xs = drop n xs"
proof -
  let ?l = "last (take n xs)"
  have "?l \<in> set (take n xs)" using assms by (intro last_in_set) auto
  have "sorted (take n xs @ drop n xs)" "distinct (take n xs @ drop n xs)" using assms by simp_all
  then have "\<forall>x \<in> set (take n xs). \<forall>y \<in> set (drop n xs). x \<le> y" "set (take n xs) \<inter> set (drop n xs) = {}"
    unfolding sorted_append distinct_append by blast+
  then have below: "x < y" if "x \<in> set (take n xs)" "y \<in> set (drop n xs)" for x y
    using that by (auto simp: less_le)
  have "x \<le> ?l" if "x \<in> set (take n xs)" for x
    using that assms(1) by (simp add: sorted_last sorted_wrt_take)
  then have "filter (\<lambda>x. x > ?l) (take n xs) = []" by (auto simp: filter_empty_conv not_less)
  moreover have "filter (\<lambda>x. x > ?l) (drop n xs) = drop n xs"
    using below \<open>?l \<in> set (take n xs)\<close> by (intro filter_True) blast
  ultimately show ?thesis by (metis append_Nil append_take_drop_id filter_append)
qed

lemma map_orderAsc: "map key (orderAsc key rows) = sort (map key rows)"
  by (rule properties_for_sort [symmetric]) (simp_all add: orderAsc_def)

text \<open>What the next page is: the first of the eligible transactions after the last one.\<close>

lemma page_ids:
  assumes "TrimSpace lastID = lastID" and "plainIDs (transactionIDs_of w)"
    and "ListEligibleClassificationTransactions (classificationPage p lastID) w = (Inr txns, w')"
  shows "w_tables w' = w_tables w"
    "map tx_ID txns = take classificationBatchSize (sort (eligibleIDs p lastID (w_tables w)))"
proof -
  let ?rows = "t_transactions (w_tables w)"
  from assms(3) have t: "txns = map transactionFromModel (classificationBatch (classificationPage p lastID) ?rows)"
    "w_tables w' = w_tables w"
    by (auto simp: ListEligibleClassificationTransactions_def bindA_Inr)
  then show "w_tables w' = w_tables w" by simp
  have same: "filter (\<lambda>r. P r \<and> (lastID \<noteq> [] \<longrightarrow> tm_ID r > lastID)) ?rows = filter (\<lambda>r. P r \<and> tm_ID r > lastID) ?rows" for P
  proof (rule filter_cong)
    fix r assume "r \<in> set ?rows"
    then obtain c s where "tm_ID r = c # s" using assms(2) by (auto simp: plainIDs_def neq_Nil_conv)
    then show "(P r \<and> (lastID \<noteq> [] \<longrightarrow> tm_ID r > lastID)) = (P r \<and> tm_ID r > lastID)" by (cases lastID) auto
  qed simp
  show "map tx_ID txns = take classificationBatchSize (sort (eligibleIDs p lastID (w_tables w)))"
    by (simp add: t classificationBatch_def classificationPage_def Let_def assms(1) same o_def eligibleIDs_def
        map_orderAsc take_map [symmetric])
qed

lemma length_greater: "length (eligibleIDs p y t) = length (filter (\<lambda>i. i > y) (eligibleIDs p x t))" if "x \<le> y"
  using that by (auto simp: eligibleIDs_def filter_map o_def intro!: arg_cong [of _ _ length] filter_cong)

lemma filter_sort: "length (filter P (sort xs)) = length (filter P xs)"
  by (metis mset_filter mset_sort size_mset)

lemma eligible_distinct: "plainIDs (transactionIDs_of w) \<Longrightarrow> distinct (eligibleIDs p y (w_tables w))"
  by (auto simp: plainIDs_def eligibleIDs_def distinct_map inj_on_def)

text \<open>After a page, what is left is what was left less the page.\<close>

lemma left_after_page:
  assumes "plainIDs (transactionIDs_of w)"
    and "page = take classificationBatchSize (sort (eligibleIDs p lastID (w_tables w)))" and "page \<noteq> []"
  shows "length (eligibleIDs p (last page) (w_tables w)) + length page = length (eligibleIDs p lastID (w_tables w))"
proof -
  let ?ids = "sort (eligibleIDs p lastID (w_tables w))"
  have "last page \<in> set page" using assms(3) by simp
  then have "last page \<in> set (eligibleIDs p lastID (w_tables w))" using assms(2) by (auto dest: in_set_takeD)
  then have "lastID \<le> last page" by (auto simp: eligibleIDs_def)
  then have "length (eligibleIDs p (last page) (w_tables w)) = length (filter (\<lambda>i. i > last page) ?ids)"
    by (simp add: length_greater filter_sort)
  also have "filter (\<lambda>i. i > last page) ?ids = drop classificationBatchSize ?ids"
    unfolding assms(2) using assms(2,3) eligible_distinct [OF assms(1)]
    by (intro filter_last_take) (auto simp: classificationBatchSize_def)
  finally show ?thesis using assms(2) by (simp add: min_def)
qed

lemma page_trimmed:
  assumes "plainIDs (transactionIDs_of w)"
    and "map tx_ID txns = take classificationBatchSize (sort (eligibleIDs p lastID (w_tables w)))"
  shows "\<forall>txn \<in> set txns. TrimSpace (tx_ID txn) = tx_ID txn \<and> tx_ID txn \<le> last (map tx_ID txns)"
proof
  fix txn assume "txn \<in> set txns"
  then have i: "tx_ID txn \<in> set (map tx_ID txns)" by simp
  then have "tx_ID txn \<in> set (eligibleIDs p lastID (w_tables w))" unfolding assms(2) by (auto dest: in_set_takeD)
  then have "tx_ID txn \<in> set (transactionIDs_of w)" by (auto simp: eligibleIDs_def)
  then have "TrimSpace (tx_ID txn) = tx_ID txn" using assms(1) unfolding plainIDs_def by blast
  moreover have "sorted (map tx_ID txns)" unfolding assms(2) by (simp add: sorted_wrt_take)
  then have "tx_ID txn \<le> last (map tx_ID txns)" using i by (rule sorted_last)
  ultimately show "TrimSpace (tx_ID txn) = tx_ID txn \<and> tx_ID txn \<le> last (map tx_ID txns)" ..
qed

lemma loop_ends:
  assumes "plainIDs (transactionIDs_of w)" and "TrimSpace lastID = lastID"
  shows "\<exists>counts' err w'. classifyLoop sameFold p rules counts lastID w = Some ((counts', err), w') \<and>
    (err = None \<longrightarrow> visited counts' = visited counts + int (length (eligibleIDs p lastID (w_tables w))))"
  using assms
proof (induction "length (eligibleIDs p lastID (w_tables w))" arbitrary: counts lastID w rule: less_induct)
  case less
  obtain r u where list: "ListEligibleClassificationTransactions (classificationPage p lastID) w = (r, u)" by fastforce
  show ?case
  proof (cases r)
    case (Inl e)
    then show ?thesis using list by (simp add: classifyLoop.simps)
  next
    case (Inr txns)
    note page = page_ids [OF less.prems(2,1) list [unfolded Inr]]
    show ?thesis
    proof (cases "txns = []")
      case True
      then have "eligibleIDs p lastID (w_tables w) = []" using page(2) by (simp add: classificationBatchSize_def) (metis set_empty set_sort)
      with True Inr list show ?thesis by (simp add: classifyLoop.simps)
    next
      case False
      obtain counts' err lastID' v where batch:
        "classifyBatch sameFold (clp_TenantID p) rules counts lastID txns u = ((counts', err, lastID'), v)"
        by (metis prod.exhaust)
      show ?thesis
      proof (cases err)
        case None
        note result = batch_result [OF batch [unfolded None] page_trimmed [OF less.prems(1) page(2)], of p]
        have last': "lastID' = last (map tx_ID txns)" using result False by simp
        have left: "length (eligibleIDs p lastID' (w_tables v)) + length txns = length (eligibleIDs p lastID (w_tables w))"
          using left_after_page [OF less.prems(1) page(2)] False result last' page(1) by simp
        have trimmed: "TrimSpace lastID' = lastID'"
          using page_trimmed [OF less.prems(1) page(2)] last_in_set [of txns] False last' by (simp add: last_map)
        have smaller: "length (eligibleIDs p lastID' (w_tables v)) < length (eligibleIDs p lastID (w_tables w))"
          using left False by (cases txns) simp_all
        have plain: "plainIDs (transactionIDs_of v)" using less.prems(1) result page(1) by simp
        have "\<exists>counts'' err w'. classifyLoop sameFold p rules counts' lastID' v = Some ((counts'', err), w') \<and>
          (err = None \<longrightarrow> visited counts'' = visited counts' + int (length (eligibleIDs p lastID' (w_tables v))))"
          by (rule less.hyps [OF smaller plain trimmed])
        moreover have "classifyLoop sameFold p rules counts lastID w = classifyLoop sameFold p rules counts' lastID' v"
          using list Inr False batch None by (simp add: classifyLoop.simps [of _ _ _ counts lastID])
        ultimately show ?thesis using result left by fastforce
      qed (use list Inr False batch in \<open>simp add: classifyLoop.simps\<close>)
    qed
  qed
qed

lemma quiet_hydrate_rules: "quiet (hydrateClassificationRuleTags rules)"
  unfolding hydrateClassificationRuleTags_def Let_def by (intro quiet_rules)

lemma quiet_list_rules: "quiet (ListClassificationRules tenantID categoryID)"
  unfolding ListClassificationRules_def by (intro quiet_rules quiet_hydrate_rules)

section \<open>Properties\<close>

text \<open>C37. A classification attempt ends, whatever the database answers, and visits every
  transaction that was eligible when it began exactly once: without an error the counts of
  classified, unmatched and skipped transactions add up to their number. The hypothesis is
  that the ids are distinct, not empty and carry no space at either end; the loop pages by
  the trimmed last id.\<close>

theorem classification_visits_every_transaction_once:
  assumes "plainIDs (transactionIDs_of w)"
  shows "\<exists>counts err w'. Classify sameFold p w = Some ((counts, err), w') \<and>
    (err = None \<longrightarrow> cac_Classified counts + cac_Unmatched counts + cac_Skipped counts =
       int (length (eligibleIDs p [] (w_tables w))))"
proof -
  let ?w = "snd (readClock w)"
  obtain r u where list: "ListClassificationRules (clp_TenantID p) [] ?w = (r, u)" by fastforce
  from quietD [OF quiet_list_rules list] have same: "w_tables u = w_tables w"
    by (simp add: unchanged_def readClock_def)
  show ?thesis
  proof (cases r)
    case (Inr rules)
    have "TrimSpace [] = []" by code_simp
    with loop_ends [of u "[]" sameFold p rules noCounts] assms same list Inr show ?thesis
      by (simp add: Classify_def Let_def visited_def noCounts_def)
  qed (use list in \<open>simp add: Classify_def Let_def\<close>)
qed

definition classification_world :: World where
  "classification_world = (example_world (\<lambda>_. None))
     \<lparr>w_tables := example_tables
        \<lparr>t_categories := [\<lparr>cm_ID = ''c1'', cm_TenantID = ''t1'', cm_Name = ''Food'', cm_Kind = CategoryKindExpense,
           cm_SeededDefault = False, cm_HiddenAt = None, cm_CreatedAt = 1, cm_UpdatedAt = 1\<rparr>],
         t_tags := [\<lparr>gm_ID = ''g1'', gm_TenantID = ''t1'', gm_Name = ''Work'', gm_HiddenAt = None, gm_CreatedAt = 1,
           gm_UpdatedAt = 1\<rparr>],
         t_rules := [\<lparr>rm_ID = ''k1'', rm_TenantID = ''t1'', rm_Position = 1, rm_MatchType = ClassificationMatchTypeContains,
           rm_Condition = '' lunch'', rm_CategoryID = ''c1'', rm_CreatedAt = 1, rm_UpdatedAt = 1\<rparr>],
         t_ruleTags := [\<lparr>rtm_RuleID = ''k1'', rtm_TagID = ''g1''\<rparr>],
         t_transactions := [(example_leg ''r2'' ''a1'' 500 10)\<lparr>tm_Description := ''Rent''\<rparr>,
           (example_leg ''r1'' ''a2'' (- 500) 20)\<lparr>tm_Description := ''Team LUNCH, May''\<rparr>,
           (example_leg ''r3'' ''a2'' (- 500) 200)\<lparr>tm_Description := ''Lunch''\<rparr>]\<rparr>\<rparr>"

definition example_classification :: ClassificationParams where
  "example_classification = \<lparr>clp_TenantID = ''t1'', clp_RangeStart = 5, clp_RangeEndExclusive = 100,
     clp_MessageID = ''m1'', clp_SourceSyncMessageID = ''''\<rparr>"

lemma example_classification_plain: "plainIDs (transactionIDs_of classification_world)"
  by code_simp

lemma example_classification_result:
  "map_option (\<lambda>(r, w). (r, map (\<lambda>t. (tm_ID t, tm_CategoryID t)) (t_transactions (w_tables w)), t_transactionTags (w_tables w)))
     (Classify asciiFold example_classification classification_world) =
   Some ((\<lparr>cac_Classified = 1, cac_Unmatched = 1, cac_Skipped = 0\<rparr>, None),
     [(''r2'', None), (''r1'', Some ''c1''), (''r3'', None)],
     [\<lparr>ttm_TransactionID = ''r1'', ttm_TagID = ''g1''\<rparr>])"
  by code_simp

theorem classification_visits_every_transaction_once_witness:
  "\<exists>counts w'. Classify asciiFold example_classification classification_world = Some ((counts, None), w') \<and>
     cac_Classified counts + cac_Unmatched counts + cac_Skipped counts = 2"
proof -
  have "length (eligibleIDs example_classification [] (w_tables classification_world)) = 2" by code_simp
  with classification_visits_every_transaction_once
      [OF example_classification_plain, of asciiFold example_classification] example_classification_result
  show ?thesis by auto
qed

end
