(* ===== verification/CatalogRuns.thy ===== *)
theory CatalogRuns
  imports RuleInvariants ClassificationProperties
begin

text \<open>
  The invariant of classification rules along whole runs of requests to the tenant, catalog
  and rule services.
\<close>

datatype catalogRequest =
    CreateTenantRequest CreateTenantParams
  | UpdateTenantRequest UpdateTenantParams
  | ArchiveTenantRequest ArchiveTenantParams
  | CreateInviteRequest CreateTenantInviteParams
  | AcceptInviteRequest AcceptTenantInviteParams
  | CreateAccountRequest CreateAccountParams
  | UpdateAccountRequest UpdateAccountParams
  | HideAccountRequest AccountRefParams
  | UnhideAccountRequest AccountRefParams
  | AttachAccountRequest AttachLinkedAccountParams
  | CreateCategoryRequest CreateCategoryParams
  | UpdateCategoryRequest UpdateCategoryParams
  | HideCategoryRequest HideCategoryParams
  | CreateTagRequest CreateTagParams
  | UpdateTagRequest UpdateTagParams
  | HideTagRequest HideTagParams
  | CreateRuleRequest CreateClassificationRuleParams
  | UpdateRuleRequest UpdateClassificationRuleParams
  | DeleteRuleRequest DeleteClassificationRuleParams
  | MoveRuleRequest MoveClassificationRuleParams

fun serveCatalog :: "catalogRequest \<Rightarrow> World \<Rightarrow> World" where
  "serveCatalog (CreateTenantRequest p) w = snd (CreateTenant p w)"
| "serveCatalog (UpdateTenantRequest p) w = snd (UpdateTenant p w)"
| "serveCatalog (ArchiveTenantRequest p) w = snd (ArchiveTenant p w)"
| "serveCatalog (CreateInviteRequest p) w = snd (CreateTenantInvite p w)"
| "serveCatalog (AcceptInviteRequest p) w = snd (AcceptTenantInvite p w)"
| "serveCatalog (CreateAccountRequest p) w = snd (CreateAccount p w)"
| "serveCatalog (UpdateAccountRequest p) w = snd (UpdateAccount p w)"
| "serveCatalog (HideAccountRequest p) w = snd (HideAccount p w)"
| "serveCatalog (UnhideAccountRequest p) w = snd (UnhideAccount p w)"
| "serveCatalog (AttachAccountRequest p) w = snd (AttachLinkedAccount p w)"
| "serveCatalog (CreateCategoryRequest p) w = snd (CreateCategory p w)"
| "serveCatalog (UpdateCategoryRequest p) w = snd (UpdateCategory p w)"
| "serveCatalog (HideCategoryRequest p) w = snd (HideCategory p w)"
| "serveCatalog (CreateTagRequest p) w = snd (CreateTag p w)"
| "serveCatalog (UpdateTagRequest p) w = snd (UpdateTag p w)"
| "serveCatalog (HideTagRequest p) w = snd (HideTag p w)"
| "serveCatalog (CreateRuleRequest p) w = snd (RuleServiceCreate p w)"
| "serveCatalog (UpdateRuleRequest p) w = snd (RuleServiceUpdate p w)"
| "serveCatalog (DeleteRuleRequest p) w = snd (RuleServiceDelete p w)"
| "serveCatalog (MoveRuleRequest p) w = snd (RuleServiceMove p w)"

lemma serve_sound: "soundCatalog w \<Longrightarrow> soundCatalog (serveCatalog q w)"
  by (cases q) (auto intro: preservesD_snd keeps_catalog)

lemma run_sound: "soundCatalog w \<Longrightarrow> soundCatalog (fold serveCatalog qs w)"
  by (induction qs arbitrary: w) (simp_all add: serve_sound)

section \<open>Properties\<close>

text \<open>C38. Along any sequence of requests to the tenant, catalog and rule services, valid or
  not, and whatever statement fails in them: the positions of every tenant's classification
  rules stay exactly \<open>1, ..., n\<close>, and every rule keeps a category and tags that exist in its
  own tenant and are not hidden. So a rule is never stuck behind a gap or a tie, and hiding
  a category or a tag never strands a rule.\<close>

theorem rules_stay_ordered_and_live:
  assumes "soundCatalog w"
  shows "densePositions (tenantRules tenant (t_rules (w_tables (fold serveCatalog qs w)))) \<and>
    liveReferences (w_tables (fold serveCatalog qs w))"
  using run_sound [OF assms, of qs] by (simp add: soundCatalog_def soundRules_def orderedRules_def)

definition catalog_world :: World where
  "catalog_world = classification_world\<lparr>w_tables := (w_tables classification_world)
     \<lparr>t_memberships := [\<lparr>mbm_TenantID = ''t1'', mbm_UserID = ''u1'', mbm_JoinedAt = 1, mbm_CreatedAt = 1\<rparr>]\<rparr>\<rparr>"

definition example_rule :: "string \<Rightarrow> CreateClassificationRuleParams" where
  "example_rule condition = \<lparr>crp_ActorUserID = ''u1'', crp_TenantID = ''t1'',
     crp_MatchType = ClassificationMatchTypeExact, crp_Condition = condition, crp_CategoryID = ''c1'', crp_TagIDs = ['' g1'']\<rparr>"

definition example_catalog_requests :: "catalogRequest list" where
  "example_catalog_requests =
     [CreateRuleRequest (example_rule '' rent''), CreateRuleRequest (example_rule ''gym''),
      MoveRuleRequest \<lparr>mrp_ActorUserID = ''u1'', mrp_TenantID = ''t1'', mrp_RuleID = ''id'',
        mrp_Direction = ClassificationRuleMoveDirectionUp\<rparr>,
      HideCategoryRequest \<lparr>hcp_ActorUserID = ''u1'', hcp_TenantID = ''t1'', hcp_CategoryID = ''c1''\<rparr>,
      DeleteRuleRequest \<lparr>drp_ActorUserID = ''u1'', drp_TenantID = ''t1'', drp_RuleID = ''k1''\<rparr>]"

definition catalog_served :: World where
  "catalog_served = fold serveCatalog example_catalog_requests catalog_world"

lemma catalog_served_rules:
  "map (\<lambda>r. (rm_ID r, rm_Position r, rm_Condition r)) (t_rules (w_tables catalog_served)) =
   [(''id'', 1, ''rent''), (''idx'', 2, ''gym'')]"
  by code_simp

lemma catalog_world_sound: "soundCatalog catalog_world"
proof -
  have "id_of_nat n \<noteq> ''c1'' \<and> id_of_nat n \<noteq> ''g1''" for n by (simp add: id_of_nat_def)
  moreover have "inj id_of_nat" by (auto simp: inj_def id_of_nat_def dest: arg_cong [where f = length])
  ultimately show ?thesis
    by (simp add: soundCatalog_def freshCatalog_def soundRules_def orderedRules_def densePositions_def tenantRules_def
        liveReferences_def liveCategory_def liveTag_def catalog_world_def classification_world_def example_world_def
        example_tables_def)
qed

theorem rules_stay_ordered_and_live_witness:
  "densePositions (tenantRules ''t1'' (t_rules (w_tables catalog_served))) \<and> liveReferences (w_tables catalog_served)"
  unfolding catalog_served_def using catalog_world_sound by (rule rules_stay_ordered_and_live)

end
