(* ===== verification/Jobs.thy ===== *)
theory Jobs
  imports Database "HOL-Library.AList"
begin

text \<open>
  The job queue of \<^verbatim>\<open>apps/sumweave/internal/jobs\<close>: the visible row of a delivery
  (\<^verbatim>\<open>types.go\<close>) and the statements of its store (\<^verbatim>\<open>store.go\<close>). Every operation of the store
  is one SQL statement, or one statement and the read of the row it wrote; the row a worker
  holds is identified by its id, the worker and the instant of the claim, and every write of
  a holder is fenced by the three.

  \<open>jw_fault\<close> says which statement fails, \<open>jw_context n\<close> is what the \<open>n\<close>-th \<^verbatim>\<open>ctx.Err()\<close>
  returns, \<open>jw_databaseText\<close> the text of the database's own errors. \<open>jw_claims\<close> and
  \<open>jw_runOnce\<close> are the fields of the worker that its deliveries and its timer share;
  \<open>jw_waits\<close> records the waits of the worker between two attempts to write.
\<close>

section \<open>Jobs\<close>

type_synonym JobType = string
type_synonym JobStatus = string
type_synonym RequesterSource = string

definition JobStatusQueued :: JobStatus where "JobStatusQueued = ''queued''"
definition JobStatusRunning :: JobStatus where "JobStatusRunning = ''running''"
definition JobStatusSucceeded :: JobStatus where "JobStatusSucceeded = ''succeeded''"
definition JobStatusFailed :: JobStatus where "JobStatusFailed = ''failed''"

definition RequesterSourceOperator :: RequesterSource where "RequesterSourceOperator = ''operator''"
definition RequesterSourceIntegration :: RequesterSource where "RequesterSourceIntegration = ''integration''"
definition RequesterSourceSystem :: RequesterSource where "RequesterSourceSystem = ''system''"

definition defaultListLimit :: int where "defaultListLimit = 25"
definition maxListLimit :: int where "maxListLimit = 100"
definition defaultWorkerPollInterval :: duration where "defaultWorkerPollInterval = 2 * 1000000000"
definition defaultWorkerMaxAttempts :: int where "defaultWorkerMaxAttempts = 3"
definition defaultWorkerStaleRunningAge :: duration where "defaultWorkerStaleRunningAge = 30 * 60 * 1000000000"
definition maxErrorCodeLength :: nat where "maxErrorCodeLength = 128"
definition maxErrorSummaryLength :: nat where "maxErrorSummaryLength = 240"
definition maxErrorDetailsLength :: nat where "maxErrorDetailsLength = 1024"

record Requester =
  rq_UserID :: string
  rq_Source :: RequesterSource

record JobMetadata =
  jmd_JobType :: JobType
  jmd_Requester :: Requester
  jmd_ScheduleID :: string
  jmd_ScheduledAt :: "time option"
  jmd_ScheduledNextRunAt :: "time option"

record JobError =
  je_Code :: string
  je_Summary :: string
  je_Details :: string

record Job =
  job_ID :: string
  job_JobType :: JobType
  job_Status :: JobStatus
  job_Requester :: Requester
  job_Error :: "JobError option"
  job_CreatedAt :: time
  job_UpdatedAt :: time
  job_QueuedAt :: time
  job_StartedAt :: "time option"
  job_CompletedAt :: "time option"
  job_WorkerID :: string
  job_AttemptCount :: int
  job_LastAttemptAt :: "time option"
  job_ScheduleID :: string
  job_ScheduledAt :: "time option"
  job_ScheduledNextRunAt :: "time option"

record ListJobsParams =
  ljp_RequesterUserID :: string
  ljp_AllowedSources :: "RequesterSource list"
  ljp_Statuses :: "JobStatus list"
  ljp_JobTypes :: "JobType list"
  ljp_Sources :: "RequesterSource list"
  ljp_Limit :: int
  ljp_Cursor :: string

record GetJobParams =
  gjp_JobID :: string
  gjp_RequesterUserID :: string
  gjp_AllowedSources :: "RequesterSource list"

record ListJobsResult =
  ljr_Items :: "Job list"
  ljr_NextCursor :: string

record WorkerConfig =
  wc_PollInterval :: duration
  wc_MaxAttempts :: int
  wc_StaleRunningAge :: duration

definition normalizeWorkerConfig :: "WorkerConfig \<Rightarrow> WorkerConfig" where
  "normalizeWorkerConfig cfg =
     \<lparr>wc_PollInterval = (if wc_PollInterval cfg \<le> 0 then defaultWorkerPollInterval else wc_PollInterval cfg),
      wc_MaxAttempts = (if wc_MaxAttempts cfg \<le> 0 then defaultWorkerMaxAttempts else wc_MaxAttempts cfg),
      wc_StaleRunningAge =
        (if wc_StaleRunningAge cfg \<le> 0 then defaultWorkerStaleRunningAge else wc_StaleRunningAge cfg)\<rparr>"

definition normalizeListParams :: "ListJobsParams \<Rightarrow> ListJobsParams" where
  "normalizeListParams params =
     (let defaulted = (if ljp_Limit params \<le> 0 then defaultListLimit else ljp_Limit params)
      in params\<lparr>ljp_Limit := (if defaulted > maxListLimit then maxListLimit else defaulted)\<rparr>)"

definition validateReadScope :: "string \<Rightarrow> RequesterSource list \<Rightarrow> go_error + unit" where
  "validateReadScope requesterUserID allowedSources =
     (if TrimSpace requesterUserID = '''' then Inl (Errorf ''requester user ID is required'')
      else if allowedSources = [] then Inl (Errorf ''allowed requester sources are required'')
      else Inr ())"

definition intersectRequesterSources :: "RequesterSource list \<Rightarrow> RequesterSource list \<Rightarrow> RequesterSource list" where
  "intersectRequesterSources allowed requested =
     (if requested = [] then allowed else filter (\<lambda>source. source \<in> set allowed) requested)"

definition canonicalizeRequester :: "Requester \<Rightarrow> Requester" where
  "canonicalizeRequester requester =
     \<lparr>rq_UserID = TrimSpace (rq_UserID requester), rq_Source = TrimSpace (rq_Source requester)\<rparr>"

text \<open>The ellipsis is one code point of three bytes; the cut counts bytes.\<close>

definition ellipsis :: string where
  "ellipsis = map char_of_byte [226, 128, 166]"

definition truncateBounded :: "string \<Rightarrow> nat \<Rightarrow> string" where
  "truncateBounded s maxLen =
     (let trimmed = TrimSpace s
      in if length trimmed \<le> maxLen then trimmed
         else if maxLen \<le> 1 then take maxLen trimmed
         else if maxLen \<le> length ellipsis then take maxLen ellipsis
         else take (maxLen - length ellipsis) trimmed @ ellipsis)"

definition jobErrorFromExecution :: "string \<Rightarrow> go_error option \<Rightarrow> JobError option" where
  "jobErrorFromExecution databaseText err =
     (case err of
        None \<Rightarrow> None
      | Some e \<Rightarrow>
          (let message = TrimSpace (error_text databaseText e);
               summary = ''job execution failed'';
               lower = ToLower message;
               details = (if containsString lower ''gorm'' \<or> containsString lower ''sql'' \<or>
                             containsString lower ''select '' \<or> containsString lower ''insert '' \<or>
                             containsString lower ''update '' \<or> containsString lower ''delete ''
                          then summary else message)
           in Some \<lparr>je_Code = ''job_execution_failed'',
                    je_Summary = truncateBounded summary maxErrorSummaryLength,
                    je_Details = truncateBounded details maxErrorDetailsLength\<rparr>))"

text \<open>
  The failure a handler declares final (\<^verbatim>\<open>appdispatch/failure.go\<close>), found by \<^verbatim>\<open>errors.As\<close> in
  the order of \<^verbatim>\<open>Unwrap\<close>.
\<close>

record BusinessFailureError =
  bf_cause :: go_error
  bf_Code :: string
  bf_Summary :: string
  bf_Details :: string

definition NewBusinessFailure :: "go_error option \<Rightarrow> string \<Rightarrow> string \<Rightarrow> string \<Rightarrow> go_error option" where
  "NewBusinessFailure cause code summary details =
     map_option (\<lambda>e. BusinessFailure e code summary details) cause"

fun BusinessFailureFrom :: "go_error \<Rightarrow> BusinessFailureError option" where
  "BusinessFailureFrom (BusinessFailure e code summary details) =
     Some \<lparr>bf_cause = e, bf_Code = code, bf_Summary = summary, bf_Details = details\<rparr>"
| "BusinessFailureFrom (Wrap _ e) = BusinessFailureFrom e"
| "BusinessFailureFrom (WrapSuffix e _) = BusinessFailureFrom e"
| "BusinessFailureFrom (Joined d e) =
     (case BusinessFailureFrom d of Some f \<Rightarrow> Some f | None \<Rightarrow> BusinessFailureFrom e)"
| "BusinessFailureFrom (TerminalFailure e _ _ _) = BusinessFailureFrom e"
| "BusinessFailureFrom (Sentinel _) = None"
| "BusinessFailureFrom (Errorf _) = None"
| "BusinessFailureFrom (ReferencedByRules _ _) = None"
| "BusinessFailureFrom (NotFoundError _ _) = None"

definition jobErrorFromBusinessFailure :: "string \<Rightarrow> BusinessFailureError option \<Rightarrow> JobError option" where
  "jobErrorFromBusinessFailure databaseText found =
     (case found of
        None \<Rightarrow> None
      | Some failure \<Rightarrow>
          map_option (\<lambda>jobErr.
              \<lparr>je_Code = (if bf_Code failure \<noteq> '''' then truncateBounded (bf_Code failure) maxErrorCodeLength
                         else je_Code jobErr),
               je_Summary = (if bf_Summary failure \<noteq> '''' then truncateBounded (bf_Summary failure) maxErrorSummaryLength
                            else je_Summary jobErr),
               je_Details = (if bf_Details failure \<noteq> '''' then truncateBounded (bf_Details failure) maxErrorDetailsLength
                            else je_Details jobErr)\<rparr>)
            (jobErrorFromExecution databaseText (Some (bf_cause failure))))"

definition validateRequiredTimestamp :: "string \<Rightarrow> time \<Rightarrow> go_error + unit" where
  "validateRequiredTimestamp field t =
     (if IsZero t then Inl (Errorf (field @ '' must be a non-zero timestamp'')) else Inr ())"

section \<open>The table of jobs\<close>

record jobModel =
  jbm_ID :: string
  jbm_JobType :: string
  jbm_Status :: string
  jbm_RequesterUserID :: string
  jbm_RequesterSource :: string
  jbm_ErrorCode :: string
  jbm_ErrorSummary :: string
  jbm_ErrorDetails :: string
  jbm_CreatedAt :: time
  jbm_UpdatedAt :: time
  jbm_QueuedAt :: time
  jbm_StartedAt :: "time option"
  jbm_CompletedAt :: "time option"
  jbm_WorkerID :: string
  jbm_AttemptCount :: int
  jbm_LastAttemptAt :: "time option"
  jbm_ScheduleID :: string
  jbm_ScheduledAt :: "time option"
  jbm_ScheduledNextRunAt :: "time option"

record terminalJobState =
  tjs_status :: JobStatus
  tjs_workerID :: string
  tjs_jobError :: "JobError option"
  tjs_completedAt :: time

record runOnceTracker =
  rt_active :: "(string \<times> int) list"
  rt_pendingRetries :: "string list"

record JobWorld =
  jw_jobs :: "jobModel list"
  jw_statement :: nat
  jw_fault :: "nat \<Rightarrow> go_error option"
  jw_timesRead :: nat
  jw_clock :: "nat \<Rightarrow> time"
  jw_contextChecks :: nat
  jw_context :: "nat \<Rightarrow> go_error option"
  jw_databaseText :: string
  jw_claims :: "(string \<times> Job) list"
  jw_runOnce :: "runOnceTracker option"
  jw_waits :: "duration list"

definition newJobModel :: "Job \<Rightarrow> jobModel" where
  "newJobModel job =
     \<lparr>jbm_ID = TrimSpace (job_ID job),
      jbm_JobType = job_JobType job,
      jbm_Status = job_Status job,
      jbm_RequesterUserID = TrimSpace (rq_UserID (job_Requester job)),
      jbm_RequesterSource = TrimSpace (rq_Source (job_Requester job)),
      jbm_ErrorCode = (case job_Error job of None \<Rightarrow> '''' | Some e \<Rightarrow> truncateBounded (je_Code e) maxErrorCodeLength),
      jbm_ErrorSummary =
        (case job_Error job of None \<Rightarrow> '''' | Some e \<Rightarrow> truncateBounded (je_Summary e) maxErrorSummaryLength),
      jbm_ErrorDetails =
        (case job_Error job of None \<Rightarrow> '''' | Some e \<Rightarrow> truncateBounded (je_Details e) maxErrorDetailsLength),
      jbm_CreatedAt = job_CreatedAt job,
      jbm_UpdatedAt = job_UpdatedAt job,
      jbm_QueuedAt = job_QueuedAt job,
      jbm_StartedAt = job_StartedAt job,
      jbm_CompletedAt = job_CompletedAt job,
      jbm_WorkerID = TrimSpace (job_WorkerID job),
      jbm_AttemptCount = job_AttemptCount job,
      jbm_LastAttemptAt = job_LastAttemptAt job,
      jbm_ScheduleID = TrimSpace (job_ScheduleID job),
      jbm_ScheduledAt = job_ScheduledAt job,
      jbm_ScheduledNextRunAt = job_ScheduledNextRunAt job\<rparr>"

definition jobFromModel :: "jobModel \<Rightarrow> Job" where
  "jobFromModel model =
     \<lparr>job_ID = jbm_ID model,
      job_JobType = jbm_JobType model,
      job_Status = jbm_Status model,
      job_Requester = \<lparr>rq_UserID = jbm_RequesterUserID model, rq_Source = jbm_RequesterSource model\<rparr>,
      job_Error =
        (if jbm_ErrorCode model \<noteq> '''' \<or> jbm_ErrorSummary model \<noteq> '''' \<or> jbm_ErrorDetails model \<noteq> ''''
         then Some \<lparr>je_Code = jbm_ErrorCode model, je_Summary = jbm_ErrorSummary model,
                    je_Details = jbm_ErrorDetails model\<rparr>
         else None),
      job_CreatedAt = jbm_CreatedAt model,
      job_UpdatedAt = jbm_UpdatedAt model,
      job_QueuedAt = jbm_QueuedAt model,
      job_StartedAt = jbm_StartedAt model,
      job_CompletedAt = jbm_CompletedAt model,
      job_WorkerID = jbm_WorkerID model,
      job_AttemptCount = jbm_AttemptCount model,
      job_LastAttemptAt = jbm_LastAttemptAt model,
      job_ScheduleID = jbm_ScheduleID model,
      job_ScheduledAt = jbm_ScheduledAt model,
      job_ScheduledNextRunAt = jbm_ScheduledNextRunAt model\<rparr>"

subsection \<open>Statements\<close>

definition jobSQL :: "(jobModel list \<Rightarrow> 'a \<times> jobModel list) \<Rightarrow> (JobWorld, 'a) action" where
  "jobSQL run w =
     (case jw_fault w (jw_statement w) of
        Some e \<Rightarrow> (Inl e, w\<lparr>jw_statement := Suc (jw_statement w)\<rparr>)
      | None \<Rightarrow>
          (case run (jw_jobs w) of
             (a, jobs) \<Rightarrow> (Inr a, w\<lparr>jw_statement := Suc (jw_statement w), jw_jobs := jobs\<rparr>)))"

definition readJobs :: "(jobModel list \<Rightarrow> 'a) \<Rightarrow> (JobWorld, 'a) action" where
  "readJobs query = jobSQL (\<lambda>jobs. (query jobs, jobs))"

text \<open>\<^verbatim>\<open>UPDATE ... WHERE\<close> with the number of affected rows.\<close>

definition updateJobs :: "(jobModel \<Rightarrow> bool) \<Rightarrow> (jobModel \<Rightarrow> jobModel) \<Rightarrow> (JobWorld, nat) action" where
  "updateJobs wanted change =
     jobSQL (\<lambda>jobs. (length (filter wanted jobs), map (\<lambda>r. if wanted r then change r else r) jobs))"

definition jobClock :: "JobWorld \<Rightarrow> time \<times> JobWorld" where
  "jobClock w = (jw_clock w (jw_timesRead w), w\<lparr>jw_timesRead := Suc (jw_timesRead w)\<rparr>)"

definition jobContextErr :: "JobWorld \<Rightarrow> go_error option \<times> JobWorld" where
  "jobContextErr w = (jw_context w (jw_contextChecks w), w\<lparr>jw_contextChecks := Suc (jw_contextChecks w)\<rparr>)"

subsection \<open>Reads\<close>

text \<open>\<^verbatim>\<open>Store.Get\<close>, \<^verbatim>\<open>Store.GetForRequester\<close> and \<^verbatim>\<open>Store.List\<close>.\<close>

definition GetJob :: "string \<Rightarrow> (JobWorld, Job) action" where
  "GetJob jobID =
     bindA (wrapA ''get job'' (readJobs (lookupRow jbm_ID (TrimSpace jobID)))) (\<lambda>found.
       case found of None \<Rightarrow> failA (Sentinel ErrJobNotFound) | Some model \<Rightarrow> returnA (jobFromModel model))"

definition requesterJobs :: "GetJobParams \<Rightarrow> jobModel list \<Rightarrow> jobModel list" where
  "requesterJobs params =
     filter (\<lambda>r. jbm_ID r = TrimSpace (gjp_JobID params) \<and>
       jbm_RequesterUserID r = TrimSpace (gjp_RequesterUserID params) \<and>
       jbm_RequesterSource r \<in> set (gjp_AllowedSources params))"

definition GetForRequester :: "GetJobParams \<Rightarrow> (JobWorld, Job) action" where
  "GetForRequester params =
     bindA (resultA (validateReadScope (gjp_RequesterUserID params) (gjp_AllowedSources params))) (\<lambda>_.
     bindA (wrapA ''get requester-scoped job'' (readJobs (\<lambda>jobs. firstRow (requesterJobs params jobs)))) (\<lambda>found.
       case found of None \<Rightarrow> failA (Sentinel ErrJobNotFound) | Some model \<Rightarrow> returnA (jobFromModel model)))"

text \<open>
  A cursor is the text \<^verbatim>\<open>created_at|id\<close> in base 64. The base 64 and the RFC 3339 text of an
  instant are arguments of the model.
\<close>

record cursor_codec =
  cc_encode :: "string \<Rightarrow> string"
  cc_decode :: "string \<Rightarrow> go_error + string"
  cc_formatTime :: "time \<Rightarrow> string"
  cc_parseTime :: "string \<Rightarrow> time option"

definition encodeCursor :: "cursor_codec \<Rightarrow> time \<Rightarrow> string \<Rightarrow> string" where
  "encodeCursor codec createdAt jobID = cc_encode codec (cc_formatTime codec createdAt @ ''|'' @ jobID)"

definition decodeCursor :: "cursor_codec \<Rightarrow> string \<Rightarrow> go_error + (time \<times> string)" where
  "decodeCursor codec cursor =
     (case cc_decode codec (TrimSpace cursor) of
        Inl e \<Rightarrow> Inl e
      | Inr raw \<Rightarrow>
          (case dropWhile (\<lambda>c. c \<noteq> CHR ''|'') raw of
             [] \<Rightarrow> Inl (Errorf ''invalid cursor'')
           | _ # rest \<Rightarrow>
               if TrimSpace rest = '''' then Inl (Errorf ''invalid cursor'')
               else (case cc_parseTime codec (takeWhile (\<lambda>c. c \<noteq> CHR ''|'') raw) of
                       None \<Rightarrow> Inl (Errorf ''invalid cursor timestamp'')
                     | Some parsed \<Rightarrow> Inr (parsed, rest))))"

definition jobPage ::
  "ListJobsParams \<Rightarrow> RequesterSource list \<Rightarrow> (time \<times> string) option \<Rightarrow> jobModel list \<Rightarrow> jobModel list" where
  "jobPage params sources after jobs =
     take (nat (ljp_Limit params)) (orderDesc (\<lambda>r. (jbm_CreatedAt r, jbm_ID r)) (filter (\<lambda>r.
       jbm_RequesterUserID r = TrimSpace (ljp_RequesterUserID params) \<and>
       jbm_RequesterSource r \<in> set sources \<and>
       (ljp_Statuses params \<noteq> [] \<longrightarrow> jbm_Status r \<in> set (ljp_Statuses params)) \<and>
       (ljp_JobTypes params \<noteq> [] \<longrightarrow> jbm_JobType r \<in> set (ljp_JobTypes params)) \<and>
       (case after of None \<Rightarrow> True
        | Some (createdAt, jobID) \<Rightarrow>
            jbm_CreatedAt r < createdAt \<or> jbm_CreatedAt r = createdAt \<and> jbm_ID r < jobID)) jobs))"

definition ListJobs :: "cursor_codec \<Rightarrow> ListJobsParams \<Rightarrow> (JobWorld, ListJobsResult) action" where
  "ListJobs codec params0 =
     bindA (resultA (validateReadScope (ljp_RequesterUserID params0) (ljp_AllowedSources params0))) (\<lambda>_.
       let params = normalizeListParams params0;
           sources = intersectRequesterSources (ljp_AllowedSources params) (ljp_Sources params)
       in if sources = [] then returnA \<lparr>ljr_Items = [], ljr_NextCursor = ''''\<rparr>
          else
            bindA (if ljp_Cursor params = '''' then returnA None
                   else wrapA ''decode cursor'' (resultA (map_sum id Some (decodeCursor codec (ljp_Cursor params)))))
            (\<lambda>after.
            bindA (wrapA ''list jobs'' (readJobs (jobPage params sources after))) (\<lambda>models.
              returnA \<lparr>ljr_Items = map jobFromModel models,
                       ljr_NextCursor =
                         (if int (length models) = ljp_Limit params
                          then encodeCursor codec (jbm_CreatedAt (last models)) (jbm_ID (last models))
                          else '''')\<rparr>)))"

subsection \<open>Writes\<close>

definition insertJob :: "jobModel \<Rightarrow> jobModel list \<Rightarrow> jobModel list" where
  "insertJob model jobs = (if jbm_ID model \<in> jbm_ID ` set jobs then jobs else jobs @ [model])"

definition MaterializeQueued :: "Job \<Rightarrow> (JobWorld, Job) action" where
  "MaterializeQueued job =
     bindA (wrapA ''materialize queued job'' (jobSQL (\<lambda>jobs. ((), insertJob (newJobModel job) jobs)))) (\<lambda>_.
       wrapA ''get materialized job'' (GetJob (job_ID job)))"

definition claimRow :: "string \<Rightarrow> time \<Rightarrow> jobModel \<Rightarrow> jobModel" where
  "claimRow workerID claimedAt r =
     r\<lparr>jbm_Status := JobStatusRunning, jbm_WorkerID := TrimSpace workerID,
       jbm_AttemptCount := jbm_AttemptCount r + 1, jbm_LastAttemptAt := Some claimedAt,
       jbm_StartedAt := Some claimedAt, jbm_UpdatedAt := claimedAt\<rparr>"

definition claimUpdate :: "string \<Rightarrow> string \<Rightarrow> time \<Rightarrow> (JobWorld, nat) action" where
  "claimUpdate jobID workerID claimedAt =
     updateJobs (\<lambda>r. jbm_ID r = TrimSpace jobID \<and> jbm_Status r = JobStatusQueued) (claimRow workerID claimedAt)"

definition ClaimQueued :: "string \<Rightarrow> string \<Rightarrow> time \<Rightarrow> (JobWorld, Job) action" where
  "ClaimQueued jobID workerID claimedAt =
     bindA (resultA (validateRequiredTimestamp ''claimedAt'' claimedAt)) (\<lambda>_.
     bindA (wrapA ''claim queued job'' (claimUpdate jobID workerID claimedAt)) (\<lambda>affected.
       if affected = 0 then failA (Sentinel ErrJobNotQueued) else GetJob jobID))"

text \<open>The row a claim still holds; a comparison with a missing start is never true in SQL.\<close>

definition heldBy :: "Job \<Rightarrow> jobModel \<Rightarrow> bool" where
  "heldBy claim r \<longleftrightarrow>
     jbm_ID r = TrimSpace (job_ID claim) \<and> jbm_Status r = JobStatusRunning \<and>
     jbm_WorkerID r = TrimSpace (job_WorkerID claim) \<and>
     job_StartedAt claim \<noteq> None \<and> jbm_StartedAt r = job_StartedAt claim"

text \<open>The end of the fenced writes: no affected row means that the claim is lost.\<close>

definition claimChecked :: "string \<Rightarrow> (JobWorld, nat) action \<Rightarrow> (JobWorld, unit) action" where
  "claimChecked msg update =
     bindA (wrapA msg update) (\<lambda>affected.
       if affected = 0 then failA (Sentinel ErrJobClaimLost) else returnA ())"

definition terminalStateUpdates :: "terminalJobState \<Rightarrow> jobModel \<Rightarrow> jobModel" where
  "terminalStateUpdates state r =
     r\<lparr>jbm_Status := tjs_status state, jbm_WorkerID := TrimSpace (tjs_workerID state),
       jbm_ErrorCode :=
         (case tjs_jobError state of None \<Rightarrow> '''' | Some e \<Rightarrow> truncateBounded (je_Code e) maxErrorCodeLength),
       jbm_ErrorSummary :=
         (case tjs_jobError state of None \<Rightarrow> '''' | Some e \<Rightarrow> truncateBounded (je_Summary e) maxErrorSummaryLength),
       jbm_ErrorDetails :=
         (case tjs_jobError state of None \<Rightarrow> '''' | Some e \<Rightarrow> truncateBounded (je_Details e) maxErrorDetailsLength),
       jbm_CompletedAt := Some (tjs_completedAt state), jbm_UpdatedAt := tjs_completedAt state\<rparr>"

definition storePersistTerminalState :: "Job \<Rightarrow> terminalJobState \<Rightarrow> (JobWorld, unit) action" where
  "storePersistTerminalState claim state =
     claimChecked ''persist terminal job state'' (updateJobs (heldBy claim) (terminalStateUpdates state))"

definition FinalizeRetryExhausted :: "string \<Rightarrow> time \<Rightarrow> terminalJobState \<Rightarrow> (JobWorld, unit) action" where
  "FinalizeRetryExhausted jobID queuedAt state =
     claimChecked ''finalize exhausted job retries''
       (updateJobs (\<lambda>r. jbm_ID r = TrimSpace jobID \<and> jbm_Status r = JobStatusQueued \<and> jbm_QueuedAt r = queuedAt)
          (terminalStateUpdates state))"

definition requeueRow :: "time \<Rightarrow> jobModel \<Rightarrow> jobModel" where
  "requeueRow queuedAt r =
     r\<lparr>jbm_Status := JobStatusQueued, jbm_WorkerID := '''', jbm_StartedAt := None,
       jbm_QueuedAt := queuedAt, jbm_UpdatedAt := queuedAt\<rparr>"

definition RequeueRunning :: "Job \<Rightarrow> time \<Rightarrow> (JobWorld, unit) action" where
  "RequeueRunning claim queuedAt =
     bindA (resultA (validateRequiredTimestamp ''queuedAt'' queuedAt)) (\<lambda>_.
       claimChecked ''requeue running job'' (updateJobs (heldBy claim) (requeueRow queuedAt)))"

definition RenewRunning :: "Job \<Rightarrow> time \<Rightarrow> (JobWorld, unit) action" where
  "RenewRunning claim renewedAt =
     bindA (resultA (validateRequiredTimestamp ''renewedAt'' renewedAt)) (\<lambda>_.
       claimChecked ''renew running job claim''
         (updateJobs (heldBy claim) (\<lambda>r. r\<lparr>jbm_UpdatedAt := renewedAt\<rparr>)))"

definition newSucceededTerminalJobState :: "string \<Rightarrow> time \<Rightarrow> terminalJobState" where
  "newSucceededTerminalJobState workerID completedAt =
     \<lparr>tjs_status = JobStatusSucceeded, tjs_workerID = workerID, tjs_jobError = None, tjs_completedAt = completedAt\<rparr>"

definition newFailedTerminalJobState :: "string \<Rightarrow> JobError option \<Rightarrow> time \<Rightarrow> terminalJobState" where
  "newFailedTerminalJobState workerID jobErr completedAt =
     \<lparr>tjs_status = JobStatusFailed, tjs_workerID = workerID, tjs_jobError = jobErr, tjs_completedAt = completedAt\<rparr>"

subsection \<open>Recovery of stale claims\<close>

definition staleRequeued :: "time \<Rightarrow> jobModel \<Rightarrow> jobModel" where
  "staleRequeued now r =
     r\<lparr>jbm_Status := JobStatusQueued, jbm_UpdatedAt := now, jbm_QueuedAt := now,
       jbm_StartedAt := None, jbm_WorkerID := '''', jbm_ErrorCode := ''stale_running_requeued'',
       jbm_ErrorSummary := ''stale running job requeued'',
       jbm_ErrorDetails := ''startup recovery requeued a stale running job''\<rparr>"

definition staleExhausted :: "time \<Rightarrow> jobModel \<Rightarrow> jobModel" where
  "staleExhausted now r =
     r\<lparr>jbm_Status := JobStatusFailed, jbm_UpdatedAt := now, jbm_CompletedAt := Some now,
       jbm_ErrorCode := ''stale_running_attempts_exhausted'',
       jbm_ErrorSummary := ''stale running job attempts exhausted'',
       jbm_ErrorDetails := ''startup recovery marked job failed after attempts were exhausted''\<rparr>"

definition recoverStaleRunningModel :: "jobModel \<Rightarrow> time \<Rightarrow> int \<Rightarrow> (JobWorld, unit) action" where
  "recoverStaleRunningModel model now maxAttempts =
     bindA (wrapA (''recover stale running job '' @ jbm_ID model)
       (updateJobs
          (\<lambda>r. jbm_ID r = jbm_ID model \<and> jbm_Status r = JobStatusRunning \<and> jbm_WorkerID r = jbm_WorkerID model \<and>
               jbm_StartedAt model \<noteq> None \<and> jbm_StartedAt r = jbm_StartedAt model \<and>
               jbm_UpdatedAt r = jbm_UpdatedAt model)
          (if jbm_AttemptCount model \<ge> maxAttempts then staleExhausted now else staleRequeued now)))
       (\<lambda>_. returnA ())"

fun recoverStaleModels :: "jobModel list \<Rightarrow> time \<Rightarrow> int \<Rightarrow> (JobWorld, unit) action" where
  "recoverStaleModels [] now maxAttempts = returnA ()"
| "recoverStaleModels (model # models) now maxAttempts =
     bindA (recoverStaleRunningModel model now maxAttempts) (\<lambda>_. recoverStaleModels models now maxAttempts)"

definition RecoverStaleRunning :: "time \<Rightarrow> duration \<Rightarrow> int \<Rightarrow> (JobWorld, unit) action" where
  "RecoverStaleRunning now staleRunningAge maxAttempts =
     bindA (resultA (validateRequiredTimestamp ''now'' now)) (\<lambda>_.
       if staleRunningAge \<le> 0 then failA (Errorf ''stale running age must be positive'')
       else
         bindA (wrapA ''list stale running jobs''
           (readJobs (filter (\<lambda>r. jbm_Status r = JobStatusRunning \<and> jbm_UpdatedAt r \<le> now - staleRunningAge))))
           (\<lambda>models. recoverStaleModels models now maxAttempts))"

end
