(* ===== verification/JobWorker.thy ===== *)
theory JobWorker
  imports Jobs
begin

text \<open>
  The worker of the job queue (\<^verbatim>\<open>worker.go\<close>), the registry of its handlers
  (\<^verbatim>\<open>registry.go\<close>) and the read service (\<^verbatim>\<open>service.go\<close>): one delivery of a message from the
  router, the write of the outcome that is tried until it holds, the recovery of stale claims
  and the renewal of the worker's own.

  A handler is arbitrary code; \<open>oh_execute\<close> is what it does to the world, with the error it
  returns or its panic. Waiting for the database may never end, so the operations that
  persist an outcome have \<open>None\<close> for a run that does not return.
\<close>

section \<open>Handlers\<close>

datatype handlerOutcome = HandlerDone | HandlerFailed go_error | HandlerPanicked

record observedHandler =
  oh_topic :: string
  oh_jobType :: JobType
  oh_metadata :: "string \<Rightarrow> go_error + JobMetadata"
  oh_execute :: "Job \<Rightarrow> string \<Rightarrow> JobWorld \<Rightarrow> handlerOutcome \<times> JobWorld"

type_synonym Registry = "observedHandler list"

definition registryRegister :: "Registry \<Rightarrow> observedHandler option \<Rightarrow> go_error + Registry" where
  "registryRegister registry handler =
     (case handler of
        None \<Rightarrow> Inl (Errorf ''job handler is required'')
      | Some h \<Rightarrow>
          if oh_topic h \<in> oh_topic ` set registry
          then Inl (Errorf (''observed job handler already registered for topic: '' @ oh_topic h))
          else Inr (registry @ [h]))"

definition registryHandler :: "Registry option \<Rightarrow> string \<Rightarrow> go_error + observedHandler" where
  "registryHandler registry topic =
     (case registry of
        None \<Rightarrow> Inl (Sentinel ErrHandlerNotRegistered)
      | Some handlers \<Rightarrow>
          (case lookupRow oh_topic topic handlers of
             None \<Rightarrow> Inl (WrapSuffix (Sentinel ErrHandlerNotRegistered) topic)
           | Some h \<Rightarrow> Inr h))"

definition registryHandlers :: "Registry option \<Rightarrow> observedHandler list" where
  "registryHandlers registry = (case registry of None \<Rightarrow> [] | Some handlers \<Rightarrow> handlers)"

text \<open>
  A typed handler decodes the payload for itself, once for the metadata and once for the run;
  the decoder of the input type is an argument.
\<close>

record 'i TypedHandlerSpec =
  ths_JobType :: JobType
  ths_Topic :: string
  ths_Metadata :: "('i \<Rightarrow> go_error + JobMetadata) option"
  ths_Run :: "(Job \<Rightarrow> 'i \<Rightarrow> JobWorld \<Rightarrow> handlerOutcome \<times> JobWorld) option"

definition registeredTypedHandler ::
  "(string \<Rightarrow> go_error + 'i) \<Rightarrow> JobType \<Rightarrow> string \<Rightarrow> ('i \<Rightarrow> go_error + JobMetadata) \<Rightarrow>
   (Job \<Rightarrow> 'i \<Rightarrow> JobWorld \<Rightarrow> handlerOutcome \<times> JobWorld) \<Rightarrow> observedHandler" where
  "registeredTypedHandler decode jobType topic metadata run =
     \<lparr>oh_topic = topic, oh_jobType = jobType,
      oh_metadata = (\<lambda>payload.
        case decode payload of
          Inl e \<Rightarrow> Inl (Wrap ''decode observed job payload'' e)
        | Inr decoded \<Rightarrow> metadata decoded),
      oh_execute = (\<lambda>job payload w.
        case decode payload of
          Inl e \<Rightarrow> (HandlerFailed (Wrap ''decode job payload'' e), w)
        | Inr decoded \<Rightarrow> run job decoded w)\<rparr>"

definition RegisterTypedHandler ::
  "(string \<Rightarrow> go_error + 'i) \<Rightarrow> Registry option \<Rightarrow> 'i TypedHandlerSpec \<Rightarrow> go_error + Registry" where
  "RegisterTypedHandler decode registry spec =
     (case registry of
        None \<Rightarrow> Inl (Errorf ''job registry is required'')
      | Some handlers \<Rightarrow>
          if ths_Topic spec = '''' then Inl (Errorf ''observed job handler topic is required'')
          else if ths_JobType spec = '''' then Inl (Errorf ''observed job type is required'')
          else (case ths_Metadata spec of
                  None \<Rightarrow> Inl (Errorf ''observed job metadata mapper is required'')
                | Some metadata \<Rightarrow>
                    (case ths_Run spec of
                       None \<Rightarrow> Inl (Errorf ''job handler run func is required'')
                     | Some run \<Rightarrow>
                         registryRegister handlers (Some
                           (registeredTypedHandler decode (ths_JobType spec) (ths_Topic spec) metadata run)))))"

section \<open>The shared fields of the worker\<close>

record Message =
  msg_ID :: string
  msg_Payload :: string

record JobWorker =
  wk_workerID :: string
  wk_config :: WorkerConfig

definition activeCount :: "runOnceTracker \<Rightarrow> string \<Rightarrow> int" where
  "activeCount t jobID = (case map_of (rt_active t) jobID of None \<Rightarrow> 0 | Some n \<Rightarrow> n)"

definition startDelivery :: "string \<Rightarrow> runOnceTracker \<Rightarrow> runOnceTracker" where
  "startDelivery jobID t =
     \<lparr>rt_active = AList.update jobID (activeCount t jobID + 1) (rt_active t),
      rt_pendingRetries = removeAll jobID (rt_pendingRetries t)\<rparr>"

definition finishDelivery :: "string \<Rightarrow> runOnceTracker \<Rightarrow> runOnceTracker" where
  "finishDelivery jobID t =
     (if activeCount t jobID \<le> 1 then t\<lparr>rt_active := AList.delete jobID (rt_active t)\<rparr>
      else t\<lparr>rt_active := AList.update jobID (activeCount t jobID - 1) (rt_active t)\<rparr>)"

definition startRetry :: "string \<Rightarrow> runOnceTracker \<Rightarrow> runOnceTracker" where
  "startRetry jobID t = t\<lparr>rt_pendingRetries := List.insert jobID (rt_pendingRetries t)\<rparr>"

definition finishRetry :: "string \<Rightarrow> runOnceTracker \<Rightarrow> runOnceTracker" where
  "finishRetry jobID t = t\<lparr>rt_pendingRetries := removeAll jobID (rt_pendingRetries t)\<rparr>"

definition trackerIsIdle :: "runOnceTracker \<Rightarrow> bool" where
  "trackerIsIdle t \<longleftrightarrow> rt_active t = [] \<and> rt_pendingRetries t = []"

definition withTracker :: "(runOnceTracker \<Rightarrow> runOnceTracker) \<Rightarrow> JobWorld \<Rightarrow> JobWorld" where
  "withTracker f w = w\<lparr>jw_runOnce := map_option f (jw_runOnce w)\<rparr>"

definition startRunOnceRetry :: "string \<Rightarrow> JobWorld \<Rightarrow> JobWorld" where
  "startRunOnceRetry messageID = withTracker (startRetry messageID)"

definition finishRunOnceRetry :: "string \<Rightarrow> JobWorld \<Rightarrow> JobWorld" where
  "finishRunOnceRetry messageID = withTracker (finishRetry messageID)"

definition trackClaim :: "Job \<Rightarrow> JobWorld \<Rightarrow> JobWorld" where
  "trackClaim claim w = w\<lparr>jw_claims := AList.update (job_ID claim) claim (jw_claims w)\<rparr>"

definition releaseClaim :: "string \<Rightarrow> JobWorld \<Rightarrow> JobWorld" where
  "releaseClaim jobID w = w\<lparr>jw_claims := AList.delete jobID (jw_claims w)\<rparr>"

text \<open>Go visits the map in no fixed order; here it is the order of the list.\<close>

definition runningClaims :: "JobWorld \<Rightarrow> Job list" where
  "runningClaims w = map snd (jw_claims w)"

section \<open>Persisting an outcome\<close>

definition terminalPersistenceRetryInterval :: duration where
  "terminalPersistenceRetryInterval = 100 * 1000000"

definition terminalPersistenceRecoveryInterval :: duration where
  "terminalPersistenceRecoveryInterval = 1000000000"

definition nextRetryInterval :: "duration \<Rightarrow> duration" where
  "nextRetryInterval interval =
     (if interval < terminalPersistenceRecoveryInterval
      then (if interval * 2 > terminalPersistenceRecoveryInterval then terminalPersistenceRecoveryInterval
            else interval * 2)
      else interval)"

text \<open>
  One round: write, leave on success, on a lost claim and on a cancelled context, wait
  otherwise. While it waits the worker sees a cancellation first or the timer first: the
  second question to the context.
\<close>

partial_function (option) persistLoop ::
  "(JobWorld, unit) action \<Rightarrow> duration \<Rightarrow> JobWorld \<Rightarrow> ((go_error + unit) \<times> JobWorld) option" where
  "persistLoop persist interval w =
     (case persist w of
        (Inr _, w1) \<Rightarrow> Some (Inr (), w1)
      | (Inl e, w1) \<Rightarrow>
          if errors_is e ErrJobClaimLost then Some (Inl e, w1)
          else
            (case jobContextErr w1 of
               (Some c, w2) \<Rightarrow> Some (Inl (Joined c (Wrap ''persist job terminal state'' e)), w2)
             | (None, w2) \<Rightarrow>
                 (case jobContextErr w2 of
                    (Some c, w3) \<Rightarrow> Some (Inl c, w3)
                  | (None, w3) \<Rightarrow>
                      persistLoop persist (nextRetryInterval interval)
                        (w3\<lparr>jw_waits := jw_waits w3 @ [interval]\<rparr>))))"

declare persistLoop.simps [code]

definition persistTerminal ::
  "terminalJobState \<Rightarrow> (JobWorld, unit) action \<Rightarrow> JobWorld \<Rightarrow> ((go_error + unit) \<times> JobWorld) option" where
  "persistTerminal state persist w =
     (case validateRequiredTimestamp ''completedAt'' (tjs_completedAt state) of
        Inl e \<Rightarrow> Some (Inl e, w)
      | Inr _ \<Rightarrow> persistLoop persist terminalPersistenceRetryInterval w)"

definition workerPersistTerminalState ::
  "Job \<Rightarrow> terminalJobState \<Rightarrow> JobWorld \<Rightarrow> ((go_error + unit) \<times> JobWorld) option" where
  "workerPersistTerminalState claim state = persistTerminal state (storePersistTerminalState claim state)"

definition workerFinalizeRetryExhausted ::
  "string \<Rightarrow> time \<Rightarrow> terminalJobState \<Rightarrow> JobWorld \<Rightarrow> ((go_error + unit) \<times> JobWorld) option" where
  "workerFinalizeRetryExhausted jobID queuedAt state =
     persistTerminal state (FinalizeRetryExhausted jobID queuedAt state)"

section \<open>A delivery\<close>

text \<open>
  What the router sees of a delivery: it is acknowledged; it is left alone because the job
  runs elsewhere (\<^verbatim>\<open>runningJobDeliveryError\<close>); it is tried again, with the action for the
  case that no try is left (\<^verbatim>\<open>exhaustedRetryError\<close>: the error, the id and the instant the job
  was queued again); another error; or the panic of the handler, or of its requeue.
\<close>

datatype delivery =
    Acknowledged
  | RunningElsewhere string
  | RetryDelivery go_error string time
  | DeliveryError go_error
  | DeliveryPanicked

fun deliveryOf :: "go_error + unit \<Rightarrow> delivery" where
  "deliveryOf (Inr _) = Acknowledged"
| "deliveryOf (Inl e) = DeliveryError e"

definition persistOutcome ::
  "Job \<Rightarrow> (time \<Rightarrow> terminalJobState) \<Rightarrow> JobWorld \<Rightarrow> (delivery \<times> JobWorld) option" where
  "persistOutcome claimed state w =
     (case jobClock w of
        (now, w1) \<Rightarrow>
          map_option (map_prod deliveryOf id) (workerPersistTerminalState claimed (state now) w1))"

definition requeueForRetry :: "Job \<Rightarrow> go_error \<Rightarrow> JobWorld \<Rightarrow> delivery \<times> JobWorld" where
  "requeueForRetry claimed e w =
     (case jobClock w of
        (queuedAt, w1) \<Rightarrow>
          (case jobContextErr w1 of
             (_, w2) \<Rightarrow>
               (case RequeueRunning claimed queuedAt w2 of
                  (Inl re, w3) \<Rightarrow> (DeliveryError (Wrap ''requeue transient observed job'' re), w3)
                | (Inr _, w3) \<Rightarrow> (RetryDelivery e (job_ID claimed) queuedAt, w3))))"

definition requeuePanicked :: "Job \<Rightarrow> JobWorld \<Rightarrow> delivery \<times> JobWorld" where
  "requeuePanicked claimed w =
     (case jobClock w of
        (queuedAt, w1) \<Rightarrow> (case RequeueRunning claimed queuedAt w1 of (_, w2) \<Rightarrow> (DeliveryPanicked, w2)))"

definition executeClaimedObserved ::
  "JobWorker \<Rightarrow> observedHandler \<Rightarrow> Message \<Rightarrow> Job \<Rightarrow> JobWorld \<Rightarrow> (delivery \<times> JobWorld) option" where
  "executeClaimedObserved wk handler message claimed w =
     (case oh_execute handler claimed (msg_Payload message) w of
        (HandlerDone, w1) \<Rightarrow>
          persistOutcome claimed (newSucceededTerminalJobState (wk_workerID wk)) w1
      | (HandlerFailed e, w1) \<Rightarrow>
          (case BusinessFailureFrom e of
             Some failure \<Rightarrow>
               persistOutcome claimed
                 (newFailedTerminalJobState (wk_workerID wk)
                    (jobErrorFromBusinessFailure (jw_databaseText w1) (Some failure))) w1
           | None \<Rightarrow> Some (requeueForRetry claimed e w1))
      | (HandlerPanicked, w1) \<Rightarrow> Some (requeuePanicked claimed w1))"

text \<open>\<^verbatim>\<open>exhaustedRetryError.OnRetriesExhausted\<close>, called by the router after the last try.\<close>

definition onRetriesExhausted ::
  "JobWorker \<Rightarrow> go_error \<Rightarrow> string \<Rightarrow> time \<Rightarrow> JobWorld \<Rightarrow> ((go_error + unit) \<times> JobWorld) option" where
  "onRetriesExhausted wk e jobID queuedAt w =
     (case jobClock w of
        (now, w1) \<Rightarrow>
          workerFinalizeRetryExhausted jobID queuedAt
            (newFailedTerminalJobState (wk_workerID wk)
               (jobErrorFromExecution (jw_databaseText w1) (Some e)) now) w1)"

definition queuedJob :: "string \<Rightarrow> JobMetadata \<Rightarrow> time \<Rightarrow> Job" where
  "queuedJob messageID metadata now =
     \<lparr>job_ID = messageID, job_JobType = jmd_JobType metadata, job_Status = JobStatusQueued,
      job_Requester = canonicalizeRequester (jmd_Requester metadata), job_Error = None,
      job_CreatedAt = now, job_UpdatedAt = now, job_QueuedAt = now,
      job_StartedAt = None, job_CompletedAt = None, job_WorkerID = '''',
      job_AttemptCount = 0, job_LastAttemptAt = None,
      job_ScheduleID = jmd_ScheduleID metadata, job_ScheduledAt = jmd_ScheduledAt metadata,
      job_ScheduledNextRunAt = jmd_ScheduledNextRunAt metadata\<rparr>"

definition claimObserved ::
  "JobWorker \<Rightarrow> observedHandler \<Rightarrow> Message \<Rightarrow> Job \<Rightarrow> JobWorld \<Rightarrow> (delivery \<times> JobWorld) option" where
  "claimObserved wk handler message job w =
     (case jobClock w of
        (claimedAt, w1) \<Rightarrow>
          (case ClaimQueued (job_ID job) (wk_workerID wk) claimedAt w1 of
             (Inl e, w2) \<Rightarrow>
               if errors_is e ErrJobNotQueued then Some (Acknowledged, w2)
               else Some (DeliveryError (Wrap ''claim observed job'' e), w2)
           | (Inr claimed, w2) \<Rightarrow>
               map_option (map_prod id (releaseClaim (job_ID claimed)))
                 (executeClaimedObserved wk handler message claimed (trackClaim claimed w2))))"

definition materializeObserved ::
  "JobWorker \<Rightarrow> observedHandler \<Rightarrow> Message \<Rightarrow> JobWorld \<Rightarrow> (delivery \<times> JobWorld) option" where
  "materializeObserved wk handler message w =
     (case oh_metadata handler (msg_Payload message) of
        Inl e \<Rightarrow> Some (DeliveryError e, w)
      | Inr metadata \<Rightarrow>
          (case jobClock w of
             (now, w1) \<Rightarrow>
               (case MaterializeQueued (queuedJob (msg_ID message) metadata now) w1 of
                  (Inl e, w2) \<Rightarrow> Some (DeliveryError (Wrap ''materialize observed job'' e), w2)
                | (Inr job, w2) \<Rightarrow>
                    if job_Status job = JobStatusRunning then Some (RunningElsewhere (job_ID job), w2)
                    else if job_Status job \<noteq> JobStatusQueued then Some (Acknowledged, w2)
                    else claimObserved wk handler message job w2)))"

definition processObserved ::
  "JobWorker \<Rightarrow> observedHandler \<Rightarrow> Message \<Rightarrow> JobWorld \<Rightarrow> (delivery \<times> JobWorld) option" where
  "processObserved wk handler message w =
     map_option (map_prod id (withTracker (finishDelivery (msg_ID message))))
       (materializeObserved wk handler message (withTracker (startDelivery (msg_ID message)) w))"

section \<open>Recovery and renewal\<close>

definition recoverStaleRunning :: "JobWorker \<Rightarrow> (JobWorld, unit) action" where
  "recoverStaleRunning wk =
     bindA (liftA jobClock) (\<lambda>now.
       RecoverStaleRunning now (wc_StaleRunningAge (wk_config wk)) (wc_MaxAttempts (wk_config wk)))"

fun renewClaims :: "Job list \<Rightarrow> JobWorld \<Rightarrow> JobWorld" where
  "renewClaims [] w = w"
| "renewClaims (claim # claims) w =
     (case jobClock w of (now, w1) \<Rightarrow> renewClaims claims (snd (RenewRunning claim now w1)))"

definition renewRunningClaims :: "JobWorld \<Rightarrow> JobWorld" where
  "renewRunningClaims w = renewClaims (runningClaims w) w"

text \<open>One tick of the periodic recovery; its errors are only logged.\<close>

definition recoveryTick :: "JobWorker \<Rightarrow> JobWorld \<Rightarrow> JobWorld" where
  "recoveryTick wk w = snd (recoverStaleRunning wk (renewRunningClaims w))"

definition recoveryInterval :: "JobWorker \<Rightarrow> duration" where
  "recoveryInterval wk =
     (let interval = wc_PollInterval (wk_config wk);
          age = wc_StaleRunningAge (wk_config wk);
          renewalInterval = sgn age * (\<bar>age\<bar> div 2)
      in if renewalInterval > 0 \<and> renewalInterval < interval then renewalInterval else interval)"

section \<open>The read service\<close>

definition JobServiceGet :: "GetJobParams \<Rightarrow> (JobWorld, Job) action" where
  "JobServiceGet params =
     mapErrA (\<lambda>e. if errors_is e ErrJobNotFound then NotFoundError ''job'' (TrimSpace (gjp_JobID params)) else e)
       (GetForRequester params)"

definition JobServiceList :: "cursor_codec \<Rightarrow> ListJobsParams \<Rightarrow> (JobWorld, ListJobsResult) action" where
  "JobServiceList = ListJobs"

end
