(* ===== verification/JobProperties.thy ===== *)
theory JobProperties
  imports JobWorker GoText
begin

text \<open>
  What the queue promises. Any number of workers and recoveries write the table statement by
  statement: \<open>jobStatement\<close> lists the statements they issue, \<open>jobRun\<close> is any interleaving of
  them, each executed or failed by its own world. A row is well typed when its fields agree
  with its status; the fence of a claim makes the outcome of a job a matter of one worker.
\<close>

section \<open>Interleavings of statements\<close>

datatype jobStatement =
    MaterializeStatement string JobMetadata time
  | ClaimStatement string string time
  | PersistStatement Job terminalJobState
  | FinalizeStatement string time terminalJobState
  | RequeueStatement Job time
  | RenewStatement Job time
  | RecoverStatement jobModel time int

fun serveStatement :: "jobStatement \<Rightarrow> (JobWorld, unit) action" where
  "serveStatement (MaterializeStatement messageID metadata now) =
     bindA (MaterializeQueued (queuedJob messageID metadata now)) (\<lambda>_. returnA ())"
| "serveStatement (ClaimStatement jobID workerID claimedAt) =
     bindA (ClaimQueued jobID workerID claimedAt) (\<lambda>_. returnA ())"
| "serveStatement (PersistStatement claim state) = storePersistTerminalState claim state"
| "serveStatement (FinalizeStatement jobID queuedAt state) = FinalizeRetryExhausted jobID queuedAt state"
| "serveStatement (RequeueStatement claim queuedAt) = RequeueRunning claim queuedAt"
| "serveStatement (RenewStatement claim renewedAt) = RenewRunning claim renewedAt"
| "serveStatement (RecoverStatement model now maxAttempts) = recoverStaleRunningModel model now maxAttempts"

inductive jobRun :: "jobStatement list \<Rightarrow> jobModel list \<Rightarrow> jobModel list \<Rightarrow> bool" where
  jobRun_nil: "jobRun [] rows rows"
| jobRun_step: "serveStatement st w = (r, w') \<Longrightarrow> jobRun sts (jw_jobs w') rows \<Longrightarrow> jobRun (st # sts) (jw_jobs w) rows"

inductive_simps jobRun_Nil [simp]: "jobRun [] rows rows'"
inductive_cases jobRun_ConsE: "jobRun (st # sts) rows rows'"

text \<open>The outcomes a worker writes: it failed, or it succeeded and has no error.\<close>

definition terminalOutcome :: "terminalJobState \<Rightarrow> bool" where
  "terminalOutcome state \<longleftrightarrow>
     tjs_status state = JobStatusFailed \<or> tjs_status state = JobStatusSucceeded \<and> tjs_jobError state = None"

fun workerStatement :: "jobStatement \<Rightarrow> bool" where
  "workerStatement (PersistStatement claim state) = terminalOutcome state"
| "workerStatement (FinalizeStatement jobID queuedAt state) = terminalOutcome state"
| "workerStatement _ = True"

lemma outcomes [simp]:
  "terminalOutcome (newSucceededTerminalJobState workerID now)"
  "terminalOutcome (newFailedTerminalJobState workerID jobErr now)"
  by (simp_all add: terminalOutcome_def newSucceededTerminalJobState_def newFailedTerminalJobState_def)

lemma status_distinct [simp]:
  "JobStatusQueued \<noteq> JobStatusRunning" "JobStatusRunning \<noteq> JobStatusQueued"
  "JobStatusQueued \<noteq> JobStatusSucceeded" "JobStatusSucceeded \<noteq> JobStatusQueued"
  "JobStatusQueued \<noteq> JobStatusFailed" "JobStatusFailed \<noteq> JobStatusQueued"
  "JobStatusRunning \<noteq> JobStatusSucceeded" "JobStatusSucceeded \<noteq> JobStatusRunning"
  "JobStatusRunning \<noteq> JobStatusFailed" "JobStatusFailed \<noteq> JobStatusRunning"
  "JobStatusSucceeded \<noteq> JobStatusFailed" "JobStatusFailed \<noteq> JobStatusSucceeded"
  by (simp_all add: JobStatusQueued_def JobStatusRunning_def JobStatusSucceeded_def JobStatusFailed_def)

section \<open>What a statement does to the rows\<close>

definition changeRows :: "(jobModel \<Rightarrow> bool) \<Rightarrow> (jobModel \<Rightarrow> jobModel) \<Rightarrow> jobModel list \<Rightarrow> jobModel list" where
  "changeRows wanted change = map (\<lambda>r. if wanted r then change r else r)"

fun statementGuard :: "jobStatement \<Rightarrow> jobModel \<Rightarrow> bool" where
  "statementGuard (MaterializeStatement messageID metadata now) r = False"
| "statementGuard (ClaimStatement jobID workerID claimedAt) r =
     (jbm_ID r = TrimSpace jobID \<and> jbm_Status r = JobStatusQueued)"
| "statementGuard (PersistStatement claim state) r = heldBy claim r"
| "statementGuard (FinalizeStatement jobID queuedAt state) r =
     (jbm_ID r = TrimSpace jobID \<and> jbm_Status r = JobStatusQueued \<and> jbm_QueuedAt r = queuedAt)"
| "statementGuard (RequeueStatement claim queuedAt) r = heldBy claim r"
| "statementGuard (RenewStatement claim renewedAt) r = heldBy claim r"
| "statementGuard (RecoverStatement model now maxAttempts) r =
     (jbm_ID r = jbm_ID model \<and> jbm_Status r = JobStatusRunning \<and> jbm_WorkerID r = jbm_WorkerID model \<and>
      jbm_StartedAt model \<noteq> None \<and> jbm_StartedAt r = jbm_StartedAt model \<and> jbm_UpdatedAt r = jbm_UpdatedAt model)"

fun statementChange :: "jobStatement \<Rightarrow> jobModel \<Rightarrow> jobModel" where
  "statementChange (MaterializeStatement messageID metadata now) r = r"
| "statementChange (ClaimStatement jobID workerID claimedAt) r = claimRow workerID claimedAt r"
| "statementChange (PersistStatement claim state) r = terminalStateUpdates state r"
| "statementChange (FinalizeStatement jobID queuedAt state) r = terminalStateUpdates state r"
| "statementChange (RequeueStatement claim queuedAt) r = requeueRow queuedAt r"
| "statementChange (RenewStatement claim renewedAt) r = r\<lparr>jbm_UpdatedAt := renewedAt\<rparr>"
| "statementChange (RecoverStatement model now maxAttempts) r =
     (if jbm_AttemptCount model \<ge> maxAttempts then staleExhausted now r else staleRequeued now r)"

fun statementEffect :: "jobStatement \<Rightarrow> jobModel list \<Rightarrow> jobModel list" where
  "statementEffect (MaterializeStatement messageID metadata now) rows =
     insertJob (newJobModel (queuedJob messageID metadata now)) rows"
| "statementEffect st rows = changeRows (statementGuard st) (statementChange st) rows"

lemma jobSQL_run:
  "jobSQL run w =
     (case jw_fault w (jw_statement w) of
        Some e \<Rightarrow> (Inl e, w\<lparr>jw_statement := Suc (jw_statement w)\<rparr>)
      | None \<Rightarrow> (Inr (fst (run (jw_jobs w))),
                 w\<lparr>jw_statement := Suc (jw_statement w), jw_jobs := snd (run (jw_jobs w))\<rparr>))"
  by (simp add: jobSQL_def split: option.splits prod.splits)

lemma updateJobs_run:
  "updateJobs wanted change w =
     (case jw_fault w (jw_statement w) of
        Some e \<Rightarrow> (Inl e, w\<lparr>jw_statement := Suc (jw_statement w)\<rparr>)
      | None \<Rightarrow> (Inr (length (filter wanted (jw_jobs w))),
                 w\<lparr>jw_statement := Suc (jw_statement w), jw_jobs := changeRows wanted change (jw_jobs w)\<rparr>))"
  by (simp add: updateJobs_def jobSQL_run changeRows_def split: option.splits)

lemma readJobs_jobs: "readJobs query w = (r, w') \<Longrightarrow> jw_jobs w' = jw_jobs w"
  by (auto simp: readJobs_def jobSQL_run split: option.splits)

lemma GetJob_jobs: "GetJob jobID w = (r, w') \<Longrightarrow> jw_jobs w' = jw_jobs w"
  by (auto simp: GetJob_def bindA_run mapErrA_run split: option.splits sum.splits prod.splits dest: readJobs_jobs)

lemma claimChecked_jobs:
  assumes "claimChecked msg (updateJobs wanted change) w = (r, w')"
  shows "jw_jobs w' = jw_jobs w \<or> jw_jobs w' = changeRows wanted change (jw_jobs w)"
  using assms by (auto simp: claimChecked_def bindA_run mapErrA_run updateJobs_run split: option.splits if_splits)

lemma ClaimQueued_jobs:
  assumes "ClaimQueued jobID workerID claimedAt w = (r, w')"
  shows "jw_jobs w' = jw_jobs w \<or> jw_jobs w' = statementEffect (ClaimStatement jobID workerID claimedAt) (jw_jobs w)"
  using assms
  by (auto simp: ClaimQueued_def bindA_run mapErrA_run claimUpdate_def updateJobs_run changeRows_def
      split: option.splits if_splits sum.splits dest!: GetJob_jobs)

lemma MaterializeQueued_jobs:
  assumes "MaterializeQueued job w = (r, w')"
  shows "jw_jobs w' = jw_jobs w \<or> jw_jobs w' = insertJob (newJobModel job) (jw_jobs w)"
  using assms
  by (auto simp: MaterializeQueued_def bindA_run mapErrA_run jobSQL_run split: option.splits sum.splits prod.splits
      dest!: GetJob_jobs)

lemma recoverStaleRunningModel_update:
  "recoverStaleRunningModel model now maxAttempts =
     bindA (wrapA (''recover stale running job '' @ jbm_ID model)
       (updateJobs (statementGuard (RecoverStatement model now maxAttempts))
          (statementChange (RecoverStatement model now maxAttempts)))) (\<lambda>_. returnA ())"
proof -
  have "statementChange (RecoverStatement model now maxAttempts) =
      (if jbm_AttemptCount model \<ge> maxAttempts then staleExhausted now else staleRequeued now)"
    by (auto simp: fun_eq_iff)
  moreover have "statementGuard (RecoverStatement model now maxAttempts) = (\<lambda>r.
      jbm_ID r = jbm_ID model \<and> jbm_Status r = JobStatusRunning \<and> jbm_WorkerID r = jbm_WorkerID model \<and>
      jbm_StartedAt model \<noteq> None \<and> jbm_StartedAt r = jbm_StartedAt model \<and> jbm_UpdatedAt r = jbm_UpdatedAt model)"
    by (simp add: fun_eq_iff)
  ultimately show ?thesis by (simp only: recoverStaleRunningModel_def)
qed

lemma serveStatement_effect:
  assumes "serveStatement st w = (r, w')"
  shows "jw_jobs w' = jw_jobs w \<or> jw_jobs w' = statementEffect st (jw_jobs w)"
proof (cases st)
  case (MaterializeStatement messageID metadata now)
  with assms show ?thesis
    by (auto simp: bindA_run split: prod.splits sum.splits dest!: MaterializeQueued_jobs)
next
  case (ClaimStatement jobID workerID claimedAt)
  with assms show ?thesis
    by (auto simp: bindA_run split: prod.splits sum.splits dest!: ClaimQueued_jobs)
next
  case (RecoverStatement model now maxAttempts)
  with assms show ?thesis
    by (auto simp: recoverStaleRunningModel_update bindA_run mapErrA_run updateJobs_run split: option.splits
        simp del: statementGuard.simps statementChange.simps)
qed (use assms in \<open>auto simp: storePersistTerminalState_def FinalizeRetryExhausted_def RequeueRunning_def
        RenewRunning_def bindA_run changeRows_def split: sum.splits dest!: claimChecked_jobs\<close>)

section \<open>Well-typed rows\<close>

definition terminalRow :: "jobModel \<Rightarrow> bool" where
  "terminalRow r \<longleftrightarrow> jbm_Status r = JobStatusSucceeded \<or> jbm_Status r = JobStatusFailed"

definition jobRowTyped :: "jobModel \<Rightarrow> bool" where
  "jobRowTyped r \<longleftrightarrow>
     length (jbm_ErrorCode r) \<le> maxErrorCodeLength \<and> length (jbm_ErrorSummary r) \<le> maxErrorSummaryLength \<and>
     length (jbm_ErrorDetails r) \<le> maxErrorDetailsLength \<and> jbm_AttemptCount r \<ge> 0 \<and>
     (jbm_Status r = JobStatusQueued \<and> jbm_WorkerID r = [] \<and> jbm_StartedAt r = None \<and> jbm_CompletedAt r = None \<or>
      jbm_Status r = JobStatusRunning \<and> jbm_StartedAt r \<noteq> None \<and> jbm_LastAttemptAt r = jbm_StartedAt r \<and>
        jbm_CompletedAt r = None \<and> jbm_AttemptCount r > 0 \<or>
      jbm_Status r = JobStatusSucceeded \<and> jbm_CompletedAt r \<noteq> None \<and>
        jbm_ErrorCode r = [] \<and> jbm_ErrorSummary r = [] \<and> jbm_ErrorDetails r = [] \<or>
      jbm_Status r = JobStatusFailed \<and> jbm_CompletedAt r \<noteq> None)"

definition rowsTyped :: "jobModel list \<Rightarrow> bool" where
  "rowsTyped rows \<longleftrightarrow> distinct (map jbm_ID rows) \<and> (\<forall>r \<in> set rows. jobRowTyped r)"

lemma truncateBounded_length: "length (truncateBounded s n) \<le> n"
  by (auto simp: truncateBounded_def Let_def)

lemma typed_terminal:
  "terminalOutcome state \<Longrightarrow> jobRowTyped r \<Longrightarrow> jobRowTyped (terminalStateUpdates state r)"
  by (auto simp: terminalOutcome_def jobRowTyped_def terminalStateUpdates_def truncateBounded_length split: option.splits)

lemma typed_claim: "jobRowTyped r \<Longrightarrow> jbm_Status r = JobStatusQueued \<Longrightarrow> jobRowTyped (claimRow workerID claimedAt r)"
  by (auto simp: jobRowTyped_def claimRow_def)

lemma typed_requeue: "jobRowTyped r \<Longrightarrow> jbm_Status r = JobStatusRunning \<Longrightarrow> jobRowTyped (requeueRow queuedAt r)"
  by (auto simp: jobRowTyped_def requeueRow_def)

lemma typed_renew: "jobRowTyped r \<Longrightarrow> jobRowTyped (r\<lparr>jbm_UpdatedAt := renewedAt\<rparr>)"
  by (simp add: jobRowTyped_def)

lemma typed_stale:
  "jobRowTyped r \<Longrightarrow> jbm_Status r = JobStatusRunning \<Longrightarrow> jobRowTyped (staleRequeued now r)"
  "jobRowTyped r \<Longrightarrow> jbm_Status r = JobStatusRunning \<Longrightarrow> jobRowTyped (staleExhausted now r)"
  by (auto simp: jobRowTyped_def staleRequeued_def staleExhausted_def
      maxErrorCodeLength_def maxErrorSummaryLength_def maxErrorDetailsLength_def)

lemma typed_change:
  assumes "workerStatement st" and "statementGuard st r" and "jobRowTyped r"
  shows "jobRowTyped (statementChange st r)"
  using assms by (cases st) (auto simp: heldBy_def typed_terminal typed_claim typed_requeue typed_renew typed_stale)

lemma typed_new: "jobRowTyped (newJobModel (queuedJob messageID metadata now))"
proof -
  have "TrimSpace [] = []" by code_simp
  then show ?thesis by (simp add: jobRowTyped_def newJobModel_def queuedJob_def)
qed

lemma change_ID [simp]: "jbm_ID (statementChange st r) = jbm_ID r"
  by (cases st) (auto simp: claimRow_def terminalStateUpdates_def requeueRow_def staleExhausted_def staleRequeued_def)

lemma statementEffect_cases:
  obtains (materialize) messageID metadata now where "st = MaterializeStatement messageID metadata now"
      "statementEffect st rows = insertJob (newJobModel (queuedJob messageID metadata now)) rows"
  | (change) "statementEffect st rows = changeRows (statementGuard st) (statementChange st) rows"
  by (cases st) auto

lemma rowsTyped_effect:
  assumes "workerStatement st" and "rowsTyped rows"
  shows "rowsTyped (statementEffect st rows)"
proof (cases rule: statementEffect_cases [of st rows])
  case (materialize messageID metadata now)
  then show ?thesis using assms(2) by (auto simp: rowsTyped_def insertJob_def typed_new)
next
  case change
  have "map jbm_ID (changeRows (statementGuard st) (statementChange st) rows) = map jbm_ID rows"
    by (simp add: changeRows_def)
  moreover have "\<forall>r \<in> set (changeRows (statementGuard st) (statementChange st) rows). jobRowTyped r"
    using assms by (auto simp: changeRows_def rowsTyped_def typed_change)
  ultimately show ?thesis unfolding change using assms(2) by (simp only: rowsTyped_def)
qed

lemma rowsTyped_run:
  "jobRun sts rows rows' \<Longrightarrow> \<forall>st \<in> set sts. workerStatement st \<Longrightarrow> rowsTyped rows \<Longrightarrow> rowsTyped rows'"
proof (induction rule: jobRun.induct)
  case (jobRun_step st w r w' sts rows)
  then have "rowsTyped (jw_jobs w')" using serveStatement_effect [OF jobRun_step.hyps(1)] by (auto simp: rowsTyped_effect)
  then show ?case using jobRun_step by simp
qed simp

lemma rowsTyped_reachable:
  "jobRun sts [] rows \<Longrightarrow> \<forall>st \<in> set sts. workerStatement st \<Longrightarrow> rowsTyped rows"
  by (rule rowsTyped_run) (auto simp: rowsTyped_def)

section \<open>The fence of a claim\<close>

fun rowAfter :: "jobStatement \<Rightarrow> string \<Rightarrow> jobModel option \<Rightarrow> jobModel option" where
  "rowAfter st k (Some r) = Some (if statementGuard st r then statementChange st r else r)"
| "rowAfter (MaterializeStatement messageID metadata now) k None =
     (if k = TrimSpace messageID then Some (newJobModel (queuedJob messageID metadata now)) else None)"
| "rowAfter st k None = None"

lemma lookup_change:
  assumes "\<And>r. jbm_ID (change r) = jbm_ID r"
  shows "lookupRow jbm_ID k (changeRows wanted change rows) =
    map_option (\<lambda>r. if wanted r then change r else r) (lookupRow jbm_ID k rows)"
  by (induction rows) (auto simp: lookupRow_def changeRows_def assms)

lemma lookup_insertJob:
  "lookupRow jbm_ID k (insertJob m rows) =
   (case lookupRow jbm_ID k rows of Some r \<Rightarrow> Some r | None \<Rightarrow> if k = jbm_ID m then Some m else None)"
proof (cases "lookupRow jbm_ID k rows")
  case None
  then have "filter (\<lambda>r. jbm_ID r = k) rows = []" by (auto simp: filter_empty_conv)
  moreover from None have "k \<notin> jbm_ID ` set rows" by simp
  ultimately show ?thesis using None by (auto simp: insertJob_def lookupRow_def)
next
  case (Some r)
  then obtain rs where "filter (\<lambda>r. jbm_ID r = k) rows = r # rs"
    by (cases "filter (\<lambda>r. jbm_ID r = k) rows") (auto simp: lookupRow_def)
  with Some show ?thesis by (auto simp: insertJob_def lookupRow_def)
qed

lemma lookup_effect: "lookupRow jbm_ID k (statementEffect st rows) = rowAfter st k (lookupRow jbm_ID k rows)"
proof (cases "\<exists>messageID metadata now. st = MaterializeStatement messageID metadata now")
  case True
  then show ?thesis
    by (cases "lookupRow jbm_ID k rows")
      (auto simp del: lookupRow_None simp: lookup_insertJob newJobModel_def queuedJob_def)
next
  case False
  then have "statementEffect st rows = changeRows (statementGuard st) (statementChange st) rows" by (cases st) auto
  then show ?thesis using False
    by (cases "lookupRow jbm_ID k rows"; cases st) (auto simp del: lookupRow_None simp: lookup_change [OF change_ID])
qed

lemma lookup_step:
  assumes "serveStatement st w = (r, w')"
  shows "lookupRow jbm_ID k (jw_jobs w') = lookupRow jbm_ID k (jw_jobs w) \<or>
    lookupRow jbm_ID k (jw_jobs w') = rowAfter st k (lookupRow jbm_ID k (jw_jobs w))"
  using serveStatement_effect [OF assms] by (metis lookup_effect)

lemma run_induct [consumes 1, case_names unchanged effect]:
  assumes "jobRun sts rows rows'" and "P (lookupRow jbm_ID k rows)"
    and "\<And>st x. st \<in> set sts \<Longrightarrow> P x \<Longrightarrow> P (rowAfter st k x)"
  shows "P (lookupRow jbm_ID k rows')"
  using assms
proof (induction rule: jobRun.induct)
  case (jobRun_step st w r w' sts rows)
  then have "P (lookupRow jbm_ID k (jw_jobs w'))"
    using lookup_step [OF jobRun_step.hyps(1), of k] by (metis list.set_intros(1))
  then show ?case using jobRun_step by (meson list.set_intros(2))
qed simp

text \<open>\<open>held r1\<close>: the row is the claimed one, renewed or not; \<open>lost claim\<close>: it no longer is.\<close>

definition held :: "jobModel \<Rightarrow> jobModel option \<Rightarrow> bool" where
  "held r1 x \<longleftrightarrow> (\<exists>t. x = Some (r1\<lparr>jbm_UpdatedAt := t\<rparr>))"

definition lost :: "Job \<Rightarrow> jobModel option \<Rightarrow> bool" where
  "lost claim x \<longleftrightarrow> (\<exists>r. x = Some r \<and> \<not> heldBy claim r)"

text \<open>\<open>anotherClaim claim st\<close>: \<open>st\<close> is not a claim of the same job by the same worker at the same instant.\<close>

fun anotherClaim :: "Job \<Rightarrow> jobStatement \<Rightarrow> bool" where
  "anotherClaim claim (ClaimStatement jobID workerID claimedAt) =
     (TrimSpace jobID = TrimSpace (job_ID claim) \<and> TrimSpace workerID = TrimSpace (job_WorkerID claim) \<longrightarrow>
      job_StartedAt claim \<noteq> Some claimedAt)"
| "anotherClaim claim _ = True"

lemma lost_after:
  assumes "workerStatement st" and "anotherClaim claim st" and "\<not> heldBy claim r"
  shows "lost claim (rowAfter st k (Some r))"
  using assms
  by (cases st) (auto simp: lost_def heldBy_def claimRow_def terminalStateUpdates_def requeueRow_def
      staleExhausted_def staleRequeued_def terminalOutcome_def)

lemma held_after:
  assumes "workerStatement st" and "heldBy claim r1" and "held r1 x"
  shows "held r1 (rowAfter st k x) \<or> lost claim (rowAfter st k x)"
proof -
  obtain t where x: "x = Some (r1\<lparr>jbm_UpdatedAt := t\<rparr>)" using assms(3) by (auto simp: held_def)
  have running: "jbm_Status r1 = JobStatusRunning" using assms(2) by (simp add: heldBy_def)
  show ?thesis
  proof (cases st)
    case (RenewStatement c renewedAt)
    then show ?thesis by (auto simp: x held_def)
  qed (use assms(1) running in \<open>auto simp: x held_def lost_def heldBy_def terminalStateUpdates_def requeueRow_def
        staleExhausted_def staleRequeued_def terminalOutcome_def\<close>)
qed

lemma held_run:
  assumes run: "jobRun sts rows rows'" and workers: "\<forall>st \<in> set sts. workerStatement st"
    and others: "\<forall>st \<in> set sts. anotherClaim claim st"
    and row: "lookupRow jbm_ID k rows = Some r1" and claimed: "heldBy claim r1"
  shows "held r1 (lookupRow jbm_ID k rows') \<or> lost claim (lookupRow jbm_ID k rows')"
  using run
proof (induction rule: run_induct [where k = k])
  case unchanged
  have "r1\<lparr>jbm_UpdatedAt := jbm_UpdatedAt r1\<rparr> = r1" by simp
  then show ?case unfolding row held_def by metis
next
  case (effect st x)
  from effect(2) show ?case
  proof
    assume "held r1 x"
    then show ?thesis using held_after workers claimed effect(1) by blast
  next
    assume "lost claim x"
    then show ?thesis using lost_after workers others effect(1) by (auto simp: lost_def)
  qed
qed

lemma terminal_run:
  assumes "jobRun sts rows rows'" and "lookupRow jbm_ID k rows = Some r" and "terminalRow r"
  shows "lookupRow jbm_ID k rows' = Some r"
  using assms(1)
proof (induction rule: run_induct [where k = k])
  case unchanged
  then show ?case by (rule assms(2))
next
  case (effect st x)
  have "\<not> statementGuard st r" using assms(3) by (cases st) (auto simp: terminalRow_def heldBy_def)
  then show ?case unfolding effect(2) by simp
qed

lemma updated_rows:
  assumes "updateJobs wanted change w = (Inr n, w')" and "n \<noteq> 0"
  obtains r where "r \<in> set (jw_jobs w)" "wanted r" "jw_jobs w' = changeRows wanted change (jw_jobs w)"
  using assms by (auto simp: updateJobs_run filter_empty_conv split: option.splits)

lemma claimChecked_ok:
  assumes "claimChecked msg (updateJobs wanted change) w = (Inr (), w')"
  obtains r where "r \<in> set (jw_jobs w)" "wanted r" "jw_jobs w' = changeRows wanted change (jw_jobs w)"
proof -
  obtain n u where "updateJobs wanted change w = (Inr n, u)"
      "(if n = 0 then failA (Sentinel ErrJobClaimLost) else returnA ()) u = (Inr (), w')"
    using assms by (auto simp: claimChecked_def bindA_Inr)
  then show ?thesis by (auto intro: that elim: updated_rows split: if_splits)
qed

lemma lookup_typed: "rowsTyped rows \<Longrightarrow> r \<in> set rows \<Longrightarrow> jbm_ID r = k \<Longrightarrow> lookupRow jbm_ID k rows = Some r"
  unfolding rowsTyped_def using lookupRow_distinct by metis

lemma GetJob_ok: "GetJob jobID w = (Inr job, w') \<Longrightarrow>
    \<exists>r. lookupRow jbm_ID (TrimSpace jobID) (jw_jobs w) = Some r \<and> job = jobFromModel r \<and> jw_jobs w' = jw_jobs w"
  by (auto simp: GetJob_def readJobs_def jobSQL_run bindA_Inr split: option.splits simp del: lookupRow_None)

lemma claimUpdate_update:
  "claimUpdate jobID workerID claimedAt =
     updateJobs (statementGuard (ClaimStatement jobID workerID claimedAt))
       (statementChange (ClaimStatement jobID workerID claimedAt))"
proof -
  have "statementGuard (ClaimStatement jobID workerID claimedAt) =
      (\<lambda>r. jbm_ID r = TrimSpace jobID \<and> jbm_Status r = JobStatusQueued)"
    and "statementChange (ClaimStatement jobID workerID claimedAt) = claimRow workerID claimedAt"
    by (simp_all add: fun_eq_iff)
  then show ?thesis by (simp only: claimUpdate_def)
qed

lemma ClaimQueued_ok:
  assumes typed: "rowsTyped (jw_jobs w)" and claimed: "ClaimQueued jobID workerID claimedAt w = (Inr claim, w')"
  obtains r where "lookupRow jbm_ID (TrimSpace jobID) (jw_jobs w) = Some r" "jbm_Status r = JobStatusQueued"
    "lookupRow jbm_ID (TrimSpace jobID) (jw_jobs w') = Some (claimRow workerID claimedAt r)"
    "claim = jobFromModel (claimRow workerID claimedAt r)"
    "jw_jobs w' = statementEffect (ClaimStatement jobID workerID claimedAt) (jw_jobs w)"
proof -
  let ?st = "ClaimStatement jobID workerID claimedAt"
  obtain n u where update: "updateJobs (statementGuard ?st) (statementChange ?st) w = (Inr n, u)" and "n \<noteq> 0"
    and read: "GetJob jobID u = (Inr claim, w')"
    using claimed by (auto simp: ClaimQueued_def claimUpdate_update bindA_Inr split: if_splits)
  obtain r where r: "r \<in> set (jw_jobs w)" "statementGuard ?st r"
    and u: "jw_jobs u = changeRows (statementGuard ?st) (statementChange ?st) (jw_jobs w)"
    by (rule updated_rows [OF update \<open>n \<noteq> 0\<close>])
  have here: "lookupRow jbm_ID (TrimSpace jobID) (jw_jobs w) = Some r" using lookup_typed [OF typed r(1)] r(2) by simp
  then have there: "lookupRow jbm_ID (TrimSpace jobID) (jw_jobs u) = Some (claimRow workerID claimedAt r)"
    unfolding u lookup_change [OF change_ID] using r(2) by simp
  show ?thesis using that [OF here] r(2) there GetJob_ok [OF read] u by auto
qed

lemma claim_holds:
  "claim = jobFromModel (claimRow workerID claimedAt r) \<Longrightarrow> jbm_ID r = TrimSpace jobID \<Longrightarrow>
   heldBy claim (claimRow workerID claimedAt r)"
  by (simp add: heldBy_def jobFromModel_def claimRow_def)

lemma not_lost: "heldBy claim r \<Longrightarrow> x = Some r \<Longrightarrow> \<not> lost claim x"
  by (simp add: lost_def)

lemma terminal_update: "terminalStateUpdates state (r\<lparr>jbm_UpdatedAt := t\<rparr>) = terminalStateUpdates state r"
  by (simp add: terminalStateUpdates_def)

text \<open>C39. The outcome of a job is written by one worker, for good: take any interleaving of the
  statements of any number of workers and recoveries, a claim taken in it, and the moment its
  holder persists an outcome. If the write succeeds, no other statement changed the row since
  the claim but for renewals of its own, and whatever statements follow, the row stays exactly
  the claimed row with that outcome.\<close>

theorem outcome_is_exclusive_and_final:
  assumes "jobRun before [] (jw_jobs w0)"
    and "ClaimQueued jobID workerID claimedAt w0 = (Inr claim, w1)"
    and "jobRun during (jw_jobs w1) (jw_jobs w2)"
    and "storePersistTerminalState claim state w2 = (Inr (), w3)"
    and "jobRun later (jw_jobs w3) rows"
    and "\<forall>st \<in> set (before @ during @ later). workerStatement st" and "terminalOutcome state"
    and "\<forall>st \<in> set during. anotherClaim claim st"
  shows "\<exists>r. lookupRow jbm_ID (TrimSpace jobID) (jw_jobs w1) = Some r \<and> claim = jobFromModel r \<and>
    lookupRow jbm_ID (TrimSpace jobID) rows = Some (terminalStateUpdates state r)"
proof -
  let ?k = "TrimSpace jobID"
  have typed0: "rowsTyped (jw_jobs w0)" using rowsTyped_reachable [OF assms(1)] assms(6) by simp
  obtain r0 where r0: "lookupRow jbm_ID ?k (jw_jobs w0) = Some r0"
    and row: "lookupRow jbm_ID ?k (jw_jobs w1) = Some (claimRow workerID claimedAt r0)"
    and claim: "claim = jobFromModel (claimRow workerID claimedAt r0)"
    and w1: "jw_jobs w1 = statementEffect (ClaimStatement jobID workerID claimedAt) (jw_jobs w0)"
    by (rule ClaimQueued_ok [OF typed0 assms(2)])
  have id: "jbm_ID r0 = ?k" using lookupRow_Some [OF r0] by simp
  have typed2: "rowsTyped (jw_jobs w2)"
    by (rule rowsTyped_run [OF assms(3)]) (use assms(6) typed0 in \<open>auto simp: w1 intro: rowsTyped_effect simp del: statementEffect.simps\<close>)
  obtain r2 where r2: "r2 \<in> set (jw_jobs w2)" "heldBy claim r2"
    and w3: "jw_jobs w3 = changeRows (heldBy claim) (terminalStateUpdates state) (jw_jobs w2)"
    using assms(4) unfolding storePersistTerminalState_def by (rule claimChecked_ok)
  have at2: "lookupRow jbm_ID ?k (jw_jobs w2) = Some r2"
    by (rule lookup_typed [OF typed2 r2(1)]) (use r2(2) in \<open>simp add: heldBy_def claim jobFromModel_def claimRow_def id\<close>)
  have "held (claimRow workerID claimedAt r0) (Some r2)"
    using held_run [OF assms(3) _ assms(8) row claim_holds [OF claim id]] not_lost [OF r2(2) at2] assms(6) by (auto simp: at2)
  then have "terminalStateUpdates state r2 = terminalStateUpdates state (claimRow workerID claimedAt r0)"
    by (auto simp: held_def terminal_update)
  moreover have "lookupRow jbm_ID ?k (jw_jobs w3) = Some (terminalStateUpdates state r2)"
    unfolding w3 using at2 r2(2) by (subst lookup_change) (simp_all add: terminalStateUpdates_def)
  moreover have "terminalRow (terminalStateUpdates state r2)"
    using assms(7) by (auto simp: terminalRow_def terminalOutcome_def terminalStateUpdates_def)
  ultimately show ?thesis using terminal_run [OF assms(5)] row claim by metis
qed

text \<open>A queue for the examples: the database answers, the clock counts seconds from one hundred.\<close>

definition example_queue :: "jobModel list \<Rightarrow> JobWorld" where
  "example_queue rows =
     \<lparr>jw_jobs = rows, jw_statement = 0, jw_fault = (\<lambda>n. None), jw_timesRead = 0,
      jw_clock = (\<lambda>n. 100 + int n), jw_contextChecks = 0, jw_context = (\<lambda>n. None),
      jw_databaseText = ''database error'', jw_claims = [], jw_runOnce = None, jw_waits = []\<rparr>"

definition example_metadata :: JobMetadata where
  "example_metadata =
     \<lparr>jmd_JobType = ''sync'', jmd_Requester = \<lparr>rq_UserID = ''ann'', rq_Source = RequesterSourceOperator\<rparr>,
      jmd_ScheduleID = [], jmd_ScheduledAt = None, jmd_ScheduledNextRunAt = None\<rparr>"

definition queue_after :: "jobStatement \<Rightarrow> JobWorld \<Rightarrow> JobWorld" where
  "queue_after st w = snd (serveStatement st w)"

lemma jobRun_one: "jobRun [st] (jw_jobs w) (jw_jobs (queue_after st w))"
  unfolding queue_after_def by (rule jobRun_step [of _ _ "fst (serveStatement st w)"]) (simp_all add: prod_eq_iff)

definition example_queued :: JobWorld where
  "example_queued = queue_after (MaterializeStatement ''j'' example_metadata 10) (example_queue [])"

definition example_claim :: Job where
  "example_claim = (case ClaimQueued ''j'' ''ann'' 20 example_queued of
     (Inr claim, _) \<Rightarrow> claim | (Inl _, _) \<Rightarrow> queuedJob [] example_metadata 0)"

definition example_claimed :: JobWorld where
  "example_claimed = snd (ClaimQueued ''j'' ''ann'' 20 example_queued)"

definition example_renewed :: JobWorld where
  "example_renewed = queue_after (RenewStatement example_claim 30) example_claimed"

definition example_state :: terminalJobState where
  "example_state = newSucceededTerminalJobState ''ann'' 40"

definition example_done :: JobWorld where
  "example_done = snd (storePersistTerminalState example_claim example_state example_renewed)"

lemma example_steps:
  "ClaimQueued ''j'' ''ann'' 20 example_queued = (Inr example_claim, example_claimed)"
  "storePersistTerminalState example_claim example_state example_renewed = (Inr (), example_done)"
proof -
  have "fst (ClaimQueued ''j'' ''ann'' 20 example_queued) = Inr example_claim" by code_simp
  then show "ClaimQueued ''j'' ''ann'' 20 example_queued = (Inr example_claim, example_claimed)"
    by (simp add: prod_eq_iff example_claimed_def)
  have "fst (storePersistTerminalState example_claim example_state example_renewed) = Inr ()" by code_simp
  then show "storePersistTerminalState example_claim example_state example_renewed = (Inr (), example_done)"
    by (simp add: prod_eq_iff example_done_def)
qed

lemma outcome_is_exclusive_and_final_witness:
  "\<exists>r. lookupRow jbm_ID (TrimSpace ''j'') (jw_jobs example_claimed) = Some r \<and>
     example_claim = jobFromModel r \<and>
     lookupRow jbm_ID (TrimSpace ''j'')
       (jw_jobs (queue_after (RequeueStatement example_claim 50) example_done)) =
       Some (terminalStateUpdates example_state r)"
proof (rule outcome_is_exclusive_and_final [OF _ example_steps(1) _ example_steps(2)])
  show "jobRun [MaterializeStatement ''j'' example_metadata 10] [] (jw_jobs example_queued)"
    using jobRun_one [of "MaterializeStatement ''j'' example_metadata 10" "example_queue []"]
    by (simp add: example_queued_def example_queue_def)
  show "jobRun [RenewStatement example_claim 30] (jw_jobs example_claimed) (jw_jobs example_renewed)"
    unfolding example_renewed_def by (rule jobRun_one)
  show "jobRun [RequeueStatement example_claim 50] (jw_jobs example_done)
      (jw_jobs (queue_after (RequeueStatement example_claim 50) example_done))"
    by (rule jobRun_one)
qed (simp_all add: example_state_def)

section \<open>Deliveries\<close>

text \<open>
  A handler may do whatever statements of workers do to the table, its own and those of others
  while it runs. The database recovers when from some statement on none fails.
\<close>

definition queueHandler :: "observedHandler \<Rightarrow> bool" where
  "queueHandler handler \<longleftrightarrow> (\<forall>job payload v.
     jw_fault (snd (oh_execute handler job payload v)) = jw_fault v \<and>
     (\<exists>sts. (\<forall>st \<in> set sts. workerStatement st) \<and>
        jobRun sts (jw_jobs v) (jw_jobs (snd (oh_execute handler job payload v)))))"

definition recovers :: "JobWorld \<Rightarrow> bool" where
  "recovers w \<longleftrightarrow> (\<exists>n. \<forall>k \<ge> n. jw_fault w k = None)"

text \<open>What the table says of the job of a delivery that ended.\<close>

fun deliveryMatches :: "string \<Rightarrow> jobModel list \<Rightarrow> delivery \<Rightarrow> bool" where
  "deliveryMatches k rows Acknowledged \<longleftrightarrow> (\<exists>r. lookupRow jbm_ID k rows = Some r \<and> terminalRow r)"
| "deliveryMatches k rows (RunningElsewhere jobID) \<longleftrightarrow>
     jobID = k \<and> (\<exists>r. lookupRow jbm_ID k rows = Some r \<and> jbm_Status r = JobStatusRunning)"
| "deliveryMatches k rows (RetryDelivery e jobID queuedAt) \<longleftrightarrow>
     jobID = k \<and> (\<exists>r. lookupRow jbm_ID k rows = Some r \<and> jbm_Status r = JobStatusQueued \<and>
       jbm_WorkerID r = [] \<and> jbm_QueuedAt r = queuedAt)"
| "deliveryMatches k rows (DeliveryError e) \<longleftrightarrow> True"
| "deliveryMatches k rows DeliveryPanicked \<longleftrightarrow> True"

lemma changeRows_none: "filter wanted rows = [] \<Longrightarrow> changeRows wanted change rows = rows"
  by (auto simp: changeRows_def filter_empty_conv intro: map_idI)

lemma claimChecked_run:
  "claimChecked msg (updateJobs wanted change) w =
     (case jw_fault w (jw_statement w) of
        Some e \<Rightarrow> (Inl (Wrap msg e), w\<lparr>jw_statement := Suc (jw_statement w)\<rparr>)
      | None \<Rightarrow>
          (if filter wanted (jw_jobs w) = [] then Inl (Sentinel ErrJobClaimLost) else Inr (),
           w\<lparr>jw_statement := Suc (jw_statement w), jw_jobs := changeRows wanted change (jw_jobs w)\<rparr>))"
  by (simp add: claimChecked_def bindA_run mapErrA_run updateJobs_run split: option.splits)

definition persistResult ::
  "(jobModel \<Rightarrow> bool) \<Rightarrow> (jobModel \<Rightarrow> jobModel) \<Rightarrow> jobModel list \<Rightarrow> jobModel list \<Rightarrow> go_error + unit \<Rightarrow> bool" where
  "persistResult wanted change rows rows' res \<longleftrightarrow>
     (case res of
        Inr _ \<Rightarrow> (\<exists>r \<in> set rows. wanted r) \<and> rows' = changeRows wanted change rows
      | Inl e \<Rightarrow> rows' = rows)"

lemma persistLoop_ends:
  assumes "\<forall>k \<ge> n. jw_fault w k = None"
  shows "\<exists>res w'. persistLoop (claimChecked msg (updateJobs wanted change)) interval w = Some (res, w') \<and>
    jw_fault w' = jw_fault w \<and> persistResult wanted change (jw_jobs w) (jw_jobs w') res"
  using assms
proof (induction "n - jw_statement w" arbitrary: interval w rule: less_induct)
  case less
  let ?persist = "claimChecked msg (updateJobs wanted change)"
  show ?case
  proof (cases "jw_fault w (jw_statement w)")
    case None
    then show ?thesis
      by (subst persistLoop.simps) (auto simp: claimChecked_run changeRows_none filter_empty_conv persistResult_def)
  next
    case (Some e)
    then have small: "jw_statement w < n" using less.prems by (metis leI option.distinct(1))
    let ?w1 = "w\<lparr>jw_statement := Suc (jw_statement w)\<rparr>"
    obtain c w2 where c: "jobContextErr ?w1 = (c, w2)" by force
    obtain c' w3 where c': "jobContextErr w2 = (c', w3)" by force
    have keeps: "jw_fault w3 = jw_fault w" "jw_jobs w3 = jw_jobs w" "jw_jobs w2 = jw_jobs w"
        "jw_fault w2 = jw_fault w" "jw_statement w3 = Suc (jw_statement w)"
      using c c' by (auto simp: jobContextErr_def)
    have run: "?persist w = (Inl (Wrap msg e), ?w1)" by (simp add: claimChecked_run Some)
    have loop: "persistLoop ?persist interval w =
      (if errors_is e ErrJobClaimLost then Some (Inl (Wrap msg e), ?w1)
       else case c of Some x \<Rightarrow> Some (Inl (Joined x (Wrap ''persist job terminal state'' (Wrap msg e))), w2)
         | None \<Rightarrow> (case c' of Some x \<Rightarrow> Some (Inl x, w3)
             | None \<Rightarrow> persistLoop ?persist (nextRetryInterval interval) (w3\<lparr>jw_waits := jw_waits w3 @ [interval]\<rparr>)))"
      by (subst persistLoop.simps) (simp add: run c c' split: option.splits)
    have again: "\<exists>res w'. persistLoop ?persist (nextRetryInterval interval) (w3\<lparr>jw_waits := jw_waits w3 @ [interval]\<rparr>) =
        Some (res, w') \<and> jw_fault w' = jw_fault w \<and> persistResult wanted change (jw_jobs w) (jw_jobs w') res"
      using less.hyps [of "w3\<lparr>jw_waits := jw_waits w3 @ [interval]\<rparr>" "nextRetryInterval interval"]
        less.prems small keeps by simp
    show ?thesis unfolding loop using again keeps by (auto simp: persistResult_def split: option.splits)
  qed
qed

lemma terminal_updates: "terminalOutcome state \<Longrightarrow> terminalRow (terminalStateUpdates state r)"
  by (auto simp: terminalRow_def terminalOutcome_def terminalStateUpdates_def)

lemma typed_statement:
  "workerStatement st \<Longrightarrow> rowsTyped rows \<Longrightarrow> statementEffect st rows = rows' \<Longrightarrow> rowsTyped rows'"
  using rowsTyped_effect by blast

lemma statement_row:
  assumes "rowsTyped rows" and "r \<in> set rows" and "statementGuard st r"
  shows "lookupRow jbm_ID (jbm_ID r) (statementEffect st rows) = Some (statementChange st r)"
  unfolding lookup_effect lookup_typed [OF assms(1,2) refl] using assms(3) by simp

lemma claim_effects:
  "changeRows (heldBy claim) (terminalStateUpdates state) rows = statementEffect (PersistStatement claim state) rows"
  "changeRows (heldBy claim) (requeueRow queuedAt) rows = statementEffect (RequeueStatement claim queuedAt) rows"
  by (simp_all add: changeRows_def)

lemma persistOutcome_ends:
  assumes typed: "rowsTyped (jw_jobs w)" and recover: "recovers w" and state: "\<And>now. terminalOutcome (state now)"
  shows "\<exists>d w'. persistOutcome claimed state w = Some (d, w') \<and> rowsTyped (jw_jobs w') \<and>
    deliveryMatches (TrimSpace (job_ID claimed)) (jw_jobs w') d"
proof -
  obtain now w1 where clock: "jobClock w = (now, w1)" by force
  then have w1: "jw_jobs w1 = jw_jobs w" "jw_fault w1 = jw_fault w" by (auto simp: jobClock_def)
  obtain n where n: "\<forall>k \<ge> n. jw_fault w1 k = None" using recover by (auto simp: recovers_def w1)
  show ?thesis
  proof (cases "validateRequiredTimestamp ''completedAt'' (tjs_completedAt (state now))")
    case (Inl e)
    then show ?thesis using typed
      by (simp add: persistOutcome_def clock workerPersistTerminalState_def persistTerminal_def w1)
  next
    case (Inr u)
    obtain res w' where run: "persistLoop (storePersistTerminalState claimed (state now))
        terminalPersistenceRetryInterval w1 = Some (res, w')"
      and result: "persistResult (heldBy claimed) (terminalStateUpdates (state now)) (jw_jobs w) (jw_jobs w') res"
      using persistLoop_ends [OF n] unfolding storePersistTerminalState_def w1 by metis
    have d: "persistOutcome claimed state w = Some (deliveryOf res, w')"
      by (simp add: persistOutcome_def clock workerPersistTerminalState_def persistTerminal_def Inr run)
    show ?thesis
    proof (cases res)
      case (Inl e)
      then show ?thesis using d result typed by (simp add: persistResult_def)
    next
      case (Inr u)
      then obtain r where r: "r \<in> set (jw_jobs w)" "heldBy claimed r"
        and rows: "jw_jobs w' = statementEffect (PersistStatement claimed (state now)) (jw_jobs w)"
        using result by (auto simp: persistResult_def claim_effects simp del: statementEffect.simps)
      have "lookupRow jbm_ID (TrimSpace (job_ID claimed)) (jw_jobs w') = Some (terminalStateUpdates (state now) r)"
        using r statement_row [OF typed r(1), of "PersistStatement claimed (state now)"]
        by (simp add: rows heldBy_def del: statementEffect.simps)
      then show ?thesis
        using d Inr typed_statement [OF _ typed rows [symmetric]] state by (simp add: terminal_updates)
    qed
  qed
qed

lemma RequeueRunning_result:
  assumes "RequeueRunning claim queuedAt w = (res, w')"
  shows "persistResult (heldBy claim) (requeueRow queuedAt) (jw_jobs w) (jw_jobs w') res"
  using assms by (auto simp: RequeueRunning_def bindA_run claimChecked_run persistResult_def changeRows_none
      filter_empty_conv split: sum.splits option.splits if_splits)

lemma requeued_row:
  assumes typed: "rowsTyped rows" and ok: "persistResult (heldBy claim) (requeueRow queuedAt) rows rows' (Inr u)"
  shows "rowsTyped rows' \<and> lookupRow jbm_ID (TrimSpace (job_ID claim)) rows' \<noteq> None \<and>
    (\<forall>r. lookupRow jbm_ID (TrimSpace (job_ID claim)) rows' = Some r \<longrightarrow>
       jbm_Status r = JobStatusQueued \<and> jbm_WorkerID r = [] \<and> jbm_QueuedAt r = queuedAt)"
proof -
  obtain r where r: "r \<in> set rows" "heldBy claim r"
    and rows: "rows' = statementEffect (RequeueStatement claim queuedAt) rows"
    using ok by (auto simp: persistResult_def claim_effects simp del: statementEffect.simps)
  have "lookupRow jbm_ID (TrimSpace (job_ID claim)) rows' = Some (requeueRow queuedAt r)"
    using r statement_row [OF typed r(1), of "RequeueStatement claim queuedAt"]
    by (simp add: rows heldBy_def del: statementEffect.simps)
  then show ?thesis using typed_statement [OF _ typed rows [symmetric]] by (simp add: requeueRow_def)
qed

lemma requeueForRetry_ends:
  assumes typed: "rowsTyped (jw_jobs w)" and id: "TrimSpace (job_ID claimed) = job_ID claimed"
    and run: "requeueForRetry claimed e w = (d, w')"
  shows "rowsTyped (jw_jobs w') \<and> deliveryMatches (job_ID claimed) (jw_jobs w') d"
proof -
  obtain now w1 where clock: "jobClock w = (now, w1)" by force
  obtain c w2 where c: "jobContextErr w1 = (c, w2)" by force
  have w2: "jw_jobs w2 = jw_jobs w" using clock c by (auto simp: jobClock_def jobContextErr_def)
  obtain res w3 where requeue: "RequeueRunning claimed now w2 = (res, w3)" by force
  have result: "persistResult (heldBy claimed) (requeueRow now) (jw_jobs w) (jw_jobs w3) res"
    using RequeueRunning_result [OF requeue] by (simp add: w2)
  show ?thesis
  proof (cases res)
    case (Inl x)
    then show ?thesis using run result typed by (auto simp: requeueForRetry_def clock c requeue persistResult_def)
  next
    case (Inr u)
    then have "d = RetryDelivery e (job_ID claimed) now" "w' = w3"
      using run by (auto simp: requeueForRetry_def clock c requeue)
    then show ?thesis using requeued_row [OF typed, of claimed now "jw_jobs w3"] result Inr id
      by (auto simp del: lookupRow_None)
  qed
qed

lemma requeuePanicked_ends:
  assumes typed: "rowsTyped (jw_jobs w)" and run: "requeuePanicked claimed w = (d, w')"
  shows "rowsTyped (jw_jobs w') \<and> deliveryMatches k (jw_jobs w') d"
proof -
  obtain now w1 where clock: "jobClock w = (now, w1)" by force
  have w1: "jw_jobs w1 = jw_jobs w" using clock by (auto simp: jobClock_def)
  obtain res w2 where requeue: "RequeueRunning claimed now w1 = (res, w2)" by force
  have result: "persistResult (heldBy claimed) (requeueRow now) (jw_jobs w) (jw_jobs w2) res"
    using RequeueRunning_result [OF requeue] by (simp add: w1)
  have "d = DeliveryPanicked" "w' = w2" using run by (auto simp: requeuePanicked_def clock requeue)
  moreover have "rowsTyped (jw_jobs w2)"
    using requeued_row [OF typed] result typed by (cases res) (auto simp: persistResult_def)
  ultimately show ?thesis by simp
qed

lemma execute_ends:
  assumes typed: "rowsTyped (jw_jobs w)" and recover: "recovers w" and handler: "queueHandler handler"
    and id: "TrimSpace (job_ID claimed) = job_ID claimed"
  shows "\<exists>d w'. executeClaimedObserved wk handler message claimed w = Some (d, w') \<and> rowsTyped (jw_jobs w') \<and>
    deliveryMatches (job_ID claimed) (jw_jobs w') d"
proof -
  obtain outcome w1 where run: "oh_execute handler claimed (msg_Payload message) w = (outcome, w1)" by force
  obtain sts where "\<forall>st \<in> set sts. workerStatement st" "jobRun sts (jw_jobs w) (jw_jobs w1)"
    and fault: "jw_fault w1 = jw_fault w"
    using handler unfolding queueHandler_def by (metis run snd_conv)
  then have typed1: "rowsTyped (jw_jobs w1)" using rowsTyped_run typed by blast
  have recover1: "recovers w1" using recover by (simp add: recovers_def fault)
  show ?thesis
  proof (cases outcome)
    case HandlerDone
    then show ?thesis using persistOutcome_ends [OF typed1 recover1, of _ claimed] id
      by (simp add: executeClaimedObserved_def run)
  next
    case (HandlerFailed e)
    show ?thesis
    proof (cases "BusinessFailureFrom e")
      case None
      obtain d w' where d: "requeueForRetry claimed e w1 = (d, w')" by force
      show ?thesis using requeueForRetry_ends [OF typed1 id d] by (simp add: executeClaimedObserved_def run HandlerFailed None d)
    next
      case (Some failure)
      show ?thesis using persistOutcome_ends [OF typed1 recover1, of _ claimed] id
        by (simp add: executeClaimedObserved_def run HandlerFailed Some)
    qed
  next
    case HandlerPanicked
    obtain d w' where d: "requeuePanicked claimed w1 = (d, w')" by force
    show ?thesis using requeuePanicked_ends [OF typed1 d] by (simp add: executeClaimedObserved_def run HandlerPanicked d)
  qed
qed

lemma ClaimQueued_refused:
  assumes run: "ClaimQueued jobID workerID claimedAt w = (Inl e, w')" and refused: "errors_is e ErrJobNotQueued"
    and faults: "\<forall>k e. jw_fault w k = Some e \<longrightarrow> \<not> errors_is e ErrJobNotQueued"
    and row: "lookupRow jbm_ID (TrimSpace jobID) (jw_jobs w) = Some r"
  shows "jbm_Status r \<noteq> JobStatusQueued"
proof -
  have own: False if "GetJob jobID u = (Inl e, w')" and "jw_fault u = jw_fault w" for u
    using that refused faults by (auto simp: GetJob_def readJobs_def jobSQL_run bindA_run mapErrA_run split: option.splits)
  have "\<not> (jbm_ID r = TrimSpace jobID \<and> jbm_Status r = JobStatusQueued \<and> r \<in> set (jw_jobs w))"
    using run refused faults
    by (auto simp: ClaimQueued_def validateRequiredTimestamp_def claimUpdate_def bindA_run mapErrA_run updateJobs_run
        filter_empty_conv split: option.splits if_splits dest!: own)
  then show ?thesis using lookupRow_Some [OF row] by blast
qed

lemma GetJob_fault: "GetJob jobID w = (r, w') \<Longrightarrow> jw_fault w' = jw_fault w"
  by (auto simp: GetJob_def readJobs_def jobSQL_run bindA_run mapErrA_run split: option.splits)

lemma ClaimQueued_fault: "ClaimQueued jobID workerID claimedAt w = (r, w') \<Longrightarrow> jw_fault w' = jw_fault w"
  by (auto simp: ClaimQueued_def claimUpdate_def updateJobs_run bindA_run mapErrA_run
      split: option.splits sum.splits if_splits dest: GetJob_fault)

lemma MaterializeQueued_fault: "MaterializeQueued job w = (r, w') \<Longrightarrow> jw_fault w' = jw_fault w"
  by (auto simp: MaterializeQueued_def jobSQL_run bindA_run mapErrA_run
      split: option.splits sum.splits prod.splits dest: GetJob_fault)

lemma claimObserved_ends:
  assumes typed: "rowsTyped (jw_jobs w)" and recover: "recovers w" and handler: "queueHandler handler"
    and faults: "\<forall>k e. jw_fault w k = Some e \<longrightarrow> \<not> errors_is e ErrJobNotQueued"
    and row: "lookupRow jbm_ID (TrimSpace k) (jw_jobs w) = Some r" and queued: "jbm_Status r = JobStatusQueued"
    and job: "job_ID job = TrimSpace k"
  shows "\<exists>d w'. claimObserved wk handler message job w = Some (d, w') \<and> rowsTyped (jw_jobs w') \<and>
    deliveryMatches (TrimSpace k) (jw_jobs w') d"
proof -
  obtain now w1 where clock: "jobClock w = (now, w1)" by force
  then have w1: "jw_jobs w1 = jw_jobs w" "jw_fault w1 = jw_fault w" by (auto simp: jobClock_def)
  obtain res w2 where claim: "ClaimQueued (job_ID job) (wk_workerID wk) now w1 = (res, w2)" by force
  have typed2: "rowsTyped (jw_jobs w2)"
    using ClaimQueued_jobs [OF claim] typed typed_statement [of "ClaimStatement (job_ID job) (wk_workerID wk) now"]
    by (auto simp: w1 simp del: statementEffect.simps)
  have fault2: "jw_fault w2 = jw_fault w" using ClaimQueued_fault [OF claim] by (simp add: w1)
  show ?thesis
  proof (cases res)
    case (Inl e)
    have "\<not> errors_is e ErrJobNotQueued"
      using ClaimQueued_refused [OF claim [unfolded Inl], of r] faults row queued by (auto simp: w1 job)
    then show ?thesis using typed2 by (simp add: claimObserved_def clock claim Inl)
  next
    case (Inr claimed)
    have "rowsTyped (jw_jobs w1)" using typed by (simp add: w1)
    then obtain q where "lookupRow jbm_ID (TrimSpace (job_ID job)) (jw_jobs w1) = Some q"
        "claimed = jobFromModel (claimRow (wk_workerID wk) now q)"
      using ClaimQueued_ok claim [unfolded Inr] by metis
    then have id: "job_ID claimed = TrimSpace k" using lookupRow_Some by (fastforce simp: job jobFromModel_def claimRow_def)
    have "rowsTyped (jw_jobs (trackClaim claimed w2))" "recovers (trackClaim claimed w2)"
      using typed2 recover by (simp_all add: trackClaim_def recovers_def fault2)
    then show ?thesis using execute_ends [OF _ _ handler, of "trackClaim claimed w2" claimed wk message] id
      by (auto simp: claimObserved_def clock claim Inr releaseClaim_def)
  qed
qed

lemma materialized:
  assumes "MaterializeQueued (queuedJob messageID metadata now) w = (Inr job, w')"
  shows "\<exists>r. lookupRow jbm_ID (TrimSpace messageID) (jw_jobs w') = Some r \<and> job = jobFromModel r"
proof -
  obtain u where "GetJob messageID u = (Inr job, w')"
    using assms by (auto simp: MaterializeQueued_def bindA_Inr queuedJob_def)
  from GetJob_ok [OF this] show ?thesis by auto
qed

lemma materializeObserved_ends:
  assumes typed: "rowsTyped (jw_jobs w)" and recover: "recovers w" and handler: "queueHandler handler"
    and faults: "\<forall>k e. jw_fault w k = Some e \<longrightarrow> \<not> errors_is e ErrJobNotQueued"
  shows "\<exists>d w'. materializeObserved wk handler message w = Some (d, w') \<and> rowsTyped (jw_jobs w') \<and>
    deliveryMatches (TrimSpace (msg_ID message)) (jw_jobs w') d"
proof (cases "oh_metadata handler (msg_Payload message)")
  case (Inl e)
  then show ?thesis using typed by (simp add: materializeObserved_def)
next
  case (Inr metadata)
  obtain now w1 where clock: "jobClock w = (now, w1)" by force
  then have w1: "jw_jobs w1 = jw_jobs w" "jw_fault w1 = jw_fault w" by (auto simp: jobClock_def)
  obtain res w2 where run: "MaterializeQueued (queuedJob (msg_ID message) metadata now) w1 = (res, w2)" by force
  have typed2: "rowsTyped (jw_jobs w2)"
    using MaterializeQueued_jobs [OF run] typed typed_statement [of "MaterializeStatement (msg_ID message) metadata now"]
    by (auto simp: w1)
  have fault2: "jw_fault w2 = jw_fault w" using MaterializeQueued_fault [OF run] by (simp add: w1)
  show ?thesis
  proof (cases res)
    case (Inl e)
    then show ?thesis using typed2 by (simp add: materializeObserved_def Inr clock run)
  next
    case ok: (Inr job)
    obtain r where row: "lookupRow jbm_ID (TrimSpace (msg_ID message)) (jw_jobs w2) = Some r" and job: "job = jobFromModel r"
      using materialized run [unfolded ok] by blast
    have id: "job_ID job = TrimSpace (msg_ID message)" and status: "job_Status job = jbm_Status r"
      using lookupRow_Some [OF row] by (simp_all add: job jobFromModel_def)
    have "jobRowTyped r" using typed2 lookupRow_Some [OF row] by (simp add: rowsTyped_def)
    then consider "jbm_Status r = JobStatusQueued" | "jbm_Status r = JobStatusRunning" | "terminalRow r"
      by (auto simp: jobRowTyped_def terminalRow_def)
    then show ?thesis
    proof cases
      case 1
      have "recovers w2" using recover by (simp add: recovers_def fault2)
      from claimObserved_ends [OF typed2 this handler _ row 1 id, of wk message] faults
      show ?thesis by (simp add: materializeObserved_def Inr clock run ok status 1 fault2)
    next
      case 2
      then show ?thesis using typed2 row by (simp add: materializeObserved_def Inr clock run ok status id del: lookupRow_None)
    next
      case 3
      then have "jbm_Status r \<noteq> JobStatusQueued" "jbm_Status r \<noteq> JobStatusRunning" by (auto simp: terminalRow_def)
      then show ?thesis using typed2 row 3 by (simp add: materializeObserved_def Inr clock run ok status del: lookupRow_None)
    qed
  qed
qed


text \<open>A delivery whose first write of the outcome fails in the database and is tried again.\<close>

definition example_handler :: observedHandler where
  "example_handler =
     \<lparr>oh_topic = ''finance.sync.v1'', oh_jobType = ''sync'', oh_metadata = (\<lambda>payload. Inr example_metadata),
      oh_execute = (\<lambda>job payload v. (HandlerDone, v))\<rparr>"

definition example_failing :: JobWorld where
  "example_failing = (example_queue [])\<lparr>jw_fault := (\<lambda>n. if n = 4 then Some (Errorf ''connection lost'') else None)\<rparr>"

definition example_worker :: JobWorker where
  "example_worker =
     \<lparr>wk_workerID = ''ann'', wk_config = normalizeWorkerConfig \<lparr>wc_PollInterval = 0, wc_MaxAttempts = 0, wc_StaleRunningAge = 0\<rparr>\<rparr>"

definition example_message :: Message where
  "example_message = \<lparr>msg_ID = ''j'', msg_Payload = []\<rparr>"

lemma example_delivery:
  "map_option (\<lambda>(d, w). (d, map jbm_Status (jw_jobs w), jw_waits w, jw_statement w))
     (processObserved example_worker example_handler example_message example_failing) =
   Some (Acknowledged, [''succeeded''], [100000000], 6)"
  by code_simp


end
