(* ===== verification/Dispatch.thy ===== *)
theory Dispatch
  imports Database
begin

text \<open>
  Commands that leave the services as messages: \<^verbatim>\<open>finance/semantic_commands.go\<close>, the
  idempotent publication of \<^verbatim>\<open>internal/appdispatch/appdispatch.go\<close> and the publishers of
  \<^verbatim>\<open>internal/financeapp/register.go\<close> that join them. The tables are those of
  \<^verbatim>\<open>appdispatch/postgres_transport.go\<close>: a message id and an idempotency key occur once. The
  consumer side (Watermill's subscriber and its offsets) is outside.

  Arguments: \<open>payloadHash\<close> is SHA-256 with its hexadecimal encoding, \<open>rfc3339\<close> is
  \<^verbatim>\<open>time.Format(time.RFC3339Nano)\<close> (also \<^verbatim>\<open>encoding/json\<close>'s text of a time), and
  \<open>constraintText\<close> the text of the database's error for a broken constraint.
\<close>

section \<open>Semantic commands\<close>

definition TransactionCSVImportCommandTopic :: string where
  "TransactionCSVImportCommandTopic = ''finance.csv-import.transactions.v1''"

definition AccountCSVImportCommandTopic :: string where
  "AccountCSVImportCommandTopic = ''finance.csv-import.accounts.v1''"

definition BankConnectionSyncCommandTopic :: string where
  "BankConnectionSyncCommandTopic = ''finance.bank-connection-sync.v1''"

definition FXRatesRefreshCommandTopic :: string where
  "FXRatesRefreshCommandTopic = ''finance.fx-rates-refresh.v1''"

definition CommandRequesterSourceOperator :: string where "CommandRequesterSourceOperator = ''operator''"
definition CommandRequesterSourceIntegration :: string where "CommandRequesterSourceIntegration = ''integration''"
definition CommandRequesterSourceSystem :: string where "CommandRequesterSourceSystem = ''system''"

record SemanticCommand =
  cmd_Topic :: string
  cmd_Payload :: string
  cmd_IdempotencyKey :: string

record CommandRequester =
  crq_UserID :: string
  crq_Source :: string

definition validateHTTPCommandRequesterSource :: "string \<Rightarrow> go_error option" where
  "validateHTTPCommandRequesterSource source =
     (if source = CommandRequesterSourceOperator \<or> source = CommandRequesterSourceIntegration then None
      else Some (Sentinel ErrInvalidCommandRequesterSource))"

record CSVImportCommand =
  cic_ImportID :: string
  cic_Requester :: CommandRequester

record BankConnectionSyncCommand =
  bcc_ConnectionID :: string
  bcc_Reason :: string
  bcc_WindowStart :: "time option"
  bcc_WindowEnd :: "time option"
  bcc_Requester :: CommandRequester
  bcc_ScheduledAt :: "time option"
  bcc_ScheduledNextRunAt :: "time option"

record FXRatesRefreshCommand =
  frc_Provider :: string
  frc_Requester :: CommandRequester

text \<open>The documents \<^verbatim>\<open>json.Marshal\<close> writes: the fields in order, \<^verbatim>\<open>omitempty\<close> pointers left out.\<close>

definition requesterDocument :: "CommandRequester \<Rightarrow> json" where
  "requesterDocument requester =
     JObject [(''userId'', JString (crq_UserID requester)), (''source'', JString (crq_Source requester))]"

definition omitEmptyTime :: "(time \<Rightarrow> string) \<Rightarrow> string \<Rightarrow> time option \<Rightarrow> (string \<times> json) list" where
  "omitEmptyTime rfc3339 name v = (case v of None \<Rightarrow> [] | Some t \<Rightarrow> [(name, JString (rfc3339 t))])"

definition csvImportDocument :: "CSVImportCommand \<Rightarrow> json" where
  "csvImportDocument c =
     JObject [(''importId'', JString (cic_ImportID c)), (''requester'', requesterDocument (cic_Requester c))]"

definition bankSyncDocument :: "(time \<Rightarrow> string) \<Rightarrow> BankConnectionSyncCommand \<Rightarrow> json" where
  "bankSyncDocument rfc3339 c =
     JObject
      ([(''connectionId'', JString (bcc_ConnectionID c)), (''reason'', JString (bcc_Reason c))]
       @ omitEmptyTime rfc3339 ''windowStart'' (bcc_WindowStart c)
       @ omitEmptyTime rfc3339 ''windowEnd'' (bcc_WindowEnd c)
       @ [(''requester'', requesterDocument (bcc_Requester c))]
       @ omitEmptyTime rfc3339 ''scheduledAt'' (bcc_ScheduledAt c)
       @ omitEmptyTime rfc3339 ''scheduledNextRunAt'' (bcc_ScheduledNextRunAt c))"

definition fxRefreshDocument :: "FXRatesRefreshCommand \<Rightarrow> json" where
  "fxRefreshDocument c =
     JObject [(''provider'', JString (frc_Provider c)), (''requester'', requesterDocument (frc_Requester c))]"

definition marshalJSON :: "json \<Rightarrow> (World, string) action" where
  "marshalJSON document w = (json_Marshal (w_json w) document, w)"

definition newSemanticCommand :: "string \<Rightarrow> json \<Rightarrow> string \<Rightarrow> (World, SemanticCommand) action" where
  "newSemanticCommand topic payload idempotencyKey =
     bindA (wrapA ''marshal finance semantic command'' (marshalJSON payload)) (\<lambda>encoded.
       returnA \<lparr>cmd_Topic = topic, cmd_Payload = encoded, cmd_IdempotencyKey = idempotencyKey\<rparr>)"

section \<open>Messages\<close>

definition transportPayloadHashMetadataKey :: string where
  "transportPayloadHashMetadataKey = ''_appdispatchPayloadHash''"

definition messageValidate :: "TransportMessage \<Rightarrow> go_error option" where
  "messageValidate m =
     (if msg_ID m = '''' then Some (Errorf ''message id is required'')
      else if msg_Topic m = '''' then Some (Errorf ''message topic is required'')
      else None)"

record PublicationRequest =
  prq_Topic :: string
  prq_Payload :: string
  prq_IdempotencyKey :: string

definition publicationValidate :: "PublicationRequest \<Rightarrow> go_error option" where
  "publicationValidate r = (if prq_Topic r = '''' then Some (Errorf ''publication topic is required'') else None)"

text \<open>The payload is hashed as \<^verbatim>\<open>encoding/json\<close> writes it again, or as it is when it is no JSON.\<close>

definition canonicalPayloadHash :: "(string \<Rightarrow> string) \<Rightarrow> json_codec \<Rightarrow> string \<Rightarrow> string" where
  "canonicalPayloadHash payloadHash codec payload =
     (case json_Unmarshal codec payload of
        Inl e \<Rightarrow> payloadHash payload
      | Inr decoded \<Rightarrow>
          (case json_Marshal codec decoded of
             Inl e \<Rightarrow> payloadHash payload
           | Inr encoded \<Rightarrow> payloadHash encoded))"

definition hashOf :: "(string \<Rightarrow> string) \<Rightarrow> string \<Rightarrow> (World, string) action" where
  "hashOf payloadHash payload w = (Inr (canonicalPayloadHash payloadHash (w_json w) payload), w)"

definition publicationMessage :: "(string \<Rightarrow> string) \<Rightarrow> PublicationRequest \<Rightarrow> (World, TransportMessage) action" where
  "publicationMessage payloadHash request =
     bindA (liftA drawID) (\<lambda>i.
     bindA (hashOf payloadHash (prq_Payload request)) (\<lambda>h.
       returnA \<lparr>msg_ID = i, msg_Topic = prq_Topic request, msg_Payload = prq_Payload request,
         msg_Metadata = [(transportPayloadHashMetadataKey, h)]\<rparr>))"

definition isDuplicateMessageIDError :: "string \<Rightarrow> go_error \<Rightarrow> bool" where
  "isDuplicateMessageIDError constraintText e = containsString (error_text constraintText e) ''duplicate key''"

definition insertMessage :: "TransportMessage \<Rightarrow> (World, unit) action" where
  "insertMessage message =
     changeSQL (\<lambda>t. map_sum (\<lambda>e. e) (\<lambda>rows. t\<lparr>t_messages := rows\<rparr>) (insertRows msg_ID message (t_messages t)))"

definition publishError :: "string \<Rightarrow> string \<Rightarrow> go_error \<Rightarrow> go_error" where
  "publishError constraintText msg e =
     (if isDuplicateMessageIDError constraintText e then Wrap msg (Sentinel ErrDuplicateMessageID) else Wrap msg e)"

definition Publish :: "string \<Rightarrow> TransportMessage \<Rightarrow> (World, unit) action" where
  "Publish constraintText message =
     (case messageValidate message of
        Some e \<Rightarrow> failA e
      | None \<Rightarrow> mapErrA (publishError constraintText (''publish message on topic '' @ msg_Topic message))
          (insertMessage message))"

definition PublishInTx :: "string \<Rightarrow> TransportMessage \<Rightarrow> (World, unit) action" where
  "PublishInTx constraintText message =
     (case messageValidate message of
        Some e \<Rightarrow> failA e
      | None \<Rightarrow> mapErrA (publishError constraintText (''publish message in transaction on topic '' @ msg_Topic message))
          (insertMessage message))"

section \<open>Publications\<close>

definition insertPublication :: "publicationRow \<Rightarrow> publicationRow list \<Rightarrow> go_error + (nat \<times> publicationRow list)" where
  "insertPublication row rows =
     (if pub_IdempotencyKey row \<in> pub_IdempotencyKey ` set rows then Inr (0, rows)
      else if pub_MessageID row \<in> pub_MessageID ` set rows then Inl (Sentinel DatabaseUniqueViolation)
      else Inr (1, rows @ [row]))"

definition claimPublication :: "(string \<Rightarrow> string) \<Rightarrow> PublicationRequest \<Rightarrow> string \<Rightarrow> (World, bool) action" where
  "claimPublication payloadHash request messageID =
     bindA (hashOf payloadHash (prq_Payload request)) (\<lambda>h.
     bindA (wrapA ''claim idempotent publication''
       (execSQL (\<lambda>t.
          case insertPublication \<lparr>pub_IdempotencyKey = prq_IdempotencyKey request, pub_MessageID = messageID,
                 pub_Topic = prq_Topic request, pub_PayloadHash = h\<rparr> (t_publications t) of
            Inl e \<Rightarrow> (Inl e, t)
          | Inr (n, rows) \<Rightarrow> (Inr n, t\<lparr>t_publications := rows\<rparr>))))
     (\<lambda>rows. returnA (rows = 1)))"

definition existingPublication :: "(string \<Rightarrow> string) \<Rightarrow> PublicationRequest \<Rightarrow> (World, string) action" where
  "existingPublication payloadHash request =
     bindA (wrapA ''read idempotent publication''
       (bindA (readSQL (\<lambda>t. lookupRow pub_IdempotencyKey (prq_IdempotencyKey request) (t_publications t))) (\<lambda>found.
          case found of None \<Rightarrow> failA (Errorf ''sql: no rows in result set'') | Some row \<Rightarrow> returnA row))) (\<lambda>row.
     bindA (hashOf payloadHash (prq_Payload request)) (\<lambda>h.
       if pub_Topic row \<noteq> prq_Topic request \<or> pub_PayloadHash row \<noteq> h
       then failA (Wrap (''idempotency key '' @ quotedText (prq_IdempotencyKey request)) (Sentinel ErrPublicationConflict))
       else returnA (pub_MessageID row)))"

definition PublishRequestInTx ::
  "(string \<Rightarrow> string) \<Rightarrow> string \<Rightarrow> PublicationRequest \<Rightarrow> (World, string) action" where
  "PublishRequestInTx payloadHash constraintText request =
     (case publicationValidate request of
        Some e \<Rightarrow> failA e
      | None \<Rightarrow>
          bindA (publicationMessage payloadHash request) (\<lambda>message.
            if prq_IdempotencyKey request = ''''
            then bindA (PublishInTx constraintText message) (\<lambda>_. returnA (msg_ID message))
            else
              bindA (claimPublication payloadHash request (msg_ID message)) (\<lambda>claimed.
                if \<not> claimed then existingPublication payloadHash request
                else bindA (PublishInTx constraintText message) (\<lambda>_. returnA (msg_ID message)))))"

text \<open>A transaction whose opening and commit have error texts of their own.\<close>

definition transactionStages :: "string \<Rightarrow> string \<Rightarrow> (World, 'a) action \<Rightarrow> (World, 'a) action" where
  "transactionStages beginText commitText body =
     bindA (wrapA beginText (readSQL (\<lambda>t. t))) (\<lambda>before w.
       case bindA body (\<lambda>a. bindA (wrapA commitText (readSQL (\<lambda>_. ()))) (\<lambda>_. returnA a)) (w\<lparr>w_inTransaction := True\<rparr>) of
         (Inl e, w') \<Rightarrow> (Inl e, w'\<lparr>w_tables := before, w_inTransaction := w_inTransaction w\<rparr>)
       | (Inr a, w') \<Rightarrow> (Inr a, w'\<lparr>w_inTransaction := w_inTransaction w\<rparr>))"

definition PublishRequest ::
  "(string \<Rightarrow> string) \<Rightarrow> string \<Rightarrow> PublicationRequest \<Rightarrow> (World, string) action" where
  "PublishRequest payloadHash constraintText request =
     (case publicationValidate request of
        Some e \<Rightarrow> failA e
      | None \<Rightarrow>
          if prq_IdempotencyKey request = ''''
          then
            bindA (publicationMessage payloadHash request) (\<lambda>message.
            bindA (Publish constraintText message) (\<lambda>_. returnA (msg_ID message)))
          else
            transactionStages ''begin publication transaction'' ''commit publication transaction''
              (PublishRequestInTx payloadHash constraintText request))"

section \<open>The publishers of the application\<close>

definition requestOf :: "SemanticCommand \<Rightarrow> PublicationRequest" where
  "requestOf command = \<lparr>prq_Topic = cmd_Topic command, prq_Payload = cmd_Payload command,
     prq_IdempotencyKey = cmd_IdempotencyKey command\<rparr>"

definition PublishSemanticCommand ::
  "(string \<Rightarrow> string) \<Rightarrow> string \<Rightarrow> SemanticCommand \<Rightarrow> (World, string) action" where
  "PublishSemanticCommand payloadHash constraintText command =
     wrapA ''publish finance semantic command'' (PublishRequest payloadHash constraintText (requestOf command))"

definition PublishScheduledSemanticCommand ::
  "(string \<Rightarrow> string) \<Rightarrow> string \<Rightarrow> SemanticCommand \<Rightarrow> (World, string) action" where
  "PublishScheduledSemanticCommand payloadHash constraintText command =
     wrapA ''publish scheduled finance semantic command''
       (PublishRequestInTx payloadHash constraintText (requestOf command))"

text \<open>\<^verbatim>\<open>handledFinanceFailure\<close>: a terminal failure of finance is a business failure of the job.\<close>

fun TerminalFailureFrom :: "go_error \<Rightarrow> (go_error \<times> string \<times> string \<times> string) option" where
  "TerminalFailureFrom (TerminalFailure e code summary details) = Some (e, code, summary, details)"
| "TerminalFailureFrom (Wrap _ e) = TerminalFailureFrom e"
| "TerminalFailureFrom (WrapSuffix e _) = TerminalFailureFrom e"
| "TerminalFailureFrom (WrapBoth d e) =
     (case TerminalFailureFrom d of None \<Rightarrow> TerminalFailureFrom e | Some f \<Rightarrow> Some f)"
| "TerminalFailureFrom (Joined d e) =
     (case TerminalFailureFrom d of None \<Rightarrow> TerminalFailureFrom e | Some f \<Rightarrow> Some f)"
| "TerminalFailureFrom (BusinessFailure e _ _ _) = TerminalFailureFrom e"
| "TerminalFailureFrom _ = None"

definition handledFinanceFailure :: "go_error \<Rightarrow> go_error" where
  "handledFinanceFailure e =
     (case TerminalFailureFrom e of
        None \<Rightarrow> e
      | Some (_, code, summary, details) \<Rightarrow> BusinessFailure e code summary details)"

end
