(* ===== verification/FXRates.thy ===== *)
theory FXRates
  imports CatalogStore Dispatch
begin

text \<open>
  Exchange rates: \<^verbatim>\<open>finance/persistence/fx_store.go\<close> (the current rate of each pair, the
  pairs the tenants need), \<^verbatim>\<open>finance/fx.go\<close> (the providers) and \<^verbatim>\<open>finance/service_fx.go\<close>
  (refreshing the needed rates, asking for a refresh, diagnostics).

  A provider is a name and a function; its first argument counts the calls of a refresh,
  because a provider outside the process may answer each of them differently. Frankfurter's
  HTTP exchange, the JSON decoder of its answer and the parser of its date (in the local
  time zone) are arguments. A Go map whose entries are listed later is an association
  list without repeated keys (\<open>mapSet\<close>); the code sorts every such listing.
\<close>

section \<open>Go maps that are listed\<close>

definition mapSet :: "'k \<Rightarrow> 'v \<Rightarrow> ('k \<times> 'v) list \<Rightarrow> ('k \<times> 'v) list" where
  "mapSet k v m = filter (\<lambda>(k', _). k' \<noteq> k) m @ [(k, v)]"

lemma map_of_mapSet [simp]: "map_of (mapSet k v m) k' = (if k' = k then Some v else map_of m k')"
proof -
  have "map_of (filter (\<lambda>(k', _). k' \<noteq> k) m) k' = (if k' = k then None else map_of m k')"
    by (induction m) auto
  then show ?thesis by (simp add: mapSet_def map_add_def split: option.splits)
qed

lemma set_mapSet: "set (mapSet k v m) = {p \<in> set m. fst p \<noteq> k} \<union> {(k, v)}"
  by (auto simp: mapSet_def)

lemma distinct_mapSet: "distinct (map fst m) \<Longrightarrow> distinct (map fst (mapSet k v m))"
  by (auto simp: mapSet_def intro: distinct_map_filter)

section \<open>The rate store\<close>

record ListCurrentFXRatesParams =
  lfr_Provider :: string
  lfr_BaseCurrency :: string
  lfr_QuoteCurrency :: string

definition rateKey :: "currentFXRateModel \<Rightarrow> string \<times> string \<times> string" where
  "rateKey m = (fm_Provider m, fm_BaseCurrency m, fm_QuoteCurrency m)"

definition rateUpdate :: "currentFXRateModel \<Rightarrow> currentFXRateModel \<Rightarrow> currentFXRateModel" where
  "rateUpdate old new = old\<lparr>fm_EffectiveAt := fm_EffectiveAt new,
     fm_LastSuccessfulRefreshAt := fm_LastSuccessfulRefreshAt new, fm_RateValue := fm_RateValue new,
     fm_UpdatedAt := fm_UpdatedAt new\<rparr>"

text \<open>The loop that fills in the timestamps before anything is written.\<close>

definition rateTimestamps :: "FXRate \<Rightarrow> FXRate" where
  "rateTimestamps rate =
     (let r = (if IsZero (fxr_EffectiveAt rate) then rate\<lparr>fxr_EffectiveAt := fxr_RateDate rate\<rparr> else rate)
      in if IsZero (fxr_LastSuccessfulRefreshAt r) then r\<lparr>fxr_LastSuccessfulRefreshAt := fxr_EffectiveAt r\<rparr> else r)"

fun fillRateTimestamps :: "string \<Rightarrow> FXRate list \<Rightarrow> go_error + FXRate list" where
  "fillRateTimestamps msg [] = Inr []"
| "fillRateTimestamps msg (rate # rates) =
     (let r = rateTimestamps rate
      in if IsZero (fxr_EffectiveAt r) \<or> IsZero (fxr_LastSuccessfulRefreshAt r)
         then Inl (Errorf (msg @ '': effective and refresh timestamps are required''))
         else map_sum (\<lambda>e. e) (\<lambda>rs. r # rs) (fillRateTimestamps msg rates))"

definition rateModelStamps :: "currentFXRateModel \<Rightarrow> (World, currentFXRateModel) action" where
  "rateModelStamps model =
     bindA (if IsZero (fm_CreatedAt model) then liftA readClock else returnA (fm_CreatedAt model)) (\<lambda>createdAt.
     bindA (if IsZero (fm_UpdatedAt model) then liftA readClock else returnA (fm_UpdatedAt model)) (\<lambda>updatedAt.
       returnA (model\<lparr>fm_CreatedAt := createdAt, fm_UpdatedAt := updatedAt\<rparr>)))"

fun saveRateLoop ::
  "string \<Rightarrow> (currentFXRateModel \<Rightarrow> currentFXRateModel \<Rightarrow> currentFXRateModel) \<Rightarrow> FXRate list \<Rightarrow> (World, unit) action" where
  "saveRateLoop msg update [] = returnA ()"
| "saveRateLoop msg update (rate # rates) =
     bindA (rateModelStamps (newCurrentFXRateModel rate)) (\<lambda>model.
     bindA (wrapA msg (changeSQL (\<lambda>t. map_sum (\<lambda>e. e) (\<lambda>rows. t\<lparr>t_fxRates := rows\<rparr>)
        (upsertRows rateKey fm_ID update model (t_fxRates t))))) (\<lambda>_.
       saveRateLoop msg update rates))"

definition SaveCurrentFXRates :: "FXRate list \<Rightarrow> (World, unit) action" where
  "SaveCurrentFXRates rates =
     bindA (resultA (fillRateTimestamps ''save current fx rates'' rates)) (\<lambda>filled.
       saveRateLoop ''save current fx rates'' rateUpdate filled)"

text \<open>\<^verbatim>\<open>ON CONFLICT DO NOTHING\<close>: the stored rate stays.\<close>

definition SaveCurrentFXRatesIfAbsent :: "FXRate list \<Rightarrow> (World, unit) action" where
  "SaveCurrentFXRatesIfAbsent rates =
     bindA (resultA (fillRateTimestamps ''save current fx rates if absent'' rates)) (\<lambda>filled.
       saveRateLoop ''save current fx rates if absent'' (\<lambda>old new. old) filled)"

definition rateFilter :: "ListCurrentFXRatesParams \<Rightarrow> currentFXRateModel \<Rightarrow> bool" where
  "rateFilter params m \<longleftrightarrow>
     (TrimSpace (lfr_Provider params) = '''' \<or> fm_Provider m = TrimSpace (lfr_Provider params)) \<and>
     (TrimSpace (lfr_BaseCurrency params) = '''' \<or> fm_BaseCurrency m = TrimSpace (lfr_BaseCurrency params)) \<and>
     (TrimSpace (lfr_QuoteCurrency params) = '''' \<or> fm_QuoteCurrency m = TrimSpace (lfr_QuoteCurrency params))"

definition ListCurrentFXRates :: "ListCurrentFXRatesParams \<Rightarrow> (World, FXRate list) action" where
  "ListCurrentFXRates params =
     bindA (wrapA ''list current fx rates''
       (readSQL (\<lambda>t. orderAsc rateKey (filter (rateFilter params) (t_fxRates t)))))
     (\<lambda>models. returnA (map currentFXRateFromModel models))"

section \<open>The pairs the tenants need\<close>

record RequiredFXPair =
  rfp_BaseCurrency :: string
  rfp_QuoteCurrency :: string

text \<open>The join of accounts or transactions with the tenants that are not archived.\<close>

definition tenantPairs :: "('r \<Rightarrow> string) \<Rightarrow> ('r \<Rightarrow> string) \<Rightarrow> 'r list \<Rightarrow> tenantModel list \<Rightarrow> (string \<times> string) list" where
  "tenantPairs tenantOf currencyOf rows tenants =
     concat (map (\<lambda>r. map (\<lambda>n. (currencyOf r, nm_DisplayCurrency n))
        (filter (\<lambda>n. nm_ID n = tenantOf r \<and> nm_ArchivedAt n = None \<and> currencyOf r \<noteq> nm_DisplayCurrency n) tenants))
        rows)"

definition fxPairKey :: "string \<Rightarrow> string \<Rightarrow> string" where
  "fxPairKey base quote = base @ ''|'' @ quote"

fun collectPairs :: "(string \<times> RequiredFXPair) list \<Rightarrow> (string \<times> string) list \<Rightarrow> (string \<times> RequiredFXPair) list" where
  "collectPairs m [] = m"
| "collectPairs m ((base, quote) # rows) =
     (let b = ToUpper (TrimSpace base); q = ToUpper (TrimSpace quote)
      in if b = '''' \<or> q = '''' \<or> b = q then collectPairs m rows
         else collectPairs (mapSet (fxPairKey b q) \<lparr>rfp_BaseCurrency = b, rfp_QuoteCurrency = q\<rparr> m) rows)"

definition sortPairs :: "RequiredFXPair list \<Rightarrow> RequiredFXPair list" where
  "sortPairs pairs = sort_key (\<lambda>p. (rfp_QuoteCurrency p, rfp_BaseCurrency p)) pairs"

definition ListRequiredFXPairs :: "(World, RequiredFXPair list) action" where
  "ListRequiredFXPairs =
     bindA (wrapA ''list required fx pairs''
       (readSQL (\<lambda>t. tenantPairs am_TenantID am_Currency (t_accounts t) (t_tenants t)))) (\<lambda>accountRows.
     bindA (wrapA ''list required fx pairs''
       (readSQL (\<lambda>t. tenantPairs tm_TenantID tm_Currency (t_transactions t) (t_tenants t)))) (\<lambda>transactionRows.
       returnA (sortPairs (map snd (collectPairs [] (accountRows @ transactionRows))))))"

section \<open>Providers\<close>

definition FXProviderFrankfurter :: string where "FXProviderFrankfurter = ''frankfurter''"
definition FXProviderNBP :: string where "FXProviderNBP = ''nbp''"
definition FXProviderECB :: string where "FXProviderECB = ''ecb''"
definition FXRefreshJobType :: string where "FXRefreshJobType = ''finance.fx_rates_refresh''"

record FXProviderQuery =
  fxq_BaseCurrency :: string
  fxq_QuoteCurrencies :: "string list"

record FXRatesProvider =
  fxp_Name :: string
  fxp_FetchLatestRates :: "nat \<Rightarrow> FXProviderQuery \<Rightarrow> go_error + FXRate list"

text \<open>\<^verbatim>\<open>rate <= 0 || IsNaN(rate) || IsInf(rate, 0)\<close>.\<close>

fun unusableRate :: "float64 \<Rightarrow> bool" where
  "unusableRate (Finite m e) = (m \<le> 0)"
| "unusableRate (Infinite s) = True"
| "unusableRate NaN = True"

fun staticLatest ::
  "(rune \<Rightarrow> rune \<Rightarrow> bool) \<Rightarrow> string \<Rightarrow> FXProviderQuery \<Rightarrow> (string \<times> FXRate) list \<Rightarrow> FXRate list \<Rightarrow> (string \<times> FXRate) list" where
  "staticLatest sameFold name query m [] = m"
| "staticLatest sameFold name query m (rate # rates) =
     (let quote = ToUpper (TrimSpace (fxr_QuoteCurrency rate));
          r = (if IsZero (fxr_EffectiveAt rate) then rate\<lparr>fxr_EffectiveAt := fxr_RateDate rate\<rparr> else rate)
      in if \<not> EqualFold sameFold (fxr_BaseCurrency rate) (TrimSpace (fxq_BaseCurrency query))
         then staticLatest sameFold name query m rates
         else if quote \<notin> set (map (\<lambda>q. ToUpper (TrimSpace q)) (fxq_QuoteCurrencies query))
         then staticLatest sameFold name query m rates
         else if (case map_of m quote of None \<Rightarrow> False | Some current \<Rightarrow> \<not> fxr_EffectiveAt current < fxr_EffectiveAt r)
         then staticLatest sameFold name query m rates
         else staticLatest sameFold name query
           (mapSet quote (r\<lparr>fxr_Provider := name, fxr_BaseCurrency := ToUpper (TrimSpace (fxr_BaseCurrency r)),
              fxr_QuoteCurrency := quote\<rparr>) m) rates)"

definition sortRates :: "FXRate list \<Rightarrow> FXRate list" where
  "sortRates rates = sort_key fxr_QuoteCurrency rates"

definition StaticFXProvider :: "(rune \<Rightarrow> rune \<Rightarrow> bool) \<Rightarrow> string \<Rightarrow> FXRate list \<Rightarrow> FXRatesProvider" where
  "StaticFXProvider sameFold name rates =
     \<lparr>fxp_Name = TrimSpace name,
      fxp_FetchLatestRates = (\<lambda>n query. Inr (sortRates (map snd (staticLatest sameFold (TrimSpace name) query [] rates))))\<rparr>"

definition StubFXProvider :: "string \<Rightarrow> FXRatesProvider" where
  "StubFXProvider name =
     \<lparr>fxp_Name = name, fxp_FetchLatestRates = (\<lambda>n query. Inl (Sentinel ErrFXProviderNotImplemented))\<rparr>"

definition canonicalizeCurrencies :: "string list \<Rightarrow> string list" where
  "canonicalizeCurrencies values =
     first_seen (\<lambda>c. c) [] (filter (\<lambda>c. c \<noteq> '''') (map (\<lambda>v. ToUpper (TrimSpace v)) values))"

record latestRateResponse =
  lrr_Date :: string
  lrr_Base :: string
  lrr_Quote :: string
  lrr_Rate :: float64

fun frankfurterRates ::
  "(string \<Rightarrow> go_error + time) \<Rightarrow> string \<Rightarrow> string list \<Rightarrow> string list \<Rightarrow> latestRateResponse list \<Rightarrow> go_error + FXRate list" where
  "frankfurterRates parseDate base quotes seen [] = Inr []"
| "frankfurterRates parseDate base quotes seen (item # items) =
     (let quote = ToUpper (TrimSpace (lrr_Quote item))
      in if ToUpper (TrimSpace (lrr_Base item)) \<noteq> base
         then Inl (Errorf ''decode frankfurter latest response: base does not match request'')
         else if quote \<notin> set quotes
         then Inl (Errorf ''decode frankfurter latest response: quote does not match request'')
         else if quote \<in> set seen
         then Inl (Errorf ''decode frankfurter latest response: duplicate quote'')
         else if unusableRate (lrr_Rate item)
         then Inl (Errorf ''decode frankfurter latest response: rate must be positive and finite'')
         else
           (case parseDate (lrr_Date item) of
              Inl e \<Rightarrow> Inl (Wrap ''parse frankfurter date'' e)
            | Inr effectiveAt \<Rightarrow>
                map_sum (\<lambda>e. e) (\<lambda>rates. \<lparr>fxr_Provider = FXProviderFrankfurter, fxr_BaseCurrency = base,
                    fxr_QuoteCurrency = quote, fxr_EffectiveAt = effectiveAt, fxr_RateDate = effectiveAt,
                    fxr_LastSuccessfulRefreshAt = zero_time, fxr_Rate = lrr_Rate item,
                    fxr_CreatedAt = zero_time, fxr_UpdatedAt = zero_time\<rparr> # rates)
                  (frankfurterRates parseDate base quotes (quote # seen) items)))"

text \<open>
  \<open>decodeBody\<close> is the decoder that rejects unknown fields; it says whether the answer holds
  more than one JSON value.
\<close>

definition decodeFrankfurterLatestRates ::
  "(string \<Rightarrow> go_error + latestRateResponse list \<times> bool) \<Rightarrow> (string \<Rightarrow> go_error + time) \<Rightarrow>
   string \<Rightarrow> string \<Rightarrow> string list \<Rightarrow> go_error + FXRate list" where
  "decodeFrankfurterLatestRates decodeBody parseDate body base quotes =
     (case decodeBody body of
        Inl e \<Rightarrow> Inl (Wrap ''decode frankfurter latest response'' e)
      | Inr (response, trailing) \<Rightarrow>
          if trailing then Inl (Errorf ''decode frankfurter latest response: expected one JSON value'')
          else if length response \<noteq> length (remdups quotes)
          then Inl (Errorf (''decode frankfurter latest response: expected '' @ formatNat (length (remdups quotes))
                 @ '' rates, got '' @ formatNat (length response)))
          else map_sum (\<lambda>e. e) sortRates (frankfurterRates parseDate base quotes [] response))"

definition maxFXErrorBodyBytes :: nat where "maxFXErrorBodyBytes = 2048"

text \<open>
  \<open>get n base quotes\<close> is the \<open>n\<close>-th exchange: an error, or the status, what could be read of
  the body, and the error that ended the reading, if any.
\<close>

definition FrankfurterFXProvider ::
  "(nat \<Rightarrow> string \<Rightarrow> string \<Rightarrow> go_error + int \<times> string \<times> go_error option) \<Rightarrow>
   (string \<Rightarrow> go_error + latestRateResponse list \<times> bool) \<Rightarrow> (string \<Rightarrow> go_error + time) \<Rightarrow> FXRatesProvider" where
  "FrankfurterFXProvider get decodeBody parseDate =
     \<lparr>fxp_Name = FXProviderFrankfurter,
      fxp_FetchLatestRates = (\<lambda>n query.
        let quotes = canonicalizeCurrencies (fxq_QuoteCurrencies query);
            base = ToUpper (TrimSpace (fxq_BaseCurrency query))
        in if quotes = [] then Inl (Errorf ''fetch frankfurter rates: at least one quote currency is required'')
           else if base = '''' then Inl (Errorf ''fetch frankfurter rates: base currency is required'')
           else
             (case get n base (concat (map (\<lambda>q. q @ '','') (butlast quotes)) @ last quotes) of
                Inl e \<Rightarrow> Inl (Wrap ''fetch frankfurter rates'' e)
              | Inr (status, body, readError) \<Rightarrow>
                  if status < 200 \<or> 300 \<le> status
                  then Inl (ProviderResponseError FXProviderFrankfurter ''fetch rates'' status ''''
                         (TrimSpace (take maxFXErrorBodyBytes body)))
                  else
                    (case readError of
                       Some e \<Rightarrow> Inl (Wrap ''read frankfurter response'' e)
                     | None \<Rightarrow> decodeFrankfurterLatestRates decodeBody parseDate body base quotes)))\<rparr>"

section \<open>The service\<close>

record FXService =
  fxv_Providers :: "(string \<times> FXRatesProvider) list"
  fxv_DefaultProvider :: string
  fxv_HasRequiredPairs :: bool

record RefreshFXRatesResult =
  rfx_Provider :: string
  rfx_ImportedCount :: nat

definition resolveFXProviderName :: "FXService \<Rightarrow> string \<Rightarrow> go_error + string" where
  "resolveFXProviderName service name =
     (let providerName = (if TrimSpace name = '''' then fxv_DefaultProvider service else TrimSpace name)
      in if map_of (fxv_Providers service) providerName = None
         then Inl (Errorf (''fx provider not configured: '' @ providerName))
         else Inr providerName)"

fun errorsAsProviderResponse :: "go_error \<Rightarrow> (string \<times> string \<times> int \<times> string \<times> string) option" where
  "errorsAsProviderResponse (ProviderResponseError provider operation status code message) =
     Some (provider, operation, status, code, message)"
| "errorsAsProviderResponse (Wrap _ e) = errorsAsProviderResponse e"
| "errorsAsProviderResponse (WrapSuffix e _) = errorsAsProviderResponse e"
| "errorsAsProviderResponse (WrapBoth d e) =
     (case errorsAsProviderResponse d of None \<Rightarrow> errorsAsProviderResponse e | Some p \<Rightarrow> Some p)"
| "errorsAsProviderResponse (Joined d e) =
     (case errorsAsProviderResponse d of None \<Rightarrow> errorsAsProviderResponse e | Some p \<Rightarrow> Some p)"
| "errorsAsProviderResponse (TerminalFailure e _ _ _) = errorsAsProviderResponse e"
| "errorsAsProviderResponse (BusinessFailure e _ _ _) = errorsAsProviderResponse e"
| "errorsAsProviderResponse _ = None"

text \<open>\<^verbatim>\<open>IsClientError\<close> and \<^verbatim>\<open>IsTerminal\<close>: a rejection, except a timeout (408) or a rate limit (429).\<close>

definition IsClientError :: "int \<Rightarrow> bool" where
  "IsClientError status \<longleftrightarrow> 400 \<le> status \<and> status < 500"

definition IsTerminal :: "int \<Rightarrow> bool" where
  "IsTerminal status \<longleftrightarrow> IsClientError status \<and> status \<noteq> 408 \<and> status \<noteq> 429"

definition terminalFXRefreshFailure :: "go_error \<Rightarrow> go_error" where
  "terminalFXRefreshFailure e =
     (if errors_is e ErrFXProviderNotImplemented
      then TerminalFailure e ''fx_provider_not_supported'' ''FX provider is not supported''
             ''The requested FX provider cannot refresh rates.''
      else
        (case errorsAsProviderResponse e of
           None \<Rightarrow> e
         | Some (_, _, status, _, _) \<Rightarrow>
             if IsTerminal status
             then TerminalFailure e ''fx_provider_rejected_request'' ''FX provider rejected the refresh request''
                    ''The FX provider rejected the rate refresh request.''
             else e))"

definition validateProviderFXRates :: "string \<Rightarrow> string \<Rightarrow> string \<Rightarrow> FXRate list \<Rightarrow> go_error + FXRate" where
  "validateProviderFXRates providerName base quote rates =
     (if length rates \<noteq> 1
      then Inl (Errorf (''provider returned '' @ formatNat (length rates) @ '' rates for one requested pair''))
      else
        (let given = hd rates;
             r = given\<lparr>fxr_BaseCurrency := ToUpper (TrimSpace (fxr_BaseCurrency given)),
               fxr_QuoteCurrency := ToUpper (TrimSpace (fxr_QuoteCurrency given))\<rparr>;
             r' = (if IsZero (fxr_EffectiveAt r) then r\<lparr>fxr_EffectiveAt := fxr_RateDate r\<rparr> else r)
         in if TrimSpace (fxr_Provider given) \<noteq> providerName
            then Inl (Errorf ''provider rate identity does not match requested provider'')
            else if fxr_BaseCurrency r \<noteq> ToUpper (TrimSpace base) \<or> fxr_QuoteCurrency r \<noteq> ToUpper (TrimSpace quote)
            then Inl (Errorf ''provider rate pair does not match requested pair'')
            else if IsZero (fxr_EffectiveAt r')
            then Inl (WrapSuffix (Sentinel ErrInvalidTimestampRange) ''provider rate timestamp is required'')
            else if unusableRate (fxr_Rate r')
            then Inl (Errorf ''provider rate must be positive and finite'')
            else Inr (r'\<lparr>fxr_Provider := providerName\<rparr>)))"

fun fetchRequiredRates ::
  "FXRatesProvider \<Rightarrow> string \<Rightarrow> time \<Rightarrow> nat \<Rightarrow> RequiredFXPair list \<Rightarrow> go_error + FXRate list" where
  "fetchRequiredRates provider providerName refreshAt n [] = Inr []"
| "fetchRequiredRates provider providerName refreshAt n (pair # pairs) =
     (case fxp_FetchLatestRates provider n
        \<lparr>fxq_BaseCurrency = rfp_BaseCurrency pair, fxq_QuoteCurrencies = [rfp_QuoteCurrency pair]\<rparr> of
        Inl e \<Rightarrow> Inl (terminalFXRefreshFailure (Wrap ''refresh required fx rates'' e))
      | Inr rates \<Rightarrow>
          (case validateProviderFXRates providerName (rfp_BaseCurrency pair) (rfp_QuoteCurrency pair) rates of
             Inl e \<Rightarrow> Inl (TerminalFailure (Wrap ''refresh required fx rates'' e) ''fx_provider_response_invalid''
                       ''FX provider response is invalid'' ''The FX provider returned invalid rate data.'')
           | Inr rate \<Rightarrow> map_sum (\<lambda>e. e) (\<lambda>items. rate\<lparr>fxr_LastSuccessfulRefreshAt := refreshAt\<rparr> # items)
               (fetchRequiredRates provider providerName refreshAt (Suc n) pairs)))"

definition RefreshRequiredFXRates :: "FXService \<Rightarrow> string \<Rightarrow> (World, RefreshFXRatesResult) action" where
  "RefreshRequiredFXRates service requested =
     (if \<not> fxv_HasRequiredPairs service then failA (Errorf ''required fx pair lister is required'')
      else
        (case resolveFXProviderName service requested of
           Inl e \<Rightarrow> failA (TerminalFailure e ''fx_provider_not_configured'' ''FX provider is not configured''
                     ''The requested FX provider is not available.'')
         | Inr providerName \<Rightarrow>
             bindA (wrapA ''refresh required fx rates'' ListRequiredFXPairs) (\<lambda>pairs.
             bindA (liftA readClock) (\<lambda>refreshAt.
             bindA (resultA (fetchRequiredRates (the (map_of (fxv_Providers service) providerName)) providerName
                       refreshAt 0 pairs)) (\<lambda>items.
             bindA (wrapA ''refresh required fx rates'' (SaveCurrentFXRates items)) (\<lambda>_.
               returnA \<lparr>rfx_Provider = providerName, rfx_ImportedCount = length items\<rparr>))))))"

record TriggerFXRefreshParams =
  tfx_RequestedByUserID :: string
  tfx_Source :: string
  tfx_Provider :: string

record FXRefreshJobRef =
  fxj_ID :: string
  fxj_JobType :: string
  fxj_Provider :: string

definition TriggerFXRefresh ::
  "(SemanticCommand \<Rightarrow> (World, string) action) option \<Rightarrow> FXService \<Rightarrow> TriggerFXRefreshParams \<Rightarrow> (World, FXRefreshJobRef) action" where
  "TriggerFXRefresh publisher service params =
     (case publisher of
        None \<Rightarrow> failA (Errorf ''fx refresh command publisher is required'')
      | Some publish \<Rightarrow>
          bindA (resultA (resolveFXProviderName service (tfx_Provider params))) (\<lambda>providerName.
          bindA (newSemanticCommand FXRatesRefreshCommandTopic
                   (fxRefreshDocument \<lparr>frc_Provider = providerName,
                      frc_Requester = \<lparr>crq_UserID = TrimSpace (tfx_RequestedByUserID params),
                        crq_Source = TrimSpace (tfx_Source params)\<rparr>\<rparr>) '''') (\<lambda>command.
          bindA (wrapA ''trigger required fx refresh'' (publish command)) (\<lambda>messageID.
            returnA \<lparr>fxj_ID = messageID, fxj_JobType = FXRefreshJobType, fxj_Provider = providerName\<rparr>))))"

record FXAdminProviderDiagnostics =
  fad_Name :: string
  fad_Default :: bool
  fad_Ready :: bool

record FXAdminDiagnostics =
  fad_DefaultProvider :: string
  fad_Providers :: "FXAdminProviderDiagnostics list"
  fad_StoredRatesCount :: nat

definition GetFXAdminDiagnostics :: "FXService \<Rightarrow> (World, FXAdminDiagnostics) action" where
  "GetFXAdminDiagnostics service =
     bindA (wrapA ''get fx admin diagnostics''
       (ListCurrentFXRates \<lparr>lfr_Provider = '''', lfr_BaseCurrency = '''', lfr_QuoteCurrency = ''''\<rparr>)) (\<lambda>storedRates.
       returnA
         \<lparr>fad_DefaultProvider = fxv_DefaultProvider service,
          fad_Providers = map (\<lambda>name. \<lparr>fad_Name = name, fad_Default = (name = fxv_DefaultProvider service),
             fad_Ready = True\<rparr>) (sort (remdups (map fst (fxv_Providers service)))),
          fad_StoredRatesCount = length storedRates\<rparr>)"


section \<open>The table of rates\<close>

interpretation rates: conflict_table rateKey rateUpdate
  by unfold_locales (simp add: rateKey_def rateUpdate_def)

lemma rateKey_of_rate [simp]:
  "rateKey (newCurrentFXRateModel rate) = (fxr_Provider rate, fxr_BaseCurrency rate, fxr_QuoteCurrency rate)"
  by (simp add: rateKey_def newCurrentFXRateModel_def)

end
