(* ===== verification/Reporting.thy ===== *)
theory Reporting
  imports FXRates Catalog
begin

text \<open>
  The dashboard: \<^verbatim>\<open>finance/service_reporting.go\<close>, \<^verbatim>\<open>finance/reporting.go\<close> (its part
  \<open>reportingContribution\<close> is in \<open>Ledger\<close>) and \<^verbatim>\<open>service_account_balances.go\<close>. Loops over Go
  maps end in a sort in the code; the maps are association lists here. Categories of one kind
  with one name, and only those, compare equal in such a sort: Go leaves their order open, the
  model keeps the order of their first contribution. \<open>outOfRange\<close> is what \<^verbatim>\<open>int64(f)\<close> is for a
  float outside the range of \<^verbatim>\<open>int64\<close>.
\<close>

section \<open>Objects\<close>

record DashboardParams =
  dp_ActorUserID :: string
  dp_TenantID :: string
  dp_StartDate :: time
  dp_EndDate :: time

datatype DashboardMissingFXSource = DashboardMissingFXSourceTransaction | DashboardMissingFXSourceBalance

record DashboardMoneySummary =
  dms_DisplayCurrency :: string
  dms_IncomeMinor :: int64
  dms_ExpenseMinor :: int64
  dms_NetMinor :: int64
  dms_TransactionCount :: nat
  dms_Complete :: bool

record DashboardCategoryBreakdown =
  dcb_CategoryID :: string
  dcb_CategoryName :: string
  dcb_Kind :: CategoryKind
  dcb_IncomeMinor :: int64
  dcb_ExpenseMinor :: int64
  dcb_TransactionCount :: nat

record DashboardAccountBalance =
  dab_AccountID :: string
  dab_AccountName :: string
  dab_Currency :: string
  dab_NativeBookedMinor :: int64
  dab_NativePendingMinor :: int64
  dab_DisplayBookedMinor :: "int64 option"
  dab_DisplayPendingMinor :: "int64 option"
  dab_MissingFX :: bool

record DashboardAlert =
  alert_Code :: string
  alert_Severity :: string
  alert_Count :: nat

record DashboardMissingFXDiagnostic =
  dmf_Source :: DashboardMissingFXSource
  dmf_TransactionID :: string
  dmf_AccountID :: string
  dmf_BaseCurrency :: string
  dmf_QuoteCurrency :: string
  dmf_RateDate :: time
  dmf_Provider :: string

record DashboardFXCoverage =
  dfc_Provider :: string
  dfc_BaseCurrency :: string
  dfc_QuoteCurrency :: string
  dfc_AffectedTransactionCount :: nat
  dfc_AffectedAccountCount :: nat

record DashboardFXRate =
  dfr_Provider :: string
  dfr_BaseCurrency :: string
  dfr_QuoteCurrency :: string
  dfr_EffectiveAt :: time
  dfr_LastSuccessfulRefreshAt :: time
  dfr_Stale :: bool

record DashboardCurrencyTotal =
  dct_Currency :: string
  dct_IncomeMinor :: int64
  dct_ExpenseMinor :: int64
  dct_NetMinor :: int64

record Dashboard =
  db_Period :: "time \<times> time"
  db_Settled :: DashboardMoneySummary
  db_Pending :: DashboardMoneySummary
  db_CategoryBreakdowns :: "DashboardCategoryBreakdown list"
  db_AccountBalances :: "DashboardAccountBalance list"
  db_Alerts :: "DashboardAlert list"
  db_MissingFX :: "DashboardMissingFXDiagnostic list"
  db_FXCoverage :: "DashboardFXCoverage list"
  db_CurrentFXRates :: "DashboardFXRate list"
  db_NativeSettledTotals :: "DashboardCurrencyTotal list"

type_synonym fxRateLookup = "(string \<times> FXRate) list"

record dashboardData =
  dd_Tenant :: Tenant
  dd_Start :: time
  dd_End :: time
  dd_Transactions :: "Transaction list"
  dd_Accounts :: "Account list"
  dd_Balances :: "AccountBalance list"
  dd_Categories :: "Category list"
  dd_RateLookup :: fxRateLookup

section \<open>Ranges\<close>

definition ValidateRequiredTimestampRange :: "time \<Rightarrow> time \<Rightarrow> go_error option" where
  "ValidateRequiredTimestampRange start finish =
     (if IsZero start then Some (WrapSuffix (Sentinel ErrInvalidTimestampRange) ''start timestamp is required'')
      else if IsZero finish then Some (WrapSuffix (Sentinel ErrInvalidTimestampRange) ''end timestamp is required'')
      else if start > finish
      then Some (WrapSuffix (Sentinel ErrInvalidTimestampRange) ''start timestamp must not be after end timestamp'')
      else None)"

definition ValidateDashboardParams :: "DashboardParams \<Rightarrow> go_error option" where
  "ValidateDashboardParams params =
     (case ValidateRequiredTimestampRange (dp_StartDate params) (dp_EndDate params) of
        Some e \<Rightarrow> Some e
      | None \<Rightarrow>
          if \<not> dp_StartDate params < dp_EndDate params
          then Some (WrapSuffix (Sentinel ErrInvalidTimestampRange) ''start timestamp must be before end timestamp'')
          else None)"

definition transactionInPeriod :: "Transaction \<Rightarrow> time \<Rightarrow> time \<Rightarrow> bool" where
  "transactionInPeriod transaction startDate endDate \<longleftrightarrow>
     \<not> tx_EffectiveAt transaction < startDate \<and> tx_EffectiveAt transaction < endDate"

section \<open>Rates\<close>

definition lookupKey :: "string \<Rightarrow> string \<Rightarrow> string \<Rightarrow> string" where
  "lookupKey provider base quote = provider @ ''|'' @ base @ ''|'' @ quote"

definition newFXRateLookup :: "FXRate list \<Rightarrow> fxRateLookup" where
  "newFXRateLookup rates =
     foldl (\<lambda>m rate. mapSet (lookupKey (fxr_Provider rate) (fxr_BaseCurrency rate) (fxr_QuoteCurrency rate)) rate m)
       [] rates"

definition convertMinor :: "(float64 \<Rightarrow> int64) \<Rightarrow> int64 \<Rightarrow> float64 \<Rightarrow> int64" where
  "convertMinor outOfRange amount rate =
     int64_of_float outOfRange (floatRound (floatMul (float_of_int64 amount) rate))"

definition convertTransactionContribution ::
  "(float64 \<Rightarrow> int64) \<Rightarrow> Transaction \<Rightarrow> string \<Rightarrow> string \<Rightarrow> fxRateLookup \<Rightarrow> int64 \<Rightarrow> int64 \<Rightarrow> (int64 \<times> int64) option" where
  "convertTransactionContribution outOfRange transaction displayCurrency provider rates income expense =
     (if tx_Currency transaction = displayCurrency then Some (income, expense)
      else
        (case map_of rates (lookupKey provider (tx_Currency transaction) displayCurrency) of
           None \<Rightarrow> None
         | Some rate \<Rightarrow> Some (convertMinor outOfRange income (fxr_Rate rate), convertMinor outOfRange expense (fxr_Rate rate))))"

definition convertBalanceAmount ::
  "(float64 \<Rightarrow> int64) \<Rightarrow> int64 \<Rightarrow> string \<Rightarrow> string \<Rightarrow> string \<Rightarrow> fxRateLookup \<Rightarrow> int64 option" where
  "convertBalanceAmount outOfRange amount baseCurrency displayCurrency provider rates =
     (if amount = 0 then Some 0
      else if baseCurrency = displayCurrency then Some amount
      else
        (case map_of rates (lookupKey provider baseCurrency displayCurrency) of
           None \<Rightarrow> None
         | Some selected \<Rightarrow> Some (convertMinor outOfRange amount (fxr_Rate selected))))"

definition neededPair :: "string \<Rightarrow> string \<Rightarrow> string list" where
  "neededPair baseCurrency displayCurrency =
     (let base = ToUpper (TrimSpace baseCurrency); quote = ToUpper (TrimSpace displayCurrency)
      in if base \<noteq> '''' \<and> quote \<noteq> '''' \<and> base \<noteq> quote then [fxPairKey base quote] else [])"

definition filterDashboardFXRates ::
  "string \<Rightarrow> time \<Rightarrow> time \<Rightarrow> Account list \<Rightarrow> Transaction list \<Rightarrow> FXRate list \<Rightarrow> FXRate list" where
  "filterDashboardFXRates displayCurrency startDate endDate accounts transactions rates =
     (let counted = filter (\<lambda>t. tx_HiddenAt t = None \<and> transactionInPeriod t startDate endDate \<and>
            snd (snd (reportingContribution t))) transactions;
          pairs = concat (map (\<lambda>a. neededPair (acc_Currency a) displayCurrency) accounts) @
            concat (map (\<lambda>t. neededPair (tx_Currency t) displayCurrency) counted)
      in filter (\<lambda>rate. fxPairKey (ToUpper (TrimSpace (fxr_BaseCurrency rate))) (ToUpper (TrimSpace (fxr_QuoteCurrency rate)))
           \<in> set pairs) rates)"

definition dashboardFXStaleAfter :: duration where
  "dashboardFXStaleAfter = 48 * hour"

definition dashboardFXRates :: "fxRateLookup \<Rightarrow> time \<Rightarrow> DashboardFXRate list" where
  "dashboardFXRates rates now =
     sort_key (\<lambda>r. (dfr_BaseCurrency r, dfr_QuoteCurrency r))
       (map (\<lambda>(_, rate). \<lparr>dfr_Provider = fxr_Provider rate, dfr_BaseCurrency = fxr_BaseCurrency rate,
           dfr_QuoteCurrency = fxr_QuoteCurrency rate, dfr_EffectiveAt = fxr_EffectiveAt rate,
           dfr_LastSuccessfulRefreshAt = fxr_LastSuccessfulRefreshAt rate,
           dfr_Stale = (now - fxr_LastSuccessfulRefreshAt rate > dashboardFXStaleAfter)\<rparr>) rates)"

section \<open>The totals\<close>

record dashboardTotals =
  dt_Settled :: DashboardMoneySummary
  dt_Pending :: DashboardMoneySummary
  dt_Breakdowns :: "(string \<times> DashboardCategoryBreakdown) list"
  dt_Native :: "(string \<times> DashboardCurrencyTotal) list"
  dt_Missing :: "DashboardMissingFXDiagnostic list"

definition emptySummary :: "string \<Rightarrow> DashboardMoneySummary" where
  "emptySummary displayCurrency = \<lparr>dms_DisplayCurrency = displayCurrency, dms_IncomeMinor = 0, dms_ExpenseMinor = 0,
     dms_NetMinor = 0, dms_TransactionCount = 0, dms_Complete = True\<rparr>"

definition addNativeTotal ::
  "(string \<times> DashboardCurrencyTotal) list \<Rightarrow> string \<Rightarrow> int64 \<Rightarrow> int64 \<Rightarrow> (string \<times> DashboardCurrencyTotal) list" where
  "addNativeTotal totals currency income expense =
     (let current = (case map_of totals currency of
            None \<Rightarrow> \<lparr>dct_Currency = currency, dct_IncomeMinor = 0, dct_ExpenseMinor = 0, dct_NetMinor = 0\<rparr>
          | Some current \<Rightarrow> current);
          incomeMinor = dct_IncomeMinor current + income;
          expenseMinor = dct_ExpenseMinor current + expense
      in mapSet currency (current\<lparr>dct_IncomeMinor := incomeMinor, dct_ExpenseMinor := expenseMinor,
           dct_NetMinor := incomeMinor - expenseMinor\<rparr>) totals)"

definition markIncompleteDashboardSummary :: "TransactionStatus \<Rightarrow> dashboardTotals \<Rightarrow> dashboardTotals" where
  "markIncompleteDashboardSummary status totals =
     (if status = TransactionStatusBooked then totals\<lparr>dt_Settled := (dt_Settled totals)\<lparr>dms_Complete := False\<rparr>\<rparr>
      else totals\<lparr>dt_Pending := (dt_Pending totals)\<lparr>dms_Complete := False\<rparr>\<rparr>)"

definition applyDashboardContribution :: "int64 \<Rightarrow> int64 \<Rightarrow> DashboardMoneySummary \<Rightarrow> DashboardMoneySummary" where
  "applyDashboardContribution income expense summary =
     summary\<lparr>dms_IncomeMinor := dms_IncomeMinor summary + income, dms_ExpenseMinor := dms_ExpenseMinor summary + expense\<rparr>"

definition countTransaction :: "DashboardMoneySummary \<Rightarrow> DashboardMoneySummary" where
  "countTransaction summary = summary\<lparr>dms_TransactionCount := dms_TransactionCount summary + 1\<rparr>"

definition applyCategoryContribution :: "int64 \<Rightarrow> int64 \<Rightarrow> DashboardCategoryBreakdown \<Rightarrow> DashboardCategoryBreakdown" where
  "applyCategoryContribution income expense b =
     b\<lparr>dcb_IncomeMinor := dcb_IncomeMinor b + income, dcb_ExpenseMinor := dcb_ExpenseMinor b + expense\<rparr>"

definition addDashboardCategoryContribution ::
  "(string \<times> Category) list \<Rightarrow> Transaction \<Rightarrow> int64 \<Rightarrow> int64 \<Rightarrow>
   (string \<times> DashboardCategoryBreakdown) list \<Rightarrow> (string \<times> DashboardCategoryBreakdown) list" where
  "addDashboardCategoryContribution categoryNames transaction income expense breakdowns =
     (case tx_CategoryID transaction of
        None \<Rightarrow> breakdowns
      | Some categoryID \<Rightarrow>
          (case map_of categoryNames categoryID of
             None \<Rightarrow> breakdowns
           | Some category \<Rightarrow>
               (let b = (case map_of breakdowns (cat_ID category) of
                      None \<Rightarrow> \<lparr>dcb_CategoryID = cat_ID category, dcb_CategoryName = cat_Name category,
                        dcb_Kind = cat_Kind category, dcb_IncomeMinor = 0, dcb_ExpenseMinor = 0, dcb_TransactionCount = 0\<rparr>
                    | Some b \<Rightarrow> b);
                    b' = applyCategoryContribution income expense b
                in mapSet (cat_ID category) (b'\<lparr>dcb_TransactionCount := dcb_TransactionCount b' + 1\<rparr>) breakdowns)))"

definition missingTransaction :: "string \<Rightarrow> string \<Rightarrow> Transaction \<Rightarrow> DashboardMissingFXDiagnostic" where
  "missingTransaction provider displayCurrency transaction =
     \<lparr>dmf_Source = DashboardMissingFXSourceTransaction, dmf_TransactionID = tx_ID transaction,
       dmf_AccountID = tx_AccountID transaction, dmf_BaseCurrency = tx_Currency transaction,
       dmf_QuoteCurrency = displayCurrency, dmf_RateDate = tx_EffectiveAt transaction, dmf_Provider = provider\<rparr>"

definition processDashboardTransaction ::
  "(float64 \<Rightarrow> int64) \<Rightarrow> string \<Rightarrow> dashboardData \<Rightarrow> (string \<times> Category) list \<Rightarrow> dashboardTotals \<Rightarrow> Transaction \<Rightarrow> dashboardTotals" where
  "processDashboardTransaction outOfRange provider data categoryNames totals transaction =
     (if tx_HiddenAt transaction \<noteq> None \<or> \<not> transactionInPeriod transaction (dd_Start data) (dd_End data) then totals
      else
        (case reportingContribution transaction of
           (income, expense, included) \<Rightarrow>
             if \<not> included then totals
             else
               (let booked = (tx_Status transaction = TransactionStatusBooked);
                    withNative = (if booked
                      then totals\<lparr>dt_Native := addNativeTotal (dt_Native totals) (tx_Currency transaction) income expense\<rparr>
                      else totals)
                in case convertTransactionContribution outOfRange transaction (ten_DisplayCurrency (dd_Tenant data)) provider
                          (dd_RateLookup data) income expense of
                     None \<Rightarrow> markIncompleteDashboardSummary (tx_Status transaction)
                       (withNative\<lparr>dt_Missing := dt_Missing withNative @
                          [missingTransaction provider (ten_DisplayCurrency (dd_Tenant data)) transaction]\<rparr>)
                   | Some (convertedIncome, convertedExpense) \<Rightarrow>
                       if booked
                       then withNative\<lparr>dt_Settled := countTransaction
                                (applyDashboardContribution convertedIncome convertedExpense (dt_Settled withNative)),
                              dt_Breakdowns := addDashboardCategoryContribution categoryNames transaction
                                convertedIncome convertedExpense (dt_Breakdowns withNative)\<rparr>
                       else withNative\<lparr>dt_Pending := countTransaction
                                (applyDashboardContribution convertedIncome convertedExpense (dt_Pending withNative))\<rparr>)))"

definition netSummary :: "DashboardMoneySummary \<Rightarrow> DashboardMoneySummary" where
  "netSummary s = s\<lparr>dms_NetMinor := dms_IncomeMinor s - dms_ExpenseMinor s\<rparr>"

definition sortCategoryBreakdowns :: "(string \<times> DashboardCategoryBreakdown) list \<Rightarrow> DashboardCategoryBreakdown list" where
  "sortCategoryBreakdowns breakdowns =
     sort_key (\<lambda>b. (dcb_Kind b \<noteq> CategoryKindIncome, dcb_CategoryName b)) (map snd breakdowns)"

definition sortCurrencyTotals :: "(string \<times> DashboardCurrencyTotal) list \<Rightarrow> DashboardCurrencyTotal list" where
  "sortCurrencyTotals totals = sort_key dct_Currency (map snd totals)"

record dashboardComputation =
  dc_Settled :: DashboardMoneySummary
  dc_Pending :: DashboardMoneySummary
  dc_CategoryBreakdowns :: "DashboardCategoryBreakdown list"
  dc_Missing :: "DashboardMissingFXDiagnostic list"
  dc_NativeSettledTotals :: "DashboardCurrencyTotal list"

definition computeDashboard :: "(float64 \<Rightarrow> int64) \<Rightarrow> string \<Rightarrow> dashboardData \<Rightarrow> dashboardComputation" where
  "computeDashboard outOfRange provider data =
     (let categoryNames = foldl (\<lambda>m c. mapSet (cat_ID c) c m) [] (dd_Categories data);
          display = ten_DisplayCurrency (dd_Tenant data);
          totals = foldl (processDashboardTransaction outOfRange provider data categoryNames)
            \<lparr>dt_Settled = emptySummary display, dt_Pending = emptySummary display, dt_Breakdowns = [],
              dt_Native = [], dt_Missing = []\<rparr> (dd_Transactions data)
      in \<lparr>dc_Settled = netSummary (dt_Settled totals), dc_Pending = netSummary (dt_Pending totals),
           dc_CategoryBreakdowns = sortCategoryBreakdowns (dt_Breakdowns totals), dc_Missing = dt_Missing totals,
           dc_NativeSettledTotals = sortCurrencyTotals (dt_Native totals)\<rparr>)"

section \<open>Balances of the accounts\<close>

definition dashboardAccountBalance ::
  "(float64 \<Rightarrow> int64) \<Rightarrow> string \<Rightarrow> dashboardData \<Rightarrow> (string \<times> AccountBalance) list \<Rightarrow> Account \<Rightarrow> DashboardAccountBalance" where
  "dashboardAccountBalance outOfRange provider data balances account =
     (let (booked, pending) = (case map_of balances (acc_ID account) of
            None \<Rightarrow> (0, 0)
          | Some aggregate \<Rightarrow> (ab_BookedBalanceMinor aggregate, ab_PendingBalanceMinor aggregate));
          display = ten_DisplayCurrency (dd_Tenant data);
          bookedDisplay = convertBalanceAmount outOfRange booked (acc_Currency account) display provider (dd_RateLookup data);
          pendingDisplay = convertBalanceAmount outOfRange pending (acc_Currency account) display provider (dd_RateLookup data)
      in \<lparr>dab_AccountID = acc_ID account, dab_AccountName = acc_Name account, dab_Currency = acc_Currency account,
           dab_NativeBookedMinor = booked, dab_NativePendingMinor = pending,
           dab_DisplayBookedMinor = bookedDisplay, dab_DisplayPendingMinor = pendingDisplay,
           dab_MissingFX = ((bookedDisplay = None \<and> booked \<noteq> 0) \<or> (pendingDisplay = None \<and> pending \<noteq> 0))\<rparr>)"

definition missingBalance :: "string \<Rightarrow> dashboardData \<Rightarrow> Account \<Rightarrow> DashboardMissingFXDiagnostic" where
  "missingBalance provider data account =
     \<lparr>dmf_Source = DashboardMissingFXSourceBalance, dmf_TransactionID = '''', dmf_AccountID = acc_ID account,
       dmf_BaseCurrency = acc_Currency account, dmf_QuoteCurrency = ten_DisplayCurrency (dd_Tenant data),
       dmf_RateDate = dd_End data, dmf_Provider = provider\<rparr>"

definition buildDashboardAccountBalances ::
  "(float64 \<Rightarrow> int64) \<Rightarrow> string \<Rightarrow> dashboardData \<Rightarrow> DashboardAccountBalance list \<times> DashboardMissingFXDiagnostic list" where
  "buildDashboardAccountBalances outOfRange provider data =
     (let balances = foldl (\<lambda>m b. mapSet (ab_AccountID b) b m) [] (dd_Balances data);
          line = dashboardAccountBalance outOfRange provider data balances
      in (map line (dd_Accounts data),
          map (missingBalance provider data) (filter (\<lambda>a. dab_MissingFX (line a)) (dd_Accounts data))))"

section \<open>Coverage and alerts\<close>

definition addCoverage ::
  "(string \<times> DashboardFXCoverage) list \<Rightarrow> DashboardMissingFXDiagnostic \<Rightarrow> (string \<times> DashboardFXCoverage) list" where
  "addCoverage m item =
     (let key = lookupKey (dmf_Provider item) (dmf_BaseCurrency item) (dmf_QuoteCurrency item);
          coverage = (case map_of m key of
            None \<Rightarrow> \<lparr>dfc_Provider = dmf_Provider item, dfc_BaseCurrency = dmf_BaseCurrency item,
              dfc_QuoteCurrency = dmf_QuoteCurrency item, dfc_AffectedTransactionCount = 0, dfc_AffectedAccountCount = 0\<rparr>
          | Some coverage \<Rightarrow> coverage)
      in mapSet key
           (case dmf_Source item of
              DashboardMissingFXSourceTransaction \<Rightarrow>
                coverage\<lparr>dfc_AffectedTransactionCount := dfc_AffectedTransactionCount coverage + 1\<rparr>
            | DashboardMissingFXSourceBalance \<Rightarrow>
                coverage\<lparr>dfc_AffectedAccountCount := dfc_AffectedAccountCount coverage + 1\<rparr>) m)"

definition buildDashboardFXCoverage :: "DashboardMissingFXDiagnostic list \<Rightarrow> DashboardFXCoverage list" where
  "buildDashboardFXCoverage missing =
     sort_key (\<lambda>c. (dfc_Provider c, dfc_BaseCurrency c, dfc_QuoteCurrency c)) (map snd (foldl addCoverage [] missing))"

definition buildDashboardAlerts :: "DashboardFXCoverage list \<Rightarrow> nat \<Rightarrow> DashboardAlert list" where
  "buildDashboardAlerts coverage pendingCount =
     (if length coverage > 0
      then [\<lparr>alert_Code = ''missing_fx_rates'', alert_Severity = ''warning'', alert_Count = length coverage\<rparr>] else []) @
     (if pendingCount > 0
      then [\<lparr>alert_Code = ''pending_transactions'', alert_Severity = ''info'', alert_Count = pendingCount\<rparr>] else [])"

section \<open>Loading and answering\<close>

definition loadDashboardData :: "string \<Rightarrow> string \<Rightarrow> DashboardParams \<Rightarrow> (World, dashboardData) action" where
  "loadDashboardData provider tenantID params =
     bindA (wrapA ''get dashboard'' (GetTenant tenantID)) (\<lambda>tenant.
     bindA (wrapA ''get dashboard'' (StoreListTransactions (ten_ID tenant) '''' (TransactionSourceOther '''')
              (TransactionStatusOther '''') False None)) (\<lambda>listed.
     bindA (wrapA ''get dashboard'' (ListAccounts (ten_ID tenant) False)) (\<lambda>accounts.
     bindA (wrapA ''get dashboard'' (ListAccountBalances
              \<lparr>lab_TenantID = ten_ID tenant, lab_AccountIDs = Some (accountIDs accounts),
               lab_EffectiveAtOnOrBefore = None, lab_EffectiveAtBefore = Some (dp_EndDate params)\<rparr>)) (\<lambda>balances.
     bindA (wrapA ''get dashboard'' (StoreListCategories (ten_ID tenant) True)) (\<lambda>categories.
     bindA (wrapA ''get dashboard'' (ListCurrentFXRates
              \<lparr>lfr_Provider = provider, lfr_BaseCurrency = '''', lfr_QuoteCurrency = ''''\<rparr>)) (\<lambda>rates.
       (let transactions = transactionsForAccounts listed accounts
        in returnA
          \<lparr>dd_Tenant = tenant, dd_Start = dp_StartDate params, dd_End = dp_EndDate params,
           dd_Transactions = transactions, dd_Accounts = accounts, dd_Balances = balances, dd_Categories = categories,
           dd_RateLookup = newFXRateLookup (filterDashboardFXRates (ten_DisplayCurrency tenant)
             (dp_StartDate params) (dp_EndDate params) accounts transactions rates)\<rparr>)))))))"

text \<open>What the dashboard says of loaded data; \<open>now\<close> is read for it.\<close>

definition dashboardOf :: "(float64 \<Rightarrow> int64) \<Rightarrow> string \<Rightarrow> dashboardData \<Rightarrow> time \<Rightarrow> Dashboard" where
  "dashboardOf outOfRange provider data now =
     (let computation = computeDashboard outOfRange provider data;
          (accountBalances, balanceMissing) = buildDashboardAccountBalances outOfRange provider data;
          missing = dc_Missing computation @ balanceMissing;
          coverage = buildDashboardFXCoverage missing
      in \<lparr>db_Period = (dd_Start data, dd_End data),
          db_Settled = dc_Settled computation,
          db_Pending = dc_Pending computation,
          db_CategoryBreakdowns = dc_CategoryBreakdowns computation,
          db_AccountBalances = accountBalances,
          db_Alerts = buildDashboardAlerts coverage (dms_TransactionCount (dc_Pending computation)),
          db_MissingFX = missing,
          db_FXCoverage = coverage,
          db_CurrentFXRates = dashboardFXRates (dd_RateLookup data) now,
          db_NativeSettledTotals = dc_NativeSettledTotals computation\<rparr>)"

definition GetDashboard :: "(float64 \<Rightarrow> int64) \<Rightarrow> string \<Rightarrow> DashboardParams \<Rightarrow> (World, Dashboard) action" where
  "GetDashboard outOfRange provider params =
     (case ValidateDashboardParams params of
        Some e \<Rightarrow> failA e
      | None \<Rightarrow>
          bindA (requireTenantMember (dp_TenantID params) (dp_ActorUserID params)) (\<lambda>_.
          bindA (loadDashboardData provider (TrimSpace (dp_TenantID params)) params) (\<lambda>data.
          bindA (liftA readClock) (\<lambda>now.
            returnA (dashboardOf outOfRange provider data now)))))"

section \<open>Balances without the balance store\<close>

definition effectiveAtAfterCutoff :: "time \<Rightarrow> time option \<Rightarrow> bool" where
  "effectiveAtAfterCutoff effectiveAt cutoff = (case cutoff of None \<Rightarrow> False | Some c \<Rightarrow> effectiveAt > c)"

definition effectiveAtAtOrAfterCutoff :: "time \<Rightarrow> time option \<Rightarrow> bool" where
  "effectiveAtAtOrAfterCutoff effectiveAt cutoff = (case cutoff of None \<Rightarrow> False | Some c \<Rightarrow> \<not> effectiveAt < c)"

definition fallbackStep :: "ListAccountBalancesParams \<Rightarrow> AccountBalance \<Rightarrow> Transaction \<Rightarrow> AccountBalance" where
  "fallbackStep params balance item =
     (if tx_HiddenAt item \<noteq> None \<or> effectiveAtAfterCutoff (tx_EffectiveAt item) (lab_EffectiveAtOnOrBefore params) \<or>
         effectiveAtAtOrAfterCutoff (tx_EffectiveAt item) (lab_EffectiveAtBefore params)
      then balance
      else if tx_Status item = TransactionStatusBooked
      then balance\<lparr>ab_BookedBalanceMinor := ab_BookedBalanceMinor balance + tx_AmountMinor item\<rparr>
      else balance\<lparr>ab_PendingBalanceMinor := ab_PendingBalanceMinor balance + tx_AmountMinor item\<rparr>)"

fun fallbackBalances :: "ListAccountBalancesParams \<Rightarrow> string list \<Rightarrow> (World, AccountBalance list) action" where
  "fallbackBalances params [] = returnA []"
| "fallbackBalances params (accountID # ids) =
     bindA (wrapA ''list transactions for account balance'' (StoreListTransactions (lab_TenantID params) accountID
              (TransactionSourceOther '''') (TransactionStatusOther '''') False None)) (\<lambda>transactions.
     bindA (fallbackBalances params ids) (\<lambda>items.
       returnA (foldl (fallbackStep params) \<lparr>ab_AccountID = accountID, ab_BookedBalanceMinor = 0,
         ab_PendingBalanceMinor = 0, ab_Currency = ''''\<rparr> transactions # items)))"

definition accountBalanceFromTransactionStore :: "ListAccountBalancesParams \<Rightarrow> (World, AccountBalance list) action" where
  "accountBalanceFromTransactionStore params =
     fallbackBalances params (case lab_AccountIDs params of None \<Rightarrow> [] | Some ids \<Rightarrow> ids)"

end
