(* ===== verification/CashFlow.thy ===== *)
theory CashFlow
  imports Reporting
begin

text \<open>
  The cash-flow series: \<^verbatim>\<open>finance/cash_flow_series.go\<close> and the query of
  \<^verbatim>\<open>persistence/cash_flow_series_store.go\<close>, common table expression by common table
  expression. A start timestamp comes with the offset of its zone from UTC, in seconds; the
  zone and the session of the database keep one offset over the range (no daylight saving
  inside it). SQL computes with checked 64-bit integers and with binary64 numbers whose
  overflow and underflow are errors; a sum is unbounded until it is cast to \<^verbatim>\<open>bigint\<close>.
\<close>

section \<open>Boundaries\<close>

datatype CashFlowGroupBy = CashFlowGroupByDay | CashFlowGroupByMonth | CashFlowGroupByOther string

text \<open>\<^verbatim>\<open>cashFlowMonthBoundary\<close>: the start shifted by months, its day cut to the length of the month.\<close>

definition cashFlowMonthBoundary :: "int \<Rightarrow> time \<Rightarrow> nat \<Rightarrow> time" where
  "cashFlowMonthBoundary offset startDate monthIndex =
     (let local = startDate + offset * second_ns;
          tod = local mod day_ns
      in case civil_from_days (local div day_ns) of (y, m, d) \<Rightarrow>
           let m0 = m - 1 + int monthIndex;
               y' = y + m0 div 12;
               m' = m0 mod 12 + 1;
               firstOfTargetMonth = days_from_civil y' m' 1 * day_ns + tod;
               lastOfTargetMonth = snd (snd (civil_from_days (AddDate firstOfTargetMonth 0 1 (- 1) div day_ns)));
               day = min d lastOfTargetMonth
           in days_from_civil y' m' day * day_ns + tod - offset * second_ns)"

definition goBoundary :: "CashFlowGroupBy \<Rightarrow> int \<Rightarrow> time \<Rightarrow> nat \<Rightarrow> time" where
  "goBoundary groupBy offset startDate k =
     (case groupBy of
        CashFlowGroupByMonth \<Rightarrow> if k = 0 then startDate else cashFlowMonthBoundary offset startDate k
      | _ \<Rightarrow> AddDate startDate 0 0 (int k))"

text \<open>
  \<^verbatim>\<open>for boundary < endDate\<close>. The boundaries increase (\<open>goBoundary_increases\<close>), so the second
  half of the condition, which makes the recursion well founded, is always true.
\<close>

function countBoundaries :: "(nat \<Rightarrow> time) \<Rightarrow> time \<Rightarrow> nat \<Rightarrow> nat" where
  "countBoundaries boundary endDate k =
     (if boundary k < endDate \<and> boundary k < boundary (Suc k) then countBoundaries boundary endDate (Suc k) else k)"
  by pat_completeness auto
termination
  by (relation "measure (\<lambda>(boundary, endDate, k). nat (endDate - boundary k))") auto

declare countBoundaries.simps [simp del]

definition cashFlowBucketCount :: "time \<Rightarrow> int \<Rightarrow> time \<Rightarrow> CashFlowGroupBy \<Rightarrow> nat" where
  "cashFlowBucketCount startDate offset endDate groupBy =
     (case groupBy of
        CashFlowGroupByOther _ \<Rightarrow> 0
      | _ \<Rightarrow> countBoundaries (goBoundary groupBy offset startDate) endDate 0)"

section \<open>Parameters\<close>

definition maxCashFlowBuckets :: nat where "maxCashFlowBuckets = 366"

record CashFlowSeriesParams =
  cf_ActorUserID :: string
  cf_TenantID :: string
  cf_StartDate :: time
  cf_StartOffset :: int
  cf_EndDate :: time
  cf_GroupBy :: CashFlowGroupBy

definition validateCashFlowGroupBy :: "CashFlowGroupBy \<Rightarrow> go_error option" where
  "validateCashFlowGroupBy groupBy =
     (case groupBy of
        CashFlowGroupByOther s \<Rightarrow> Some (WrapSuffix (Sentinel ErrInvalidCashFlowGrouping) (quotedText s))
      | _ \<Rightarrow> None)"

definition ValidateCashFlowSeriesParams :: "CashFlowSeriesParams \<Rightarrow> go_error option" where
  "ValidateCashFlowSeriesParams params =
     (case ValidateRequiredTimestampRange (cf_StartDate params) (cf_EndDate params) of
        Some e \<Rightarrow> Some e
      | None \<Rightarrow>
          if \<not> cf_StartDate params < cf_EndDate params
          then Some (WrapSuffix (Sentinel ErrInvalidTimestampRange) ''start timestamp must be before end timestamp'')
          else
            (case validateCashFlowGroupBy (cf_GroupBy params) of
               Some e \<Rightarrow> Some e
             | None \<Rightarrow>
                 if cashFlowBucketCount (cf_StartDate params) (cf_StartOffset params) (cf_EndDate params) (cf_GroupBy params)
                    > maxCashFlowBuckets
                 then Some (Errorf (''cash-flow series may contain at most '' @ formatNat maxCashFlowBuckets @ '' buckets''))
                 else None))"

section \<open>SQL: numbers\<close>

definition sqlBigint :: "int \<Rightarrow> go_error + int" where
  "sqlBigint v = (if - (2 ^ 63) \<le> v \<and> v < 2 ^ 63 then Inr v else Inl (Sentinel DatabaseValueOutOfRange))"

text \<open>Multiplication of doubles: an infinite or vanishing result of other operands is an error.\<close>

definition sqlMul :: "float64 \<Rightarrow> float64 \<Rightarrow> go_error + float64" where
  "sqlMul x y =
     (case (x, y, floatMul x y) of
        (Finite m e, Finite n f, Infinite s) \<Rightarrow> Inl (Sentinel DatabaseValueOutOfRange)
      | (Finite m e, Finite n f, Finite p g) \<Rightarrow>
          if p = 0 \<and> m \<noteq> 0 \<and> n \<noteq> 0 then Inl (Sentinel DatabaseValueOutOfRange) else Inr (Finite p g)
      | (_, _, z) \<Rightarrow> Inr z)"

definition addHalf :: "int \<Rightarrow> int \<Rightarrow> float64" where
  "addHalf m e = (let g = min e (- 1) in roundFloat (m * 2 ^ nat (e - g) + 2 ^ nat (- 1 - g)) g)"

fun floatFloor :: "float64 \<Rightarrow> int option" where
  "floatFloor (Finite m e) = Some (if e \<ge> 0 then m * 2 ^ nat e else m div 2 ^ nat (- e))"
| "floatFloor _ = None"

text \<open>\<^verbatim>\<open>(SIGN(x) * FLOOR(ABS(x) + 0.5))::bigint\<close>.\<close>

fun sqlRound :: "float64 \<Rightarrow> go_error + int" where
  "sqlRound (Finite m e) =
     (case floatFloor (addHalf \<bar>m\<bar> e) of
        None \<Rightarrow> Inl (Sentinel DatabaseValueOutOfRange)
      | Some v \<Rightarrow> sqlBigint (sgn m * v))"
| "sqlRound _ = Inl (Sentinel DatabaseValueOutOfRange)"

definition sqlConvert :: "int \<Rightarrow> float64 \<Rightarrow> go_error + int" where
  "sqlConvert native rate =
     (case sqlMul (float_of_int64 (word_of_int native)) rate of Inl e \<Rightarrow> Inl e | Inr x \<Rightarrow> sqlRound x)"

fun sqlSum :: "(go_error + int) list \<Rightarrow> go_error + int" where
  "sqlSum [] = Inr 0"
| "sqlSum (Inl e # terms) = Inl e"
| "sqlSum (Inr v # terms) = map_sum (\<lambda>e. e) (\<lambda>s. v + s) (sqlSum terms)"

section \<open>SQL: buckets\<close>

text \<open>
  \<^verbatim>\<open>cashFlowPostgreSQLStartOffset\<close>: sign, hours and minutes of a zone name whose sign counts
  westwards, as POSIX has it; \<open>zoneSeconds\<close> is what such a name means.
\<close>

definition cashFlowPostgreSQLStartOffset :: "int \<Rightarrow> char \<times> int \<times> int" where
  "cashFlowPostgreSQLStartOffset offset =
     (let (sign, v) = (if offset < 0 then (CHR ''+'', - offset) else (CHR ''-'', offset))
      in (sign, v div 3600, v mod 3600 div 60))"

definition zoneSeconds :: "char \<times> int \<times> int \<Rightarrow> int" where
  "zoneSeconds = (\<lambda>(sign, hours, minutes). (if sign = CHR ''-'' then 1 else - 1) * (hours * 3600 + minutes * 60))"

text \<open>\<^verbatim>\<open>timestamp + k * interval '1 month'\<close>: the day is cut to the length of the month.\<close>

definition lastDayOfMonth :: "int \<Rightarrow> int \<Rightarrow> int" where
  "lastDayOfMonth y m =
     (if m = 2 then (if y mod 4 = 0 \<and> (y mod 100 \<noteq> 0 \<or> y mod 400 = 0) then 29 else 28)
      else if m \<in> {4, 6, 9, 11} then 30 else 31)"

definition addMonthsSQL :: "time \<Rightarrow> nat \<Rightarrow> time" where
  "addMonthsSQL t k =
     (case civil_from_days (t div day_ns) of (y, m, d) \<Rightarrow>
        let m0 = m - 1 + int k; y' = y + m0 div 12; m' = m0 mod 12 + 1
        in days_from_civil y' m' (min d (lastDayOfMonth y' m')) * day_ns + t mod day_ns)"

definition sqlBoundary :: "CashFlowGroupBy \<Rightarrow> int \<Rightarrow> time \<Rightarrow> nat \<Rightarrow> time" where
  "sqlBoundary groupBy offset startDate k =
     (let zone = zoneSeconds (cashFlowPostgreSQLStartOffset offset) * second_ns
      in case groupBy of
           CashFlowGroupByMonth \<Rightarrow> addMonthsSQL (startDate + zone) k - zone
         | _ \<Rightarrow> startDate + int k * day_ns)"

text \<open>\<^verbatim>\<open>bucket_indices\<close>: \<open>0\<close>, and the next index as long as its bucket starts before the end.\<close>

function bucketIndices :: "(nat \<Rightarrow> time) \<Rightarrow> time \<Rightarrow> nat \<Rightarrow> nat list" where
  "bucketIndices boundary endDate k =
     k # (if boundary (Suc k) < endDate \<and> boundary k < boundary (Suc k)
          then bucketIndices boundary endDate (Suc k) else [])"
  by pat_completeness auto
termination
  by (relation "measure (\<lambda>(boundary, endDate, k). nat (endDate - boundary k))") auto

declare bucketIndices.simps [simp del]

record cashBucket =
  bk_TenantID :: string
  bk_DisplayCurrency :: string
  bk_Start :: time
  bk_End :: time

record cashFlowStoreParams =
  cfs_TenantID :: string
  cfs_StartDate :: time
  cfs_StartOffset :: int
  cfs_EndDate :: time
  cfs_GroupBy :: CashFlowGroupBy
  cfs_FXProvider :: string

definition cashBuckets :: "cashFlowStoreParams \<Rightarrow> Tables \<Rightarrow> cashBucket list" where
  "cashBuckets params t =
     (let boundary = sqlBoundary (cfs_GroupBy params) (cfs_StartOffset params) (cfs_StartDate params)
      in concat (map (\<lambda>n. map (\<lambda>k. \<lparr>bk_TenantID = nm_ID n, bk_DisplayCurrency = nm_DisplayCurrency n,
             bk_Start = boundary k, bk_End = min (boundary (Suc k)) (cfs_EndDate params)\<rparr>)
           (bucketIndices boundary (cfs_EndDate params) 0))
         (filter (\<lambda>n. nm_ID n = cfs_TenantID params) (t_tenants t))))"

section \<open>SQL: rows\<close>

definition qualifyingKinds :: "TransactionKind set" where
  "qualifyingKinds = {TransactionKindRegular, TransactionKindExpense, TransactionKindIncome,
     TransactionKindRefund, TransactionKindTransfer}"

definition qualifies :: "cashBucket \<Rightarrow> transactionModel \<Rightarrow> accountModel \<Rightarrow> bool" where
  "qualifies bucket row account \<longleftrightarrow>
     tm_TenantID row = bk_TenantID bucket \<and> bk_Start bucket \<le> tm_EffectiveAt row \<and> tm_EffectiveAt row < bk_End bucket \<and>
     am_ID account = tm_AccountID row \<and> am_TenantID account = bk_TenantID bucket \<and>
     tm_Status row = TransactionStatusBooked \<and> tm_HiddenAt row = None \<and> am_HiddenAt account = None \<and>
     sint (tm_AmountMinor row) \<noteq> 0 \<and> tm_Kind row \<in> qualifyingKinds \<and>
     \<not> (tm_Kind row = TransactionKindTransfer \<and> tm_TransferMatchedAt row \<noteq> None \<and> sint (tm_AmountMinor row) \<noteq> 0)"

definition qualifyingRows :: "Tables \<Rightarrow> cashBucket \<Rightarrow> transactionModel list" where
  "qualifyingRows t bucket =
     concat (map (\<lambda>row. map (\<lambda>_. row) (filter (qualifies bucket row) (t_accounts t))) (t_transactions t))"

definition currentRates :: "string \<Rightarrow> Tables \<Rightarrow> string \<Rightarrow> string \<Rightarrow> currentFXRateModel list" where
  "currentRates provider t currency display =
     filter (\<lambda>r. fm_Provider r = provider \<and> fm_BaseCurrency r = currency \<and> fm_QuoteCurrency r = display) (t_fxRates t)"

text \<open>The left join with the rates: a row of its own when there is none.\<close>

definition contributions :: "string \<Rightarrow> Tables \<Rightarrow> cashBucket \<Rightarrow> (transactionModel \<times> float64 option) list" where
  "contributions provider t bucket =
     concat (map (\<lambda>row.
        case currentRates provider t (tm_Currency row) (bk_DisplayCurrency bucket) of
          [] \<Rightarrow> [(row, None)]
        | rates \<Rightarrow> map (\<lambda>r. (row, Some (fm_RateValue r))) rates)
      (qualifyingRows t bucket))"

definition incomeNative :: "transactionModel \<Rightarrow> go_error + int" where
  "incomeNative row =
     Inr (if tm_Kind row = TransactionKindRefund then 0
          else if sint (tm_AmountMinor row) > 0 then sint (tm_AmountMinor row) else 0)"

definition expenseNative :: "transactionModel \<Rightarrow> go_error + int" where
  "expenseNative row =
     (if tm_Kind row = TransactionKindRefund then sqlBigint (- sint (tm_AmountMinor row))
      else if sint (tm_AmountMinor row) < 0 then sqlBigint (- sint (tm_AmountMinor row)) else Inr 0)"

definition displayMinor :: "cashBucket \<Rightarrow> (transactionModel \<Rightarrow> go_error + int) \<Rightarrow> transactionModel \<times> float64 option \<Rightarrow> go_error + int" where
  "displayMinor bucket native = (\<lambda>(row, rate).
     case native row of
       Inl e \<Rightarrow> Inl e
     | Inr v \<Rightarrow>
         if tm_Currency row = bk_DisplayCurrency bucket then Inr v
         else (case rate of Some r \<Rightarrow> sqlConvert v r | None \<Rightarrow> Inr 0))"

definition bucketTotal :: "string \<Rightarrow> Tables \<Rightarrow> (transactionModel \<Rightarrow> go_error + int) \<Rightarrow> cashBucket \<Rightarrow> go_error + int" where
  "bucketTotal provider t native bucket =
     (case sqlSum (map (displayMinor bucket native) (contributions provider t bucket)) of
        Inl e \<Rightarrow> Inl e | Inr v \<Rightarrow> sqlBigint v)"

record CashFlowSeriesBucket =
  csb_StartDate :: time
  csb_EndDate :: time
  csb_IncomeMinor :: int64
  csb_ExpenseMinor :: int64

text \<open>One row per bucket: the starts of the buckets differ (\<open>sqlBoundary_increases\<close>), as do the tenants' ids.\<close>

fun bucketRows :: "string \<Rightarrow> Tables \<Rightarrow> cashBucket list \<Rightarrow> go_error + CashFlowSeriesBucket list" where
  "bucketRows provider t [] = Inr []"
| "bucketRows provider t (bucket # buckets) =
     (case (bucketTotal provider t incomeNative bucket, bucketTotal provider t expenseNative bucket) of
        (Inr income, Inr expense) \<Rightarrow>
          map_sum (\<lambda>e. e) (\<lambda>rows. \<lparr>csb_StartDate = bk_Start bucket, csb_EndDate = bk_End bucket,
              csb_IncomeMinor = word_of_int income, csb_ExpenseMinor = word_of_int expense\<rparr> # rows)
            (bucketRows provider t buckets)
      | (Inl e, _) \<Rightarrow> Inl e
      | (_, Inl e) \<Rightarrow> Inl e)"

record CashFlowMissingFXDiagnostic =
  cmf_Provider :: string
  cmf_BaseCurrency :: string
  cmf_QuoteCurrency :: string
  cmf_AffectedTransactionCount :: nat

definition missingRows :: "string \<Rightarrow> Tables \<Rightarrow> cashBucket list \<Rightarrow> CashFlowMissingFXDiagnostic list" where
  "missingRows provider t buckets =
     (let missing = concat (map (\<lambda>bucket. map (\<lambda>row. (bucket, row))
            (filter (\<lambda>row. tm_Currency row \<noteq> bk_DisplayCurrency bucket \<and>
                currentRates provider t (tm_Currency row) (bk_DisplayCurrency bucket) = [])
              (qualifyingRows t bucket))) buckets);
          groupOf = (\<lambda>(bucket, row). (bk_DisplayCurrency bucket, tm_Currency row));
          groups = map (\<lambda>(display, currency).
            let members = filter (\<lambda>p. groupOf p = (display, currency)) missing
            in (Min (set (map (\<lambda>p. bk_Start (fst p)) members)),
                \<lparr>cmf_Provider = provider, cmf_BaseCurrency = currency, cmf_QuoteCurrency = display,
                 cmf_AffectedTransactionCount = length (remdups (map (\<lambda>p. tm_ID (snd p)) members))\<rparr>))
            (remdups (map groupOf missing))
      in map snd (sort_key (\<lambda>(start, d). (start, cmf_Provider d, cmf_BaseCurrency d, cmf_QuoteCurrency d)) groups))"

section \<open>The series\<close>

record CashFlowSeries =
  cfx_Period :: "time \<times> time"
  cfx_GroupBy :: CashFlowGroupBy
  cfx_DisplayCurrency :: string
  cfx_Complete :: bool
  cfx_MissingFX :: "CashFlowMissingFXDiagnostic list"
  cfx_Buckets :: "CashFlowSeriesBucket list"

text \<open>Every row carries the display currency of its tenant; the loop keeps that of the last row.\<close>

definition cashFlowQuery :: "cashFlowStoreParams \<Rightarrow> Tables \<Rightarrow> go_error + CashFlowSeries" where
  "cashFlowQuery params t =
     (let buckets = cashBuckets params t
      in case bucketRows (cfs_FXProvider params) t (sort_key bk_Start buckets) of
           Inl e \<Rightarrow> Inl e
         | Inr rows \<Rightarrow>
             (let missing = missingRows (cfs_FXProvider params) t buckets
              in Inr \<lparr>cfx_Period = (cfs_StartDate params, cfs_EndDate params), cfx_GroupBy = cfs_GroupBy params,
                   cfx_DisplayCurrency =
                     (if missing \<noteq> [] then cmf_QuoteCurrency (last missing)
                      else if buckets \<noteq> [] then bk_DisplayCurrency (last (sort_key bk_Start buckets)) else ''''),
                   cfx_Complete = (missing = []), cfx_MissingFX = missing, cfx_Buckets = rows\<rparr>))"

definition StoreGetCashFlowSeries :: "cashFlowStoreParams \<Rightarrow> (World, CashFlowSeries) action" where
  "StoreGetCashFlowSeries params =
     (case cfs_GroupBy params of
        CashFlowGroupByOther s \<Rightarrow> failA (Errorf (''unsupported cash-flow grouping '' @ quotedText s))
      | _ \<Rightarrow> wrapA ''get cash-flow series'' (execSQL (\<lambda>t. (cashFlowQuery params t, t))))"

definition GetCashFlowSeries :: "string \<Rightarrow> CashFlowSeriesParams \<Rightarrow> (World, CashFlowSeries) action" where
  "GetCashFlowSeries provider params =
     (case ValidateCashFlowSeriesParams params of
        Some e \<Rightarrow> failA e
      | None \<Rightarrow>
          bindA (requireTenantMember (cf_TenantID params) (cf_ActorUserID params)) (\<lambda>_.
            wrapA ''get cash-flow series'' (StoreGetCashFlowSeries
              \<lparr>cfs_TenantID = cf_TenantID params, cfs_StartDate = cf_StartDate params,
               cfs_StartOffset = cf_StartOffset params, cfs_EndDate = cf_EndDate params,
               cfs_GroupBy = cf_GroupBy params, cfs_FXProvider = provider\<rparr>)))"

end
