(* ===== verification/DashboardFacts.thy ===== *)
theory DashboardFacts
  imports CashFlow LedgerReads
begin

text \<open>
  What the loops of the dashboard compute: its totals are sums over the counted
  transactions, and every counted transaction is in a total or in a diagnostic. Then what the
  loading reads from the tables, and what looking up a rate finds.
\<close>

section \<open>Totals as sums\<close>

definition counted :: "dashboardData \<Rightarrow> Transaction \<Rightarrow> bool" where
  "counted data t \<longleftrightarrow> tx_HiddenAt t = None \<and> transactionInPeriod t (dd_Start data) (dd_End data) \<and>
     snd (snd (reportingContribution t))"

definition converted :: "(float64 \<Rightarrow> int64) \<Rightarrow> string \<Rightarrow> dashboardData \<Rightarrow> Transaction \<Rightarrow> (int64 \<times> int64) option" where
  "converted out provider data t =
     convertTransactionContribution out t (ten_DisplayCurrency (dd_Tenant data)) provider (dd_RateLookup data)
       (fst (reportingContribution t)) (fst (snd (reportingContribution t)))"

definition booked :: "Transaction \<Rightarrow> bool" where
  "booked t \<longleftrightarrow> tx_Status t = TransactionStatusBooked"

definition part :: "(float64 \<Rightarrow> int64) \<Rightarrow> string \<Rightarrow> dashboardData \<Rightarrow> bool \<Rightarrow> Transaction \<Rightarrow> int64 \<times> int64" where
  "part out provider data settled t =
     (if counted data t \<and> booked t = settled
      then (case converted out provider data t of None \<Rightarrow> (0, 0) | Some p \<Rightarrow> p) else (0, 0))"

lemma process_not_counted:
  "\<not> counted data t \<Longrightarrow> processDashboardTransaction out provider data names totals t = totals"
  by (auto simp: processDashboardTransaction_def counted_def split: prod.splits)

lemma process_missing:
  assumes "counted data t" "converted out provider data t = None"
  shows "processDashboardTransaction out provider data names totals t =
    markIncompleteDashboardSummary (tx_Status t)
      (let native = (if booked t then totals\<lparr>dt_Native := addNativeTotal (dt_Native totals) (tx_Currency t)
             (fst (reportingContribution t)) (fst (snd (reportingContribution t)))\<rparr> else totals)
       in native\<lparr>dt_Missing := dt_Missing native @ [missingTransaction provider (ten_DisplayCurrency (dd_Tenant data)) t]\<rparr>)"
  using assms
  by (auto simp: processDashboardTransaction_def counted_def converted_def booked_def Let_def split: prod.splits)

lemma process_converted:
  assumes "counted data t" "converted out provider data t = Some (i, e)"
  shows "processDashboardTransaction out provider data names totals t =
    (if booked t
     then totals\<lparr>dt_Native := addNativeTotal (dt_Native totals) (tx_Currency t)
            (fst (reportingContribution t)) (fst (snd (reportingContribution t))),
          dt_Settled := countTransaction (applyDashboardContribution i e (dt_Settled totals)),
          dt_Breakdowns := addDashboardCategoryContribution names t i e (dt_Breakdowns totals)\<rparr>
     else totals\<lparr>dt_Pending := countTransaction (applyDashboardContribution i e (dt_Pending totals))\<rparr>)"
  using assms
  by (auto simp: processDashboardTransaction_def counted_def converted_def booked_def Let_def split: prod.splits)

lemmas summary_simps = markIncompleteDashboardSummary_def countTransaction_def applyDashboardContribution_def
  part_def booked_def Let_def

lemma process_sums:
  fixes out provider data names
  defines "step \<equiv> processDashboardTransaction out provider data names"
  shows "dms_IncomeMinor (dt_Settled (step totals t)) = dms_IncomeMinor (dt_Settled totals) + fst (part out provider data True t)" (is ?A)
    and "dms_ExpenseMinor (dt_Settled (step totals t)) = dms_ExpenseMinor (dt_Settled totals) + snd (part out provider data True t)" (is ?B)
    and "dms_IncomeMinor (dt_Pending (step totals t)) = dms_IncomeMinor (dt_Pending totals) + fst (part out provider data False t)" (is ?C)
    and "dms_ExpenseMinor (dt_Pending (step totals t)) = dms_ExpenseMinor (dt_Pending totals) + snd (part out provider data False t)" (is ?D)
    and "dms_Complete (dt_Settled (step totals t)) \<longleftrightarrow> dms_Complete (dt_Settled totals) \<and>
      \<not> (counted data t \<and> booked t \<and> converted out provider data t = None)" (is ?E)
    and "dms_Complete (dt_Pending (step totals t)) \<longleftrightarrow> dms_Complete (dt_Pending totals) \<and>
      \<not> (counted data t \<and> \<not> booked t \<and> converted out provider data t = None)" (is ?F)
    and "dms_TransactionCount (dt_Settled (step totals t)) = dms_TransactionCount (dt_Settled totals) +
      (if counted data t \<and> booked t \<and> converted out provider data t \<noteq> None then 1 else 0)" (is ?G)
    and "dms_TransactionCount (dt_Pending (step totals t)) = dms_TransactionCount (dt_Pending totals) +
      (if counted data t \<and> \<not> booked t \<and> converted out provider data t \<noteq> None then 1 else 0)" (is ?H)
    and "dt_Missing (step totals t) = dt_Missing totals @ map (missingTransaction provider (ten_DisplayCurrency (dd_Tenant data)))
      (filter (\<lambda>t. counted data t \<and> converted out provider data t = None) [t])" (is ?I)
proof -
  consider (skipped) "\<not> counted data t" | (missing) "counted data t" "converted out provider data t = None"
    | (added) i e where "counted data t" "converted out provider data t = Some (i, e)"
    by (cases "converted out provider data t") auto
  then have "?A \<and> ?B \<and> ?C \<and> ?D \<and> ?E \<and> ?F \<and> ?G \<and> ?H \<and> ?I"
  proof cases
    case skipped
    then show ?thesis unfolding step_def by (simp add: process_not_counted part_def)
  next
    case missing
    then show ?thesis unfolding step_def
      by (cases "tx_Status t = TransactionStatusBooked") (simp_all add: process_missing [OF missing] summary_simps)
  next
    case added
    then show ?thesis unfolding step_def
      by (cases "tx_Status t = TransactionStatusBooked") (simp_all add: process_converted [OF added] summary_simps)
  qed
  then show ?A ?B ?C ?D ?E ?F ?G ?H ?I by blast+
qed

lemma totals_as_sums:
  fixes out provider data names
  defines "run \<equiv> foldl (processDashboardTransaction out provider data names)"
  shows "dms_IncomeMinor (dt_Settled (run totals ts)) =
      dms_IncomeMinor (dt_Settled totals) + (\<Sum>t\<leftarrow>ts. fst (part out provider data True t))"
    and "dms_ExpenseMinor (dt_Settled (run totals ts)) =
      dms_ExpenseMinor (dt_Settled totals) + (\<Sum>t\<leftarrow>ts. snd (part out provider data True t))"
    and "dms_Complete (dt_Settled (run totals ts)) \<longleftrightarrow> dms_Complete (dt_Settled totals) \<and>
      (\<forall>t \<in> set ts. \<not> (counted data t \<and> booked t \<and> converted out provider data t = None))"
    and "dms_Complete (dt_Pending (run totals ts)) \<longleftrightarrow> dms_Complete (dt_Pending totals) \<and>
      (\<forall>t \<in> set ts. \<not> (counted data t \<and> \<not> booked t \<and> converted out provider data t = None))"
    and "dms_TransactionCount (dt_Settled (run totals ts)) = dms_TransactionCount (dt_Settled totals) +
      length (filter (\<lambda>t. counted data t \<and> booked t \<and> converted out provider data t \<noteq> None) ts)"
    and "dms_TransactionCount (dt_Pending (run totals ts)) = dms_TransactionCount (dt_Pending totals) +
      length (filter (\<lambda>t. counted data t \<and> \<not> booked t \<and> converted out provider data t \<noteq> None) ts)"
    and "dt_Missing (run totals ts) = dt_Missing totals @ map (missingTransaction provider (ten_DisplayCurrency (dd_Tenant data)))
      (filter (\<lambda>t. counted data t \<and> converted out provider data t = None) ts)"
  unfolding run_def
  by (induction ts arbitrary: totals) (auto simp: process_sums)

lemma summary_of_dashboard:
  fixes out provider data now
  defines "d \<equiv> dashboardOf out provider data now"
  shows "dms_IncomeMinor (db_Settled d) = (\<Sum>t\<leftarrow>dd_Transactions data. fst (part out provider data True t))"
    and "dms_ExpenseMinor (db_Settled d) = (\<Sum>t\<leftarrow>dd_Transactions data. snd (part out provider data True t))"
    and "dms_Complete (db_Settled d) \<longleftrightarrow>
      (\<forall>t \<in> set (dd_Transactions data). \<not> (counted data t \<and> booked t \<and> converted out provider data t = None))"
    and "dms_Complete (db_Pending d) \<longleftrightarrow>
      (\<forall>t \<in> set (dd_Transactions data). \<not> (counted data t \<and> \<not> booked t \<and> converted out provider data t = None))"
    and "db_MissingFX d = map (missingTransaction provider (ten_DisplayCurrency (dd_Tenant data)))
        (filter (\<lambda>t. counted data t \<and> converted out provider data t = None) (dd_Transactions data)) @
      snd (buildDashboardAccountBalances out provider data)"
    and "db_FXCoverage d = buildDashboardFXCoverage (db_MissingFX d)"
  unfolding d_def dashboardOf_def computeDashboard_def
  by (simp_all add: Let_def netSummary_def emptySummary_def totals_as_sums split: prod.splits)

section \<open>What is loaded\<close>

definition visibleAccount :: "string \<Rightarrow> Tables \<Rightarrow> string \<Rightarrow> bool" where
  "visibleAccount tenantID t i \<longleftrightarrow>
     (\<exists>a \<in> set (t_accounts t). am_ID a = i \<and> am_TenantID a = tenantID \<and> am_HiddenAt a = None)"

definition visibleRows :: "string \<Rightarrow> Tables \<Rightarrow> transactionModel list" where
  "visibleRows tenantID t = filter (\<lambda>r. tm_TenantID r = tenantID \<and> tm_HiddenAt r = None \<and>
     visibleAccount tenantID t (tm_AccountID r)) (t_transactions t)"

text \<open>\<open>loaded\<close>: the data of tenant row \<open>n\<close>, read from the tables \<open>t\<close>.\<close>

definition loaded :: "string \<Rightarrow> DashboardParams \<Rightarrow> tenantModel \<Rightarrow> Tables \<Rightarrow> dashboardData \<Rightarrow> bool" where
  "loaded provider params n t data \<longleftrightarrow>
     n \<in> set (t_tenants t) \<and> nm_ID n = TrimSpace (dp_TenantID params) \<and>
     dd_Tenant data = tenantFromModel n \<and> dd_Start data = dp_StartDate params \<and> dd_End data = dp_EndDate params \<and>
     mset (dd_Transactions data) = mset (map transactionFromModel (visibleRows (nm_ID n) t)) \<and>
     acc_Currency ` set (dd_Accounts data) \<subseteq> am_Currency ` {a \<in> set (t_accounts t). am_TenantID a = nm_ID n} \<and>
     dd_RateLookup data = newFXRateLookup (filterDashboardFXRates (nm_DisplayCurrency n) (dp_StartDate params)
       (dp_EndDate params) (dd_Accounts data) (dd_Transactions data)
       (map currentFXRateFromModel (orderAsc rateKey (filter (rateFilter
          \<lparr>lfr_Provider = provider, lfr_BaseCurrency = '''', lfr_QuoteCurrency = ''''\<rparr>) (t_fxRates t)))))"

lemma mset_listRows_None: "mset (listRows ten '''' (TransactionSourceOther '''') (TransactionStatusOther '''') False None rows) =
   mset (filter (\<lambda>r. tm_TenantID r = ten \<and> tm_HiddenAt r = None) rows)"
  by (simp add: listRows_def orderDesc_def listFilter_def)

lemma mset_transactionsForAccounts:
  "mset (transactionsForAccounts (map transactionFromModel rows) accounts) =
   mset (map transactionFromModel (filter (\<lambda>r. tm_AccountID r \<in> acc_ID ` set accounts) rows))"
  by (induction rows) (simp_all add: transactionsForAccounts_def transactionFromModel_def)

lemma balances_keep_tables:
  "ListAccountBalances params w = (Inr balances, w') \<Longrightarrow> w_tables w' = w_tables w"
  by (auto simp: ListAccountBalances_def bindA_Inr split: if_splits)


lemma load_run:
  assumes "loadDashboardData provider tenantID params w = (Inr data, w')"
  obtains n balances where "n \<in> set (t_tenants (w_tables w))" "nm_ID n = tenantID"
    "w_tables w' = w_tables w" "dd_Tenant data = tenantFromModel n" "dd_Start data = dp_StartDate params"
    "dd_End data = dp_EndDate params"
    "dd_Accounts data = map accountFromModel (orderAsc (\<lambda>a. (am_CreatedAt a, am_ID a))
      (filter (\<lambda>a. am_TenantID a = tenantID \<and> am_HiddenAt a = None) (t_accounts (w_tables w))))"
    "dd_Transactions data = transactionsForAccounts (map transactionFromModel
      (listRows tenantID '''' (TransactionSourceOther '''') (TransactionStatusOther '''') False None
        (t_transactions (w_tables w)))) (dd_Accounts data)"
    "dd_RateLookup data = newFXRateLookup (filterDashboardFXRates (nm_DisplayCurrency n) (dp_StartDate params)
       (dp_EndDate params) (dd_Accounts data) (dd_Transactions data)
       (map currentFXRateFromModel (orderAsc rateKey (filter (rateFilter
          \<lparr>lfr_Provider = provider, lfr_BaseCurrency = '''', lfr_QuoteCurrency = ''''\<rparr>) (t_fxRates (w_tables w))))))"
proof -
  have ids: "ten_ID (tenantFromModel n) = nm_ID n" "ten_DisplayCurrency (tenantFromModel n) = nm_DisplayCurrency n" for n
    by (simp_all add: tenantFromModel_def)
  show ?thesis
    using assms unfolding loadDashboardData_def Let_def
    by (auto simp: bindA_Inr GetTenant_def StoreListTransactions_def ListAccounts_def StoreListCategories_def
        ListCurrentFXRates_def ids simp del: lookupRow_None dest!: balances_keep_tables lookupRow_Some
        split: option.splits intro!: that)
qed


lemma load_loaded:
  assumes "loadDashboardData provider (TrimSpace (dp_TenantID params)) params w = (Inr data, w')"
  obtains n where "loaded provider params n (w_tables w) data"
proof (rule load_run [OF assms])
  fix n balances
  let ?t = "w_tables w" and ?ten = "TrimSpace (dp_TenantID params)"
  let ?rows = "listRows ?ten '''' (TransactionSourceOther '''') (TransactionStatusOther '''') False None (t_transactions ?t)"
  assume n: "n \<in> set (t_tenants ?t)" "nm_ID n = ?ten" "dd_Tenant data = tenantFromModel n"
      "dd_Start data = dp_StartDate params" "dd_End data = dp_EndDate params"
    and accounts: "dd_Accounts data = map accountFromModel (orderAsc (\<lambda>a. (am_CreatedAt a, am_ID a))
      (filter (\<lambda>a. am_TenantID a = ?ten \<and> am_HiddenAt a = None) (t_accounts ?t)))"
    and transactions: "dd_Transactions data = transactionsForAccounts (map transactionFromModel ?rows) (dd_Accounts data)"
    and lookup: "dd_RateLookup data = newFXRateLookup (filterDashboardFXRates (nm_DisplayCurrency n) (dp_StartDate params)
       (dp_EndDate params) (dd_Accounts data) (dd_Transactions data)
       (map currentFXRateFromModel (orderAsc rateKey (filter (rateFilter
          \<lparr>lfr_Provider = provider, lfr_BaseCurrency = '''', lfr_QuoteCurrency = ''''\<rparr>) (t_fxRates ?t)))))"
  have visible: "i \<in> acc_ID ` set (dd_Accounts data) \<longleftrightarrow> visibleAccount ?ten ?t i" for i
    unfolding accounts visibleAccount_def by (auto simp: orderAsc_def accountFromModel_def image_iff)
  have "mset (dd_Transactions data) = mset (map transactionFromModel (visibleRows ?ten ?t))"
    unfolding transactions mset_transactionsForAccounts mset_map
    by (simp add: mset_listRows_None visible visibleRows_def filter_filter_mset conj_ac)
  moreover have "acc_Currency ` set (dd_Accounts data) \<subseteq> am_Currency ` {a \<in> set (t_accounts ?t). am_TenantID a = ?ten}"
    unfolding accounts by (auto simp: orderAsc_def accountFromModel_def)
  ultimately show thesis
    using n lookup by (intro that [of n]) (simp add: loaded_def)
qed

lemma dashboard_run:
  assumes "GetDashboard out provider params w = (Inr d, w')"
  obtains n data now where "loaded provider params n (w_tables w) data" "d = dashboardOf out provider data now"
proof -
  obtain u v data now where guard: "requireTenantMember (dp_TenantID params) (dp_ActorUserID params) w = (Inr (), u)"
    and load: "loadDashboardData provider (TrimSpace (dp_TenantID params)) params u = (Inr data, v)"
    and d: "d = dashboardOf out provider data now"
    using assms unfolding GetDashboard_def by (auto simp: bindA_Inr liftA_Inr split: option.splits)
  obtain n where "loaded provider params n (w_tables u) data" using load by (rule load_loaded)
  then show ?thesis using requireTenantMember_ok [OF guard] d by (intro that) auto
qed

section \<open>Looking up a rate\<close>

definition canonicalCurrency :: "string \<Rightarrow> bool" where
  "canonicalCurrency c \<longleftrightarrow> ToUpper (TrimSpace c) = c \<and> c \<noteq> '''' \<and> CHR ''|'' \<notin> set c"

lemma append_bar:
  "CHR ''|'' \<notin> set a \<Longrightarrow> CHR ''|'' \<notin> set b \<Longrightarrow> a @ ''|'' @ x = b @ ''|'' @ y \<longleftrightarrow> a = b \<and> x = y"
  by (induction a arbitrary: b) (case_tac [!] b, auto)

lemma map_of_newFXRateLookup:
  "map_of (newFXRateLookup rates) k =
   (case filter (\<lambda>r. lookupKey (fxr_Provider r) (fxr_BaseCurrency r) (fxr_QuoteCurrency r) = k) rates of
      [] \<Rightarrow> None | rs \<Rightarrow> Some (last rs))"
proof -
  let ?key = "\<lambda>r. lookupKey (fxr_Provider r) (fxr_BaseCurrency r) (fxr_QuoteCurrency r)"
  have "map_of (foldl (\<lambda>m r. mapSet (?key r) r m) m rates) k =
      (case filter (\<lambda>r. ?key r = k) rates of [] \<Rightarrow> map_of m k | rs \<Rightarrow> Some (last rs))" for m
    by (induction rates arbitrary: m) (auto split: list.splits)
  from this [of "[]"] show ?thesis by (auto simp: newFXRateLookup_def split: list.splits)
qed


lemma bars_split:
  assumes "CHR ''|'' \<notin> set c" "CHR ''|'' \<notin> set q"
  shows "a @ ''|'' @ x = c @ ''|'' @ q \<longleftrightarrow> a = c \<and> x = q"
proof
  assume eq: "a @ ''|'' @ x = c @ ''|'' @ q"
  have "CHR ''|'' \<notin> set a"
  proof
    assume "CHR ''|'' \<in> set a"
    then obtain p s where a: "a = p @ CHR ''|'' # s" "CHR ''|'' \<notin> set p" using split_list_first by metis
    then have "p @ ''|'' @ (s @ ''|'' @ x) = c @ ''|'' @ q" using eq by simp
    then have "s @ ''|'' @ x = q" using append_bar [OF a(2) assms(1)] by blast
    then show False using assms(2) by auto
  qed
  then show "a = c \<and> x = q" using eq append_bar assms(1) by blast
qed simp

definition neededCurrency :: "dashboardData \<Rightarrow> string \<Rightarrow> bool" where
  "neededCurrency data c \<longleftrightarrow> (\<exists>a \<in> set (dd_Accounts data). acc_Currency a = c) \<or>
     (\<exists>t \<in> set (dd_Transactions data). counted data t \<and> tx_Currency t = c)"

lemma rates_of_pair:
  assumes "loaded provider params n t data" and provider: "TrimSpace provider = provider" "provider \<noteq> ''''"
    and c: "canonicalCurrency c" and q: "canonicalCurrency (nm_DisplayCurrency n)" and "c \<noteq> nm_DisplayCurrency n"
    and needed: "neededCurrency data c"
  defines "found \<equiv> currentRates provider t c (nm_DisplayCurrency n)"
  defines "got \<equiv> map_of (dd_RateLookup data) (lookupKey provider c (nm_DisplayCurrency n))"
  shows "got = None \<longleftrightarrow> found = []" "found = [r] \<Longrightarrow> got = Some (currentFXRateFromModel r)"
proof -
  let ?q = "nm_DisplayCurrency n"
  let ?key = "\<lambda>r. lookupKey (fxr_Provider r) (fxr_BaseCurrency r) (fxr_QuoteCurrency r)"
  define kept where "kept = filterDashboardFXRates ?q (dp_StartDate params) (dp_EndDate params)
    (dd_Accounts data) (dd_Transactions data) (map currentFXRateFromModel (orderAsc rateKey (filter (rateFilter
      \<lparr>lfr_Provider = provider, lfr_BaseCurrency = '''', lfr_QuoteCurrency = ''''\<rparr>) (t_fxRates t))))"
  have data: "dd_RateLookup data = newFXRateLookup kept" "dd_Start data = dp_StartDate params" "dd_End data = dp_EndDate params"
    using assms(1) by (simp_all add: loaded_def kept_def)
  have pair: "fxPairKey c ?q \<in> set (neededPair c ?q)"
    using c q assms(6) by (simp add: neededPair_def canonicalCurrency_def Let_def)
  have empty: "TrimSpace '''' = ''''" by code_simp
  define pairs where "pairs = concat (map (\<lambda>a. neededPair (acc_Currency a) ?q) (dd_Accounts data)) @
      concat (map (\<lambda>t. neededPair (tx_Currency t) ?q) (filter (\<lambda>t. tx_HiddenAt t = None \<and>
        transactionInPeriod t (dp_StartDate params) (dp_EndDate params) \<and>
        snd (snd (reportingContribution t))) (dd_Transactions data)))"
  have "fxPairKey c ?q \<in> set pairs"
    using needed pair data(2,3) unfolding neededCurrency_def counted_def pairs_def by auto
  have same: "?key (currentFXRateFromModel r) = lookupKey provider c ?q \<and> fm_Provider r = provider \<longleftrightarrow>
      fm_Provider r = provider \<and> fm_BaseCurrency r = c \<and> fm_QuoteCurrency r = ?q" for r
    using c q bars_split by (auto simp: currentFXRateFromModel_def lookupKey_def canonicalCurrency_def)
  have "mset (filter (\<lambda>r. ?key r = lookupKey provider c ?q) kept) = mset (map currentFXRateFromModel found)"
  proof -
    have "mset (filter (\<lambda>r. ?key r = lookupKey provider c ?q) kept) =
        image_mset currentFXRateFromModel {#r \<in># mset (t_fxRates t). fm_Provider r = provider \<and>
          fxPairKey (ToUpper (TrimSpace (fm_BaseCurrency r))) (ToUpper (TrimSpace (fm_QuoteCurrency r))) \<in> set pairs \<and>
          ?key (currentFXRateFromModel r) = lookupKey provider c ?q#}"
      unfolding kept_def filterDashboardFXRates_def Let_def pairs_def [symmetric]
      by (simp add: orderAsc_def filter_mset_image_mset filter_filter_mset rateFilter_def provider empty currentFXRateFromModel_def conj_ac)
    also have "\<dots> = image_mset currentFXRateFromModel {#r \<in># mset (t_fxRates t).
        fm_Provider r = provider \<and> fm_BaseCurrency r = c \<and> fm_QuoteCurrency r = ?q#}"
      using same \<open>fxPairKey c ?q \<in> set pairs\<close> c q
      by (intro arg_cong [of _ _ "image_mset currentFXRateFromModel"] filter_mset_cong) (auto simp: canonicalCurrency_def)
    finally show ?thesis by (simp add: found_def currentRates_def)
  qed
  moreover define ks where "ks = filter (\<lambda>r. ?key r = lookupKey provider c ?q) kept"
  ultimately have ks: "mset ks = mset (map currentFXRateFromModel found)" by (simp only:)
  have got: "got = (case ks of [] \<Rightarrow> None | rs \<Rightarrow> Some (last rs))"
    unfolding got_def data(1) map_of_newFXRateLookup ks_def ..
  have "ks = [] \<longleftrightarrow> found = []" using arg_cong [OF ks, of size] by (cases ks; cases found) simp_all
  then show "got = None \<longleftrightarrow> found = []" unfolding got by (cases ks) auto
  assume "found = [r]"
  then have "ks = [currentFXRateFromModel r]" using ks by simp
  then show "got = Some (currentFXRateFromModel r)" unfolding got by simp
qed

end
