(* ===== verification/ReportingProperties.thy ===== *)
theory ReportingProperties
  imports DashboardFacts
begin

text \<open>
  What a refresh of the exchange rates promises to the reports: none of them misses a rate.
\<close>

section \<open>After a refresh\<close>

lemma fetched_pairs:
  "fetchRequiredRates provider name at n pairs = Inr items \<Longrightarrow> p \<in> set pairs \<Longrightarrow>
   \<exists>r \<in> set items. fxr_Provider r = name \<and> fxr_BaseCurrency r = ToUpper (TrimSpace (rfp_BaseCurrency p)) \<and>
     fxr_QuoteCurrency r = ToUpper (TrimSpace (rfp_QuoteCurrency p))"
proof (induction pairs arbitrary: n items)
  case (Cons pair pairs)
  obtain rates rate rest where rates: "validateProviderFXRates name (rfp_BaseCurrency pair) (rfp_QuoteCurrency pair) rates = Inr rate"
    and rest: "fetchRequiredRates provider name at (Suc n) pairs = Inr rest"
    and items: "items = rate\<lparr>fxr_LastSuccessfulRefreshAt := at\<rparr> # rest"
    using Cons.prems(1) by (cases "fetchRequiredRates provider name at (Suc n) pairs") (auto split: sum.splits)
  have "fxr_Provider rate = name \<and> fxr_BaseCurrency rate = ToUpper (TrimSpace (rfp_BaseCurrency pair)) \<and>
      fxr_QuoteCurrency rate = ToUpper (TrimSpace (rfp_QuoteCurrency pair))"
    using rates by (auto simp: validateProviderFXRates_def Let_def split: if_splits)
  then show ?case using Cons.IH [OF rest] Cons.prems(2) items by auto
qed simp

lemma filled_pairs:
  "fillRateTimestamps msg rates = Inr items \<Longrightarrow>
   map (\<lambda>r. (fxr_Provider r, fxr_BaseCurrency r, fxr_QuoteCurrency r)) items =
   map (\<lambda>r. (fxr_Provider r, fxr_BaseCurrency r, fxr_QuoteCurrency r)) rates"
proof (induction rates arbitrary: items)
  case (Cons rate rates)
  obtain rest where "fillRateTimestamps msg rates = Inr rest" "items = rateTimestamps rate # rest"
    using Cons.prems by (cases "fillRateTimestamps msg rates") (auto simp: Let_def split: if_splits)
  then show ?case using Cons.IH by (simp add: rateTimestamps_def Let_def)
qed simp

lemma upserted_keys:
  "upsertRows rateKey fm_ID rateUpdate m rows = Inr rows' \<Longrightarrow> rateKey ` set rows' = rateKey ` set rows \<union> {rateKey m}"
  using rates.keys_insert [of m rows] by (auto simp: upsertRows_def simp flip: set_map split: if_splits)

lemma saved_keys:
  "saveRateLoop msg rateUpdate rates w = (Inr (), w') \<Longrightarrow>
   (\<exists>rows. w_tables w' = (w_tables w)\<lparr>t_fxRates := rows\<rparr> \<and>
      rateKey ` set rows = rateKey ` set (t_fxRates (w_tables w)) \<union>
        (\<lambda>r. (fxr_Provider r, fxr_BaseCurrency r, fxr_QuoteCurrency r)) ` set rates)"
proof (induction rates arbitrary: w)
  case Nil
  then show ?case by (auto intro!: exI [of _ "t_fxRates (w_tables w')"])
next
  case (Cons rate rates)
  obtain model u u' where stamps: "rateModelStamps (newCurrentFXRateModel rate) w = (Inr model, u)"
    and saved: "changeSQL (\<lambda>t. map_sum (\<lambda>e. e) (\<lambda>rows. t\<lparr>t_fxRates := rows\<rparr>)
        (upsertRows rateKey fm_ID rateUpdate model (t_fxRates t))) u = (Inr (), u')"
    and rest: "saveRateLoop msg rateUpdate rates u' = (Inr (), w')"
    using Cons.prems by (auto simp: bindA_Inr simp del: changeSQL_Inr)
  have model: "rateKey model = (fxr_Provider rate, fxr_BaseCurrency rate, fxr_QuoteCurrency rate)" "w_tables u = w_tables w"
    using stamps
    by (auto simp: rateModelStamps_def bindA_Inr liftA_Inr rateKey_def newCurrentFXRateModel_def readClock_def split: if_splits)
  obtain rows where rows: "upsertRows rateKey fm_ID rateUpdate model (t_fxRates (w_tables w)) = Inr rows"
    and u': "w_tables u' = (w_tables w)\<lparr>t_fxRates := rows\<rparr>"
    using saved model(2) by (cases "upsertRows rateKey fm_ID rateUpdate model (t_fxRates (w_tables w))") auto
  then show ?case using Cons.IH [OF rest] upserted_keys [OF rows] model(1) by auto
qed

lemma collected_keys:
  assumes "\<forall>(k, p) \<in> set m. k = fxPairKey (rfp_BaseCurrency p) (rfp_QuoteCurrency p)"
  shows "\<forall>(k, p) \<in> set (collectPairs m rows). k = fxPairKey (rfp_BaseCurrency p) (rfp_QuoteCurrency p)"
  using assms by (induction m rows rule: collectPairs.induct) (auto simp: Let_def set_mapSet)

lemma keys_mapSet: "fst ` set (mapSet k v m) = insert k (fst ` set m)"
  by (auto simp: set_mapSet image_iff)

lemma collect_keeps: "fst ` set m \<subseteq> fst ` set (collectPairs m rows)"
proof (induction m rows rule: collectPairs.induct)
  case (2 m base quote rows)
  then show ?case by (simp add: Let_def keys_mapSet)
qed simp

lemma collected_row:
  "(c, q) \<in> set rows \<Longrightarrow> canonicalCurrency c \<Longrightarrow> canonicalCurrency q \<Longrightarrow> c \<noteq> q \<Longrightarrow>
   fxPairKey c q \<in> fst ` set (collectPairs m rows)"
proof (induction m rows rule: collectPairs.induct)
  case (2 m base quote rows)
  show ?case
  proof (cases "(c, q) = (base, quote)")
    case True
    then have "collectPairs m ((base, quote) # rows) =
        collectPairs (mapSet (fxPairKey c q) \<lparr>rfp_BaseCurrency = c, rfp_QuoteCurrency = q\<rparr> m) rows"
      using 2 by (simp add: canonicalCurrency_def Let_def)
    moreover have "fxPairKey c q \<in> fst ` set (mapSet (fxPairKey c q) x m)" for x
      by (simp add: keys_mapSet)
    ultimately show ?thesis using collect_keeps by (metis (no_types) subsetD)
  next
    case False
    then have "(c, q) \<in> set rows" using "2.prems"(1) by auto
    with 2 show ?thesis by (simp add: Let_def)
  qed
qed simp

lemma required_pairs:
  assumes "ListRequiredFXPairs w = (Inr pairs, w')"
  shows "w_tables w' = w_tables w" (is ?A)
    and "(c, q) \<in> set (tenantPairs am_TenantID am_Currency (t_accounts (w_tables w)) (t_tenants (w_tables w)) @
        tenantPairs tm_TenantID tm_Currency (t_transactions (w_tables w)) (t_tenants (w_tables w))) \<Longrightarrow>
      canonicalCurrency c \<Longrightarrow> canonicalCurrency q \<Longrightarrow> c \<noteq> q \<Longrightarrow>
      \<exists>p \<in> set pairs. rfp_BaseCurrency p = c \<and> rfp_QuoteCurrency p = q" (is "?row \<in> set ?rows \<Longrightarrow> _ \<Longrightarrow> _ \<Longrightarrow> _ \<Longrightarrow> ?B")
proof -
  have pairs: "pairs = sortPairs (map snd (collectPairs [] ?rows))" and ?A
    using assms by (auto simp: ListRequiredFXPairs_def bindA_Inr)
  then show ?A by simp
  assume row: "?row \<in> set ?rows" "canonicalCurrency c" "canonicalCurrency q" "c \<noteq> q"
  obtain p where p: "(fxPairKey c q, p) \<in> set (collectPairs [] ?rows)"
    using collected_row [OF row, of "[]"] by auto
  then have "fxPairKey (rfp_BaseCurrency p) (rfp_QuoteCurrency p) = fxPairKey c q"
    using collected_keys [of "[]" ?rows] by force
  then have "rfp_BaseCurrency p = c \<and> rfp_QuoteCurrency p = q"
    using bars_split row(2,3) by (simp add: fxPairKey_def canonicalCurrency_def)
  then show ?B using p by (force simp: pairs sortPairs_def)
qed

lemma refreshed_rates:
  assumes "RefreshRequiredFXRates service requested w = (Inr result, w')"
  obtains rows where "w_tables w' = (w_tables w)\<lparr>t_fxRates := rows\<rparr>"
    "\<And>c q. (c, q) \<in> set (tenantPairs am_TenantID am_Currency (t_accounts (w_tables w)) (t_tenants (w_tables w)) @
        tenantPairs tm_TenantID tm_Currency (t_transactions (w_tables w)) (t_tenants (w_tables w))) \<Longrightarrow>
      canonicalCurrency c \<Longrightarrow> canonicalCurrency q \<Longrightarrow> c \<noteq> q \<Longrightarrow>
      currentRates (rfx_Provider result) (w_tables w') c q \<noteq> []"
proof -
  let ?key = "\<lambda>r. (fxr_Provider r, fxr_BaseCurrency r, fxr_QuoteCurrency r)"
  obtain name pairs items filled at u v where listed: "ListRequiredFXPairs w = (Inr pairs, u)"
    and fetched: "fetchRequiredRates (the (map_of (fxv_Providers service) name)) name at 0 pairs = Inr items"
    and filled: "fillRateTimestamps ''save current fx rates'' items = Inr filled"
    and saved: "saveRateLoop ''save current fx rates'' rateUpdate filled v = (Inr (), w')"
    and v: "w_tables v = w_tables u" and result: "rfx_Provider result = name"
    using assms unfolding RefreshRequiredFXRates_def SaveCurrentFXRates_def
    by (auto simp: bindA_Inr liftA_Inr readClock_def split: if_splits sum.splits)
  note tables = required_pairs(1) [OF listed]
  obtain rows where rows: "w_tables w' = (w_tables v)\<lparr>t_fxRates := rows\<rparr>"
      "rateKey ` set rows = rateKey ` set (t_fxRates (w_tables v)) \<union> ?key ` set filled"
    using saved_keys [OF saved] by blast
  show thesis
  proof (rule that)
    show "w_tables w' = (w_tables w)\<lparr>t_fxRates := rows\<rparr>" using rows(1) v tables by simp
    fix c q
    assume row: "(c, q) \<in> set (tenantPairs am_TenantID am_Currency (t_accounts (w_tables w)) (t_tenants (w_tables w)) @
        tenantPairs tm_TenantID tm_Currency (t_transactions (w_tables w)) (t_tenants (w_tables w)))"
      and cq: "canonicalCurrency c" "canonicalCurrency q" "c \<noteq> q"
    obtain p where "p \<in> set pairs" "rfp_BaseCurrency p = c" "rfp_QuoteCurrency p = q"
      using required_pairs(2) [OF listed row cq] by blast
    then have "(name, c, q) \<in> ?key ` set items"
      using fetched_pairs [OF fetched] cq by (force simp: canonicalCurrency_def)
    also have "?key ` set items = ?key ` set filled"
      using arg_cong [OF filled_pairs [OF filled], of set] by simp
    finally have "(name, c, q) \<in> rateKey ` set rows" using rows(2) by blast
    then show "currentRates (rfx_Provider result) (w_tables w') c q \<noteq> []"
      unfolding result currentRates_def rows(1) by (auto simp: filter_empty_conv rateKey_def)
  qed
qed


definition canonicalTables :: "Tables \<Rightarrow> bool" where
  "canonicalTables t \<longleftrightarrow> (\<forall>a \<in> set (t_accounts t). canonicalCurrency (am_Currency a)) \<and>
     (\<forall>r \<in> set (t_transactions t). canonicalCurrency (tm_Currency r)) \<and>
     (\<forall>n \<in> set (t_tenants t). canonicalCurrency (nm_DisplayCurrency n))"

text \<open>The currencies the books of a tenant are kept in.\<close>

definition bookCurrencies :: "string \<Rightarrow> Tables \<Rightarrow> string set" where
  "bookCurrencies tenantID t = am_Currency ` {a \<in> set (t_accounts t). am_TenantID a = tenantID} \<union>
     tm_Currency ` {r \<in> set (t_transactions t). tm_TenantID r = tenantID}"

lemma loaded_facts:
  assumes "loaded provider params n t data"
  shows "ten_DisplayCurrency (dd_Tenant data) = nm_DisplayCurrency n"
    and "a \<in> set (dd_Accounts data) \<Longrightarrow> acc_Currency a \<in> bookCurrencies (nm_ID n) t"
    and "x \<in> set (dd_Transactions data) \<Longrightarrow>
      tx_Currency x \<in> bookCurrencies (nm_ID n) t \<and> (\<exists>row \<in> set (visibleRows (nm_ID n) t). x = transactionFromModel row)"
proof -
  show "ten_DisplayCurrency (dd_Tenant data) = nm_DisplayCurrency n"
    using assms by (simp add: loaded_def tenantFromModel_def)
  show "acc_Currency a \<in> bookCurrencies (nm_ID n) t" if "a \<in> set (dd_Accounts data)"
    using assms that unfolding loaded_def bookCurrencies_def by blast
  assume x: "x \<in> set (dd_Transactions data)"
  have "set (dd_Transactions data) = transactionFromModel ` set (visibleRows (nm_ID n) t)"
    using assms unfolding loaded_def by (metis set_image_mset set_mset_mset mset_map)
  then obtain row where "row \<in> set (visibleRows (nm_ID n) t)" "x = transactionFromModel row" using x by auto
  moreover from this have "tx_Currency x \<in> bookCurrencies (nm_ID n) t"
    by (auto simp: visibleRows_def bookCurrencies_def transactionFromModel_def)
  ultimately show "tx_Currency x \<in> bookCurrencies (nm_ID n) t \<and>
      (\<exists>row \<in> set (visibleRows (nm_ID n) t). x = transactionFromModel row)" by blast
qed

lemma book_currency_canonical: "canonicalTables t \<Longrightarrow> c \<in> bookCurrencies i t \<Longrightarrow> canonicalCurrency c"
  by (auto simp: canonicalTables_def bookCurrencies_def)

lemma dashboard_complete:
  assumes loaded: "loaded provider params n t data" and provider: "TrimSpace provider = provider" "provider \<noteq> ''''"
    and canonical: "canonicalTables t"
    and rates: "\<And>c. c \<in> bookCurrencies (nm_ID n) t \<Longrightarrow> c \<noteq> nm_DisplayCurrency n \<Longrightarrow>
      currentRates provider t c (nm_DisplayCurrency n) \<noteq> []"
  shows "db_MissingFX (dashboardOf out provider data now) = [] \<and>
    dms_Complete (db_Settled (dashboardOf out provider data now)) \<and>
    dms_Complete (db_Pending (dashboardOf out provider data now))"
proof -
  let ?q = "nm_DisplayCurrency n"
  note facts = loaded_facts [OF loaded]
  have q: "canonicalCurrency ?q" using loaded canonical by (auto simp: loaded_def canonicalTables_def)
  have found: "map_of (dd_RateLookup data) (lookupKey provider c ?q) \<noteq> None"
    if "neededCurrency data c" "c \<noteq> ?q" for c
  proof -
    have c: "c \<in> bookCurrencies (nm_ID n) t" using that(1) facts by (auto simp: neededCurrency_def)
    show ?thesis
      using rates_of_pair(1) [OF loaded provider book_currency_canonical [OF canonical c] q that(2,1)] rates [OF c that(2)] by blast
  qed
  have transactions: "converted out provider data x \<noteq> None" if "x \<in> set (dd_Transactions data)" "counted data x" for x
  proof -
    have "neededCurrency data (tx_Currency x)" using that by (auto simp: neededCurrency_def)
    then show ?thesis
      using found [of "tx_Currency x"] facts(1) by (auto simp: converted_def convertTransactionContribution_def)
  qed
  have "convertBalanceAmount out v (acc_Currency a) ?q provider (dd_RateLookup data) \<noteq> None"
    if "a \<in> set (dd_Accounts data)" for a v
  proof -
    have "neededCurrency data (acc_Currency a)" using that by (auto simp: neededCurrency_def)
    then show ?thesis using found [of "acc_Currency a"] by (auto simp: convertBalanceAmount_def)
  qed
  then have "snd (buildDashboardAccountBalances out provider data) = []"
    unfolding buildDashboardAccountBalances_def Let_def dashboardAccountBalance_def facts(1)
    by (auto simp: filter_empty_conv split: prod.splits)
  then show ?thesis
    using transactions by (auto simp: summary_of_dashboard filter_empty_conv)
qed

lemma series_run:
  assumes "GetCashFlowSeries provider params w = (Inr s, w')"
  shows "cashFlowQuery \<lparr>cfs_TenantID = cf_TenantID params, cfs_StartDate = cf_StartDate params,
      cfs_StartOffset = cf_StartOffset params, cfs_EndDate = cf_EndDate params,
      cfs_GroupBy = cf_GroupBy params, cfs_FXProvider = provider\<rparr> (w_tables w) = Inr s"
    and "cf_StartDate params < cf_EndDate params"
proof -
  obtain u where guard: "requireTenantMember (cf_TenantID params) (cf_ActorUserID params) w = (Inr (), u)"
    and got: "StoreGetCashFlowSeries \<lparr>cfs_TenantID = cf_TenantID params, cfs_StartDate = cf_StartDate params,
      cfs_StartOffset = cf_StartOffset params, cfs_EndDate = cf_EndDate params,
      cfs_GroupBy = cf_GroupBy params, cfs_FXProvider = provider\<rparr> u = (Inr s, w')"
    and "cf_StartDate params < cf_EndDate params"
    using assms unfolding GetCashFlowSeries_def ValidateCashFlowSeriesParams_def
    by (auto simp: bindA_Inr split: option.splits if_splits)
  then show "cf_StartDate params < cf_EndDate params" by simp
  show "cashFlowQuery \<lparr>cfs_TenantID = cf_TenantID params, cfs_StartDate = cf_StartDate params,
      cfs_StartOffset = cf_StartOffset params, cfs_EndDate = cf_EndDate params,
      cfs_GroupBy = cf_GroupBy params, cfs_FXProvider = provider\<rparr> (w_tables w) = Inr s"
    using got requireTenantMember_ok [OF guard] unfolding StoreGetCashFlowSeries_def
    by (auto simp: execSQL_def split: CashFlowGroupBy.splits option.splits prod.splits)
qed

lemma no_missing_rows:
  assumes "\<And>bucket row. bucket \<in> set buckets \<Longrightarrow> row \<in> set (qualifyingRows t bucket) \<Longrightarrow>
    tm_Currency row \<noteq> bk_DisplayCurrency bucket \<Longrightarrow> currentRates provider t (tm_Currency row) (bk_DisplayCurrency bucket) \<noteq> []"
  shows "missingRows provider t buckets = []"
proof -
  have "concat (map (\<lambda>bucket. map (\<lambda>row. (bucket, row)) (filter (\<lambda>row. tm_Currency row \<noteq> bk_DisplayCurrency bucket \<and>
      currentRates provider t (tm_Currency row) (bk_DisplayCurrency bucket) = []) (qualifyingRows t bucket))) buckets) = []"
    using assms by (auto simp: concat_eq_Nil_conv filter_empty_conv)
  then show ?thesis unfolding missingRows_def Let_def by (simp only: list.map remdups.simps) (simp add: sort_key_def)
qed


lemma series_complete:
  assumes query: "cashFlowQuery params t = Inr s"
    and rates: "\<And>n c. n \<in> set (t_tenants t) \<Longrightarrow> nm_ID n = cfs_TenantID params \<Longrightarrow> c \<in> bookCurrencies (nm_ID n) t \<Longrightarrow>
      c \<noteq> nm_DisplayCurrency n \<Longrightarrow> currentRates (cfs_FXProvider params) t c (nm_DisplayCurrency n) \<noteq> []"
  shows "cfx_Complete s"
proof -
  have "missingRows (cfs_FXProvider params) t (cashBuckets params t) = []"
  proof (rule no_missing_rows)
    fix bucket row
    assume "bucket \<in> set (cashBuckets params t)" and row: "row \<in> set (qualifyingRows t bucket)"
      and other: "tm_Currency row \<noteq> bk_DisplayCurrency bucket"
    then obtain n where n: "n \<in> set (t_tenants t)" "nm_ID n = cfs_TenantID params"
        "bk_TenantID bucket = nm_ID n" "bk_DisplayCurrency bucket = nm_DisplayCurrency n"
      by (auto simp: cashBuckets_def Let_def)
    have "tm_Currency row \<in> bookCurrencies (nm_ID n) t"
      using row n(3) by (auto simp: qualifyingRows_def qualifies_def bookCurrencies_def)
    then show "currentRates (cfs_FXProvider params) t (tm_Currency row) (bk_DisplayCurrency bucket) \<noteq> []"
      using rates n other by simp
  qed
  then show ?thesis using query by (auto simp: cashFlowQuery_def Let_def split: sum.splits)
qed

lemma tenantPairs_row:
  assumes "r \<in> set rows" "n \<in> set tenants" "tenantOf r = nm_ID n" "nm_ArchivedAt n = None"
    "currencyOf r \<noteq> nm_DisplayCurrency n"
  shows "(currencyOf r, nm_DisplayCurrency n) \<in> set (tenantPairs tenantOf currencyOf rows tenants)"
proof -
  have "n \<in> set (filter (\<lambda>n. nm_ID n = tenantOf r \<and> nm_ArchivedAt n = None \<and> currencyOf r \<noteq> nm_DisplayCurrency n) tenants)"
    using assms by simp
  then show ?thesis using assms(1) unfolding tenantPairs_def by force
qed

lemma refreshed_books:
  assumes refresh: "RefreshRequiredFXRates service requested w = (Inr result, w')"
    and canonical: "canonicalTables (w_tables w)"
    and n: "n \<in> set (t_tenants (w_tables w'))" "nm_ArchivedAt n = None"
    and c: "c \<in> bookCurrencies (nm_ID n) (w_tables w')" "c \<noteq> nm_DisplayCurrency n"
  shows "currentRates (rfx_Provider result) (w_tables w') c (nm_DisplayCurrency n) \<noteq> []"
proof (rule refreshed_rates [OF refresh])
  fix rows
  assume tables: "w_tables w' = (w_tables w)\<lparr>t_fxRates := rows\<rparr>"
    and rates: "\<And>c q. (c, q) \<in> set (tenantPairs am_TenantID am_Currency (t_accounts (w_tables w)) (t_tenants (w_tables w)) @
        tenantPairs tm_TenantID tm_Currency (t_transactions (w_tables w)) (t_tenants (w_tables w))) \<Longrightarrow>
      canonicalCurrency c \<Longrightarrow> canonicalCurrency q \<Longrightarrow> c \<noteq> q \<Longrightarrow>
      currentRates (rfx_Provider result) (w_tables w') c q \<noteq> []"
  have n': "n \<in> set (t_tenants (w_tables w))" and c': "c \<in> bookCurrencies (nm_ID n) (w_tables w)"
    using n(1) c(1) by (simp_all add: tables bookCurrencies_def)
  have "(c, nm_DisplayCurrency n) \<in> set (tenantPairs am_TenantID am_Currency (t_accounts (w_tables w)) (t_tenants (w_tables w)) @
      tenantPairs tm_TenantID tm_Currency (t_transactions (w_tables w)) (t_tenants (w_tables w)))"
    using c' n' n(2) c(2) by (auto simp: bookCurrencies_def intro: tenantPairs_row)
  moreover have "canonicalCurrency c" using canonical c' by (rule book_currency_canonical)
  moreover have "canonicalCurrency (nm_DisplayCurrency n)" using canonical n' by (simp add: canonicalTables_def)
  ultimately show ?thesis using rates c(2) by blast
qed

text \<open>A dashboard is answered when no statement fails and the balances fit their type.\<close>

lemma dashboard_answers:
  assumes "healthy w" "ValidateDashboardParams params = None" "member (dp_TenantID params) (dp_ActorUserID params) (w_tables w)"
    and "lookupRow nm_ID (TrimSpace (dp_TenantID params)) (t_tenants (w_tables w)) = Some n"
    and balances: "\<And>ids. \<exists>b. balanceRows (filter (balanceFilter \<lparr>lab_TenantID = nm_ID n, lab_AccountIDs = Some ids,
          lab_EffectiveAtOnOrBefore = None, lab_EffectiveAtBefore = Some (dp_EndDate params)\<rparr>) (t_transactions (w_tables w)))
        (sort (remdups (map tm_AccountID (filter (balanceFilter \<lparr>lab_TenantID = nm_ID n, lab_AccountIDs = Some ids,
          lab_EffectiveAtOnOrBefore = None, lab_EffectiveAtBefore = Some (dp_EndDate params)\<rparr>) (t_transactions (w_tables w)))))) = Inr b"
  shows "\<exists>d. fst (GetDashboard out provider params w) = Inr d"
proof -
  have ids: "ten_ID (tenantFromModel n) = nm_ID n" by (simp add: tenantFromModel_def)
  have run: "\<exists>b v'. ListAccountBalances \<lparr>lab_TenantID = nm_ID n, lab_AccountIDs = Some ids,
      lab_EffectiveAtOnOrBefore = None, lab_EffectiveAtBefore = Some (dp_EndDate params)\<rparr> v = (Inr b, v') \<and> healthy v' \<and> w_tables v' = w_tables w"
    if "healthy v" "w_tables v = w_tables w" for v ids
    using that balances [of ids] by (auto simp: ListAccountBalances_def bindA_run mapErrA_run readSQL_healthy)
  let ?v = "w\<lparr>w_statement := Suc (Suc (Suc (Suc (w_statement w))))\<rparr>"
  let ?ids = "accountIDs (map accountFromModel (orderAsc (\<lambda>a. (am_CreatedAt a, am_ID a))
      (filter (\<lambda>a. am_TenantID a = nm_ID n \<and> am_HiddenAt a = None) (t_accounts (w_tables w)))))"
  obtain b v' where "ListAccountBalances \<lparr>lab_TenantID = nm_ID n, lab_AccountIDs = Some ?ids,
      lab_EffectiveAtOnOrBefore = None, lab_EffectiveAtBefore = Some (dp_EndDate params)\<rparr> ?v = (Inr b, v')" "healthy v'"
    using run [of ?v ?ids] assms(1) by auto
  then show ?thesis
    using assms(1-4)
    by (simp add: GetDashboard_def loadDashboardData_def bindA_run mapErrA_run liftA_run member_healthy readSQL_healthy
        GetTenant_def StoreListTransactions_def ListAccounts_def StoreListCategories_def ListCurrentFXRates_def ids Let_def
        del: lookupRow_None)
qed

text \<open>C8. When the refresh of the exchange rates has succeeded, the reports of a tenant that is
  not archived miss no rate: its dashboard, whatever period it shows, is complete for booked and
  for pending money, lists no missing rate, neither for a transaction nor for a balance, and its
  cash-flow series is complete. The currencies stored in the books and the display currencies
  are trimmed, in upper case, not empty and without the separator of the lookup keys; the
  provider's name is not empty and has no space around it.\<close>

theorem refresh_completes_the_reports:
  assumes refresh: "RefreshRequiredFXRates service requested w = (Inr result, w')"
    and provider: "TrimSpace (rfx_Provider result) = rfx_Provider result" "rfx_Provider result \<noteq> ''''"
    and canonical: "canonicalTables (w_tables w)"
    and active: "\<forall>n \<in> set (t_tenants (w_tables w)). nm_ID n = TrimSpace (dp_TenantID p) \<longrightarrow> nm_ArchivedAt n = None"
    and later: "w_tables u = w_tables w'" "w_tables v = w_tables w'"
    and same: "cf_TenantID q = TrimSpace (dp_TenantID p)"
  shows "(case fst (GetDashboard out (rfx_Provider result) p u) of
      Inr d \<Rightarrow> db_MissingFX d = [] \<and> dms_Complete (db_Settled d) \<and> dms_Complete (db_Pending d) | Inl e \<Rightarrow> True) \<and>
    (case fst (GetCashFlowSeries (rfx_Provider result) q v) of Inr s \<Rightarrow> cfx_Complete s | Inl e \<Rightarrow> True)"
proof -
  obtain rows where tables: "w_tables w' = (w_tables w)\<lparr>t_fxRates := rows\<rparr>" using refreshed_rates [OF refresh] by metis
  have canonical': "canonicalTables (w_tables w')" using canonical by (simp add: canonicalTables_def tables)
  have rates: "currentRates (rfx_Provider result) (w_tables w') c (nm_DisplayCurrency n) \<noteq> []"
    if "n \<in> set (t_tenants (w_tables w'))" "nm_ID n = TrimSpace (dp_TenantID p)" "c \<in> bookCurrencies (nm_ID n) (w_tables w')"
      "c \<noteq> nm_DisplayCurrency n" for n c
    using refreshed_books [OF refresh canonical that(1) _ that(3,4)] active that(1,2) by (simp add: tables)
  have "db_MissingFX d = [] \<and> dms_Complete (db_Settled d) \<and> dms_Complete (db_Pending d)"
    if run: "GetDashboard out (rfx_Provider result) p u = (Inr d, u')" for d u'
  proof -
    obtain n data now where loaded: "loaded (rfx_Provider result) p n (w_tables w') data"
      and d: "d = dashboardOf out (rfx_Provider result) data now"
      by (rule dashboard_run [OF run, unfolded later(1)])
    have "n \<in> set (t_tenants (w_tables w'))" "nm_ID n = TrimSpace (dp_TenantID p)"
      using loaded by (simp_all add: loaded_def)
    then show ?thesis using dashboard_complete [OF loaded provider canonical'] rates unfolding d by blast
  qed
  moreover have "cfx_Complete s" if "GetCashFlowSeries (rfx_Provider result) q v = (Inr s, v')" for s v'
    using series_complete [OF series_run(1) [OF that]] rates later(2) same by simp
  ultimately show ?thesis
    by (cases "GetDashboard out (rfx_Provider result) p u"; cases "GetCashFlowSeries (rfx_Provider result) q v")
      (auto split: sum.splits)
qed


text \<open>A tenant that reports in zloty while its books are in euro.\<close>

definition report_world :: World where
  "report_world = ledger_world\<lparr>w_tables := (w_tables ledger_world)
     \<lparr>t_tenants := [\<lparr>nm_ID = ''t1'', nm_Name = ''Home'', nm_DisplayCurrency = ''PLN'', nm_ArchivedAt = None,
        nm_CreatedAt = 1, nm_UpdatedAt = 1\<rparr>]\<rparr>\<rparr>"

definition report_rate :: FXRate where
  "report_rate = \<lparr>fxr_Provider = '''', fxr_BaseCurrency = ''EUR'', fxr_QuoteCurrency = ''PLN'', fxr_EffectiveAt = 5,
     fxr_RateDate = 5, fxr_LastSuccessfulRefreshAt = zero_time, fxr_Rate = Finite 17 (- 2),
     fxr_CreatedAt = zero_time, fxr_UpdatedAt = zero_time\<rparr>"

definition report_service :: FXService where
  "report_service = \<lparr>fxv_Providers = [(''nbp'', StaticFXProvider (=) ''nbp'' [report_rate])],
     fxv_DefaultProvider = ''nbp'', fxv_HasRequiredPairs = True\<rparr>"

definition refreshed_world :: World where
  "refreshed_world = snd (RefreshRequiredFXRates report_service '''' report_world)"

definition report_request :: DashboardParams where
  "report_request = \<lparr>dp_ActorUserID = ''u1'', dp_TenantID = ''t1'', dp_StartDate = 1, dp_EndDate = 100\<rparr>"

definition series_request :: CashFlowSeriesParams where
  "series_request = \<lparr>cf_ActorUserID = ''u1'', cf_TenantID = ''t1'', cf_StartDate = 1, cf_StartOffset = 0,
     cf_EndDate = 100, cf_GroupBy = CashFlowGroupByDay\<rparr>"

lemma refresh_example:
  "fst (RefreshRequiredFXRates report_service '''' report_world) = Inr \<lparr>rfx_Provider = ''nbp'', rfx_ImportedCount = 1\<rparr>"
  by code_simp

lemma report_example_facts:
  "canonicalTables (w_tables report_world)"
  "\<forall>n \<in> set (t_tenants (w_tables report_world)). nm_ArchivedAt n = None"
  "TrimSpace ''t1'' = ''t1''" "TrimSpace ''nbp'' = ''nbp''"
  "ValidateDashboardParams report_request = None"
  "member ''t1'' ''u1'' (w_tables report_world)"
  by code_simp+

lemma report_balances:
  "\<exists>b. balanceRows (filter (balanceFilter \<lparr>lab_TenantID = ''t1'', lab_AccountIDs = Some ids,
      lab_EffectiveAtOnOrBefore = None, lab_EffectiveAtBefore = Some 100\<rparr>) (t_transactions (w_tables report_world)))
    (sort (remdups (map tm_AccountID (filter (balanceFilter \<lparr>lab_TenantID = ''t1'', lab_AccountIDs = Some ids,
      lab_EffectiveAtOnOrBefore = None, lab_EffectiveAtBefore = Some 100\<rparr>) (t_transactions (w_tables report_world)))))) = Inr b"
  by (cases "''a1'' \<in> set ids"; cases "''a2'' \<in> set ids")
    (simp_all add: report_world_def ledger_world_def balanceFilter_def example_leg_def balanceRow_def sumMinor_def scanInt64_def newTransactionModel_def Let_def)

lemma refreshed_example:
  obtains rows where "w_tables refreshed_world = (w_tables report_world)\<lparr>t_fxRates := rows\<rparr>"
    "RefreshRequiredFXRates report_service '''' report_world =
      (Inr \<lparr>rfx_Provider = ''nbp'', rfx_ImportedCount = 1\<rparr>, refreshed_world)"
proof -
  have run: "RefreshRequiredFXRates report_service '''' report_world =
      (Inr \<lparr>rfx_Provider = ''nbp'', rfx_ImportedCount = 1\<rparr>, refreshed_world)"
    using refresh_example unfolding refreshed_world_def by (metis prod.collapse)
  obtain rows where "w_tables refreshed_world = (w_tables report_world)\<lparr>t_fxRates := rows\<rparr>"
    using refreshed_rates [OF run] by metis
  then show thesis using run by (rule that)
qed

definition healthy_report_world :: World where
  "healthy_report_world = refreshed_world\<lparr>w_fault := \<lambda>_. None\<rparr>"

lemma report_example_answered: "\<exists>d. fst (GetDashboard (\<lambda>_. 0) ''nbp'' report_request healthy_report_world) = Inr d"
proof (rule refreshed_example)
  fix rows assume tables: "w_tables refreshed_world = (w_tables report_world)\<lparr>t_fxRates := rows\<rparr>"
  define n where "n = hd (t_tenants (w_tables report_world))"
  have n: "nm_ID n = ''t1''" "t_tenants (w_tables report_world) = [n]" by (simp_all add: n_def report_world_def)
  have request: "dp_TenantID report_request = ''t1''" "dp_ActorUserID report_request = ''u1''" "dp_EndDate report_request = 100"
    by (simp_all add: report_request_def)
  have "member ''t1'' ''u1'' (w_tables healthy_report_world)"
    using report_example_facts(6) by (simp add: healthy_report_world_def tables member_def)
  moreover have "lookupRow nm_ID ''t1'' (t_tenants (w_tables healthy_report_world)) = Some n"
    using n by (simp add: healthy_report_world_def tables lookupRow_def del: lookupRow_None)
  moreover have "t_transactions (w_tables healthy_report_world) = t_transactions (w_tables report_world)"
    by (simp add: healthy_report_world_def tables)
  ultimately show ?thesis
    using report_balances report_example_facts(3,5)
    by (intro dashboard_answers [where n = n]) (simp_all add: n(1) request healthy_def healthy_report_world_def)
qed

theorem refresh_completes_the_reports_witness:
  "\<exists>d. fst (GetDashboard (\<lambda>_. 0) ''nbp'' report_request healthy_report_world) = Inr d \<and>
     db_MissingFX d = [] \<and> dms_Complete (db_Settled d)"
proof (rule refreshed_example)
  fix rows
  assume run: "RefreshRequiredFXRates report_service '''' report_world =
      (Inr \<lparr>rfx_Provider = ''nbp'', rfx_ImportedCount = 1\<rparr>, refreshed_world)"
  have "cf_TenantID series_request = TrimSpace (dp_TenantID report_request)"
    by (simp add: series_request_def report_request_def report_example_facts(3))
  then have "case fst (GetDashboard (\<lambda>_. 0) ''nbp'' report_request healthy_report_world) of
      Inr d \<Rightarrow> db_MissingFX d = [] \<and> dms_Complete (db_Settled d) \<and> dms_Complete (db_Pending d) | Inl e \<Rightarrow> True"
    using refresh_completes_the_reports [OF run, where out = "\<lambda>_. 0" and p = report_request and q = series_request
        and u = healthy_report_world and v = healthy_report_world] report_example_facts
    by (simp add: healthy_report_world_def)
  then show ?thesis using report_example_answered by auto
qed

end
