(* ===== verification/CashFlowCalendar.thy ===== *)
theory CashFlowCalendar
  imports CashFlow
begin

text \<open>
  The boundaries of the cash-flow buckets: they start at the requested start and increase
  (so the loops and the recursive query end), the buckets partition the requested range, and
  the boundaries \<^verbatim>\<open>cash_flow_series.go\<close> counts are those the query computes.
\<close>

section \<open>Months\<close>

lemma div_step:
  assumes "0 < (k::int)"
  shows "y div k = (y - 1) div k + (if y mod k = 0 then 1 else 0)"
proof (cases "y mod k = 0")
  case True
  then obtain q where q: "y = k * q" by (auto simp: dvd_def mod_eq_0_iff_dvd)
  have "(k * q - 1) div k = q - 1"
    using assms by (intro int_div_pos_eq [of _ _ _ "k - 1"]) (simp_all add: algebra_simps)
  then show ?thesis using assms q by simp
next
  case False
  have "(y - 1) div k = y div k"
  proof (rule int_div_pos_eq [of _ _ _ "y mod k - 1"])
    show "y - 1 = k * (y div k) + (y mod k - 1)" by simp
    show "0 \<le> y mod k - 1" "y mod k - 1 < k"
      using False pos_mod_bound [OF assms, of y] pos_mod_sign [OF assms, of y] by linarith+
  qed
  then show ?thesis using False by simp
qed

lemma leap_step:
  "days_before_year y = days_before_year (y - 1) + 365 +
     (if y mod 4 = 0 \<and> (y mod 100 \<noteq> 0 \<or> y mod 400 = 0) then 1 else 0)"
proof -
  have "(4::int) dvd 100" "(100::int) dvd 400" by simp_all
  then have a: "y mod 100 = 0 \<Longrightarrow> y mod 4 = 0" "y mod 400 = 0 \<Longrightarrow> y mod 100 = 0"
    unfolding mod_eq_0_iff_dvd by (blast intro: dvd_trans)+
  have steps: "y div 4 = (y - 1) div 4 + (if y mod 4 = 0 then 1 else 0)"
    "y div 100 = (y - 1) div 100 + (if y mod 100 = 0 then 1 else 0)"
    "y div 400 = (y - 1) div 400 + (if y mod 400 = 0 then 1 else 0)"
    by (rule div_step, simp)+
  show ?thesis
    unfolding days_before_year_def steps using a
    by (cases "y mod 4 = 0"; cases "y mod 100 = 0"; cases "y mod 400 = 0") simp_all
qed

lemma month_cases:
  assumes "1 \<le> (m::int)" "m \<le> 12"
  shows "m = 1 \<or> m = 2 \<or> m = 3 \<or> m = 4 \<or> m = 5 \<or> m = 6 \<or> m = 7 \<or> m = 8 \<or> m = 9 \<or> m = 10 \<or> m = 11 \<or> m = 12"
  using assms by presburger

lemma next_month:
  assumes "1 \<le> m" "m \<le> 12"
  shows "days_from_civil (y + m div 12) (m mod 12 + 1) 1 = days_from_civil y m 1 + lastDayOfMonth y m"
  using month_cases [OF assms] leap_step [of y]
  by (elim disjE) (simp_all add: days_from_civil_def Let_def lastDayOfMonth_def)

lemma lastDayOfMonth_bounds: "28 \<le> lastDayOfMonth y m" "lastDayOfMonth y m \<le> 31"
  by (simp_all add: lastDayOfMonth_def)

section \<open>Months in a row\<close>

lemma div_mod_12: "(12 * q + r) div 12 = q + r div (12::int)" "(12 * q + r) mod 12 = r mod (12::int)"
  by simp_all

text \<open>Month \<open>M\<close> is month \<open>M mod 12 + 1\<close> of year \<open>M div 12\<close>.\<close>

definition monthStart :: "int \<Rightarrow> int" where
  "monthStart M = days_from_civil (M div 12) (M mod 12 + 1) 1"

definition monthLength :: "int \<Rightarrow> int" where
  "monthLength M = lastDayOfMonth (M div 12) (M mod 12 + 1)"

lemma monthLength_pos: "28 \<le> monthLength M" "monthLength M \<le> 31"
  by (simp_all add: monthLength_def lastDayOfMonth_bounds)

lemma monthStart_Suc: "monthStart (M + 1) = monthStart M + monthLength M"
proof -
  have m: "1 \<le> M mod 12 + 1" "M mod 12 + 1 \<le> 12" by simp_all
  have "(M + 1) div 12 = M div 12 + (M mod 12 + 1) div 12" "(M + 1) mod 12 = (M mod 12 + 1) mod 12"
    using div_mod_12 [of "M div 12" "M mod 12 + 1"] by simp_all
  then show ?thesis using next_month [OF m, of "M div 12"] by (simp add: monthStart_def monthLength_def)
qed

lemma monthStart_less: "0 < k \<Longrightarrow> monthStart M + 28 * int k \<le> monthStart (M + int k)"
proof (induction k)
  case (Suc k)
  have "monthStart (M + int (Suc k)) = monthStart (M + int k) + monthLength (M + int k)"
    using monthStart_Suc [of "M + int k"] by (simp add: algebra_simps)
  then show ?case using Suc monthLength_pos [of "M + int k"] by (cases "k = 0") auto
qed simp

lemma monthStart_mono: "M < N \<Longrightarrow> monthStart M + monthLength M \<le> monthStart N"
proof -
  assume "M < N"
  then obtain k where k: "N = (M + 1) + int k" by (metis add_diff_cancel_left' zless_iff_Suc_zadd of_nat_Suc add.assoc add.commute)
  show ?thesis
  proof (cases "k = 0")
    case True then show ?thesis using k monthStart_Suc by simp
  next
    case False
    then show ?thesis using monthStart_less [of k "M + 1"] k monthStart_Suc [of M] by simp
  qed
qed

lemma month_index:
  assumes "1 \<le> m" "m \<le> (12::int)"
  shows "(12 * y + m - 1) div 12 = y" "(12 * y + m - 1) mod 12 + 1 = m"
  using div_mod_12 [of y "m - 1"] month_norm [OF assms] by (simp_all add: algebra_simps)

lemma days_from_civil_month:
  assumes "1 \<le> m" "m \<le> 12"
  shows "days_from_civil y m d = monthStart (12 * y + m - 1) + d - 1"
proof -
  have "(12 * y + m - 1) div 12 = y" "(12 * y + m - 1) mod 12 + 1 = m"
    using month_index [OF assms] by simp_all
  then show ?thesis using days_from_civil_day [of y m 1 "d - 1"] by (simp add: monthStart_def)
qed

lemma shifted_month:
  fixes m y k :: int
  shows "12 * (y + (m - 1 + k) div 12) + ((m - 1 + k) mod 12 + 1) - 1 = 12 * y + m - 1 + k"
  using mult_div_mod_eq [of 12 "m - 1 + k"] by (simp add: algebra_simps)

lemma days_from_shifted_month:
  "days_from_civil (y + (m - 1 + k) div 12) ((m - 1 + k) mod 12 + 1) e = monthStart (12 * y + m - 1 + k) + e - 1"
proof -
  have c: "1 \<le> (m - 1 + k) mod 12 + 1" "(m - 1 + k) mod 12 + 1 \<le> 12" by simp_all
  show ?thesis
    using days_from_civil_month [OF c, of "y + (m - 1 + k) div 12" e] unfolding shifted_month .
qed

section \<open>The civil date of a day\<close>

lemma civil_day_bounds:
  assumes "civil_from_days n = (y, m, d)"
  shows "1 \<le> d" "d \<le> lastDayOfMonth y m"
proof -
  define doe where "doe = (n + 306) mod 146097"
  define era where "era = (n + 306) div 146097"
  define c where "c = doe div 36524"
  define c' where "c' = c - c div 4"
  define q where "q = (doe - 36524 * c') div 1461"
  define doq where "doq = doe - 36524 * c' - 1461 * q"
  define a where "a = doq div 365"
  define a' where "a' = a - a div 4"
  define doy where "doy = doq - 365 * a'"
  define mp where "mp = (5 * doy + 2) div 153"
  have doe: "0 \<le> doe" "doe < 146097" by (simp_all add: doe_def)
  note c = century_of_era [OF doe c_def c'_def]
  note q = quad_of_century [OF c(3,4) q_def, folded doq_def]
  note a = year_of_quad [OF q(3,4) a_def a'_def, folded doy_def]
  note mp = month_of_year [OF a(3,4) mp_def]
  let ?y = "100 * c' + 4 * q + a' + era * 400"
  have mdy: "m = (if mp < 10 then mp + 3 else mp - 9)" "y = (if m \<le> 2 then ?y + 1 else ?y)"
    "d = doy - (153 * mp + 2) div 5 + 1"
    using assms unfolding civil_from_days_def Let_def doe_def [symmetric] era_def [symmetric]
      c_def [symmetric] c'_def [symmetric] q_def [symmetric] doq_def [symmetric]
      a_def [symmetric] a'_def [symmetric] doy_def [symmetric] mp_def [symmetric]
    by auto
  have range: "153 * mp \<le> 5 * doy + 2" "5 * doy + 2 < 153 * mp + 153" by (simp_all add: mp_def)
  have leap: "y mod 4 = 0 \<and> (y mod 100 \<noteq> 0 \<or> y mod 400 = 0)" if "doy = 365" "m = 2"
  proof -
    have doq: "doq = 1460" "a' = 3"
    proof -
      have "doq = 365 * (a' + 1)" using that(1) unfolding doy_def by simp
      then have "a = a' + 1" unfolding a_def by simp
      then have "(a' + 1) div 4 = 1" using a'_def by simp
      then have "a' = 3" using a(1,2) by linarith
      then show "doq = 1460" "a' = 3" using \<open>doq = 365 * (a' + 1)\<close> by simp_all
    qed
    have y: "y = 100 * c' + 4 * (q + 1) + 400 * era" using mdy(2) that(2) doq(2) by simp
    show ?thesis
    proof (cases "q = 24")
      case True
      then have "doe - 36524 * c' = 36524" using doq(1) by (simp add: doq_def)
      then have "doe = 36524 * (c' + 1)" by simp
      then have "c = c' + 1" unfolding c_def by simp
      then have "(c' + 1) div 4 = 1" using c'_def by simp
      then have "c' = 3" using c(1,2) by linarith
      then show ?thesis using y True by simp
    next
      case False
      then have "0 < q + 1" "q + 1 < 25" using q(1,2) by auto
      have "y mod 100 = 4 * (q + 1)"
        unfolding y by (rule int_mod_pos_eq [of _ _ "c' + 4 * era"]) (use \<open>0 < q + 1\<close> \<open>q + 1 < 25\<close> in simp_all)
      moreover have "y = 4 * (25 * c' + (q + 1) + 100 * era)" using y by simp
      then have "y mod 4 = 0" by (metis mod_mult_self1_is_0)
      ultimately show ?thesis using \<open>0 < q + 1\<close> by simp
    qed
  qed
  have cases: "mp = 0 \<or> mp = 1 \<or> mp = 2 \<or> mp = 3 \<or> mp = 4 \<or> mp = 5 \<or> mp = 6 \<or> mp = 7 \<or> mp = 8 \<or> mp = 9 \<or> mp = 10 \<or> mp = 11"
    using mp by presburger
  have short: "doy \<le> 364" if "m = 2" "\<not> (y mod 4 = 0 \<and> (y mod 100 \<noteq> 0 \<or> y mod 400 = 0))"
  proof -
    have "doy \<noteq> 365" using leap that by blast
    then show ?thesis using a(4) by linarith
  qed
  show "1 \<le> d" unfolding mdy(3) using cases range by (elim disjE) simp_all
  show "d \<le> lastDayOfMonth y m"
    using cases range a(4) short unfolding mdy(1,3)
    by (elim disjE) (auto simp: lastDayOfMonth_def mdy(1))
qed

lemma civil_of_day:
  assumes "0 \<le> j" "j < monthLength B"
  shows "civil_from_days (monthStart B + j) = (B div 12, B mod 12 + 1, j + 1)"
proof -
  obtain y m d where ymd: "civil_from_days (monthStart B + j) = (y, m, d)" by (metis prod_cases3)
  note inv = civil_from_days_inverse [OF ymd] and day = civil_day_bounds [OF ymd]
  define A where "A = 12 * y + m - 1"
  have A: "A div 12 = y" "A mod 12 + 1 = m"
    using month_index [OF inv(2,3)] unfolding A_def by simp_all
  have at: "monthStart A + d - 1 = monthStart B + j"
    using days_from_civil_month [OF inv(2,3), of y d] inv(1) by (simp add: A_def)
  have "d \<le> monthLength A" using day(2) A by (simp add: monthLength_def)
  have "A = B"
  proof (rule ccontr)
    assume "A \<noteq> B"
    then consider "A < B" | "B < A" by linarith
    then show False
    proof cases
      case 1 then show ?thesis using monthStart_mono [of A B] at \<open>d \<le> monthLength A\<close> assms by linarith
    next
      case 2 then show ?thesis using monthStart_mono [of B A] at day(1) assms by linarith
    qed
  qed
  then show ?thesis using A at ymd by simp
qed

section \<open>Boundaries\<close>

definition monthOf :: "time \<Rightarrow> int" where
  "monthOf t = (case civil_from_days (t div day_ns) of (y, m, d) \<Rightarrow> 12 * y + m - 1)"

definition dayOf :: "time \<Rightarrow> int" where
  "dayOf t = (case civil_from_days (t div day_ns) of (y, m, d) \<Rightarrow> d)"

lemma monthOf_dayOf:
  "1 \<le> dayOf t" "dayOf t \<le> monthLength (monthOf t)" "monthStart (monthOf t) + dayOf t - 1 = t div day_ns"
proof -
  obtain y m d where ymd: "civil_from_days (t div day_ns) = (y, m, d)" by (metis prod_cases3)
  note inv = civil_from_days_inverse [OF ymd] and day = civil_day_bounds [OF ymd]
  note month_index [OF inv(2,3), of y]
  then show "1 \<le> dayOf t" "dayOf t \<le> monthLength (monthOf t)"
    using day by (simp_all add: dayOf_def monthOf_def ymd monthLength_def)
  show "monthStart (monthOf t) + dayOf t - 1 = t div day_ns"
    unfolding dayOf_def monthOf_def ymd prod.case
    using days_from_civil_month [OF inv(2,3), of y d] inv(1) by simp
qed

lemma addMonthsSQL_month:
  "addMonthsSQL t k = (monthStart (monthOf t + int k) + min (dayOf t) (monthLength (monthOf t + int k)) - 1) * day_ns + t mod day_ns"
proof -
  obtain y m d where ymd: "civil_from_days (t div day_ns) = (y, m, d)" by (metis prod_cases3)
  define m0 where "m0 = m - 1 + int k"
  have M: "(12 * y + m - 1 + int k) div 12 = y + m0 div 12" "(12 * y + m - 1 + int k) mod 12 = m0 mod 12"
    using div_mod_12 [of y m0] unfolding m0_def by (simp_all add: algebra_simps)
  have len: "lastDayOfMonth (y + m0 div 12) (m0 mod 12 + 1) = monthLength (12 * y + m - 1 + int k)"
    by (simp add: monthLength_def M)
  have start: "days_from_civil (y + m0 div 12) (m0 mod 12 + 1) e = monthStart (12 * y + m - 1 + int k) + e - 1" for e
    unfolding m0_def by (rule days_from_shifted_month)
  show ?thesis
    unfolding addMonthsSQL_def ymd prod.case Let_def monthOf_def dayOf_def m0_def [symmetric]
    by (simp only: len start)
qed

lemma day_ns_pos: "0 < day_ns"
  by (simp add: day_ns_def)

lemma addMonthsSQL_0: "addMonthsSQL t 0 = t"
  using monthOf_dayOf [of t] by (simp add: addMonthsSQL_month min_absorb1)

lemma addMonthsSQL_Suc: "addMonthsSQL t k < addMonthsSQL t (Suc k)"
proof -
  let ?M = "monthOf t + int k"
  have "monthStart ?M + min (dayOf t) (monthLength ?M) - 1 < monthStart (?M + 1) + min (dayOf t) (monthLength (?M + 1)) - 1"
    using monthOf_dayOf(1) [of t] monthLength_pos [of ?M] monthLength_pos [of "?M + 1"] monthStart_Suc [of ?M] by linarith
  then have "(monthStart ?M + min (dayOf t) (monthLength ?M) - 1) * day_ns <
      (monthStart (?M + 1) + min (dayOf t) (monthLength (?M + 1)) - 1) * day_ns"
    by (rule mult_strict_right_mono) (rule day_ns_pos)
  then show ?thesis by (simp add: addMonthsSQL_month algebra_simps)
qed

lemma sqlBoundary_0 [simp]: "sqlBoundary groupBy offset startDate 0 = startDate"
  by (simp add: sqlBoundary_def addMonthsSQL_0 Let_def split: CashFlowGroupBy.splits)

lemma sqlBoundary_increases: "sqlBoundary groupBy offset startDate k < sqlBoundary groupBy offset startDate (Suc k)"
  using addMonthsSQL_Suc day_ns_pos
  by (simp add: sqlBoundary_def Let_def algebra_simps split: CashFlowGroupBy.splits)

lemma cashFlowMonthBoundary_months:
  "cashFlowMonthBoundary offset startDate k = addMonthsSQL (startDate + offset * second_ns) k - offset * second_ns"
proof -
  define local where "local = startDate + offset * second_ns"
  obtain y m d where ymd: "civil_from_days (local div day_ns) = (y, m, d)" by (metis prod_cases3)
  define B where "B = 12 * y + m - 1 + int k"
  define m0 where "m0 = m - 1 + int k"
  have B: "B div 12 = y + m0 div 12" "B mod 12 = m0 mod 12"
    using div_mod_12 [of y m0] unfolding B_def m0_def by (simp_all add: algebra_simps)
  have start: "days_from_civil (y + m0 div 12) (m0 mod 12 + 1) e = monthStart B + e - 1" for e
    unfolding B_def m0_def by (rule days_from_shifted_month)
  define first where "first = days_from_civil (y + m0 div 12) (m0 mod 12 + 1) 1 * day_ns + local mod day_ns"
  have first: "first div day_ns = monthStart B" "first mod day_ns = local mod day_ns"
    using day_ns_pos start [of 1] by (simp_all add: first_def)
  have "civil_from_days (first div day_ns) = (B div 12, B mod 12 + 1, 1)"
    using civil_of_day [of 0 B] monthLength_pos [of B] first(1) by simp
  moreover have "B div 12 + (B mod 12 + 1) div 12 = (B + 1) div 12" "(B mod 12 + 1) mod 12 = (B + 1) mod 12"
    using div_mod_12 [of "B div 12" "B mod 12 + 1"] by simp_all
  ultimately have "AddDate first 0 1 (- 1) = days_from_civil ((B + 1) div 12) ((B + 1) mod 12 + 1) 0 * day_ns + first mod day_ns"
    by (simp add: AddDate_def Let_def)
  also have "days_from_civil ((B + 1) div 12) ((B + 1) mod 12 + 1) 0 = monthStart B + (monthLength B - 1)"
    using days_from_civil_day [of "(B + 1) div 12" "(B + 1) mod 12 + 1" 1 "- 1"] monthStart_Suc [of B]
    by (simp add: monthStart_def)
  finally have "AddDate first 0 1 (- 1) div day_ns = monthStart B + (monthLength B - 1)"
    using day_ns_pos first(2) by simp
  then have last: "snd (snd (civil_from_days (AddDate first 0 1 (- 1) div day_ns))) = monthLength B"
    using civil_of_day [of "monthLength B - 1" B] monthLength_pos [of B] by simp
  have "cashFlowMonthBoundary offset startDate k =
      days_from_civil (y + m0 div 12) (m0 mod 12 + 1) (min d (monthLength B)) * day_ns + local mod day_ns - offset * second_ns"
    unfolding cashFlowMonthBoundary_def Let_def local_def [symmetric] ymd prod.case m0_def [symmetric] first_def [symmetric] last ..
  also have "\<dots> = addMonthsSQL local k - offset * second_ns"
    unfolding start addMonthsSQL_month monthOf_def dayOf_def ymd prod.case B_def ..
  finally show ?thesis by (simp add: local_def)
qed

lemma goBoundary_increases: "goBoundary groupBy offset startDate k < goBoundary groupBy offset startDate (Suc k)"
proof -
  have day: "AddDate startDate 0 0 (int k) < AddDate startDate 0 0 (int (Suc k))"
    using day_ns_pos by (simp add: AddDate_days algebra_simps)
  have zero: "startDate = addMonthsSQL (startDate + offset * second_ns) 0 - offset * second_ns" by (simp add: addMonthsSQL_0)
  have "(if k = 0 then startDate else cashFlowMonthBoundary offset startDate k) =
      addMonthsSQL (startDate + offset * second_ns) k - offset * second_ns"
    using zero by (simp add: cashFlowMonthBoundary_months)
  then have month: "(if k = 0 then startDate else cashFlowMonthBoundary offset startDate k) <
      cashFlowMonthBoundary offset startDate (Suc k)"
    using addMonthsSQL_Suc [of "startDate + offset * second_ns" k] by (simp add: cashFlowMonthBoundary_months)
  show ?thesis unfolding goBoundary_def using day month by (cases groupBy) simp_all
qed

text \<open>An offset of whole minutes is written and read without loss.\<close>

lemma zone_of_offset:
  assumes "offset mod 60 = 0"
  shows "zoneSeconds (cashFlowPostgreSQLStartOffset offset) = offset"
proof -
  have whole: "v div 3600 * 3600 + v mod 3600 div 60 * 60 = v" if "v mod 60 = 0" for v :: int
  proof -
    have "v mod 3600 mod 60 = 0" using that mod_mod_cancel [of 60 3600 v] by simp
    then have "v mod 3600 div 60 * 60 = v mod 3600" using mult_div_mod_eq [of 60 "v mod 3600"] by simp
    then show ?thesis using mult_div_mod_eq [of 3600 v] by simp
  qed
  have "(- offset) mod 60 = 0" using assms by (simp add: mod_eq_0_iff_dvd)
  note eqs = whole [OF this] whole [OF assms]
  show ?thesis
    using eqs unfolding zoneSeconds_def cashFlowPostgreSQLStartOffset_def Let_def
    by (cases "offset < 0") simp_all
qed

lemma boundaries_agree:
  assumes "offset mod 60 = 0"
  shows "goBoundary groupBy offset startDate = sqlBoundary groupBy offset startDate"
proof
  fix k
  show "goBoundary groupBy offset startDate k = sqlBoundary groupBy offset startDate k"
    using zone_of_offset [OF assms]
    by (simp add: goBoundary_def sqlBoundary_def Let_def AddDate_days cashFlowMonthBoundary_months addMonthsSQL_0
        split: CashFlowGroupBy.splits)
qed

section \<open>The buckets partition the range\<close>

lemma bucketIndices_upt:
  assumes "\<And>k. b k < b (Suc k)"
  shows "\<exists>n > k. bucketIndices b endDate k = [k..<n] \<and> endDate \<le> b n \<and> (\<forall>i. k < i \<and> i < n \<longrightarrow> b i < endDate)"
  using assms
proof (induction b endDate k rule: bucketIndices.induct)
  case (1 b endDate k)
  show ?case
  proof (cases "b (Suc k) < endDate")
    case False
    then show ?thesis
      by (intro exI [of _ "Suc k"]) (simp add: bucketIndices.simps [of b endDate k])
  next
    case True
    then obtain n where n: "Suc k < n" "bucketIndices b endDate (Suc k) = [Suc k..<n]" "endDate \<le> b n"
      "\<forall>i. Suc k < i \<and> i < n \<longrightarrow> b i < endDate"
      using "1.IH" "1.prems" by blast
    then have "bucketIndices b endDate k = [k..<n]"
      using True "1.prems" [of k] by (simp add: bucketIndices.simps [of b endDate k] upt_conv_Cons)
    then show ?thesis
      using n True by (metis Suc_lessI Suc_lessD)
  qed
qed

lemma countBoundaries_upt:
  assumes "\<And>k. b k < b (Suc k)" "k \<le> n" "endDate \<le> b n" "\<And>i. k \<le> i \<Longrightarrow> i < n \<Longrightarrow> b i < endDate"
  shows "countBoundaries b endDate k = n"
  using assms
proof (induction b endDate k rule: countBoundaries.induct)
  case (1 b endDate k)
  show ?case
  proof (cases "k = n")
    case True
    then have "\<not> b k < endDate" using "1.prems"(3) by simp
    then show ?thesis using True by (subst countBoundaries.simps) simp
  next
    case False
    then have "b k < endDate" "b k < b (Suc k)" using "1.prems" by auto
    then have "countBoundaries b endDate (Suc k) = n" using "1.IH" "1.prems" False by simp
    then show ?thesis using \<open>b k < endDate\<close> \<open>b k < b (Suc k)\<close> by (simp add: countBoundaries.simps [of b endDate k])
  qed
qed

lemma sum_over_buckets:
  fixes b :: "nat \<Rightarrow> time"
  assumes "\<And>k. b k < b (Suc k)"
  shows "(\<Sum>k\<leftarrow>[0..<n]. if b k \<le> x \<and> x < min (b (Suc k)) endDate then w else 0) =
    (if b 0 \<le> x \<and> x < min (b n) endDate then w else (0::'a::comm_monoid_add))"
proof (induction n)
  case (Suc n)
  have "b 0 \<le> b n" by (rule lift_Suc_mono_le [of b 0 n]) (use assms less_imp_le in auto)
  then show ?case using Suc assms [of n] by (auto simp: min_def)
qed auto

end
