(* ===== verification/SeriesFacts.thy ===== *)
theory SeriesFacts
  imports DashboardFacts CashFlowCalendar
begin

text \<open>
  What the cash-flow query computes: over all buckets of the series, each flowing transaction
  of the range is shown once, so that a column of the series is one sum over the rows.
\<close>

section \<open>One row per transaction\<close>

definition flowing :: "string \<Rightarrow> Tables \<Rightarrow> transactionModel \<Rightarrow> bool" where
  "flowing tenantID t row \<longleftrightarrow> tm_TenantID row = tenantID \<and> visibleAccount tenantID t (tm_AccountID row) \<and>
     tm_Status row = TransactionStatusBooked \<and> tm_HiddenAt row = None \<and> sint (tm_AmountMinor row) \<noteq> 0 \<and>
     tm_Kind row \<in> qualifyingKinds \<and> \<not> (tm_Kind row = TransactionKindTransfer \<and> tm_TransferMatchedAt row \<noteq> None)"

definition within :: "time \<Rightarrow> time \<Rightarrow> transactionModel \<Rightarrow> bool" where
  "within start finish row \<longleftrightarrow> start \<le> tm_EffectiveAt row \<and> tm_EffectiveAt row < finish"

lemma unique_filter:
  assumes "distinct (map key rows)" "\<And>r. P r \<Longrightarrow> key r = k"
  shows "filter P rows = [] \<or> (\<exists>r \<in> set rows. P r \<and> filter P rows = [r])"
  using assms(1)
proof (induction rows)
  case (Cons r rows)
  then show ?case
  proof (cases "P r")
    case True
    have "filter P rows = []" using Cons.prems True assms(2) by (auto simp: filter_empty_conv image_iff)
    then show ?thesis using True by simp
  qed auto
qed simp

lemma concat_selected: "concat (map (\<lambda>x. if P x then [x] else []) xs) = filter P xs"
  by (induction xs) simp_all

lemma concat_singletons: "(\<And>x. f x = [g x]) \<Longrightarrow> concat (map f xs) = map g xs"
  by (induction xs) simp_all

lemma qualifying_rows:
  assumes "distinct (map am_ID (t_accounts t))"
  shows "qualifyingRows t bucket =
    filter (\<lambda>row. flowing (bk_TenantID bucket) t row \<and> within (bk_Start bucket) (bk_End bucket) row) (t_transactions t)"
proof -
  have "map (\<lambda>_. row) (filter (qualifies bucket row) (t_accounts t)) =
      (if flowing (bk_TenantID bucket) t row \<and> within (bk_Start bucket) (bk_End bucket) row then [row] else [])" for row
  proof -
    have iff: "(\<exists>a \<in> set (t_accounts t). qualifies bucket row a) \<longleftrightarrow>
        flowing (bk_TenantID bucket) t row \<and> within (bk_Start bucket) (bk_End bucket) row"
      by (auto simp: qualifies_def flowing_def within_def visibleAccount_def)
    have "filter (qualifies bucket row) (t_accounts t) = [] \<or>
        (\<exists>a \<in> set (t_accounts t). qualifies bucket row a \<and> filter (qualifies bucket row) (t_accounts t) = [a])"
      by (rule unique_filter [OF assms, of _ "tm_AccountID row"]) (simp add: qualifies_def)
    then show ?thesis using iff by (auto simp: filter_empty_conv)
  qed
  then have "qualifyingRows t bucket = concat (map (\<lambda>row. if flowing (bk_TenantID bucket) t row \<and>
      within (bk_Start bucket) (bk_End bucket) row then [row] else []) (t_transactions t))"
    by (simp add: qualifyingRows_def)
  also have "\<dots> = filter (\<lambda>row. flowing (bk_TenantID bucket) t row \<and> within (bk_Start bucket) (bk_End bucket) row) (t_transactions t)"
    by (rule concat_selected)
  finally show ?thesis .
qed

definition currentRate :: "string \<Rightarrow> Tables \<Rightarrow> string \<Rightarrow> string \<Rightarrow> float64 option" where
  "currentRate provider t currency display =
     (case currentRates provider t currency display of [] \<Rightarrow> None | r # _ \<Rightarrow> Some (fm_RateValue r))"

lemma one_rate:
  assumes "distinct (map rateKey (t_fxRates t))"
  shows "currentRates provider t c q = [] \<or> (\<exists>r. currentRates provider t c q = [r])"
  using unique_filter [OF assms, of "\<lambda>r. fm_Provider r = provider \<and> fm_BaseCurrency r = c \<and> fm_QuoteCurrency r = q" "(provider, c, q)"]
  by (auto simp: currentRates_def rateKey_def)

lemma contributions_rows:
  assumes "distinct (map rateKey (t_fxRates t))"
  shows "contributions provider t bucket =
    map (\<lambda>row. (row, currentRate provider t (tm_Currency row) (bk_DisplayCurrency bucket))) (qualifyingRows t bucket)"
proof -
  have "(case currentRates provider t (tm_Currency row) (bk_DisplayCurrency bucket) of [] \<Rightarrow> [(row, None)]
      | rates \<Rightarrow> map (\<lambda>r. (row, Some (fm_RateValue r))) rates) =
    [(row, currentRate provider t (tm_Currency row) (bk_DisplayCurrency bucket))]" for row
    using one_rate [OF assms, of provider "tm_Currency row" "bk_DisplayCurrency bucket"] by (auto simp: currentRate_def)
  then show ?thesis unfolding contributions_def by (rule concat_singletons)
qed

lemma sqlSum_Inr:
  "sqlSum terms = Inr v \<Longrightarrow> (\<forall>x \<in> set terms. \<not> isl x) \<and> v = (\<Sum>x\<leftarrow>terms. projr x)"
proof (induction terms arbitrary: v rule: sqlSum.induct)
  case (3 x terms)
  then show ?case by (cases "sqlSum terms") auto
qed auto

text \<open>What one row adds to a column of the series.\<close>

definition shown :: "string \<Rightarrow> Tables \<Rightarrow> string \<Rightarrow> (transactionModel \<Rightarrow> go_error + int) \<Rightarrow> transactionModel \<Rightarrow> go_error + int" where
  "shown provider t display native row =
     (case native row of
        Inl e \<Rightarrow> Inl e
      | Inr v \<Rightarrow>
          if tm_Currency row = display then Inr v
          else (case currentRate provider t (tm_Currency row) display of Some r \<Rightarrow> sqlConvert v r | None \<Rightarrow> Inr 0))"

lemma bucket_total:
  assumes keys: "distinct (map am_ID (t_accounts t))" "distinct (map rateKey (t_fxRates t))"
    and total: "bucketTotal provider t native bucket = Inr v"
  shows "v = (\<Sum>row\<leftarrow>t_transactions t. if flowing (bk_TenantID bucket) t row \<and> within (bk_Start bucket) (bk_End bucket) row
      then projr (shown provider t (bk_DisplayCurrency bucket) native row) else 0)"
    and "row \<in> set (t_transactions t) \<Longrightarrow> flowing (bk_TenantID bucket) t row \<Longrightarrow> within (bk_Start bucket) (bk_End bucket) row \<Longrightarrow>
      \<not> isl (shown provider t (bk_DisplayCurrency bucket) native row)"
proof -
  have "map (displayMinor bucket native) (contributions provider t bucket) =
      map (shown provider t (bk_DisplayCurrency bucket) native) (qualifyingRows t bucket)"
    by (simp add: contributions_rows [OF keys(2)] displayMinor_def shown_def comp_def)
  then have "sqlSum (map (shown provider t (bk_DisplayCurrency bucket) native) (qualifyingRows t bucket)) = Inr v"
    using total by (auto simp: bucketTotal_def sqlBigint_def split: sum.splits if_splits)
  note sum = sqlSum_Inr [OF this]
  then show "v = (\<Sum>row\<leftarrow>t_transactions t. if flowing (bk_TenantID bucket) t row \<and> within (bk_Start bucket) (bk_End bucket) row
      then projr (shown provider t (bk_DisplayCurrency bucket) native row) else 0)"
    by (simp add: comp_def qualifying_rows [OF keys(1)] sum_list_map_filter')
  show "\<not> isl (shown provider t (bk_DisplayCurrency bucket) native row)"
    if "row \<in> set (t_transactions t)" "flowing (bk_TenantID bucket) t row" "within (bk_Start bucket) (bk_End bucket) row"
    using sum that by (simp add: qualifying_rows [OF keys(1)])
qed


lemma bucket_rows:
  assumes "bucketRows provider t buckets = Inr rows"
  shows "b \<in> set buckets \<Longrightarrow> \<not> isl (bucketTotal provider t incomeNative b) \<and> \<not> isl (bucketTotal provider t expenseNative b)"
    and "(\<Sum>r\<leftarrow>rows. csb_IncomeMinor r) = (\<Sum>b\<leftarrow>buckets. word_of_int (projr (bucketTotal provider t incomeNative b)))"
    and "(\<Sum>r\<leftarrow>rows. csb_ExpenseMinor r) = (\<Sum>b\<leftarrow>buckets. word_of_int (projr (bucketTotal provider t expenseNative b)))"
proof -
  have "(\<forall>b \<in> set buckets. \<not> isl (bucketTotal provider t incomeNative b) \<and> \<not> isl (bucketTotal provider t expenseNative b)) \<and>
      (\<Sum>r\<leftarrow>rows. csb_IncomeMinor r) = (\<Sum>b\<leftarrow>buckets. word_of_int (projr (bucketTotal provider t incomeNative b))) \<and>
      (\<Sum>r\<leftarrow>rows. csb_ExpenseMinor r) = (\<Sum>b\<leftarrow>buckets. word_of_int (projr (bucketTotal provider t expenseNative b)))"
    using assms
  proof (induction buckets arbitrary: rows)
    case (Cons b buckets)
    then show ?case
      by (cases "bucketRows provider t buckets") (auto split: sum.splits)
  qed simp
  then show "b \<in> set buckets \<Longrightarrow> \<not> isl (bucketTotal provider t incomeNative b) \<and> \<not> isl (bucketTotal provider t expenseNative b)"
    "(\<Sum>r\<leftarrow>rows. csb_IncomeMinor r) = (\<Sum>b\<leftarrow>buckets. word_of_int (projr (bucketTotal provider t incomeNative b)))"
    "(\<Sum>r\<leftarrow>rows. csb_ExpenseMinor r) = (\<Sum>b\<leftarrow>buckets. word_of_int (projr (bucketTotal provider t expenseNative b)))"
    by blast+
qed

definition bucketOf :: "cashFlowStoreParams \<Rightarrow> tenantModel \<Rightarrow> nat \<Rightarrow> cashBucket" where
  "bucketOf params n k =
     (let boundary = sqlBoundary (cfs_GroupBy params) (cfs_StartOffset params) (cfs_StartDate params)
      in \<lparr>bk_TenantID = nm_ID n, bk_DisplayCurrency = nm_DisplayCurrency n,
          bk_Start = boundary k, bk_End = min (boundary (Suc k)) (cfs_EndDate params)\<rparr>)"

lemma the_buckets:
  assumes "distinct (map nm_ID (t_tenants t))" "n \<in> set (t_tenants t)" "nm_ID n = cfs_TenantID params"
  obtains N where "cashBuckets params t = map (bucketOf params n) [0..<N]"
    "sort_key bk_Start (cashBuckets params t) = cashBuckets params t"
    "cfs_EndDate params \<le> sqlBoundary (cfs_GroupBy params) (cfs_StartOffset params) (cfs_StartDate params) N"
proof -
  let ?b = "sqlBoundary (cfs_GroupBy params) (cfs_StartOffset params) (cfs_StartDate params)"
  obtain N where N: "bucketIndices ?b (cfs_EndDate params) 0 = [0..<N]" "cfs_EndDate params \<le> ?b N"
    using bucketIndices_upt [of ?b 0 "cfs_EndDate params"] sqlBoundary_increases by blast
  have "filter (\<lambda>m. nm_ID m = cfs_TenantID params) (t_tenants t) = [n]"
    using filter_distinct_key [OF assms(1,2)] assms(3) by simp
  then have buckets: "cashBuckets params t = map (bucketOf params n) [0..<N]"
    using N(1) by (simp add: cashBuckets_def bucketOf_def Let_def)
  have "mono ?b" unfolding mono_iff_le_Suc using sqlBoundary_increases less_imp_le by blast
  then have "sorted (map bk_Start (map (bucketOf params n) [0..<N]))"
    by (auto simp: bucketOf_def Let_def comp_def sorted_iff_nth_mono monoD)
  then have "sort_key bk_Start (cashBuckets params t) = cashBuckets params t"
    unfolding buckets by (rule sort_key_id_if_sorted)
  then show thesis using N(2) buckets by (intro that)
qed


text \<open>A column of the series is one sum over the rows of the range.\<close>

lemma column_sum:
  fixes boundary :: "nat \<Rightarrow> time" and amount :: "transactionModel \<Rightarrow> int64"
  assumes "\<And>k. boundary k < boundary (Suc k)" "finish \<le> boundary N"
  shows "(\<Sum>k\<leftarrow>[0..<N]. \<Sum>row\<leftarrow>rows. if P row \<and> within (boundary k) (min (boundary (Suc k)) finish) row then amount row else 0) =
    (\<Sum>row\<leftarrow>rows. if P row \<and> within (boundary 0) finish row then amount row else 0)"
proof (induction rows)
  case (Cons row rows)
  have "(\<Sum>k\<leftarrow>[0..<N]. if P row \<and> within (boundary k) (min (boundary (Suc k)) finish) row then amount row else 0) =
      (if P row \<and> within (boundary 0) finish row then amount row else 0)"
    using sum_over_buckets [where b = boundary, OF assms(1), of "tm_EffectiveAt row" finish "amount row" N] assms(2)
    by (cases "P row") (simp_all add: within_def min_absorb2)
  then show ?case using Cons by (simp add: sum_list_addf)
qed simp

lemma bucket_exists:
  fixes boundary :: "nat \<Rightarrow> time"
  assumes "\<And>k. boundary k < boundary (Suc k)" "finish \<le> boundary N" "within (boundary 0) finish row"
  obtains k where "k < N" "within (boundary k) (min (boundary (Suc k)) finish) row"
proof -
  have "(\<Sum>k\<leftarrow>[0..<N]. if boundary k \<le> tm_EffectiveAt row \<and> tm_EffectiveAt row < min (boundary (Suc k)) finish then 1 else 0) = (1::nat)"
    using sum_over_buckets [where b = boundary, OF assms(1), of "tm_EffectiveAt row" finish "1::nat" N] assms(2,3)
    by (simp add: within_def min_absorb2)
  moreover define Q where "Q = (\<lambda>k. boundary k \<le> tm_EffectiveAt row \<and> tm_EffectiveAt row < min (boundary (Suc k)) finish)"
  ultimately have "(\<Sum>k\<leftarrow>[0..<N]. if Q k then 1 else 0) = (1::nat)" by simp
  moreover have "(\<Sum>k\<leftarrow>[0..<N]. if Q k then 1 else 0) = (0::nat)" if "\<forall>k < N. \<not> Q k"
    using that by (auto simp: sum_list_eq_0_iff)
  ultimately have "\<exists>k < N. Q k" by fastforce
  then show thesis using that by (auto simp: within_def Q_def)
qed

lemma word_of_sum: "word_of_int (\<Sum>x\<leftarrow>xs. f x) = (\<Sum>x\<leftarrow>xs. word_of_int (f x))"
  by (induction xs) simp_all


section \<open>The totals\<close>

lemma series_totals:
  assumes query: "cashFlowQuery params t = Inr s"
    and keys: "distinct (map nm_ID (t_tenants t))" "distinct (map am_ID (t_accounts t))" "distinct (map rateKey (t_fxRates t))"
    and n: "n \<in> set (t_tenants t)" "nm_ID n = cfs_TenantID params"
  defines "counts \<equiv> \<lambda>row. flowing (nm_ID n) t row \<and> within (cfs_StartDate params) (cfs_EndDate params) row"
    and "money \<equiv> shown (cfs_FXProvider params) t (nm_DisplayCurrency n)"
  shows "(\<Sum>b\<leftarrow>cfx_Buckets s. csb_IncomeMinor b) =
      (\<Sum>row\<leftarrow>t_transactions t. if counts row then word_of_int (projr (money incomeNative row)) else 0)"
    and "(\<Sum>b\<leftarrow>cfx_Buckets s. csb_ExpenseMinor b) =
      (\<Sum>row\<leftarrow>t_transactions t. if counts row then word_of_int (projr (money expenseNative row)) else 0)"
    and "row \<in> set (t_transactions t) \<Longrightarrow> counts row \<Longrightarrow> \<not> isl (money incomeNative row) \<and> \<not> isl (money expenseNative row)"
proof -
  let ?b = "sqlBoundary (cfs_GroupBy params) (cfs_StartOffset params) (cfs_StartDate params)"
  let ?p = "cfs_FXProvider params"
  obtain N where buckets: "cashBuckets params t = map (bucketOf params n) [0..<N]"
    and sorted: "sort_key bk_Start (cashBuckets params t) = cashBuckets params t"
    and N: "cfs_EndDate params \<le> ?b N"
    using the_buckets [OF keys(1) n] by metis
  have rows: "bucketRows ?p t (map (bucketOf params n) [0..<N]) = Inr (cfx_Buckets s)"
    using query sorted by (auto simp: cashFlowQuery_def Let_def buckets split: sum.splits)
  have bk: "bk_TenantID (bucketOf params n k) = nm_ID n" "bk_DisplayCurrency (bucketOf params n k) = nm_DisplayCurrency n"
    "bk_Start (bucketOf params n k) = ?b k" "bk_End (bucketOf params n k) = min (?b (Suc k)) (cfs_EndDate params)" for k
    by (simp_all add: bucketOf_def Let_def)
  have one: "word_of_int (projr (bucketTotal ?p t native (bucketOf params n k))) =
      (\<Sum>row\<leftarrow>t_transactions t. if flowing (nm_ID n) t row \<and> within (?b k) (min (?b (Suc k)) (cfs_EndDate params)) row
        then word_of_int (projr (money native row)) else 0)"
    if ok: "\<not> isl (bucketTotal ?p t native (bucketOf params n k))" for native k
  proof -
    obtain v where v: "bucketTotal ?p t native (bucketOf params n k) = Inr v"
      using ok by (cases "bucketTotal ?p t native (bucketOf params n k)") auto
    show ?thesis
      using bucket_total(1) [OF keys(2,3) v] v unfolding bk money_def
      by (simp add: word_of_sum if_distrib [of word_of_int] cong: if_cong)
  qed
  note ok = bucket_rows(1) [OF rows]
  have inc: "(\<Sum>b\<leftarrow>map (bucketOf params n) [0..<N]. word_of_int (projr (bucketTotal ?p t native b))) =
      (\<Sum>row\<leftarrow>t_transactions t. if counts row then word_of_int (projr (money native row)) else (0::int64))"
    if "\<And>k. k < N \<Longrightarrow> \<not> isl (bucketTotal ?p t native (bucketOf params n k))" for native
  proof -
    have "(\<Sum>b\<leftarrow>map (bucketOf params n) [0..<N]. word_of_int (projr (bucketTotal ?p t native b))) =
      (\<Sum>k\<leftarrow>[0..<N]. \<Sum>row\<leftarrow>t_transactions t. if flowing (nm_ID n) t row \<and>
        within (?b k) (min (?b (Suc k)) (cfs_EndDate params)) row then word_of_int (projr (money native row)) else (0::int64))"
      unfolding map_map comp_def by (intro arg_cong [of _ _ sum_list] map_cong refl one that) simp
    also have "\<dots> = (\<Sum>row\<leftarrow>t_transactions t. if counts row then word_of_int (projr (money native row)) else 0)"
      using column_sum [where boundary = ?b, OF sqlBoundary_increases N, of "flowing (nm_ID n) t"
          "\<lambda>row. word_of_int (projr (money native row))" "t_transactions t"]
      by (simp add: counts_def)
    finally show ?thesis .
  qed
  show "(\<Sum>b\<leftarrow>cfx_Buckets s. csb_IncomeMinor b) =
      (\<Sum>row\<leftarrow>t_transactions t. if counts row then word_of_int (projr (money incomeNative row)) else 0)"
    unfolding bucket_rows(2) [OF rows] by (rule inc) (use ok in auto)
  show "(\<Sum>b\<leftarrow>cfx_Buckets s. csb_ExpenseMinor b) =
      (\<Sum>row\<leftarrow>t_transactions t. if counts row then word_of_int (projr (money expenseNative row)) else 0)"
    unfolding bucket_rows(3) [OF rows] by (rule inc) (use ok in auto)
  assume row: "row \<in> set (t_transactions t)" "counts row"
  then obtain k where k: "k < N" "within (?b k) (min (?b (Suc k)) (cfs_EndDate params)) row"
    using bucket_exists [where boundary = ?b, OF sqlBoundary_increases N, of row] by (auto simp: counts_def)
  have "\<not> isl (money native row)" if total: "\<not> isl (bucketTotal ?p t native (bucketOf params n k))" for native
  proof -
    obtain v where v: "bucketTotal ?p t native (bucketOf params n k) = Inr v"
      using total by (cases "bucketTotal ?p t native (bucketOf params n k)") auto
    show ?thesis using bucket_total(2) [OF keys(2,3) v row(1)] row(2) k(2) unfolding bk money_def counts_def by blast
  qed
  then show "\<not> isl (money incomeNative row) \<and> \<not> isl (money expenseNative row)" using ok k(1) by simp
qed

end
