(* ===== verification/MoneyRounding.thy ===== *)
theory MoneyRounding
  imports CashFlow
begin

text \<open>
  The two ways an amount is converted to the display currency: Go's
  \<^verbatim>\<open>int64(math.Round(float64(v) * rate))\<close> of the dashboard and
  \<^verbatim>\<open>(SIGN(x) * FLOOR(ABS(x) + 0.5))::bigint\<close> of the cash-flow query. They agree on every
  product below \<open>2 ^ 52\<close> (\<open>plainAmount\<close>) but the largest binary64 number below one half.
\<close>

fun plainAmount :: "float64 \<Rightarrow> bool" where
  "plainAmount (Finite m e) \<longleftrightarrow>
     (if e \<ge> 0 then \<bar>m\<bar> * 2 ^ nat e < 2 ^ 52 else \<bar>m\<bar> < 2 ^ 52 * 2 ^ nat (- e)) \<and>
     \<not> (\<bar>m\<bar> = 2 ^ 53 - 1 \<and> e = - 54)"
| "plainAmount _ = False"

section \<open>Rounding to 53 digits\<close>

lemma bit_count_le: "bit_count n \<le> k \<longleftrightarrow> n < 2 ^ k"
proof (induction k arbitrary: n)
  case 0 show ?case by (subst bit_count.simps) simp
next
  case (Suc k)
  have "bit_count n \<le> Suc k \<longleftrightarrow> n = 0 \<or> bit_count (n div 2) \<le> k" by (subst bit_count.simps) simp
  also have "\<dots> \<longleftrightarrow> n div 2 < 2 ^ k" using Suc.IH [of "n div 2"] by auto
  also have "\<dots> \<longleftrightarrow> n < 2 ^ Suc k" by (simp add: div_less_iff_less_mult mult.commute)
  finally show ?case .
qed

lemma roundShift_0 [simp]: "roundShift m 0 = m"
  by (simp add: roundShift_def)

lemma roundShift_bound:
  assumes "\<bar>m\<bar> \<le> B * 2 ^ k" shows "\<bar>roundShift m k\<bar> \<le> B"
proof -
  have p: "(0::int) < 2 ^ k" by simp
  define q r where "q = m div 2 ^ k" and "r = m mod 2 ^ k"
  have "m = q * 2 ^ k + r" by (simp only: q_def r_def div_mult_mod_eq)
  moreover have "0 \<le> r" "r < 2 ^ k" by (simp_all add: r_def)
  ultimately have m: "m = q * 2 ^ k + r" "0 \<le> r" "r < 2 ^ k" by blast+
  have lo: "- B \<le> q"
  proof (rule ccontr)
    assume "\<not> - B \<le> q"
    then have "q + 1 \<le> - B" by simp
    then have "(q + 1) * 2 ^ k \<le> - B * 2 ^ k" by (rule mult_right_mono) simp
    then show False using assms m by (simp add: distrib_right)
  qed
  have hi: "q \<le> B \<and> (q = B \<longrightarrow> r = 0)"
  proof (intro conjI impI)
    have "q * 2 ^ k \<le> B * 2 ^ k" using assms m by linarith
    then show "q \<le> B" using p by simp
    assume "q = B"
    then have "m = B * 2 ^ k + r" using m(1) by simp
    then show "r = 0" using assms m(2) by linarith
  qed
  have "roundShift m k = q \<or> roundShift m k = q + 1 \<and> r \<noteq> 0"
    by (auto simp: roundShift_def Let_def q_def r_def)
  then show ?thesis using lo hi by (auto simp: abs_le_iff)
qed

lemma roundFloat_shape:
  assumes "roundFloat m e = Finite q f" shows "\<bar>q\<bar> \<le> 2 ^ 53" "- 1074 \<le> f"
proof -
  define k where "k = max 0 (max (int (bit_count (nat \<bar>m\<bar>)) - 53) (- 1074 - e))"
  have qf: "q = roundShift m (nat k)" "f = e + k"
    using assms unfolding roundFloat_def k_def [symmetric] by (auto simp: Let_def split: if_splits)
  have "bit_count (nat \<bar>m\<bar>) \<le> 53 + nat k" by (simp add: k_def)
  then have "nat \<bar>m\<bar> < 2 ^ (53 + nat k)" by (simp only: bit_count_le)
  then have "int (nat \<bar>m\<bar>) < int (2 ^ (53 + nat k))" by (simp only: of_nat_less_iff)
  then have "\<bar>m\<bar> \<le> 2 ^ 53 * 2 ^ nat k" by (simp add: power_add)
  then show "\<bar>q\<bar> \<le> 2 ^ 53" unfolding qf(1) by (rule roundShift_bound)
  show "- 1074 \<le> f" by (simp add: qf(2) k_def)
qed

lemma roundFloat_exact:
  assumes "\<bar>m\<bar> < 2 ^ 53" "- 1074 \<le> e" "e \<le> 0" shows "roundFloat m e = Finite m e"
proof -
  have "bit_count (nat \<bar>m\<bar>) \<le> 53" using assms(1) by (simp add: bit_count_le nat_less_iff)
  then show ?thesis using assms(2,3) by (simp add: roundFloat_def Let_def)
qed

section \<open>Adding one half\<close>

lemma floor_crossing:
  fixes M h :: int
  assumes "even M \<or> (2 dvd h \<and> h dvd 2 ^ 52 \<and> M < 2 ^ 53 + h)" "2 ^ 53 \<le> M" "0 < h"
  shows "roundShift M 1 div h = M div (2 * h)"
proof (cases "even M")
  case True
  then have "roundShift M 1 = M div 2" by (simp add: roundShift_def Let_def even_iff_mod_2_eq_zero)
  then show ?thesis using assms(3) zdiv_zmult2_eq [of h M 2] by simp
next
  case False
  then have h: "2 dvd h" "h dvd 2 ^ 52" "M < 2 ^ 53 + h" using assms(1) by blast+
  obtain c where c: "(2::int) ^ 52 = h * c" using h(2) by (rule dvdE)
  define r where "r = M - 2 ^ 53"
  have r: "0 \<le> r" "r < h" "odd r" using assms(2) h(3) False by (simp_all add: r_def)
  obtain s where s: "r = 2 * s + 1" using r(3) by (auto elim: oddE)
  obtain g where g: "h = 2 * g" using h(1) by (auto elim: dvdE)
  have s': "0 \<le> s" "s + 1 \<le> g" using r s g by simp_all
  have M: "M = 2 * (h * c + s) + 1" using s c by (simp add: r_def)
  have "roundShift M 1 = h * c + s \<or> roundShift M 1 = h * c + s + 1"
    using M by (auto simp: roundShift_def Let_def)
  moreover have "(h * c + s) div h = c"
    by (rule int_div_pos_eq [of _ _ _ s]) (use s' g in simp_all)
  moreover have "(h * c + s + 1) div h = c"
    by (rule int_div_pos_eq [of _ _ _ "s + 1"]) (use s' g in simp_all)
  moreover have "M div (2 * h) = c"
    using M s' g assms(3) by (intro int_div_pos_eq [of _ _ _ "2 * s + 1"]) (simp_all add: algebra_simps)
  ultimately show ?thesis by auto
qed

lemma roundShift_low:
  assumes "M \<le> (2 ^ 53 - 1) * 2 ^ (n - 53) + 2 ^ (n - 54) - 1" "54 \<le> n"
  shows "roundShift M (n - 53) < 2 ^ 53"
proof -
  define P Z :: int where "P = 2 ^ (n - 53)" and "Z = 2 ^ (n - 54)"
  have P: "P = 2 * Z" "1 \<le> Z" using assms(2) by (simp_all add: P_def Z_def flip: power_Suc)
  define q r where "q = M div P" and "r = M mod P"
  have "M = q * P + r" by (simp only: q_def r_def div_mult_mod_eq)
  moreover have "0 \<le> r" "r < P" using P by (simp_all add: r_def)
  ultimately have M: "M = q * P + r" "0 \<le> r" "r < P" by blast+
  have q: "q \<le> 2 ^ 53 - 1"
  proof (rule ccontr)
    assume "\<not> q \<le> 2 ^ 53 - 1"
    then have "2 ^ 53 * P \<le> q * P" using P by (intro mult_right_mono) simp_all
    moreover have "M \<le> 2 ^ 53 * P - P + Z - 1"
      using assms(1) [folded P_def Z_def] by (simp add: left_diff_distrib)
    ultimately show False using M P by linarith
  qed
  have "q = 2 ^ 53 - 1 \<Longrightarrow> 2 * r < P"
    using assms(1) M P unfolding P_def [symmetric] Z_def [symmetric] by simp
  then have "2 * r < P \<or> q < 2 ^ 53 - 1" using q by (cases "q = 2 ^ 53 - 1") auto
  then show ?thesis
    using q unfolding roundShift_def Let_def q_def [symmetric] r_def [symmetric] P_def [symmetric] by auto
qed

lemma addHalf_negative:
  assumes a: "0 \<le> a" "a \<le> 2 ^ 53" and n: "1 \<le> n" "n \<le> 1074"
    and plain: "a < 2 ^ 52 * 2 ^ n" "\<not> (a = 2 ^ 53 - 1 \<and> n = 54)"
  shows "floatFloor (addHalf a (- int n)) = Some ((a + 2 ^ (n - 1)) div 2 ^ n)"
proof -
  define h :: int where "h = 2 ^ (n - 1)"
  define M where "M = a + h"
  have h: "0 < h" "2 * h = 2 ^ n" using n(1) by (simp_all add: h_def flip: power_Suc)
  have add: "addHalf a (- int n) = roundFloat M (- int n)"
    using n(1) by (simp add: addHalf_def Let_def M_def h_def min_def nat_diff_distrib)
  define b where "b = bit_count (nat M)"
  have M0: "0 < M" using a h by (simp add: M_def)
  have b: "b \<le> k \<longleftrightarrow> M < 2 ^ k" for k
    using M0 unfolding b_def bit_count_le by (simp add: nat_less_iff)
  show ?thesis
  proof (cases "M < 2 ^ 53")
    case True
    then have "addHalf a (- int n) = Finite M (- int n)" using roundFloat_exact [of M "- int n"] M0 n add by simp
    then show ?thesis using n(1) by (simp add: M_def h_def)
  next
    case big: False
    define k where "k = int b - 53"
    have k: "1 \<le> k" using big b [of 53] by (simp add: k_def)
    have round: "addHalf a (- int n) = (if int (bit_count (nat \<bar>roundShift M (nat k)\<bar>)) + (- int n + k) > 1024
        then Infinite (M < 0) else Finite (roundShift M (nat k)) (- int n + k))"
      unfolding add roundFloat_def using M0 n(2) k by (simp add: k_def b_def Let_def)
    have small: "bit_count (nat \<bar>roundShift M (nat k)\<bar>) \<le> 54"
    proof -
      have "M < 2 ^ b" using b [of b] by simp
      moreover have "(2::int) ^ b = 2 ^ 53 * 2 ^ nat k"
        unfolding power_add [symmetric] using k by (simp add: k_def nat_diff_distrib)
      ultimately have "\<bar>M\<bar> \<le> 2 ^ 53 * 2 ^ nat k" using M0 by simp
      then have "\<bar>roundShift M (nat k)\<bar> \<le> 2 ^ 53" by (rule roundShift_bound)
      then show ?thesis unfolding bit_count_le by (simp add: nat_less_iff)
    qed
    show ?thesis
    proof (cases "h \<le> 2 ^ 52")
      case True
      then have n53: "n \<le> 53" using power_le_imp_le_exp [of "2::int" "n - 1" 52] n(1) by (simp add: h_def)
      have "M < 2 ^ 54" using True a(2) by (simp add: M_def)
      then have k1: "k = 1" using k b [of 54] by (simp add: k_def)
      have res: "addHalf a (- int n) = Finite (roundShift M 1) (- int n + 1)"
        using round small n n53 k1 by simp
      have "even M \<or> (2 dvd h \<and> h dvd 2 ^ 52 \<and> M < 2 ^ 53 + h)"
      proof (cases "n = 1 \<or> a = 2 ^ 53")
        case True
        then show ?thesis
        proof
          assume n1: "n = 1"
          then have "M = 2 ^ 53" using big plain(1) by (simp add: M_def h_def)
          then show ?thesis by simp
        next
          assume a53: "a = 2 ^ 53"
          then have "n \<noteq> 1" using plain(1) by auto
          then have "2 dvd h" unfolding h_def using n(1) by (simp add: dvd_power)
          then show ?thesis using a53 by (simp add: M_def)
        qed
      next
        case False
        then have "2 dvd h" "a < 2 ^ 53"
          unfolding h_def using n(1) a(2) by (auto simp: dvd_power)
        moreover have "h dvd 2 ^ 52" unfolding h_def by (rule le_imp_power_dvd) (use n53 in simp)
        ultimately show ?thesis by (simp add: M_def)
      qed
      then have "roundShift M 1 div h = M div (2 * h)" using big h(1) by (intro floor_crossing) simp_all
      then show ?thesis
        unfolding res M_def [symmetric] h_def [symmetric] using h(2) n(1)
        by (cases "n = 1") (simp_all add: h_def nat_diff_distrib M_def)
    next
      case False
      then have "2 ^ 52 < (2::int) ^ (n - 1)" by (simp add: h_def)
      then have "52 < n - 1" by (rule power_less_imp_less_exp [rotated]) simp
      then have n54: "54 \<le> n" by simp
      then have h53: "2 ^ 53 \<le> h" unfolding h_def by (intro power_increasing) simp_all
      show ?thesis
      proof (cases "M = 2 * h")
        case True
        then have "a = h" by (simp add: M_def)
        then have hn: "h = 2 ^ 53" "n = 54"
        proof -
          show "h = 2 ^ 53" using \<open>a = h\<close> a(2) h53 by simp
          then have "(2::int) ^ (n - 1) = 2 ^ 53" by (simp add: h_def)
          then have "n - 1 = 53" using power_inject_exp [of "2::int" "n - 1" 53] by simp
          then show "n = 54" by simp
        qed
        have "M = 2 ^ 54" using True hn by simp
        then have "b = 55" using b [of 54] b [of 55] by simp
        then have "roundShift M (nat k) = 2 ^ 52" "k = 2"
          using \<open>M = 2 ^ 54\<close> by (simp_all add: k_def roundShift_def Let_def)
        then show ?thesis using round small hn True by (simp add: M_def)
      next
        case M2: False
        have aM: "a \<le> 2 ^ 53" "a < h" using a(2) h53 M2 by (auto simp: M_def)
        have bn: "b = n"
        proof -
          have "M < 2 ^ n" using aM(2) h(2) by (simp add: M_def)
          moreover have "\<not> M < 2 ^ (n - 1)" using a(1) by (simp add: M_def h_def)
          ultimately show ?thesis using b [of n] b [of "n - 1"] by linarith
        qed
        then have kn: "nat k = n - 53" "k = int n - 53" using n54 by (simp_all add: k_def)
        have "M \<le> (2 ^ 53 - 1) * 2 ^ (n - 53) + 2 ^ (n - 54) - 1"
        proof -
          have "(2::int) ^ n = 2 ^ 54 * 2 ^ (n - 54)" unfolding power_add [symmetric] using n54 by simp
          moreover have "(2::int) ^ (n - 53) = 2 * 2 ^ (n - 54)" using n54 Suc_diff_le [of 54 n] power_Suc [of "2::int" "n - 54"] by simp
          ultimately have p: "(2::int) ^ n = 2 ^ 54 * 2 ^ (n - 54)" "(2::int) ^ (n - 53) = 2 * 2 ^ (n - 54)" by blast+
          define z :: int where "z = 2 ^ (n - 54)"
          have z: "1 \<le> z" by (simp add: z_def)
          have hz: "h = 2 ^ 53 * z" using h(2) p(1) by (simp add: z_def)
          have "a \<le> 2 ^ 53 * z - z - 1"
          proof (cases "n = 54")
            case True
            then have "z = 1" by (simp add: z_def)
            then show ?thesis using aM(2) plain(2) True hz by auto
          next
            case False
            then have "n - 54 = Suc (n - 55)" using n54 by simp
            then have "2 \<le> z" by (simp add: z_def)
            then show ?thesis using aM(1) by simp
          qed
          then show ?thesis unfolding M_def hz p(2) z_def [symmetric] by simp
        qed
        then have "roundShift M (nat k) < 2 ^ 53"
          unfolding kn(1) using n54 by (rule roundShift_low)
        moreover have "0 \<le> roundShift M (nat k)" using M0 by (simp add: roundShift_def Let_def pos_imp_zdiv_nonneg_iff)
        ultimately have "roundShift M (nat k) div 2 ^ 53 = 0" by simp
        moreover have "M div 2 ^ n = 0" using aM(2) h M0 by (simp add: M_def)
        moreover have "addHalf a (- int n) = Finite (roundShift M (nat k)) (- 53)" using round small kn(2) by simp
        ultimately show ?thesis by (simp add: M_def h_def)
      qed
    qed
  qed
qed

section \<open>The two conversions agree\<close>

lemma sqlRound_plain:
  assumes "\<bar>m\<bar> \<le> 2 ^ 53" "- 1074 \<le> e" "plainAmount (Finite m e)"
  shows "\<exists>v. floatTrunc (floatRound (Finite m e)) = Some v \<and> sqlRound (Finite m e) = sqlBigint v"
proof (cases "e \<ge> 0")
  case True
  then obtain k where k: "e = int k" by (auto elim: nonneg_eq_int)
  have lim: "\<bar>m\<bar> * 2 ^ k < 2 ^ 52" using assms(3) k by simp
  have "addHalf \<bar>m\<bar> e = roundFloat (2 * (\<bar>m\<bar> * 2 ^ k) + 1) (- 1)"
    by (simp add: addHalf_def Let_def k nat_add_distrib mult.left_commute [of _ 2])
  also have "\<dots> = Finite (2 * (\<bar>m\<bar> * 2 ^ k) + 1) (- 1)"
    by (rule roundFloat_exact) (use lim in simp_all)
  finally have "floatFloor (addHalf \<bar>m\<bar> e) = Some (\<bar>m\<bar> * 2 ^ k)" by simp
  then have "sqlRound (Finite m e) = sqlBigint (m * 2 ^ k)"
    by (simp add: sgn_mult_abs flip: mult.assoc)
  then show ?thesis using True k by simp
next
  case False
  define n where "n = nat (- e)"
  have n: "e = - int n" "1 \<le> n" using False by (simp_all add: n_def)
  have "floatFloor (addHalf \<bar>m\<bar> (- int n)) = Some ((\<bar>m\<bar> + 2 ^ (n - 1)) div 2 ^ n)"
    by (rule addHalf_negative) (use assms n False in auto)
  moreover have "floatTrunc (floatRound (Finite m e)) = Some (sgn m * ((\<bar>m\<bar> + 2 ^ (n - 1)) div 2 ^ n))"
  proof -
    have "(2 * \<bar>m\<bar> + 2 ^ n) div 2 ^ Suc n = (\<bar>m\<bar> + 2 ^ (n - 1)) div 2 ^ n"
    proof -
      have "2 * \<bar>m\<bar> + 2 ^ n = 2 * (\<bar>m\<bar> + 2 ^ (n - 1))" using n(2) power_Suc [of "2::int" "n - 1"] by simp
      then show ?thesis by (simp only: power_Suc div_mult_mult1 [of 2] zero_neq_numeral [symmetric] simp_thms)
    qed
    moreover have "nat (1 - e) = Suc n" using n by simp
    ultimately show ?thesis using n False by simp
  qed
  ultimately have "floatTrunc (floatRound (Finite m e)) = Some (sgn m * ((\<bar>m\<bar> + 2 ^ (n - 1)) div 2 ^ n)) \<and>
      sqlRound (Finite m e) = sqlBigint (sgn m * ((\<bar>m\<bar> + 2 ^ (n - 1)) div 2 ^ n))"
    unfolding n(1) by (simp only: sqlRound.simps option.case simp_thms)
  then show ?thesis by blast
qed

lemma floatMul_finite: "floatMul (Finite m e) (Finite n f) = roundFloat (m * n) (e + f)"
  by simp

lemma float_of_int64_finite: "\<exists>m e. float_of_int64 v = Finite m e"
proof -
  have "\<bar>sint v\<bar> \<le> 2 ^ 63" using sint_range_size [of v] by (simp add: size_word.rep_eq abs_le_iff)
  then have count: "bit_count (nat \<bar>sint v\<bar>) \<le> 64" unfolding bit_count_le by (simp add: nat_less_iff)
  define k where "k = max 0 (max (int (bit_count (nat \<bar>sint v\<bar>)) - 53) (- 1074 - 0))"
  have k: "0 \<le> k" "k \<le> 11" using count by (simp_all add: k_def)
  have "bit_count (nat \<bar>sint v\<bar>) \<le> 53 + nat k" by (simp add: k_def)
  then have "nat \<bar>sint v\<bar> < 2 ^ (53 + nat k)" by (simp only: bit_count_le)
  then have "int (nat \<bar>sint v\<bar>) < int (2 ^ (53 + nat k))" by (simp only: of_nat_less_iff)
  then have "\<bar>sint v\<bar> \<le> 2 ^ 53 * 2 ^ nat k" by (simp add: power_add)
  then have "\<bar>roundShift (sint v) (nat k)\<bar> \<le> 2 ^ 53" by (rule roundShift_bound)
  then have "bit_count (nat \<bar>roundShift (sint v) (nat k)\<bar>) \<le> 54" unfolding bit_count_le by (simp add: nat_less_iff)
  then show ?thesis
    using k unfolding float_of_int64_def roundFloat_def k_def [symmetric] by (simp add: Let_def)
qed

lemma sqlConvert_agrees:
  assumes "sqlConvert v rate = Inr r" "plainAmount (floatMul (float_of_int64 (word_of_int v)) rate)"
  shows "convertMinor outOfRange (word_of_int v) rate = word_of_int r"
proof -
  obtain m e where x: "float_of_int64 (word_of_int v) = Finite m e" using float_of_int64_finite by blast
  obtain n f where rate: "rate = Finite n f" using assms(2) x by (cases rate) (auto split: if_splits)
  obtain p g where prod: "floatMul (Finite m e) (Finite n f) = Finite p g"
    using assms(2) x rate by (cases "floatMul (Finite m e) (Finite n f)") auto
  have shape: "\<bar>p\<bar> \<le> 2 ^ 53" "- 1074 \<le> g" using roundFloat_shape prod by simp_all
  obtain w where w: "floatTrunc (floatRound (Finite p g)) = Some w" "sqlRound (Finite p g) = sqlBigint w"
    using sqlRound_plain [OF shape] assms(2) x rate prod by auto
  have "sqlMul (Finite m e) (Finite n f) = Inr (Finite p g)"
    using assms(1) x rate prod unfolding sqlConvert_def sqlMul_def by (auto split: if_splits)
  then have "sqlBigint w = Inr r" using assms(1) x rate w(2) by (simp add: sqlConvert_def)
  then have "r = w" "- (2 ^ 63) \<le> w" "w < 2 ^ 63" by (auto simp: sqlBigint_def split: if_splits)
  then show ?thesis
    unfolding convertMinor_def x rate prod int64_of_float_def w(1) by simp
qed

text \<open>The exception: one minor unit at the rate just below one half.\<close>

lemma rounding_differs_below_one_half:
  "sqlConvert 1 (Finite (2 ^ 53 - 1) (- 54)) = Inr 1 \<and>
   convertMinor outOfRange 1 (Finite (2 ^ 53 - 1) (- 54)) = 0"
proof -
  have one: "float_of_int64 1 = Finite 1 0"
    unfolding float_of_int64_def by (simp add: roundFloat_exact)
  have prod: "floatMul (Finite 1 0) (Finite (2 ^ 53 - 1) (- 54)) = Finite (2 ^ 53 - 1) (- 54)"
    by (simp add: roundFloat_exact)
  have "bit_count (2 ^ 54 - 1) \<le> 54" "\<not> bit_count (2 ^ 54 - 1) \<le> 53" unfolding bit_count_le by simp_all
  then have count: "bit_count 18014398509481983 = 54" by simp
  have count': "bit_count 9007199254740992 \<le> 54" unfolding bit_count_le by simp
  have "addHalf (2 ^ 53 - 1) (- 54) = roundFloat 18014398509481983 (- 54)" by (simp add: addHalf_def Let_def)
  also have "\<dots> = Finite 9007199254740992 (- 53)"
    unfolding roundFloat_def using count count' by (simp add: Let_def roundShift_def)
  finally have half: "addHalf (2 ^ 53 - 1) (- 54) = Finite 9007199254740992 (- 53)" .
  have "sqlConvert 1 (Finite (2 ^ 53 - 1) (- 54)) = Inr 1"
    using one prod half by (simp add: sqlConvert_def sqlMul_def sqlBigint_def)
  moreover have "convertMinor outOfRange 1 (Finite (2 ^ 53 - 1) (- 54)) = 0"
    unfolding convertMinor_def one prod by (simp add: int64_of_float_def)
  ultimately show ?thesis by blast
qed

end
