(* ===== verification/ReportAgreement.thy ===== *)
theory ReportAgreement
  imports ReportingProperties SeriesFacts MoneyRounding
begin

text \<open>
  The dashboard computes in Go over rows it loaded, the cash-flow series in one SQL query. Both
  show the same booked money.
\<close>

section \<open>One row in both reports\<close>

text \<open>The products both sides round alike: of an amount, its negation and zero with a rate.\<close>

definition plainRow :: "string \<Rightarrow> Tables \<Rightarrow> transactionModel \<Rightarrow> bool" where
  "plainRow provider t row \<longleftrightarrow> (\<forall>r \<in> set (t_fxRates t). fm_Provider r = provider \<and> fm_BaseCurrency r = tm_Currency row \<longrightarrow>
     (\<forall>v \<in> {tm_AmountMinor row, - tm_AmountMinor row, 0}. plainAmount (floatMul (float_of_int64 v) (fm_RateValue r))))"

lemma flowing_money:
  assumes "flowing tenantID t row"
  obtains i e where "incomeNative row = Inr i" "reportingContribution (transactionFromModel row) = (word_of_int i, word_of_int e, True)"
    "expenseNative row = Inr e \<or> isl (expenseNative row)" "word_of_int i \<in> {tm_AmountMinor row, 0}"
    "word_of_int e \<in> {- tm_AmountMinor row, 0}"
proof -
  let ?a = "tm_AmountMinor row"
  define i where "i = (if tm_Kind row = TransactionKindRefund then 0 else if sint ?a > 0 then sint ?a else 0)"
  define e where "e = (if tm_Kind row = TransactionKindRefund \<or> sint ?a < 0 then - sint ?a else 0)"
  have "reportingContribution (transactionFromModel row) = (word_of_int i, word_of_int e, True)"
    using assms by (cases "tm_Kind row")
      (auto simp: flowing_def reportingContribution_def flowContribution_def bookedMatchedTransfer_def transactionFromModel_def
        qualifyingKinds_def i_def e_def)
  moreover have "incomeNative row = Inr i" "expenseNative row = Inr e \<or> isl (expenseNative row)"
    by (auto simp: incomeNative_def expenseNative_def i_def e_def sqlBigint_def)
  ultimately show thesis by (intro that [of i e]) (auto simp: i_def e_def)
qed

lemma sint_zero: "sint (v :: int64) = 0 \<longleftrightarrow> v = 0"
proof
  assume "sint v = 0"
  then have "word_of_int (sint v) = (0 :: int64)" by simp
  then show "v = 0" by simp
qed simp

lemma not_flowing_money:
  assumes "tm_TenantID row = tenantID" "visibleAccount tenantID t (tm_AccountID row)" "tm_HiddenAt row = None"
    "tm_Status row = TransactionStatusBooked" "tm_TransferMatchedAt row \<noteq> Some zero_time"
    and "\<not> flowing tenantID t row"
  shows "fst (reportingContribution (transactionFromModel row)) = 0 \<and> fst (snd (reportingContribution (transactionFromModel row))) = 0"
  using assms by (cases "tm_Kind row")
    (auto simp: flowing_def reportingContribution_def flowContribution_def bookedMatchedTransfer_def transactionFromModel_def
      qualifyingKinds_def IsZero_def sint_zero split: option.splits)

lemma convert_zero: "plainAmount (floatMul (float_of_int64 0) r) \<Longrightarrow> convertMinor out 0 r = 0"
proof -
  assume plain: "plainAmount (floatMul (float_of_int64 0) r)"
  have zero: "float_of_int64 0 = Finite 0 0" by (simp add: float_of_int64_def roundFloat_exact)
  obtain n f where r: "r = Finite n f" using plain zero by (cases r) auto
  obtain p g where p: "floatMul (Finite 0 0) r = Finite p g" using plain zero by (cases "floatMul (Finite 0 0) r") auto
  then have "p = 0" by (auto simp: r roundFloat_def roundShift_def Let_def split: if_splits)
  then show ?thesis unfolding convertMinor_def zero p by (simp add: int64_of_float_def)
qed

lemma shown_money:
  assumes "native row = Inr v" "\<not> isl (shown provider t q native row)"
    and "\<And>r. tm_Currency row \<noteq> q \<Longrightarrow> currentRate provider t (tm_Currency row) q = Some r \<Longrightarrow>
      plainAmount (floatMul (float_of_int64 (word_of_int v)) r)"
  shows "word_of_int (projr (shown provider t q native row)) =
    (if tm_Currency row = q then word_of_int v
     else case currentRate provider t (tm_Currency row) q of None \<Rightarrow> 0 | Some r \<Rightarrow> convertMinor out (word_of_int v) r)"
proof (cases "tm_Currency row = q")
  case False
  then show ?thesis
  proof (cases "currentRate provider t (tm_Currency row) q")
    case (Some r)
    then obtain x where "sqlConvert v r = Inr x"
      using assms(1,2) False by (cases "sqlConvert v r") (simp_all add: shown_def)
    then show ?thesis using sqlConvert_agrees [of v r x out] assms(1,3) Some False by (simp add: shown_def)
  qed (simp add: shown_def assms(1))
qed (simp add: shown_def assms(1))


lemma loaded_row: "loaded provider params n t data \<Longrightarrow> row \<in> set (visibleRows (nm_ID n) t) \<Longrightarrow>
  transactionFromModel row \<in> set (dd_Transactions data)"
  by (simp add: loaded_def flip: set_mset_mset)

lemma dashboard_row:
  assumes loaded: "loaded provider params n t data" and provider: "TrimSpace provider = provider" "provider \<noteq> ''''"
    and canonical: "canonicalTables t" and keys: "distinct (map rateKey (t_fxRates t))"
    and row: "row \<in> set (visibleRows (nm_ID n) t)" and counted: "counted data (transactionFromModel row)"
    and money: "reportingContribution (transactionFromModel row) = (i, e, c)"
  shows "converted out provider data (transactionFromModel row) =
    (if tm_Currency row = nm_DisplayCurrency n then Some (i, e)
     else case currentRate provider t (tm_Currency row) (nm_DisplayCurrency n) of
       None \<Rightarrow> None | Some r \<Rightarrow> Some (convertMinor out i r, convertMinor out e r))"
proof -
  let ?q = "nm_DisplayCurrency n" and ?c = "tm_Currency row"
  have currency: "tx_Currency (transactionFromModel row) = ?c" by (simp add: transactionFromModel_def)
  note facts = loaded_facts [OF loaded]
  have "map_of (dd_RateLookup data) (lookupKey provider ?c ?q) = None \<and> currentRate provider t ?c ?q = None \<or>
      (\<exists>r. map_of (dd_RateLookup data) (lookupKey provider ?c ?q) = Some (currentFXRateFromModel r) \<and>
        currentRate provider t ?c ?q = Some (fm_RateValue r))" if other: "?c \<noteq> ?q"
  proof -
    have "neededCurrency data ?c" using loaded_row [OF loaded row] counted currency by (auto simp: neededCurrency_def)
    moreover have "canonicalCurrency ?c" using row canonical by (auto simp: visibleRows_def canonicalTables_def)
    moreover have "canonicalCurrency ?q" using loaded canonical by (auto simp: loaded_def canonicalTables_def)
    ultimately have rates: "map_of (dd_RateLookup data) (lookupKey provider ?c ?q) = None \<longleftrightarrow> currentRates provider t ?c ?q = []"
      "\<And>r. currentRates provider t ?c ?q = [r] \<Longrightarrow>
        map_of (dd_RateLookup data) (lookupKey provider ?c ?q) = Some (currentFXRateFromModel r)"
      using rates_of_pair [OF loaded provider _ _ other] by blast+
    show ?thesis
      using one_rate [OF keys, of provider ?c ?q] rates by (auto simp: currentRate_def)
  qed
  then show ?thesis
    unfolding converted_def convertTransactionContribution_def currency facts(1) money
    by (auto simp: currentFXRateFromModel_def)
qed

text \<open>What a row adds to the dashboard is what it adds to the series.\<close>

lemma row_agrees:
  assumes loaded: "loaded provider params n t data" and provider: "TrimSpace provider = provider" "provider \<noteq> ''''"
    and canonical: "canonicalTables t" and keys: "distinct (map rateKey (t_fxRates t))"
    and row: "row \<in> set (t_transactions t)" "tm_TransferMatchedAt row \<noteq> Some zero_time" "plainRow provider t row"
  defines "money \<equiv> shown provider t (nm_DisplayCurrency n)"
    and "counts \<equiv> flowing (nm_ID n) t row \<and> within (dp_StartDate params) (dp_EndDate params) row"
  assumes ok: "counts \<Longrightarrow> \<not> isl (money incomeNative row) \<and> \<not> isl (money expenseNative row)"
  shows "(if row \<in> set (visibleRows (nm_ID n) t) then part out provider data True (transactionFromModel row) else (0, 0)) =
    (if counts then (word_of_int (projr (money incomeNative row)), word_of_int (projr (money expenseNative row))) else (0, 0))"
proof -
  let ?q = "nm_DisplayCurrency n" and ?tx = "transactionFromModel row"
  obtain i e c where contribution: "reportingContribution ?tx = (i, e, c)" by (metis prod_cases3)
  have counted: "counted data ?tx \<longleftrightarrow> within (dp_StartDate params) (dp_EndDate params) row \<and> c"
    if "row \<in> set (visibleRows (nm_ID n) t)"
    using that loaded contribution
    by (auto simp: counted_def visibleRows_def transactionInPeriod_def within_def transactionFromModel_def loaded_def)
  have booked: "booked ?tx \<longleftrightarrow> tm_Status row = TransactionStatusBooked" by (simp add: booked_def transactionFromModel_def)
  have plain: "plainAmount (floatMul (float_of_int64 v) r)"
    if rate: "currentRate provider t (tm_Currency row) ?q = Some r" and "v \<in> {tm_AmountMinor row, - tm_AmountMinor row, 0}" for r v
  proof -
    obtain m where "m \<in> set (currentRates provider t (tm_Currency row) ?q)" "fm_RateValue m = r"
      using rate by (auto simp: currentRate_def split: list.splits)
    then show ?thesis using row(3) that(2) unfolding plainRow_def currentRates_def by auto
  qed
  show ?thesis
  proof (cases counts)
    case True
    then have visible: "row \<in> set (visibleRows (nm_ID n) t)" and status: "tm_Status row = TransactionStatusBooked"
      and range: "within (dp_StartDate params) (dp_EndDate params) row"
      using row(1) by (auto simp: counts_def flowing_def visibleRows_def)
    obtain x y where native: "incomeNative row = Inr x" "expenseNative row = Inr y"
      and c: "i = word_of_int x" "e = word_of_int y" "c"
      and v: "word_of_int x \<in> {tm_AmountMinor row, 0}" "word_of_int y \<in> {- tm_AmountMinor row, 0}"
    proof -
      have "flowing (nm_ID n) t row" using True by (simp add: counts_def)
      moreover have "\<not> isl (expenseNative row)"
        using ok [OF True] by (cases "expenseNative row") (simp_all add: money_def shown_def)
      ultimately show thesis using that contribution by (elim flowing_money) auto
    qed
    have "counted data ?tx" using counted visible range c(3) by simp
    note run = dashboard_row [OF loaded provider canonical keys visible this contribution, of out]
    have "word_of_int (projr (money incomeNative row)) = (if tm_Currency row = ?q then i
        else case currentRate provider t (tm_Currency row) ?q of None \<Rightarrow> 0 | Some r \<Rightarrow> convertMinor out i r)"
      unfolding money_def c(1) by (rule shown_money [where native = incomeNative, OF native(1)]) (use ok [OF True] plain v in \<open>auto simp: money_def\<close>)
    moreover have "word_of_int (projr (money expenseNative row)) = (if tm_Currency row = ?q then e
        else case currentRate provider t (tm_Currency row) ?q of None \<Rightarrow> 0 | Some r \<Rightarrow> convertMinor out e r)"
      unfolding money_def c(2) by (rule shown_money [where native = expenseNative, OF native(2)]) (use ok [OF True] plain v in \<open>auto simp: money_def\<close>)
    ultimately show ?thesis
      using True visible \<open>counted data ?tx\<close> status run
      by (cases "currentRate provider t (tm_Currency row) ?q") (auto simp: part_def booked)
  next
    case False
    show ?thesis
    proof (cases "row \<in> set (visibleRows (nm_ID n) t) \<and> counted data ?tx \<and> booked ?tx")
      case True
      then have "\<not> flowing (nm_ID n) t row" using False counted by (auto simp: counts_def)
      then have "i = 0 \<and> e = 0"
        using not_flowing_money [of row "nm_ID n" t] True row(2) booked contribution by (auto simp: visibleRows_def)
      moreover note dashboard_row [OF loaded provider canonical keys _ _ contribution, of out]
      ultimately show ?thesis
        using True False convert_zero plain
        by (cases "currentRate provider t (tm_Currency row) ?q") (auto simp: part_def)
    next
      case False
      then show ?thesis using \<open>\<not> counts\<close> by (auto simp: part_def)
    qed
  qed
qed


section \<open>The two reports\<close>

lemma sum_over_loaded:
  assumes "loaded provider params n t data"
  shows "(\<Sum>x\<leftarrow>dd_Transactions data. f x) =
    (\<Sum>row\<leftarrow>t_transactions t. if row \<in> set (visibleRows (nm_ID n) t) then f (transactionFromModel row) else (0 :: int64))"
proof -
  have "(\<Sum>x\<leftarrow>dd_Transactions data. f x) = sum_mset (image_mset f (mset (dd_Transactions data)))"
    unfolding mset_map [symmetric] sum_mset_sum_list ..
  also have "\<dots> = sum_mset (mset (map (\<lambda>row. f (transactionFromModel row)) (visibleRows (nm_ID n) t)))"
    using assms by (simp add: loaded_def image_mset.compositionality comp_def)
  also have "\<dots> = (\<Sum>row\<leftarrow>visibleRows (nm_ID n) t. f (transactionFromModel row))" by (simp only: sum_mset_sum_list)
  also have "\<dots> = (\<Sum>row\<leftarrow>t_transactions t. if row \<in> set (visibleRows (nm_ID n) t) then f (transactionFromModel row) else 0)"
  proof -
    have "visibleRows (nm_ID n) t = filter (\<lambda>row. row \<in> set (visibleRows (nm_ID n) t)) (t_transactions t)"
      unfolding visibleRows_def by (rule filter_cong) auto
    then have "(\<Sum>row\<leftarrow>visibleRows (nm_ID n) t. f (transactionFromModel row)) =
        (\<Sum>row\<leftarrow>filter (\<lambda>row. row \<in> set (visibleRows (nm_ID n) t)) (t_transactions t). f (transactionFromModel row))"
      by (rule arg_cong)
    then show ?thesis by (simp only: sum_list_map_filter')
  qed
  finally show ?thesis .
qed

lemma settled_covers_series:
  assumes loaded: "loaded provider params n t data" and provider: "TrimSpace provider = provider" "provider \<noteq> ''''"
    and canonical: "canonicalTables t" and keys: "distinct (map nm_ID (t_tenants t))" "distinct (map rateKey (t_fxRates t))"
    and settled: "\<forall>x \<in> set (dd_Transactions data). \<not> (counted data x \<and> booked x \<and> converted out provider data x = None)"
    and query: "cashFlowQuery q t = Inr s" and same: "cfs_TenantID q = nm_ID n" "cfs_FXProvider q = provider"
    and range: "\<And>k. dp_StartDate params \<le> sqlBoundary (cfs_GroupBy q) (cfs_StartOffset q) (cfs_StartDate q) k"
      "cfs_EndDate q = dp_EndDate params"
  shows "cfx_Complete s"
proof -
  have "missingRows provider t (cashBuckets q t) = []"
  proof (rule no_missing_rows)
    fix bucket row
    assume bucket: "bucket \<in> set (cashBuckets q t)" and row: "row \<in> set (qualifyingRows t bucket)"
      and other: "tm_Currency row \<noteq> bk_DisplayCurrency bucket"
    have n: "n \<in> set (t_tenants t)" using loaded by (simp add: loaded_def)
    obtain m where "m \<in> set (t_tenants t)" "nm_ID m = nm_ID n" "bk_TenantID bucket = nm_ID m"
        "bk_DisplayCurrency bucket = nm_DisplayCurrency m" "dp_StartDate params \<le> bk_Start bucket" "bk_End bucket \<le> dp_EndDate params"
      using bucket range same by (auto simp: cashBuckets_def Let_def)
    then have b: "bk_TenantID bucket = nm_ID n" "bk_DisplayCurrency bucket = nm_DisplayCurrency n"
        "dp_StartDate params \<le> bk_Start bucket" "bk_End bucket \<le> dp_EndDate params"
      using keys(1) n by (auto simp: distinct_map dest: inj_onD)
    have flow: "flowing (nm_ID n) t row" "within (dp_StartDate params) (dp_EndDate params) row" and "row \<in> set (t_transactions t)"
      using row b by (auto simp: qualifyingRows_def qualifies_def flowing_def within_def visibleAccount_def)
    then have visible: "row \<in> set (visibleRows (nm_ID n) t)" by (auto simp: flowing_def visibleRows_def)
    obtain i e where money: "reportingContribution (transactionFromModel row) = (i, e, True)"
      using flow(1) by (rule flowing_money) (use that in blast)
    have "counted data (transactionFromModel row)" "booked (transactionFromModel row)"
      using flow visible money loaded
      by (auto simp: counted_def booked_def visibleRows_def flowing_def transactionInPeriod_def within_def transactionFromModel_def loaded_def)
    then have "converted out provider data (transactionFromModel row) \<noteq> None"
      using bspec [OF settled loaded_row [OF loaded visible]] by simp
    then have "currentRate provider t (tm_Currency row) (nm_DisplayCurrency n) \<noteq> None"
      using dashboard_row [OF loaded provider canonical keys(2) visible \<open>counted data (transactionFromModel row)\<close> money, of out]
        other b(2) by (cases "currentRate provider t (tm_Currency row) (nm_DisplayCurrency n)") simp_all
    then show "currentRates provider t (tm_Currency row) (bk_DisplayCurrency bucket) \<noteq> []"
      by (auto simp: currentRate_def b(2))
  qed
  then show ?thesis using query same(2) by (auto simp: cashFlowQuery_def Let_def split: sum.splits)
qed

text \<open>C22. The dashboard and the cash-flow series of one period show the same booked money: when
  both are answered from the same tables, the income of the dashboard is the sum of the incomes
  of the buckets and its expenses are the sum of theirs, as 64-bit words, however the series is
  grouped; and when the dashboard says its booked money is complete the series is complete too.
  The ids and the keys of the rates are unique, the currencies canonical, a stored match time is
  not Go's zero time, and every product of an amount with a rate is one that Go and SQL round
  alike (\<open>plainAmount\<close>).\<close>

theorem reports_show_the_same_money:
  assumes dashboard: "GetDashboard out provider p u = (Inr d, u')"
    and series: "GetCashFlowSeries provider q v = (Inr s, v')" and tables: "w_tables u = t" "w_tables v = t"
    and same: "cf_TenantID q = TrimSpace (dp_TenantID p)" "cf_StartDate q = dp_StartDate p" "cf_EndDate q = dp_EndDate p"
    and keys: "distinct (map nm_ID (t_tenants t))" "distinct (map am_ID (t_accounts t))" "distinct (map rateKey (t_fxRates t))"
    and provider: "TrimSpace provider = provider" "provider \<noteq> ''''" and canonical: "canonicalTables t"
    and rows: "\<forall>row \<in> set (t_transactions t). tm_TransferMatchedAt row \<noteq> Some zero_time \<and> plainRow provider t row"
  shows "dms_IncomeMinor (db_Settled d) = (\<Sum>b\<leftarrow>cfx_Buckets s. csb_IncomeMinor b) \<and>
    dms_ExpenseMinor (db_Settled d) = (\<Sum>b\<leftarrow>cfx_Buckets s. csb_ExpenseMinor b) \<and>
    (dms_Complete (db_Settled d) \<longrightarrow> cfx_Complete s)"
proof -
  obtain n data now where loaded: "loaded provider p n t data" and d: "d = dashboardOf out provider data now"
    by (rule dashboard_run [OF dashboard, unfolded tables(1)])
  have n: "n \<in> set (t_tenants t)" "nm_ID n = cf_TenantID q" using loaded same(1) by (simp_all add: loaded_def)
  note query = series_run(1) [OF series, unfolded tables(2)]
  note totals = series_totals [OF query keys n(1), simplified, OF n(2), folded n(2)]
  note agree = row_agrees [OF loaded provider canonical keys(3), of _ out, folded same(2,3)]
  have row: "(if row \<in> set (visibleRows (nm_ID n) t) then part out provider data True (transactionFromModel row) else (0, 0)) =
      (if flowing (nm_ID n) t row \<and> within (cf_StartDate q) (cf_EndDate q) row
       then (word_of_int (projr (shown provider t (nm_DisplayCurrency n) incomeNative row)),
             word_of_int (projr (shown provider t (nm_DisplayCurrency n) expenseNative row))) else (0, 0))"
    if "row \<in> set (t_transactions t)" for row
    by (rule agree [OF that]) (use rows that totals(3) [OF that] in auto)
  have "dms_IncomeMinor (db_Settled d) = (\<Sum>b\<leftarrow>cfx_Buckets s. csb_IncomeMinor b)"
    unfolding d summary_of_dashboard(1) sum_over_loaded [OF loaded] totals(1)
    by (intro arg_cong [of _ _ sum_list] map_cong refl) (drule row, auto split: if_splits)
  moreover have "dms_ExpenseMinor (db_Settled d) = (\<Sum>b\<leftarrow>cfx_Buckets s. csb_ExpenseMinor b)"
    unfolding d summary_of_dashboard(2) sum_over_loaded [OF loaded] totals(2)
    by (intro arg_cong [of _ _ sum_list] map_cong refl) (drule row, auto split: if_splits)
  moreover have "cfx_Complete s" if "dms_Complete (db_Settled d)"
  proof -
    have "mono (sqlBoundary (cf_GroupBy q) (cf_StartOffset q) (cf_StartDate q))"
      unfolding mono_iff_le_Suc using sqlBoundary_increases less_imp_le by blast
    then have "dp_StartDate p \<le> sqlBoundary (cf_GroupBy q) (cf_StartOffset q) (cf_StartDate q) k" for k
      using monoD [of _ 0 k] by (metis same(2) sqlBoundary_0 zero_le)
    moreover have "\<forall>x \<in> set (dd_Transactions data). \<not> (counted data x \<and> booked x \<and> converted out provider data x = None)"
      using that unfolding d summary_of_dashboard(3) .
    ultimately show ?thesis
      using n(2) same(3) by (intro settled_covers_series [OF loaded provider canonical keys(1,3) _ query]) simp_all
  qed
  ultimately show ?thesis by blast
qed


lemma exact_amount: "\<bar>sint v\<bar> < 2 ^ 53 \<Longrightarrow> float_of_int64 v = Finite (sint v) 0"
  by (simp add: float_of_int64_def roundFloat_exact)

lemma plain_example: "v \<in> {500, - 500, 7, - 7, 0} \<Longrightarrow> plainAmount (floatMul (float_of_int64 v) (Finite 17 (- 2)))"
  by (elim insertE) (simp_all add: exact_amount roundFloat_exact)

lemma convert_example:
  "sqlConvert 500 (Finite 17 (- 2)) = Inr 2125" "sqlConvert 0 (Finite 17 (- 2)) = Inr 0"
  by (simp_all add: sqlConvert_def sqlMul_def exact_amount roundFloat_exact addHalf_def Let_def sqlBigint_def)

lemma buckets_example:
  "bucketIndices (sqlBoundary CashFlowGroupByDay 0 1) 100 0 = [0]" "sqlBoundary CashFlowGroupByDay 0 1 (Suc 0) = 86400000000001"
  "ValidateCashFlowSeriesParams series_request = None"
  by code_simp+

lemma series_example:
  assumes "w_tables w = (w_tables report_world)\<lparr>t_fxRates := [r]\<rparr>" "rateKey r = (''nbp'', ''EUR'', ''PLN'')"
    "fm_RateValue r = Finite 17 (- 2)" "healthy w"
  shows "\<exists>s. fst (GetCashFlowSeries ''nbp'' series_request w) = Inr s"
proof -
  let ?p = "\<lparr>cfs_TenantID = ''t1'', cfs_StartDate = 1, cfs_StartOffset = 0, cfs_EndDate = 100,
      cfs_GroupBy = CashFlowGroupByDay, cfs_FXProvider = ''nbp''\<rparr>"
  let ?t = "w_tables w"
  have buckets: "cashBuckets ?p ?t = [\<lparr>bk_TenantID = ''t1'', bk_DisplayCurrency = ''PLN'', bk_Start = 1, bk_End = 100\<rparr>]"
    by (simp add: assms(1) cashBuckets_def Let_def buckets_example report_world_def)
  have rate: "currentRates ''nbp'' ?t ''EUR'' ''PLN'' = [r]"
    using assms(2) by (simp add: assms(1) currentRates_def rateKey_def)
  have rows: "qualifyingRows ?t \<lparr>bk_TenantID = ''t1'', bk_DisplayCurrency = ''PLN'', bk_Start = 1, bk_End = 100\<rparr> =
      [example_leg ''r1'' ''a1'' 500 10, example_leg ''r2'' ''a2'' (- 500) 20, example_leg ''r3'' ''a2'' (- 500) 30]"
    by (simp add: assms(1) qualifyingRows_def report_world_def ledger_world_def qualifies_def example_leg_def
        example_account_row_def qualifyingKinds_def)
  have "\<exists>s. cashFlowQuery ?p ?t = Inr s"
    by (simp add: cashFlowQuery_def Let_def buckets bucketTotal_def contributions_def rows example_leg_def rate displayMinor_def
        incomeNative_def expenseNative_def convert_example assms(3) sqlBigint_def)
  then obtain s where "cashFlowQuery ?p ?t = Inr s" ..
  then show ?thesis
    using assms(4) member_healthy [OF assms(4), of "''t1''" "''u1''"] report_example_facts(6) buckets_example(3)
    by (simp add: GetCashFlowSeries_def series_request_def bindA_run mapErrA_run StoreGetCashFlowSeries_def execSQL_def
        healthy_def member_def assms(1))
qed

lemma refreshed_rows:
  "map (\<lambda>r. (rateKey r, fm_RateValue r)) (t_fxRates (w_tables refreshed_world)) = [((''nbp'', ''EUR'', ''PLN''), Finite 17 (- 2))]"
  by code_simp

lemma refreshed_rate:
  obtains r where "w_tables healthy_report_world = (w_tables report_world)\<lparr>t_fxRates := [r]\<rparr>"
    "rateKey r = (''nbp'', ''EUR'', ''PLN'')" "fm_RateValue r = Finite 17 (- 2)"
proof (rule refreshed_example)
  fix rows assume tables: "w_tables refreshed_world = (w_tables report_world)\<lparr>t_fxRates := rows\<rparr>"
  then obtain r where "rows = [r]" "rateKey r = (''nbp'', ''EUR'', ''PLN'')" "fm_RateValue r = Finite 17 (- 2)"
    using refreshed_rows by auto
  then show thesis using tables by (intro that) (simp_all add: healthy_report_world_def)
qed

lemma healthy_example: "healthy healthy_report_world"
  by (simp add: healthy_def healthy_report_world_def)

theorem reports_show_the_same_money_witness:
  "\<exists>d s. fst (GetDashboard (\<lambda>_. 0) ''nbp'' report_request healthy_report_world) = Inr d \<and>
     fst (GetCashFlowSeries ''nbp'' series_request healthy_report_world) = Inr s \<and>
     dms_IncomeMinor (db_Settled d) = (\<Sum>b\<leftarrow>cfx_Buckets s. csb_IncomeMinor b)"
proof (rule refreshed_rate)
  fix r
  assume tables: "w_tables healthy_report_world = (w_tables report_world)\<lparr>t_fxRates := [r]\<rparr>"
    and r: "rateKey r = (''nbp'', ''EUR'', ''PLN'')" "fm_RateValue r = Finite 17 (- 2)"
  obtain d u' where d: "GetDashboard (\<lambda>_. 0) ''nbp'' report_request healthy_report_world = (Inr d, u')"
    using report_example_answered by (metis prod.collapse)
  obtain s v' where s: "GetCashFlowSeries ''nbp'' series_request healthy_report_world = (Inr s, v')"
    using series_example [OF tables r healthy_example] by (metis prod.collapse)
  let ?t = "w_tables healthy_report_world"
  have keys: "distinct (map nm_ID (t_tenants ?t))" "distinct (map am_ID (t_accounts ?t))" "distinct (map rateKey (t_fxRates ?t))"
    by (simp_all add: tables report_world_def ledger_world_def example_account_row_def)
  have canonical: "canonicalTables ?t" using report_example_facts(1) by (simp add: tables canonicalTables_def)
  have rows: "\<forall>row \<in> set (t_transactions ?t). tm_TransferMatchedAt row \<noteq> Some zero_time \<and> plainRow ''nbp'' ?t row"
    using plain_example by (simp add: plainRow_def tables report_world_def ledger_world_def example_leg_def r(2))
  have same: "cf_TenantID series_request = TrimSpace (dp_TenantID report_request)"
      "cf_StartDate series_request = dp_StartDate report_request" "cf_EndDate series_request = dp_EndDate report_request"
    by (simp_all add: series_request_def report_request_def report_example_facts(3))
  have "dms_IncomeMinor (db_Settled d) = (\<Sum>b\<leftarrow>cfx_Buckets s. csb_IncomeMinor b)"
    using reports_show_the_same_money [OF d s refl refl same keys report_example_facts(4) _ canonical rows] by simp
  then show ?thesis using d s by simp
qed

end
