(* ===== verification/Spec2Isabelle.thy ===== *)
theory Spec2Isabelle
  imports PipelineProperties LedgerRuns LedgerReads LedgerProperties CatalogRuns JobProperties ReportAgreement
begin

text \<open>
  \<^bold>\<open>Sumweave: the finance core and its job queue.\<close>

  Sumweave keeps the books of tenants: it pulls accounts and transactions from banks, lets
  members of a tenant edit them, classifies them by rules, finds the two legs of transfers,
  converts them at current exchange rates into reports, and runs all of this as jobs of a
  durable queue. The development models the Go packages
  that decide something about that data, under \<^verbatim>\<open>src/finance\<close>,
  \<^verbatim>\<open>src/apps/sumweave/internal/jobs\<close> and \<^verbatim>\<open>appdispatch\<close>, and proves what a user of them relies on. Every
  definition follows the function of the same name; where the name is taken the theory says
  which function is meant.

  \<^bold>\<open>How the parts interact.\<close>

  A job (\<^verbatim>\<open>JobWorker\<close>) runs a handler of the finance package. The provider sync
  (\<^verbatim>\<open>SyncPipeline\<close>) asks the policies of \<^verbatim>\<open>WindowPolicies\<close> for the windows to fetch, fetches
  each from a bank, plans the difference to the stored rows (\<^verbatim>\<open>DiffApply\<close>), applies it in one
  database transaction (\<^verbatim>\<open>SyncStore\<close> over \<^verbatim>\<open>SyncPersistence\<close>) and records the attempt in a
  journal that the next sync starts from. After a window it publishes an event that starts
  classification (\<^verbatim>\<open>Classification\<close>) and transfer matching (\<^verbatim>\<open>TransferMatching\<close>), which read
  the same rows. Members change the rows through the ledger (\<^verbatim>\<open>Ledger\<close>), the catalog, the
  classification rules (\<^verbatim>\<open>Catalog\<close>) and the tenant service (\<^verbatim>\<open>Tenants\<close>), each behind the
  membership guard. The refresh of exchange rates (\<^verbatim>\<open>FXRates\<close>) reads which currencies these rows
  use; the dashboard (\<^verbatim>\<open>Reporting\<close>) and the cash-flow series (\<^verbatim>\<open>CashFlow\<close>) sum them up. What a
  service asks another process to do it publishes as a command (\<^verbatim>\<open>Dispatch\<close>).

  \<^bold>\<open>The model of the world.\<close>

  An operation that touches a store is an \<open>action\<close> (\<^verbatim>\<open>Prelude\<close>): a function from a state to an
  error or a result and a new state; an error keeps the effects made before it, as in Go.
  \<open>World\<close> (\<^verbatim>\<open>Database\<close>) is the database as lists of rows together with what the environment
  answers: which executed statement fails and with which error, the ids and the clock
  readings, what the banks return, when a context is cancelled. Every theorem holds for all
  such answers. A transaction restores the rows on an error of its body or of the commit.
  \<open>JobWorld\<close> (\<^verbatim>\<open>Jobs\<close>) is the same for the queue, which lives in its own table.

  Machine integers stay at their width where the code can overflow: amounts are 64-bit
  words, counters of rows are unbounded. Strings are byte strings; \<^verbatim>\<open>GoText\<close> decodes them into
  runes where the code iterates over runes. Instants are nanoseconds, \<^verbatim>\<open>GoTime\<close> holds the
  calendar, \<^verbatim>\<open>GoFloat\<close> the float product of a conversion. Go errors are values of \<open>go_error\<close>
  with \<open>errors_is\<close> for \<^verbatim>\<open>errors.Is\<close>; panics are values of their own where the code can panic.
\<close>

section \<open>Where to find what\<close>

text \<open>
  \<^item> \<^verbatim>\<open>Prelude\<close>, \<^verbatim>\<open>GoTime\<close>, \<^verbatim>\<open>GoText\<close>, \<^verbatim>\<open>GoFloat\<close>: errors, actions, the parts of the Go library
    the sources use, and the collections \<open>action_simps\<close>, \<open>action_cases\<close>, \<open>preserves_rules\<close>.
  \<^item> \<^verbatim>\<open>Domain\<close>, \<^verbatim>\<open>Models\<close>, \<^verbatim>\<open>OperationModels\<close>, \<^verbatim>\<open>Contracts\<close>, \<^verbatim>\<open>Database\<close>: the structs of \<^verbatim>\<open>finance/domain\<close>, the rows
    of \<^verbatim>\<open>persistence/models.go\<close> with their conversions (C10: round trips), the contracts of the
    providers, the tables. The locale \<open>conflict_table\<close> states what an insert with a conflict
    clause promises; it is interpreted for every table that is written so.
  \<^item> \<^verbatim>\<open>WindowPolicies\<close> (C1 to C3): the target window reaches back to the checkpoint and its
    chunks partition it. \<open>chunk_loop\<close> ends because a chunk is at least a nanosecond long.
  \<^item> \<^verbatim>\<open>DiffApply\<close> (C4 to C7): the diff planner and the merge policy. \<^verbatim>\<open>ProviderSnapshots\<close> (C9):
    the sanitizer of stored provider documents removes exactly the credentials.
  \<^item> \<^verbatim>\<open>SyncStore\<close>, \<^verbatim>\<open>SyncPersistence\<close>, \<^verbatim>\<open>SyncFrame\<close>, \<^verbatim>\<open>SyncInvariants\<close>, \<^verbatim>\<open>SyncProperties\<close>
    (C11 to C15): one window is applied as a whole or not at all, keeps keys unique, keeps the
    fields a sync must not touch, stores only sanitized documents. The locales of \<^verbatim>\<open>SyncFrame\<close>
    state what the sync needs of its store; \<^verbatim>\<open>SyncInvariants\<close> interprets them on the tables.
  \<^item> \<^verbatim>\<open>SyncPipeline\<close>, \<^verbatim>\<open>PipelineProperties\<close> (C16 to C18): the orchestration of windows leaves no
    gap between what was journaled and what the next sync fetches.
  \<^item> \<^verbatim>\<open>FxEvidence\<close>, \<^verbatim>\<open>ProviderEvidence\<close>, \<^verbatim>\<open>FxProperties\<close> (C19 to C21, C23, C24): the parsers of the texts
    that prove a currency exchange or an internal transfer, with every bound of their
    arithmetic.
  \<^item> \<^verbatim>\<open>TransferStore\<close>, \<^verbatim>\<open>TransferMatching\<close>, \<^verbatim>\<open>MatchingIndex\<close>, \<^verbatim>\<open>MatchingProperties\<close>,
    \<^verbatim>\<open>PairProperties\<close> (C25 to C32): the indexed search equals the reference predicate
    \<open>counterpart\<close>, a pair is planned exactly when each leg is the other's only counterpart,
    linking and unlinking are atomic.
  \<^item> \<^verbatim>\<open>LedgerStore\<close>, \<^verbatim>\<open>Ledger\<close>, \<^verbatim>\<open>LedgerProperties\<close>, \<^verbatim>\<open>LedgerSpec\<close>, \<^verbatim>\<open>LedgerInvariants\<close>,
    \<^verbatim>\<open>LedgerRuns\<close>, \<^verbatim>\<open>LedgerReads\<close> (C33 to C36): the ledger refines an abstract step relation on
    transactions; through it tenants are isolated and matched legs come in pairs. The last
    lemma of \<^verbatim>\<open>LedgerRuns\<close> shows two interleaved requests for which pairs are lost.
  \<^item> \<^verbatim>\<open>Classification\<close>, \<^verbatim>\<open>ClassificationProperties\<close> (C37): the paged run over eligible
    transactions ends and visits each once. \<^verbatim>\<open>CatalogStore\<close>, \<^verbatim>\<open>Catalog\<close>, \<^verbatim>\<open>Tenants\<close>, \<^verbatim>\<open>RuleTables\<close>,
    \<^verbatim>\<open>RuleInvariants\<close>, \<^verbatim>\<open>CatalogRuns\<close> (C38): rules keep the positions \<open>1..n\<close> and refer to live
    categories and tags along every run of requests.
  \<^item> \<^verbatim>\<open>Dispatch\<close>: semantic commands and their idempotent publication. \<^verbatim>\<open>FXRates\<close>: the store of
    current rates, the pairs the tenants need, the providers, the refresh. \<^verbatim>\<open>Reporting\<close>: the
    dashboard of \<^verbatim>\<open>service_reporting.go\<close>. \<^verbatim>\<open>CashFlow\<close>: the series, whose SQL query is followed
    common table expression by common table expression.
  \<^item> \<^verbatim>\<open>DashboardFacts\<close>, \<^verbatim>\<open>ReportingProperties\<close> (C8): totals as sums, what is loaded, what the
    lookup of a rate finds; a refresh leaves no report without a rate. \<^verbatim>\<open>CashFlowCalendar\<close>,
    \<^verbatim>\<open>SeriesFacts\<close>, \<^verbatim>\<open>MoneyRounding\<close>, \<^verbatim>\<open>ReportAgreement\<close> (C22): bucket boundaries increase and
    agree in Go and SQL, a column of the series is one sum over the rows, the two ways of
    rounding agree, and so the two reports show the same money.
  \<^item> \<^verbatim>\<open>Jobs\<close>, \<^verbatim>\<open>JobWorker\<close>, \<^verbatim>\<open>JobProperties\<close> (C39, C40): in every interleaving of the statements
    of workers and recoveries the outcome of a job is written by the holder of one claim, for
    good; rows stay well typed, and a delivery tells the router what its row says.
\<close>

section \<open>Loops that might not end\<close>

text \<open>
  Loops over slices are structural recursions. The chunk loop and the binary searches have
  measures, and so do the loops over bucket boundaries, which increase
  (\<open>sqlBoundary_increases\<close>, \<open>goBoundary_increases\<close>). Two loops depend on what the environment answers and are partial functions with
  \<open>None\<close> for a run that does not return: the pages of a classification attempt (C37 proves
  that they end), and the write of a job's outcome (C40 proves that it ends when the database
  recovers). Nothing uses fuel.
\<close>

section \<open>Not modelled\<close>

text \<open>
  \<^item> The HTTP layer (routes, controllers, generated handlers and models), the command line,
    the wiring of services, configuration, authentication and telemetry: they map requests
    to the modelled services and hold no state of the books.
  \<^item> \<^verbatim>\<open>src/runtime\<close> and the agent sessions: another program that shares the repository.
  \<^item> The clients of the banks and their connectors, the synthetic provider, the CSV import,
    schedules, linking of connections: the sync takes their batches as answers of \<open>w_bank\<close>.
  \<^item> Construction of services (option functions, required arguments), logging, migrations.
  \<^item> What the libraries add: columns gorm fills when a field is zero, the collation of the
    database (strings are ordered by bytes), the size limits of columns (a statement that
    breaks one is a failing statement), Watermill's delivery.
  \<^item> \<^verbatim>\<open>strings.ToUpper\<close> and \<^verbatim>\<open>ToLower\<close> are exact on ASCII, \<^verbatim>\<open>EqualFold\<close> takes the table of
    simple foldings as an argument. A SHA-256 of a text stands for the text. JSON decoding is
    an argument (\<open>json_codec\<close>), and so are the tables of currencies and IBAN formats of the
    libraries the evidence uses.
\<close>

end
